(* ===== verification/Rbft_Prelude.thy ===== *)
theory Rbft_Prelude
  imports
    Complex_Main
    "HOL-Library.Word"
    "HOL-Library.Product_Lexorder"
    "HOL-Library.List_Lexorder"
    "HOL-Library.Monad_Syntax"
begin

text \<open>
  Shared vocabulary of the development: the machine types of the Rust sources, the
  standard-library operations they call (slice binary search, \<open>partition_point\<close>,
  \<open>dedup\<close>, \<open>position\<close>, \<open>find_map\<close>, saturating and wrapping arithmetic) and the
  generic lemmas on sorted lists, sets and options the components share.

  Conventions.  A \<open>u64\<close> is a 64-bit word, so addition wraps as in a release build.
  A \<open>usize\<close> that counts list elements is a \<^typ>\<open>nat\<close>; where the code does
  arithmetic on it that can wrap, the reduction modulo \<open>2 ^ 64\<close> is written out.
  A function of the sources that may panic returns an option, with \<^const>\<open>None\<close> for the
  panic; a Rust \<open>Option\<close> inside it is a second option.
\<close>

section \<open>Machine types\<close>

type_synonym u8 = "8 word"
type_synonym u64 = "64 word"
type_synonym bytes = "u8 list"
type_synonym address = "160 word"
type_synonym hash = "256 word"
type_synonym private_key = "256 word"

named_theorems node_frame
  \<open>which fields of the node state an operation leaves alone\<close>

named_theorems rust_std
  \<open>characterisations of the standard-library operations\<close>

section \<open>Integer operations\<close>

definition saturating_sub :: "u64 \<Rightarrow> u64 \<Rightarrow> u64" where
  "saturating_sub a b = (if a < b then 0 else a - b)"

definition checked_add :: "u64 \<Rightarrow> u64 \<Rightarrow> u64 option" where
  "checked_add a b = (if unat a + unat b < 2 ^ 64 then Some (a + b) else None)"

text \<open>\<open>usize\<close> subtraction of a release build: it wraps below zero.\<close>

definition usize_sub :: "nat \<Rightarrow> nat \<Rightarrow> nat" where
  "usize_sub a b = (if b \<le> a then a - b else a + 2 ^ 64 - b)"

section \<open>Slice operations\<close>

datatype ordering = Less | Equal | Greater

text \<open>
  The loop of \<open>core::slice::binary_search_by\<close>: the number of iterations depends on the
  length only, and the comparison with the middle element moves the base.
\<close>

function bs_loop :: "('a \<Rightarrow> ordering) \<Rightarrow> 'a list \<Rightarrow> nat \<Rightarrow> nat \<Rightarrow> nat" where
  "bs_loop cmp xs base sz =
     (if sz > 1
      then bs_loop cmp xs
             (if cmp (xs ! (base + sz div 2)) = Greater then base else base + sz div 2)
             (sz - sz div 2)
      else base)"
  by pat_completeness auto
termination
  by (relation "measure (\<lambda>(cmp, xs, base, sz). sz)") auto

declare bs_loop.simps [simp del]

text \<open>The result: \<^const>\<open>Inr\<close> is Rust's \<open>Ok\<close>, \<^const>\<open>Inl\<close> its \<open>Err\<close>.\<close>

definition binary_search_by :: "('a \<Rightarrow> ordering) \<Rightarrow> 'a list \<Rightarrow> nat + nat" where
  "binary_search_by cmp xs =
     (if xs = [] then Inl 0
      else let base = bs_loop cmp xs 0 (length xs) in
        (case cmp (xs ! base) of
           Equal \<Rightarrow> Inr base
         | Less \<Rightarrow> Inl (base + 1)
         | Greater \<Rightarrow> Inl base))"

definition ord_cmp :: "'a::linorder \<Rightarrow> 'a \<Rightarrow> ordering" where
  "ord_cmp a b = (if a < b then Less else if a = b then Equal else Greater)"

definition binary_search_by_key :: "'k::linorder \<Rightarrow> ('a \<Rightarrow> 'k) \<Rightarrow> 'a list \<Rightarrow> nat + nat" where
  "binary_search_by_key k key xs = binary_search_by (\<lambda>x. ord_cmp (key x) k) xs"

definition unwrap_index :: "nat + nat \<Rightarrow> nat" where
  "unwrap_index r = (case r of Inl i \<Rightarrow> i | Inr i \<Rightarrow> i)"

definition partition_point :: "('a \<Rightarrow> bool) \<Rightarrow> 'a list \<Rightarrow> nat" where
  "partition_point p xs =
     unwrap_index (binary_search_by (\<lambda>x. if p x then Less else Greater) xs)"

text \<open>\<open>Vec::insert\<close>, and slicing with its bounds check.\<close>

definition vec_insert :: "nat \<Rightarrow> 'a \<Rightarrow> 'a list \<Rightarrow> 'a list" where
  "vec_insert i x xs = take i xs @ x # drop i xs"

definition slice :: "'a list \<Rightarrow> nat \<Rightarrow> nat \<Rightarrow> 'a list option" where
  "slice xs lo hi = (if lo \<le> hi \<and> hi \<le> length xs then Some (take (hi - lo) (drop lo xs)) else None)"

fun position :: "('a \<Rightarrow> bool) \<Rightarrow> 'a list \<Rightarrow> nat option" where
  "position p [] = None"
| "position p (x # xs) = (if p x then Some 0 else map_option Suc (position p xs))"

fun find_map :: "('a \<Rightarrow> 'b option) \<Rightarrow> 'a list \<Rightarrow> 'b option" where
  "find_map g [] = None"
| "find_map g (x # xs) = (case g x of Some y \<Rightarrow> Some y | None \<Rightarrow> find_map g xs)"

fun filter_map :: "('a \<Rightarrow> 'b option) \<Rightarrow> 'a list \<Rightarrow> 'b list" where
  "filter_map g [] = []"
| "filter_map g (x # xs) = (case g x of Some y \<Rightarrow> y # filter_map g xs | None \<Rightarrow> filter_map g xs)"

definition vec_max :: "'a::linorder list \<Rightarrow> 'a option" where
  "vec_max xs = (if xs = [] then None else Some (Max (set xs)))"

definition vec_min :: "'a::linorder list \<Rightarrow> 'a option" where
  "vec_min xs = (if xs = [] then None else Some (Min (set xs)))"

section \<open>Correctness of the slice operations\<close>

text \<open>
  The loop finds the last element that does not compare \<^const>\<open>Greater\<close>, provided
  such elements form a prefix of length \<open>b\<close>.
\<close>

lemma bs_loop_last:
  assumes "\<And>i. i < length xs \<Longrightarrow> cmp (xs ! i) \<noteq> Greater \<longleftrightarrow> i < b"
    and "0 < sz" and "base + sz \<le> length xs"
    and "base = 0 \<or> base < b" and "b \<le> base + sz"
  shows "bs_loop cmp xs base sz = b - 1"
  using assms
proof (induction cmp xs base sz rule: bs_loop.induct)
  case (1 cmp xs base sz)
  let ?mid = "base + sz div 2"
  let ?base' = "if cmp (xs ! ?mid) = Greater then base else ?mid"
  show ?case
  proof (cases "1 < sz")
    case True
    have mid: "?mid < length xs" using "1.prems"(2,3) True by linarith
    have "bs_loop cmp xs ?base' (sz - sz div 2) = b - 1"
    proof (rule "1.IH" [OF True "1.prems"(1)])
      show "?base' = 0 \<or> ?base' < b" and "b \<le> ?base' + (sz - sz div 2)"
        using "1.prems"(1) [OF mid] "1.prems"(4,5) True by auto
      show "?base' + (sz - sz div 2) \<le> length xs" using "1.prems"(3) by auto
    qed (use True in auto)
    then show ?thesis using True by (simp add: bs_loop.simps [of cmp xs base sz])
  next
    case False
    with "1.prems"(2,4,5) have "sz = 1" "base = b - 1" by auto
    then show ?thesis by (subst bs_loop.simps) simp
  qed
qed

lemma binary_search_by_boundary:
  assumes prefix: "\<And>i. i < length xs \<Longrightarrow> cmp (xs ! i) \<noteq> Greater \<longleftrightarrow> i < b"
    and "b \<le> length xs"
  shows "binary_search_by cmp xs =
    (if 0 < b \<and> cmp (xs ! (b - 1)) = Equal then Inr (b - 1) else Inl b)"
proof (cases "xs = []")
  case True
  with assms(2) show ?thesis by (simp add: binary_search_by_def)
next
  case False
  then have base: "bs_loop cmp xs 0 (length xs) = b - 1"
    using bs_loop_last [OF prefix, of "length xs" 0] assms(2) by simp
  show ?thesis
    using False base prefix [of "b - 1"] assms(2)
    by (cases "b = 0"; cases "cmp (xs ! (b - 1))") (auto simp: binary_search_by_def Let_def)
qed

lemma partition_point_boundary [rust_std]:
  assumes "\<And>i. i < length xs \<Longrightarrow> p (xs ! i) \<longleftrightarrow> i < b" and "b \<le> length xs"
  shows "partition_point p xs = b"
proof -
  have "binary_search_by (\<lambda>x. if p x then Less else Greater) xs = Inl b"
    using binary_search_by_boundary [of xs "\<lambda>x. if p x then Less else Greater" b] assms
    by (auto split: if_splits)
  then show ?thesis by (simp add: partition_point_def unwrap_index_def)
qed

lemma takeWhile_boundary:
  assumes "sorted_wrt (\<lambda>x y. p y \<longrightarrow> p x) xs" and "i < length xs"
  shows "p (xs ! i) \<longleftrightarrow> i < length (takeWhile p xs)"
  using assms
proof (induction xs arbitrary: i)
  case (Cons x xs)
  then show ?case by (cases i) (auto simp: nth_Cons' dest: nth_mem)
qed simp

lemma partition_point_takeWhile [rust_std]:
  assumes "sorted_wrt (\<lambda>x y. p y \<longrightarrow> p x) xs"
  shows "partition_point p xs = length (takeWhile p xs)"
  using takeWhile_boundary [OF assms] length_takeWhile_le
  by (intro partition_point_boundary) auto

abbreviation ascending_by :: "('a \<Rightarrow> 'k::linorder) \<Rightarrow> 'a list \<Rightarrow> bool" where
  "ascending_by key xs \<equiv> sorted_wrt (\<lambda>x y. key x < key y) xs"

lemma ascending_by_prefix:
  "ascending_by key xs \<Longrightarrow> sorted_wrt (\<lambda>x y. key y < k \<longrightarrow> key x < k) xs"
  by (erule sorted_wrt_mono_rel [rotated]) auto

lemma ascending_by_distinct: "ascending_by key xs \<Longrightarrow> distinct (map key xs)"
  by (induction xs) auto

lemma binary_search_by_key_absent [rust_std]:
  assumes "ascending_by key xs" and absent: "k \<notin> key ` set xs"
  shows "binary_search_by_key k key xs = Inl (length (takeWhile (\<lambda>x. key x < k) xs))"
proof -
  have "ord_cmp (key (xs ! i)) k \<noteq> Greater \<longleftrightarrow> i < length (takeWhile (\<lambda>x. key x < k) xs)"
    and "ord_cmp (key (xs ! i)) k \<noteq> Equal" if "i < length xs" for i
    using takeWhile_boundary [OF ascending_by_prefix [OF assms(1)] that] absent nth_mem [OF that]
    by (auto simp: ord_cmp_def image_iff)
  note cmp = this
  let ?b = "length (takeWhile (\<lambda>x. key x < k) xs)"
  have b: "?b \<le> length xs" by (rule length_takeWhile_le)
  have "ord_cmp (key (xs ! (?b - 1))) k \<noteq> Equal" if "0 < ?b"
    using cmp(2) [of "?b - 1"] that b by linarith
  then show ?thesis
    unfolding binary_search_by_key_def
    by (subst binary_search_by_boundary [OF cmp(1) b]) auto
qed

lemma take_length_takeWhile: "take (length (takeWhile p xs)) xs = takeWhile p xs"
  by (induction xs) auto

lemma ascending_by_vec_insert:
  assumes "ascending_by key xs" and "key x \<notin> key ` set xs"
  shows "ascending_by key (vec_insert (length (takeWhile (\<lambda>y. key y < key x) xs)) x xs)"
  using assms
proof (induction xs)
  case (Cons y ys)
  then show ?case
    by (auto simp: vec_insert_def dest: in_set_takeD in_set_dropD)
qed (simp add: vec_insert_def)

lemma set_vec_insert [simp]: "set (vec_insert i x xs) = insert x (set xs)"
  by (metis Un_insert_right append_take_drop_id list.simps(15) set_append vec_insert_def)

lemma length_vec_insert [simp]: "length (vec_insert i x xs) = Suc (length xs)"
  by (auto simp: vec_insert_def)

section \<open>Lists as the sources use them\<close>

lemma set_filter_map: "set (filter_map g xs) = {y. \<exists>x\<in>set xs. g x = Some y}"
  by (induction xs) (auto split: option.splits)

lemma in_set_filter_mapE:
  assumes "y \<in> set (filter_map g xs)" obtains x where "x \<in> set xs" and "g x = Some y"
  using assms by (auto simp: set_filter_map)

lemma filter_map_mono_set: "set xs \<subseteq> set ys \<Longrightarrow> set (filter_map g xs) \<subseteq> set (filter_map g ys)"
  by (auto simp: set_filter_map)

text \<open>
  Projecting a duplicate-free list: when the kept elements have different images under
  \<open>a\<close>, the projection has as many elements as images.
\<close>

lemma distinct_map_filter_map:
  assumes "distinct xs"
    and "\<And>x y u v. \<lbrakk>x \<in> set xs; y \<in> set xs; g x = Some u; g y = Some v; a u = a v\<rbrakk> \<Longrightarrow> x = y"
  shows "distinct (map a (filter_map g xs))"
  using assms
proof (induction xs)
  case (Cons x xs)
  have "distinct (map a (filter_map g xs))"
    using Cons.prems by (intro Cons.IH) auto
  moreover have "a u \<notin> set (map a (filter_map g xs))" if "g x = Some u" for u
    using Cons.prems that by (auto simp: set_filter_map)
  ultimately show ?case by (auto split: option.splits)
qed simp

lemma position_Some_iff:
  "position p xs = Some i \<longleftrightarrow> i < length xs \<and> p (xs ! i) \<and> (\<forall>j<i. \<not> p (xs ! j))"
proof (induction xs arbitrary: i)
  case (Cons x xs)
  show ?case
    using Cons.IH [of "i - 1"]
    by (cases i) (auto simp: nth_Cons' less_Suc_eq_0_disj)
qed simp

lemma position_None_iff: "position p xs = None \<longleftrightarrow> (\<forall>x\<in>set xs. \<not> p x)"
  by (induction xs) auto

lemma find_map_SomeD: "find_map g xs = Some y \<Longrightarrow> \<exists>x\<in>set xs. g x = Some y"
  by (induction xs) (auto split: option.splits)

lemma find_map_None_iff: "find_map g xs = None \<longleftrightarrow> (\<forall>x\<in>set xs. g x = None)"
  by (induction xs) (auto split: option.splits)

text \<open>Sorting, removing adjacent duplicates and counting is counting the set.\<close>

lemma set_remdups_adj_sort [simp]: "set (remdups_adj (sort xs)) = set xs"
  by simp

lemma distinct_remdups_adj_sorted: "sorted xs \<Longrightarrow> distinct (remdups_adj xs)"
  by (induction xs rule: remdups_adj.induct) (auto dest: order.antisym)

lemma length_dedup_sort [rust_std]: "length (remdups_adj (sort xs)) = card (set xs)"
  by (metis distinct_card distinct_remdups_adj_sorted set_remdups_adj_sort sorted_sort)

lemma card_set_map_le: "card (set (map g xs)) \<le> length xs"
  by (metis card_length length_map)

section \<open>Words\<close>

lemma unat_succ_no_wrap: "(w::'a::len word) + 1 \<noteq> 0 \<Longrightarrow> unat (w + 1) = unat w + 1"
  using unatSuc by (metis Suc_eq_plus1 add.commute)

lemma word_less_succ: "(w::'a::len word) + 1 \<noteq> 0 \<Longrightarrow> w < w + 1"
  by (simp add: word_less_nat_alt unat_succ_no_wrap)

lemma word_le_succ_trans: "(a::'a::len word) \<le> b \<Longrightarrow> b + 1 \<noteq> 0 \<Longrightarrow> a < b + 1"
  using word_less_succ by (metis order_le_less_trans)

lemma saturating_sub_le: "saturating_sub a b \<le> a"
  by (auto simp: saturating_sub_def word_le_nat_alt word_less_nat_alt unat_sub)

lemma checked_add_SomeD: "checked_add a b = Some c \<Longrightarrow> unat c = unat a + unat b"
  by (auto simp: checked_add_def unat_word_ariths split: if_splits)

lemma unat_less_word: "unat (w :: 'a::len word) < 2 ^ LENGTH('a)"
  by (rule unsigned_less)

lemma checked_add_one [rust_std]: "checked_add r 1 = (if r = - 1 then None else Some (r + 1))"
proof (cases "r + 1 = 0")
  case True
  then have "r = - 1" by (simp add: eq_neg_iff_add_eq_0)
  then show ?thesis
    by (simp add: checked_add_def unsigned_minus_1_eq_mask mask_eq_exp_minus_1)
next
  case False
  then show ?thesis
    using unat_succ_no_wrap [of r] unat_less_word [of "r + 1"]
    by (auto simp: checked_add_def eq_neg_iff_add_eq_0)
qed

section \<open>Invariants of a step relation\<close>

text \<open>
  The contract every component invariant is proved against: a predicate that one step
  keeps is kept by any number of steps.
\<close>

locale step_invariant =
  fixes step :: "'s \<Rightarrow> 's \<Rightarrow> bool" and inv :: "'s \<Rightarrow> bool"
  assumes step_keeps: "step s t \<Longrightarrow> inv s \<Longrightarrow> inv t"
begin

lemma steps_keep: "step\<^sup>*\<^sup>* s t \<Longrightarrow> inv s \<Longrightarrow> inv t"
  by (induction rule: rtranclp_induct) (auto intro: step_keeps)

end

end
