(* ===== verification/Qbft_Types.thy ===== *)
theory Qbft_Types
  imports Rbft_Prelude
begin

text \<open>
  The data model of \<open>crates/rbft/src/types.rs\<close> and \<open>types/signature.rs\<close>: blocks,
  payloads, signed payloads and messages as records with the fields of the structs, the
  orders the code derives for them, and signing and verification over the external
  cryptography and RLP encoders.

  Struct fields get a short prefix (\<open>bh_\<close> for \<open>BlockHeader\<close>, \<open>urc_\<close> for
  \<open>UnsignedRoundChange\<close>, and so on) because a record field is a global constant.
\<close>

section \<open>Signatures and blocks\<close>

record signature =
  sig_author :: address
  sig_bytes :: bytes

record block_header =
  bh_proposer :: address
  bh_round_number :: u64
  bh_commit_seals :: "signature list"
  bh_height :: u64
  bh_timestamp :: u64
  bh_validators :: "address list"
  bh_digest :: hash

record block =
  blk_header :: block_header
  blk_body :: bytes
  blk_transactions :: "bytes list"

section \<open>Payloads, signed payloads, messages\<close>

record unsigned_proposal =
  uprop_height :: u64
  uprop_round :: u64
  uprop_digest :: hash

record unsigned_prepare =
  uprep_height :: u64
  uprep_round :: u64
  uprep_digest :: hash

record unsigned_commit =
  ucom_height :: u64
  ucom_round :: u64
  ucom_commit_seal :: signature
  ucom_digest :: hash

record unsigned_new_block =
  unb_height :: u64
  unb_round :: u64
  unb_digest :: hash

record unsigned_round_change =
  urc_height :: u64
  urc_round :: u64
  urc_prepared_value :: "hash option"
  urc_prepared_round :: "u64 option"

record signed_proposal =
  sprop_payload :: unsigned_proposal
  sprop_signature :: signature

record signed_prepare =
  sprep_payload :: unsigned_prepare
  sprep_signature :: signature

record signed_commit =
  scom_payload :: unsigned_commit
  scom_signature :: signature

record signed_new_block =
  snb_payload :: unsigned_new_block
  snb_signature :: signature
  snb_block :: block

record block_request =
  breq_from_height :: u64
  breq_to_height :: u64

record block_response =
  bresp_blocks :: "signed_new_block list"

record signed_round_change =
  src_payload :: unsigned_round_change
  src_signature :: signature

record proposal =
  prop_payload :: signed_proposal
  prop_block :: block
  prop_justification :: "signed_round_change list"
  prop_rc_justification :: "signed_prepare list"

record prepare =
  prep_payload :: signed_prepare

record commit =
  com_payload :: signed_commit

record round_change =
  rc_payload :: signed_round_change
  rc_justification :: "signed_prepare list"
  rc_proposed_block :: "block option"

datatype qbft_message =
    Proposal proposal
  | Prepare prepare
  | Commit commit
  | RoundChange round_change
  | NewBlock signed_new_block
  | BlockRequest block_request
  | BlockResponse block_response

record qbft_message_with_recipient =
  mwr_message :: qbft_message
  mwr_recipient :: address

record proposal_justification =
  pj_round :: u64
  pj_round_changes :: "round_change list"
  pj_prepares :: "prepare list"
  pj_block :: block

section \<open>The libraries the code calls\<close>

text \<open>
  The hash function, the ECDSA signer and the RLP encoders are third-party code
  (\<open>alloy_primitives\<close>, \<open>alloy_signer\<close>, \<open>alloy_rlp\<close> and its derive macros).  They
  are the fields of one record that every definition using them takes as an argument.
  \<^item> \<open>signer_address\<close>: \<open>PrivateKeySigner::from_bytes(k)\<close> and its address, \<^const>\<open>None\<close>
    when the key is rejected;
  \<^item> \<open>sign_message_sync\<close>: the signature bytes, \<^const>\<open>None\<close> when signing fails;
  \<^item> \<open>recover_address\<close>: parsing the 65 bytes and recovering the signer of a message,
    \<^const>\<open>None\<close> when either reports an error;
  \<^item> \<open>enc_\<close> and \<open>len_\<close>: \<open>Encodable::encode\<close> and \<open>Encodable::length\<close>.
\<close>

record libs =
  keccak256 :: "bytes \<Rightarrow> hash"
  signer_address :: "private_key \<Rightarrow> address option"
  sign_message_sync :: "private_key \<Rightarrow> bytes \<Rightarrow> bytes option"
  recover_address :: "bytes \<Rightarrow> bytes \<Rightarrow> address option"
  hash_bytes :: "hash \<Rightarrow> bytes"
  enc_block_header :: "block_header \<Rightarrow> bytes"
  enc_unsigned_proposal :: "unsigned_proposal \<Rightarrow> bytes"
  enc_unsigned_prepare :: "unsigned_prepare \<Rightarrow> bytes"
  enc_unsigned_commit :: "unsigned_commit \<Rightarrow> bytes"
  enc_unsigned_new_block :: "unsigned_new_block \<Rightarrow> bytes"
  enc_u64 :: "u64 \<Rightarrow> bytes"
  len_u64 :: "u64 \<Rightarrow> nat"
  enc_hash :: "hash \<Rightarrow> bytes"
  len_hash :: "hash \<Rightarrow> nat"
  enc_list_header :: "nat \<Rightarrow> bytes"
  len_list_header :: "nat \<Rightarrow> nat"

section \<open>Signatures\<close>

text \<open>\<open>Signature::sign_message\<close>: the two \<open>expect\<close> calls are the panics.\<close>

definition sign_message :: "libs \<Rightarrow> bytes \<Rightarrow> private_key \<Rightarrow> signature option" where
  "sign_message L msg k = do {
     author \<leftarrow> signer_address L k;
     sig \<leftarrow> sign_message_sync L k msg;
     Some \<lparr>sig_author = author, sig_bytes = sig\<rparr>
   }"

text \<open>\<open>Signature::verify_message\<close>: \<^const>\<open>None\<close> is the \<open>Err\<close> result.\<close>

definition verify_message :: "libs \<Rightarrow> signature \<Rightarrow> bytes \<Rightarrow> bool option" where
  "verify_message L s msg = do {
     recovered \<leftarrow> recover_address L (sig_bytes s) msg;
     Some (recovered = sig_author s)
   }"

definition default_signature :: signature where
  "default_signature = \<lparr>sig_author = 0, sig_bytes = replicate 65 0\<rparr>"

section \<open>Blocks\<close>

definition block_new :: "libs \<Rightarrow> block_header \<Rightarrow> bytes \<Rightarrow> block" where
  "block_new L h body =
     \<lparr>blk_header = h\<lparr>bh_digest := keccak256 L body\<rparr>, blk_body = body, blk_transactions = []\<rparr>"

definition block_new_with_transactions ::
  "libs \<Rightarrow> block_header \<Rightarrow> bytes \<Rightarrow> bytes list \<Rightarrow> block" where
  "block_new_with_transactions L h body txs =
     \<lparr>blk_header = h\<lparr>bh_digest := keccak256 L body\<rparr>, blk_body = body, blk_transactions = txs\<rparr>"

definition validate_digest :: "libs \<Rightarrow> block \<Rightarrow> bool" where
  "validate_digest L b \<longleftrightarrow> bh_digest (blk_header b) = keccak256 L (blk_body b)"

text \<open>\<open>digest\<close> of \<open>node_auxilliary_functions.rs\<close>: the hash of the header, seals included.\<close>

definition digest :: "libs \<Rightarrow> block \<Rightarrow> hash" where
  "digest L b = keccak256 L (enc_block_header L (blk_header b))"

definition round_sort_key :: "libs \<Rightarrow> block \<Rightarrow> u64 \<times> hash" where
  "round_sort_key L b = (bh_round_number (blk_header b), digest L b)"

abbreviation block_height :: "block \<Rightarrow> u64" where
  "block_height b \<equiv> bh_height (blk_header b)"

abbreviation block_round :: "block \<Rightarrow> u64" where
  "block_round b \<equiv> bh_round_number (blk_header b)"

abbreviation block_validators :: "block \<Rightarrow> address list" where
  "block_validators b \<equiv> bh_validators (blk_header b)"

abbreviation block_seals :: "block \<Rightarrow> signature list" where
  "block_seals b \<equiv> bh_commit_seals (blk_header b)"

section \<open>The derived orders\<close>

text \<open>
  \<open>Signature\<close> and \<open>BlockHeader\<close> derive \<open>Ord\<close> (lexicographic in field order);
  \<open>Block\<close> implements it by comparing \<open>(header, body, transactions)\<close>.  The extension
  slot of a record type is compared last; for the records themselves it is the unit.
\<close>

definition sig_key :: "'a signature_scheme \<Rightarrow> (address \<times> bytes) \<times> 'a" where
  "sig_key s = ((sig_author s, sig_bytes s), signature.more s)"

definition header_key :: "'a block_header_scheme \<Rightarrow>
    (address \<times> u64 \<times> signature list \<times> u64 \<times> u64 \<times> address list \<times> hash) \<times> 'a" where
  "header_key h =
     ((bh_proposer h, bh_round_number h, bh_commit_seals h, bh_height h, bh_timestamp h,
       bh_validators h, bh_digest h), block_header.more h)"

definition block_key :: "'a block_scheme \<Rightarrow> (block_header \<times> bytes \<times> bytes list) \<times> 'a" where
  "block_key b = ((blk_header b, blk_body b, blk_transactions b), block.more b)"

instantiation signature_ext :: (linorder) linorder
begin

definition less_eq_signature_ext :: "'a signature_scheme \<Rightarrow> 'a signature_scheme \<Rightarrow> bool" where
  "a \<le> b \<longleftrightarrow> sig_key a \<le> sig_key b"

definition less_signature_ext :: "'a signature_scheme \<Rightarrow> 'a signature_scheme \<Rightarrow> bool" where
  "a < b \<longleftrightarrow> sig_key a < sig_key b"

instance
proof
  fix a b c :: "'a signature_scheme"
  show "a < b \<longleftrightarrow> a \<le> b \<and> \<not> b \<le> a" and "a \<le> a" and "a \<le> b \<or> b \<le> a"
    by (auto simp: less_eq_signature_ext_def less_signature_ext_def)
  show "a \<le> b \<Longrightarrow> b \<le> c \<Longrightarrow> a \<le> c"
    by (auto simp: less_eq_signature_ext_def intro: order_trans)
  show "a \<le> b \<Longrightarrow> b \<le> a \<Longrightarrow> a = b"
    using order.antisym [of "sig_key a" "sig_key b"]
    by (simp add: less_eq_signature_ext_def sig_key_def)
qed

end

instantiation block_header_ext :: (linorder) linorder
begin

definition less_eq_block_header_ext ::
    "'a block_header_scheme \<Rightarrow> 'a block_header_scheme \<Rightarrow> bool" where
  "a \<le> b \<longleftrightarrow> header_key a \<le> header_key b"

definition less_block_header_ext ::
    "'a block_header_scheme \<Rightarrow> 'a block_header_scheme \<Rightarrow> bool" where
  "a < b \<longleftrightarrow> header_key a < header_key b"

instance
proof
  fix a b c :: "'a block_header_scheme"
  show "a < b \<longleftrightarrow> a \<le> b \<and> \<not> b \<le> a" and "a \<le> a" and "a \<le> b \<or> b \<le> a"
    by (auto simp: less_eq_block_header_ext_def less_block_header_ext_def)
  show "a \<le> b \<Longrightarrow> b \<le> c \<Longrightarrow> a \<le> c"
    by (auto simp: less_eq_block_header_ext_def intro: order_trans)
  show "a \<le> b \<Longrightarrow> b \<le> a \<Longrightarrow> a = b"
    using order.antisym [of "header_key a" "header_key b"]
    by (simp add: less_eq_block_header_ext_def header_key_def)
qed

end

instantiation block_ext :: (linorder) linorder
begin

definition less_eq_block_ext :: "'a block_scheme \<Rightarrow> 'a block_scheme \<Rightarrow> bool" where
  "a \<le> b \<longleftrightarrow> block_key a \<le> block_key b"

definition less_block_ext :: "'a block_scheme \<Rightarrow> 'a block_scheme \<Rightarrow> bool" where
  "a < b \<longleftrightarrow> block_key a < block_key b"

instance
proof
  fix a b c :: "'a block_scheme"
  show "a < b \<longleftrightarrow> a \<le> b \<and> \<not> b \<le> a" and "a \<le> a" and "a \<le> b \<or> b \<le> a"
    by (auto simp: less_eq_block_ext_def less_block_ext_def)
  show "a \<le> b \<Longrightarrow> b \<le> c \<Longrightarrow> a \<le> c"
    by (auto simp: less_eq_block_ext_def intro: order_trans)
  show "a \<le> b \<Longrightarrow> b \<le> a \<Longrightarrow> a = b"
    using order.antisym [of "block_key a" "block_key b"]
    by (simp add: less_eq_block_ext_def block_key_def)
qed

end

section \<open>What the cryptography promises\<close>

text \<open>
  The documented contract of the signer: whatever a key signs, recovery on the same
  message yields the address of that key.
\<close>

definition signer_laws :: "libs \<Rightarrow> bool" where
  "signer_laws L \<longleftrightarrow>
     (\<forall>k msg addr sig. signer_address L k = Some addr \<longrightarrow> sign_message_sync L k msg = Some sig \<longrightarrow>
        recover_address L sig msg = Some addr)"

lemma verify_sign_message:
  "signer_laws L \<Longrightarrow> sign_message L msg k = Some s \<Longrightarrow> verify_message L s msg = Some True"
  by (auto simp: signer_laws_def sign_message_def verify_message_def bind_eq_Some_conv)

lemma sign_message_author: "sign_message L msg k = Some s \<Longrightarrow> signer_address L k = Some (sig_author s)"
  by (auto simp: sign_message_def bind_eq_Some_conv)

lemma block_new_validate_digest: "validate_digest L (block_new L h body)"
  by (simp add: validate_digest_def block_new_def)

end
