(* ===== verification/Qbft_Codec.thy ===== *)
theory Qbft_Codec
  imports Qbft_Types
begin

text \<open>
  The hand-written RLP codecs: \<open>UnsignedRoundChange\<close> (\<open>types.rs\<close>), whose optional
  fields are encoded so that an absent one and a zero one differ, and the tag byte of
  \<open>QbftMessage\<close> (\<open>types/qbft_message.rs\<close>).  The encoders and decoders of the fields are
  \<open>alloy_rlp\<close> and its derive macros: parameters, with what RLP promises of them as the
  predicates \<open>rlp_laws\<close> and \<open>wire_laws\<close>.
\<close>

section \<open>UnsignedRoundChange\<close>

definition EMPTY_STRING_CODE :: u8 where
  "EMPTY_STRING_CODE = 0x80"

datatype rlp_error = Custom string | UnexpectedString | LibraryError

record rlp_decoders =
  dec_header :: "bytes \<Rightarrow> rlp_error + ((bool \<times> nat) \<times> bytes)"
  dec_u64 :: "bytes \<Rightarrow> rlp_error + (u64 \<times> bytes)"
  dec_hash :: "bytes \<Rightarrow> rlp_error + (hash \<times> bytes)"

text \<open>\<open>round.checked_add(1).expect(...)\<close>: \<^const>\<open>None\<close> is the panic.\<close>

definition prepared_round_encoded :: "unsigned_round_change \<Rightarrow> u64 option option" where
  "prepared_round_encoded u =
     (case urc_prepared_round u of
        None \<Rightarrow> Some None
      | Some r \<Rightarrow> (case checked_add r 1 of None \<Rightarrow> None | Some e \<Rightarrow> Some (Some e)))"

definition urc_payload_length :: "libs \<Rightarrow> unsigned_round_change \<Rightarrow> u64 option \<Rightarrow> nat" where
  "urc_payload_length L u pr =
     len_u64 L (urc_height u) + len_u64 L (urc_round u)
     + (case urc_prepared_value u of
          Some v \<Rightarrow> len_hash L v
        | None \<Rightarrow> (if pr \<noteq> None then 1 else 0))
     + (case pr of Some e \<Rightarrow> len_u64 L e | None \<Rightarrow> 0)"

text \<open>The bytes of the four fields, behind the list header.\<close>

definition encode_urc_fields :: "libs \<Rightarrow> unsigned_round_change \<Rightarrow> u64 option \<Rightarrow> bytes" where
  "encode_urc_fields L u pr =
     enc_u64 L (urc_height u)
     @ enc_u64 L (urc_round u)
     @ (case urc_prepared_value u of
          Some v \<Rightarrow> enc_hash L v
        | None \<Rightarrow> (if pr \<noteq> None then [EMPTY_STRING_CODE] else []))
     @ (case pr of Some e \<Rightarrow> enc_u64 L e | None \<Rightarrow> [])"

definition encode_unsigned_round_change :: "libs \<Rightarrow> unsigned_round_change \<Rightarrow> bytes option" where
  "encode_unsigned_round_change L u = do {
     pr \<leftarrow> prepared_round_encoded u;
     Some (enc_list_header L (urc_payload_length L u pr) @ encode_urc_fields L u pr)
   }"

definition length_unsigned_round_change :: "libs \<Rightarrow> unsigned_round_change \<Rightarrow> nat option" where
  "length_unsigned_round_change L u = do {
     pr \<leftarrow> prepared_round_encoded u;
     Some (len_list_header L (urc_payload_length L u pr) + urc_payload_length L u pr)
   }"

text \<open>An optional trailing field: absent, or the empty-string code, or a value.\<close>

definition decode_optional ::
    "(bytes \<Rightarrow> rlp_error + ('a \<times> bytes)) \<Rightarrow> bytes \<Rightarrow> rlp_error + ('a option \<times> bytes)" where
  "decode_optional dec inner =
     (case inner of
        [] \<Rightarrow> Inr (None, [])
      | b # rest \<Rightarrow>
          if b = EMPTY_STRING_CODE then Inr (None, rest)
          else (case dec inner of Inl e \<Rightarrow> Inl e | Inr (v, inner') \<Rightarrow> Inr (Some v, inner')))"

text \<open>The fields inside the list payload.\<close>

definition decode_urc_fields :: "rlp_decoders \<Rightarrow> bytes \<Rightarrow> rlp_error + unsigned_round_change" where
  "decode_urc_fields D inner =
     (case dec_u64 D inner of Inl e \<Rightarrow> Inl e | Inr (h, inner1) \<Rightarrow>
      (case dec_u64 D inner1 of Inl e \<Rightarrow> Inl e | Inr (r, inner2) \<Rightarrow>
       (case decode_optional (dec_hash D) inner2 of Inl e \<Rightarrow> Inl e | Inr (pv, inner3) \<Rightarrow>
        (case decode_optional (dec_u64 D) inner3 of Inl e \<Rightarrow> Inl e | Inr (pr, inner4) \<Rightarrow>
           if inner4 \<noteq> [] then Inl (Custom ''UnsignedRoundChange has trailing bytes'')
           else Inr \<lparr>urc_height = h, urc_round = r, urc_prepared_value = pv,
                     urc_prepared_round =
                       (case pr of None \<Rightarrow> None | Some e \<Rightarrow> if e = 0 then None else Some (e - 1))\<rparr>))))"

text \<open>
  The slice \<open>buf[..payload_length]\<close> panics when the payload is cut short; \<^const>\<open>None\<close>.
\<close>

definition decode_unsigned_round_change ::
    "rlp_decoders \<Rightarrow> bytes \<Rightarrow> (rlp_error + (unsigned_round_change \<times> bytes)) option" where
  "decode_unsigned_round_change D buf =
     (case dec_header D buf of
        Inl e \<Rightarrow> Some (Inl e)
      | Inr ((is_list, n), buf') \<Rightarrow>
          if \<not> is_list then Some (Inl (Custom ''UnsignedRoundChange must be an RLP list''))
          else do {
            inner \<leftarrow> slice buf' 0 n;
            Some (case decode_urc_fields D inner of
                    Inl e \<Rightarrow> Inl e
                  | Inr u \<Rightarrow> Inr (u, drop n buf'))
          })"

section \<open>QbftMessage\<close>

record wire_codec =
  enc_u8 :: "u8 \<Rightarrow> bytes"
  dec_u8 :: "bytes \<Rightarrow> rlp_error + (u8 \<times> bytes)"
  enc_proposal :: "proposal \<Rightarrow> bytes"
  dec_proposal :: "bytes \<Rightarrow> rlp_error + (proposal \<times> bytes)"
  enc_prepare :: "prepare \<Rightarrow> bytes"
  dec_prepare :: "bytes \<Rightarrow> rlp_error + (prepare \<times> bytes)"
  enc_commit :: "commit \<Rightarrow> bytes"
  dec_commit :: "bytes \<Rightarrow> rlp_error + (commit \<times> bytes)"
  enc_round_change :: "round_change \<Rightarrow> bytes"
  dec_round_change :: "bytes \<Rightarrow> rlp_error + (round_change \<times> bytes)"
  enc_new_block :: "signed_new_block \<Rightarrow> bytes"
  dec_new_block :: "bytes \<Rightarrow> rlp_error + (signed_new_block \<times> bytes)"
  enc_block_request :: "block_request \<Rightarrow> bytes"
  dec_block_request :: "bytes \<Rightarrow> rlp_error + (block_request \<times> bytes)"
  enc_block_response :: "block_response \<Rightarrow> bytes"
  dec_block_response :: "bytes \<Rightarrow> rlp_error + (block_response \<times> bytes)"

fun encode_qbft_message :: "wire_codec \<Rightarrow> qbft_message \<Rightarrow> bytes" where
  "encode_qbft_message W (Proposal p) = enc_u8 W 0 @ enc_proposal W p"
| "encode_qbft_message W (Prepare p) = enc_u8 W 1 @ enc_prepare W p"
| "encode_qbft_message W (Commit c) = enc_u8 W 2 @ enc_commit W c"
| "encode_qbft_message W (RoundChange r) = enc_u8 W 3 @ enc_round_change W r"
| "encode_qbft_message W (NewBlock b) = enc_u8 W 4 @ enc_new_block W b"
| "encode_qbft_message W (BlockRequest r) = enc_u8 W 5 @ enc_block_request W r"
| "encode_qbft_message W (BlockResponse r) = enc_u8 W 6 @ enc_block_response W r"

definition decode_as ::
    "('a \<Rightarrow> qbft_message) \<Rightarrow> (bytes \<Rightarrow> rlp_error + ('a \<times> bytes)) \<Rightarrow> bytes
      \<Rightarrow> rlp_error + (qbft_message \<times> bytes)" where
  "decode_as c dec buf = (case dec buf of Inl e \<Rightarrow> Inl e | Inr (x, rest) \<Rightarrow> Inr (c x, rest))"

definition decode_qbft_message :: "wire_codec \<Rightarrow> bytes \<Rightarrow> rlp_error + (qbft_message \<times> bytes)" where
  "decode_qbft_message W buf =
     (case dec_u8 W buf of
        Inl e \<Rightarrow> Inl e
      | Inr (t, rest) \<Rightarrow>
          if t = 0 then decode_as Proposal (dec_proposal W) rest
          else if t = 1 then decode_as Prepare (dec_prepare W) rest
          else if t = 2 then decode_as Commit (dec_commit W) rest
          else if t = 3 then decode_as RoundChange (dec_round_change W) rest
          else if t = 4 then decode_as NewBlock (dec_new_block W) rest
          else if t = 5 then decode_as BlockRequest (dec_block_request W) rest
          else if t = 6 then decode_as BlockResponse (dec_block_response W) rest
          else Inl (Custom ''Unknown QbftMessage type''))"

section \<open>What RLP promises\<close>

definition rlp_laws :: "libs \<Rightarrow> rlp_decoders \<Rightarrow> bool" where
  "rlp_laws L D \<longleftrightarrow>
     (\<forall>n rest. n \<le> length rest \<longrightarrow> dec_header D (enc_list_header L n @ rest) = Inr ((True, n), rest)) \<and>
     (\<forall>v rest. dec_u64 D (enc_u64 L v @ rest) = Inr (v, rest)) \<and>
     (\<forall>v rest. dec_hash D (enc_hash L v @ rest) = Inr (v, rest)) \<and>
     (\<forall>v. v \<noteq> 0 \<longrightarrow> (\<exists>b bs. enc_u64 L v = b # bs \<and> b \<noteq> EMPTY_STRING_CODE)) \<and>
     (\<forall>v. \<exists>b bs. enc_hash L v = b # bs \<and> b \<noteq> EMPTY_STRING_CODE) \<and>
     (\<forall>v. len_u64 L v = length (enc_u64 L v)) \<and>
     (\<forall>v. len_hash L v = length (enc_hash L v)) \<and>
     (\<forall>n. len_list_header L n = length (enc_list_header L n))"

lemma rlp_lawsD:
  assumes "rlp_laws L D"
  shows "n \<le> length rest \<Longrightarrow> dec_header D (enc_list_header L n @ rest) = Inr ((True, n), rest)"
    and "dec_u64 D (enc_u64 L v @ rest) = Inr (v, rest)"
    and "dec_hash D (enc_hash L w @ rest) = Inr (w, rest)"
    and "v \<noteq> 0 \<Longrightarrow> \<exists>b bs. enc_u64 L v = b # bs \<and> b \<noteq> EMPTY_STRING_CODE"
    and "\<exists>b bs. enc_hash L w = b # bs \<and> b \<noteq> EMPTY_STRING_CODE"
    and "len_u64 L v = length (enc_u64 L v)"
    and "len_hash L w = length (enc_hash L w)"
    and "len_list_header L m = length (enc_list_header L m)"
  using assms unfolding rlp_laws_def by blast+

lemma decode_optional_u64:
  assumes "rlp_laws L D" and "v \<noteq> 0"
  shows "decode_optional (dec_u64 D) (enc_u64 L v @ rest) = Inr (Some v, rest)"
proof -
  obtain b bs where "enc_u64 L v = b # bs" "b \<noteq> EMPTY_STRING_CODE"
    using rlp_lawsD(4) [OF assms] by blast
  with rlp_lawsD(2) [OF assms(1), of v rest] show ?thesis by (simp add: decode_optional_def)
qed

lemma decode_optional_hash:
  assumes "rlp_laws L D"
  shows "decode_optional (dec_hash D) (enc_hash L v @ rest) = Inr (Some v, rest)"
proof -
  obtain b bs where "enc_hash L v = b # bs" "b \<noteq> EMPTY_STRING_CODE"
    using rlp_lawsD(5) [OF assms] by blast
  with rlp_lawsD(3) [OF assms, of v rest] show ?thesis by (simp add: decode_optional_def)
qed

lemma prepared_round_encoded_Some:
  assumes "prepared_round_encoded u = Some pr"
  shows "urc_prepared_round u = map_option (\<lambda>e. e - 1) pr" and "pr \<noteq> Some 0"
  using assms
  by (auto simp: prepared_round_encoded_def checked_add_one eq_neg_iff_add_eq_0
      split: option.splits if_splits)

text \<open>The length the header announces is the length of the fields that follow it.\<close>

lemma urc_payload_length_correct:
  assumes "rlp_laws L D"
  shows "urc_payload_length L u pr = length (encode_urc_fields L u pr)"
  by (simp add: urc_payload_length_def encode_urc_fields_def rlp_lawsD(6,7) [OF assms]
      split: option.splits)

lemma decode_urc_fields_roundtrip:
  assumes "rlp_laws L D" and "prepared_round_encoded u = Some pr"
  shows "decode_urc_fields D (encode_urc_fields L u pr) = Inr u"
proof -
  note pr = prepared_round_encoded_Some [OF assms(2)]
  let ?tail = "case pr of Some e \<Rightarrow> enc_u64 L e | None \<Rightarrow> []"
  have tail: "decode_optional (dec_u64 D) ?tail = Inr (pr, [])"
  proof (cases pr)
    case (Some e)
    with pr(2) decode_optional_u64 [OF assms(1), of e "[]"] show ?thesis by simp
  qed (simp add: decode_optional_def)
  have mid: "decode_optional (dec_hash D)
      ((case urc_prepared_value u of
          Some v \<Rightarrow> enc_hash L v
        | None \<Rightarrow> (if pr \<noteq> None then [EMPTY_STRING_CODE] else [])) @ ?tail)
    = Inr (urc_prepared_value u, ?tail)"
  proof (cases "urc_prepared_value u")
    case None
    then show ?thesis by (auto simp: decode_optional_def)
  qed (simp add: decode_optional_hash [OF assms(1)])
  have "decode_urc_fields D (encode_urc_fields L u pr) =
    Inr (u\<lparr>urc_prepared_round := (case pr of None \<Rightarrow> None | Some e \<Rightarrow> if e = 0 then None else Some (e - 1))\<rparr>)"
    by (simp add: decode_urc_fields_def encode_urc_fields_def rlp_lawsD(2) [OF assms(1)] mid tail)
  also have "\<dots> = Inr u"
    using pr by (cases u) (auto split: option.splits)
  finally show ?thesis .
qed

lemma length_encode_unsigned_round_change:
  assumes "rlp_laws L D"
  shows "length_unsigned_round_change L u = map_option length (encode_unsigned_round_change L u)"
proof (cases "prepared_round_encoded u")
  case (Some pr)
  then show ?thesis
    by (simp add: length_unsigned_round_change_def encode_unsigned_round_change_def
        urc_payload_length_correct [OF assms] rlp_lawsD(8) [OF assms])
qed (simp add: length_unsigned_round_change_def encode_unsigned_round_change_def)

text \<open>A decoded payload never holds the round whose encoding would overflow.\<close>

lemma decode_urc_fields_round:
  assumes "decode_urc_fields D inner = Inr u"
  shows "urc_prepared_round u \<noteq> Some (- 1)"
  using assms
  by (auto simp: decode_urc_fields_def eq_diff_eq split: sum.splits prod.splits option.splits if_splits)

lemma encode_unsigned_round_change_total:
  assumes "urc_prepared_round u \<noteq> Some (- 1)"
  shows "encode_unsigned_round_change L u \<noteq> None"
  using assms
  by (auto simp: encode_unsigned_round_change_def prepared_round_encoded_def checked_add_one
      split: option.splits)

section \<open>What the derived codecs promise\<close>

definition encodable_round :: "signed_round_change \<Rightarrow> bool" where
  "encodable_round s \<longleftrightarrow> urc_prepared_round (src_payload s) \<noteq> Some (- 1)"

fun encodable :: "qbft_message \<Rightarrow> bool" where
  "encodable (Proposal p) = list_all encodable_round (prop_justification p)"
| "encodable (RoundChange r) = encodable_round (rc_payload r)"
| "encodable _ = True"

text \<open>
  What the tag codec and the derived codec of the payload promise for one message; a
  message that cannot be encoded (its encoder panics) is outside the promise.
\<close>

fun payload_law :: "wire_codec \<Rightarrow> qbft_message \<Rightarrow> bool" where
  "payload_law W (Proposal x) = (\<forall>rest. dec_proposal W (enc_proposal W x @ rest) = Inr (x, rest))"
| "payload_law W (Prepare x) = (\<forall>rest. dec_prepare W (enc_prepare W x @ rest) = Inr (x, rest))"
| "payload_law W (Commit x) = (\<forall>rest. dec_commit W (enc_commit W x @ rest) = Inr (x, rest))"
| "payload_law W (RoundChange x) = (\<forall>rest. dec_round_change W (enc_round_change W x @ rest) = Inr (x, rest))"
| "payload_law W (NewBlock x) = (\<forall>rest. dec_new_block W (enc_new_block W x @ rest) = Inr (x, rest))"
| "payload_law W (BlockRequest x) = (\<forall>rest. dec_block_request W (enc_block_request W x @ rest) = Inr (x, rest))"
| "payload_law W (BlockResponse x) = (\<forall>rest. dec_block_response W (enc_block_response W x @ rest) = Inr (x, rest))"

definition wire_laws :: "wire_codec \<Rightarrow> qbft_message \<Rightarrow> bool" where
  "wire_laws W m \<longleftrightarrow>
     (\<forall>t rest. dec_u8 W (enc_u8 W t @ rest) = Inr (t, rest)) \<and> (encodable m \<longrightarrow> payload_law W m)"

lemma decode_encode_qbft_message:
  "wire_laws W m \<Longrightarrow> encodable m \<Longrightarrow>
    decode_qbft_message W (encode_qbft_message W m @ rest) = Inr (m, rest)"
  by (cases m) (auto simp: wire_laws_def decode_qbft_message_def decode_as_def)

end
