(* ===== verification/Example_Libs.thy ===== *)
theory Example_Libs
  imports Qbft_Codec
begin

text \<open>
  A concrete instance of the third-party parameters, small enough for the kernel to
  evaluate: it shows that the laws the theorems assume of the signer and of RLP can hold
  together, and the example states of the other theories are built over it.  Nothing here
  models code of the repository.
\<close>

fun to_be :: "nat \<Rightarrow> nat \<Rightarrow> bytes" where
  "to_be 0 n = []"
| "to_be (Suc k) n = word_of_nat (n div 256 ^ k) # to_be k n"

definition of_be :: "bytes \<Rightarrow> nat" where
  "of_be bs = foldl (\<lambda>a b. a * 256 + unat b) 0 bs"

fun split_unary :: "bytes \<Rightarrow> (nat \<times> bytes) option" where
  "split_unary [] = None"
| "split_unary (b # bs) =
     (if b = 0 then Some (0, bs)
      else (case split_unary bs of None \<Rightarrow> None | Some (n, rest) \<Rightarrow> Some (Suc n, rest)))"

definition dec_be :: "u8 \<Rightarrow> nat \<Rightarrow> bytes \<Rightarrow> rlp_error + (nat \<times> bytes)" where
  "dec_be tag k buf =
     (case buf of
        [] \<Rightarrow> Inl LibraryError
      | b # rest \<Rightarrow>
          if b = tag \<and> k \<le> length rest then Inr (of_be (take k rest), drop k rest)
          else Inl LibraryError)"

definition example_libs :: libs where
  "example_libs =
     \<lparr>keccak256 = foldl (\<lambda>a b. a * 257 + ucast b + 1) 0,
      signer_address = (\<lambda>k. Some (ucast (ucast k :: u8))),
      sign_message_sync = (\<lambda>k msg. Some [ucast k]),
      recover_address = (\<lambda>sig msg. case sig of [b] \<Rightarrow> Some (ucast b) | _ \<Rightarrow> None),
      hash_bytes = (\<lambda>h. [ucast h]),
      enc_block_header = (\<lambda>h. [ucast (bh_proposer h), ucast (bh_round_number h),
         word_of_nat (length (bh_commit_seals h)), ucast (bh_height h), ucast (bh_timestamp h),
         word_of_nat (length (bh_validators h)), ucast (bh_digest h)]),
      enc_unsigned_proposal = (\<lambda>u. [ucast (uprop_height u), ucast (uprop_round u), ucast (uprop_digest u)]),
      enc_unsigned_prepare = (\<lambda>u. [ucast (uprep_height u), ucast (uprep_round u), ucast (uprep_digest u)]),
      enc_unsigned_commit = (\<lambda>u. [ucast (ucom_height u), ucast (ucom_round u), ucast (ucom_digest u)]),
      enc_unsigned_new_block = (\<lambda>u. [ucast (unb_height u), ucast (unb_round u), ucast (unb_digest u)]),
      enc_u64 = (\<lambda>v. 0x88 # to_be 8 (unat v)),
      len_u64 = (\<lambda>v. 9),
      enc_hash = (\<lambda>v. 0xa0 # to_be 32 (unat v)),
      len_hash = (\<lambda>v. 33),
      enc_list_header = (\<lambda>n. replicate n 1 @ [0]),
      len_list_header = Suc\<rparr>"

definition example_decoders :: rlp_decoders where
  "example_decoders =
     \<lparr>dec_header = (\<lambda>buf. case split_unary buf of
         None \<Rightarrow> Inl LibraryError
       | Some (n, rest) \<Rightarrow> if n \<le> length rest then Inr ((True, n), rest) else Inl LibraryError),
      dec_u64 = (\<lambda>buf. case dec_be 0x88 8 buf of Inl e \<Rightarrow> Inl e | Inr (n, rest) \<Rightarrow> Inr (word_of_nat n, rest)),
      dec_hash = (\<lambda>buf. case dec_be 0xa0 32 buf of Inl e \<Rightarrow> Inl e | Inr (n, rest) \<Rightarrow> Inr (word_of_nat n, rest))\<rparr>"

lemma length_to_be [simp]: "length (to_be k n) = k"
  by (induction k) auto

lemma foldl_to_be: "foldl (\<lambda>a b. a * 256 + unat b) a (to_be k n) = a * 256 ^ k + n mod 256 ^ k"
proof (induction k arbitrary: a)
  case (Suc k)
  have "n mod 256 ^ Suc k = (n div 256 ^ k) mod 256 * 256 ^ k + n mod 256 ^ k"
    by (metis mod_mult2_eq mult.commute power_Suc2)
  then show ?case by (simp add: Suc.IH unat_of_nat) (simp add: algebra_simps)
qed simp

lemma of_be_to_be: "of_be (to_be k n) = n mod 256 ^ k"
  by (simp add: of_be_def foldl_to_be)

lemma split_unary_append [simp]: "split_unary (replicate n 1 @ 0 # rest) = Some (n, rest)"
  by (induction n) auto

lemma dec_be_to_be [simp]: "dec_be tag k (tag # to_be k n @ rest) = Inr (n mod 256 ^ k, rest)"
  by (simp add: dec_be_def of_be_to_be)

lemma example_rlp_laws: "rlp_laws example_libs example_decoders"
proof -
  have u64: "unat v mod 256 ^ 8 = unat v" for v :: u64
    using unat_less_word [of v] by simp
  have hash: "unat v mod 256 ^ 32 = unat v" for v :: hash
    using unat_less_word [of v] by simp
  show ?thesis
    unfolding rlp_laws_def
    by (simp add: example_libs_def example_decoders_def EMPTY_STRING_CODE_def u64 [simplified]
        hash [simplified] del: to_be.simps)
qed

lemma example_signer_laws: "signer_laws example_libs"
  by (simp add: signer_laws_def example_libs_def)

end
