(* ===== verification/Qbft_Blockchain.thy ===== *)
theory Qbft_Blockchain
  imports Qbft_Types
begin

text \<open>
  The local chain of \<open>types/blockchain.rs\<close> and the configuration of
  \<open>types/configuration.rs\<close>.

  \<open>Blockchain::new\<close> asserts that the deque of blocks is not empty, its field is private
  and no operation empties it, so the deque is kept as the blocks below the head and the
  head: \<open>head()\<close>, which panics on an empty deque, is then a field.

  The round-change parameters are \<open>f64\<close> in the code; they are real numbers here, so
  \<open>timeout_for_round\<close> is the exact value of the formula, without the rounding of the
  floating-point operations.
\<close>

section \<open>Blockchain\<close>

record blockchain =
  bc_proposed_block :: "block option"
  bc_older :: "block list"
  bc_head :: block

definition MAX_BLOCKS :: nat where
  "MAX_BLOCKS = 32"

definition blocks :: "blockchain \<Rightarrow> block list" where
  "blocks bc = bc_older bc @ [bc_head bc]"

definition blockchain_new :: "block list \<Rightarrow> blockchain option" where
  "blockchain_new bs =
     (if bs = [] then None
      else Some \<lparr>bc_proposed_block = None, bc_older = butlast bs, bc_head = last bs\<rparr>)"

definition set_proposed_block :: "block option \<Rightarrow> blockchain \<Rightarrow> blockchain" where
  "set_proposed_block b bc = bc\<lparr>bc_proposed_block := b\<rparr>"

definition take_proposed_block :: "blockchain \<Rightarrow> block option \<times> blockchain" where
  "take_proposed_block bc = (bc_proposed_block bc, bc\<lparr>bc_proposed_block := None\<rparr>)"

definition height :: "blockchain \<Rightarrow> u64" where
  "height bc = block_height (bc_head bc) + 1"

definition set_head :: "block \<Rightarrow> blockchain \<Rightarrow> blockchain" where
  "set_head b bc = bc\<lparr>bc_older := blocks bc, bc_head := b\<rparr>"

definition validators :: "blockchain \<Rightarrow> address list" where
  "validators bc = block_validators (bc_head bc)"

definition prune :: "blockchain \<Rightarrow> blockchain" where
  "prune bc =
     (if length (blocks bc) > MAX_BLOCKS
      then bc\<lparr>bc_older := drop (length (blocks bc) - MAX_BLOCKS) (bc_older bc)\<rparr>
      else bc)"

definition timestamp_secs :: "blockchain \<Rightarrow> u64" where
  "timestamp_secs bc = bh_timestamp (blk_header (bc_head bc))"

text \<open>
  The result is a \<open>u128\<close>: \<open>ts * 1000 + n * interval\<close> with both factors below
  \<open>2 ^ 64\<close> cannot reach \<open>2 ^ 128\<close> for a deque of at most \<open>2 ^ 63\<close> blocks, so it is a
  natural number here.
\<close>

definition estimate_timestamp_ms :: "blockchain \<Rightarrow> u64 \<Rightarrow> nat" where
  "estimate_timestamp_ms bc interval_ms =
     (let ts = timestamp_secs bc;
          n = length (takeWhile (\<lambda>b. bh_timestamp (blk_header b) = ts) (drop 1 (rev (blocks bc))))
      in unat ts * 1000 + n * unat interval_ms)"

section \<open>Configuration\<close>

record round_change_config =
  rcc_start_time :: real
  rcc_first_interval :: real
  rcc_growth_factor :: real
  rcc_max_round :: u64
  rcc_round_change_on_first_block :: bool

record configuration =
  cfg_nodes :: "address list"
  cfg_genesis_block :: block
  cfg_block_time :: u64
  cfg_round_change_config :: round_change_config

text \<open>Rust's \<open>as u64\<close> on a float saturates at both ends.\<close>

definition f64_as_u64 :: "real \<Rightarrow> u64" where
  "f64_as_u64 x = (if x \<le> 0 then 0 else if x \<ge> 2 ^ 64 then - 1 else word_of_int \<lfloor>x\<rfloor>)"

definition timeout_for_round :: "round_change_config \<Rightarrow> u64 \<Rightarrow> u64" where
  "timeout_for_round c r =
     (let timeout = rcc_start_time c
                    + rcc_first_interval c * 2 powr (rcc_growth_factor c * real (unat r))
      in f64_as_u64 (of_int \<lceil>timeout\<rceil>))"

definition default_round_change_config :: round_change_config where
  "default_round_change_config =
     \<lparr>rcc_start_time = 0, rcc_first_interval = 10, rcc_growth_factor = 3 / 2,
      rcc_max_round = 10, rcc_round_change_on_first_block = True\<rparr>"

section \<open>The chain\<close>

lemma blocks_set_head [simp]: "blocks (set_head b bc) = blocks bc @ [b]"
  by (simp add: blocks_def set_head_def)

lemma set_head_simps [simp]:
  "bc_head (set_head b bc) = b"
  "bc_proposed_block (set_head b bc) = bc_proposed_block bc"
  "height (set_head b bc) = block_height b + 1"
  "validators (set_head b bc) = block_validators b"
  by (simp_all add: set_head_def height_def validators_def)

lemma set_proposed_block_simps [simp]:
  "bc_head (set_proposed_block p bc) = bc_head bc"
  "bc_older (set_proposed_block p bc) = bc_older bc"
  "bc_proposed_block (set_proposed_block p bc) = p"
  "height (set_proposed_block p bc) = height bc"
  "validators (set_proposed_block p bc) = validators bc"
  by (simp_all add: set_proposed_block_def height_def validators_def)

lemma prune_simps [simp]:
  "bc_head (prune bc) = bc_head bc"
  "bc_proposed_block (prune bc) = bc_proposed_block bc"
  "height (prune bc) = height bc"
  "validators (prune bc) = validators bc"
  by (simp_all add: prune_def height_def validators_def)

lemma blocks_blockchain_new: "blockchain_new bs = Some bc \<Longrightarrow> blocks bc = bs"
  by (auto simp: blockchain_new_def blocks_def split: if_splits)

text \<open>Pruning keeps exactly the newest \<^const>\<open>MAX_BLOCKS\<close> blocks.\<close>

lemma blocks_prune: "blocks (prune bc) = drop (length (blocks bc) - MAX_BLOCKS) (blocks bc)"
  by (auto simp: prune_def blocks_def MAX_BLOCKS_def)

lemma length_takeWhile_rev_le: "length (takeWhile p (drop 1 (rev xs))) \<le> length xs - 1"
  using length_takeWhile_le [of p "drop 1 (rev xs)"] by simp

section \<open>Round timeouts\<close>

lemma f64_as_u64_mono: "x \<le> y \<Longrightarrow> f64_as_u64 x \<le> f64_as_u64 y"
proof -
  assume xy: "x \<le> y"
  have small: "uint (word_of_int \<lfloor>z\<rfloor> :: u64) = \<lfloor>z\<rfloor>" if "0 < z" "z < 2 ^ 64" for z :: real
  proof -
    have "0 \<le> \<lfloor>z\<rfloor>" "\<lfloor>z\<rfloor> < 2 ^ 64" using that by (auto simp: floor_less_iff)
    then show ?thesis by (simp add: uint_word_of_int)
  qed
  show ?thesis
  proof (cases "y \<ge> 2 ^ 64")
    case True
    then have "f64_as_u64 y = - 1" by (simp add: f64_as_u64_def)
    then show ?thesis by simp
  next
    case False
    with xy small [of x] small [of y] floor_mono [OF xy] show ?thesis
      by (auto simp: f64_as_u64_def word_le_def)
  qed
qed

lemma timeout_for_round_mono:
  assumes "0 \<le> rcc_first_interval c" and "0 \<le> rcc_growth_factor c" and "r \<le> r'"
  shows "timeout_for_round c r \<le> timeout_for_round c r'"
proof -
  have "real (unat r) \<le> real (unat r')"
    using assms(3) unfolding word_le_nat_alt by (rule of_nat_mono)
  then have "rcc_growth_factor c * real (unat r) \<le> rcc_growth_factor c * real (unat r')"
    using assms(2) by (rule mult_left_mono)
  then have "2 powr (rcc_growth_factor c * real (unat r)) \<le> 2 powr (rcc_growth_factor c * real (unat r'))"
    by simp
  with assms(1) have "rcc_start_time c + rcc_first_interval c * 2 powr (rcc_growth_factor c * real (unat r))
      \<le> rcc_start_time c + rcc_first_interval c * 2 powr (rcc_growth_factor c * real (unat r'))"
    by (intro add_left_mono mult_left_mono) auto
  then show ?thesis
    unfolding timeout_for_round_def Let_def by (intro f64_as_u64_mono) (simp add: ceiling_mono)
qed

end
