(* ===== verification/Qbft_Quorum.thy ===== *)
theory Qbft_Quorum
  imports Qbft_Blockchain
begin

text \<open>
  The general functions of \<open>node_auxilliary_functions.rs\<close>: the fault bound, the quorum
  size, the proposer of a round, and the block hashes.  The locale \<open>quorum_system\<close>
  states what the protocol relies on (two quorums share more validators than may be
  faulty); it is interpreted on the code's \<open>f\<close> and \<open>quorum\<close>.
\<close>

section \<open>Definitions\<close>

definition f :: "nat \<Rightarrow> nat" where
  "f n = (if n = 0 then 0 else (n - 1) div 3)"

text \<open>
  \<open>(n * 2 - 1) / 3 + 1\<close> on \<open>usize\<close>: with an empty validator set the subtraction wraps
  in a release build.
\<close>

definition quorum :: "nat \<Rightarrow> nat" where
  "quorum n = usize_sub (n * 2 mod 2 ^ 64) 1 div 3 + 1"

text \<open>\<open>Address::ZERO\<close> stands for "no proposer" when there are no validators.\<close>

definition proposer :: "u64 \<Rightarrow> blockchain \<Rightarrow> address" where
  "proposer r bc =
     (let vs = validators bc in
      if vs = [] then 0
      else
        let round_zero_index =
              (if height bc = 1 then 0
               else (case position (\<lambda>v. v = bh_proposer (blk_header (bc_head bc))) vs of
                       Some idx \<Rightarrow> idx + 1
                     | None \<Rightarrow> 0))
        in vs ! ((round_zero_index + unat r) mod 2 ^ 64 mod length vs))"

definition replace_round_in_block :: "block \<Rightarrow> u64 \<Rightarrow> block" where
  "replace_round_in_block b r = b\<lparr>blk_header := (blk_header b)\<lparr>bh_round_number := r\<rparr>\<rparr>"

definition hash_block_for_commit_seal :: "libs \<Rightarrow> block \<Rightarrow> hash" where
  "hash_block_for_commit_seal L b =
     keccak256 L (enc_block_header L ((blk_header b)\<lparr>bh_commit_seals := []\<rparr>))"

definition multicast :: "address list \<Rightarrow> qbft_message \<Rightarrow> qbft_message_with_recipient list" where
  "multicast recipients m = [\<lparr>mwr_message = m, mwr_recipient = 0\<rparr>]"

definition digest_optional_block :: "libs \<Rightarrow> block option \<Rightarrow> hash option" where
  "digest_optional_block L b = map_option (digest L) b"

section \<open>Quorum systems\<close>

text \<open>
  The contract between the counting functions and the protocol: a quorum fits into the
  validator set, and two quorums overlap in more than \<open>faults n\<close> members.
\<close>

locale quorum_system =
  fixes faults :: "nat \<Rightarrow> nat" and qsize :: "nat \<Rightarrow> nat" and admissible :: "nat \<Rightarrow> bool"
  assumes qsize_le: "admissible n \<Longrightarrow> qsize n \<le> n"
    and overlap: "admissible n \<Longrightarrow> n + faults n < 2 * qsize n"
begin

text \<open>Any two quorums of validators have a member outside any tolerated faulty set.\<close>

lemma common_correct_member:
  assumes "admissible (length vs)"
    and "A \<subseteq> set vs" and "qsize (length vs) \<le> card A"
    and "B \<subseteq> set vs" and "qsize (length vs) \<le> card B"
    and "card Byz \<le> faults (length vs)" and "finite Byz"
  obtains v where "v \<in> A" and "v \<in> B" and "v \<notin> Byz"
proof -
  have fin: "finite A" "finite B" using assms(2,4) by (auto intro: finite_subset)
  have "card (A \<union> B) \<le> length vs"
    using assms(2,4) by (meson Un_least card_length card_mono finite_set le_trans)
  moreover have "card (A \<union> B) + card (A \<inter> B) = card A + card B"
    using fin by (rule card_Un_Int [symmetric])
  ultimately have "faults (length vs) < card (A \<inter> B)"
    using overlap [OF assms(1)] assms(3,5) by linarith
  then have "\<not> A \<inter> B \<subseteq> Byz"
    using assms(6,7) by (meson card_mono le_trans not_less)
  then show thesis using that by blast
qed

text \<open>More than \<open>faults n\<close> members always include a correct one.\<close>

lemma correct_member:
  assumes "faults n < card A" and "card Byz \<le> faults n" and "finite Byz"
  obtains v where "v \<in> A" and "v \<notin> Byz"
proof -
  have "\<not> A \<subseteq> Byz" using assms by (meson card_mono le_trans not_less)
  then show thesis using that by blast
qed

end

definition quorum_admissible :: "nat \<Rightarrow> bool" where
  "quorum_admissible n \<longleftrightarrow> 0 < n \<and> n < 2 ^ 63"

lemma quorum_eq: "quorum_admissible n \<Longrightarrow> quorum n = (2 * n - 1) div 3 + 1"
  by (simp add: quorum_admissible_def quorum_def usize_sub_def mult.commute)

interpretation qbft: quorum_system f quorum quorum_admissible
  by unfold_locales (auto simp: quorum_eq f_def quorum_admissible_def)

section \<open>Proposers\<close>

lemma proposer_in_validators: "validators bc \<noteq> [] \<Longrightarrow> proposer r bc \<in> set (validators bc)"
  by (simp add: proposer_def Let_def split: option.splits)

lemma hash_block_for_commit_seal_cong:
  "(blk_header a)\<lparr>bh_commit_seals := []\<rparr> = (blk_header b)\<lparr>bh_commit_seals := []\<rparr> \<Longrightarrow>
    hash_block_for_commit_seal L a = hash_block_for_commit_seal L b"
  by (simp add: hash_block_for_commit_seal_def)

lemma hash_block_for_commit_seal_seals [simp]:
  "hash_block_for_commit_seal L (b\<lparr>blk_header := (blk_header b)\<lparr>bh_commit_seals := ss\<rparr>\<rparr>) =
    hash_block_for_commit_seal L b"
  by (rule hash_block_for_commit_seal_cong) simp

text \<open>The rotation: over \<open>n\<close> consecutive rounds every index is hit.\<close>

lemma mod_shift_surj:
  fixes base n i :: nat
  assumes "i < n"
  obtains k where "k < n" and "(base + k) mod n = i"
proof
  have n: "0 < n" using assms by simp
  show "(i + n - base mod n) mod n < n" using n by simp
  have "base mod n + (i + n - base mod n) = i + n"
    using mod_less_divisor [OF n, of base] by linarith
  then show "(base + (i + n - base mod n) mod n) mod n = i"
    using assms by (metis mod_add_left_eq mod_add_right_eq mod_add_self2 mod_less)
qed

lemma proposer_covers:
  assumes "v \<in> set (validators bc)"
    and "unat r + 2 * length (validators bc) < 2 ^ 64"
  shows "\<exists>k < length (validators bc). proposer (r + word_of_nat k) bc = v"
proof -
  let ?vs = "validators bc" and ?n = "length (validators bc)"
  obtain i where i: "i < ?n" "?vs ! i = v" using assms(1) by (auto simp: in_set_conv_nth)
  define base where "base = (if height bc = 1 then 0
      else (case position (\<lambda>v. v = bh_proposer (blk_header (bc_head bc))) ?vs of
              Some idx \<Rightarrow> idx + 1 | None \<Rightarrow> 0))"
  have base: "base \<le> ?n"
    by (auto simp: base_def position_Some_iff split: option.splits)
  obtain k where k: "k < ?n" "(base + unat r + k) mod ?n = i"
    using mod_shift_surj [OF i(1), of "base + unat r"] by auto
  have rk: "unat (r + word_of_nat k) = unat r + k"
    using assms(2) k(1) by (simp add: unat_word_ariths unat_of_nat)
  then have "(base + unat (r + word_of_nat k)) mod 2 ^ 64 mod ?n = i"
    using k base assms(2) by (simp add: add.assoc)
  then have "proposer (r + word_of_nat k) bc = v"
    using i by (simp add: proposer_def Let_def base_def [symmetric]) (metis assms(1) empty_iff empty_set)
  with k(1) show ?thesis by blast
qed

end
