(* ===== verification/Codec_Properties.thy ===== *)
theory Codec_Properties
  imports Example_Libs Qbft_Quorum
begin

text \<open>
  Properties of the hand-written codecs (round trips, announced lengths, rejected input)
  and of the chain, the quorum sizes and the proposer rotation.
\<close>

section \<open>Example payloads\<close>

definition ex_urc :: unsigned_round_change where
  "ex_urc = \<lparr>urc_height = 3, urc_round = 2, urc_prepared_value = None, urc_prepared_round = Some 0\<rparr>"

definition ex_wire :: "block_request \<Rightarrow> wire_codec" where
  "ex_wire r = \<lparr>enc_u8 = (\<lambda>t. [t]), dec_u8 = (\<lambda>bs. case bs of [] \<Rightarrow> Inl LibraryError | b # rest \<Rightarrow> Inr (b, rest)),
     enc_proposal = (\<lambda>_. []), dec_proposal = (\<lambda>_. Inl LibraryError),
     enc_prepare = (\<lambda>_. []), dec_prepare = (\<lambda>_. Inl LibraryError),
     enc_commit = (\<lambda>_. []), dec_commit = (\<lambda>_. Inl LibraryError),
     enc_round_change = (\<lambda>_. []), dec_round_change = (\<lambda>_. Inl LibraryError),
     enc_new_block = (\<lambda>_. []), dec_new_block = (\<lambda>_. Inl LibraryError),
     enc_block_request = (\<lambda>_. [9]), dec_block_request = (\<lambda>bs. Inr (r, drop 1 bs)),
     enc_block_response = (\<lambda>_. []), dec_block_response = (\<lambda>_. Inl LibraryError)\<rparr>"

section \<open>Codecs\<close>

lemma decode_encode_round_change:
  assumes "rlp_laws L D" and "encode_unsigned_round_change L u = Some bs"
  shows "decode_unsigned_round_change D (bs @ rest) = Some (Inr (u, rest))"
proof -
  obtain pr where pr: "prepared_round_encoded u = Some pr"
    using assms(2) by (auto simp: encode_unsigned_round_change_def bind_eq_Some_conv)
  let ?fields = "encode_urc_fields L u pr"
  have "bs = enc_list_header L (length ?fields) @ ?fields"
    using assms(2) pr urc_payload_length_correct [OF assms(1), of u pr]
    by (simp add: encode_unsigned_round_change_def)
  then have "dec_header D (bs @ rest) = Inr ((True, length ?fields), ?fields @ rest)"
    using rlp_lawsD(1) [OF assms(1), of "length ?fields" "?fields @ rest"] by simp
  with decode_urc_fields_roundtrip [OF assms(1) pr] show ?thesis
    by (simp add: decode_unsigned_round_change_def slice_def)
qed

text \<open>
  C24: decoding what \<open>UnsignedRoundChange::encode\<close> wrote gives the value back and leaves
  the bytes after it, for every value whose encoding does not panic; \<open>Some(0)\<close> and
  \<open>None\<close> stay apart.
\<close>

theorem round_change_codec_roundtrip:
  assumes "rlp_laws L D" and "encode_unsigned_round_change L u = Some bs"
  shows "decode_unsigned_round_change D (bs @ rest) = Some (Inr (u, rest))"
  using assms by (rule decode_encode_round_change)

theorem round_change_codec_roundtrip_witness:
  "\<exists>bs. encode_unsigned_round_change example_libs ex_urc = Some bs
    \<and> decode_unsigned_round_change example_decoders (bs @ [5]) = Some (Inr (ex_urc, [5]))"
proof -
  obtain bs where "encode_unsigned_round_change example_libs ex_urc = Some bs"
    using encode_unsigned_round_change_total [of ex_urc example_libs] by (auto simp: ex_urc_def)
  with round_change_codec_roundtrip [OF example_rlp_laws this, of "[5]"] show ?thesis by blast
qed

text \<open>
  \<open>UnsignedRoundChange::length\<close> is the number of bytes \<open>encode\<close> writes, and panics
  exactly when \<open>encode\<close> does.
\<close>

lemma round_change_length_exact:
  assumes "rlp_laws L D"
  shows "length_unsigned_round_change L u = map_option length (encode_unsigned_round_change L u)"
  using assms by (rule length_encode_unsigned_round_change)

text \<open>
  What was decoded can be encoded again.  Whatever bytes arrive and whatever the
  field decoders return, a decoded \<open>UnsignedRoundChange\<close> does not hit the
  \<open>checked_add(1).expect\<close> of the encoder, so re-encoding it to check its signature does
  not panic.
\<close>

lemma decoded_round_change_reencodes:
  assumes "decode_unsigned_round_change D buf = Some (Inr (u, rest))"
  shows "\<exists>bs. encode_unsigned_round_change L u = Some bs"
proof -
  obtain n buf' inner where "(case decode_urc_fields D inner of
      Inl e \<Rightarrow> Inl e | Inr u' \<Rightarrow> Inr (u', drop n buf')) = Inr (u, rest)"
    using assms
    by (cases "dec_header D buf")
      (auto simp: decode_unsigned_round_change_def bind_eq_Some_conv split: prod.splits if_splits)
  then have "decode_urc_fields D inner = Inr u" by (cases "decode_urc_fields D inner") auto
  then have "urc_prepared_round u \<noteq> Some (- 1)" by (rule decode_urc_fields_round)
  then show ?thesis using encode_unsigned_round_change_total by blast
qed

text \<open>
  A message read from the wire is the message written, for each of the seven message
  types, and the bytes after it are left.
\<close>

lemma qbft_message_wire_roundtrip:
  assumes "wire_laws W m" and "encodable m"
  shows "decode_qbft_message W (encode_qbft_message W m @ rest) = Inr (m, rest)"
  using assms by (rule decode_encode_qbft_message)

lemma qbft_message_wire_roundtrip_witness:
  "decode_qbft_message (ex_wire \<lparr>breq_from_height = 2, breq_to_height = 5\<rparr>)
     (encode_qbft_message (ex_wire \<lparr>breq_from_height = 2, breq_to_height = 5\<rparr>)
       (BlockRequest \<lparr>breq_from_height = 2, breq_to_height = 5\<rparr>) @ [1, 2])
    = Inr (BlockRequest \<lparr>breq_from_height = 2, breq_to_height = 5\<rparr>, [1, 2])"
  by (rule qbft_message_wire_roundtrip) (simp_all add: wire_laws_def ex_wire_def)

text \<open>
  A tag byte above 6 is rejected with the custom error, whatever follows it.
\<close>

lemma unknown_message_type_rejected:
  assumes "dec_u8 W buf = Inr (t, rest)" and "6 < t"
  shows "decode_qbft_message W buf = Inl (Custom ''Unknown QbftMessage type'')"
  using assms by (auto simp: decode_qbft_message_def)

section \<open>Quorums and proposers\<close>

text \<open>
  Quorum intersection.  Any two sets of validators of quorum size share a validator
  that is not among any \<open>f\<close> faulty ones, for every validator set that fits in memory; and a
  quorum can be formed without the faulty ones' consent only if it fits the set.
\<close>

lemma quorums_intersect_in_correct_validator:
  assumes "quorum_admissible (length vs)"
    and "A \<subseteq> set vs" and "quorum (length vs) \<le> card A"
    and "B \<subseteq> set vs" and "quorum (length vs) \<le> card B"
    and "finite Byz" and "card Byz \<le> f (length vs)"
  shows "\<exists>v. v \<in> A \<and> v \<in> B \<and> v \<notin> Byz"
  using qbft.common_correct_member [OF assms(1-5,7,6)] by blast

text \<open>
  Liveness of quorums.  When at most \<open>f\<close> validators are silent, the others still
  form a quorum.
\<close>

lemma correct_validators_form_quorum:
  assumes "quorum_admissible (length vs)" and "distinct vs" and "card (set vs \<inter> Byz) \<le> f (length vs)"
  shows "quorum (length vs) \<le> card (set vs - Byz)"
proof -
  have "card (set vs - Byz) = length vs - card (set vs \<inter> Byz)"
    using assms(2) card_Diff_subset_Int [of "set vs" Byz] by (simp add: distinct_card)
  moreover have "(2 * n - 1) div 3 + 1 \<le> n - c" if "0 < n" "c \<le> (n - 1) div 3" for n c :: nat
  proof -
    have "3 * ((2 * n - 1) div 3) \<le> 2 * n - 1" "3 * ((n - 1) div 3) \<le> n - 1" by simp_all
    with that show ?thesis by linarith
  qed
  ultimately show ?thesis
    using assms(1,3) by (simp add: quorum_eq f_def quorum_admissible_def split: if_splits)
qed

text \<open>
  The proposer of a round is a validator, and rotating through as many rounds as
  there are validators gives every validator its turn (as long as the round numbers do
  not wrap).
\<close>

lemma proposer_rotation_covers_validators:
  assumes "v \<in> set (validators bc)" and "unat r + 2 * length (validators bc) < 2 ^ 64"
  shows "proposer r bc \<in> set (validators bc)
    \<and> (\<exists>k < length (validators bc). proposer (r + word_of_nat k) bc = v)"
proof -
  have "validators bc \<noteq> []" using assms(1) by auto
  with proposer_in_validators proposer_covers [OF assms] show ?thesis by blast
qed

definition ex_header :: block_header where
  "ex_header = \<lparr>bh_proposer = 2, bh_round_number = 0, bh_commit_seals = [], bh_height = 6,
     bh_timestamp = 11, bh_validators = [1, 2, 3], bh_digest = 0\<rparr>"

definition ex_tip :: blockchain where
  "ex_tip = \<lparr>bc_proposed_block = None, bc_older = [block_new example_libs ex_header [4]],
     bc_head = block_new example_libs ex_header [5]\<rparr>"

lemma proposer_rotation_covers_validators_witness:
  "proposer 1 ex_tip \<in> set (validators ex_tip)
    \<and> (\<exists>k < length (validators ex_tip). proposer (1 + word_of_nat k) ex_tip = 2)"
  by (rule proposer_rotation_covers_validators)
    (simp_all add: ex_tip_def ex_header_def block_new_def validators_def)

section \<open>The chain\<close>

text \<open>
  Pruning keeps the newest 32 blocks.  After \<open>prune\<close> the deque is the last
  \<open>MAX_BLOCKS\<close> blocks in their order, and height and validators are unchanged.
\<close>

lemma prune_keeps_newest_blocks:
  "blocks (prune bc) = drop (length (blocks bc) - MAX_BLOCKS) (blocks bc)
    \<and> length (blocks (prune bc)) = min (length (blocks bc)) MAX_BLOCKS
    \<and> height (prune bc) = height bc \<and> validators (prune bc) = validators bc"
  by (auto simp: blocks_prune)

text \<open>
  Round timeouts never shrink.  With a non-negative first interval and growth factor
  a later round waits at least as long as an earlier one, saturation included.
\<close>

lemma round_timeouts_grow:
  assumes "0 \<le> rcc_first_interval c" and "0 \<le> rcc_growth_factor c" and "r \<le> r'"
  shows "timeout_for_round c r \<le> timeout_for_round c r'"
  using assms by (rule timeout_for_round_mono)

lemma round_timeouts_grow_witness:
  "timeout_for_round default_round_change_config 2 \<le> timeout_for_round default_round_change_config 7"
  by (rule round_timeouts_grow) (simp_all add: default_round_change_config_def)

text \<open>
  Sub-second blocks stay ordered.  Extending the chain with a block of the same
  second moves the estimated millisecond timestamp forward by exactly one interval; a
  block of a later second starts again at that second.
\<close>

lemma estimated_timestamp_advances:
  "estimate_timestamp_ms (set_head b bc) i =
    (if bh_timestamp (blk_header b) = timestamp_secs bc
     then estimate_timestamp_ms bc i + unat i
     else unat (bh_timestamp (blk_header b)) * 1000)"
proof -
  have rev: "drop 1 (rev (blocks (set_head b bc))) = bc_head bc # rev (bc_older bc)"
    "drop 1 (rev (blocks bc)) = rev (bc_older bc)"
    by (simp_all add: blocks_def set_head_def)
  show ?thesis
    unfolding estimate_timestamp_ms_def Let_def rev
    by (auto simp: timestamp_secs_def algebra_simps)
qed

end
