(* ===== verification/Qbft_Message.thy ===== *)
theory Qbft_Message
  imports Qbft_Quorum Qbft_Codec
begin

text \<open>
  The operations of \<open>QbftMessage\<close> (\<open>types/qbft_message.rs\<close>): the sort and
  deduplication key, authors, and the three checks an incoming message passes before it
  is stored (authors are validators, signatures verify, block bodies match their digest).
\<close>

section \<open>Authors and keys\<close>

definition recover_signed_proposal_author :: "signed_proposal \<Rightarrow> address" where
  "recover_signed_proposal_author m = sig_author (sprop_signature m)"

definition recover_signed_prepare_author :: "signed_prepare \<Rightarrow> address" where
  "recover_signed_prepare_author m = sig_author (sprep_signature m)"

definition recover_signed_commit_author :: "signed_commit \<Rightarrow> address" where
  "recover_signed_commit_author m = sig_author (scom_signature m)"

definition recover_signed_round_change_author :: "signed_round_change \<Rightarrow> address" where
  "recover_signed_round_change_author m = sig_author (src_signature m)"

definition recover_signed_new_block_author :: "signature \<Rightarrow> address" where
  "recover_signed_new_block_author s = sig_author s"

lemmas author_defs = recover_signed_proposal_author_def recover_signed_prepare_author_def
  recover_signed_commit_author_def recover_signed_round_change_author_def
  recover_signed_new_block_author_def

fun author :: "qbft_message \<Rightarrow> address" where
  "author (Proposal p) = recover_signed_proposal_author (prop_payload p)"
| "author (Prepare p) = recover_signed_prepare_author (prep_payload p)"
| "author (Commit c) = recover_signed_commit_author (com_payload c)"
| "author (RoundChange r) = recover_signed_round_change_author (rc_payload r)"
| "author (NewBlock b) = recover_signed_new_block_author (snb_signature b)"
| "author (BlockRequest _) = 0"
| "author (BlockResponse _) = 0"

definition response_height :: "block_response \<Rightarrow> u64" where
  "response_height r = (case bresp_blocks r of [] \<Rightarrow> 0 | b # _ \<Rightarrow> unb_height (snb_payload b))"

fun msg_height :: "qbft_message \<Rightarrow> u64" where
  "msg_height (Proposal p) = uprop_height (sprop_payload (prop_payload p))"
| "msg_height (Prepare p) = uprep_height (sprep_payload (prep_payload p))"
| "msg_height (Commit c) = ucom_height (scom_payload (com_payload c))"
| "msg_height (RoundChange r) = urc_height (src_payload (rc_payload r))"
| "msg_height (NewBlock b) = unb_height (snb_payload b)"
| "msg_height (BlockRequest r) = breq_from_height r"
| "msg_height (BlockResponse r) = response_height r"

fun msg_round :: "qbft_message \<Rightarrow> u64" where
  "msg_round (Proposal p) = uprop_round (sprop_payload (prop_payload p))"
| "msg_round (Prepare p) = uprep_round (sprep_payload (prep_payload p))"
| "msg_round (Commit c) = ucom_round (scom_payload (com_payload c))"
| "msg_round (RoundChange r) = urc_round (src_payload (rc_payload r))"
| "msg_round (NewBlock b) = unb_round (snb_payload b)"
| "msg_round (BlockRequest _) = 0"
| "msg_round (BlockResponse _) = 0"

type_synonym msg_key = "u64 \<times> u64 \<times> u8 \<times> address"

text \<open>
  Note the round slot of a \<open>BlockRequest\<close>: it is the end of the requested range, not
  the value \<open>round()\<close> returns.
\<close>

fun components :: "qbft_message \<Rightarrow> msg_key" where
  "components (Proposal p) =
     (uprop_height (sprop_payload (prop_payload p)), uprop_round (sprop_payload (prop_payload p)), 0,
      author (Proposal p))"
| "components (Prepare p) =
     (uprep_height (sprep_payload (prep_payload p)), uprep_round (sprep_payload (prep_payload p)), 1,
      author (Prepare p))"
| "components (Commit c) =
     (ucom_height (scom_payload (com_payload c)), ucom_round (scom_payload (com_payload c)), 2,
      author (Commit c))"
| "components (RoundChange r) =
     (urc_height (src_payload (rc_payload r)), urc_round (src_payload (rc_payload r)), 3,
      author (RoundChange r))"
| "components (NewBlock b) =
     (unb_height (snb_payload b), unb_round (snb_payload b), 4, author (NewBlock b))"
| "components (BlockRequest r) = (breq_from_height r, breq_to_height r, 5, 0)"
| "components (BlockResponse r) = (response_height r, 0, 6, 0)"

definition author_index :: "qbft_message \<Rightarrow> address list \<Rightarrow> nat option" where
  "author_index m vs = position (\<lambda>v. v = author m) vs"

fun msg_error_code :: "qbft_message \<Rightarrow> string" where
  "msg_error_code (Proposal _) = ''P''"
| "msg_error_code (Prepare _) = ''p''"
| "msg_error_code (Commit _) = ''c''"
| "msg_error_code (RoundChange r) =
     (if urc_prepared_round (src_payload (rc_payload r)) \<noteq> None then ''R'' else ''r'')"
| "msg_error_code (NewBlock _) = ''b''"
| "msg_error_code (BlockRequest _) = ''Q''"
| "msg_error_code (BlockResponse _) = ''A''"

section \<open>Checks on incoming messages\<close>

fun check_digest :: "libs \<Rightarrow> qbft_message \<Rightarrow> bool" where
  "check_digest L (Proposal p) = validate_digest L (prop_block p)"
| "check_digest L (Prepare _) = True"
| "check_digest L (Commit _) = True"
| "check_digest L (RoundChange r) =
     (case rc_proposed_block r of None \<Rightarrow> True | Some b \<Rightarrow> validate_digest L b)"
| "check_digest L (NewBlock b) = validate_digest L (snb_block b)"
| "check_digest L (BlockRequest _) = True"
| "check_digest L (BlockResponse r) = list_all (\<lambda>b. validate_digest L (snb_block b)) (bresp_blocks r)"

text \<open>
  \<open>check_signatures\<close> returns \<open>Result<bool, _>\<close> and encodes payloads, which may panic:
  the outer \<^const>\<open>None\<close> is the panic, the inner one the \<open>Err\<close> that \<open>?\<close> propagates.
  \<open>verify_all\<close> is the sequence of \<open>if !verify(..)? { return Ok(false) }\<close> statements.
\<close>

fun verify_all :: "libs \<Rightarrow> (signature \<times> bytes option) list \<Rightarrow> bool option option" where
  "verify_all L [] = Some (Some True)"
| "verify_all L ((s, enc) # rest) = do {
     msg \<leftarrow> enc;
     (case verify_message L s msg of
        None \<Rightarrow> Some None
      | Some False \<Rightarrow> Some (Some False)
      | Some True \<Rightarrow> verify_all L rest)
   }"

definition round_change_sig :: "libs \<Rightarrow> signed_round_change \<Rightarrow> signature \<times> bytes option" where
  "round_change_sig L s = (src_signature s, encode_unsigned_round_change L (src_payload s))"

definition prepare_sig :: "libs \<Rightarrow> signed_prepare \<Rightarrow> signature \<times> bytes option" where
  "prepare_sig L s = (sprep_signature s, Some (enc_unsigned_prepare L (sprep_payload s)))"

definition new_block_proposer_ok :: "signed_new_block \<Rightarrow> blockchain \<Rightarrow> bool" where
  "new_block_proposer_ok b bc \<longleftrightarrow>
     (let expected = proposer (block_round (snb_block b)) bc in
      sig_author (snb_signature b) = expected \<and> bh_proposer (blk_header (snb_block b)) = expected)"

text \<open>One block of a \<open>NewBlock\<close> or \<open>BlockResponse\<close>: its signature, then its proposer.\<close>

definition check_new_block_sig :: "libs \<Rightarrow> signed_new_block \<Rightarrow> blockchain \<Rightarrow> bool option" where
  "check_new_block_sig L b bc =
     (case verify_message L (snb_signature b) (enc_unsigned_new_block L (snb_payload b)) of
        None \<Rightarrow> None
      | Some False \<Rightarrow> Some False
      | Some True \<Rightarrow> Some (new_block_proposer_ok b bc))"

fun check_response_sigs :: "libs \<Rightarrow> signed_new_block list \<Rightarrow> blockchain \<Rightarrow> bool option" where
  "check_response_sigs L [] bc = Some True"
| "check_response_sigs L (b # bs) bc =
     (case check_new_block_sig L b bc of
        None \<Rightarrow> None
      | Some False \<Rightarrow> Some False
      | Some True \<Rightarrow> check_response_sigs L bs bc)"

fun check_signatures :: "libs \<Rightarrow> qbft_message \<Rightarrow> blockchain \<Rightarrow> bool option option" where
  "check_signatures L (Proposal p) bc =
     verify_all L ((sprop_signature (prop_payload p),
                    Some (enc_unsigned_proposal L (sprop_payload (prop_payload p))))
                   # map (round_change_sig L) (prop_justification p)
                   @ map (prepare_sig L) (prop_rc_justification p))"
| "check_signatures L (Prepare p) bc = verify_all L [prepare_sig L (prep_payload p)]"
| "check_signatures L (Commit c) bc =
     verify_all L [(scom_signature (com_payload c),
                    Some (enc_unsigned_commit L (scom_payload (com_payload c))))]"
| "check_signatures L (RoundChange r) bc =
     verify_all L (round_change_sig L (rc_payload r) # map (prepare_sig L) (rc_justification r))"
| "check_signatures L (NewBlock b) bc = Some (check_new_block_sig L b bc)"
| "check_signatures L (BlockRequest _) bc = Some (Some True)"
| "check_signatures L (BlockResponse r) bc = Some (check_response_sigs L (bresp_blocks r) bc)"

fun check_authors :: "qbft_message \<Rightarrow> address list \<Rightarrow> bool" where
  "check_authors (NewBlock b) vs \<longleftrightarrow>
     author (NewBlock b) \<in> set vs \<and> bh_proposer (blk_header (snb_block b)) \<in> set vs"
| "check_authors (BlockRequest _) vs \<longleftrightarrow> True"
| "check_authors (BlockResponse r) vs \<longleftrightarrow>
     list_all (\<lambda>b. bh_proposer (blk_header (snb_block b)) \<in> set vs) (bresp_blocks r)"
| "check_authors m vs \<longleftrightarrow> author m \<in> set vs"

section \<open>Facts\<close>

fun is_sync :: "qbft_message \<Rightarrow> bool" where
  "is_sync (BlockRequest _) = True"
| "is_sync (BlockResponse _) = True"
| "is_sync _ = False"

lemma components_height [simp]: "fst (components m) = msg_height m"
  by (cases m) auto

lemma components_round: "\<not> is_sync m \<Longrightarrow> fst (snd (components m)) = msg_round m"
  by (cases m) auto

lemma components_author [simp]: "snd (snd (snd (components m))) = author m"
  by (cases m) auto

text \<open>The message type is part of the key: equal keys mean the same kind of message.\<close>

lemma components_kind:
  assumes "components m = components m'"
  shows "is_sync m = is_sync m'"
    and "(\<exists>x. m = Prepare x) = (\<exists>x. m' = Prepare x)"
    and "(\<exists>x. m = Commit x) = (\<exists>x. m' = Commit x)"
    and "(\<exists>x. m = RoundChange x) = (\<exists>x. m' = RoundChange x)"
  using assms by (cases m; cases m'; simp)+

lemma check_authors_author: "check_authors m vs \<Longrightarrow> \<not> is_sync m \<Longrightarrow> author m \<in> set vs"
  by (cases m) auto

lemma verify_all_True_iff:
  "verify_all L xs = Some (Some True) \<longleftrightarrow>
    (\<forall>(s, enc) \<in> set xs. \<exists>msg. enc = Some msg \<and> verify_message L s msg = Some True)"
proof (induction xs)
  case (Cons x xs)
  obtain s enc where "x = (s, enc)" by fastforce
  with Cons show ?case by (cases enc) (auto split: option.splits bool.splits)
qed simp

text \<open>An accepted vote carries a signature of its author over exactly its payload.\<close>

lemma check_signatures_prepare:
  "check_signatures L (Prepare p) bc = Some (Some True) \<longleftrightarrow>
    verify_message L (sprep_signature (prep_payload p))
      (enc_unsigned_prepare L (sprep_payload (prep_payload p))) = Some True"
  by (simp add: prepare_sig_def verify_all_True_iff del: verify_all.simps)

lemma check_signatures_commit:
  "check_signatures L (Commit c) bc = Some (Some True) \<longleftrightarrow>
    verify_message L (scom_signature (com_payload c))
      (enc_unsigned_commit L (scom_payload (com_payload c))) = Some True"
  by (simp add: verify_all_True_iff del: verify_all.simps)

lemma verify_all_no_panic:
  "\<forall>(s, enc) \<in> set xs. enc \<noteq> None \<Longrightarrow> verify_all L xs \<noteq> None"
  by (induction xs) (auto split: option.splits bool.splits)

lemma check_signatures_no_panic: "encodable m \<Longrightarrow> check_signatures L m bc \<noteq> None"
proof (cases m)
  case (Proposal p)
  assume "encodable m"
  with Proposal have "encode_unsigned_round_change L (src_payload s) \<noteq> None"
    if "s \<in> set (prop_justification p)" for s
    using that encode_unsigned_round_change_total by (auto simp: encodable_round_def list_all_iff)
  then show ?thesis
    unfolding Proposal check_signatures.simps
    by (intro verify_all_no_panic) (auto simp: prepare_sig_def round_change_sig_def)
next
  case (RoundChange r)
  assume "encodable m"
  with RoundChange have "encode_unsigned_round_change L (src_payload (rc_payload r)) \<noteq> None"
    using encode_unsigned_round_change_total by (auto simp: encodable_round_def)
  then show ?thesis
    unfolding RoundChange check_signatures.simps
    by (intro verify_all_no_panic) (auto simp: prepare_sig_def round_change_sig_def)
qed (auto simp: prepare_sig_def split: option.splits bool.splits)

end
