(* ===== verification/Node_State.thy ===== *)
theory Node_State
  imports Qbft_Message
begin

text \<open>
  The state of a node (\<open>types/node_state.rs\<close>) and its message store: a vector sorted by
  \<open>components\<close>, the set of keys it holds, and the index of the first message above the
  current height.  The locale \<open>message_store\<close> is the contract the vote-counting code
  relies on; it is interpreted on \<open>insert_message_sorted\<close>.
\<close>

section \<open>State\<close>

record node_state =
  ns_blockchain :: blockchain
  ns_round :: u64
  ns_local_time :: u64
  ns_id :: address
  ns_configuration :: configuration
  ns_messages_received :: "qbft_message list"
  ns_proposal_accepted :: "proposal option"
  ns_last_prepared_block :: "block option"
  ns_last_prepared_round :: "u64 option"
  ns_time_last_round_start :: u64
  ns_rz_progress_prepares :: nat
  ns_rz_progress_commits :: nat
  ns_rz_last_progress_time :: u64
  ns_private_key :: "private_key option"
  ns_first_future_message :: nat
  ns_message_keys :: "msg_key set"

abbreviation ns_height :: "node_state \<Rightarrow> u64" where
  "ns_height st \<equiv> height (ns_blockchain st)"

definition node_state_new ::
    "blockchain \<Rightarrow> configuration \<Rightarrow> address \<Rightarrow> private_key option \<Rightarrow> u64 \<Rightarrow> node_state" where
  "node_state_new bc cfg ident key time =
     \<lparr>ns_blockchain = bc, ns_round = 0, ns_local_time = time, ns_id = ident,
      ns_configuration = cfg, ns_messages_received = [], ns_proposal_accepted = None,
      ns_last_prepared_block = None, ns_last_prepared_round = None,
      ns_time_last_round_start = time + cfg_block_time cfg,
      ns_rz_progress_prepares = 0, ns_rz_progress_commits = 0, ns_rz_last_progress_time = time,
      ns_private_key = key, ns_first_future_message = 0, ns_message_keys = {}\<rparr>"

section \<open>The message store\<close>

definition insert_message_sorted :: "qbft_message \<Rightarrow> node_state \<Rightarrow> node_state" where
  "insert_message_sorted m st =
     (let k = components m in
      if k \<in> ns_message_keys st then st
      else
        let index = unwrap_index (binary_search_by_key k components (ns_messages_received st)) in
        st\<lparr>ns_messages_received := vec_insert index m (ns_messages_received st),
           ns_message_keys := insert k (ns_message_keys st)\<rparr>)"

definition push_message :: "qbft_message \<Rightarrow> node_state \<Rightarrow> node_state" where
  "push_message m st = insert_message_sorted m st"

text \<open>\<open>Vec::dedup_by\<close> on the keys: of a run of equal keys the first element stays.\<close>

fun dedup_by_key :: "('a \<Rightarrow> 'k) \<Rightarrow> 'a list \<Rightarrow> 'a list" where
  "dedup_by_key key [] = []"
| "dedup_by_key key [x] = [x]"
| "dedup_by_key key (x # y # ys) =
     (if key x = key y then dedup_by_key key (x # ys) else x # dedup_by_key key (y # ys))"

definition rebuild_message_index :: "node_state \<Rightarrow> node_state" where
  "rebuild_message_index st =
     (let ms = dedup_by_key components (sort_key components (ns_messages_received st)) in
      st\<lparr>ns_messages_received := ms, ns_message_keys := components ` set ms\<rparr>)"

definition set_messages_received :: "qbft_message list \<Rightarrow> node_state \<Rightarrow> node_state" where
  "set_messages_received ms st =
     (let st' = rebuild_message_index (st\<lparr>ns_messages_received := ms\<rparr>) in
      st'\<lparr>ns_first_future_message :=
            min (ns_first_future_message st') (length (ns_messages_received st'))\<rparr>)"

definition prune_messages_below_height :: "node_state \<Rightarrow> node_state" where
  "prune_messages_below_height st =
     (let h = ns_height st;
          first = partition_point (\<lambda>m. msg_height m < h) (ns_messages_received st);
          ms = drop first (ns_messages_received st)
      in st\<lparr>ns_messages_received := ms,
            ns_message_keys :=
              ns_message_keys st - components ` set (take first (ns_messages_received st)),
            ns_first_future_message := partition_point (\<lambda>m. msg_height m \<le> h) ms\<rparr>)"

text \<open>The three checks, left to right with the short circuits of \<open>&&\<close>.\<close>

definition accept_message :: "libs \<Rightarrow> address list \<Rightarrow> blockchain \<Rightarrow> qbft_message \<Rightarrow> bool option" where
  "accept_message L vs bc m =
     (if \<not> check_authors m vs then Some False
      else do {
        sigs \<leftarrow> check_signatures L m bc;
        Some (sigs = Some True \<and> check_digest L m)
      })"

text \<open>One iteration of the loop, and the loop over the incoming messages.\<close>

definition add_one :: "libs \<Rightarrow> address list \<Rightarrow> qbft_message \<Rightarrow> node_state \<Rightarrow> node_state option" where
  "add_one L vs m st =
     (if msg_height m < ns_height st then Some st
      else if components m \<in> ns_message_keys st then Some st
      else do {
        accepted \<leftarrow> accept_message L vs (ns_blockchain st) m;
        Some (if accepted then insert_message_sorted m st else st)
      })"

fun add_incoming :: "libs \<Rightarrow> address list \<Rightarrow> qbft_message list \<Rightarrow> node_state \<Rightarrow> node_state option" where
  "add_incoming L vs [] st = Some st"
| "add_incoming L vs (m # ms) st = do {
     st' \<leftarrow> add_one L vs m st;
     add_incoming L vs ms st'
   }"

definition prune_blockchain :: "node_state \<Rightarrow> node_state" where
  "prune_blockchain st = st\<lparr>ns_blockchain := prune (ns_blockchain st)\<rparr>"

definition add_messages :: "libs \<Rightarrow> qbft_message list \<Rightarrow> u64 \<Rightarrow> node_state \<Rightarrow> node_state option" where
  "add_messages L incoming time st = do {
     st' \<leftarrow> add_incoming L (validators (ns_blockchain st)) incoming (st\<lparr>ns_local_time := time\<rparr>);
     Some (prune_blockchain (prune_messages_below_height st'))
   }"

text \<open>Views of the store; slicing beyond the vector panics.\<close>

definition messages_received :: "node_state \<Rightarrow> qbft_message list option" where
  "messages_received st = slice (ns_messages_received st) 0 (ns_first_future_message st)"

definition messages_received_at_round :: "u64 \<Rightarrow> node_state \<Rightarrow> qbft_message list option" where
  "messages_received_at_round r st = do {
     ms \<leftarrow> messages_received st;
     slice (ns_messages_received st)
       (partition_point (\<lambda>m. msg_round m < r) ms)
       (partition_point (\<lambda>m. msg_round m \<le> r) ms)
   }"

definition get_future_rounds_from_round_changes :: "node_state \<Rightarrow> u64 list option" where
  "get_future_rounds_from_round_changes st = do {
     ms \<leftarrow> messages_received st;
     Some (remdups_adj (filter (\<lambda>r. r > ns_round st) (map msg_round ms)))
   }"

definition round_change_payload_of :: "qbft_message \<Rightarrow> signed_round_change option" where
  "round_change_payload_of m = (case m of RoundChange rc \<Rightarrow> Some (rc_payload rc) | _ \<Rightarrow> None)"

definition received_signed_round_changes_for_round ::
    "u64 \<Rightarrow> node_state \<Rightarrow> signed_round_change list option" where
  "received_signed_round_changes_for_round r st = do {
     ms \<leftarrow> messages_received_at_round r st;
     Some (filter_map round_change_payload_of ms)
   }"

section \<open>Timers, rounds and progress\<close>

definition next_block_timeout :: "node_state \<Rightarrow> u64" where
  "next_block_timeout st =
     bh_timestamp (blk_header (bc_head (ns_blockchain st))) + cfg_block_time (ns_configuration st)"

definition round_timeout :: "node_state \<Rightarrow> u64" where
  "round_timeout st = timeout_for_round (cfg_round_change_config (ns_configuration st)) (ns_round st)"

definition next_round_timeout :: "node_state \<Rightarrow> u64" where
  "next_round_timeout st = ns_time_last_round_start st + round_timeout st"

definition get_new_block :: "u64 \<Rightarrow> node_state \<Rightarrow> block option" where
  "get_new_block r st =
     (case bc_proposed_block (ns_blockchain st) of
        None \<Rightarrow> None
      | Some b \<Rightarrow> Some (b\<lparr>blk_header := (blk_header b)\<lparr>bh_round_number := r\<rparr>\<rparr>))"

definition upon_block_timeout_ready :: "node_state \<Rightarrow> bool" where
  "upon_block_timeout_ready st \<longleftrightarrow>
     ns_round st = 0
     \<and> proposer 0 (ns_blockchain st) = ns_id st
     \<and> ns_local_time st \<ge> next_block_timeout st
     \<and> ns_proposal_accepted st = None"

definition is_the_proposer_for_current_round :: "node_state \<Rightarrow> bool" where
  "is_the_proposer_for_current_round st \<longleftrightarrow> proposer (ns_round st) (ns_blockchain st) = ns_id st"

definition next_proposer_for_current_round :: "node_state \<Rightarrow> address" where
  "next_proposer_for_current_round st =
     (let r = (if ns_proposal_accepted st \<noteq> None then ns_round st + 1 else ns_round st) in
      proposer r (ns_blockchain st))"

definition set_last_prepared_block_and_round :: "block \<Rightarrow> u64 \<Rightarrow> node_state \<Rightarrow> node_state" where
  "set_last_prepared_block_and_round b r st =
     st\<lparr>ns_last_prepared_block := Some b, ns_last_prepared_round := Some r\<rparr>"

definition new_round :: "u64 \<Rightarrow> u64 \<Rightarrow> proposal option \<Rightarrow> node_state \<Rightarrow> node_state" where
  "new_round r start accepted st =
     (let st' = st\<lparr>ns_round := r, ns_proposal_accepted := accepted, ns_time_last_round_start := start\<rparr> in
      if r = 0
      then st'\<lparr>ns_last_prepared_block := None, ns_last_prepared_round := None,
               ns_rz_progress_prepares := 0, ns_rz_progress_commits := 0,
               ns_rz_last_progress_time := start\<rparr>
      else st')"

definition update_round_zero_progress :: "nat \<Rightarrow> nat \<Rightarrow> node_state \<Rightarrow> bool \<times> node_state" where
  "update_round_zero_progress prepares commits st =
     (let progressed = (prepares > ns_rz_progress_prepares st \<or> commits > ns_rz_progress_commits st) in
      (progressed,
       if progressed
       then st\<lparr>ns_rz_progress_prepares := prepares, ns_rz_progress_commits := commits,
               ns_rz_last_progress_time := ns_local_time st\<rparr>
       else st))"

section \<open>Roles and labels\<close>

definition validator_index :: "node_state \<Rightarrow> nat option" where
  "validator_index st = position (\<lambda>v. v = ns_id st) (validators (ns_blockchain st))"

definition whoami :: "node_state \<Rightarrow> nat" where
  "whoami st = (case validator_index st of Some i \<Rightarrow> i | None \<Rightarrow> 99)"

definition role :: "node_state \<Rightarrow> char" where
  "role st =
     (if ns_private_key st = None then CHR ''f''
      else if is_the_proposer_for_current_round st then CHR ''p''
      else if ns_id st \<in> set (validators (ns_blockchain st)) then CHR ''a''
      else CHR ''x'')"

text \<open>\<open>label()\<close> prints \<open>val<i>\<close> or \<open>node<i>\<close>; the model returns which one and the index.\<close>

datatype node_label = Val nat | NodeIdx nat

definition label :: "node_state \<Rightarrow> node_label" where
  "label st =
     (case validator_index st of
        Some i \<Rightarrow> Val i
      | None \<Rightarrow>
          let nodes = cfg_nodes (ns_configuration st);
              non_validators = filter (\<lambda>a. a \<notin> set (validators (ns_blockchain st))) nodes
          in (case position (\<lambda>a. a = ns_id st) non_validators of
                Some i \<Rightarrow> NodeIdx i
              | None \<Rightarrow>
                  (case position (\<lambda>a. a = ns_id st) nodes of
                     Some i \<Rightarrow> NodeIdx i
                   | None \<Rightarrow> NodeIdx (whoami st))))"

definition proposed_height :: "node_state \<Rightarrow> u64" where
  "proposed_height st =
     (case bc_proposed_block (ns_blockchain st) of None \<Rightarrow> 0 | Some b \<Rightarrow> block_height b)"

section \<open>Setters\<close>

text \<open>
  The public setters of \<open>NodeState\<close>.  The handlers write the record fields directly;
  the driver goes through these.
\<close>

definition set_blockchain :: "blockchain \<Rightarrow> node_state \<Rightarrow> node_state" where
  "set_blockchain bc st = st\<lparr>ns_blockchain := bc\<rparr>"

definition set_round :: "u64 \<Rightarrow> node_state \<Rightarrow> node_state" where
  "set_round r st = st\<lparr>ns_round := r\<rparr>"

definition set_local_time :: "u64 \<Rightarrow> node_state \<Rightarrow> node_state" where
  "set_local_time t st = st\<lparr>ns_local_time := t\<rparr>"

definition set_time_last_round_start :: "u64 \<Rightarrow> node_state \<Rightarrow> node_state" where
  "set_time_last_round_start t st = st\<lparr>ns_time_last_round_start := t\<rparr>"

definition set_round_zero_last_progress_time :: "u64 \<Rightarrow> node_state \<Rightarrow> node_state" where
  "set_round_zero_last_progress_time t st = st\<lparr>ns_rz_last_progress_time := t\<rparr>"

definition set_id :: "address \<Rightarrow> node_state \<Rightarrow> node_state" where
  "set_id i st = st\<lparr>ns_id := i\<rparr>"

definition set_configuration :: "configuration \<Rightarrow> node_state \<Rightarrow> node_state" where
  "set_configuration c st = st\<lparr>ns_configuration := c\<rparr>"

definition set_proposal_accepted_for_current_round :: "proposal option \<Rightarrow> node_state \<Rightarrow> node_state" where
  "set_proposal_accepted_for_current_round p st = st\<lparr>ns_proposal_accepted := p\<rparr>"

definition set_first_future_message :: "nat \<Rightarrow> node_state \<Rightarrow> node_state" where
  "set_first_future_message i st = st\<lparr>ns_first_future_message := i\<rparr>"

definition get_message_at_index :: "nat \<Rightarrow> node_state \<Rightarrow> qbft_message option" where
  "get_message_at_index i st =
     (if i < length (ns_messages_received st) then Some (ns_messages_received st ! i) else None)"

lemmas setter_defs = set_blockchain_def set_round_def set_local_time_def set_time_last_round_start_def
  set_round_zero_last_progress_time_def set_id_def set_configuration_def
  set_proposal_accepted_for_current_round_def set_first_future_message_def

section \<open>The contract of a message store\<close>

text \<open>
  What vote counting needs from the store: at most one message per key, insertion of a
  fresh key adds exactly that message, insertion of a known key changes nothing.
\<close>

locale message_store =
  fixes key :: "'m \<Rightarrow> 'k" and ins :: "'m \<Rightarrow> 's \<Rightarrow> 's" and stored :: "'s \<Rightarrow> 'm list"
    and invar :: "'s \<Rightarrow> bool"
  assumes distinct_keys: "invar s \<Longrightarrow> distinct (map key (stored s))"
    and invar_ins: "invar s \<Longrightarrow> invar (ins m s)"
    and set_ins: "invar s \<Longrightarrow>
      set (stored (ins m s)) =
        (if key m \<in> key ` set (stored s) then set (stored s) else insert m (set (stored s)))"
begin

lemma stored_mono: "invar s \<Longrightarrow> set (stored s) \<subseteq> set (stored (ins m s))"
  by (auto simp: set_ins)

lemma ins_known: "invar s \<Longrightarrow> m' \<in> set (stored s) \<Longrightarrow> key m' = key m \<Longrightarrow>
    set (stored (ins m s)) = set (stored s)"
  using set_ins [of s m] by (metis image_eqI)

lemma same_key_same_message:
  "invar s \<Longrightarrow> m \<in> set (stored s) \<Longrightarrow> m' \<in> set (stored s) \<Longrightarrow> key m = key m' \<Longrightarrow> m = m'"
  using distinct_keys by (auto simp: distinct_map dest: inj_onD)

text \<open>
  Votes: messages of one kind whose key is determined by their voter.  Every sublist of
  the store holds as many of them as there are voters, so counting messages is counting
  voters.
\<close>

lemma count_votes:
  assumes "invar s" and "set xs \<subseteq> set (stored s)" and "distinct xs"
    and voter: "\<And>m m' v v'. \<lbrakk>g m = Some v; g m' = Some v'; voter v = voter v'\<rbrakk> \<Longrightarrow> key m = key m'"
  shows "length (filter_map g xs) = card (voter ` set (filter_map g xs))"
proof -
  have "distinct (map voter (filter_map g xs))"
  proof (rule distinct_map_filter_map [OF assms(3)])
    fix x y u v
    assume "x \<in> set xs" "y \<in> set xs" "g x = Some u" "g y = Some v" "voter u = voter v"
    with assms(1,2) voter show "x = y" by (blast intro: same_key_same_message)
  qed
  then show ?thesis by (metis distinct_card length_map list.set_map)
qed

end

section \<open>The store of the node state\<close>

definition store_inv :: "node_state \<Rightarrow> bool" where
  "store_inv st \<longleftrightarrow>
     ascending_by components (ns_messages_received st)
     \<and> ns_message_keys st = components ` set (ns_messages_received st)
     \<and> ns_first_future_message st \<le> length (ns_messages_received st)"

lemma store_invD:
  assumes "store_inv st"
  shows "ascending_by components (ns_messages_received st)"
    and "ns_message_keys st = components ` set (ns_messages_received st)"
    and "ns_first_future_message st \<le> length (ns_messages_received st)"
  using assms by (auto simp: store_inv_def)

lemma store_inv_new [simp]: "store_inv (node_state_new bc cfg ident key time)"
  by (simp add: store_inv_def node_state_new_def)

lemma store_inv_cong:
  "ns_messages_received st' = ns_messages_received st \<Longrightarrow>
   ns_message_keys st' = ns_message_keys st \<Longrightarrow>
   ns_first_future_message st' = ns_first_future_message st \<Longrightarrow> store_inv st' = store_inv st"
  by (simp add: store_inv_def)

text \<open>
  On a sorted store the binary search yields the insertion point, so the optimised
  insertion is insertion behind the smaller keys.
\<close>

lemma insert_message_sorted_store:
  assumes "store_inv st" and "components m \<notin> components ` set (ns_messages_received st)"
  shows "insert_message_sorted m st =
    st\<lparr>ns_messages_received :=
         vec_insert (length (takeWhile (\<lambda>x. components x < components m) (ns_messages_received st)))
           m (ns_messages_received st),
       ns_message_keys := insert (components m) (ns_message_keys st)\<rparr>"
  using binary_search_by_key_absent [OF store_invD(1) [OF assms(1)] assms(2)] assms
  by (simp add: insert_message_sorted_def store_invD(2) unwrap_index_def Let_def)

lemma insert_message_sorted_known:
  "store_inv st \<Longrightarrow> components m \<in> components ` set (ns_messages_received st) \<Longrightarrow>
    insert_message_sorted m st = st"
  by (simp add: insert_message_sorted_def store_invD(2))

lemma store_inv_insert: "store_inv st \<Longrightarrow> store_inv (insert_message_sorted m st)"
proof (cases "components m \<in> components ` set (ns_messages_received st)")
  case False
  assume inv: "store_inv st"
  with False show ?thesis
    unfolding insert_message_sorted_store [OF inv False]
    by (auto simp: store_inv_def ascending_by_vec_insert)
qed (simp add: insert_message_sorted_known)

lemma set_insert_message_sorted:
  assumes "store_inv st"
  shows "set (ns_messages_received (insert_message_sorted m st)) =
    (if components m \<in> components ` set (ns_messages_received st)
     then set (ns_messages_received st) else insert m (set (ns_messages_received st)))"
  using insert_message_sorted_known [OF assms, of m] insert_message_sorted_store [OF assms, of m]
  by simp

interpretation store: message_store components insert_message_sorted ns_messages_received store_inv
  by unfold_locales
    (auto simp: store_invD(1) ascending_by_distinct store_inv_insert set_insert_message_sorted)

lemma insert_message_sorted_frame [node_frame, simp]:
  "ns_blockchain (insert_message_sorted m st) = ns_blockchain st"
  "ns_round (insert_message_sorted m st) = ns_round st"
  "ns_local_time (insert_message_sorted m st) = ns_local_time st"
  "ns_id (insert_message_sorted m st) = ns_id st"
  "ns_configuration (insert_message_sorted m st) = ns_configuration st"
  "ns_proposal_accepted (insert_message_sorted m st) = ns_proposal_accepted st"
  "ns_last_prepared_block (insert_message_sorted m st) = ns_last_prepared_block st"
  "ns_last_prepared_round (insert_message_sorted m st) = ns_last_prepared_round st"
  "ns_private_key (insert_message_sorted m st) = ns_private_key st"
  "ns_time_last_round_start (insert_message_sorted m st) = ns_time_last_round_start st"
  "ns_first_future_message (insert_message_sorted m st) = ns_first_future_message st"
  by (simp_all add: insert_message_sorted_def Let_def)

lemma prune_messages_frame [node_frame, simp]:
  "ns_blockchain (prune_messages_below_height st) = ns_blockchain st"
  "ns_round (prune_messages_below_height st) = ns_round st"
  "ns_local_time (prune_messages_below_height st) = ns_local_time st"
  "ns_id (prune_messages_below_height st) = ns_id st"
  "ns_configuration (prune_messages_below_height st) = ns_configuration st"
  "ns_proposal_accepted (prune_messages_below_height st) = ns_proposal_accepted st"
  "ns_last_prepared_block (prune_messages_below_height st) = ns_last_prepared_block st"
  "ns_last_prepared_round (prune_messages_below_height st) = ns_last_prepared_round st"
  "ns_private_key (prune_messages_below_height st) = ns_private_key st"
  by (simp_all add: prune_messages_below_height_def Let_def)

text \<open>Heights are the first component of the key, so the store is sorted by height.\<close>

lemma ascending_height:
  assumes "ascending_by components ms"
  shows "sorted_wrt (\<lambda>x y. msg_height x \<le> msg_height y) ms"
  using assms
proof (rule sorted_wrt_mono_rel [rotated])
  fix x y assume "components x < components y"
  then have "fst (components x) \<le> fst (components y)" by (auto simp: less_prod_def' less_le)
  then show "msg_height x \<le> msg_height y" by simp
qed

lemma partition_point_height_less:
  "ascending_by components ms \<Longrightarrow>
    partition_point (\<lambda>m. msg_height m < h) ms = length (takeWhile (\<lambda>m. msg_height m < h) ms)"
  by (rule partition_point_takeWhile, drule ascending_height, erule sorted_wrt_mono_rel [rotated])
    (auto intro: order_le_less_trans)

lemma partition_point_height_le:
  "ascending_by components ms \<Longrightarrow>
    partition_point (\<lambda>m. msg_height m \<le> h) ms = length (takeWhile (\<lambda>m. msg_height m \<le> h) ms)"
  by (rule partition_point_takeWhile, drule ascending_height, erule sorted_wrt_mono_rel [rotated])
    (auto intro: order_trans)

lemma takeWhile_eq_filter_sorted:
  "sorted_wrt (\<lambda>x y. p y \<longrightarrow> p x) xs \<Longrightarrow> takeWhile p xs = filter p xs"
  by (induction xs) (auto simp: filter_empty_conv)

lemma dropWhile_eq_filter_sorted:
  "sorted_wrt (\<lambda>x y. p y \<longrightarrow> p x) xs \<Longrightarrow> dropWhile p xs = filter (\<lambda>x. \<not> p x) xs"
  by (induction xs) (auto simp: filter_id_conv)

text \<open>
  Pruning: what stays is exactly the messages at or above the current height, and the
  index separates the current height from the future ones.
\<close>

lemma prune_messages_store:
  assumes "store_inv st"
  shows "ns_messages_received (prune_messages_below_height st) =
      filter (\<lambda>m. \<not> msg_height m < ns_height st) (ns_messages_received st)"
    and "store_inv (prune_messages_below_height st)"
    and "messages_received (prune_messages_below_height st) =
      Some (filter (\<lambda>m. msg_height m = ns_height st) (ns_messages_received st))"
proof -
  let ?ms = "ns_messages_received st" and ?h = "ns_height st"
  note asc = store_invD(1) [OF assms]
  let ?first = "partition_point (\<lambda>m. msg_height m < ?h) ?ms"
  have prefix: "sorted_wrt (\<lambda>x y. msg_height y < k \<longrightarrow> msg_height x < k) ?ms"
      "sorted_wrt (\<lambda>x y. msg_height y \<le> k \<longrightarrow> msg_height x \<le> k) ?ms" for k
    by (rule sorted_wrt_mono_rel [OF _ ascending_height [OF asc]]; fastforce)+
  have take: "take ?first ?ms = filter (\<lambda>m. msg_height m < ?h) ?ms"
    unfolding partition_point_height_less [OF asc] take_length_takeWhile
    by (rule takeWhile_eq_filter_sorted [OF prefix(1)])
  have drop: "drop ?first ?ms = filter (\<lambda>m. \<not> msg_height m < ?h) ?ms"
    unfolding partition_point_height_less [OF asc] dropWhile_eq_drop [symmetric]
    by (rule dropWhile_eq_filter_sorted [OF prefix(1)])
  show ms: "ns_messages_received (prune_messages_below_height st) =
      filter (\<lambda>m. \<not> msg_height m < ?h) ?ms"
    by (simp add: prune_messages_below_height_def Let_def drop)
  have asc': "ascending_by components (filter (\<lambda>m. \<not> msg_height m < ?h) ?ms)"
    using asc by (rule sorted_wrt_filter)
  have ffm: "ns_first_future_message (prune_messages_below_height st) =
      length (takeWhile (\<lambda>m. msg_height m \<le> ?h) (filter (\<lambda>m. \<not> msg_height m < ?h) ?ms))"
    by (simp add: prune_messages_below_height_def Let_def drop partition_point_height_le [OF asc'])
  have keys: "ns_message_keys (prune_messages_below_height st) =
      components ` set (filter (\<lambda>m. \<not> msg_height m < ?h) ?ms)"
  proof -
    have "inj_on components (set ?ms)"
      using ascending_by_distinct [OF asc] by (simp add: distinct_map)
    then have "components ` set ?ms - components ` {m \<in> set ?ms. msg_height m < ?h}
        = components ` (set ?ms - {m \<in> set ?ms. msg_height m < ?h})"
      by (intro inj_on_image_set_diff [symmetric]) auto
    then show ?thesis
      by (simp add: prune_messages_below_height_def Let_def take store_invD(2) [OF assms])
        (auto intro!: arg_cong [where f = "image components"])
  qed
  show "store_inv (prune_messages_below_height st)"
    using asc' keys ffm by (simp add: store_inv_def ms length_takeWhile_le)
  have "messages_received (prune_messages_below_height st) =
      Some (takeWhile (\<lambda>m. msg_height m \<le> ?h) (filter (\<lambda>m. \<not> msg_height m < ?h) ?ms))"
    by (simp add: messages_received_def slice_def ffm ms length_takeWhile_le take_length_takeWhile)
  also have "takeWhile (\<lambda>m. msg_height m \<le> ?h) (filter (\<lambda>m. \<not> msg_height m < ?h) ?ms)
      = filter (\<lambda>m. msg_height m = ?h) ?ms"
    by (subst takeWhile_eq_filter_sorted [OF sorted_wrt_filter [OF prefix(2)]])
      (auto intro!: filter_cong)
  finally show "messages_received (prune_messages_below_height st) =
      Some (filter (\<lambda>m. msg_height m = ?h) ?ms)" .
qed

lemma messages_received_Some:
  "store_inv st \<Longrightarrow>
    messages_received st = Some (take (ns_first_future_message st) (ns_messages_received st))"
  by (simp add: messages_received_def slice_def store_invD(3))

lemma set_messages_received_subset:
  "messages_received st = Some ms \<Longrightarrow> set ms \<subseteq> set (ns_messages_received st)"
  by (auto simp: messages_received_def slice_def dest: in_set_takeD split: if_splits)

lemma distinct_messages_received:
  "store_inv st \<Longrightarrow> messages_received st = Some ms \<Longrightarrow> distinct ms"
  using store_invD(1) [of st, THEN ascending_by_distinct]
  by (auto simp: messages_received_def slice_def distinct_map split: if_splits)

section \<open>Receiving messages\<close>

lemma add_one_cases:
  assumes "add_one L vs m st = Some st'"
  obtains (same) "st' = st"
  | (stored) "st' = insert_message_sorted m st" and "\<not> msg_height m < ns_height st"
      and "accept_message L vs (ns_blockchain st) m = Some True"
  using assms by (auto simp: add_one_def bind_eq_Some_conv split: if_splits)

lemma add_one_frame [node_frame]:
  assumes "add_one L vs m st = Some st'"
  shows "ns_blockchain st' = ns_blockchain st" and "ns_round st' = ns_round st"
    and "ns_local_time st' = ns_local_time st" and "ns_id st' = ns_id st"
    and "ns_configuration st' = ns_configuration st"
    and "ns_proposal_accepted st' = ns_proposal_accepted st"
    and "ns_last_prepared_block st' = ns_last_prepared_block st"
    and "ns_last_prepared_round st' = ns_last_prepared_round st"
    and "ns_private_key st' = ns_private_key st"
  using assms by (cases rule: add_one_cases; simp)+

lemma add_incoming_frame [node_frame]:
  assumes "add_incoming L vs ms st = Some st'"
  shows "ns_blockchain st' = ns_blockchain st" and "ns_round st' = ns_round st"
    and "ns_local_time st' = ns_local_time st" and "ns_id st' = ns_id st"
    and "ns_configuration st' = ns_configuration st"
    and "ns_proposal_accepted st' = ns_proposal_accepted st"
    and "ns_last_prepared_block st' = ns_last_prepared_block st"
    and "ns_last_prepared_round st' = ns_last_prepared_round st"
    and "ns_private_key st' = ns_private_key st"
  using assms by (induction ms arbitrary: st) (auto simp: bind_eq_Some_conv add_one_frame)

lemma add_incoming_store:
  "add_incoming L vs ms st = Some st' \<Longrightarrow> store_inv st \<Longrightarrow> store_inv st'"
proof (induction ms arbitrary: st)
  case (Cons m ms)
  then show ?case
    by (auto simp: bind_eq_Some_conv elim!: add_one_cases intro: store_inv_insert)
qed simp

text \<open>
  Whatever the loop adds passed the height test and all three checks against the chain
  and the validators at hand; nothing is lost.
\<close>

lemma add_incoming_stored:
  assumes "add_incoming L vs ms st = Some st'" and "store_inv st"
    and "m \<in> set (ns_messages_received st')"
  shows "m \<in> set (ns_messages_received st) \<or>
    m \<in> set ms \<and> \<not> msg_height m < ns_height st \<and> accept_message L vs (ns_blockchain st) m = Some True"
  using assms
proof (induction ms arbitrary: st)
  case (Cons x ms)
  then obtain st1 where st1: "add_one L vs x st = Some st1" "add_incoming L vs ms st1 = Some st'"
    by (auto simp: bind_eq_Some_conv)
  from st1(1) have "store_inv st1"
    using Cons.prems(2) by (cases rule: add_one_cases) (auto intro: store_inv_insert)
  from Cons.IH [OF st1(2) this Cons.prems(3)] add_one_frame(1) [OF st1(1)]
  have "m \<in> set (ns_messages_received st1) \<or>
    m \<in> set ms \<and> \<not> msg_height m < ns_height st \<and> accept_message L vs (ns_blockchain st) m = Some True"
    by simp
  with st1(1) show ?case
    by (cases rule: add_one_cases)
      (auto simp: set_insert_message_sorted [OF Cons.prems(2)] split: if_splits)
qed simp

lemma add_incoming_mono:
  assumes "add_incoming L vs ms st = Some st'" and "store_inv st"
  shows "set (ns_messages_received st) \<subseteq> set (ns_messages_received st')"
  using assms
proof (induction ms arbitrary: st)
  case (Cons x ms)
  then obtain st1 where st1: "add_one L vs x st = Some st1" "add_incoming L vs ms st1 = Some st'"
    by (auto simp: bind_eq_Some_conv)
  from st1(1) have "store_inv st1 \<and> set (ns_messages_received st) \<subseteq> set (ns_messages_received st1)"
    using Cons.prems(2) store.stored_mono by (cases rule: add_one_cases) (auto intro: store_inv_insert)
  with Cons.IH [OF st1(2)] show ?case by blast
qed simp

lemma prune_blockchain_frame [node_frame, simp]:
  "ns_messages_received (prune_blockchain st) = ns_messages_received st"
  "ns_message_keys (prune_blockchain st) = ns_message_keys st"
  "ns_first_future_message (prune_blockchain st) = ns_first_future_message st"
  "messages_received (prune_blockchain st) = messages_received st"
  "store_inv (prune_blockchain st) = store_inv st"
  "ns_height (prune_blockchain st) = ns_height st"
  "ns_blockchain (prune_blockchain st) = prune (ns_blockchain st)"
  "ns_round (prune_blockchain st) = ns_round st"
  "ns_local_time (prune_blockchain st) = ns_local_time st"
  "ns_id (prune_blockchain st) = ns_id st"
  "ns_configuration (prune_blockchain st) = ns_configuration st"
  "ns_proposal_accepted (prune_blockchain st) = ns_proposal_accepted st"
  "ns_last_prepared_block (prune_blockchain st) = ns_last_prepared_block st"
  "ns_last_prepared_round (prune_blockchain st) = ns_last_prepared_round st"
  "ns_private_key (prune_blockchain st) = ns_private_key st"
  by (simp_all add: prune_blockchain_def store_inv_def messages_received_def)

lemma add_messagesE:
  assumes "add_messages L ms time st = Some st'"
  obtains st1 where "add_incoming L (validators (ns_blockchain st)) ms (st\<lparr>ns_local_time := time\<rparr>) = Some st1"
    and "st' = prune_blockchain (prune_messages_below_height st1)"
  using assms by (auto simp: add_messages_def bind_eq_Some_conv)

lemma add_messages_frame [node_frame]:
  assumes "add_messages L ms time st = Some st'"
  shows "ns_blockchain st' = prune (ns_blockchain st)" and "ns_round st' = ns_round st"
    and "ns_local_time st' = time" and "ns_id st' = ns_id st"
    and "ns_configuration st' = ns_configuration st"
    and "ns_proposal_accepted st' = ns_proposal_accepted st"
    and "ns_last_prepared_block st' = ns_last_prepared_block st"
    and "ns_last_prepared_round st' = ns_last_prepared_round st"
    and "ns_private_key st' = ns_private_key st"
proof -
  obtain st1 where st1:
    "add_incoming L (validators (ns_blockchain st)) ms (st\<lparr>ns_local_time := time\<rparr>) = Some st1"
    and st': "st' = prune_blockchain (prune_messages_below_height st1)"
    using assms by (rule add_messagesE)
  note frame = add_incoming_frame [OF st1]
  show "ns_blockchain st' = prune (ns_blockchain st)" and "ns_round st' = ns_round st"
    and "ns_local_time st' = time" and "ns_id st' = ns_id st"
    and "ns_configuration st' = ns_configuration st"
    and "ns_proposal_accepted st' = ns_proposal_accepted st"
    and "ns_last_prepared_block st' = ns_last_prepared_block st"
    and "ns_last_prepared_round st' = ns_last_prepared_round st"
    and "ns_private_key st' = ns_private_key st"
    using frame by (simp_all add: st')
qed

lemma store_inv_add_messages:
  assumes "add_messages L ms time st = Some st'" and "store_inv st"
  shows "store_inv st'"
proof -
  obtain st1 where
    "add_incoming L (validators (ns_blockchain st)) ms (st\<lparr>ns_local_time := time\<rparr>) = Some st1"
    and st': "st' = prune_blockchain (prune_messages_below_height st1)"
    using assms(1) by (rule add_messagesE)
  moreover have "store_inv (st\<lparr>ns_local_time := time\<rparr>)"
    using assms(2) by (simp add: store_inv_def)
  ultimately have "store_inv st1" by (blast intro: add_incoming_store)
  then show ?thesis by (simp add: st' prune_messages_store(2))
qed

lemma add_messages_stored:
  assumes "add_messages L ms time st = Some st'" and "store_inv st"
    and "m \<in> set (ns_messages_received st')"
  shows "\<not> msg_height m < ns_height st"
    and "m \<in> set (ns_messages_received st) \<or>
      m \<in> set ms \<and> accept_message L (validators (ns_blockchain st)) (ns_blockchain st) m = Some True"
proof -
  obtain st1 where st1:
    "add_incoming L (validators (ns_blockchain st)) ms (st\<lparr>ns_local_time := time\<rparr>) = Some st1"
    and st': "st' = prune_blockchain (prune_messages_below_height st1)"
    using assms(1) by (rule add_messagesE)
  have inv: "store_inv (st\<lparr>ns_local_time := time\<rparr>)"
    using assms(2) by (simp add: store_inv_def)
  then have "store_inv st1" using add_incoming_store [OF st1] by blast
  with assms(3) have m: "m \<in> set (ns_messages_received st1)" "\<not> msg_height m < ns_height st1"
    by (auto simp: st' prune_messages_store(1))
  then show "\<not> msg_height m < ns_height st" using add_incoming_frame(1) [OF st1] by simp
  show "m \<in> set (ns_messages_received st) \<or>
      m \<in> set ms \<and> accept_message L (validators (ns_blockchain st)) (ns_blockchain st) m = Some True"
    using add_incoming_stored [OF st1 inv m(1)] by auto
qed

text \<open>After receiving, the index is fresh: the current view is the current height.\<close>

lemma messages_received_add_messages:
  assumes "add_messages L ms time st = Some st'" and "store_inv st"
  shows "messages_received st' =
    Some (filter (\<lambda>m. msg_height m = ns_height st') (ns_messages_received st'))"
proof -
  obtain st1 where st1:
    "add_incoming L (validators (ns_blockchain st)) ms (st\<lparr>ns_local_time := time\<rparr>) = Some st1"
    and st': "st' = prune_blockchain (prune_messages_below_height st1)"
    using assms(1) by (rule add_messagesE)
  have "store_inv (st\<lparr>ns_local_time := time\<rparr>)"
    using assms(2) by (simp add: store_inv_def)
  then have "store_inv st1" using add_incoming_store [OF st1] by blast
  then show ?thesis
    by (auto simp: st' prune_messages_store(1,3) intro: filter_cong)
qed

section \<open>Rounds within a height\<close>

text \<open>
  Slicing the current messages by round with two binary searches is filtering by round,
  as long as only consensus messages are stored: their key holds their round.
\<close>

lemma round_sorted:
  assumes "ascending_by components ms" and "\<forall>m\<in>set ms. msg_height m = h \<and> \<not> is_sync m"
  shows "sorted_wrt (\<lambda>x y. msg_round x \<le> msg_round y) ms"
proof (rule sorted_wrt_mono_rel [OF _ assms(1)])
  fix x y
  assume xy: "x \<in> set ms" "y \<in> set ms" "components x < components y"
  have "fst (components x) = fst (components y)" using xy assms(2) by simp
  with xy(3) have "fst (snd (components x)) \<le> fst (snd (components y))"
    by (auto simp: less_prod_def' less_le)
  with xy(1,2) assms(2) show "msg_round x \<le> msg_round y" by (simp add: components_round)
qed

lemma slice_by_round:
  assumes "sorted_wrt (\<lambda>x y. msg_round x \<le> msg_round y) ms" and "ms = take n all"
  shows "slice all (partition_point (\<lambda>m. msg_round m < r) ms) (partition_point (\<lambda>m. msg_round m \<le> r) ms)
    = Some (filter (\<lambda>m. msg_round m = r) ms)"
proof -
  have prefix: "sorted_wrt (\<lambda>x y. msg_round y < r \<longrightarrow> msg_round x < r) ms"
      "sorted_wrt (\<lambda>x y. msg_round y \<le> r \<longrightarrow> msg_round x \<le> r) ms"
    by (rule sorted_wrt_mono_rel [OF _ assms(1)]; fastforce)+
  let ?lo = "length (takeWhile (\<lambda>m. msg_round m < r) ms)"
  let ?hi = "length (takeWhile (\<lambda>m. msg_round m \<le> r) ms)"
  have le: "?lo \<le> ?hi"
    unfolding takeWhile_eq_filter_sorted [OF prefix(1)] takeWhile_eq_filter_sorted [OF prefix(2)]
    by (induction ms) auto
  have hi: "?hi \<le> length ms" by (rule length_takeWhile_le)
  have "take (?hi - ?lo) (drop ?lo ms) = drop ?lo (take ?hi ms)"
    by (simp add: drop_take)
  also have "\<dots> = drop ?lo (filter (\<lambda>m. msg_round m \<le> r) ms)"
    by (simp add: take_length_takeWhile takeWhile_eq_filter_sorted [OF prefix(2), symmetric])
  also have "\<dots> = dropWhile (\<lambda>m. msg_round m < r) (filter (\<lambda>m. msg_round m \<le> r) ms)"
  proof -
    have "takeWhile (\<lambda>m. msg_round m < r) (filter (\<lambda>m. msg_round m \<le> r) ms)
        = takeWhile (\<lambda>m. msg_round m < r) ms"
      unfolding takeWhile_eq_filter_sorted [OF prefix(1)]
        takeWhile_eq_filter_sorted [OF sorted_wrt_filter [OF prefix(1)]]
      by (auto intro: filter_cong)
    then show ?thesis by (simp add: dropWhile_eq_drop)
  qed
  also have "\<dots> = filter (\<lambda>m. msg_round m = r) ms"
    unfolding dropWhile_eq_filter_sorted [OF sorted_wrt_filter [OF prefix(1)]]
    by (auto intro: filter_cong)
  finally have "take (?hi - ?lo) (drop ?lo ms) = filter (\<lambda>m. msg_round m = r) ms" .
  moreover have "take (?hi - ?lo) (drop ?lo all) = take (?hi - ?lo) (drop ?lo ms)"
  proof -
    have "?hi \<le> n" using hi assms(2) by simp
    then have "take ?hi all = take ?hi ms" using assms(2) by (simp add: min_absorb1)
    then show ?thesis by (metis drop_take)
  qed
  moreover have "?hi \<le> length all" using hi assms(2) by simp
  ultimately show ?thesis
    unfolding partition_point_takeWhile [OF prefix(1)] partition_point_takeWhile [OF prefix(2)]
    using le by (simp add: slice_def)
qed

lemma messages_received_at_round_filter:
  assumes "store_inv st" and "messages_received st = Some ms"
    and "\<forall>m\<in>set ms. msg_height m = ns_height st \<and> \<not> is_sync m"
  shows "messages_received_at_round r st = Some (filter (\<lambda>m. msg_round m = r) ms)"
proof -
  have ms: "ms = take (ns_first_future_message st) (ns_messages_received st)"
    using messages_received_Some [OF assms(1)] assms(2) by simp
  have "ascending_by components ms"
    using store_invD(1) [OF assms(1)] by (simp add: ms sorted_wrt_take)
  then have "sorted_wrt (\<lambda>x y. msg_round x \<le> msg_round y) ms"
    using assms(3) by (rule round_sorted)
  from slice_by_round [OF this ms] show ?thesis
    by (simp add: messages_received_at_round_def assms(2))
qed

lemma set_messages_received_at_round:
  "messages_received_at_round r st = Some ms \<Longrightarrow> set ms \<subseteq> set (ns_messages_received st)"
  by (auto simp: messages_received_at_round_def slice_def bind_eq_Some_conv
      dest!: in_set_takeD in_set_dropD split: if_splits)

end
