(* ===== verification/Node_Aux.thy ===== *)
theory Node_Aux
  imports Node_State
begin

text \<open>
  The auxiliary functions of \<open>node_auxilliary_functions.rs\<close>: signing, the justification
  of proposals, round changes, and the validity predicates for prepares, commits and new
  blocks.  Functions that sign or slice the message store may panic and return an option.
\<close>

section \<open>Signing\<close>

text \<open>\<open>private_key().expect(...)\<close>, then \<open>Signature::sign_message\<close>.\<close>

definition sign_bytes :: "libs \<Rightarrow> node_state \<Rightarrow> bytes \<Rightarrow> signature option" where
  "sign_bytes L st msg = do {
     k \<leftarrow> ns_private_key st;
     sign_message L msg k
   }"

definition sign_proposal :: "libs \<Rightarrow> unsigned_proposal \<Rightarrow> node_state \<Rightarrow> signed_proposal option" where
  "sign_proposal L msg st = do {
     s \<leftarrow> sign_bytes L st (enc_unsigned_proposal L msg);
     Some \<lparr>sprop_payload = msg, sprop_signature = s\<rparr>
   }"

definition sign_prepare :: "libs \<Rightarrow> unsigned_prepare \<Rightarrow> node_state \<Rightarrow> signed_prepare option" where
  "sign_prepare L msg st = do {
     s \<leftarrow> sign_bytes L st (enc_unsigned_prepare L msg);
     Some \<lparr>sprep_payload = msg, sprep_signature = s\<rparr>
   }"

definition sign_commit :: "libs \<Rightarrow> unsigned_commit \<Rightarrow> node_state \<Rightarrow> signed_commit option" where
  "sign_commit L msg st = do {
     s \<leftarrow> sign_bytes L st (enc_unsigned_commit L msg);
     Some \<lparr>scom_payload = msg, scom_signature = s\<rparr>
   }"

definition sign_round_change ::
    "libs \<Rightarrow> unsigned_round_change \<Rightarrow> node_state \<Rightarrow> signed_round_change option" where
  "sign_round_change L msg st = do {
     enc \<leftarrow> encode_unsigned_round_change L msg;
     s \<leftarrow> sign_bytes L st enc;
     Some \<lparr>src_payload = msg, src_signature = s\<rparr>
   }"

definition sign_new_block :: "libs \<Rightarrow> block \<Rightarrow> node_state \<Rightarrow> signed_new_block option" where
  "sign_new_block L b st =
     (let unsigned = \<lparr>unb_height = block_height b, unb_round = block_round b, unb_digest = digest L b\<rparr> in
      do {
        s \<leftarrow> sign_bytes L st (enc_unsigned_new_block L unsigned);
        Some \<lparr>snb_payload = unsigned, snb_signature = s, snb_block = b\<rparr>
      })"

definition sign_hash :: "libs \<Rightarrow> hash \<Rightarrow> node_state \<Rightarrow> signature option" where
  "sign_hash L h st = sign_bytes L st (hash_bytes L h)"

definition recover_signed_hash_author :: "hash \<Rightarrow> signature \<Rightarrow> address" where
  "recover_signed_hash_author h s = sig_author s"

section \<open>Votes\<close>

definition valid_signed_prepare_for_height_round_and_digest ::
    "signed_prepare \<Rightarrow> u64 \<Rightarrow> u64 \<Rightarrow> hash \<Rightarrow> address list \<Rightarrow> bool" where
  "valid_signed_prepare_for_height_round_and_digest s h r d vs \<longleftrightarrow>
     uprep_height (sprep_payload s) = h
     \<and> uprep_round (sprep_payload s) = r
     \<and> uprep_digest (sprep_payload s) = d
     \<and> recover_signed_prepare_author s \<in> set vs"

definition prepare_for :: "u64 \<Rightarrow> u64 \<Rightarrow> hash \<Rightarrow> qbft_message \<Rightarrow> signed_prepare option" where
  "prepare_for h r d m =
     (case m of
        Prepare p \<Rightarrow>
          (let u = sprep_payload (prep_payload p) in
           if uprep_height u = h \<and> uprep_round u = r \<and> uprep_digest u = d
           then Some (prep_payload p) else None)
      | _ \<Rightarrow> None)"

definition valid_prepares_for_height_round_and_digest ::
    "u64 \<Rightarrow> u64 \<Rightarrow> hash \<Rightarrow> qbft_message list \<Rightarrow> signed_prepare list" where
  "valid_prepares_for_height_round_and_digest h r d ms = filter_map (prepare_for h r d) ms"

definition valid_prepares_for_height_round_and_digest_messages ::
    "qbft_message list \<Rightarrow> u64 \<Rightarrow> u64 \<Rightarrow> hash \<Rightarrow> address list \<Rightarrow> qbft_message list" where
  "valid_prepares_for_height_round_and_digest_messages ms h r d vs =
     filter (\<lambda>m. case m of
               Prepare p \<Rightarrow> valid_signed_prepare_for_height_round_and_digest (prep_payload p) h r d vs
             | _ \<Rightarrow> False) ms"

definition validate_commit ::
    "libs \<Rightarrow> signed_commit \<Rightarrow> u64 \<Rightarrow> u64 \<Rightarrow> block \<Rightarrow> address list \<Rightarrow> bool" where
  "validate_commit L c h r b vs \<longleftrightarrow>
     ucom_height (scom_payload c) = h
     \<and> ucom_round (scom_payload c) = r
     \<and> ucom_digest (scom_payload c) = digest L b
     \<and> recover_signed_commit_author c \<in> set vs"

definition commit_for :: "u64 \<Rightarrow> u64 \<Rightarrow> hash \<Rightarrow> qbft_message \<Rightarrow> signed_commit option" where
  "commit_for h r d m =
     (case m of
        Commit c \<Rightarrow>
          (let u = scom_payload (com_payload c) in
           if ucom_height u = h \<and> ucom_round u = r \<and> ucom_digest u = d
           then Some (com_payload c) else None)
      | _ \<Rightarrow> None)"

definition valid_commits_for_height_round_and_digest ::
    "u64 \<Rightarrow> u64 \<Rightarrow> hash \<Rightarrow> qbft_message list \<Rightarrow> signed_commit list" where
  "valid_commits_for_height_round_and_digest h r d ms = filter_map (commit_for h r d) ms"

text \<open>Round-0 progress: distinct validators that prepared or committed the accepted block.\<close>

definition round_zero_progress_counts :: "libs \<Rightarrow> node_state \<Rightarrow> (nat \<times> nat) option option" where
  "round_zero_progress_counts L st =
     (if ns_round st \<noteq> 0 then Some None
      else (case ns_proposal_accepted st of
              None \<Rightarrow> Some None
            | Some p \<Rightarrow> do {
                ms \<leftarrow> messages_received st;
                let h = ns_height st;
                    d = digest L (prop_block p);
                    vs = validators (ns_blockchain st);
                    ps = filter (\<lambda>a. a \<in> set vs) (map recover_signed_prepare_author
                           (valid_prepares_for_height_round_and_digest h 0 d ms));
                    cs = filter (\<lambda>a. a \<in> set vs) (map recover_signed_commit_author
                           (valid_commits_for_height_round_and_digest h 0 d ms))
                in Some (Some (card (set ps), card (set cs)))
              }))"

section \<open>Round changes\<close>

definition received_prepares :: "node_state \<Rightarrow> signed_prepare list option" where
  "received_prepares st = do {
     ms \<leftarrow> messages_received st;
     Some (filter_map (\<lambda>m. case m of Prepare p \<Rightarrow> Some (prep_payload p) | _ \<Rightarrow> None) ms)
   }"

definition extract_signed_prepares :: "prepare list \<Rightarrow> signed_prepare list" where
  "extract_signed_prepares ps = map prep_payload ps"

definition received_round_changes :: "node_state \<Rightarrow> round_change list option" where
  "received_round_changes st = do {
     ms \<leftarrow> messages_received st;
     Some (filter_map (\<lambda>m. case m of RoundChange rc \<Rightarrow> Some rc | _ \<Rightarrow> None) ms)
   }"

definition future_round_change :: "node_state \<Rightarrow> qbft_message \<Rightarrow> signed_round_change option" where
  "future_round_change st m =
     (case m of
        RoundChange rc \<Rightarrow>
          if urc_height (src_payload (rc_payload rc)) = ns_height st
             \<and> urc_round (src_payload (rc_payload rc)) > ns_round st
          then Some (rc_payload rc) else None
      | _ \<Rightarrow> None)"

definition received_signed_round_changes_for_current_height_and_future_rounds ::
    "node_state \<Rightarrow> signed_round_change list option" where
  "received_signed_round_changes_for_current_height_and_future_rounds st = do {
     ms \<leftarrow> messages_received st;
     Some (filter_map (future_round_change st) ms)
   }"

definition extract_signed_round_changes :: "round_change list \<Rightarrow> signed_round_change list" where
  "extract_signed_round_changes rcs = map rc_payload rcs"

definition get_set_of_round_change_senders :: "signed_round_change list \<Rightarrow> address set" where
  "get_set_of_round_change_senders rcs = set (map recover_signed_round_change_author rcs)"

definition received_blocks_in_round_changes :: "round_change list \<Rightarrow> block list" where
  "received_blocks_in_round_changes rcs = remdups_adj (sort (filter_map rc_proposed_block rcs))"

definition validate_non_prepared_block :: "block \<Rightarrow> blockchain \<Rightarrow> u64 \<Rightarrow> bool" where
  "validate_non_prepared_block b bc r \<longleftrightarrow>
     bh_proposer (blk_header b) = proposer r bc \<and> block_validators b \<noteq> []"

definition valid_round_change :: "signed_round_change \<Rightarrow> u64 \<Rightarrow> u64 \<Rightarrow> address list \<Rightarrow> bool" where
  "valid_round_change s h r vs \<longleftrightarrow>
     urc_height (src_payload s) = h
     \<and> urc_round (src_payload s) = r
     \<and> (case (urc_prepared_round (src_payload s), urc_prepared_value (src_payload s)) of
          (None, None) \<Rightarrow> True
        | (Some pr, Some _) \<Rightarrow> pr < r
        | _ \<Rightarrow> False)
     \<and> recover_signed_round_change_author s \<in> set vs"

definition is_highest_prepared :: "signed_round_change \<Rightarrow> signed_round_change list \<Rightarrow> bool" where
  "is_highest_prepared s rcs \<longleftrightarrow>
     urc_prepared_round (src_payload s) \<noteq> None
     \<and> urc_prepared_value (src_payload s) \<noteq> None
     \<and> list_all (\<lambda>m. case urc_prepared_round (src_payload m) of
                       Some mr \<Rightarrow> (case urc_prepared_round (src_payload s) of
                                     Some sr \<Rightarrow> mr \<le> sr | None \<Rightarrow> False)
                     | None \<Rightarrow> True) rcs"

definition min_round :: "signed_round_change list \<Rightarrow> u64" where
  "min_round rcs =
     (case vec_min (map (\<lambda>rc. urc_round (src_payload rc)) rcs) of Some r \<Rightarrow> r | None \<Rightarrow> 0)"

section \<open>Justification of proposals\<close>

text \<open>The block as it was proposed in an earlier round: that round and its proposer.\<close>

definition block_at_round :: "block \<Rightarrow> u64 \<Rightarrow> blockchain \<Rightarrow> block" where
  "block_at_round b r bc =
     (let b' = replace_round_in_block b r in
      b'\<lparr>blk_header := (blk_header b')\<lparr>bh_proposer := proposer r bc\<rparr>\<rparr>)"

text \<open>\<open>HashMap::entry(r).or_default().push(x)\<close> on an association list.\<close>

fun push_entry :: "'k \<Rightarrow> 'a \<Rightarrow> ('k \<times> 'a list) list \<Rightarrow> ('k \<times> 'a list) list" where
  "push_entry k x [] = [(k, [x])]"
| "push_entry k x ((k', xs) # m) =
     (if k' = k then (k', xs @ [x]) # m else (k', xs) # push_entry k x m)"

definition prepared_support ::
    "libs \<Rightarrow> block \<Rightarrow> blockchain \<Rightarrow> signed_round_change list
      \<Rightarrow> (u64 \<times> signed_round_change list) list" where
  "prepared_support L b bc rcs =
     fold (\<lambda>rc m.
       case (urc_prepared_round (src_payload rc), urc_prepared_value (src_payload rc)) of
         (Some pr, Some pv) \<Rightarrow> if digest L (block_at_round b pr bc) \<noteq> pv then m else push_entry pr rc m
       | _ \<Rightarrow> m) rcs []"

definition highest_prepared_round ::
    "nat \<Rightarrow> (u64 \<times> signed_round_change list) list \<Rightarrow> u64 option" where
  "highest_prepared_round support_quorum support =
     vec_max (filter_map (\<lambda>(r, changes).
       if card (get_set_of_round_change_senders changes) < support_quorum then None else Some r) support)"

text \<open>The last condition of the prepared case, for one round change of the justification.\<close>

definition matches_prepared ::
    "libs \<Rightarrow> signed_prepare list \<Rightarrow> u64 \<Rightarrow> block \<Rightarrow> address list \<Rightarrow> blockchain \<Rightarrow> u64
      \<Rightarrow> signed_round_change \<Rightarrow> bool" where
  "matches_prepared L prepares h b vs bc prepared_round rcm =
     (if urc_prepared_round (src_payload rcm) \<noteq> Some prepared_round then False
      else (case (urc_prepared_round (src_payload rcm), urc_prepared_value (src_payload rcm)) of
              (Some pr, Some pv) \<Rightarrow>
                if pv \<noteq> digest L (block_at_round b pr bc) then False
                else list_all (\<lambda>pm. valid_signed_prepare_for_height_round_and_digest pm h pr pv vs)
                       prepares
            | _ \<Rightarrow> False))"

definition is_proposal_justification ::
    "libs \<Rightarrow> signed_round_change list \<Rightarrow> signed_prepare list \<Rightarrow> block list \<Rightarrow> u64 \<Rightarrow> u64 \<Rightarrow> block
      \<Rightarrow> (block \<Rightarrow> bool) \<Rightarrow> address \<Rightarrow> address list \<Rightarrow> blockchain \<Rightarrow> bool" where
  "is_proposal_justification L rcs prepares available h r b validate_block leader vs bc =
     (if r = 0 then
        validate_block b \<and> block_round b = 0 \<and> block_height b = h
        \<and> bh_proposer (blk_header b) = leader
      else
        let quorum_size = quorum (length vs) in
        if card (get_set_of_round_change_senders rcs) < quorum_size then False
        else if \<not> list_all (\<lambda>m. valid_round_change m h r vs) rcs then False
        else
          let support = prepared_support L b bc rcs in
          (case highest_prepared_round (f (length vs) + 1) support of
             Some prepared_round \<Rightarrow>
               if \<not> list_ex (\<lambda>a. round_sort_key L a = round_sort_key L b) available then False
               else if block_height b \<noteq> h then False
               else
                 let matching = (case map_of support prepared_round of Some xs \<Rightarrow> xs | None \<Rightarrow> []) in
                 if card (get_set_of_round_change_senders matching) < quorum_size then False
                 else if card (set (map recover_signed_prepare_author prepares)) < quorum_size
                 then False
                 else list_ex (matches_prepared L prepares h b vs bc prepared_round) rcs
           | None \<Rightarrow>
               validate_block b \<and> block_round b = r \<and> block_height b = h
               \<and> bh_proposer (blk_header b) = leader))"

definition is_valid_proposal :: "libs \<Rightarrow> proposal \<Rightarrow> node_state \<Rightarrow> bool" where
  "is_valid_proposal L m st =
     (let u = sprop_payload (prop_payload m); bc = ns_blockchain st; r = uprop_round u;
          leader = proposer r bc
      in
      if uprop_height u \<noteq> height bc then False
      else if recover_signed_proposal_author (prop_payload m) \<noteq> leader then False
      else if \<not> is_proposal_justification L (prop_justification m) (prop_rc_justification m)
                 [prop_block m] (height bc) r (prop_block m)
                 (\<lambda>b. validate_non_prepared_block b bc r) leader (validators bc) bc then False
      else if uprop_digest u \<noteq> digest L (prop_block m) then False
      else if ns_proposal_accepted st = None then r = ns_round st
      else r > ns_round st)"

definition valid_proposal :: "libs \<Rightarrow> node_state \<Rightarrow> proposal option" where
  "valid_proposal L st =
     find_map (\<lambda>m. case m of
                 Proposal p \<Rightarrow> if is_valid_proposal L p st then Some p else None
               | _ \<Rightarrow> None) (ns_messages_received st)"

definition is_proposal_justification_round_valid :: "u64 \<Rightarrow> node_state \<Rightarrow> bool" where
  "is_proposal_justification_round_valid r st \<longleftrightarrow>
     (if ns_proposal_accepted st = None then r = ns_round st else r > ns_round st)"

definition is_received_proposal_justification ::
    "libs \<Rightarrow> round_change list \<Rightarrow> prepare list \<Rightarrow> u64 \<Rightarrow> block \<Rightarrow> node_state \<Rightarrow> bool" where
  "is_received_proposal_justification L rcs prepares r b st =
     (let bc = ns_blockchain st; h = height bc;
          signed_prepares = extract_signed_prepares prepares
            @ concat (map (\<lambda>rc. filter (\<lambda>p. uprep_height (sprep_payload p) = h
                                           \<and> uprep_round (sprep_payload p) = r) (rc_justification rc)) rcs)
      in
      if \<not> is_proposal_justification L (extract_signed_round_changes rcs) signed_prepares
             (received_blocks_in_round_changes rcs) h r b
             (\<lambda>b'. validate_non_prepared_block b' bc r) (proposer r bc) (validators bc) bc then False
      else is_proposal_justification_round_valid r st)"

definition valid_round_changes :: "node_state \<Rightarrow> u64 \<Rightarrow> round_change list option" where
  "valid_round_changes st r = do {
     ms \<leftarrow> messages_received_at_round r st;
     Some (filter_map (\<lambda>m. case m of
        RoundChange rc \<Rightarrow>
          if valid_round_change (rc_payload rc) (ns_height st) r (validators (ns_blockchain st))
          then Some rc else None
      | _ \<Rightarrow> None) ms)
   }"

definition valid_prepares :: "node_state \<Rightarrow> u64 \<Rightarrow> prepare list option" where
  "valid_prepares st r = do {
     ms \<leftarrow> messages_received_at_round r st;
     Some (filter_map (\<lambda>m. case m of
        Prepare p \<Rightarrow>
          if uprep_height (sprep_payload (prep_payload p)) = ns_height st
             \<and> uprep_round (sprep_payload (prep_payload p)) = r
          then Some p else None
      | _ \<Rightarrow> None) ms)
   }"

text \<open>
  One iteration of the loop over candidate rounds: \<open>Some None\<close> is \<open>continue\<close>, a
  justification is the \<open>return\<close>.
\<close>

definition justification_for_round ::
    "libs \<Rightarrow> node_state \<Rightarrow> u64 \<Rightarrow> proposal_justification option option" where
  "justification_for_round L st r =
     (if proposer r (ns_blockchain st) \<noteq> ns_id st then Some None
      else do {
        rcs \<leftarrow> valid_round_changes st r;
        let available = received_blocks_in_round_changes rcs;
        let highest = vec_max (filter_map (\<lambda>rc. urc_prepared_round (src_payload (rc_payload rc)))
                        (filter (\<lambda>rc. urc_prepared_value (src_payload (rc_payload rc)) \<noteq> None) rcs));
        prepares \<leftarrow> (case highest of Some hp \<Rightarrow> valid_prepares st hp | None \<Rightarrow> Some []);
        Some (case find (\<lambda>b. is_received_proposal_justification L rcs prepares r b st) available of
                Some b \<Rightarrow>
                  Some \<lparr>pj_round = r, pj_round_changes = rcs, pj_prepares = prepares, pj_block = b\<rparr>
              | None \<Rightarrow>
                  (case get_new_block r st of
                     None \<Rightarrow> None
                   | Some b \<Rightarrow>
                       if is_received_proposal_justification L rcs prepares r b st
                       then Some \<lparr>pj_round = r, pj_round_changes = rcs, pj_prepares = prepares,
                                  pj_block = b\<rparr>
                       else None))
      })"

fun first_justification ::
    "libs \<Rightarrow> node_state \<Rightarrow> u64 list \<Rightarrow> proposal_justification option option" where
  "first_justification L st [] = Some None"
| "first_justification L st (r # rs) = do {
     found \<leftarrow> justification_for_round L st r;
     (case found of Some pj \<Rightarrow> Some (Some pj) | None \<Rightarrow> first_justification L st rs)
   }"

definition has_received_proposal_justification ::
    "libs \<Rightarrow> node_state \<Rightarrow> proposal_justification option option" where
  "has_received_proposal_justification L st = do {
     ms \<leftarrow> messages_received st;
     let rounds = remdups_adj (filter (\<lambda>r. is_proposal_justification_round_valid r st) (map msg_round ms));
     (if rounds = [] then Some None else first_justification L st rounds)
   }"

definition get_round_change_justification :: "libs \<Rightarrow> node_state \<Rightarrow> signed_prepare list option" where
  "get_round_change_justification L st =
     (case ns_last_prepared_block st of
        None \<Rightarrow> Some []
      | Some b \<Rightarrow> do {
          r \<leftarrow> ns_last_prepared_round st;
          ms \<leftarrow> messages_received st;
          let ps = valid_prepares_for_height_round_and_digest (ns_height st) r (digest L b) ms;
          Some (if length ps \<ge> quorum (length (validators (ns_blockchain st))) then ps else [])
        })"

definition create_round_change :: "libs \<Rightarrow> node_state \<Rightarrow> u64 \<Rightarrow> round_change option" where
  "create_round_change L st r = do {
     payload \<leftarrow> sign_round_change L
       \<lparr>urc_height = ns_height st, urc_round = r,
        urc_prepared_value = map_option (digest L) (ns_last_prepared_block st),
        urc_prepared_round = ns_last_prepared_round st\<rparr> st;
     just \<leftarrow> get_round_change_justification L st;
     Some \<lparr>rc_payload = payload, rc_justification = just,
           rc_proposed_block = ns_last_prepared_block st\<rparr>
   }"

section \<open>New blocks\<close>

definition seal_ok :: "libs \<Rightarrow> hash \<Rightarrow> address list \<Rightarrow> signature \<Rightarrow> bool" where
  "seal_ok L seal_hash vs seal \<longleftrightarrow>
     sig_author seal \<in> set vs
     \<and> (case verify_message L seal (hash_bytes L seal_hash) of Some ok \<Rightarrow> ok | None \<Rightarrow> False)"

definition valid_new_block :: "libs \<Rightarrow> blockchain \<Rightarrow> signed_new_block \<Rightarrow> bool" where
  "valid_new_block L bc nb =
     (let b = snb_block nb; payload = snb_payload nb; vs = validators bc;
          quorum_size = quorum (length vs)
      in
      if unb_height payload \<noteq> block_height b then False
      else if unb_round payload \<noteq> block_round b then False
      else if unb_digest payload \<noteq> digest L b then False
      else
        block_height b \<ge> height bc
        \<and> validate_digest L b
        \<and> length (remdups_adj (sort (map sig_author (block_seals b)))) \<ge> quorum_size
        \<and> list_all (seal_ok L (hash_block_for_commit_seal L b) vs) (block_seals b))"

definition valid_new_block_message :: "libs \<Rightarrow> blockchain \<Rightarrow> qbft_message \<Rightarrow> bool" where
  "valid_new_block_message L bc m = (case m of NewBlock nb \<Rightarrow> valid_new_block L bc nb | _ \<Rightarrow> False)"

section \<open>State validity\<close>

text \<open>The index \<open>blocks()[len - 2]\<close> panics when the deque holds the head only.\<close>

definition state_blockchain_invariant :: "blockchain \<Rightarrow> bool option" where
  "state_blockchain_invariant bc =
     (if height bc = 0 then Some False
      else do {
        proposer_check \<leftarrow>
          (if height bc > 1
           then (if bc_older bc = [] then None
                 else Some (bh_proposer (blk_header (bc_head bc)) \<in> set (block_validators (last (bc_older bc)))))
           else Some True);
        Some (proposer_check \<and> validators bc \<noteq> [])
      })"

definition valid_node_state :: "libs \<Rightarrow> node_state \<Rightarrow> bool option" where
  "valid_node_state L st = do {
     prepared_quorum_check \<leftarrow>
       (case (ns_last_prepared_round st, ns_last_prepared_block st) of
          (Some pr, Some pb) \<Rightarrow> do {
            ms \<leftarrow> messages_received_at_round pr st;
            Some (length (valid_prepares_for_height_round_and_digest_messages ms (ns_height st) pr
                            (digest L pb) (validators (ns_blockchain st)))
                  \<ge> quorum (length (validators (ns_blockchain st))))
          }
        | _ \<Rightarrow> Some True);
     blockchain_invariant \<leftarrow> state_blockchain_invariant (ns_blockchain st);
     Some ((ns_last_prepared_round st = None) = (ns_last_prepared_block st = None)
           \<and> prepared_quorum_check \<and> blockchain_invariant)
   }"

end
