(* ===== verification/Node.thy ===== *)
theory Node
  imports Node_Aux
begin

text \<open>
  The transitions of \<open>node.rs\<close>.  A handler takes the state and returns, unless it
  panics, the messages to send (\<^const>\<open>None\<close> when it does not apply) and the new state.
  The state is returned in both cases because the round-timeout handler updates its
  progress marker even when it then declines to change round.
\<close>

type_synonym outbox = "qbft_message_with_recipient list"
type_synonym transition = "(outbox option \<times> node_state) option"

section \<open>Normal case\<close>

definition make_proposal ::
    "libs \<Rightarrow> node_state \<Rightarrow> u64 \<Rightarrow> block \<Rightarrow> signed_round_change list \<Rightarrow> signed_prepare list \<Rightarrow> proposal option" where
  "make_proposal L st r b just rc_just = do {
     payload \<leftarrow> sign_proposal L
       \<lparr>uprop_height = ns_height st, uprop_round = r, uprop_digest = digest L b\<rparr> st;
     Some \<lparr>prop_payload = payload, prop_block = b, prop_justification = just,
           prop_rc_justification = rc_just\<rparr>
   }"

definition make_prepare :: "libs \<Rightarrow> node_state \<Rightarrow> u64 \<Rightarrow> block \<Rightarrow> prepare option" where
  "make_prepare L st r b = do {
     payload \<leftarrow> sign_prepare L
       \<lparr>uprep_height = ns_height st, uprep_round = r, uprep_digest = digest L b\<rparr> st;
     Some \<lparr>prep_payload = payload\<rparr>
   }"

definition make_commit :: "libs \<Rightarrow> node_state \<Rightarrow> u64 \<Rightarrow> block \<Rightarrow> commit option" where
  "make_commit L st r b = do {
     seal \<leftarrow> sign_hash L (hash_block_for_commit_seal L b) st;
     payload \<leftarrow> sign_commit L
       \<lparr>ucom_height = ns_height st, ucom_round = r, ucom_commit_seal = seal,
        ucom_digest = digest L b\<rparr> st;
     Some \<lparr>com_payload = payload\<rparr>
   }"

definition upon_block_timeout :: "libs \<Rightarrow> node_state \<Rightarrow> transition" where
  "upon_block_timeout L st =
     (if \<not> upon_block_timeout_ready st then Some (None, st)
      else (case get_new_block 0 st of
              None \<Rightarrow> Some (None, st)
            | Some b \<Rightarrow> do {
                p \<leftarrow> make_proposal L st 0 b [] [];
                prepare \<leftarrow> make_prepare L st 0 b;
                let st' = st\<lparr>ns_proposal_accepted := Some p,
                             ns_time_last_round_start := ns_local_time st\<rparr>;
                Some (Some (multicast (validators (ns_blockchain st')) (Proposal p)
                            @ multicast (validators (ns_blockchain st')) (Prepare prepare)), st')
              }))"

definition find_valid_proposal :: "libs \<Rightarrow> node_state \<Rightarrow> qbft_message list \<Rightarrow> proposal option" where
  "find_valid_proposal L st ms =
     find_map (\<lambda>m. case m of
                 Proposal p \<Rightarrow> if is_valid_proposal L p st then Some p else None
               | _ \<Rightarrow> None) ms"

definition upon_proposal :: "libs \<Rightarrow> node_state \<Rightarrow> transition" where
  "upon_proposal L st = do {
     ms \<leftarrow> messages_received st;
     (case find_valid_proposal L st ms of
        None \<Rightarrow> Some (None, st)
      | Some p \<Rightarrow> do {
          let r = uprop_round (sprop_payload (prop_payload p));
          prepare \<leftarrow> make_prepare L st r (prop_block p);
          let st1 = st\<lparr>ns_proposal_accepted := Some p\<rparr>;
          let st2 = (if r > ns_round st1
                     then st1\<lparr>ns_time_last_round_start := ns_local_time st1\<rparr> else st1);
          let st3 = push_message (Prepare prepare) (st2\<lparr>ns_round := r\<rparr>);
          Some (Some (multicast (validators (ns_blockchain st3)) (Prepare prepare)), st3)
        })
   }"

definition has_sent_commit :: "node_state \<Rightarrow> qbft_message list \<Rightarrow> bool" where
  "has_sent_commit st ms =
     list_ex (\<lambda>m. case m of
                Commit c \<Rightarrow>
                  ucom_height (scom_payload (com_payload c)) = ns_height st
                  \<and> ucom_round (scom_payload (com_payload c)) = ns_round st
                  \<and> recover_signed_commit_author (com_payload c) = ns_id st
              | _ \<Rightarrow> False) ms"

definition upon_prepare :: "libs \<Rightarrow> node_state \<Rightarrow> transition" where
  "upon_prepare L st =
     (case ns_proposal_accepted st of
        None \<Rightarrow> Some (None, st)
      | Some p \<Rightarrow> do {
          ms \<leftarrow> messages_received st;
          let valid = valid_prepares_for_height_round_and_digest (ns_height st) (ns_round st)
                        (digest L (prop_block p)) ms;
          (if length valid < quorum (length (validators (ns_blockchain st))) then Some (None, st)
           else if has_sent_commit st ms then Some (None, st)
           else do {
             c \<leftarrow> make_commit L st (ns_round st) (prop_block p);
             let st' = push_message (Commit c)
                         (set_last_prepared_block_and_round (prop_block p) (ns_round st) st);
             Some (Some (multicast (validators (ns_blockchain st')) (Commit c)), st')
           })
        })"

definition get_commit_seals_from_commit_messages :: "signed_commit list \<Rightarrow> signature list" where
  "get_commit_seals_from_commit_messages cs = map (\<lambda>c. ucom_commit_seal (scom_payload c)) cs"

definition with_commit_seals :: "block \<Rightarrow> signature list \<Rightarrow> block" where
  "with_commit_seals b seals = b\<lparr>blk_header := (blk_header b)\<lparr>bh_commit_seals := seals\<rparr>\<rparr>"

text \<open>Adopting a block as the new head, and starting round 0 of the next height.\<close>

definition advance_head :: "block \<Rightarrow> node_state \<Rightarrow> node_state" where
  "advance_head b st =
     (let st1 = st\<lparr>ns_blockchain := set_proposed_block None (set_head b (ns_blockchain st))\<rparr> in
      new_round 0 (max (ns_local_time st1) (next_block_timeout st1)) None st1)"

definition upon_commit :: "libs \<Rightarrow> node_state \<Rightarrow> transition" where
  "upon_commit L st =
     (case ns_proposal_accepted st of
        None \<Rightarrow> Some (None, st)
      | Some p \<Rightarrow>
          if \<not> is_the_proposer_for_current_round st then Some (None, st)
          else do {
            ms \<leftarrow> messages_received st;
            let valid = valid_commits_for_height_round_and_digest (ns_height st) (ns_round st)
                          (digest L (prop_block p)) ms;
            let authors = remdups_adj (sort (map recover_signed_commit_author valid));
            (if length authors < quorum (length (validators (ns_blockchain st)))
             then Some (None, st)
             else do {
               let b = with_commit_seals (prop_block p) (get_commit_seals_from_commit_messages valid);
               let st1 = advance_head b st;
               nb \<leftarrow> sign_new_block L b st1;
               let st2 = push_message (NewBlock nb) st1;
               Some (Some (multicast (validators (ns_blockchain st2)) (NewBlock nb)), st2)
             })
          })"

definition find_new_block :: "libs \<Rightarrow> node_state \<Rightarrow> signed_new_block option" where
  "find_new_block L st =
     find_map (\<lambda>m. case m of
                 NewBlock nb \<Rightarrow> if valid_new_block L (ns_blockchain st) nb then Some nb else None
               | _ \<Rightarrow> None) (rev (ns_messages_received st))"

definition upon_new_block :: "libs \<Rightarrow> node_state \<Rightarrow> transition" where
  "upon_new_block L st =
     (case find_new_block L st of
        None \<Rightarrow> Some (None, st)
      | Some nb \<Rightarrow>
          Some (Some [], prune_messages_below_height (advance_head (snb_block nb) st)))"

section \<open>Round changes\<close>

definition defer_round_zero_timeout :: "libs \<Rightarrow> node_state \<Rightarrow> (bool \<times> node_state) option" where
  "defer_round_zero_timeout L st = do {
     counts \<leftarrow> round_zero_progress_counts L st;
     Some (case counts of
             None \<Rightarrow> (False, st)
           | Some (prepare_count, commit_count) \<Rightarrow>
               let n = length (validators (ns_blockchain st)) in
               if n = 0 then (False, st)
               else if \<not> (prepare_count \<ge> f n + 1 \<or> commit_count > 0) then (False, st)
               else
                 let (progressed, st1) = update_round_zero_progress prepare_count commit_count st;
                     grace_secs = max (cfg_block_time (ns_configuration st1)) 1;
                     since_progress = saturating_sub (ns_local_time st1) (ns_rz_last_progress_time st1)
                 in if progressed \<or> since_progress < grace_secs
                    then (True, st1\<lparr>ns_time_last_round_start := ns_local_time st1\<rparr>)
                    else (False, st1))
   }"

definition change_round :: "u64 \<Rightarrow> round_change \<Rightarrow> node_state \<Rightarrow> node_state" where
  "change_round r rc st =
     push_message (RoundChange rc) (st\<lparr>ns_round := r, ns_proposal_accepted := None\<rparr>)"

definition upon_round_timeout :: "libs \<Rightarrow> node_state \<Rightarrow> transition" where
  "upon_round_timeout L st =
     (if \<not> rcc_round_change_on_first_block (cfg_round_change_config (ns_configuration st))
         \<and> ns_height st = 1
      then Some (None, st)
      else if ns_local_time st \<ge> next_round_timeout st
      then do {
        (deferred, st1) \<leftarrow> (if ns_round st = 0 then defer_round_zero_timeout L st else Some (False, st));
        (if deferred then Some (None, st1)
         else do {
           let r = ns_round st1 + 1;
           rc \<leftarrow> create_round_change L st1 r;
           let st2 = change_round r rc (st1\<lparr>ns_time_last_round_start := ns_local_time st1\<rparr>);
           Some (Some (multicast (validators (ns_blockchain st2)) (RoundChange rc)), st2)
         })
      }
      else Some (None, st))"

text \<open>
  The code keeps the IBFT variant of the second branch behind a constant
  \<open>use_ibft_method = false\<close>.
\<close>

definition use_ibft_method :: bool where
  "use_ibft_method = False"

fun upon_round_change_ibft :: "libs \<Rightarrow> u64 list \<Rightarrow> node_state \<Rightarrow> transition" where
  "upon_round_change_ibft L [] st = Some (None, st)"
| "upon_round_change_ibft L (r # rs) st = do {
     rcs \<leftarrow> received_signed_round_changes_for_round r st;
     (if card (get_set_of_round_change_senders rcs) > f (length (validators (ns_blockchain st)))
      then do {
        rc \<leftarrow> create_round_change L st r;
        let st' = change_round r rc (st\<lparr>ns_time_last_round_start := ns_local_time st\<rparr>);
        Some (Some (multicast (validators (ns_blockchain st')) (RoundChange rc)), st')
      }
      else upon_round_change_ibft L rs st)
   }"

definition upon_round_change :: "libs \<Rightarrow> node_state \<Rightarrow> transition" where
  "upon_round_change L st = do {
     just \<leftarrow> has_received_proposal_justification L st;
     (case just of
        Some pj \<Rightarrow> do {
          let r = pj_round pj;
          let b = block_at_round (pj_block pj) r (ns_blockchain st);
          p \<leftarrow> make_proposal L st r b (extract_signed_round_changes (pj_round_changes pj))
                 (extract_signed_prepares (pj_prepares pj));
          let st1 = (if r > ns_round st
                     then st\<lparr>ns_time_last_round_start := ns_local_time st\<rparr> else st);
          let st2 = push_message (Proposal p) (st1\<lparr>ns_round := r, ns_proposal_accepted := None\<rparr>);
          Some (Some (multicast (validators (ns_blockchain st2)) (Proposal p)), st2)
        }
      | None \<Rightarrow>
          if use_ibft_method
          then do {
            rounds \<leftarrow> get_future_rounds_from_round_changes st;
            upon_round_change_ibft L rounds st
          }
          else do {
            rcs \<leftarrow> received_signed_round_changes_for_current_height_and_future_rounds st;
            (if card (get_set_of_round_change_senders rcs) > f (length (validators (ns_blockchain st)))
             then do {
               let r = min_round rcs;
               rc \<leftarrow> create_round_change L st r;
               let st' = change_round r rc st;
               Some (Some (multicast (validators (ns_blockchain st')) (RoundChange rc)), st')
             }
             else Some (None, st))
          })
   }"

section \<open>The step function\<close>

text \<open>Try a handler; when it does not apply, continue with the next one.\<close>

definition or_else :: "transition \<Rightarrow> (node_state \<Rightarrow> (outbox \<times> node_state) option)
    \<Rightarrow> (outbox \<times> node_state) option" where
  "or_else t next_handler = do {
     (out, st') \<leftarrow> t;
     (case out of Some msgs \<Rightarrow> Some (msgs, st') | None \<Rightarrow> next_handler st')
   }"

definition node_next_sub_step :: "libs \<Rightarrow> node_state \<Rightarrow> (outbox \<times> node_state) option" where
  "node_next_sub_step L st =
     (if ns_id st \<in> set (validators (ns_blockchain st))
      then
        or_else (upon_new_block L st) (\<lambda>st.
        or_else (upon_block_timeout L st) (\<lambda>st.
        or_else (upon_proposal L st) (\<lambda>st.
        or_else (upon_prepare L st) (\<lambda>st.
        or_else (upon_commit L st) (\<lambda>st.
        or_else (upon_round_change L st) (\<lambda>st.
        or_else (upon_round_timeout L st) (\<lambda>st. Some ([], st))))))))
      else or_else (upon_new_block L st) (\<lambda>st. Some ([], st)))"

definition node_next :: "libs \<Rightarrow> u64 \<Rightarrow> node_state \<Rightarrow> (outbox \<times> node_state) option" where
  "node_next L time st = node_next_sub_step L (st\<lparr>ns_local_time := time\<rparr>)"

end
