(* ===== verification/Node_Facts.thy ===== *)
theory Node_Facts
  imports Node
begin

text \<open>
  One elimination rule per transition: from a successful call of a handler, the guard
  that held, the messages it produced and the state it left.  The proofs about runs use
  these rules and never unfold the handlers again.
\<close>

section \<open>Signed payloads\<close>

lemma sign_bytes_author:
  "sign_bytes L st msg = Some s \<Longrightarrow> \<exists>k. ns_private_key st = Some k \<and> signer_address L k = Some (sig_author s)"
  by (auto simp: sign_bytes_def bind_eq_Some_conv dest: sign_message_author)

lemma verify_sign_bytes:
  "signer_laws L \<Longrightarrow> sign_bytes L st msg = Some s \<Longrightarrow> verify_message L s msg = Some True"
  by (auto simp: sign_bytes_def bind_eq_Some_conv intro: verify_sign_message)

lemma make_prepareD:
  assumes "make_prepare L st r b = Some p"
  shows "sprep_payload (prep_payload p) =
      \<lparr>uprep_height = ns_height st, uprep_round = r, uprep_digest = digest L b\<rparr>"
    and "msg_height (Prepare p) = ns_height st" and "msg_round (Prepare p) = r"
  using assms by (auto simp: make_prepare_def sign_prepare_def bind_eq_Some_conv)

lemma make_commitD:
  assumes "make_commit L st r b = Some c"
  shows "ucom_height (scom_payload (com_payload c)) = ns_height st"
    and "ucom_round (scom_payload (com_payload c)) = r"
    and "ucom_digest (scom_payload (com_payload c)) = digest L b"
    and "sign_hash L (hash_block_for_commit_seal L b) st = Some (ucom_commit_seal (scom_payload (com_payload c)))"
  using assms by (auto simp: make_commit_def sign_commit_def bind_eq_Some_conv)

text \<open>Votes depend on the state only through the height and the key.\<close>

lemma make_vote_cong:
  assumes "ns_height st' = ns_height st" and "ns_private_key st' = ns_private_key st"
  shows "make_prepare L st' r b = make_prepare L st r b"
    and "make_commit L st' r b = make_commit L st r b"
  using assms
  by (simp_all add: make_prepare_def make_commit_def sign_prepare_def sign_commit_def sign_hash_def
      sign_bytes_def)

lemma create_round_changeD:
  assumes "create_round_change L st r = Some rc"
  shows "msg_height (RoundChange rc) = ns_height st" and "msg_round (RoundChange rc) = r"
    and "urc_prepared_round (src_payload (rc_payload rc)) = ns_last_prepared_round st"
    and "urc_prepared_value (src_payload (rc_payload rc)) =
      map_option (digest L) (ns_last_prepared_block st)"
    and "rc_proposed_block rc = ns_last_prepared_block st"
  using assms by (auto simp: create_round_change_def sign_round_change_def bind_eq_Some_conv)

section \<open>Justified proposals\<close>

text \<open>Whatever the branch, a justified block is a block for the height asked for.\<close>

lemma is_proposal_justification_height:
  "is_proposal_justification L rcs ps av h r b vb leader vs bc \<Longrightarrow> block_height b = h"
  by (auto simp: is_proposal_justification_def Let_def split: if_splits option.splits)

text \<open>
  Beyond round 0 a justification holds a quorum of round changes from validators, each
  for exactly this height and round.
\<close>

lemma is_proposal_justification_quorum:
  assumes "is_proposal_justification L rcs ps av h r b vb leader vs bc" and "r \<noteq> 0"
  shows "quorum (length vs) \<le> card (get_set_of_round_change_senders rcs)"
    and "\<forall>rc\<in>set rcs. valid_round_change rc h r vs"
    and "get_set_of_round_change_senders rcs \<subseteq> set vs"
proof -
  show "quorum (length vs) \<le> card (get_set_of_round_change_senders rcs)"
    and valid: "\<forall>rc\<in>set rcs. valid_round_change rc h r vs"
    using assms
    by (auto simp: is_proposal_justification_def Let_def list_all_iff not_less split: if_splits)
  then show "get_set_of_round_change_senders rcs \<subseteq> set vs"
    by (auto simp: get_set_of_round_change_senders_def valid_round_change_def)
qed

lemma is_valid_proposalD:
  assumes "is_valid_proposal L p st"
  shows "uprop_height (sprop_payload (prop_payload p)) = ns_height st"
    and "recover_signed_proposal_author (prop_payload p) =
      proposer (uprop_round (sprop_payload (prop_payload p))) (ns_blockchain st)"
    and "uprop_digest (sprop_payload (prop_payload p)) = digest L (prop_block p)"
    and "block_height (prop_block p) = ns_height st"
    and "ns_proposal_accepted st = None \<Longrightarrow> uprop_round (sprop_payload (prop_payload p)) = ns_round st"
    and "ns_proposal_accepted st \<noteq> None \<Longrightarrow> ns_round st < uprop_round (sprop_payload (prop_payload p))"
  using assms
  by (auto simp: is_valid_proposal_def Let_def dest: is_proposal_justification_height split: if_splits)

lemma find_valid_proposalD:
  assumes "find_valid_proposal L st ms = Some p"
  shows "is_valid_proposal L p st" and "Proposal p \<in> set ms"
  using assms by (auto simp: find_valid_proposal_def dest!: find_map_SomeD
      split: qbft_message.splits if_splits)

lemma find_new_blockD:
  assumes "find_new_block L st = Some nb"
  shows "valid_new_block L (ns_blockchain st) nb" and "NewBlock nb \<in> set (ns_messages_received st)"
  using assms by (auto simp: find_new_block_def dest!: find_map_SomeD
      split: qbft_message.splits if_splits)

section \<open>Adopting a block\<close>

lemma advance_head_simps [simp]:
  "ns_blockchain (advance_head b st) = set_proposed_block None (set_head b (ns_blockchain st))"
  "ns_height (advance_head b st) = block_height b + 1"
  "ns_round (advance_head b st) = 0"
  "ns_proposal_accepted (advance_head b st) = None"
  "ns_last_prepared_block (advance_head b st) = None"
  "ns_last_prepared_round (advance_head b st) = None"
  "ns_id (advance_head b st) = ns_id st"
  "ns_private_key (advance_head b st) = ns_private_key st"
  "ns_configuration (advance_head b st) = ns_configuration st"
  "ns_local_time (advance_head b st) = ns_local_time st"
  "ns_messages_received (advance_head b st) = ns_messages_received st"
  "ns_message_keys (advance_head b st) = ns_message_keys st"
  "ns_first_future_message (advance_head b st) = ns_first_future_message st"
  by (simp_all add: advance_head_def new_round_def Let_def)

lemma push_message_simps [simp]:
  "ns_blockchain (push_message m st) = ns_blockchain st"
  "ns_round (push_message m st) = ns_round st"
  "ns_local_time (push_message m st) = ns_local_time st"
  "ns_id (push_message m st) = ns_id st"
  "ns_configuration (push_message m st) = ns_configuration st"
  "ns_proposal_accepted (push_message m st) = ns_proposal_accepted st"
  "ns_last_prepared_block (push_message m st) = ns_last_prepared_block st"
  "ns_last_prepared_round (push_message m st) = ns_last_prepared_round st"
  "ns_private_key (push_message m st) = ns_private_key st"
  "ns_time_last_round_start (push_message m st) = ns_time_last_round_start st"
  by (simp_all add: push_message_def)

lemma store_inv_push: "store_inv st \<Longrightarrow> store_inv (push_message m st)"
  by (simp add: push_message_def store_inv_insert)

lemma set_push_message:
  "store_inv st \<Longrightarrow> set (ns_messages_received (push_message m st)) \<subseteq> insert m (set (ns_messages_received st))"
  by (auto simp: push_message_def set_insert_message_sorted)

lemma multicast_messages [simp]: "map mwr_message (multicast vs m) = [m]"
  by (simp add: multicast_def)

section \<open>Elimination rules\<close>

lemma upon_block_timeoutE:
  assumes "upon_block_timeout L st = Some (out, st')"
  obtains (idle) "out = None" and "st' = st"
  | (propose) b p pr where "upon_block_timeout_ready st" and "get_new_block 0 st = Some b"
      and "make_proposal L st 0 b [] [] = Some p" and "make_prepare L st 0 b = Some pr"
      and "out = Some (multicast (validators (ns_blockchain st)) (Proposal p)
                      @ multicast (validators (ns_blockchain st)) (Prepare pr))"
      and "st' = st\<lparr>ns_proposal_accepted := Some p, ns_time_last_round_start := ns_local_time st\<rparr>"
  using assms
  by (auto simp: upon_block_timeout_def bind_eq_Some_conv split: if_splits option.splits)

lemma upon_proposalE:
  assumes "upon_proposal L st = Some (out, st')"
  obtains (idle) "out = None" and "st' = st"
  | (accept) ms p pr t where "messages_received st = Some ms" and "find_valid_proposal L st ms = Some p"
      and "make_prepare L st (uprop_round (sprop_payload (prop_payload p))) (prop_block p) = Some pr"
      and "out = Some (multicast (validators (ns_blockchain st)) (Prepare pr))"
      and "st' = push_message (Prepare pr)
        (st\<lparr>ns_proposal_accepted := Some p, ns_time_last_round_start := t,
            ns_round := uprop_round (sprop_payload (prop_payload p))\<rparr>)"
proof -
  obtain ms where ms: "messages_received st = Some ms"
    using assms by (auto simp: upon_proposal_def bind_eq_Some_conv)
  show thesis
  proof (cases "find_valid_proposal L st ms")
    case None
    with assms ms idle show ?thesis by (simp add: upon_proposal_def)
  next
    case (Some p)
    let ?r = "uprop_round (sprop_payload (prop_payload p))"
    obtain pr where pr: "make_prepare L st ?r (prop_block p) = Some pr"
      using assms ms Some by (auto simp: upon_proposal_def bind_eq_Some_conv Let_def)
    have "out = Some (multicast (validators (ns_blockchain st)) (Prepare pr))"
      "st' = push_message (Prepare pr)
        (st\<lparr>ns_proposal_accepted := Some p,
            ns_time_last_round_start :=
              (if ?r > ns_round st then ns_local_time st else ns_time_last_round_start st),
            ns_round := ?r\<rparr>)"
      using assms ms Some pr by (auto simp: upon_proposal_def Let_def)
    with accept ms Some pr show ?thesis by blast
  qed
qed

lemma upon_prepareE:
  assumes "upon_prepare L st = Some (out, st')"
  obtains (idle) "out = None" and "st' = st"
  | (lock) ms p c where "ns_proposal_accepted st = Some p" and "messages_received st = Some ms"
      and "quorum (length (validators (ns_blockchain st))) \<le>
        length (valid_prepares_for_height_round_and_digest (ns_height st) (ns_round st)
          (digest L (prop_block p)) ms)"
      and "\<not> has_sent_commit st ms"
      and "make_commit L st (ns_round st) (prop_block p) = Some c"
      and "out = Some (multicast (validators (ns_blockchain st)) (Commit c))"
      and "st' = push_message (Commit c)
        (set_last_prepared_block_and_round (prop_block p) (ns_round st) st)"
  using assms
  by (auto simp: upon_prepare_def bind_eq_Some_conv Let_def not_less
      set_last_prepared_block_and_round_def split: if_splits option.splits)

lemma upon_commitE:
  assumes "upon_commit L st = Some (out, st')"
  obtains (idle) "out = None" and "st' = st"
  | (decide) ms p valid b nb where "ns_proposal_accepted st = Some p"
      and "is_the_proposer_for_current_round st" and "messages_received st = Some ms"
      and "valid = valid_commits_for_height_round_and_digest (ns_height st) (ns_round st)
             (digest L (prop_block p)) ms"
      and "quorum (length (validators (ns_blockchain st))) \<le>
        card (set (map recover_signed_commit_author valid))"
      and "b = with_commit_seals (prop_block p) (get_commit_seals_from_commit_messages valid)"
      and "sign_new_block L b (advance_head b st) = Some nb"
      and "out = Some (multicast (block_validators b) (NewBlock nb))"
      and "st' = push_message (NewBlock nb) (advance_head b st)"
  using assms
  by (auto simp: upon_commit_def bind_eq_Some_conv Let_def not_less length_dedup_sort
      split: if_splits option.splits)

lemma upon_new_blockE:
  assumes "upon_new_block L st = Some (out, st')"
  obtains (idle) "out = None" and "st' = st"
  | (adopt) nb where "find_new_block L st = Some nb" and "out = Some []"
      and "st' = prune_messages_below_height (advance_head (snb_block nb) st)"
  using assms by (auto simp: upon_new_block_def split: option.splits)

lemma upon_new_block_no_panic: "upon_new_block L st \<noteq> None"
  by (auto simp: upon_new_block_def split: option.splits)

text \<open>Deferring a round-0 timeout touches the progress marker and the round timer only.\<close>

lemma defer_round_zero_timeoutE:
  assumes "defer_round_zero_timeout L st = Some (deferred, st')"
  obtains ps cs t t' where
    "st' = st\<lparr>ns_rz_progress_prepares := ps, ns_rz_progress_commits := cs,
              ns_rz_last_progress_time := t, ns_time_last_round_start := t'\<rparr>"
proof -
  obtain counts where counts: "round_zero_progress_counts L st = Some counts"
    using assms by (auto simp: defer_round_zero_timeout_def bind_eq_Some_conv)
  have "st' = st\<lparr>ns_rz_progress_prepares := ns_rz_progress_prepares st',
      ns_rz_progress_commits := ns_rz_progress_commits st',
      ns_rz_last_progress_time := ns_rz_last_progress_time st',
      ns_time_last_round_start := ns_time_last_round_start st'\<rparr>"
    using assms counts
    by (auto simp: defer_round_zero_timeout_def Let_def update_round_zero_progress_def
        split: option.splits if_splits prod.splits)
  then show thesis by (rule that)
qed

lemma upon_round_timeoutE:
  assumes "upon_round_timeout L st = Some (out, st')"
  obtains (idle) ps cs t t' where "out = None"
      and "st' = st\<lparr>ns_rz_progress_prepares := ps, ns_rz_progress_commits := cs,
              ns_rz_last_progress_time := t, ns_time_last_round_start := t'\<rparr>"
  | (timeout) ps cs t t' st1 rc where "next_round_timeout st \<le> ns_local_time st"
      and "st1 = st\<lparr>ns_rz_progress_prepares := ps, ns_rz_progress_commits := cs,
              ns_rz_last_progress_time := t, ns_time_last_round_start := t'\<rparr>"
      and "create_round_change L st1 (ns_round st + 1) = Some rc"
      and "out = Some (multicast (validators (ns_blockchain st)) (RoundChange rc))"
      and "st' = change_round (ns_round st + 1) rc (st1\<lparr>ns_time_last_round_start := ns_local_time st\<rparr>)"
proof -
  have self: "st = st\<lparr>ns_rz_progress_prepares := ns_rz_progress_prepares st,
      ns_rz_progress_commits := ns_rz_progress_commits st,
      ns_rz_last_progress_time := ns_rz_last_progress_time st,
      ns_time_last_round_start := ns_time_last_round_start st\<rparr>" by simp
  consider (quiet) "out = None" "st' = st"
    | (late) deferred st1 where "next_round_timeout st \<le> ns_local_time st"
        "(if ns_round st = 0 then defer_round_zero_timeout L st else Some (False, st)) = Some (deferred, st1)"
        "(if deferred then Some (None, st1)
          else do {
            rc \<leftarrow> create_round_change L st1 (ns_round st1 + 1);
            let st2 = change_round (ns_round st1 + 1) rc (st1\<lparr>ns_time_last_round_start := ns_local_time st1\<rparr>);
            Some (Some (multicast (validators (ns_blockchain st2)) (RoundChange rc)), st2)
          }) = Some (out, st')"
    using assms by (auto simp: upon_round_timeout_def bind_eq_Some_conv Let_def split: if_splits)
  then show thesis
  proof cases
    case quiet
    with self have "out = None \<and> st' = st\<lparr>ns_rz_progress_prepares := ns_rz_progress_prepares st,
      ns_rz_progress_commits := ns_rz_progress_commits st,
      ns_rz_last_progress_time := ns_rz_last_progress_time st,
      ns_time_last_round_start := ns_time_last_round_start st\<rparr>" by simp
    with idle show ?thesis by blast
  next
    case late
    have "\<exists>ps cs t t'. st1 = st\<lparr>ns_rz_progress_prepares := ps, ns_rz_progress_commits := cs,
              ns_rz_last_progress_time := t, ns_time_last_round_start := t'\<rparr>"
    proof (cases "ns_round st = 0")
      case True
      with late(2) have "defer_round_zero_timeout L st = Some (deferred, st1)" by simp
      then show ?thesis by (rule defer_round_zero_timeoutE) blast
    next
      case False
      with late(2) have "st1 = st" by simp
      with self show ?thesis by metis
    qed
    then obtain ps cs t t' where st1: "st1 = st\<lparr>ns_rz_progress_prepares := ps, ns_rz_progress_commits := cs,
              ns_rz_last_progress_time := t, ns_time_last_round_start := t'\<rparr>"
      by blast
    show ?thesis
    proof (cases deferred)
      case True
      with late(3) st1 show ?thesis by (intro idle) auto
    next
      case False
      with late(3) obtain rc where "create_round_change L st1 (ns_round st + 1) = Some rc"
        and "out = Some (multicast (validators (ns_blockchain st)) (RoundChange rc))"
        and "st' = change_round (ns_round st + 1) rc (st1\<lparr>ns_time_last_round_start := ns_local_time st\<rparr>)"
        by (auto simp: bind_eq_Some_conv Let_def st1 change_round_def)
      with timeout late(1) st1 show ?thesis by blast
    qed
  qed
qed

lemma change_round_simps [simp]:
  "ns_blockchain (change_round r rc st) = ns_blockchain st"
  "ns_round (change_round r rc st) = r"
  "ns_proposal_accepted (change_round r rc st) = None"
  "ns_id (change_round r rc st) = ns_id st"
  "ns_private_key (change_round r rc st) = ns_private_key st"
  "ns_configuration (change_round r rc st) = ns_configuration st"
  "ns_local_time (change_round r rc st) = ns_local_time st"
  "ns_last_prepared_block (change_round r rc st) = ns_last_prepared_block st"
  "ns_last_prepared_round (change_round r rc st) = ns_last_prepared_round st"
  by (simp_all add: change_round_def)

lemma justification_for_roundD:
  assumes "justification_for_round L st r = Some (Some pj)"
  shows "pj_round pj = r" and "proposer r (ns_blockchain st) = ns_id st"
    and "is_received_proposal_justification L (pj_round_changes pj) (pj_prepares pj) r (pj_block pj) st"
proof -
  show leader: "proposer r (ns_blockchain st) = ns_id st"
    using assms by (auto simp: justification_for_round_def split: if_splits)
  obtain rcs prepares where found: "(case find (\<lambda>b. is_received_proposal_justification L rcs prepares r b st)
        (received_blocks_in_round_changes rcs) of
      Some b \<Rightarrow> Some \<lparr>pj_round = r, pj_round_changes = rcs, pj_prepares = prepares, pj_block = b\<rparr>
    | None \<Rightarrow> (case get_new_block r st of
         None \<Rightarrow> None
       | Some b \<Rightarrow>
           if is_received_proposal_justification L rcs prepares r b st
           then Some \<lparr>pj_round = r, pj_round_changes = rcs, pj_prepares = prepares, pj_block = b\<rparr>
           else None)) = Some pj"
    using assms leader
    by (simp add: justification_for_round_def Let_def bind_eq_Some_conv) blast
  from found show "pj_round pj = r"
    by (auto split: option.splits if_splits)
  from found show "is_received_proposal_justification L (pj_round_changes pj) (pj_prepares pj) r (pj_block pj) st"
    by (auto simp: find_Some_iff split: option.splits if_splits)
qed

lemma first_justificationD:
  assumes "first_justification L st rs = Some (Some pj)"
  shows "pj_round pj \<in> set rs" and "justification_for_round L st (pj_round pj) = Some (Some pj)"
proof -
  have "pj_round pj \<in> set rs \<and> justification_for_round L st (pj_round pj) = Some (Some pj)"
    using assms
  proof (induction rs)
    case (Cons r rs)
    obtain found where found: "justification_for_round L st r = Some found"
      using Cons.prems by (auto simp: bind_eq_Some_conv)
    show ?case
    proof (cases found)
      case None
      with Cons found show ?thesis by simp
    next
      case (Some pj')
      with Cons.prems found have "justification_for_round L st r = Some (Some pj)" by simp
      with justification_for_roundD(1) [OF this] show ?thesis by simp
    qed
  qed simp
  then show "pj_round pj \<in> set rs" and "justification_for_round L st (pj_round pj) = Some (Some pj)"
    by auto
qed

lemma has_received_proposal_justificationD:
  assumes "has_received_proposal_justification L st = Some (Some pj)"
  shows "is_proposal_justification_round_valid (pj_round pj) st"
    and "proposer (pj_round pj) (ns_blockchain st) = ns_id st"
    and "is_received_proposal_justification L (pj_round_changes pj) (pj_prepares pj) (pj_round pj)
      (pj_block pj) st"
proof -
  obtain ms where "first_justification L st
      (remdups_adj (filter (\<lambda>r. is_proposal_justification_round_valid r st) (map msg_round ms))) = Some (Some pj)"
    using assms
    by (auto simp: has_received_proposal_justification_def bind_eq_Some_conv Let_def split: if_splits)
  note found = first_justificationD [OF this]
  from found(1) show "is_proposal_justification_round_valid (pj_round pj) st" by auto
  from justification_for_roundD(2,3) [OF found(2)]
  show "proposer (pj_round pj) (ns_blockchain st) = ns_id st"
    and "is_received_proposal_justification L (pj_round_changes pj) (pj_prepares pj) (pj_round pj)
      (pj_block pj) st" by auto
qed

lemma future_round_change_Some:
  "future_round_change st m = Some s \<longleftrightarrow>
    (\<exists>rc. m = RoundChange rc \<and> s = rc_payload rc \<and> urc_height (src_payload s) = ns_height st
      \<and> ns_round st < urc_round (src_payload s))"
  by (cases m) (auto simp: future_round_change_def)

lemma future_round_change_min:
  assumes "get_set_of_round_change_senders (filter_map (future_round_change st) ms) \<noteq> {}"
  shows "ns_round st < min_round (filter_map (future_round_change st) ms)"
proof -
  let ?rounds = "map (\<lambda>rc. urc_round (src_payload rc)) (filter_map (future_round_change st) ms)"
  have ne: "?rounds \<noteq> []" using assms by (auto simp: get_set_of_round_change_senders_def)
  have "\<forall>r\<in>set ?rounds. ns_round st < r"
    by (auto simp: set_filter_map future_round_change_Some)
  moreover have "min_round (filter_map (future_round_change st) ms) \<in> set ?rounds"
    using ne Min_in [of "set ?rounds"] by (simp add: min_round_def vec_min_def)
  ultimately show ?thesis by blast
qed

lemma upon_round_changeE:
  assumes "upon_round_change L st = Some (out, st')"
  obtains (idle) "out = None" and "st' = st"
  | (lead) pj p t where "has_received_proposal_justification L st = Some (Some pj)"
      and "make_proposal L st (pj_round pj) (block_at_round (pj_block pj) (pj_round pj) (ns_blockchain st))
             (extract_signed_round_changes (pj_round_changes pj))
             (extract_signed_prepares (pj_prepares pj)) = Some p"
      and "out = Some (multicast (validators (ns_blockchain st)) (Proposal p))"
      and "st' = push_message (Proposal p)
        (st\<lparr>ns_time_last_round_start := t, ns_round := pj_round pj, ns_proposal_accepted := None\<rparr>)"
  | (jump) rcs rc where
        "received_signed_round_changes_for_current_height_and_future_rounds st = Some rcs"
      and "f (length (validators (ns_blockchain st))) < card (get_set_of_round_change_senders rcs)"
      and "ns_round st < min_round rcs"
      and "create_round_change L st (min_round rcs) = Some rc"
      and "out = Some (multicast (validators (ns_blockchain st)) (RoundChange rc))"
      and "st' = change_round (min_round rcs) rc st"
proof -
  obtain just where just: "has_received_proposal_justification L st = Some just"
    using assms by (auto simp: upon_round_change_def bind_eq_Some_conv)
  show thesis
  proof (cases just)
    case (Some pj)
    let ?b = "block_at_round (pj_block pj) (pj_round pj) (ns_blockchain st)"
    let ?t = "if ns_round st < pj_round pj then ns_local_time st else ns_time_last_round_start st"
    obtain p where p: "make_proposal L st (pj_round pj) ?b
        (extract_signed_round_changes (pj_round_changes pj))
        (extract_signed_prepares (pj_prepares pj)) = Some p"
      using assms just Some by (auto simp: upon_round_change_def bind_eq_Some_conv Let_def)
    have "out = Some (multicast (validators (ns_blockchain st)) (Proposal p))"
      "st' = push_message (Proposal p)
        (st\<lparr>ns_time_last_round_start := ?t, ns_round := pj_round pj, ns_proposal_accepted := None\<rparr>)"
      using assms just Some p by (auto simp: upon_round_change_def Let_def)
    with lead just Some p show ?thesis by blast
  next
    case None
    then obtain rcs where rcs:
        "received_signed_round_changes_for_current_height_and_future_rounds st = Some rcs"
      using assms just by (auto simp: upon_round_change_def use_ibft_method_def bind_eq_Some_conv)
    show ?thesis
    proof (cases "f (length (validators (ns_blockchain st))) < card (get_set_of_round_change_senders rcs)")
      case True
      obtain rc where rc: "create_round_change L st (min_round rcs) = Some rc"
        using assms just None rcs True
        by (auto simp: upon_round_change_def use_ibft_method_def bind_eq_Some_conv Let_def)
      have "get_set_of_round_change_senders rcs \<noteq> {}" using True by auto
      then have "ns_round st < min_round rcs"
        using rcs future_round_change_min
        by (auto simp: received_signed_round_changes_for_current_height_and_future_rounds_def
            bind_eq_Some_conv)
      moreover have "out = Some (multicast (validators (ns_blockchain st)) (RoundChange rc))"
        "st' = change_round (min_round rcs) rc st"
        using assms just None rcs True rc
        by (auto simp: upon_round_change_def use_ibft_method_def Let_def)
      ultimately show ?thesis using jump rcs True rc by blast
    next
      case False
      with assms just None rcs idle show ?thesis
        by (simp add: upon_round_change_def use_ibft_method_def)
    qed
  qed
qed

text \<open>A sub-step is exactly one transition, or nothing at all.\<close>

lemma or_elseE:
  assumes "or_else t next_handler = Some (out, st')"
  obtains (fired) "t = Some (Some out, st')"
  | (passed) st1 where "t = Some (None, st1)" and "next_handler st1 = Some (out, st')"
proof (cases t)
  case None
  with assms show ?thesis by (simp add: or_else_def)
next
  case (Some r)
  obtain out1 st1 where r: "r = (out1, st1)" by fastforce
  with assms Some fired passed show ?thesis by (cases out1) (auto simp: or_else_def)
qed

end
