(* ===== verification/Vote_History.thy ===== *)
theory Vote_History
  imports Rbft_Prelude
begin

text \<open>
  Runs of a machine that emits messages, and the contract under which such a machine
  votes at most once per position.  The machine carries a position that only grows (for
  the consensus node: height and round) and an accepted proposal that a step may set but
  not replace while the position stays; a vote is cast for the accepted proposal at the
  current position only.
\<close>

inductive run :: "('s \<Rightarrow> 'm list \<Rightarrow> 's \<Rightarrow> bool) \<Rightarrow> 's \<Rightarrow> 'm list \<Rightarrow> 's \<Rightarrow> bool"
  for step s0 where
  run_nil: "run step s0 [] s0"
| run_step: "run step s0 outs s \<Longrightarrow> step s out t \<Longrightarrow> run step s0 (outs @ out) t"

inductive_simps run_nil_iff: "run step s0 [] s0"

locale single_vote =
  fixes step :: "'s \<Rightarrow> 'm list \<Rightarrow> 's \<Rightarrow> bool"
    and inv :: "'s \<Rightarrow> bool"
    and pos :: "'s \<Rightarrow> 'p::linorder"
    and accepted :: "'s \<Rightarrow> 'b option"
    and is_vote :: "'m \<Rightarrow> bool"
    and vote_pos :: "'m \<Rightarrow> 'p"
    and cast :: "'s \<Rightarrow> 'b \<Rightarrow> 'm option"
  assumes inv_step: "inv s \<Longrightarrow> step s out t \<Longrightarrow> inv t"
    and progress: "inv s \<Longrightarrow> step s out t \<Longrightarrow>
      pos s < pos t \<or> pos s = pos t \<and> (accepted s \<noteq> None \<longrightarrow> accepted t = accepted s)"
    and casts: "inv s \<Longrightarrow> step s out t \<Longrightarrow> m \<in> set out \<Longrightarrow> is_vote m \<Longrightarrow>
      vote_pos m = pos t \<and> (\<exists>b. accepted t = Some b \<and> cast t b = Some m)"
    and cast_stable: "inv s \<Longrightarrow> step s out t \<Longrightarrow> pos s = pos t \<Longrightarrow> cast t = cast s"
begin

text \<open>
  The history invariant: no vote is ahead of the current position, and the votes at the
  current position are the one the accepted proposal determines.
\<close>

lemma history:
  assumes "run step s0 outs s" and "inv s0"
  shows "inv s \<and>
    (\<forall>m\<in>set outs. is_vote m \<longrightarrow> vote_pos m \<le> pos s \<and>
       (vote_pos m = pos s \<longrightarrow> (\<exists>b. accepted s = Some b \<and> cast s b = Some m)))"
  using assms(1)
proof (induction rule: run.induct)
  case run_nil
  with assms(2) show ?case by simp
next
  case (run_step outs s out t)
  have inv: "inv s" "inv t" using run_step inv_step by auto
  have "vote_pos m \<le> pos t \<and> (vote_pos m = pos t \<longrightarrow> (\<exists>b. accepted t = Some b \<and> cast t b = Some m))"
    if "m \<in> set outs" "is_vote m" for m
  proof -
    from that run_step.IH have old: "vote_pos m \<le> pos s"
      "vote_pos m = pos s \<Longrightarrow> \<exists>b. accepted s = Some b \<and> cast s b = Some m" by auto
    from progress [OF inv(1) run_step.hyps(2)] show ?thesis
    proof
      assume "pos s < pos t"
      with old(1) show ?thesis by auto
    next
      assume "pos s = pos t \<and> (accepted s \<noteq> None \<longrightarrow> accepted t = accepted s)"
      with old cast_stable [OF inv(1) run_step.hyps(2)] show ?thesis by auto
    qed
  qed
  with casts [OF inv(1) run_step.hyps(2)] inv(2) show ?case by auto
qed

theorem one_vote_per_position:
  assumes "run step s0 outs s" and "inv s0"
    and "m \<in> set outs" and "m' \<in> set outs" and "is_vote m" and "is_vote m'"
    and "vote_pos m = vote_pos m'"
  shows "m = m'"
  using assms(1,3-7)
proof (induction rule: run.induct)
  case (run_step outs s out t)
  from run_step.hyps(1) assms(2) have old: "inv s"
    "\<And>m. m \<in> set outs \<Longrightarrow> is_vote m \<Longrightarrow> vote_pos m \<le> pos s \<and>
       (vote_pos m = pos s \<longrightarrow> (\<exists>b. accepted s = Some b \<and> cast s b = Some m))"
    using history by auto
  note step = run_step.hyps(2)
  have mixed: "x = y" if "x \<in> set outs" "y \<in> set out" "is_vote x" "is_vote y" "vote_pos x = vote_pos y" for x y
  proof -
    have y: "vote_pos y = pos t" "\<exists>b. accepted t = Some b \<and> cast t b = Some y"
      using casts [OF old(1) step that(2,4)] by auto
    have x: "vote_pos x \<le> pos s" using old(2) that(1,3) by blast
    with y(1) that(5) progress [OF old(1) step] have eq: "pos s = pos t"
      and keep: "accepted s \<noteq> None \<longrightarrow> accepted t = accepted s" by auto
    then have "\<exists>b. accepted s = Some b \<and> cast s b = Some x" using old(2) that(1,3,5) y(1) by auto
    with y(2) keep cast_stable [OF old(1) step eq] show ?thesis by auto
  qed
  have fresh: "x = y" if "x \<in> set out" "y \<in> set out" "is_vote x" "is_vote y" for x y
    using casts [OF old(1) step that(1,3)] casts [OF old(1) step that(2,4)] by auto
  show ?case
    using run_step.prems run_step.IH mixed fresh by (metis Un_iff set_append)
qed simp

end

end
