(* ===== verification/Node_Run.thy ===== *)
theory Node_Run
  imports Node_Facts Vote_History
begin

text \<open>
  Runs of one node.  A step receives a batch of messages, runs the state machine once,
  pushes a message (the driver does so with the own ones) into the store, or installs a freshly built block to propose;
  these are the operations the driver (\<open>rbft_consensus.rs\<close>, \<open>advance\<close>) performs on the
  node state between two blocks.  Steps whose round or height would pass \<open>2 ^ 64 - 1\<close>
  are outside the relation.
\<close>

section \<open>Steps\<close>

inductive node_step :: "libs \<Rightarrow> node_state \<Rightarrow> qbft_message list \<Rightarrow> node_state \<Rightarrow> bool" for L where
  receive: "add_messages L ms time st = Some st' \<Longrightarrow> node_step L st [] st'"
| tick: "node_next L time st = Some (out, st') \<Longrightarrow> ns_round st \<noteq> - 1 \<Longrightarrow> ns_height st' \<noteq> 0 \<Longrightarrow>
    node_step L st (map mwr_message out) st'"
| loopback: "node_step L st [] (push_message m st)"
| install: "block_height b = ns_height st \<Longrightarrow>
    node_step L st [] (st\<lparr>ns_blockchain := set_proposed_block (Some b) (ns_blockchain st)\<rparr>)"

inductive_cases node_stepE: "node_step L st out st'"

definition node_pos :: "node_state \<Rightarrow> u64 \<times> u64" where
  "node_pos st = (ns_height st, ns_round st)"

section \<open>One sub-step is one transition\<close>

lemma node_next_sub_step_cases:
  assumes "node_next_sub_step L st = Some (out, st')"
  obtains (new_block) "upon_new_block L st = Some (Some out, st')"
  | (block_timeout) "upon_block_timeout L st = Some (Some out, st')"
  | (proposal) "upon_proposal L st = Some (Some out, st')"
  | (prepare) "upon_prepare L st = Some (Some out, st')"
  | (commit) "upon_commit L st = Some (Some out, st')"
  | (round_change) "upon_round_change L st = Some (Some out, st')"
  | (round_timeout) "upon_round_timeout L st = Some (Some out, st')"
  | (deferred) "out = []" and "upon_round_timeout L st = Some (None, st')"
  | (nothing) "out = []" and "st' = st"
proof -
  have same: "upon_new_block L st = Some (None, s) \<Longrightarrow> s = st"
    "upon_block_timeout L st = Some (None, s) \<Longrightarrow> s = st"
    "upon_proposal L st = Some (None, s) \<Longrightarrow> s = st"
    "upon_prepare L st = Some (None, s) \<Longrightarrow> s = st"
    "upon_commit L st = Some (None, s) \<Longrightarrow> s = st"
    "upon_round_change L st = Some (None, s) \<Longrightarrow> s = st" for s
    by (auto elim: upon_new_blockE upon_block_timeoutE upon_proposalE upon_prepareE upon_commitE
        upon_round_changeE)
  show ?thesis
    using assms unfolding node_next_sub_step_def
    by (auto elim!: or_elseE dest!: same intro: that split: if_splits)
qed

section \<open>What a node keeps between steps\<close>

text \<open>
  The accepted proposal and the block waiting to be proposed are for the current height,
  and the prepared block and round are set together.
\<close>

definition proposal_inv :: "node_state \<Rightarrow> bool" where
  "proposal_inv st \<longleftrightarrow>
     (\<forall>p. ns_proposal_accepted st = Some p \<longrightarrow> block_height (prop_block p) = ns_height st)
     \<and> (\<forall>b. bc_proposed_block (ns_blockchain st) = Some b \<longrightarrow> block_height b = ns_height st)
     \<and> (ns_last_prepared_round st = None) = (ns_last_prepared_block st = None)"

fun is_vote :: "qbft_message \<Rightarrow> bool" where
  "is_vote (Prepare _) = True"
| "is_vote (Commit _) = True"
| "is_vote _ = False"

lemma get_new_blockD:
  "get_new_block r st = Some b \<Longrightarrow>
    \<exists>b0. bc_proposed_block (ns_blockchain st) = Some b0 \<and> block_height b = block_height b0 \<and> block_round b = r"
  by (auto simp: get_new_block_def split: option.splits)

lemma make_proposalD:
  assumes "make_proposal L st r b just rc_just = Some p"
  shows "prop_block p = b" and "msg_height (Proposal p) = ns_height st" and "msg_round (Proposal p) = r"
    and "uprop_digest (sprop_payload (prop_payload p)) = digest L b"
  using assms by (auto simp: make_proposal_def sign_proposal_def bind_eq_Some_conv)

lemma valid_new_block_height: "valid_new_block L bc nb \<Longrightarrow> height bc \<le> block_height (snb_block nb)"
  by (auto simp: valid_new_block_def Let_def split: if_splits)

lemma with_commit_seals_height [simp]: "block_height (with_commit_seals b ss) = block_height b"
  by (simp add: with_commit_seals_def)

text \<open>
  The effect of one sub-step on what votes depend on: either the position grows, or it
  stays and an accepted proposal is not replaced.  Identity, key and configuration never
  change.
\<close>

definition sub_step_effect :: "libs \<Rightarrow> node_state \<Rightarrow> qbft_message list \<Rightarrow> node_state \<Rightarrow> bool" where
  "sub_step_effect L st out st' \<longleftrightarrow>
     ns_id st' = ns_id st \<and> ns_private_key st' = ns_private_key st
     \<and> ns_configuration st' = ns_configuration st
     \<and> (node_pos st < node_pos st'
        \<or> node_pos st = node_pos st'
          \<and> (ns_proposal_accepted st \<noteq> None \<longrightarrow> ns_proposal_accepted st' = ns_proposal_accepted st))
     \<and> (\<forall>pr. Prepare pr \<in> set out \<longrightarrow>
          (\<exists>p. ns_proposal_accepted st' = Some p
             \<and> make_prepare L st' (ns_round st') (prop_block p) = Some pr))
     \<and> (\<forall>c. Commit c \<in> set out \<longrightarrow>
          (\<exists>p. ns_proposal_accepted st' = Some p
             \<and> make_commit L st' (ns_round st') (prop_block p) = Some c))"

text \<open>
  Introduction rules: a step that reaches a later position without voting, and a step
  that stays (or accepts a proposal) and casts one vote for what is accepted then.
\<close>

definition same_node :: "node_state \<Rightarrow> node_state \<Rightarrow> bool" where
  "same_node st st' \<longleftrightarrow> ns_id st' = ns_id st \<and> ns_private_key st' = ns_private_key st
     \<and> ns_configuration st' = ns_configuration st"

lemma effect_silentI:
  assumes "same_node st st'"
    and "node_pos st < node_pos st' \<or>
      node_pos st = node_pos st' \<and> (ns_proposal_accepted st \<noteq> None \<longrightarrow> ns_proposal_accepted st' = ns_proposal_accepted st)"
    and "\<And>m. m \<in> set out \<Longrightarrow> \<not> is_vote m"
  shows "sub_step_effect L st out st'"
  using assms by (fastforce simp: sub_step_effect_def same_node_def)

lemma effect_voteI:
  assumes "same_node st st'"
    and "node_pos st < node_pos st' \<or>
      node_pos st = node_pos st' \<and> (ns_proposal_accepted st \<noteq> None \<longrightarrow> ns_proposal_accepted st' = ns_proposal_accepted st)"
    and "ns_proposal_accepted st' = Some p"
    and "\<And>pr. Prepare pr \<in> set out \<Longrightarrow> make_prepare L st (ns_round st') (prop_block p) = Some pr"
    and "\<And>c. Commit c \<in> set out \<Longrightarrow> make_commit L st (ns_round st') (prop_block p) = Some c"
    and "ns_height st' = ns_height st"
  shows "sub_step_effect L st out st'"
proof -
  have "make_prepare L st' r b = make_prepare L st r b" "make_commit L st' r b = make_commit L st r b" for r b
    using make_vote_cong [of st' st] assms(1,6) by (simp_all add: same_node_def)
  with assms(1-5) show ?thesis by (simp add: sub_step_effect_def same_node_def)
qed

lemma upon_new_block_effect:
  assumes "upon_new_block L st = Some (Some out, st')" and "ns_height st' \<noteq> 0"
  shows "proposal_inv st'" and "sub_step_effect L st (map mwr_message out) st'"
proof -
  from assms(1) obtain nb where nb: "find_new_block L st = Some nb" "out = []"
    "st' = prune_messages_below_height (advance_head (snb_block nb) st)"
    by (cases rule: upon_new_blockE) auto
  have "ns_height st < ns_height st'"
    using valid_new_block_height [OF find_new_blockD(1) [OF nb(1)]] assms(2)
    by (auto simp: nb(3) intro: word_le_succ_trans)
  then show "sub_step_effect L st (map mwr_message out) st'"
    by (intro effect_silentI) (simp_all add: nb(2,3) same_node_def node_pos_def)
  show "proposal_inv st'" by (simp add: nb(3) proposal_inv_def)
qed

lemma upon_block_timeout_effect:
  assumes "upon_block_timeout L st = Some (Some out, st')" and "proposal_inv st"
  shows "proposal_inv st'" and "sub_step_effect L st (map mwr_message out) st'"
proof -
  from assms(1) obtain b p pr where fire: "upon_block_timeout_ready st" "get_new_block 0 st = Some b"
      "make_proposal L st 0 b [] [] = Some p" "make_prepare L st 0 b = Some pr"
    and out: "map mwr_message out = [Proposal p, Prepare pr]"
    and st': "st' = st\<lparr>ns_proposal_accepted := Some p, ns_time_last_round_start := ns_local_time st\<rparr>"
    by (cases rule: upon_block_timeoutE) auto
  have r0: "ns_round st = 0" "ns_proposal_accepted st = None"
    using fire(1) by (auto simp: upon_block_timeout_ready_def)
  have b: "prop_block p = b" by (rule make_proposalD(1) [OF fire(3)])
  moreover have "block_height b = ns_height st"
    using get_new_blockD [OF fire(2)] assms(2) by (auto simp: proposal_inv_def)
  ultimately show "proposal_inv st'"
    using assms(2) by (simp add: st' proposal_inv_def)
  show "sub_step_effect L st (map mwr_message out) st'"
    unfolding out
    by (rule effect_voteI [where p = p]) (simp_all add: st' same_node_def node_pos_def r0 b fire(4))
qed

lemma upon_proposal_effect:
  assumes "upon_proposal L st = Some (Some out, st')" and "proposal_inv st"
  shows "proposal_inv st'" and "sub_step_effect L st (map mwr_message out) st'"
proof -
  from assms(1) obtain ms p pr t where fire: "find_valid_proposal L st ms = Some p"
      "make_prepare L st (uprop_round (sprop_payload (prop_payload p))) (prop_block p) = Some pr"
    and out: "map mwr_message out = [Prepare pr]"
    and st': "st' = push_message (Prepare pr)
        (st\<lparr>ns_proposal_accepted := Some p, ns_time_last_round_start := t,
            ns_round := uprop_round (sprop_payload (prop_payload p))\<rparr>)"
    by (cases rule: upon_proposalE) auto
  note valid = is_valid_proposalD [OF find_valid_proposalD(1) [OF fire(1)]]
  show "proposal_inv st'"
    using assms(2) valid(4) by (simp add: st' proposal_inv_def)
  have pos: "node_pos st < node_pos st' \<or>
      node_pos st = node_pos st' \<and> (ns_proposal_accepted st \<noteq> None \<longrightarrow> ns_proposal_accepted st' = ns_proposal_accepted st)"
    using valid(5,6) by (cases "ns_proposal_accepted st") (simp_all add: st' node_pos_def)
  show "sub_step_effect L st (map mwr_message out) st'"
    unfolding out
    by (rule effect_voteI [OF _ pos, where p = p]) (simp_all add: st' same_node_def fire(2))
qed

lemma upon_prepare_effect:
  assumes "upon_prepare L st = Some (Some out, st')" and "proposal_inv st"
  shows "proposal_inv st'" and "sub_step_effect L st (map mwr_message out) st'"
proof -
  from assms(1) obtain p c where p: "ns_proposal_accepted st = Some p"
    and c: "make_commit L st (ns_round st) (prop_block p) = Some c"
    and out: "map mwr_message out = [Commit c]"
    and st': "st' = push_message (Commit c)
        (set_last_prepared_block_and_round (prop_block p) (ns_round st) st)"
    by (cases rule: upon_prepareE) auto
  show "proposal_inv st'"
    using assms(2) by (simp add: st' proposal_inv_def set_last_prepared_block_and_round_def)
  show "sub_step_effect L st (map mwr_message out) st'"
    unfolding out
    by (rule effect_voteI [where p = p])
      (simp_all add: st' same_node_def node_pos_def set_last_prepared_block_and_round_def p c)
qed

lemma upon_commit_effect:
  assumes "upon_commit L st = Some (Some out, st')" and "proposal_inv st" and "ns_height st' \<noteq> 0"
  shows "proposal_inv st'" and "sub_step_effect L st (map mwr_message out) st'"
proof -
  from assms(1) obtain p seals b nb where p: "ns_proposal_accepted st = Some p"
    and b: "b = with_commit_seals (prop_block p) seals"
    and out: "map mwr_message out = [NewBlock nb]"
    and st': "st' = push_message (NewBlock nb) (advance_head b st)"
    by (cases rule: upon_commitE) auto
  have "block_height b = ns_height st"
    using p b assms(2) by (simp add: proposal_inv_def)
  then have "ns_height st < ns_height st'"
    using assms(3) by (simp add: st' word_less_succ)
  then show "sub_step_effect L st (map mwr_message out) st'"
    unfolding out by (intro effect_silentI) (simp_all add: st' same_node_def node_pos_def)
  show "proposal_inv st'" by (simp add: st' proposal_inv_def)
qed

lemma upon_round_change_effect:
  assumes "upon_round_change L st = Some (Some out, st')" and "proposal_inv st"
  shows "proposal_inv st'" and "sub_step_effect L st (map mwr_message out) st'"
proof -
  have "proposal_inv st' \<and> sub_step_effect L st (map mwr_message out) st'"
    using assms(1)
  proof (cases rule: upon_round_changeE)
    case (lead pj p t)
    have st': "st' = push_message (Proposal p)
        (st\<lparr>ns_time_last_round_start := t, ns_round := pj_round pj, ns_proposal_accepted := None\<rparr>)"
      and out: "map mwr_message out = [Proposal p]"
      using lead(3,4) by simp_all
    have "is_proposal_justification_round_valid (pj_round pj) st"
      by (rule has_received_proposal_justificationD(1) [OF lead(1)])
    then have "sub_step_effect L st (map mwr_message out) st'"
      unfolding out
      by (intro effect_silentI)
        (auto simp: st' same_node_def node_pos_def is_proposal_justification_round_valid_def
          split: if_splits)
    with assms(2) show ?thesis by (simp add: st' proposal_inv_def)
  next
    case (jump rcs rc)
    have out: "map mwr_message out = [RoundChange rc]" using jump(5) by simp
    have "sub_step_effect L st (map mwr_message out) st'"
      unfolding out
      by (intro effect_silentI) (simp_all add: jump(3,6) same_node_def node_pos_def)
    with assms(2) show ?thesis by (simp add: jump(6) proposal_inv_def)
  qed simp
  then show "proposal_inv st'" and "sub_step_effect L st (map mwr_message out) st'" by auto
qed

lemma upon_round_timeout_effect:
  assumes "upon_round_timeout L st = Some (out, st')" and "proposal_inv st" and "ns_round st \<noteq> - 1"
  shows "proposal_inv st'"
    and "sub_step_effect L st (case out of None \<Rightarrow> [] | Some o' \<Rightarrow> map mwr_message o') st'"
proof -
  let ?out = "case out of None \<Rightarrow> [] | Some o' \<Rightarrow> map mwr_message o'"
  have "proposal_inv st' \<and> sub_step_effect L st ?out st'"
    using assms(1)
  proof (cases rule: upon_round_timeoutE)
    case (idle ps cs t t')
    have "sub_step_effect L st ?out st'"
      by (intro effect_silentI) (simp_all add: idle same_node_def node_pos_def)
    with assms(2) show ?thesis by (simp add: idle proposal_inv_def)
  next
    case (timeout ps cs t t' st1 rc)
    have "ns_round st < ns_round st + 1"
      using assms(3) by (intro word_less_succ) (simp add: eq_neg_iff_add_eq_0 [symmetric])
    then have "sub_step_effect L st ?out st'"
      by (intro effect_silentI) (simp_all add: timeout(2,4,5) same_node_def node_pos_def)
    with assms(2) show ?thesis by (simp add: timeout(2,5) proposal_inv_def)
  qed
  then show "proposal_inv st'" and "sub_step_effect L st ?out st'" by auto
qed

lemma node_next_sub_step_effect:
  assumes "node_next_sub_step L st = Some (out, st')" and "proposal_inv st"
    and "ns_round st \<noteq> - 1" and "ns_height st' \<noteq> 0"
  shows "proposal_inv st' \<and> sub_step_effect L st (map mwr_message out) st'"
  using assms(1)
proof (cases rule: node_next_sub_step_cases)
  case new_block
  from upon_new_block_effect [OF this assms(4)] show ?thesis by simp
next
  case block_timeout
  from upon_block_timeout_effect [OF this assms(2)] show ?thesis by simp
next
  case proposal
  from upon_proposal_effect [OF this assms(2)] show ?thesis by simp
next
  case prepare
  from upon_prepare_effect [OF this assms(2)] show ?thesis by simp
next
  case commit
  from upon_commit_effect [OF this assms(2,4)] show ?thesis by simp
next
  case round_change
  from upon_round_change_effect [OF this assms(2)] show ?thesis by simp
next
  case round_timeout
  from upon_round_timeout_effect [OF this assms(2,3)] show ?thesis by simp
next
  case deferred
  from upon_round_timeout_effect [OF deferred(2) assms(2,3)] show ?thesis by (simp add: deferred(1))
next
  case nothing
  with assms(2) show ?thesis by (simp add: sub_step_effect_def)
qed

lemma node_next_effect:
  assumes "node_next L time st = Some (out, st')" and "proposal_inv st"
    and "ns_round st \<noteq> - 1" and "ns_height st' \<noteq> 0"
  shows "proposal_inv st' \<and> sub_step_effect L st (map mwr_message out) st'"
proof -
  have "proposal_inv (st\<lparr>ns_local_time := time\<rparr>)" using assms(2) by (simp add: proposal_inv_def)
  from node_next_sub_step_effect [OF assms(1) [unfolded node_next_def] this] assms(3,4)
  show ?thesis by (simp add: sub_step_effect_def node_pos_def)
qed

lemma node_step_effect:
  assumes "node_step L st out st'" and "proposal_inv st"
  shows "proposal_inv st'" and "sub_step_effect L st out st'"
proof -
  from assms(1) have "proposal_inv st' \<and> sub_step_effect L st out st'"
  proof (cases rule: node_step.cases)
    case (receive ms time)
    then show ?thesis
      using assms(2) add_messages_frame [OF receive(2)]
      by (simp add: proposal_inv_def sub_step_effect_def node_pos_def)
  next
    case (tick time out')
    then show ?thesis using node_next_effect assms(2) by blast
  next
    case (loopback m)
    then show ?thesis using assms(2) by (simp add: proposal_inv_def sub_step_effect_def node_pos_def)
  next
    case (install b)
    then show ?thesis using assms(2) by (simp add: proposal_inv_def sub_step_effect_def node_pos_def)
  qed
  then show "proposal_inv st'" and "sub_step_effect L st out st'" by auto
qed

end
