(* ===== verification/Node_Safety.thy ===== *)
theory Node_Safety
  imports Node_Run
begin

text \<open>
  What holds along every run of one node: the store stays well formed, the position
  (height, round) never goes back, votes are unique per position, and a node that sent a
  commit keeps announcing at least that round as prepared.
\<close>

section \<open>The store invariant\<close>

lemma store_inv_advance_head [simp]: "store_inv (advance_head b st) = store_inv st"
  by (rule store_inv_cong) simp_all

lemma store_inv_updates [simp]:
  "store_inv (st\<lparr>ns_blockchain := bc\<rparr>) = store_inv st"
  "store_inv (st\<lparr>ns_round := r\<rparr>) = store_inv st"
  "store_inv (st\<lparr>ns_local_time := t\<rparr>) = store_inv st"
  "store_inv (st\<lparr>ns_proposal_accepted := p\<rparr>) = store_inv st"
  "store_inv (st\<lparr>ns_last_prepared_block := b\<rparr>) = store_inv st"
  "store_inv (st\<lparr>ns_last_prepared_round := pr\<rparr>) = store_inv st"
  "store_inv (st\<lparr>ns_time_last_round_start := t\<rparr>) = store_inv st"
  "store_inv (st\<lparr>ns_rz_progress_prepares := ps\<rparr>) = store_inv st"
  "store_inv (st\<lparr>ns_rz_progress_commits := cs\<rparr>) = store_inv st"
  "store_inv (st\<lparr>ns_rz_last_progress_time := t\<rparr>) = store_inv st"
  by (simp_all add: store_inv_def)

lemma store_inv_change_round: "store_inv st \<Longrightarrow> store_inv (change_round r rc st)"
  by (simp add: change_round_def store_inv_push)

lemma store_inv_node_next_sub_step:
  assumes "node_next_sub_step L st = Some (out, st')" and inv: "store_inv st"
  shows "store_inv st'"
  using assms(1)
proof (cases rule: node_next_sub_step_cases)
  case new_block
  then show ?thesis
    using inv by (cases rule: upon_new_blockE) (simp_all add: prune_messages_store(2))
next
  case block_timeout
  then show ?thesis using inv by (cases rule: upon_block_timeoutE) simp_all
next
  case proposal
  then show ?thesis using inv by (cases rule: upon_proposalE) (simp_all add: store_inv_push)
next
  case prepare
  then show ?thesis
    using inv by (cases rule: upon_prepareE)
      (simp_all add: store_inv_push set_last_prepared_block_and_round_def)
next
  case commit
  then show ?thesis using inv by (cases rule: upon_commitE) (simp_all add: store_inv_push)
next
  case round_change
  then show ?thesis
    using inv by (cases rule: upon_round_changeE) (simp_all add: store_inv_push store_inv_change_round)
next
  case round_timeout
  then show ?thesis using inv by (cases rule: upon_round_timeoutE) (simp_all add: store_inv_change_round)
next
  case deferred
  from deferred(2) show ?thesis using inv by (cases rule: upon_round_timeoutE) simp_all
next
  case nothing
  with inv show ?thesis by simp
qed

lemma store_inv_node_step:
  assumes "node_step L st out st'" and "store_inv st"
  shows "store_inv st'"
  using assms
proof (cases rule: node_step.cases)
  case (receive ms time)
  then show ?thesis using assms(2) store_inv_add_messages by blast
next
  case (tick time out')
  with assms(2) show ?thesis
    by (auto simp: node_next_def elim!: store_inv_node_next_sub_step)
next
  case (loopback m)
  with assms(2) show ?thesis by (simp add: store_inv_push)
qed simp

section \<open>What a step leaves of the prepared round\<close>

text \<open>
  The prepared round is never above the current round.  While the height stays, a step
  either leaves it alone or raises it to the current round; a round change that goes out
  announces exactly the prepared round, value and block of the state.
\<close>

definition prepared_inv :: "node_state \<Rightarrow> bool" where
  "prepared_inv st \<longleftrightarrow> (\<forall>pr. ns_last_prepared_round st = Some pr \<longrightarrow> pr \<le> ns_round st)"

definition prepared_effect :: "libs \<Rightarrow> node_state \<Rightarrow> qbft_message list \<Rightarrow> node_state \<Rightarrow> bool" where
  "prepared_effect L st out st' \<longleftrightarrow>
     (ns_height st < ns_height st' \<and> ns_last_prepared_round st' = None
      \<or> ns_height st' = ns_height st \<and> ns_round st \<le> ns_round st'
        \<and> (ns_last_prepared_round st' = ns_last_prepared_round st
           \<or> ns_last_prepared_round st' = Some (ns_round st')))
     \<and> (\<forall>c. Commit c \<in> set out \<longrightarrow> ns_last_prepared_round st' = Some (msg_round (Commit c))
          \<and> msg_height (Commit c) = ns_height st')
     \<and> (\<forall>rc. RoundChange rc \<in> set out \<longrightarrow>
          msg_height (RoundChange rc) = ns_height st'
          \<and> urc_prepared_round (src_payload (rc_payload rc)) = ns_last_prepared_round st')"

lemma prepared_effect_quietI:
  assumes "ns_blockchain st' = ns_blockchain st" and "ns_round st \<le> ns_round st'"
    and "ns_last_prepared_round st' = ns_last_prepared_round st"
    and "\<And>c. Commit c \<notin> set out" and "\<And>rc. RoundChange rc \<notin> set out"
  shows "prepared_effect L st out st'"
  using assms by (simp add: prepared_effect_def)

lemma prepared_effect_sub_step:
  assumes "node_next_sub_step L st = Some (out, st')" and "proposal_inv st"
    and "ns_round st \<noteq> - 1" and "ns_height st' \<noteq> 0"
  shows "prepared_effect L st (map mwr_message out) st'"
  using assms(1)
proof (cases rule: node_next_sub_step_cases)
  case new_block
  then obtain nb where nb: "find_new_block L st = Some nb" "out = []"
    "st' = prune_messages_below_height (advance_head (snb_block nb) st)"
    by (cases rule: upon_new_blockE) auto
  have "ns_height st < ns_height st'"
    using valid_new_block_height [OF find_new_blockD(1) [OF nb(1)]] assms(4)
    by (auto simp: nb(3) intro: word_le_succ_trans)
  then show ?thesis by (simp add: nb(2,3) prepared_effect_def)
next
  case block_timeout
  then show ?thesis
    by (cases rule: upon_block_timeoutE) (auto intro!: prepared_effect_quietI)
next
  case proposal
  then obtain ms p pr t where p: "find_valid_proposal L st ms = Some p"
    and out: "map mwr_message out = [Prepare pr]"
    and st': "st' = push_message (Prepare pr)
        (st\<lparr>ns_proposal_accepted := Some p, ns_time_last_round_start := t,
            ns_round := uprop_round (sprop_payload (prop_payload p))\<rparr>)"
    by (cases rule: upon_proposalE) auto
  note valid = is_valid_proposalD(5,6) [OF find_valid_proposalD(1) [OF p]]
  have "ns_round st \<le> ns_round st'"
    using valid by (cases "ns_proposal_accepted st") (simp_all add: st')
  then show ?thesis unfolding out by (intro prepared_effect_quietI) (simp_all add: st')
next
  case prepare
  then obtain p c where "ns_proposal_accepted st = Some p"
    and c: "make_commit L st (ns_round st) (prop_block p) = Some c"
    and out: "map mwr_message out = [Commit c]"
    and st': "st' = push_message (Commit c)
        (set_last_prepared_block_and_round (prop_block p) (ns_round st) st)"
    by (cases rule: upon_prepareE) auto
  show ?thesis
    unfolding out
    using make_commitD(1,2) [OF c]
    by (simp add: st' prepared_effect_def set_last_prepared_block_and_round_def)
next
  case commit
  then obtain p seals b nb where p: "ns_proposal_accepted st = Some p"
    and b: "b = with_commit_seals (prop_block p) seals"
    and out: "map mwr_message out = [NewBlock nb]"
    and st': "st' = push_message (NewBlock nb) (advance_head b st)"
    by (cases rule: upon_commitE) auto
  have "block_height b = ns_height st" using p b assms(2) by (simp add: proposal_inv_def)
  then have "ns_height st < ns_height st'" using assms(4) by (simp add: st' word_less_succ)
  then show ?thesis unfolding out by (simp add: st' prepared_effect_def)
next
  case round_change
  then show ?thesis
  proof (cases rule: upon_round_changeE)
    case (lead pj p t)
    have "is_proposal_justification_round_valid (pj_round pj) st"
      by (rule has_received_proposal_justificationD(1) [OF lead(1)])
    moreover have "map mwr_message out = [Proposal p]" using lead(3) by simp
    ultimately show ?thesis
      by (intro prepared_effect_quietI)
        (auto simp: lead(4) is_proposal_justification_round_valid_def split: if_splits)
  next
    case (jump rcs rc)
    have "map mwr_message out = [RoundChange rc]" using jump(5) by simp
    then show ?thesis
      using jump(3) create_round_changeD(1,3) [OF jump(4)] by (simp add: jump(6) prepared_effect_def)
  qed simp
next
  case round_timeout
  then obtain st1 rc ps cs t t' where st1: "st1 = st\<lparr>ns_rz_progress_prepares := ps, ns_rz_progress_commits := cs,
              ns_rz_last_progress_time := t, ns_time_last_round_start := t'\<rparr>"
    and rc: "create_round_change L st1 (ns_round st + 1) = Some rc"
    and out: "map mwr_message out = [RoundChange rc]"
    and st': "st' = change_round (ns_round st + 1) rc (st1\<lparr>ns_time_last_round_start := ns_local_time st\<rparr>)"
    by (cases rule: upon_round_timeoutE) auto
  have "ns_round st < ns_round st + 1"
    using assms(3) by (intro word_less_succ) (simp add: eq_neg_iff_add_eq_0 [symmetric])
  then show ?thesis
    unfolding out using create_round_changeD(1,3) [OF rc] by (simp add: st' st1 prepared_effect_def)
next
  case deferred
  from deferred(2) show ?thesis
    by (cases rule: upon_round_timeoutE) (simp_all add: deferred(1) prepared_effect_def)
next
  case nothing
  then show ?thesis by (simp add: prepared_effect_def)
qed

lemma prepared_effect_step:
  assumes "node_step L st out st'" and "proposal_inv st"
  shows "prepared_effect L st out st'"
  using assms(1)
proof (cases rule: node_step.cases)
  case (receive ms time)
  then show ?thesis
    using add_messages_frame [OF receive(2)] by (simp add: prepared_effect_def)
next
  case (tick time out')
  have "proposal_inv (st\<lparr>ns_local_time := time\<rparr>)" using assms(2) by (simp add: proposal_inv_def)
  from prepared_effect_sub_step [OF tick(2) [unfolded node_next_def] this] tick
  show ?thesis by (simp add: prepared_effect_def)
qed (simp_all add: prepared_effect_def)

section \<open>Invariants of runs\<close>

definition node_moves :: "libs \<Rightarrow> node_state \<Rightarrow> node_state \<Rightarrow> bool" where
  "node_moves L st st' \<longleftrightarrow> (\<exists>out. node_step L st out st')"

lemma run_moves: "run (node_step L) st outs st' \<Longrightarrow> (node_moves L)\<^sup>*\<^sup>* st st'"
  by (induction rule: run.induct) (auto simp: node_moves_def intro: rtranclp.rtrancl_into_rtrancl)

interpretation stores: step_invariant "node_moves L" store_inv for L
  by unfold_locales (auto simp: node_moves_def intro: store_inv_node_step)

definition round_inv :: "node_state \<Rightarrow> bool" where
  "round_inv st \<longleftrightarrow> proposal_inv st \<and> prepared_inv st"

lemma prepared_inv_step:
  "prepared_effect L st out st' \<Longrightarrow> prepared_inv st \<Longrightarrow> prepared_inv st'"
  by (auto simp: prepared_effect_def prepared_inv_def)

lemma round_inv_step: "node_step L st out st' \<Longrightarrow> round_inv st \<Longrightarrow> round_inv st'"
  by (metis node_step_effect(1) prepared_effect_step prepared_inv_step round_inv_def)

interpretation rounds: step_invariant "node_moves L" round_inv for L
  by unfold_locales (auto simp: node_moves_def intro: round_inv_step)

definition at_or_after :: "u64 \<times> u64 \<Rightarrow> node_state \<Rightarrow> bool" where
  "at_or_after p st \<longleftrightarrow> proposal_inv st \<and> p \<le> node_pos st"

interpretation positions: step_invariant "node_moves L" "at_or_after p" for L p
proof unfold_locales
  fix s t
  assume "node_moves L s t" and "at_or_after p s"
  then show "at_or_after p t"
    using node_step_effect [of L s _ t] by (fastforce simp: node_moves_def at_or_after_def sub_step_effect_def)
qed

text \<open>
  After a commit in round \<open>r\<close> of height \<open>h\<close>: either the height has passed, or a round at
  least \<open>r\<close> is still recorded as prepared.
\<close>

definition locked :: "u64 \<Rightarrow> u64 \<Rightarrow> node_state \<Rightarrow> bool" where
  "locked h r st \<longleftrightarrow> round_inv st \<and>
     (h < ns_height st \<or>
      ns_height st = h \<and> (\<exists>pr. ns_last_prepared_round st = Some pr \<and> r \<le> pr))"

lemma locked_step:
  assumes "node_step L st out st'" and "locked h r st"
  shows "locked h r st'"
proof -
  have inv: "proposal_inv st" "prepared_inv st" "round_inv st'"
    using assms round_inv_step by (auto simp: locked_def round_inv_def)
  have "prepared_effect L st out st'" using assms(1) inv(1) by (rule prepared_effect_step)
  with assms(2) inv show ?thesis
    by (auto simp: locked_def prepared_effect_def prepared_inv_def)
qed

interpretation locks: step_invariant "node_moves L" "locked h r" for L h r
  by unfold_locales (auto simp: node_moves_def intro: locked_step)

lemma commit_locks:
  assumes "run (node_step L) st outs st'" and "round_inv st" and "Commit c \<in> set outs"
  shows "locked (msg_height (Commit c)) (msg_round (Commit c)) st'"
  using assms
proof (induction rule: run.induct)
  case (run_step outs s out t)
  have inv: "round_inv s"
    using rounds.steps_keep [OF run_moves [OF run_step.hyps(1)] run_step.prems(1)] .
  show ?case
  proof (cases "Commit c \<in> set outs")
    case True
    with run_step show ?thesis by (auto intro: locked_step)
  next
    case False
    with run_step.prems(2) have "Commit c \<in> set out" by simp
    with prepared_effect_step [OF run_step.hyps(2)] inv round_inv_step [OF run_step.hyps(2) inv]
    show ?thesis by (auto simp: locked_def prepared_effect_def round_inv_def)
  qed
qed simp

section \<open>One vote per height and round\<close>

abbreviation vote_position :: "qbft_message \<Rightarrow> u64 \<times> u64" where
  "vote_position m \<equiv> (msg_height m, msg_round m)"

fun is_prepare :: "qbft_message \<Rightarrow> bool" where
  "is_prepare (Prepare _) = True"
| "is_prepare _ = False"

fun is_commit :: "qbft_message \<Rightarrow> bool" where
  "is_commit (Commit _) = True"
| "is_commit _ = False"

definition cast_prepare :: "libs \<Rightarrow> node_state \<Rightarrow> proposal \<Rightarrow> qbft_message option" where
  "cast_prepare L st p = map_option Prepare (make_prepare L st (ns_round st) (prop_block p))"

definition cast_commit :: "libs \<Rightarrow> node_state \<Rightarrow> proposal \<Rightarrow> qbft_message option" where
  "cast_commit L st p = map_option Commit (make_commit L st (ns_round st) (prop_block p))"

lemma step_progress:
  assumes "proposal_inv st" and "node_step L st out st'"
  shows "node_pos st < node_pos st' \<or> node_pos st = node_pos st'
      \<and> (ns_proposal_accepted st \<noteq> None \<longrightarrow> ns_proposal_accepted st' = ns_proposal_accepted st)"
  using node_step_effect(2) [OF assms(2,1)] by (simp add: sub_step_effect_def)

lemma step_votes:
  assumes "proposal_inv st" and "node_step L st out st'"
  shows "Prepare pr \<in> set out \<Longrightarrow> \<exists>p. ns_proposal_accepted st' = Some p
      \<and> make_prepare L st' (ns_round st') (prop_block p) = Some pr"
    and "Commit c \<in> set out \<Longrightarrow> \<exists>p. ns_proposal_accepted st' = Some p
      \<and> make_commit L st' (ns_round st') (prop_block p) = Some c"
  using node_step_effect(2) [OF assms(2,1)] by (auto simp: sub_step_effect_def)

lemma step_casts_stable:
  assumes "proposal_inv st" and "node_step L st out st'" and "node_pos st = node_pos st'"
  shows "cast_prepare L st' = cast_prepare L st" and "cast_commit L st' = cast_commit L st"
proof -
  have "ns_height st' = ns_height st" "ns_private_key st' = ns_private_key st" "ns_round st' = ns_round st"
    using node_step_effect(2) [OF assms(2,1)] assms(3) by (auto simp: sub_step_effect_def node_pos_def)
  then show "cast_prepare L st' = cast_prepare L st" and "cast_commit L st' = cast_commit L st"
    using make_vote_cong [of st' st L] by (simp_all add: fun_eq_iff cast_prepare_def cast_commit_def)
qed

interpretation prepares: single_vote "node_step L" proposal_inv node_pos ns_proposal_accepted
    is_prepare vote_position "cast_prepare L" for L
proof unfold_locales
  fix s out t m
  assume inv: "proposal_inv s" and step: "node_step L s out t"
  show "proposal_inv t" using step inv by (rule node_step_effect(1))
  show "node_pos s < node_pos t \<or> node_pos s = node_pos t
      \<and> (ns_proposal_accepted s \<noteq> None \<longrightarrow> ns_proposal_accepted t = ns_proposal_accepted s)"
    using inv step by (rule step_progress)
  show "node_pos s = node_pos t \<Longrightarrow> cast_prepare L t = cast_prepare L s"
    using inv step by (rule step_casts_stable)
  assume "m \<in> set out" and "is_prepare m"
  moreover from \<open>is_prepare m\<close> obtain pr where m: "m = Prepare pr" by (cases m) auto
  ultimately obtain p where "ns_proposal_accepted t = Some p"
    "make_prepare L t (ns_round t) (prop_block p) = Some pr"
    using step_votes [OF inv step] by blast
  with make_prepareD(2,3) [of L t "ns_round t" "prop_block p" pr] m
  show "vote_position m = node_pos t \<and> (\<exists>b. ns_proposal_accepted t = Some b \<and> cast_prepare L t b = Some m)"
    by (simp add: node_pos_def cast_prepare_def)
qed

interpretation commits: single_vote "node_step L" proposal_inv node_pos ns_proposal_accepted
    is_commit vote_position "cast_commit L" for L
proof unfold_locales
  fix s out t m
  assume inv: "proposal_inv s" and step: "node_step L s out t"
  show "proposal_inv t" using step inv by (rule node_step_effect(1))
  show "node_pos s < node_pos t \<or> node_pos s = node_pos t
      \<and> (ns_proposal_accepted s \<noteq> None \<longrightarrow> ns_proposal_accepted t = ns_proposal_accepted s)"
    using inv step by (rule step_progress)
  show "node_pos s = node_pos t \<Longrightarrow> cast_commit L t = cast_commit L s"
    using inv step by (rule step_casts_stable)
  assume "m \<in> set out" and "is_commit m"
  moreover from \<open>is_commit m\<close> obtain c where m: "m = Commit c" by (cases m) auto
  ultimately obtain p where "ns_proposal_accepted t = Some p"
    "make_commit L t (ns_round t) (prop_block p) = Some c"
    using step_votes [OF inv step] by blast
  with make_commitD(1,2) [of L t "ns_round t" "prop_block p" c] m
  show "vote_position m = node_pos t \<and> (\<exists>b. ns_proposal_accepted t = Some b \<and> cast_commit L t b = Some m)"
    by (simp add: node_pos_def cast_commit_def)
qed

end
