(* ===== verification/Node_Example.thy ===== *)
theory Node_Example
  imports Node_Safety Example_Libs
begin

text \<open>
  A concrete node for the examples of the other theories: the chain holds the genesis
  block with one validator, the node is that validator and has a block to propose.  The
  states below are one height of its life: propose, receive its own messages, commit,
  decide.  Nothing here models code of the repository.
\<close>

section \<open>Blocks and messages\<close>

definition ex_genesis :: block where
  "ex_genesis = block_new example_libs
     \<lparr>bh_proposer = 0, bh_round_number = 0, bh_commit_seals = [], bh_height = 0,
      bh_timestamp = 0, bh_validators = [1], bh_digest = 0\<rparr> [7]"

definition ex_block :: block where
  "ex_block = block_new example_libs
     \<lparr>bh_proposer = 1, bh_round_number = 0, bh_commit_seals = [], bh_height = 1,
      bh_timestamp = 1, bh_validators = [1], bh_digest = 0\<rparr> [8]"

definition ex_config :: configuration where
  "ex_config = \<lparr>cfg_nodes = [1], cfg_genesis_block = ex_genesis, cfg_block_time = 1,
     cfg_round_change_config = default_round_change_config\<rparr>"

definition ex_digest :: hash where
  "ex_digest = digest example_libs ex_block"

definition ex_signature :: signature where
  "ex_signature = \<lparr>sig_author = 1, sig_bytes = [1]\<rparr>"

definition ex_proposal :: proposal where
  "ex_proposal = \<lparr>prop_payload =
       \<lparr>sprop_payload = \<lparr>uprop_height = 1, uprop_round = 0, uprop_digest = ex_digest\<rparr>,
        sprop_signature = ex_signature\<rparr>,
     prop_block = ex_block, prop_justification = [], prop_rc_justification = []\<rparr>"

definition ex_prepare :: prepare where
  "ex_prepare = \<lparr>prep_payload =
       \<lparr>sprep_payload = \<lparr>uprep_height = 1, uprep_round = 0, uprep_digest = ex_digest\<rparr>,
        sprep_signature = ex_signature\<rparr>\<rparr>"

definition ex_commit :: commit where
  "ex_commit = \<lparr>com_payload =
       \<lparr>scom_payload = \<lparr>ucom_height = 1, ucom_round = 0, ucom_commit_seal = ex_signature,
          ucom_digest = ex_digest\<rparr>,
        scom_signature = ex_signature\<rparr>\<rparr>"

definition ex_sealed :: block where
  "ex_sealed = with_commit_seals ex_block [ex_signature]"

definition ex_new_block :: signed_new_block where
  "ex_new_block = \<lparr>snb_payload = \<lparr>unb_height = 1, unb_round = 0, unb_digest = digest example_libs ex_sealed\<rparr>,
     snb_signature = ex_signature, snb_block = ex_sealed\<rparr>"

section \<open>States\<close>

definition ex_chain :: blockchain where
  "ex_chain = \<lparr>bc_proposed_block = Some ex_block, bc_older = [], bc_head = ex_genesis\<rparr>"

definition ex_start :: node_state where
  "ex_start = node_state_new ex_chain ex_config 1 (Some 1) 0"

definition ex_proposed :: node_state where
  "ex_proposed = ex_start\<lparr>ns_local_time := 1, ns_proposal_accepted := Some ex_proposal,
     ns_time_last_round_start := 1\<rparr>"

definition ex_ready :: node_state where
  "ex_ready = ex_proposed\<lparr>ns_messages_received := [Proposal ex_proposal, Prepare ex_prepare],
     ns_message_keys := {(1, 0, 0, 1), (1, 0, 1, 1)}, ns_first_future_message := 2\<rparr>"

definition ex_committed :: node_state where
  "ex_committed = ex_ready\<lparr>ns_messages_received := [Proposal ex_proposal, Prepare ex_prepare, Commit ex_commit],
     ns_message_keys := {(1, 0, 0, 1), (1, 0, 1, 1), (1, 0, 2, 1)},
     ns_last_prepared_block := Some ex_block, ns_last_prepared_round := Some 0\<rparr>"

definition ex_voted :: node_state where
  "ex_voted = ex_committed\<lparr>ns_first_future_message := 3\<rparr>"

definition ex_decided :: node_state where
  "ex_decided = push_message (NewBlock ex_new_block) (advance_head ex_sealed ex_voted)"

lemmas ex_state_defs = ex_start_def ex_proposed_def ex_ready_def ex_committed_def ex_voted_def
  node_state_new_def ex_chain_def ex_config_def

lemmas ex_message_defs = ex_proposal_def ex_prepare_def ex_commit_def ex_signature_def ex_digest_def
  ex_block_def ex_genesis_def ex_new_block_def ex_sealed_def block_new_def example_libs_def

lemmas lib_defs = sign_bytes_def sign_message_def sign_hash_def sign_proposal_def sign_prepare_def
  sign_commit_def sign_new_block_def digest_def hash_block_for_commit_seal_def verify_message_def
  validate_digest_def

lemmas chain_defs = proposer_def validators_def height_def next_block_timeout_def multicast_def blocks_def
  prune_def MAX_BLOCKS_def

lemmas store_defs = add_messages_def add_one_def insert_message_sorted_def
  binary_search_by_key_absent unwrap_index_def vec_insert_def author_defs
  prepare_sig_def partition_point_takeWhile prune_messages_below_height_def prune_blockchain_def messages_received_def
  slice_def push_message_def Let_def ord_cmp_def 

lemmas step_defs = node_next_def node_next_sub_step_def or_else_def upon_new_block_def find_new_block_def
  upon_block_timeout_def upon_block_timeout_ready_def get_new_block_def
  make_proposal_def make_prepare_def make_commit_def upon_proposal_def find_valid_proposal_def
  upon_prepare_def upon_commit_def has_sent_commit_def is_valid_proposal_def
  valid_prepares_for_height_round_and_digest_def valid_commits_for_height_round_and_digest_def
  prepare_for_def commit_for_def set_last_prepared_block_and_round_def
  is_proposal_justification_def validate_non_prepared_block_def quorum_def usize_sub_def
  is_the_proposer_for_current_round_def get_commit_seals_from_commit_messages_def with_commit_seals_def

lemma ex_tick_propose:
  "node_next example_libs 1 ex_start =
    Some (multicast [1] (Proposal ex_proposal) @ multicast [1] (Prepare ex_prepare), ex_proposed)"
  by (simp add: step_defs chain_defs lib_defs ex_state_defs ex_message_defs)

lemma ex_components [simp]:
  "components (Proposal ex_proposal) = (1, 0, 0, 1)"
  "components (Prepare ex_prepare) = (1, 0, 1, 1)"
  "components (Commit ex_commit) = (1, 0, 2, 1)"
  "msg_height (Proposal ex_proposal) = 1"
  "msg_height (Prepare ex_prepare) = 1"
  "msg_height (Commit ex_commit) = 1"
  by (simp_all add: ex_message_defs author_defs)

lemma ex_accepted [simp]:
  "accept_message example_libs [1] ex_chain (Proposal ex_proposal) = Some True"
  "accept_message example_libs [1] ex_chain (Prepare ex_prepare) = Some True"
  by (simp_all add: accept_message_def prepare_sig_def lib_defs ex_message_defs author_defs)

lemma ex_chain_simps [simp]:
  "height ex_chain = 1" "validators ex_chain = [1]" "blocks ex_chain = [ex_genesis]" "prune ex_chain = ex_chain"
  by (simp_all add: ex_chain_def chain_defs ex_message_defs)

lemma ex_receive_ready:
  "add_messages example_libs [Proposal ex_proposal, Prepare ex_prepare] 1 ex_proposed = Some ex_ready"
  by (simp add: store_defs ex_proposed_def ex_ready_def ex_start_def node_state_new_def insert_commute
     del: components.simps msg_height.simps) 

lemma ex_tick_commit:
  "node_next example_libs 1 ex_ready = Some (multicast [1] (Commit ex_commit), ex_committed)"
  by (simp add: step_defs store_defs chain_defs lib_defs ex_state_defs ex_message_defs insert_commute)

lemma ex_receive_voted: "add_messages example_libs [] 1 ex_committed = Some ex_voted"
  by (simp add: store_defs ex_voted_def ex_committed_def ex_ready_def ex_proposed_def ex_start_def node_state_new_def
     del: components.simps msg_height.simps)

lemma ex_tick_decide:
  "node_next example_libs 1 ex_voted = Some (multicast [1] (NewBlock ex_new_block), ex_decided)"
  unfolding ex_decided_def
  by (simp add: step_defs store_defs chain_defs lib_defs ex_state_defs ex_message_defs)

section \<open>The run\<close>

lemma ex_run_commit:
  "run (node_step example_libs) ex_start [Proposal ex_proposal, Prepare ex_prepare, Commit ex_commit] ex_committed"
proof -
  have h: "ns_height ex_proposed \<noteq> 0" "ns_height ex_committed \<noteq> 0" "ns_round ex_start \<noteq> -1" "ns_round ex_ready \<noteq> -1"
    by (simp_all add: ex_committed_def ex_ready_def ex_proposed_def ex_start_def node_state_new_def)
  note 1 = run.run_step [where step = "node_step example_libs", OF run.run_nil node_step.tick [OF ex_tick_propose h(3,1)]]
  note 2 = run.run_step [where step = "node_step example_libs", OF 1 node_step.receive [OF ex_receive_ready]]
  note 3 = run.run_step [where step = "node_step example_libs", OF 2 node_step.tick [OF ex_tick_commit h(4,2)]]
  from 3 show ?thesis by (simp add: multicast_def)
qed

lemma ex_invariants: "proposal_inv ex_start" "round_inv ex_start" "store_inv ex_start"
  by (simp_all add: proposal_inv_def round_inv_def prepared_inv_def ex_start_def node_state_new_def
      ex_chain_def height_def ex_message_defs store_inv_def)

section \<open>A round that times out\<close>

text \<open>
  Two validators, so a quorum is both.  The node holds both prepares, commits, and then
  gives up on the round because the other commit never arrives.
\<close>

definition ex2_chain :: blockchain where
  "ex2_chain = \<lparr>bc_proposed_block = Some ex_block, bc_older = [],
     bc_head = ex_genesis\<lparr>blk_header := (blk_header ex_genesis)\<lparr>bh_validators := [1, 2]\<rparr>\<rparr>\<rparr>"

definition ex2_prepare :: prepare where
  "ex2_prepare = \<lparr>prep_payload =
       \<lparr>sprep_payload = \<lparr>uprep_height = 1, uprep_round = 0, uprep_digest = ex_digest\<rparr>,
        sprep_signature = \<lparr>sig_author = 2, sig_bytes = [2]\<rparr>\<rparr>\<rparr>"

definition ex2_ready :: node_state where
  "ex2_ready = ex_proposed\<lparr>ns_blockchain := ex2_chain,
     ns_messages_received := [Proposal ex_proposal, Prepare ex_prepare, Prepare ex2_prepare],
     ns_message_keys := {(1, 0, 0, 1), (1, 0, 1, 1), (1, 0, 1, 2)}, ns_first_future_message := 3,
     ns_rz_progress_prepares := 2, ns_rz_progress_commits := 1\<rparr>"

definition ex2_committed :: node_state where
  "ex2_committed = ex2_ready\<lparr>
     ns_messages_received := [Proposal ex_proposal, Prepare ex_prepare, Prepare ex2_prepare, Commit ex_commit],
     ns_message_keys := insert (1, 0, 2, 1) (ns_message_keys ex2_ready),
     ns_last_prepared_block := Some ex_block, ns_last_prepared_round := Some 0\<rparr>"

definition ex2_voted :: node_state where
  "ex2_voted = ex2_committed\<lparr>ns_first_future_message := 4\<rparr>"

definition ex2_round_change :: round_change where
  "ex2_round_change = \<lparr>rc_payload =
       \<lparr>src_payload = \<lparr>urc_height = 1, urc_round = 1, urc_prepared_value = Some ex_digest,
          urc_prepared_round = Some 0\<rparr>,
        src_signature = ex_signature\<rparr>,
     rc_justification = [prep_payload ex_prepare, prep_payload ex2_prepare],
     rc_proposed_block = Some ex_block\<rparr>"

definition ex2_late :: node_state where
  "ex2_late = change_round 1 ex2_round_change
     (ex2_voted\<lparr>ns_local_time := 100, ns_time_last_round_start := 100\<rparr>)"

lemmas ex2_state_defs = ex2_ready_def ex2_committed_def ex2_voted_def ex2_chain_def ex2_prepare_def
  ex2_round_change_def

lemmas round_change_defs = upon_round_change_def use_ibft_method_def has_received_proposal_justification_def
  is_proposal_justification_round_valid_def received_signed_round_changes_for_current_height_and_future_rounds_def
  future_round_change_def get_set_of_round_change_senders_def upon_round_timeout_def defer_round_zero_timeout_def
  round_zero_progress_counts_def update_round_zero_progress_def saturating_sub_def next_round_timeout_def
  round_timeout_def create_round_change_def sign_round_change_def get_round_change_justification_def
  encode_unsigned_round_change_def prepared_round_encoded_def checked_add_def f_def

lemma ex_timeout: "timeout_for_round default_round_change_config 0 = 10"
  by (simp add: timeout_for_round_def default_round_change_config_def f64_as_u64_def)

lemma ex_first_block: "rcc_round_change_on_first_block default_round_change_config"
  by (simp add: default_round_change_config_def)

lemma two_voters: "card {x :: address. x = 1 \<or> x = 2} = 2"
  by (simp add: Collect_disj_eq)

lemma one_voter: "card {x :: address. x = 1 \<and> (x = 1 \<or> x = 2)} = 1"
proof -
  have "{x :: address. x = 1 \<and> (x = 1 \<or> x = 2)} = {1}" by auto
  then show ?thesis by simp
qed

lemma ex2_components [simp]: "components (Prepare ex2_prepare) = (1, 0, 1, 2)" "msg_height (Prepare ex2_prepare) = 1"
  by (simp_all add: ex2_prepare_def author_defs)

lemma ex2_chain_simps [simp]:
  "height ex2_chain = 1" "validators ex2_chain = [1, 2]" "blocks ex2_chain = [bc_head ex2_chain]"
  "prune ex2_chain = ex2_chain"
  by (simp_all add: ex2_chain_def chain_defs ex_message_defs)

lemma ex2_tick_commit:
  "node_next example_libs 1 ex2_ready = Some (multicast [1, 2] (Commit ex_commit), ex2_committed)"
  by (simp add: step_defs store_defs chain_defs lib_defs ex_state_defs ex_message_defs ex2_state_defs insert_commute)

lemma ex2_receive_voted: "add_messages example_libs [] 1 ex2_committed = Some ex2_voted"
  by (simp add: store_defs ex2_voted_def ex2_committed_def ex2_ready_def ex_proposed_def ex_start_def
      node_state_new_def del: components.simps msg_height.simps)

lemma ex2_tick_timeout:
  "node_next example_libs 100 ex2_voted = Some (multicast [1, 2] (RoundChange ex2_round_change), ex2_late)"
  unfolding ex2_late_def change_round_def push_message_def
  by (simp add: step_defs round_change_defs change_round_def store_defs chain_defs lib_defs ex_state_defs ex_message_defs
      ex2_state_defs ex_timeout ex_first_block two_voters one_voter)

lemma ex2_run_commit: "run (node_step example_libs) ex2_ready [Commit ex_commit] ex2_voted"
proof -
  have h: "ns_height ex2_committed \<noteq> 0" "ns_round ex2_ready \<noteq> - 1"
    by (simp_all add: ex2_committed_def ex2_ready_def ex_proposed_def ex_start_def node_state_new_def)
  note 1 = run.run_step [where step = "node_step example_libs", OF run.run_nil
      node_step.tick [OF ex2_tick_commit h(2,1)]]
  note 2 = run.run_step [where step = "node_step example_libs", OF 1 node_step.receive [OF ex2_receive_voted]]
  from 2 show ?thesis by (simp add: multicast_def)
qed

lemma ex2_run_timeout: "run (node_step example_libs) ex2_voted [RoundChange ex2_round_change] ex2_late"
proof -
  have h: "ns_height ex2_late \<noteq> 0" "ns_round ex2_voted \<noteq> - 1"
    by (simp_all add: ex2_late_def ex2_voted_def ex2_committed_def ex2_ready_def ex_proposed_def ex_start_def
        node_state_new_def)
  from run.run_step [where step = "node_step example_libs", OF run.run_nil
      node_step.tick [OF ex2_tick_timeout h(2,1)]]
  show ?thesis by (simp add: multicast_def)
qed

lemma ex2_invariants: "round_inv ex2_ready"
  by (simp add: round_inv_def proposal_inv_def prepared_inv_def ex2_ready_def ex_proposed_def ex_start_def
      node_state_new_def) (simp add: ex2_chain_def ex_message_defs)

end
