(* ===== verification/Node_Panic.thy ===== *)
theory Node_Panic
  imports Node_Example
begin

text \<open>
  When a tick can panic.  The \<open>expect\<close> calls of the handlers are about the signing key,
  the encoding of a prepared round and the pair of prepared block and round; the slices
  are about the index into the store.  Under the invariants of a run none of them fails
  right after a batch was received.
\<close>

text \<open>
  \<open>returns m\<close>: the call \<open>m\<close> does not panic.  A sequence of calls returns when each of
  them does.
\<close>

definition returns :: "'a option \<Rightarrow> bool" where
  "returns m \<longleftrightarrow> m \<noteq> None"

lemma returns_simps [simp]: "returns (Some x)" "\<not> returns None"
  by (simp_all add: returns_def)

lemma bind_total: "returns m \<Longrightarrow> (\<And>x. m = Some x \<Longrightarrow> returns (g x)) \<Longrightarrow> returns (m \<bind> g)"
  by (cases m) auto

lemma returnsE: "returns m \<Longrightarrow> (\<And>x. m = Some x \<Longrightarrow> P) \<Longrightarrow> P"
  by (cases m) auto

definition key_ok :: "libs \<Rightarrow> node_state \<Rightarrow> bool" where
  "key_ok L st \<longleftrightarrow>
     (\<exists>k addr. ns_private_key st = Some k \<and> signer_address L k = Some addr
        \<and> (\<forall>msg. returns (sign_message_sync L k msg)))"

definition view_ok :: "node_state \<Rightarrow> bool" where
  "view_ok st \<longleftrightarrow> store_inv st \<and>
     (\<exists>ms. messages_received st = Some ms \<and> (\<forall>m\<in>set ms. msg_height m = ns_height st \<and> \<not> is_sync m))"

definition panic_free :: "libs \<Rightarrow> node_state \<Rightarrow> bool" where
  "panic_free L st \<longleftrightarrow> key_ok L st \<and> view_ok st \<and> round_inv st \<and> ns_round st \<noteq> - 1"

lemma sign_bytes_total: "key_ok L st \<Longrightarrow> returns (sign_bytes L st msg)"
  by (auto simp: key_ok_def sign_bytes_def sign_message_def intro!: bind_total)

lemma votes_total:
  assumes "key_ok L st"
  shows "returns (make_proposal L st r b just rc_just)"
    and "returns (make_prepare L st r b)" and "returns (make_commit L st r b)"
    and "returns (sign_new_block L b st)"
  unfolding make_proposal_def sign_proposal_def make_prepare_def sign_prepare_def make_commit_def
    sign_commit_def sign_hash_def sign_new_block_def Let_def
  by (intro bind_total sign_bytes_total [OF assms] returns_simps(1))+

lemma view_total:
  assumes "view_ok st"
  shows "returns (messages_received st)" and "returns (messages_received_at_round r st)"
proof -
  from assms obtain ms where ms: "store_inv st" "messages_received st = Some ms"
    "\<forall>m\<in>set ms. msg_height m = ns_height st \<and> \<not> is_sync m" by (auto simp: view_ok_def)
  then show "returns (messages_received st)" by simp
  from messages_received_at_round_filter [OF ms] show "returns (messages_received_at_round r st)" by simp
qed

lemma create_round_change_total:
  assumes "key_ok L st" and "view_ok st" and "proposal_inv st" and "ns_last_prepared_round st \<noteq> Some (- 1)"
  shows "returns (create_round_change L st r)"
proof -
  let ?u = "\<lparr>urc_height = ns_height st, urc_round = r,
        urc_prepared_value = map_option (digest L) (ns_last_prepared_block st),
        urc_prepared_round = ns_last_prepared_round st\<rparr>"
  have enc: "returns (encode_unsigned_round_change L ?u)"
    using assms(4) encode_unsigned_round_change_total [of ?u L] by (simp add: returns_def)
  have just: "returns (get_round_change_justification L st)"
  proof (cases "ns_last_prepared_block st")
    case (Some b)
    then obtain pr where "ns_last_prepared_round st = Some pr" using assms(3) by (auto simp: proposal_inv_def)
    with Some show ?thesis
      unfolding get_round_change_justification_def Let_def
      by (auto intro: bind_total view_total(1) [OF assms(2)])
  qed (simp add: get_round_change_justification_def)
  show ?thesis
    unfolding create_round_change_def sign_round_change_def
    by (intro bind_total enc just sign_bytes_total [OF assms(1)] returns_simps(1))
qed

lemma prepared_round_encodable:
  "prepared_inv st \<Longrightarrow> ns_round st \<noteq> - 1 \<Longrightarrow> ns_last_prepared_round st \<noteq> Some (- 1)"
  by (auto simp: prepared_inv_def) (metis word_order.extremum_unique)

section \<open>The handlers\<close>

lemma panic_freeD:
  assumes "panic_free L st"
  shows "key_ok L st" and "view_ok st" and "proposal_inv st" and "ns_last_prepared_round st \<noteq> Some (- 1)"
  using assms prepared_round_encodable by (auto simp: panic_free_def round_inv_def)

lemma justification_for_round_total:
  assumes "view_ok st"
  shows "returns (justification_for_round L st r)"
proof -
  have "returns (valid_round_changes st r)" "returns (valid_prepares st hp)" for hp
    unfolding valid_prepares_def valid_round_changes_def
    by (intro bind_total view_total(2) [OF assms] returns_simps(1))+
  then show ?thesis
    unfolding justification_for_round_def Let_def
    by (auto intro!: bind_total split: option.split)
qed

lemma first_justification_total: "view_ok st \<Longrightarrow> returns (first_justification L st rs)"
proof (induction rs)
  case (Cons r rs)
  from justification_for_round_total [OF Cons.prems] Cons.IH [OF Cons.prems] show ?case
    unfolding first_justification.simps by (intro bind_total) (auto split: option.split)
qed simp

lemma has_received_proposal_justification_total:
  assumes "view_ok st"
  shows "returns (has_received_proposal_justification L st)"
  unfolding has_received_proposal_justification_def Let_def
  by (intro bind_total view_total(1) [OF assms]) (simp add: first_justification_total [OF assms])

lemma handlers_total:
  assumes "panic_free L st"
  shows "returns (upon_new_block L st)" and "returns (upon_block_timeout L st)" and "returns (upon_proposal L st)"
    and "returns (upon_prepare L st)" and "returns (upon_commit L st)" and "returns (upon_round_change L st)"
proof -
  note ok = panic_freeD [OF assms]
  note total = bind_total view_total(1) [OF ok(2)] votes_total [OF ok(1)] create_round_change_total [OF ok]
    has_received_proposal_justification_total [OF ok(2)]
  show "returns (upon_new_block L st)" by (simp add: returns_def upon_new_block_no_panic del: not_None_eq)
  show "returns (upon_block_timeout L st)"
    unfolding upon_block_timeout_def Let_def
    by (auto intro!: total split: option.split)
  show "returns (upon_proposal L st)"
    unfolding upon_proposal_def Let_def
    by (auto intro!: total split: option.split)
  show "returns (upon_prepare L st)"
    unfolding upon_prepare_def Let_def
    by (auto intro!: total split: option.split)
  have "key_ok L (advance_head b st)" for b using ok(1) by (simp add: key_ok_def)
  then show "returns (upon_commit L st)"
    unfolding upon_commit_def Let_def
    by (auto intro!: total votes_total(4) split: option.split)
  show "returns (upon_round_change L st)"
    unfolding upon_round_change_def use_ibft_method_def Let_def if_False
      received_signed_round_changes_for_current_height_and_future_rounds_def
    by (auto intro!: total split: option.split)
qed

lemma upon_round_timeout_total:
  assumes "panic_free L st"
  shows "returns (upon_round_timeout L st)"
proof -
  note ok = panic_freeD [OF assms]
  have counts: "returns (round_zero_progress_counts L st)"
    unfolding round_zero_progress_counts_def Let_def
    by (auto intro!: bind_total view_total(1) [OF ok(2)] split: option.split)
  then have deferral: "returns (defer_round_zero_timeout L st)"
    unfolding defer_round_zero_timeout_def by (intro bind_total) auto
  have rc: "returns (create_round_change L st1 r)" if "defer_round_zero_timeout L st = Some (d, st1)" for d st1 r
    using that
  proof (rule defer_round_zero_timeoutE)
    fix ps cs t t'
    assume st1: "st1 = st\<lparr>ns_rz_progress_prepares := ps, ns_rz_progress_commits := cs,
              ns_rz_last_progress_time := t, ns_time_last_round_start := t'\<rparr>"
    show ?thesis
      using ok unfolding st1
      by (intro create_round_change_total) (simp_all add: key_ok_def view_ok_def proposal_inv_def messages_received_def)
  qed
  show ?thesis
    unfolding upon_round_timeout_def Let_def
    by (cases "ns_round st = 0")
      (auto intro!: bind_total deferral create_round_change_total [OF ok] intro: rc)
qed

lemma or_else_total:
  "returns t \<Longrightarrow> (\<And>s. t = Some (None, s) \<Longrightarrow> returns (next_handler s)) \<Longrightarrow> returns (or_else t next_handler)"
  unfolding or_else_def by (intro bind_total) (auto split: option.split)

lemma node_next_sub_step_total:
  assumes "panic_free L st"
  shows "returns (node_next_sub_step L st)"
proof -
  note total = handlers_total [OF assms] upon_round_timeout_total [OF assms]
  have same: "upon_new_block L st = Some (None, s) \<Longrightarrow> s = st"
    "upon_block_timeout L st = Some (None, s) \<Longrightarrow> s = st"
    "upon_proposal L st = Some (None, s) \<Longrightarrow> s = st"
    "upon_prepare L st = Some (None, s) \<Longrightarrow> s = st"
    "upon_commit L st = Some (None, s) \<Longrightarrow> s = st"
    "upon_round_change L st = Some (None, s) \<Longrightarrow> s = st" for s
    by (auto elim: upon_new_blockE upon_block_timeoutE upon_proposalE upon_prepareE upon_commitE
        upon_round_changeE)
  show ?thesis
    unfolding node_next_sub_step_def
    by (auto intro!: or_else_total total dest!: same)
qed

section \<open>Receiving\<close>

lemma add_incoming_no_panic:
  assumes "\<forall>m\<in>set ms. encodable m"
  shows "\<exists>st'. add_incoming L vs ms st = Some st'"
  using assms
proof (induction ms arbitrary: st)
  case (Cons m ms)
  have sig: "check_signatures L m bc \<noteq> None" for bc
    using Cons.prems by (intro check_signatures_no_panic) simp
  have "accept_message L vs bc m \<noteq> None" for bc
    using sig [of bc] by (auto simp: accept_message_def)
  then obtain ok where "accept_message L vs (ns_blockchain st) m = Some ok" by blast
  then have "add_one L vs m st \<noteq> None" by (simp add: add_one_def)
  then obtain st1 where "add_one L vs m st = Some st1" by blast
  with Cons show ?case by simp
qed simp

lemma add_messages_total:
  assumes "\<forall>m\<in>set ms. encodable m"
  shows "\<exists>st'. add_messages L ms time st = Some st'"
  using add_incoming_no_panic [OF assms] by (metis add_messages_def bind.bind_lunit)

end
