(* ===== verification/Store_Properties.thy ===== *)
theory Store_Properties
  imports Node_Panic
begin

text \<open>
  The message store against its specification: insertion by binary search is sorted
  insertion, the two index views are filters by height and by round, what is stored
  passed the checks, and nothing is ever replaced.
\<close>

section \<open>Sorted insertion\<close>

lemma insort_key_vec_insert:
  assumes "ascending_by key xs" and "key x \<notin> key ` set xs"
  shows "insort_key key x xs = vec_insert (length (takeWhile (\<lambda>y. key y < key x) xs)) x xs"
  using assms
proof (induction xs)
  case (Cons y ys)
  then show ?case by (auto simp: vec_insert_def not_less less_le)
qed (simp add: vec_insert_def)

text \<open>
  C20: the insertion by binary search is sorted insertion.  On a well-formed store
  \<open>insert_message_sorted\<close> inserts a message with a new key exactly where the library's
  insertion sort would, and leaves the store alone for a known key.
\<close>

theorem insert_message_sorted_insort:
  assumes "store_inv st"
  shows "ns_messages_received (insert_message_sorted m st) =
    (if \<exists>m'\<in>set (ns_messages_received st). components m' = components m
     then ns_messages_received st else insort_key components m (ns_messages_received st))"
proof (cases "components m \<in> components ` set (ns_messages_received st)")
  case True
  then have "\<exists>m'\<in>set (ns_messages_received st). components m' = components m" by force
  with insert_message_sorted_known [OF assms True] show ?thesis by simp
next
  case False
  then have "\<not> (\<exists>m'\<in>set (ns_messages_received st). components m' = components m)"
    by (metis imageI)
  with insert_message_sorted_store [OF assms False]
    insort_key_vec_insert [OF store_invD(1) [OF assms] False] show ?thesis by simp
qed

theorem insert_message_sorted_insort_witness:
  "ns_messages_received (insert_message_sorted (Commit ex_commit) ex_start) = [Commit ex_commit]"
  using insert_message_sorted_insort [OF ex_invariants(3), of "Commit ex_commit"]
  by (simp add: ex_start_def node_state_new_def)

text \<open>
  The first message per key wins.  However many batches follow, a stored message is
  never replaced by another one with its height, round, type and author: as long as its
  height is not passed it stays, and no second one with its key is stored beside it.
\<close>

lemma first_message_wins:
  assumes "store_inv st" and "add_messages L ms time st = Some st'"
    and "m \<in> set (ns_messages_received st)" and "ns_height st \<le> msg_height m"
    and "m' \<in> set (ns_messages_received st')" and "components m' = components m"
  shows "m \<in> set (ns_messages_received st') \<and> m' = m"
proof -
  obtain st1 where st1:
    "add_incoming L (validators (ns_blockchain st)) ms (st\<lparr>ns_local_time := time\<rparr>) = Some st1"
    and st': "st' = prune_blockchain (prune_messages_below_height st1)"
    using assms(2) by (rule add_messagesE)
  have inv: "store_inv (st\<lparr>ns_local_time := time\<rparr>)" using assms(1) by simp
  have "m \<in> set (ns_messages_received st1)" using add_incoming_mono [OF st1 inv] assms(3) by auto
  moreover have "ns_height st1 = ns_height st" using add_incoming_frame(1) [OF st1] by simp
  ultimately have mem: "m \<in> set (ns_messages_received st')"
    using assms(4) add_incoming_store [OF st1 inv] by (simp add: st' prune_messages_store(1) not_less)
  then show ?thesis
    using store.same_key_same_message [OF store_inv_add_messages [OF assms(2,1)] assms(5) mem assms(6)]
    by simp
qed

lemma first_message_wins_witness:
  "Prepare ex_prepare \<in> set (ns_messages_received ex_voted) \<and> Prepare ex_prepare = Prepare ex_prepare"
  by (rule first_message_wins [where m' = "Prepare ex_prepare", OF _ ex_receive_voted])
    (simp_all add: ex_voted_def ex_committed_def ex_ready_def ex_proposed_def ex_start_def node_state_new_def
      store_inv_def del: components.simps msg_height.simps)

section \<open>What is stored\<close>

text \<open>
  C21: only checked messages are stored.  A message that a batch adds is one of the
  batch, is not below the current height, names a validator as its author (unless it is a
  synchronisation message), all its signatures verify, and its blocks match their digest.
\<close>

theorem stored_messages_checked:
  assumes "store_inv st" and "add_messages L ms time st = Some st'"
    and "m \<in> set (ns_messages_received st')" and "m \<notin> set (ns_messages_received st)"
  shows "m \<in> set ms \<and> ns_height st \<le> msg_height m
    \<and> (is_sync m \<or> author m \<in> set (validators (ns_blockchain st)))
    \<and> check_signatures L m (ns_blockchain st) = Some (Some True) \<and> check_digest L m"
proof -
  note stored = add_messages_stored [OF assms(2,1,3)]
  have batch: "m \<in> set ms" "ns_height st \<le> msg_height m" using stored assms(4) by (auto simp: not_less)
  have "accept_message L (validators (ns_blockchain st)) (ns_blockchain st) m = Some True"
    using stored(2) assms(4) by blast
  with batch show ?thesis
    using check_authors_author
    by (auto simp: accept_message_def bind_eq_Some_conv split: if_splits)
qed

theorem stored_messages_checked_witness:
  "check_signatures example_libs (Prepare ex_prepare) (ns_blockchain ex_proposed) = Some (Some True)"
  using stored_messages_checked [OF _ ex_receive_ready, of "Prepare ex_prepare"]
  by (simp add: ex_ready_def ex_proposed_def ex_start_def node_state_new_def store_inv_def
      del: components.simps)

text \<open>
  After a batch, the slice \<open>messages_received()\<close> is exactly the stored messages of
  the current height.
\<close>

lemma current_view_is_filter:
  assumes "store_inv st" and "add_messages L ms time st = Some st'"
  shows "messages_received st' =
    Some (filter (\<lambda>m. msg_height m = ns_height st') (ns_messages_received st'))"
  using assms(2,1) by (rule messages_received_add_messages)

text \<open>
  As long as only consensus messages are stored, the slice
  \<open>messages_received_at_round(r)\<close> found by two binary searches is exactly the stored
  messages of the current height and round \<open>r\<close>.
\<close>

lemma round_view_is_filter:
  assumes "store_inv st" and "add_messages L ms time st = Some st'"
    and "\<forall>m\<in>set (ns_messages_received st'). \<not> is_sync m"
  shows "messages_received_at_round r st' =
    Some (filter (\<lambda>m. msg_height m = ns_height st' \<and> msg_round m = r) (ns_messages_received st'))"
proof -
  note view = messages_received_add_messages [OF assms(2,1)]
  have "messages_received_at_round r st' = Some (filter (\<lambda>m. msg_round m = r)
      (filter (\<lambda>m. msg_height m = ns_height st') (ns_messages_received st')))"
    using messages_received_at_round_filter [OF store_inv_add_messages [OF assms(2,1)] view] assms(3)
    by simp
  then show ?thesis by (simp add: conj_commute)
qed

lemma round_view_is_filter_witness:
  "messages_received_at_round 1 ex_voted = Some []"
  using round_view_is_filter [OF _ ex_receive_voted, of 1]
  by (simp add: ex_voted_def ex_committed_def ex_ready_def ex_proposed_def ex_start_def node_state_new_def
      store_inv_def del: components.simps msg_height.simps msg_round.simps)
    (simp add: ex_proposal_def ex_prepare_def ex_commit_def)

section \<open>Bulk replacement\<close>

lemma dedup_by_key_ascending:
  assumes "sorted (map key xs)"
  shows "ascending_by key (dedup_by_key key xs)"
    and "key ` set (dedup_by_key key xs) = key ` set xs"
    and "set (dedup_by_key key xs) \<subseteq> set xs"
proof -
  have "ascending_by key (dedup_by_key key xs) \<and> key ` set (dedup_by_key key xs) = key ` set xs
      \<and> set (dedup_by_key key xs) \<subseteq> set xs"
    using assms
  proof (induction key xs rule: dedup_by_key.induct)
    case (3 key x y ys)
    show ?case
    proof (cases "key x = key y")
      case True
      with 3 show ?thesis by auto
    next
      case False
      with 3 have IH: "ascending_by key (dedup_by_key key (y # ys))"
        "key ` set (dedup_by_key key (y # ys)) = key ` set (y # ys)"
        "set (dedup_by_key key (y # ys)) \<subseteq> set (y # ys)" by auto
      have "key x < key z" if "z \<in> set (dedup_by_key key (y # ys))" for z
      proof -
        have "key x < key y" using False 3(3) by (simp add: less_le)
        moreover have "key y \<le> key z" using that IH(3) 3(3) by auto
        ultimately show ?thesis by simp
      qed
      with False IH show ?thesis by auto
    qed
  qed simp_all
  then show "ascending_by key (dedup_by_key key xs)"
    and "key ` set (dedup_by_key key xs) = key ` set xs"
    and "set (dedup_by_key key xs) \<subseteq> set xs" by auto
qed

text \<open>
  \<open>set_messages_received\<close> re-establishes the store whatever it is given: the result
  is well formed, holds only given messages, and holds one for every given key.
\<close>

lemma set_messages_received_store:
  "store_inv (set_messages_received ms st)
    \<and> set (ns_messages_received (set_messages_received ms st)) \<subseteq> set ms
    \<and> components ` set (ns_messages_received (set_messages_received ms st)) = components ` set ms"
  using dedup_by_key_ascending [of components "sort_key components ms"]
  by (auto simp: set_messages_received_def rebuild_message_index_def Let_def store_inv_def)

section \<open>Panics\<close>

text \<open>
  Receiving never panics on decoded messages.  Messages whose prepared rounds can be
  encoded, which decoding guarantees, are received without a panic, whatever they claim.
\<close>

lemma add_messages_no_panic:
  assumes "\<forall>m\<in>set ms. encodable m"
  shows "\<exists>st'. add_messages L ms time st = Some st'"
  using assms by (rule add_messages_total)

end
