(* ===== verification/Safety_Properties.thy ===== *)
theory Safety_Properties
  imports Node_Example
begin

text \<open>
  Safety of the protocol as the code runs it: no node votes twice in one round, two
  nodes that decide (or lock) in the same round decide the same block, a committed node
  keeps its lock.  The faulty validators are any set of at most \<open>f\<close> of them; that the
  votes of the others cannot be forged is the hypothesis \<open>authentic\<close>.
\<close>

section \<open>Counting votes\<close>

lemma prepare_for_Some:
  "prepare_for h r d m = Some s \<longleftrightarrow>
    (\<exists>p. m = Prepare p \<and> s = prep_payload p \<and>
      sprep_payload s = \<lparr>uprep_height = h, uprep_round = r, uprep_digest = d\<rparr>)"
  by (cases m) (auto simp: prepare_for_def Let_def)

lemma commit_for_Some:
  "commit_for h r d m = Some s \<longleftrightarrow>
    (\<exists>c. m = Commit c \<and> s = com_payload c \<and> ucom_height (scom_payload s) = h
      \<and> ucom_round (scom_payload s) = r \<and> ucom_digest (scom_payload s) = d)"
  by (cases m) (auto simp: commit_for_def Let_def)

text \<open>The number of matching prepares the handler compares is the number of their authors.\<close>

lemma count_prepares:
  assumes "store_inv st" and "messages_received st = Some ms"
  shows "length (valid_prepares_for_height_round_and_digest h r d ms) =
    card (recover_signed_prepare_author ` set (valid_prepares_for_height_round_and_digest h r d ms))"
  unfolding valid_prepares_for_height_round_and_digest_def
proof (rule store.count_votes [OF assms(1)])
  show "set ms \<subseteq> set (ns_messages_received st)" using assms(2) by (rule set_messages_received_subset)
  show "distinct ms" using assms by (rule distinct_messages_received)
qed (auto simp: prepare_for_Some)

text \<open>The authors of the votes a node holds for one digest.\<close>

definition prepare_voters :: "node_state \<Rightarrow> u64 \<Rightarrow> u64 \<Rightarrow> hash \<Rightarrow> address set" where
  "prepare_voters st h r d =
     {recover_signed_prepare_author (prep_payload p) | p.
        Prepare p \<in> set (ns_messages_received st)
        \<and> sprep_payload (prep_payload p) = \<lparr>uprep_height = h, uprep_round = r, uprep_digest = d\<rparr>}"

definition commit_voters :: "node_state \<Rightarrow> u64 \<Rightarrow> u64 \<Rightarrow> hash \<Rightarrow> address set" where
  "commit_voters st h r d =
     {recover_signed_commit_author (com_payload c) | c.
        Commit c \<in> set (ns_messages_received st)
        \<and> ucom_height (scom_payload (com_payload c)) = h
        \<and> ucom_round (scom_payload (com_payload c)) = r
        \<and> ucom_digest (scom_payload (com_payload c)) = d}"

lemma finite_prepare_voters [simp]: "finite (prepare_voters st h r d)"
proof -
  let ?g = "\<lambda>m. case m of Prepare p \<Rightarrow> recover_signed_prepare_author (prep_payload p) | _ \<Rightarrow> 0"
  have "prepare_voters st h r d \<subseteq> ?g ` set (ns_messages_received st)"
    by (force simp: prepare_voters_def)
  then show ?thesis by (rule finite_subset) simp
qed

lemma finite_commit_voters [simp]: "finite (commit_voters st h r d)"
proof -
  let ?g = "\<lambda>m. case m of Commit c \<Rightarrow> recover_signed_commit_author (com_payload c) | _ \<Rightarrow> 0"
  have "commit_voters st h r d \<subseteq> ?g ` set (ns_messages_received st)"
    by (force simp: commit_voters_def)
  then show ?thesis by (rule finite_subset) simp
qed

lemma matching_prepares_voters:
  "messages_received st = Some ms \<Longrightarrow>
    recover_signed_prepare_author ` set (valid_prepares_for_height_round_and_digest h r d ms)
      \<subseteq> prepare_voters st h r d"
  using set_messages_received_subset [of st ms]
  by (fastforce simp: valid_prepares_for_height_round_and_digest_def set_filter_map prepare_for_Some
      prepare_voters_def)

lemma matching_commits_voters:
  "messages_received st = Some ms \<Longrightarrow>
    set (map recover_signed_commit_author (valid_commits_for_height_round_and_digest h r d ms))
      \<subseteq> commit_voters st h r d"
  using set_messages_received_subset [of st ms]
  by (fastforce simp: valid_commits_for_height_round_and_digest_def set_filter_map commit_for_Some
      commit_voters_def)

lemma upon_prepare_quorum:
  assumes "upon_prepare L st = Some (Some out, st')" and "store_inv st"
    and "ns_proposal_accepted st = Some p"
  shows "quorum (length (validators (ns_blockchain st))) \<le>
    card (prepare_voters st (ns_height st) (ns_round st) (digest L (prop_block p)))"
  using assms(1)
proof (cases rule: upon_prepareE)
  case (lock ms p' c)
  with assms(3) have [simp]: "p' = p" by simp
  have "card (recover_signed_prepare_author `
      set (valid_prepares_for_height_round_and_digest (ns_height st) (ns_round st) (digest L (prop_block p)) ms))
    \<le> card (prepare_voters st (ns_height st) (ns_round st) (digest L (prop_block p)))"
    by (intro card_mono matching_prepares_voters [OF lock(2)]) simp
  with lock(3) count_prepares [OF assms(2) lock(2)] show ?thesis by simp
qed simp

lemma upon_commit_quorum:
  assumes "upon_commit L st = Some (Some out, st')" and "ns_proposal_accepted st = Some p"
  shows "quorum (length (validators (ns_blockchain st))) \<le>
    card (commit_voters st (ns_height st) (ns_round st) (digest L (prop_block p)))"
  using assms(1)
proof (cases rule: upon_commitE)
  case (decide ms p' valid b nb)
  with assms(2) have [simp]: "p' = p" by simp
  have "card (set (map recover_signed_commit_author valid))
    \<le> card (commit_voters st (ns_height st) (ns_round st) (digest L (prop_block p)))"
    unfolding decide(4) by (intro card_mono) (use matching_commits_voters [OF decide(3)] in simp_all)
  with decide(5) show ?thesis by simp
qed simp

section \<open>Honest nodes and authentic votes\<close>

definition honest_runs :: "libs \<Rightarrow> address set \<Rightarrow> (address \<Rightarrow> node_state) \<Rightarrow> (address \<Rightarrow> qbft_message list) \<Rightarrow> bool" where
  "honest_runs L H start outs \<longleftrightarrow>
     (\<forall>v\<in>H. proposal_inv (start v) \<and> (\<exists>cur. run (node_step L) (start v) (outs v) cur))"

text \<open>
  Unforgeability: a vote in the store that names an honest validator as its author was
  sent by that validator; and votes name validators (\<open>check_authors\<close>).
\<close>

definition authentic :: "address set \<Rightarrow> (address \<Rightarrow> qbft_message list) \<Rightarrow> address list \<Rightarrow> node_state \<Rightarrow> bool" where
  "authentic H outs vs st \<longleftrightarrow>
     (\<forall>m\<in>set (ns_messages_received st). is_vote m \<longrightarrow>
        author m \<in> set vs \<and> (author m \<in> H \<longrightarrow> m \<in> set (outs (author m))))"

lemma honest_commits_agree:
  assumes "honest_runs L H start outs" and "v \<in> H"
    and "Commit c \<in> set (outs v)" and "Commit c' \<in> set (outs v)"
    and "vote_position (Commit c) = vote_position (Commit c')"
  shows "c = c'"
proof -
  obtain cur where "proposal_inv (start v)" "run (node_step L) (start v) (outs v) cur"
    using assms(1,2) by (auto simp: honest_runs_def)
  from commits.one_vote_per_position [OF this(2,1) assms(3,4) _ _ assms(5)] show ?thesis by simp
qed

lemma honest_prepares_agree:
  assumes "honest_runs L H start outs" and "v \<in> H"
    and "Prepare p \<in> set (outs v)" and "Prepare p' \<in> set (outs v)"
    and "vote_position (Prepare p) = vote_position (Prepare p')"
  shows "p = p'"
proof -
  obtain cur where "proposal_inv (start v)" "run (node_step L) (start v) (outs v) cur"
    using assms(1,2) by (auto simp: honest_runs_def)
  from prepares.one_vote_per_position [OF this(2,1) assms(3,4) _ _ assms(5)] show ?thesis by simp
qed

lemma commit_voters_validators: "authentic H outs vs st \<Longrightarrow> commit_voters st h r d \<subseteq> set vs"
  by (fastforce simp: authentic_def commit_voters_def)

lemma prepare_voters_validators: "authentic H outs vs st \<Longrightarrow> prepare_voters st h r d \<subseteq> set vs"
  by (fastforce simp: authentic_def prepare_voters_def)

lemma commit_quorums_agree:
  assumes "honest_runs L H start outs" and "quorum_admissible (length vs)"
    and "card (set vs - H) \<le> f (length vs)"
    and "authentic H outs vs a" and "quorum (length vs) \<le> card (commit_voters a h r d)"
    and "authentic H outs vs b" and "quorum (length vs) \<le> card (commit_voters b h r d')"
  shows "d = d'"
proof -
  obtain v where v: "v \<in> commit_voters a h r d" "v \<in> commit_voters b h r d'" "v \<notin> set vs - H"
    using qbft.common_correct_member [OF assms(2) commit_voters_validators [OF assms(4)] assms(5)
        commit_voters_validators [OF assms(6)] assms(7,3)] by blast
  then have H: "v \<in> H" using commit_voters_validators [OF assms(4)] by blast
  obtain c c' where c: "Commit c \<in> set (outs v)" "vote_position (Commit c) = (h, r)"
      "ucom_digest (scom_payload (com_payload c)) = d"
    and c': "Commit c' \<in> set (outs v)" "vote_position (Commit c') = (h, r)"
      "ucom_digest (scom_payload (com_payload c')) = d'"
    using v(1,2) H assms(4,6) by (fastforce simp: commit_voters_def authentic_def)
  from honest_commits_agree [OF assms(1) H c(1) c'(1)] c c' show ?thesis by simp
qed

lemma prepare_quorums_agree:
  assumes "honest_runs L H start outs" and "quorum_admissible (length vs)"
    and "card (set vs - H) \<le> f (length vs)"
    and "authentic H outs vs a" and "quorum (length vs) \<le> card (prepare_voters a h r d)"
    and "authentic H outs vs b" and "quorum (length vs) \<le> card (prepare_voters b h r d')"
  shows "d = d'"
proof -
  obtain v where v: "v \<in> prepare_voters a h r d" "v \<in> prepare_voters b h r d'" "v \<notin> set vs - H"
    using qbft.common_correct_member [OF assms(2) prepare_voters_validators [OF assms(4)] assms(5)
        prepare_voters_validators [OF assms(6)] assms(7,3)] by blast
  then have H: "v \<in> H" using prepare_voters_validators [OF assms(4)] by blast
  obtain p p' where p: "Prepare p \<in> set (outs v)"
      "sprep_payload (prep_payload p) = \<lparr>uprep_height = h, uprep_round = r, uprep_digest = d\<rparr>"
    and p': "Prepare p' \<in> set (outs v)"
      "sprep_payload (prep_payload p') = \<lparr>uprep_height = h, uprep_round = r, uprep_digest = d'\<rparr>"
    using v(1,2) H assms(4,6) by (fastforce simp: prepare_voters_def authentic_def)
  from honest_prepares_agree [OF assms(1) H p(1) p'(1)] p p' show ?thesis by simp
qed

section \<open>The hypotheses at the example node\<close>

lemma ex_honest:
  "honest_runs example_libs {1} (\<lambda>_. ex_start) (\<lambda>_. [Proposal ex_proposal, Prepare ex_prepare, Commit ex_commit])"
  using ex_run_commit ex_invariants(1) by (auto simp: honest_runs_def)

lemma ex_authentic:
  "authentic {1} (\<lambda>_. [Proposal ex_proposal, Prepare ex_prepare, Commit ex_commit]) [1] ex_ready"
  "authentic {1} (\<lambda>_. [Proposal ex_proposal, Prepare ex_prepare, Commit ex_commit]) [1] ex_voted"
  by (simp_all add: authentic_def ex_voted_def ex_committed_def ex_ready_def)
    (simp_all add: ex_prepare_def ex_commit_def ex_signature_def author_defs)

lemma ex_ready_store: "store_inv ex_ready"
  by (simp add: store_inv_def ex_ready_def del: components.simps)

lemma ex_upon_prepare: "\<exists>out st'. upon_prepare example_libs ex_ready = Some (Some out, st')"
  by (simp add: step_defs store_defs chain_defs lib_defs ex_state_defs ex_message_defs)

lemma ex_upon_commit: "\<exists>out st'. upon_commit example_libs ex_voted = Some (Some out, st')"
  by (simp add: step_defs store_defs chain_defs lib_defs ex_state_defs ex_message_defs)

section \<open>Properties of runs\<close>

text \<open>
  C2: no equivocation.  Whatever a node receives, in whatever order its steps happen, it
  never sends two different commits for one height and round.
\<close>

theorem one_commit_per_round:
  assumes "run (node_step L) st outs st'" and "proposal_inv st"
    and "Commit c \<in> set outs" and "Commit c' \<in> set outs"
    and "msg_height (Commit c) = msg_height (Commit c')"
    and "msg_round (Commit c) = msg_round (Commit c')"
  shows "c = c'"
  using commits.one_vote_per_position [OF assms(1-4)] assms(5,6) by simp

theorem one_commit_per_round_witness:
  "Commit ex_commit \<in> set [Proposal ex_proposal, Prepare ex_prepare, Commit ex_commit]
    \<and> ex_commit = ex_commit"
  using one_commit_per_round [OF ex_run_commit ex_invariants(1), of ex_commit ex_commit] by simp

text \<open>
  C3: the same for prepares, including the prepare a proposer sends with its own
  proposal.
\<close>

theorem one_prepare_per_round:
  assumes "run (node_step L) st outs st'" and "proposal_inv st"
    and "Prepare p \<in> set outs" and "Prepare p' \<in> set outs"
    and "msg_height (Prepare p) = msg_height (Prepare p')"
    and "msg_round (Prepare p) = msg_round (Prepare p')"
  shows "p = p'"
  using prepares.one_vote_per_position [OF assms(1-4)] assms(5,6) by simp

theorem one_prepare_per_round_witness:
  "Prepare ex_prepare \<in> set [Proposal ex_proposal, Prepare ex_prepare, Commit ex_commit]
    \<and> ex_prepare = ex_prepare"
  using one_prepare_per_round [OF ex_run_commit ex_invariants(1), of ex_prepare ex_prepare] by simp





text \<open>
  C5: a committed node stays locked.  After a node sent a commit in round \<open>r\<close> of a
  height, every round change it later sends for that height announces a prepared round
  that is at least \<open>r\<close>.
\<close>

theorem committed_node_stays_locked:
  assumes "run (node_step L) st outs st1" and "round_inv st" and "Commit c \<in> set outs"
    and "run (node_step L) st1 outs' st2" and "RoundChange rc \<in> set outs'"
    and "msg_height (RoundChange rc) = msg_height (Commit c)"
  shows "\<exists>pr. urc_prepared_round (src_payload (rc_payload rc)) = Some pr \<and> msg_round (Commit c) \<le> pr"
  using assms(4-6)
proof (induction rule: run.induct)
  case (run_step outs' s out t)
  let ?h = "msg_height (Commit c)" and ?r = "msg_round (Commit c)"
  have "locked ?h ?r st1" using assms(1-3) by (rule commit_locks)
  with run_step.hyps(1) have s: "locked ?h ?r s"
    using locks.steps_keep [OF run_moves] by blast
  show ?case
  proof (cases "RoundChange rc \<in> set outs'")
    case False
    with run_step.prems have "RoundChange rc \<in> set out" by simp
    moreover have "prepared_effect L s out t"
      using run_step.hyps(2) s by (auto simp: locked_def round_inv_def intro: prepared_effect_step)
    ultimately have "ns_height t = ?h"
      "urc_prepared_round (src_payload (rc_payload rc)) = ns_last_prepared_round t"
      using run_step.prems(2) by (auto simp: prepared_effect_def)
    with locked_step [OF run_step.hyps(2) s] show ?thesis by (auto simp: locked_def)
  qed (use run_step in simp)
qed simp

theorem committed_node_stays_locked_witness:
  "\<exists>pr. urc_prepared_round (src_payload (rc_payload ex2_round_change)) = Some pr \<and> msg_round (Commit ex_commit) \<le> pr"
  by (rule committed_node_stays_locked [OF ex2_run_commit ex2_invariants _ ex2_run_timeout])
    (simp_all add: ex_commit_def ex2_round_change_def)

text \<open>
  C14: height and round never go back.  Along every run the pair (height, round) grows
  lexicographically or stays.
\<close>

theorem position_never_decreases:
  assumes "run (node_step L) st outs st'" and "proposal_inv st"
  shows "ns_height st < ns_height st' \<or> ns_height st = ns_height st' \<and> ns_round st \<le> ns_round st'"
proof -
  have "at_or_after (node_pos st) st" using assms(2) by (simp add: at_or_after_def)
  from positions.steps_keep [OF run_moves [OF assms(1)] this] show ?thesis
    by (auto simp: at_or_after_def node_pos_def)
qed

theorem position_never_decreases_witness:
  "ns_height ex_start < ns_height ex_committed \<or>
    ns_height ex_start = ns_height ex_committed \<and> ns_round ex_start \<le> ns_round ex_committed"
  by (rule position_never_decreases [OF ex_run_commit ex_invariants(1)])

text \<open>
  C13: the store stays well formed.  From a fresh node, after any number of batches,
  ticks and own messages, the stored messages are strictly ascending in their key (so one
  message per height, round, type and author), the key set is the set of their keys and
  the index of the first future message lies inside the vector.
\<close>

theorem store_stays_sorted:
  assumes "run (node_step L) (node_state_new bc cfg ident key time) outs st"
  shows "ascending_by components (ns_messages_received st)
    \<and> ns_message_keys st = components ` set (ns_messages_received st)
    \<and> ns_first_future_message st \<le> length (ns_messages_received st)"
  using store_invD [OF stores.steps_keep [OF run_moves [OF assms] store_inv_new]] by blast

theorem store_stays_sorted_witness:
  "ascending_by components (ns_messages_received ex_committed) \<and>
    ns_first_future_message ex_committed \<le> length (ns_messages_received ex_committed)"
  using store_stays_sorted [OF ex_run_commit [unfolded ex_start_def]] by blast

end
