(* ===== verification/Node_Properties.thy ===== *)
theory Node_Properties
  imports Node_Panic
begin

text \<open>
  What each transition does: when it fires, what it sends and what it leaves behind, on
  every branch; and that an iteration of the driver (receive a batch, tick once) never
  panics.
\<close>

section \<open>Panic freedom\<close>

text \<open>
  C9: one iteration never panics.  For a node in a state a run can reach, with a usable
  key and no synchronisation messages in its store, receiving any batch of decoded
  consensus messages and ticking once returns, whatever the messages claim.
\<close>

theorem iteration_never_panics:
  assumes "store_inv st" and "round_inv st" and "key_ok L st" and "ns_round st \<noteq> - 1"
    and "\<forall>m\<in>set (ns_messages_received st). \<not> is_sync m"
    and "\<forall>m\<in>set ms. encodable m \<and> \<not> is_sync m"
  shows "\<exists>st' out st''. add_messages L ms time st = Some st' \<and> node_next L time st' = Some (out, st'')"
proof -
  obtain st' where st': "add_messages L ms time st = Some st'"
    using add_messages_total assms(6) by blast
  note frame = add_messages_frame [OF st']
  note view = messages_received_add_messages [OF st' assms(1)]
  have "\<not> is_sync m" if "m \<in> set (ns_messages_received st')" for m
    using add_messages_stored(2) [OF st' assms(1) that] assms(5,6) by blast
  with view have "view_ok st'"
    using store_inv_add_messages [OF st' assms(1)] by (auto simp: view_ok_def)
  with assms frame have "panic_free L (st'\<lparr>ns_local_time := time\<rparr>)"
    by (simp add: panic_free_def key_ok_def round_inv_def proposal_inv_def prepared_inv_def view_ok_def
        messages_received_def)
  from node_next_sub_step_total [OF this] have "\<exists>out st''. node_next L time st' = Some (out, st'')"
    by (auto simp: node_next_def elim!: returnsE)
  with st' show ?thesis by blast
qed

theorem iteration_never_panics_witness:
  "\<exists>st' out st''. add_messages example_libs [Commit ex_commit, RoundChange ex2_round_change] 9 ex_start = Some st'
    \<and> node_next example_libs 9 st' = Some (out, st'')"
  by (rule iteration_never_panics [OF ex_invariants(3,2)])
    (simp_all add: key_ok_def ex_start_def node_state_new_def encodable_round_def ex2_round_change_def,
      simp add: example_libs_def)

section \<open>Observers\<close>

text \<open>
  A node that is not a validator is silent and cannot panic: a tick sends nothing
  and either leaves everything but the clock alone or adopts a valid new block.
\<close>

lemma observer_is_silent:
  assumes "ns_id st \<notin> set (validators (ns_blockchain st))"
  shows "\<exists>st'. node_next L time st = Some ([], st') \<and>
    (st' = st\<lparr>ns_local_time := time\<rparr> \<or>
     (\<exists>nb. valid_new_block L (ns_blockchain st) nb \<and> NewBlock nb \<in> set (ns_messages_received st)
        \<and> st' = prune_messages_below_height (advance_head (snb_block nb) (st\<lparr>ns_local_time := time\<rparr>))))"
proof -
  let ?s = "st\<lparr>ns_local_time := time\<rparr>"
  have step: "node_next L time st = or_else (upon_new_block L ?s) (\<lambda>st. Some ([], st))"
    using assms by (simp add: node_next_def node_next_sub_step_def)
  show ?thesis
  proof (cases "find_new_block L ?s")
    case None
    then show ?thesis by (simp add: step upon_new_block_def or_else_def)
  next
    case (Some nb)
    with find_new_blockD [OF Some] show ?thesis
      by (auto simp: step upon_new_block_def or_else_def)
  qed
qed

section \<open>Adopting blocks\<close>

text \<open>
  Adopting a block.  When \<open>upon_new_block\<close> fires it has found a stored \<open>NewBlock\<close>
  that is valid on the current chain; it makes that block the head, moves to round 0 of the
  height after it with no accepted proposal and no lock, sends nothing and keeps exactly
  the stored messages that are not below the new height.
\<close>

lemma new_block_adopted:
  assumes "upon_new_block L st = Some (Some out, st')" and "store_inv st"
  shows "out = [] \<and>
    (\<exists>nb. NewBlock nb \<in> set (ns_messages_received st) \<and> valid_new_block L (ns_blockchain st) nb
      \<and> blocks (ns_blockchain st') = blocks (ns_blockchain st) @ [snb_block nb]
      \<and> ns_height st' = block_height (snb_block nb) + 1)
    \<and> ns_round st' = 0 \<and> ns_proposal_accepted st' = None
    \<and> ns_last_prepared_block st' = None \<and> ns_last_prepared_round st' = None
    \<and> ns_messages_received st' =
        filter (\<lambda>m. ns_height st' \<le> msg_height m) (ns_messages_received st)"
proof -
  from assms(1) obtain nb where nb: "find_new_block L st = Some nb" "out = []"
    and st': "st' = prune_messages_below_height (advance_head (snb_block nb) st)"
    by (cases rule: upon_new_blockE) auto
  have inv: "store_inv (advance_head (snb_block nb) st)" using assms(2) by simp
  have "ns_messages_received st' =
      filter (\<lambda>m. ns_height st' \<le> msg_height m) (ns_messages_received st)"
    by (simp add: st' prune_messages_store(1) [OF inv] not_less)
  moreover have "blocks (ns_blockchain st') = blocks (ns_blockchain st) @ [snb_block nb]"
    by (simp add: st' blocks_def set_proposed_block_def set_head_def)
  ultimately show ?thesis using find_new_blockD [OF nb(1)] nb(2) by (auto simp: st')
qed

definition ex_adopting :: node_state where
  "ex_adopting = ex_start\<lparr>ns_messages_received := [NewBlock ex_new_block],
     ns_message_keys := {(1, 0, 4, 1)}\<rparr>"

lemma ex_new_block_valid: "valid_new_block example_libs ex_chain ex_new_block"
  by (simp add: valid_new_block_def seal_ok_def Let_def)
    (simp add: seal_ok_def lib_defs step_defs ex_message_defs)

lemma ex_adopting_step:
  "store_inv ex_adopting"
  "upon_new_block example_libs ex_adopting =
    Some (Some [], prune_messages_below_height (advance_head ex_sealed ex_adopting))"
  by (simp_all add: store_inv_def ex_adopting_def ex_start_def node_state_new_def upon_new_block_def
      find_new_block_def ex_new_block_valid)
    (simp_all add: ex_new_block_def ex_sealed_def ex_signature_def author_defs)

lemma new_block_adopted_witness:
  "ns_round (prune_messages_below_height (advance_head ex_sealed ex_adopting)) = 0"
  using new_block_adopted [OF ex_adopting_step(2,1)] by blast

end
