(* ===== verification/Round_Properties.thy ===== *)
theory Round_Properties
  imports Node_Panic Safety_Properties
begin

text \<open>
  Messages that honest nodes send are messages that honest nodes accept: votes pass the
  incoming checks, the proposal of a new leader passes \<open>is_valid_proposal\<close>, a decided
  block passes \<open>valid_new_block\<close>.  And the round-change rules: what an accepted proposal
  must carry, when a node jumps to a later round, what a timeout announces.
\<close>

section \<open>Examples\<close>

definition ex_listening :: node_state where
  "ex_listening = ex_ready\<lparr>ns_proposal_accepted := None\<rparr>"

lemma ex_upon_proposal: "\<exists>out st'. upon_proposal example_libs ex_listening = Some (Some out, st')"
  by (simp add: ex_listening_def step_defs store_defs chain_defs lib_defs ex_state_defs ex_message_defs)

text \<open>A node in round 1 that holds its own round change and a fresh block: it leads.\<close>

definition ex3_round_change :: round_change where
  "ex3_round_change = \<lparr>rc_payload =
       \<lparr>src_payload = \<lparr>urc_height = 1, urc_round = 1, urc_prepared_value = None, urc_prepared_round = None\<rparr>,
        src_signature = ex_signature\<rparr>,
     rc_justification = [], rc_proposed_block = None\<rparr>"

definition ex3_leading :: node_state where
  "ex3_leading = ex_start\<lparr>ns_round := 1, ns_messages_received := [RoundChange ex3_round_change],
     ns_message_keys := {(1, 1, 3, 1)}, ns_first_future_message := 1\<rparr>"

definition ex3_proposal :: proposal where
  "ex3_proposal =
     (let b = block_at_round (ex_block\<lparr>blk_header := (blk_header ex_block)\<lparr>bh_round_number := 1\<rparr>\<rparr>) 1 ex_chain in
      \<lparr>prop_payload =
        \<lparr>sprop_payload = \<lparr>uprop_height = 1, uprop_round = 1, uprop_digest = digest example_libs b\<rparr>,
         sprop_signature = ex_signature\<rparr>,
       prop_block = b, prop_justification = [rc_payload ex3_round_change], prop_rc_justification = []\<rparr>)"

lemmas lead_defs = first_justification.simps justification_for_round_def valid_round_changes_def valid_round_change_def
  messages_received_at_round_def received_blocks_in_round_changes_def vec_max_def
  is_received_proposal_justification_def extract_signed_prepares_def extract_signed_round_changes_def
  prepared_support_def highest_prepared_round_def block_at_round_def replace_round_in_block_def

lemma ex3_lead:
  "\<exists>st'. upon_round_change example_libs ex3_leading = Some (Some (multicast [1] (Proposal ex3_proposal)), st')"
  by (simp add: ex3_leading_def ex3_proposal_def ex3_round_change_def lead_defs round_change_defs step_defs store_defs
      chain_defs lib_defs ex_state_defs ex_message_defs)

text \<open>A node in round 0 that sees the other validator in round 1: it follows.\<close>

definition ex3_following :: node_state where
  "ex3_following = ex3_leading\<lparr>ns_blockchain := ex2_chain, ns_round := 0, ns_id := 2, ns_private_key := Some 2\<rparr>"

lemma ex3_jump:
  "\<exists>rc st'. upon_round_change example_libs ex3_following = Some (Some (multicast [1, 2] (RoundChange rc)), st')"
  by (simp add: ex3_following_def ex3_leading_def ex3_round_change_def round_change_defs step_defs store_defs
      min_round_def vec_min_def chain_defs lib_defs ex_state_defs ex_message_defs ex2_state_defs)

lemma ex2_timeout:
  "\<exists>out st'. upon_round_timeout example_libs (ex2_voted\<lparr>ns_local_time := 100\<rparr>) = Some (Some out, st')"
  by (simp add: step_defs round_change_defs change_round_def store_defs chain_defs lib_defs ex_state_defs ex_message_defs
      ex2_state_defs ex_timeout ex_first_block two_voters one_voter)

lemma ex2_progress:
  "round_zero_progress_counts example_libs (ex2_voted\<lparr>ns_local_time := 100, ns_rz_progress_prepares := 0\<rparr>) = Some (Some (2, 1))"
  by (simp add: step_defs round_change_defs store_defs chain_defs lib_defs ex_state_defs ex_message_defs
      ex2_state_defs two_voters one_voter)

section \<open>Votes\<close>

text \<open>The key of the state belongs to the identity of the state.\<close>

definition key_matches_id :: "libs \<Rightarrow> node_state \<Rightarrow> bool" where
  "key_matches_id L st \<longleftrightarrow> (\<exists>k. ns_private_key st = Some k \<and> signer_address L k = Some (ns_id st))"

lemma sign_bytes_id: "key_matches_id L st \<Longrightarrow> sign_bytes L st msg = Some s \<Longrightarrow> sig_author s = ns_id st"
  by (auto simp: key_matches_id_def dest!: sign_bytes_author)

text \<open>
  Votes of validators are accepted.  A prepare or commit that a validator makes
  passes all incoming checks of every node with the same validators, and the seal inside
  the commit is the validator's signature over the block without its seals.
\<close>

lemma own_votes_accepted:
  assumes "signer_laws L" and "key_matches_id L st" and "ns_id st \<in> set vs"
    and "make_prepare L st r b = Some p" and "make_commit L st r b = Some c"
  shows "accept_message L vs bc (Prepare p) = Some True \<and> accept_message L vs bc (Commit c) = Some True
    \<and> seal_ok L (hash_block_for_commit_seal L b) vs (ucom_commit_seal (scom_payload (com_payload c)))"
proof -
  obtain u s where p: "p = \<lparr>prep_payload = \<lparr>sprep_payload = u, sprep_signature = s\<rparr>\<rparr>"
    "sign_bytes L st (enc_unsigned_prepare L u) = Some s"
    using assms(4) by (auto simp: make_prepare_def sign_prepare_def bind_eq_Some_conv)
  obtain u' s' seal where c: "c = \<lparr>com_payload = \<lparr>scom_payload = u', scom_signature = s'\<rparr>\<rparr>"
    "sign_bytes L st (enc_unsigned_commit L u') = Some s'" "ucom_commit_seal u' = seal"
    "sign_bytes L st (hash_bytes L (hash_block_for_commit_seal L b)) = Some seal"
    using assms(5) by (auto simp: make_commit_def sign_commit_def sign_hash_def bind_eq_Some_conv)
  note ver = verify_sign_bytes [OF assms(1)] and id = sign_bytes_id [OF assms(2)]
  have "accept_message L vs bc (Prepare p) = Some True"
    using ver [OF p(2)] id [OF p(2)] assms(3)
    by (simp add: accept_message_def p(1) prepare_sig_def recover_signed_prepare_author_def)
  moreover have "accept_message L vs bc (Commit c) = Some True"
    using ver [OF c(2)] id [OF c(2)] assms(3)
    by (simp add: accept_message_def c(1) recover_signed_commit_author_def)
  moreover have "seal_ok L (hash_block_for_commit_seal L b) vs seal"
    using ver [OF c(4)] id [OF c(4)] assms(3) by (simp add: seal_ok_def)
  ultimately show ?thesis by (simp add: c(1,3))
qed

lemma own_votes_accepted_witness:
  "accept_message example_libs [1] ex_chain (Prepare ex_prepare) = Some True
    \<and> accept_message example_libs [1] ex_chain (Commit ex_commit) = Some True
    \<and> seal_ok example_libs (hash_block_for_commit_seal example_libs ex_block) [1]
        (ucom_commit_seal (scom_payload (com_payload ex_commit)))"
  by (rule own_votes_accepted [OF example_signer_laws, where st = ex_start and r = 0])
    (simp_all add: key_matches_id_def make_prepare_def make_commit_def lib_defs chain_defs ex_state_defs ex_message_defs)

section \<open>New leaders\<close>

lemma block_at_round_block_at_round [simp]:
  "block_at_round (block_at_round b r bc) r' bc = block_at_round b r' bc"
  by (simp add: block_at_round_def replace_round_in_block_def Let_def)

lemma prepared_support_block_at_round [simp]:
  "prepared_support L (block_at_round b r bc) bc rcs = prepared_support L b bc rcs"
  by (simp add: prepared_support_def cong: option.case_cong)

lemma matches_prepared_block_at_round [simp]:
  "matches_prepared L ps h (block_at_round b r bc) vs bc pr = matches_prepared L ps h b vs bc pr"
  by (simp add: fun_eq_iff matches_prepared_def split: option.splits)

lemma block_at_round_simps [simp]:
  "block_height (block_at_round b r bc) = block_height b"
  "block_round (block_at_round b r bc) = r"
  "bh_proposer (blk_header (block_at_round b r bc)) = proposer r bc"
  "block_validators (block_at_round b r bc) = block_validators b"
  by (simp_all add: block_at_round_def replace_round_in_block_def Let_def)

lemma matches_prepared_round:
  assumes "matches_prepared L ps h b vs bc pr rc" and "valid_round_change rc h r vs" and "p \<in> set ps"
  shows "uprep_round (sprep_payload p) \<noteq> r"
  using assms
  by (auto simp: matches_prepared_def valid_round_change_def list_all_iff
      valid_signed_prepare_for_height_round_and_digest_def split: option.splits if_splits)

text \<open>
  A justification with extra prepares of the new round itself is only possible when
  there are none: the prepares have to be of an earlier round.
\<close>

lemma justification_extra_prepares:
  assumes just: "is_proposal_justification L rcs (ps @ extra) av h r b vb leader vs bc" and "r \<noteq> 0"
    and extra: "\<forall>p\<in>set extra. uprep_round (sprep_payload p) = r"
    and vb: "\<And>b'. block_validators b' = block_validators b \<Longrightarrow> bh_proposer (blk_header b') = leader
      \<Longrightarrow> vb b \<Longrightarrow> vb b'"
    and leader: "leader = proposer r bc"
  shows "is_proposal_justification L rcs ps [block_at_round b r bc] h r (block_at_round b r bc) vb leader vs bc"
proof (cases "highest_prepared_round (f (length vs) + 1) (prepared_support L b bc rcs)")
  case None
  with just \<open>r \<noteq> 0\<close> show ?thesis
    by (auto simp: is_proposal_justification_def Let_def leader intro: vb [unfolded leader] split: if_splits)
next
  case (Some pr)
  with just \<open>r \<noteq> 0\<close> obtain rc where rc: "rc \<in> set rcs" "matches_prepared L (ps @ extra) h b vs bc pr rc"
    "valid_round_change rc h r vs"
    by (auto simp: is_proposal_justification_def Let_def list_ex_iff list_all_iff split: if_splits)
  have "extra = []"
  proof (rule ccontr)
    assume "extra \<noteq> []"
    then obtain p where "p \<in> set extra" by (cases extra) auto
    with matches_prepared_round [OF rc(2,3), of p] extra show False by simp
  qed
  with just Some \<open>r \<noteq> 0\<close> show ?thesis
    by (simp add: is_proposal_justification_def Let_def split: if_splits)
qed



section \<open>Accepted proposals\<close>

text \<open>
  C11: what an accepted proposal rests on.  When \<open>upon_proposal\<close> fires, the accepted
  proposal is signed by the proposer of its round, is for the current height, matches its
  digest, is of the current round (or a later one if a proposal was accepted before), and
  beyond round 0 carries round changes of a quorum of validators, each for exactly this
  height and round and prepared, if at all, in an earlier round.
\<close>

theorem accepted_proposal_justified:
  assumes "upon_proposal L st = Some (Some out, st')"
  shows "\<exists>p. ns_proposal_accepted st' = Some p
    \<and> uprop_height (sprop_payload (prop_payload p)) = ns_height st
    \<and> block_height (prop_block p) = ns_height st
    \<and> recover_signed_proposal_author (prop_payload p) = proposer (ns_round st') (ns_blockchain st)
    \<and> uprop_digest (sprop_payload (prop_payload p)) = digest L (prop_block p)
    \<and> ns_round st \<le> ns_round st'
    \<and> (ns_round st' = 0 \<or>
        quorum (length (validators (ns_blockchain st)))
          \<le> card (get_set_of_round_change_senders (prop_justification p))
        \<and> get_set_of_round_change_senders (prop_justification p) \<subseteq> set (validators (ns_blockchain st))
        \<and> list_all (\<lambda>rc. valid_round_change rc (ns_height st) (ns_round st') (validators (ns_blockchain st)))
            (prop_justification p))"
  using assms
proof (cases rule: upon_proposalE)
  case (accept ms p pr t)
  note valid = find_valid_proposalD(1) [OF accept(2)]
  note facts = is_valid_proposalD [OF valid]
  have r: "ns_round st' = uprop_round (sprop_payload (prop_payload p))" and p: "ns_proposal_accepted st' = Some p"
    by (simp_all add: accept(5))
  have "ns_round st \<le> ns_round st'" using facts(5,6) r by (cases "ns_proposal_accepted st") auto
  moreover have just: "is_proposal_justification L (prop_justification p) (prop_rc_justification p) [prop_block p]
      (ns_height st) (ns_round st') (prop_block p)
      (\<lambda>b. validate_non_prepared_block b (ns_blockchain st) (ns_round st')) (proposer (ns_round st') (ns_blockchain st))
      (validators (ns_blockchain st)) (ns_blockchain st)"
    using valid by (auto simp: is_valid_proposal_def Let_def r split: if_splits)
  ultimately show ?thesis
    using facts(1-4) is_proposal_justification_quorum [OF just] p
    by (cases "ns_round st' = 0") (simp_all add: r list_all_iff)
qed simp

theorem accepted_proposal_justified_witness:
  "\<exists>p :: proposal. uprop_height (sprop_payload (prop_payload p)) = ns_height ex_listening
    \<and> block_height (prop_block p) = ns_height ex_listening"
proof -
  obtain out st' where "upon_proposal example_libs ex_listening = Some (Some out, st')"
    using ex_upon_proposal by blast
  from accepted_proposal_justified [OF this] show ?thesis by auto
qed

section \<open>Decided blocks\<close>

lemma with_commit_seals_simps [simp]:
  "block_round (with_commit_seals b ss) = block_round b"
  "block_seals (with_commit_seals b ss) = ss"
  "validate_digest L (with_commit_seals b ss) = validate_digest L b"
  "hash_block_for_commit_seal L (with_commit_seals b ss) = hash_block_for_commit_seal L b"
  by (simp_all add: with_commit_seals_def validate_digest_def)

text \<open>The commits a deciding node counts carry their author's seal of the accepted block.\<close>

definition commits_sealed :: "libs \<Rightarrow> node_state \<Rightarrow> block \<Rightarrow> bool" where
  "commits_sealed L st b \<longleftrightarrow>
     (\<forall>c. Commit c \<in> set (ns_messages_received st)
        \<and> ucom_digest (scom_payload (com_payload c)) = digest L b \<longrightarrow>
        sig_author (ucom_commit_seal (scom_payload (com_payload c))) = recover_signed_commit_author (com_payload c)
        \<and> seal_ok L (hash_block_for_commit_seal L b) (validators (ns_blockchain st))
            (ucom_commit_seal (scom_payload (com_payload c))))"

text \<open>
  C6: a decided block is accepted by the others.  If the commits the proposer counted
  carry proper seals, the \<open>NewBlock\<close> it sends when it decides passes \<open>valid_new_block\<close>
  at every node that is at or below its height with the same validators.
\<close>

theorem decided_block_accepted:
  assumes "upon_commit L st = Some (Some out, st')" and "ns_proposal_accepted st = Some p"
    and "proposal_inv st" and "validate_digest L (prop_block p)" and "commits_sealed L st (prop_block p)"
    and "NewBlock nb \<in> set (map mwr_message out)"
    and "height bc \<le> ns_height st" and "validators bc = validators (ns_blockchain st)"
  shows "valid_new_block L bc nb"
  using assms(1)
proof (cases rule: upon_commitE)
  case (decide ms p' valid b nb')
  have [simp]: "p' = p" using decide(1) assms(2) by simp
  have "map mwr_message out = [NewBlock nb']" using decide(8) by simp
  from assms(6) [unfolded this] have [simp]: "nb' = nb" by simp
  let ?vs = "validators (ns_blockchain st)" and ?h = "hash_block_for_commit_seal L (prop_block p)"
  have ok: "sig_author (ucom_commit_seal (scom_payload c)) = recover_signed_commit_author c"
    "seal_ok L ?h ?vs (ucom_commit_seal (scom_payload c))" if "c \<in> set valid" for c
    using that assms(5) set_messages_received_subset [OF decide(3)]
    by (auto simp: decide(4) valid_commits_for_height_round_and_digest_def set_filter_map commit_for_Some
        commits_sealed_def)
  have authors: "sig_author ` set (get_commit_seals_from_commit_messages valid)
      = set (map recover_signed_commit_author valid)"
    using ok(1) by (force simp: get_commit_seals_from_commit_messages_def)
  have nb: "snb_block nb = b" "snb_payload nb =
      \<lparr>unb_height = block_height b, unb_round = block_round b, unb_digest = digest L b\<rparr>"
    using decide(7) by (auto simp: sign_new_block_def Let_def bind_eq_Some_conv)
  have "quorum (length ?vs) \<le> card (sig_author ` set (get_commit_seals_from_commit_messages valid))"
    using decide(5) unfolding authors .
  moreover have "list_all (seal_ok L ?h ?vs) (get_commit_seals_from_commit_messages valid)"
    using ok(2) by (auto simp: list_all_iff get_commit_seals_from_commit_messages_def)
  moreover have "block_height (prop_block p) = ns_height st"
    using assms(2,3) by (simp add: proposal_inv_def)
  ultimately show ?thesis
    using assms(4,7,8) unfolding valid_new_block_def Let_def nb decide(6)
    by (simp add: length_dedup_sort)
qed simp

theorem decided_block_accepted_witness: "valid_new_block example_libs ex_chain ex_new_block"
proof -
  have "upon_commit example_libs ex_voted = Some (Some (multicast [1] (NewBlock ex_new_block)), ex_decided)"
    unfolding ex_decided_def
    by (simp add: step_defs store_defs chain_defs lib_defs ex_state_defs ex_message_defs)
  then show ?thesis
    by (rule decided_block_accepted [where p = ex_proposal])
      (simp_all add: multicast_def ex_voted_def ex_committed_def ex_ready_def ex_proposed_def ex_start_def
        node_state_new_def proposal_inv_def commits_sealed_def seal_ok_def,
        simp_all add: ex_chain_def lib_defs author_defs ex_message_defs)
qed

text \<open>
  Two valid new blocks have an honest sealer in common.  Whatever two blocks pass
  \<open>valid_new_block\<close> on chains with the same validators, some validator outside any faulty
  set of size at most \<open>f\<close> signed the seal hash of both.
\<close>

lemma valid_blocks_share_honest_sealer:
  assumes "valid_new_block L bc nb" and "valid_new_block L bc' nb'"
    and "validators bc' = validators bc" and "quorum_admissible (length (validators bc))"
    and "finite Byz" and "card Byz \<le> f (length (validators bc))"
  shows "\<exists>s s'. s \<in> set (block_seals (snb_block nb)) \<and> s' \<in> set (block_seals (snb_block nb'))
    \<and> sig_author s = sig_author s' \<and> sig_author s \<notin> Byz
    \<and> verify_message L s (hash_bytes L (hash_block_for_commit_seal L (snb_block nb))) = Some True
    \<and> verify_message L s' (hash_bytes L (hash_block_for_commit_seal L (snb_block nb'))) = Some True"
proof -
  have sealers: "sig_author ` set (block_seals (snb_block n)) \<subseteq> set (validators c)"
    "quorum (length (validators c)) \<le> card (sig_author ` set (block_seals (snb_block n)))"
    "\<And>s. s \<in> set (block_seals (snb_block n)) \<Longrightarrow>
      verify_message L s (hash_bytes L (hash_block_for_commit_seal L (snb_block n))) = Some True"
    if "valid_new_block L c n" for c n
    using that
    by (auto simp: valid_new_block_def Let_def length_dedup_sort list_all_iff seal_ok_def
        split: if_splits option.splits)
  obtain v where "v \<in> sig_author ` set (block_seals (snb_block nb))"
    "v \<in> sig_author ` set (block_seals (snb_block nb'))" "v \<notin> Byz"
    using qbft.common_correct_member [OF assms(4) sealers(1,2) [OF assms(1)]
        sealers(1,2) [OF assms(2), unfolded assms(3)] assms(6,5)] .
  with sealers(3) [OF assms(1)] sealers(3) [OF assms(2)] show ?thesis by blast
qed

lemma ex_new_block_sealed: "valid_new_block example_libs ex_chain ex_new_block"
  by (simp add: valid_new_block_def Let_def)
    (simp add: seal_ok_def lib_defs step_defs ex_message_defs)

lemma valid_blocks_share_honest_sealer_witness:
  "\<exists>s. s \<in> set (block_seals (snb_block ex_new_block)) \<and> sig_author s \<notin> ({} :: address set)"
  using valid_blocks_share_honest_sealer [OF ex_new_block_sealed ex_new_block_sealed refl, of "{}"]
  by (auto simp: quorum_admissible_def)

section \<open>Changing rounds\<close>

lemma min_round_le: "rc \<in> set rcs \<Longrightarrow> min_round rcs \<le> urc_round (src_payload rc)"
  by (auto simp: min_round_def vec_min_def intro: Min_le)

text \<open>
  A node jumps ahead only if a correct validator did.  When the second rule of
  \<open>upon_round_change\<close> fires, the node moves to a strictly later round, some validator
  outside any set of at most \<open>f\<close> faulty senders asked for that round or a later one, and
  the round change it sends announces its own lock.
\<close>

lemma jump_backed_by_honest_sender:
  assumes "upon_round_change L st = Some (Some out, st')"
    and "RoundChange rc \<in> set (map mwr_message out)"
    and "finite Byz" and "card Byz \<le> f (length (validators (ns_blockchain st)))"
  shows "ns_round st < ns_round st' \<and> ns_proposal_accepted st' = None
    \<and> (\<exists>rc'. RoundChange rc' \<in> set (ns_messages_received st) \<and> author (RoundChange rc') \<notin> Byz
        \<and> msg_height (RoundChange rc') = ns_height st \<and> ns_round st' \<le> msg_round (RoundChange rc'))
    \<and> msg_round (RoundChange rc) = ns_round st' \<and> rc_proposed_block rc = ns_last_prepared_block st
    \<and> urc_prepared_round (src_payload (rc_payload rc)) = ns_last_prepared_round st"
  using assms(1)
proof (cases rule: upon_round_changeE)
  case (lead pj p t)
  then have "map mwr_message out = [Proposal p]" by simp
  from assms(2) [unfolded this] show ?thesis by simp
next
  case (jump rcs rc')
  have "map mwr_message out = [RoundChange rc']" using jump(5) by simp
  from assms(2) [unfolded this] have [simp]: "rc' = rc" by simp
  obtain v where "v \<in> get_set_of_round_change_senders rcs" "v \<notin> Byz"
    using qbft.correct_member [OF jump(2) assms(4,3)] .
  then obtain s where s: "s \<in> set rcs" "recover_signed_round_change_author s \<notin> Byz"
    by (auto simp: get_set_of_round_change_senders_def)
  obtain ms where ms: "messages_received st = Some ms" "rcs = filter_map (future_round_change st) ms"
    using jump(1)
    by (auto simp: received_signed_round_changes_for_current_height_and_future_rounds_def bind_eq_Some_conv)
  then obtain r where "RoundChange r \<in> set (ns_messages_received st)" "s = rc_payload r"
    "urc_height (src_payload s) = ns_height st"
    using s(1) set_messages_received_subset [OF ms(1)] by (auto simp: set_filter_map future_round_change_Some)
  with s(2) min_round_le [OF s(1)]
  have "\<exists>r. RoundChange r \<in> set (ns_messages_received st) \<and> author (RoundChange r) \<notin> Byz
      \<and> msg_height (RoundChange r) = ns_height st \<and> min_round rcs \<le> msg_round (RoundChange r)"
    by auto
  with jump(3) create_round_changeD(2,3,5) [OF jump(4)] show ?thesis by (simp add: jump(6))
qed simp

lemma jump_backed_by_honest_sender_witness:
  "\<exists>rc. RoundChange rc \<in> set (ns_messages_received ex3_following) \<and> author (RoundChange rc) \<notin> ({} :: address set)"
proof -
  obtain rc st' where
    "upon_round_change example_libs ex3_following = Some (Some (multicast [1, 2] (RoundChange rc)), st')"
    using ex3_jump by blast
  from jump_backed_by_honest_sender [OF this, of rc "{}"] show ?thesis by (auto simp: multicast_def)
qed

text \<open>
  A round timeout moves exactly one round on.  When \<open>upon_round_timeout\<close> fires, the
  timeout has passed, the node is in the next round (wrapping at the end of \<open>u64\<close>) with a
  fresh timer and no accepted proposal, keeps its lock, and sends one round change that
  announces the lock: the prepared round, the digest of the prepared block and the block.
\<close>

lemma timeout_moves_one_round:
  assumes "upon_round_timeout L st = Some (Some out, st')"
  shows "next_round_timeout st \<le> ns_local_time st \<and> ns_round st' = ns_round st + 1
    \<and> ns_proposal_accepted st' = None \<and> ns_time_last_round_start st' = ns_local_time st
    \<and> ns_last_prepared_block st' = ns_last_prepared_block st
    \<and> ns_last_prepared_round st' = ns_last_prepared_round st
    \<and> (\<exists>rc. map mwr_message out = [RoundChange rc]
        \<and> src_payload (rc_payload rc) =
            \<lparr>urc_height = ns_height st, urc_round = ns_round st + 1,
             urc_prepared_value = map_option (digest L) (ns_last_prepared_block st),
             urc_prepared_round = ns_last_prepared_round st\<rparr>
        \<and> rc_proposed_block rc = ns_last_prepared_block st)"
  using assms
proof (cases rule: upon_round_timeoutE)
  case (timeout ps cs t t' st1 rc)
  have "src_payload (rc_payload rc) =
            \<lparr>urc_height = ns_height st, urc_round = ns_round st + 1,
             urc_prepared_value = map_option (digest L) (ns_last_prepared_block st),
             urc_prepared_round = ns_last_prepared_round st\<rparr>
        \<and> rc_proposed_block rc = ns_last_prepared_block st"
    using timeout(3)
    by (auto simp: timeout(2) create_round_change_def sign_round_change_def bind_eq_Some_conv)
  with timeout(1,4) show ?thesis by (simp add: timeout(2,5) change_round_def)
qed simp

lemma timeout_moves_one_round_witness:
  "\<exists>out st'. upon_round_timeout example_libs (ex2_voted\<lparr>ns_local_time := 100\<rparr>) = Some (Some out, st') \<and> ns_round st' = 1"
proof -
  obtain out st' where
    "upon_round_timeout example_libs (ex2_voted\<lparr>ns_local_time := 100\<rparr>) = Some (Some out, st')"
    using ex2_timeout by blast
  with timeout_moves_one_round [OF this] show ?thesis
    by (auto simp: ex2_voted_def ex2_committed_def ex2_ready_def ex_proposed_def ex_start_def node_state_new_def)
qed

text \<open>
  Progress defers the first timeout.  In round 0, if more than \<open>f\<close> validators
  prepared the accepted block or one committed it, and one of the counts grew since the
  last look, an elapsed timeout sends nothing; it restarts the timer and remembers the
  counts.
\<close>

lemma progress_defers_timeout:
  assumes "ns_round st = 0" and "round_zero_progress_counts L st = Some (Some (ps, cs))"
    and "validators (ns_blockchain st) \<noteq> []"
    and "f (length (validators (ns_blockchain st))) < ps \<or> 0 < cs"
    and "ns_rz_progress_prepares st < ps \<or> ns_rz_progress_commits st < cs"
    and "next_round_timeout st \<le> ns_local_time st"
    and "rcc_round_change_on_first_block (cfg_round_change_config (ns_configuration st)) \<or> ns_height st \<noteq> 1"
  shows "upon_round_timeout L st =
    Some (None, st\<lparr>ns_rz_progress_prepares := ps, ns_rz_progress_commits := cs,
      ns_rz_last_progress_time := ns_local_time st, ns_time_last_round_start := ns_local_time st\<rparr>)"
proof -
  have "defer_round_zero_timeout L st =
      Some (True, st\<lparr>ns_rz_progress_prepares := ps, ns_rz_progress_commits := cs,
        ns_rz_last_progress_time := ns_local_time st, ns_time_last_round_start := ns_local_time st\<rparr>)"
    using assms(2-5) by (auto simp: defer_round_zero_timeout_def update_round_zero_progress_def Let_def)
  with assms(1,6,7) show ?thesis by (auto simp: upon_round_timeout_def)
qed

end
