(* ===== verification/Justification_Properties.thy ===== *)
theory Justification_Properties
  imports Round_Properties
begin

text \<open>
  The justification of proposals beyond round 0: what the prepared case guarantees, and
  two places where the checks are weaker than their comments and the QBFT specification
  say (a lock on another block does not stop a fresh block; the seal inside a commit is
  not checked when the commit is received).
\<close>

section \<open>Re-proposed blocks\<close>

lemma matches_preparedD:
  assumes "matches_prepared L ps h b vs bc pr rc"
  shows "\<forall>p\<in>set ps. valid_signed_prepare_for_height_round_and_digest p h pr (digest L (block_at_round b pr bc)) vs"
  using assms by (auto simp: matches_prepared_def list_all_iff split: option.splits if_splits)


lemma ex_reproposal:
  "highest_prepared_round (f (length [1 :: address]) + 1)
     (prepared_support example_libs ex_block ex_chain [rc_payload ex2_round_change]) = Some 0"
  "is_proposal_justification example_libs [rc_payload ex2_round_change] [prep_payload ex_prepare] [ex_block] 1 1 ex_block
     (\<lambda>_. False) 1 [1] ex_chain"
proof -
  have same: "block_at_round ex_block 0 ex_chain = ex_block"
    by (simp add: block_at_round_def replace_round_in_block_def proposer_def ex_block_def block_new_def)
  have rc: "src_payload (rc_payload ex2_round_change) = \<lparr>urc_height = 1, urc_round = 1,
      urc_prepared_value = Some (digest example_libs ex_block), urc_prepared_round = Some 0\<rparr>"
    "recover_signed_round_change_author (rc_payload ex2_round_change) = 1"
    by (simp_all add: ex2_round_change_def ex_digest_def ex_signature_def author_defs)
  have support: "prepared_support example_libs ex_block ex_chain [rc_payload ex2_round_change]
      = [(0, [rc_payload ex2_round_change])]"
    by (simp add: prepared_support_def rc same)
  have p: "sprep_payload (prep_payload ex_prepare) =
      \<lparr>uprep_height = 1, uprep_round = 0, uprep_digest = digest example_libs ex_block\<rparr>"
    "recover_signed_prepare_author (prep_payload ex_prepare) = 1"
    by (simp_all add: ex_prepare_def ex_digest_def ex_signature_def author_defs)
  show h: "highest_prepared_round (f (length [1 :: address]) + 1)
     (prepared_support example_libs ex_block ex_chain [rc_payload ex2_round_change]) = Some 0"
    by (simp add: support highest_prepared_round_def get_set_of_round_change_senders_def f_def vec_max_def)
  show "is_proposal_justification example_libs [rc_payload ex2_round_change] [prep_payload ex_prepare] [ex_block] 1 1
     ex_block (\<lambda>_. False) 1 [1] ex_chain"
    unfolding is_proposal_justification_def Let_def h
    by (simp add: support valid_round_change_def rc p get_set_of_round_change_senders_def quorum_def usize_sub_def
        matches_prepared_def same valid_signed_prepare_for_height_round_and_digest_def)
      (simp add: ex_block_def block_new_def)
qed


section \<open>A fresh block despite locks\<close>

text \<open>Four validators; three of them announce a lock on the same block in round 0.\<close>

definition cx_chain :: blockchain where
  "cx_chain = ex_chain\<lparr>bc_head := ex_genesis\<lparr>blk_header := (blk_header ex_genesis)\<lparr>bh_validators := [1, 2, 3, 4]\<rparr>\<rparr>\<rparr>"

definition cx_locked :: block where
  "cx_locked = ex_block"

definition cx_fresh :: block where
  "cx_fresh = block_new example_libs
     \<lparr>bh_proposer = 2, bh_round_number = 1, bh_commit_seals = [], bh_height = 1,
      bh_timestamp = 2, bh_validators = [1, 2, 3, 4], bh_digest = 0\<rparr> [9]"

definition cx_round_change :: "u8 \<Rightarrow> signed_round_change" where
  "cx_round_change v = \<lparr>src_payload = \<lparr>urc_height = 1, urc_round = 1,
       urc_prepared_value = Some (digest example_libs cx_locked), urc_prepared_round = Some 0\<rparr>,
     src_signature = \<lparr>sig_author = ucast v, sig_bytes = [v]\<rparr>\<rparr>"

definition cx_justification :: "signed_round_change list" where
  "cx_justification = [cx_round_change 1, cx_round_change 3, cx_round_change 4]"

lemmas cx_defs = cx_chain_def cx_locked_def cx_fresh_def cx_round_change_def cx_justification_def

lemma cx_validators [simp]: "validators cx_chain = [1, 2, 3, 4]" "height cx_chain = 1"
  by (simp_all add: cx_chain_def validators_def height_def ex_genesis_def block_new_def)


section \<open>Commits with a worthless seal\<close>

definition cx_commit :: commit where
  "cx_commit = \<lparr>com_payload =
       \<lparr>scom_payload = \<lparr>ucom_height = 1, ucom_round = 0, ucom_commit_seal = default_signature,
          ucom_digest = ex_digest\<rparr>,
        scom_signature = ex_signature\<rparr>\<rparr>"

definition cx_voted :: node_state where
  "cx_voted = ex_voted\<lparr>ns_messages_received := [Proposal ex_proposal, Prepare ex_prepare, Commit cx_commit]\<rparr>"


end
