(* ===== verification/On_Chain_Config.thy ===== *)
theory On_Chain_Config
  imports Qbft_Types "HOL-Library.Sublist"
begin

text \<open>
  The validator set and parameters a node reads from the validator contract
  (\<open>rbft_consensus/on_chain_config.rs\<close>): which state is read for which block, the default
  values, and the deterministic choice of a subset of the validators.  The state of the
  execution layer is a parameter: its storage slots, and the block hashes.  The network
  addresses of the validators are in the theory Enodes.
\<close>

section \<open>Definitions\<close>

type_synonym slots = "256 word \<Rightarrow> 256 word option"

text \<open>
  The provider: \<open>latest()\<close> and \<open>state_by_block_number_or_tag\<close> with \<^const>\<open>None\<close> for an error,
  each giving the slots of the proxy contract (\<open>storage(..).ok().flatten()\<close>), and the hash
  of a sealed header when there is one.
\<close>

record provider =
  pv_latest :: "slots option"
  pv_state_at :: "u64 \<Rightarrow> slots option"
  pv_header_hash :: "u64 \<Rightarrow> hash option"

record on_chain_config =
  oc_all_validators :: "address list"
  oc_selected_validators :: "address list"
  oc_max_validators :: nat
  oc_base_fee :: u64
  oc_block_interval_ms :: u64
  oc_epoch_length :: u64

definition MAX_VALIDATORS :: nat where
  "MAX_VALIDATORS = 256"

text \<open>\<open>storage(..).unwrap_or(d).try_into().unwrap_or(d)\<close> to a \<open>u64\<close> or \<open>usize\<close>.\<close>

definition read_u64 :: "slots \<Rightarrow> 256 word \<Rightarrow> u64 \<Rightarrow> u64" where
  "read_u64 s slot d =
     (case s slot of
        None \<Rightarrow> d
      | Some v \<Rightarrow> if unat v < 2 ^ 64 then ucast v else d)"

definition empty_config :: "nat \<Rightarrow> u64 \<Rightarrow> u64 \<Rightarrow> u64 \<Rightarrow> on_chain_config" where
  "empty_config max_validators base_fee interval epoch_length =
     \<lparr>oc_all_validators = [], oc_selected_validators = [], oc_max_validators = max_validators,
      oc_base_fee = base_fee, oc_block_interval_ms = interval, oc_epoch_length = epoch_length\<rparr>"

text \<open>The state at a block number; the first two blocks use the latest state.\<close>

definition state_for :: "provider \<Rightarrow> u64 \<Rightarrow> u64 \<Rightarrow> slots option" where
  "state_for P n block_number = (if n \<le> 1 then pv_latest P else pv_state_at P block_number)"

definition genesis_epoch_hash :: "libs \<Rightarrow> hash" where
  "genesis_epoch_hash L =
     keccak256 L (map (\<lambda>c. word_of_nat (of_char c)) ''genesis_epoch_hash'')"

definition epoch_hash :: "libs \<Rightarrow> provider \<Rightarrow> u64 \<Rightarrow> hash" where
  "epoch_hash L P epoch_first_block =
     (if epoch_first_block \<le> 1
      then (case pv_header_hash P 1 of
              Some h \<Rightarrow> h
            | None \<Rightarrow> (case pv_header_hash P 0 of
                         Some h \<Rightarrow> h
                       | None \<Rightarrow> genesis_epoch_hash L))
      else (case pv_header_hash P (saturating_sub epoch_first_block 1) of
              Some h \<Rightarrow> h
            | None \<Rightarrow> genesis_epoch_hash L))"

text \<open>
  The array elements start at the hash of slot 0; adding the index saturates.  The last
  20 bytes of a value are the address; zero addresses are skipped.
\<close>

definition slot_add :: "256 word \<Rightarrow> nat \<Rightarrow> 256 word" where
  "slot_add slot i = (if unat slot + i < 2 ^ 256 then slot + word_of_nat i else - 1)"

definition read_validators :: "libs \<Rightarrow> slots \<Rightarrow> nat \<Rightarrow> address list" where
  "read_validators L s n =
     (let start = keccak256 L (replicate 32 0) in
      filter (\<lambda>a. a \<noteq> 0) (filter_map (\<lambda>i. map_option ucast (s (slot_add start i))) [0..<n]))"

section \<open>Choosing a subset\<close>

definition u64_be_bytes :: "u64 \<Rightarrow> bytes" where
  "u64_be_bytes w = map (\<lambda>i. ucast (drop_bit (8 * (7 - i)) w)) [0..<8]"

text \<open>The first eight bytes of the seed, big-endian.\<close>

definition seed_index :: "hash \<Rightarrow> nat" where
  "seed_index seed = unat (ucast (drop_bit 192 seed) :: u64)"

definition remove_nth :: "nat \<Rightarrow> 'a list \<Rightarrow> 'a list" where
  "remove_nth i xs = take i xs @ drop (Suc i) xs"

text \<open>The loop over \<open>i\<close>; the first argument is how many rounds remain.\<close>

fun select_loop :: "libs \<Rightarrow> nat \<Rightarrow> nat \<Rightarrow> nat \<Rightarrow> hash \<Rightarrow> nat list \<Rightarrow> nat list" where
  "select_loop L 0 i max_validators seed available = []"
| "select_loop L (Suc n) i max_validators seed available =
     (let idx = seed_index seed mod length available;
          next_seed = (if i < max_validators - 1
                       then keccak256 L (hash_bytes L seed @ u64_be_bytes (word_of_nat i))
                       else seed)
      in available ! idx # select_loop L n (i + 1) max_validators next_seed (remove_nth idx available))"

definition select_validators :: "libs \<Rightarrow> hash \<Rightarrow> nat \<Rightarrow> address list \<Rightarrow> address list" where
  "select_validators L seed max_validators all =
     (if length all > max_validators
      then map (\<lambda>i. all ! i)
             (sort (select_loop L max_validators 0 max_validators seed [0..<length all]))
      else all)"

text \<open>
  The whole function.  \<^const>\<open>None\<close> is the panic of the division by a zero epoch length.
\<close>

definition get_on_chain_config :: "libs \<Rightarrow> provider \<Rightarrow> u64 \<Rightarrow> on_chain_config option" where
  "get_on_chain_config L P block_number =
     (case state_for P block_number block_number of
        None \<Rightarrow> Some (empty_config 4 4761904761905 1000 32)
      | Some current \<Rightarrow>
          let epoch_length = read_u64 current 4 32 in
          if epoch_length = 0 then None
          else
            let epoch_first_block = (block_number div epoch_length) * epoch_length in
            Some (case state_for P epoch_first_block (saturating_sub epoch_first_block 1) of
                    None \<Rightarrow> empty_config 4 4761904761905 1000 epoch_length
                  | Some s \<Rightarrow>
                      let max_validators = unat (read_u64 s 1 4);
                          base_fee = read_u64 s 2 4761904761905;
                          interval = read_u64 s 3 1000;
                          num_validators = min (unat (read_u64 s 0 0)) MAX_VALIDATORS
                      in if num_validators = 0
                         then empty_config max_validators base_fee interval epoch_length
                         else
                           let all = read_validators L s num_validators in
                           \<lparr>oc_all_validators = all,
                            oc_selected_validators =
                              select_validators L (epoch_hash L P epoch_first_block) max_validators all,
                            oc_max_validators = max_validators, oc_base_fee = base_fee,
                            oc_block_interval_ms = interval, oc_epoch_length = epoch_length\<rparr>))"

section \<open>The selection\<close>

lemma remove_nth_props:
  assumes "i < length xs" and "distinct xs"
  shows "distinct (remove_nth i xs)" and "set (remove_nth i xs) = set xs - {xs ! i}"
    and "length (remove_nth i xs) = length xs - 1"
proof -
  define a b x where "a = take i xs" and "b = drop (Suc i) xs" and "x = xs ! i"
  have xs: "xs = a @ x # b" using id_take_nth_drop [OF assms(1)] by (simp add: a_def b_def x_def)
  have r: "remove_nth i xs = a @ b" by (simp add: remove_nth_def a_def b_def)
  have d: "distinct (a @ x # b)" using assms(2) by (rule subst [OF xs])
  then show "distinct (remove_nth i xs)" by (simp add: r)
  have "set xs = set (a @ x # b)" by (rule arg_cong [OF xs])
  then show "set (remove_nth i xs) = set xs - {xs ! i}"
    unfolding r x_def [symmetric] using d by auto
  show "length (remove_nth i xs) = length xs - 1" using assms(1) by (simp add: remove_nth_def)
qed

lemma select_loop_props:
  assumes "n \<le> length available" and "distinct available"
  shows "distinct (select_loop L n i m seed available)"
    and "set (select_loop L n i m seed available) \<subseteq> set available"
    and "length (select_loop L n i m seed available) = n"
proof -
  have "distinct (select_loop L n i m seed available) \<and>
    set (select_loop L n i m seed available) \<subseteq> set available \<and>
    length (select_loop L n i m seed available) = n"
    using assms
  proof (induction n arbitrary: i seed available)
    case (Suc n)
    let ?idx = "seed_index seed mod length available"
    have idx: "?idx < length available" using Suc.prems(1) by (intro mod_less_divisor) linarith
    note rest = remove_nth_props [OF idx Suc.prems(2)]
    have "n \<le> length (remove_nth ?idx available)" using Suc.prems(1) rest(3) by simp
    from Suc.IH [OF this rest(1)] rest(2) idx show ?case by (auto simp: Let_def)
  qed simp
  then show "distinct (select_loop L n i m seed available)"
    and "set (select_loop L n i m seed available) \<subseteq> set available"
    and "length (select_loop L n i m seed available) = n" by auto
qed

lemma map_nth_sorted_subseq:
  assumes "sorted_wrt (<) ks" and "\<forall>i\<in>set ks. i < length xs"
  shows "subseq (map (\<lambda>i. xs ! i) ks) xs"
proof -
  have "sorted (filter (\<lambda>i. i \<in> set ks) [0..<length xs])" by (simp add: sorted_wrt_filter)
  moreover have "set (filter (\<lambda>i. i \<in> set ks) [0..<length xs]) = set ks" using assms(2) by auto
  ultimately have ks: "ks = filter (\<lambda>i. i \<in> set ks) [0..<length xs]"
    using assms(1) by (intro sorted_distinct_set_unique) (auto simp: strict_sorted_iff)
  have zip: "zip xs [0..<length xs] = map (\<lambda>i. (xs ! i, i)) [0..<length xs]"
    by (rule nth_equalityI) simp_all
  have "map (\<lambda>i. xs ! i) ks = nths xs (set ks)"
    unfolding nths_def zip by (subst ks) (simp add: filter_map o_def)
  then show ?thesis by (auto simp: subseq_conv_nths)
qed

text \<open>
  The choice keeps the order of the contract and has exactly the configured size; when
  the contract lists no more validators than that, it is all of them.
\<close>

lemma select_validators_subset:
  "subseq (select_validators L seed m all) all
    \<and> length (select_validators L seed m all) = min m (length all)"
proof (cases "length all > m")
  case True
  let ?ks = "select_loop L m 0 m seed [0..<length all]"
  have le: "m \<le> length [0..<length all]" using True by simp
  note sel = select_loop_props [OF le distinct_upt, of L 0 m seed]
  have "sorted_wrt (<) (sort ?ks)" using sel(1) by (simp add: strict_sorted_iff)
  moreover have "\<forall>i\<in>set (sort ?ks). i < length all" using sel(2) by auto
  ultimately have "subseq (map (\<lambda>i. all ! i) (sort ?ks)) all" by (rule map_nth_sorted_subseq)
  with True sel(3) show ?thesis by (simp add: select_validators_def)
qed (simp add: select_validators_def)

lemma length_filter_map_le: "length (filter_map g xs) \<le> length xs"
  by (induction xs) (auto split: option.splits)

lemma read_validators_bound: "length (read_validators L s n) \<le> n"
  unfolding read_validators_def Let_def
  by (rule le_trans [OF length_filter_le]) (use length_filter_map_le [of _ "[0..<n]"] in simp)

lemma read_validators_nonzero: "0 \<notin> set (read_validators L s n)"
  by (simp add: read_validators_def Let_def)

end
