(* ===== verification/Driver.thy ===== *)
theory Driver
  imports Node On_Chain_Config
begin

text \<open>
  The consensus driver (\<open>rbft_consensus.rs\<close>): what one call of \<open>advance\<close> does with the
  messages that arrived, block synchronisation, the checks on the payload of a proposal,
  the hand-over of decided blocks to the execution layer, and the tick alignment
  (\<open>rbft_consensus/aligned_interval.rs\<close>).

  The execution layer (the reth provider, engine and payload builder) and the codec of its
  blocks are parameters; its state is a type variable that the operations thread.  Logging,
  metrics and peer bookkeeping are left out: sending to all peers is a list of messages.
\<close>

section \<open>Parameters\<close>

text \<open>A block of the execution layer, as far as the driver looks into it.\<close>

record sealed_block =
  sb_number :: u64
  sb_timestamp :: u64
  sb_beneficiary :: address
  sb_hash :: hash

record sealed_codec =
  encode_sealed :: "sealed_block \<Rightarrow> bytes"
  decode_sealed :: "bytes \<Rightarrow> (sealed_block \<times> bytes) option"

datatype payload_view = PString bytes | PList "bytes list"

record raw_rlp =
  decode_raw :: "bytes \<Rightarrow> rlp_error + (payload_view \<times> bytes)"
  decode_exact_u64 :: "bytes \<Rightarrow> rlp_error + u64"
  decode_exact_address :: "bytes \<Rightarrow> rlp_error + address"

text \<open>
  The attributes the payload builder gets.  \<open>exec_new_payload\<close> reports whether the block is
  valid; \<open>exec_build\<close> is the fork-choice update with attributes followed by resolving the
  payload, \<^const>\<open>None\<close> for any failure.
\<close>

record payload_attributes =
  pa_timestamp :: u64
  pa_fee_recipient :: address
  pa_prev_randao :: hash

record 'e exec =
  exec_best_block_number :: "'e \<Rightarrow> u64 option"
  exec_block :: "'e \<Rightarrow> u64 \<Rightarrow> sealed_block option"
  exec_provider :: "'e \<Rightarrow> provider"
  exec_new_payload :: "sealed_block \<Rightarrow> 'e \<Rightarrow> bool \<times> 'e"
  exec_update_tip :: "hash \<Rightarrow> 'e \<Rightarrow> 'e"
  exec_build :: "payload_attributes \<Rightarrow> 'e \<Rightarrow> sealed_block option \<times> 'e"
  exec_show_hash :: "hash \<Rightarrow> bytes"

definition best_block :: "'e exec \<Rightarrow> 'e \<Rightarrow> u64" where
  "best_block E e = (case exec_best_block_number E e of Some n \<Rightarrow> n | None \<Rightarrow> 0)"

section \<open>Checks on a proposal's payload\<close>

definition RLP_HEADER_BENEFICIARY_INDEX :: nat where "RLP_HEADER_BENEFICIARY_INDEX = 2"
definition RLP_HEADER_NUMBER_INDEX :: nat where "RLP_HEADER_NUMBER_INDEX = 8"
definition RLP_HEADER_TIMESTAMP_INDEX :: nat where "RLP_HEADER_TIMESTAMP_INDEX = 11"

record raw_block_header =
  rbh_proposer :: address
  rbh_height :: u64
  rbh_timestamp :: u64

record raw_block =
  rb_header :: raw_block_header
  rb_body :: bytes
  rb_transactions :: "bytes list"

text \<open>The three header fields, each decoded exactly.\<close>

definition header_fields :: "raw_rlp \<Rightarrow> bytes list \<Rightarrow> rlp_error + (u64 \<times> u64 \<times> address)" where
  "header_fields X hdr =
     (case decode_exact_u64 X (hdr ! RLP_HEADER_NUMBER_INDEX) of Inl e \<Rightarrow> Inl e | Inr number \<Rightarrow>
      (case decode_exact_u64 X (hdr ! RLP_HEADER_TIMESTAMP_INDEX) of Inl e \<Rightarrow> Inl e | Inr timestamp \<Rightarrow>
       (case decode_exact_address X (hdr ! RLP_HEADER_BENEFICIARY_INDEX) of Inl e \<Rightarrow> Inl e
        | Inr leader \<Rightarrow> Inr (number, timestamp, leader))))"

definition extract_rlp_block_metadata ::
    "raw_rlp \<Rightarrow> raw_block \<Rightarrow> rlp_error + (u64 \<times> u64 \<times> address) option" where
  "extract_rlp_block_metadata X b =
     (case decode_raw X (rb_body b) of
        Inl e \<Rightarrow> Inl e
      | Inr (PString _, _) \<Rightarrow> Inr None
      | Inr (PList items, rest) \<Rightarrow>
          if rest \<noteq> [] then Inl (Custom ''unexpected trailing bytes in block payload'')
          else (case items of
                  [] \<Rightarrow> Inl (Custom ''missing block header in payload'')
                | raw_header # _ \<Rightarrow>
                    (case decode_raw X raw_header of
                       Inl e \<Rightarrow> Inl e
                     | Inr (PString _, _) \<Rightarrow> Inl UnexpectedString
                     | Inr (PList hdr, _) \<Rightarrow>
                         if length hdr \<le> RLP_HEADER_TIMESTAMP_INDEX
                         then Inl (Custom ''incomplete block header payload'')
                         else (case header_fields X hdr of Inl e \<Rightarrow> Inl e | Inr m \<Rightarrow> Inr (Some m)))))"

definition validate_block_payload_metadata :: "raw_rlp \<Rightarrow> bytes \<Rightarrow> u64 \<Rightarrow> u64 \<Rightarrow> address \<Rightarrow> bool" where
  "validate_block_payload_metadata X body h ts leader =
     (case extract_rlp_block_metadata X
             \<lparr>rb_header = \<lparr>rbh_proposer = leader, rbh_height = h, rbh_timestamp = ts\<rparr>,
              rb_body = body, rb_transactions = []\<rparr> of
        Inr (Some (number, timestamp, beneficiary)) \<Rightarrow>
          number = h \<and> timestamp = ts \<and> beneficiary = leader
      | Inr None \<Rightarrow> True
      | Inl _ \<Rightarrow> False)"

definition validate_proposal_with_validator ::
    "raw_rlp \<Rightarrow> sealed_codec \<Rightarrow> (sealed_block \<Rightarrow> bool) \<Rightarrow> proposal \<Rightarrow> bool" where
  "validate_proposal_with_validator X S validate_header p =
     (let body = blk_body (prop_block p); q = blk_header (prop_block p) in
      case decode_sealed S body of
        None \<Rightarrow> False
      | Some (sealed, rest) \<Rightarrow>
          if rest \<noteq> [] then False
          else if sb_number sealed \<noteq> bh_height q then False
          else if sb_timestamp sealed \<noteq> bh_timestamp q then False
          else
            let enforce_proposer_match = (bh_round_number q = 0) in
            if enforce_proposer_match \<and> sb_beneficiary sealed \<noteq> bh_proposer q then False
            else if \<not> validate_header sealed then False
            else validate_block_payload_metadata X body (bh_height q) (bh_timestamp q)
                   (if enforce_proposer_match then bh_proposer q else sb_beneficiary sealed))"

section \<open>Block synchronisation\<close>

definition MAX_BLOCKS_PER_RESPONSE :: u64 where
  "MAX_BLOCKS_PER_RESPONSE = 100"

definition saturating_add :: "u64 \<Rightarrow> u64 \<Rightarrow> u64" where
  "saturating_add a b = (if unat a + unat b < 2 ^ 64 then a + b else - 1)"

text \<open>The block the driver serves for one height; the signature is a placeholder.\<close>

definition served_block :: "libs \<Rightarrow> sealed_codec \<Rightarrow> address list \<Rightarrow> u64 \<Rightarrow> sealed_block \<Rightarrow> signed_new_block" where
  "served_block L S vs h sealed =
     (let body = encode_sealed S sealed; d = keccak256 L body in
      \<lparr>snb_payload = \<lparr>unb_height = h, unb_round = 0, unb_digest = d\<rparr>,
       snb_signature = default_signature,
       snb_block = block_new L
         \<lparr>bh_proposer = sb_beneficiary sealed, bh_round_number = 0, bh_commit_seals = [], bh_height = h,
          bh_timestamp = sb_timestamp sealed, bh_validators = vs, bh_digest = d\<rparr> body\<rparr>)"

text \<open>The loop over the heights: a missing block ends it, reading the configuration may panic.\<close>

fun serve_blocks :: "libs \<Rightarrow> sealed_codec \<Rightarrow> 'e exec \<Rightarrow> 'e \<Rightarrow> u64 \<Rightarrow> nat \<Rightarrow> signed_new_block list option" where
  "serve_blocks L S E e h 0 = Some []"
| "serve_blocks L S E e h (Suc n) =
     (case exec_block E e h of
        None \<Rightarrow> Some []
      | Some sealed \<Rightarrow> do {
          cfg \<leftarrow> get_on_chain_config L (exec_provider E e) h;
          rest \<leftarrow> serve_blocks L S E e (h + 1) n;
          Some (served_block L S (oc_selected_validators cfg) h sealed # rest)
        })"

definition handle_block_request ::
    "libs \<Rightarrow> sealed_codec \<Rightarrow> 'e exec \<Rightarrow> 'e \<Rightarrow> block_request \<Rightarrow> block_response option option" where
  "handle_block_request L S E e req =
     (let from_height = breq_from_height req;
          to_height = min (breq_to_height req) (saturating_add from_height (MAX_BLOCKS_PER_RESPONSE - 1));
          best = best_block E e
      in if from_height > best then Some None
         else
           let to_height = min to_height best in
           do {
             bs \<leftarrow> serve_blocks L S E e from_height (unat to_height + 1 - unat from_height);
             Some (if bs = [] then None else Some \<lparr>bresp_blocks = bs\<rparr>)
           })"

text \<open>One block of a response: the result says whether to go on.\<close>

definition apply_block ::
    "sealed_codec \<Rightarrow> 'e exec \<Rightarrow> u64 \<Rightarrow> signed_new_block \<Rightarrow> node_state \<times> 'e \<Rightarrow> bool \<times> node_state \<times> 'e" where
  "apply_block S E node_height b se =
     (let (st, e) = se; h = unb_height (snb_payload b) in
      if h \<le> node_height then (True, st, e)
      else if h \<noteq> best_block E e + 1 then (True, st, e)
      else (case decode_sealed S (blk_body (snb_block b)) of
              None \<Rightarrow> (True, st, e)
            | Some (sealed, _) \<Rightarrow>
                let (is_ok, e1) = exec_new_payload E sealed e in
                if \<not> is_ok then (False, st, e1)
                else
                  let e2 = exec_update_tip E (sb_hash sealed) e1;
                      bc = set_proposed_block None (set_head (snb_block b) (ns_blockchain st));
                      st1 = new_round 0 (ns_local_time st) None (set_blockchain bc st)
                  in (True, prune_messages_below_height st1, e2)))"

fun apply_blocks ::
    "sealed_codec \<Rightarrow> 'e exec \<Rightarrow> u64 \<Rightarrow> signed_new_block list \<Rightarrow> node_state \<times> 'e \<Rightarrow> bool \<times> node_state \<times> 'e" where
  "apply_blocks S E node_height [] se = (True, se)"
| "apply_blocks S E node_height (b # bs) se =
     (let (continue, se') = apply_block S E node_height b se in
      if continue then apply_blocks S E node_height bs se' else (False, se'))"

definition handle_block_response ::
    "sealed_codec \<Rightarrow> 'e exec \<Rightarrow> block_response \<Rightarrow> node_state \<times> 'e \<Rightarrow> bool \<times> node_state \<times> 'e" where
  "handle_block_response S E r se =
     (if bresp_blocks r = [] then (False, se)
      else apply_blocks S E (best_block E (snd se)) (bresp_blocks r) se)"

section \<open>Building and committing blocks\<close>

fun show_nat :: "nat \<Rightarrow> bytes" where
  "show_nat n =
     (if n < 10 then [word_of_nat (48 + n)] else show_nat (n div 10) @ [word_of_nat (48 + n mod 10)])"

declare show_nat.simps [simp del]

text \<open>The two assertions on the built payload are the panics.\<close>

definition get_proposed_block ::
    "libs \<Rightarrow> sealed_codec \<Rightarrow> 'e exec \<Rightarrow> on_chain_config \<Rightarrow> node_state \<Rightarrow> 'e \<Rightarrow> (block option \<times> 'e) option" where
  "get_proposed_block L S E cfg st e =
     (let interval = oc_block_interval_ms cfg;
          next_ms = estimate_timestamp_ms (ns_blockchain st) interval + unat interval;
          n = best_block E e
      in case pv_header_hash (exec_provider E e) n of
           None \<Rightarrow> Some (None, e)
         | Some h \<Rightarrow>
             let attributes = \<lparr>pa_timestamp = word_of_nat (next_ms div 1000),
                               pa_fee_recipient = ns_id st,
                               pa_prev_randao =
                                 keccak256 L (exec_show_hash E h @ show_nat (unat (n + 1)))\<rparr>
             in (case exec_build E attributes e of
                   (None, e1) \<Rightarrow> Some (None, e1)
                 | (Some sealed, e1) \<Rightarrow>
                     if sb_beneficiary sealed \<noteq> ns_id st then None
                     else
                       let body = encode_sealed S sealed in
                       if decode_sealed S body = None then None
                       else Some (Some (block_new L
                              \<lparr>bh_proposer = ns_id st, bh_round_number = 0, bh_commit_seals = [],
                               bh_height = sb_number sealed, bh_timestamp = sb_timestamp sealed,
                               bh_validators = oc_selected_validators cfg, bh_digest = keccak256 L body\<rparr> body),
                            e1)))"

datatype driver_error = BlockNotFound | PayloadUndecodable

definition rebuild_node_state_from_chain ::
    "libs \<Rightarrow> sealed_codec \<Rightarrow> 'e exec \<Rightarrow> on_chain_config \<Rightarrow> u64 \<Rightarrow> node_state \<Rightarrow> 'e \<Rightarrow> driver_error + node_state" where
  "rebuild_node_state_from_chain L S E cfg now st e =
     (let n = best_block E e in
      case exec_block E e n of
        None \<Rightarrow> Inl BlockNotFound
      | Some sealed \<Rightarrow>
          let body = encode_sealed S sealed in
          if decode_sealed S body = None then Inl PayloadUndecodable
          else
            let vs = oc_selected_validators cfg;
                head = block_new L
                  \<lparr>bh_proposer = (case vs of [] \<Rightarrow> 0 | v # _ \<Rightarrow> v), bh_round_number = 0, bh_commit_seals = [],
                   bh_height = n, bh_timestamp = sb_timestamp sealed, bh_validators = vs,
                   bh_digest = sb_hash sealed\<rparr> body;
                conf = (ns_configuration st)\<lparr>cfg_nodes := oc_all_validators cfg,
                         cfg_block_time := oc_block_interval_ms cfg div 1000\<rparr>
            in Inr (node_state_new \<lparr>bc_proposed_block = None, bc_older = [], bc_head = head\<rparr>
                      conf (ns_id st) (ns_private_key st) now))"

definition commit_block_to_reth_blockchain ::
    "libs \<Rightarrow> sealed_codec \<Rightarrow> 'e exec \<Rightarrow> on_chain_config \<Rightarrow> u64 \<Rightarrow> node_state \<times> 'e \<Rightarrow> node_state \<times> 'e" where
  "commit_block_to_reth_blockchain L S E cfg now se =
     (let (st, e) = se in
      case decode_sealed S (blk_body (bc_head (ns_blockchain st))) of
        None \<Rightarrow> (st, e)
      | Some (sealed, _) \<Rightarrow>
          let (is_ok, e1) = exec_new_payload E sealed e in
          if \<not> is_ok
          then (case rebuild_node_state_from_chain L S E cfg now st e1 of
                  Inl _ \<Rightarrow> (st, e1)
                | Inr st' \<Rightarrow> (st', e1))
          else (st, exec_update_tip E (sb_hash sealed) e1))"

section \<open>One iteration\<close>

text \<open>The fields of \<open>RbftConsensus\<close> that the operations below read or write.\<close>

record 'e driver =
  dr_state :: node_state
  dr_exec :: 'e
  dr_cached_config :: on_chain_config
  dr_cached_config_height :: u64

definition block_requests :: "qbft_message list \<Rightarrow> block_request list" where
  "block_requests ms = filter_map (\<lambda>m. case m of BlockRequest r \<Rightarrow> Some r | _ \<Rightarrow> None) ms"

definition block_responses :: "qbft_message list \<Rightarrow> block_response list" where
  "block_responses ms = filter_map (\<lambda>m. case m of BlockResponse r \<Rightarrow> Some r | _ \<Rightarrow> None) ms"

text \<open>What goes on to the state machine: no synchronisation messages, only checked proposals.\<close>

definition consensus_messages :: "(proposal \<Rightarrow> bool) \<Rightarrow> qbft_message list \<Rightarrow> qbft_message list" where
  "consensus_messages valid ms =
     filter (\<lambda>m. case m of
               BlockRequest _ \<Rightarrow> False | BlockResponse _ \<Rightarrow> False
             | Proposal p \<Rightarrow> valid p | _ \<Rightarrow> True) ms"

fun serve_requests :: "libs \<Rightarrow> sealed_codec \<Rightarrow> 'e exec \<Rightarrow> 'e \<Rightarrow> block_request list \<Rightarrow> qbft_message list option" where
  "serve_requests L S E e [] = Some []"
| "serve_requests L S E e (r # rs) = do {
     resp \<leftarrow> handle_block_request L S E e r;
     rest \<leftarrow> serve_requests L S E e rs;
     Some ((case resp of None \<Rightarrow> [] | Some b \<Rightarrow> [BlockResponse b]) @ rest)
   }"

definition apply_responses ::
    "sealed_codec \<Rightarrow> 'e exec \<Rightarrow> block_response list \<Rightarrow> node_state \<times> 'e \<Rightarrow> node_state \<times> 'e" where
  "apply_responses S E rs se = fold (\<lambda>r se. snd (handle_block_response S E r se)) rs se"

definition highest_newblock :: "qbft_message list \<Rightarrow> u64" where
  "highest_newblock ms =
     (case vec_max (filter_map (\<lambda>m. case m of NewBlock b \<Rightarrow> Some (block_height (snb_block b)) | _ \<Rightarrow> None) ms) of
        Some h \<Rightarrow> h | None \<Rightarrow> 0)"

definition catch_up_request :: "u64 \<Rightarrow> u64 \<Rightarrow> qbft_message list" where
  "catch_up_request node_height highest =
     (let current_best = saturating_sub node_height 1 in
      if highest > current_best + 1
      then [BlockRequest \<lparr>breq_from_height = current_best + 1, breq_to_height = highest\<rparr>]
      else [])"

text \<open>
  Producing a block when its time has come: \<^const>\<open>None\<close> is a panic, a false flag the early
  return of \<open>advance\<close>.
\<close>

definition install_proposed_block ::
    "libs \<Rightarrow> sealed_codec \<Rightarrow> 'e exec \<Rightarrow> on_chain_config \<Rightarrow> u64 \<Rightarrow> nat \<Rightarrow> node_state \<times> 'e
      \<Rightarrow> (bool \<times> node_state \<times> 'e) option" where
  "install_proposed_block L S E cfg node_height time_ms se =
     (let (st, e) = se;
          interval = oc_block_interval_ms cfg;
          next_ms = estimate_timestamp_ms (ns_blockchain st) interval + unat interval
      in if time_ms \<ge> next_ms \<and> proposed_height st < node_height
         then do {
           (proposed, e1) \<leftarrow> get_proposed_block L S E cfg st e;
           Some (case proposed of
                   None \<Rightarrow> (False, st, e1)
                 | Some b \<Rightarrow>
                     if block_height b \<noteq> node_height then (False, st, e1)
                     else (True, set_blockchain (set_proposed_block (Some b) (ns_blockchain st)) st, e1))
         }
         else Some (True, st, e))"

text \<open>Receive the batch, tick, push the own messages back.\<close>

definition step_state_machine ::
    "libs \<Rightarrow> u64 \<Rightarrow> qbft_message list \<Rightarrow> node_state \<Rightarrow> (qbft_message list \<times> node_state) option" where
  "step_state_machine L now ms st = do {
     st1 \<leftarrow> add_messages L ms now st;
     (out, st2) \<leftarrow> node_next L now st1;
     let sent = map mwr_message out;
     Some (sent, fold push_message sent st2)
   }"

definition refresh_config :: "libs \<Rightarrow> 'e exec \<Rightarrow> u64 \<Rightarrow> 'e driver \<Rightarrow> 'e driver option" where
  "refresh_config L E node_height d =
     (if dr_cached_config_height d \<noteq> node_height
      then do {
        cfg \<leftarrow> get_on_chain_config L (exec_provider E (dr_exec d)) (max (saturating_sub node_height 1) 1);
        Some (d\<lparr>dr_cached_config := cfg, dr_cached_config_height := node_height\<rparr>)
      }
      else Some d)"

definition advance_enabled :: "u64 option \<Rightarrow> node_state \<Rightarrow> u64 \<Rightarrow> bool" where
  "advance_enabled catchup st highest =
     (case catchup of
        None \<Rightarrow> True
      | Some threshold \<Rightarrow> whoami st \<noteq> 0 \<or> ns_height st \<ge> threshold \<or> highest \<ge> threshold)"

definition advance ::
    "libs \<Rightarrow> raw_rlp \<Rightarrow> sealed_codec \<Rightarrow> 'e exec \<Rightarrow> (sealed_block \<Rightarrow> bool) \<Rightarrow> u64 option \<Rightarrow> nat \<Rightarrow> u64
      \<Rightarrow> qbft_message list \<Rightarrow> 'e driver \<Rightarrow> (qbft_message list \<times> 'e driver) option" where
  "advance L X S E validate_header catchup time_ms now inbox d = do {
     let node_height = best_block E (dr_exec d) + 1;
     d1 \<leftarrow> refresh_config L E node_height d;
     let cfg = dr_cached_config d1;
     let incoming = consensus_messages (validate_proposal_with_validator X S validate_header) inbox;
     served \<leftarrow> serve_requests L S E (dr_exec d1) (block_requests inbox);
     let (st1, e1) = apply_responses S E (block_responses inbox) (dr_state d1, dr_exec d1);
     let highest = highest_newblock incoming;
     let requests = catch_up_request node_height highest;
     (if \<not> advance_enabled catchup st1 highest
      then Some (served @ requests, d1\<lparr>dr_state := st1, dr_exec := e1\<rparr>)
      else do {
        (continue, st2, e2) \<leftarrow> install_proposed_block L S E cfg node_height time_ms (st1, e1);
        (if \<not> continue then Some (served @ requests, d1\<lparr>dr_state := st2, dr_exec := e2\<rparr>)
         else do {
           (sent, st3) \<leftarrow> step_state_machine L now incoming st2;
           let (st4, e3) = (if ns_height st3 > node_height
                            then commit_block_to_reth_blockchain L S E cfg now (st3, e2)
                            else (st3, e2));
           Some (served @ requests @ sent, d1\<lparr>dr_state := st4, dr_exec := e3\<rparr>)
         })
      })
   }"

section \<open>Tick alignment\<close>

text \<open>
  The milliseconds until the next tick; \<^const>\<open>None\<close> is the division by a zero interval.
\<close>

definition calculate_next_tick :: "nat \<Rightarrow> u64 \<Rightarrow> u64 option" where
  "calculate_next_tick millis_since_epoch interval_ms =
     (if interval_ms = 0 then None
      else
        let next_millis = (millis_since_epoch div unat interval_ms + 1) * unat interval_ms in
        Some (word_of_nat (next_millis - millis_since_epoch)))"

section \<open>The debug ring buffer\<close>

definition DEBUG_BUFFER_MAX_ENTRIES :: nat where
  "DEBUG_BUFFER_MAX_ENTRIES = 10000"

definition push_debug_entry :: "'t \<Rightarrow> string \<Rightarrow> ('t \<times> string) list \<Rightarrow> ('t \<times> string) list" where
  "push_debug_entry now msg buffer =
     (if length buffer \<ge> DEBUG_BUFFER_MAX_ENTRIES then tl buffer else buffer) @ [(now, msg)]"

end
