(* ===== verification/Driver_Run.thy ===== *)
theory Driver_Run
  imports Driver Node_Safety
begin

text \<open>
  The driver runs the state machine: an iteration of \<open>advance\<close> that applies no
  synchronised blocks is a run of \<open>node_step\<close>, and the consensus messages it sends are
  the messages of that run.  The safety of runs carries over to the driver.
\<close>

section \<open>Composing runs\<close>

lemma run_trans:
  assumes "run step s0 outs s" and "run step s outs' t"
  shows "run step s0 (outs @ outs') t"
  using assms(2)
proof (induction rule: run.induct)
  case run_nil
  with assms(1) show ?case by simp
next
  case (run_step outs' s' out t)
  from run.run_step [OF run_step.IH run_step.hyps(2)] show ?case by simp
qed

lemma run_single: "step s out t \<Longrightarrow> run step s out t"
  using run.run_step [OF run.run_nil, of step s out t] by simp

lemma run_push: "run (node_step L) st [] (fold push_message ms st)"
proof (induction ms arbitrary: st)
  case (Cons m ms)
  have "run (node_step L) st [] (push_message m st)"
    by (rule run_single) (rule node_step.loopback)
  from run_trans [OF this Cons.IH] show ?case by simp
qed (simp add: run.run_nil)

section \<open>What a tick sends\<close>

lemma node_next_sub_step_not_sync:
  assumes "node_next_sub_step L st = Some (out, st')"
  shows "\<forall>m\<in>set (map mwr_message out). \<not> is_sync m"
  using assms
proof (cases rule: node_next_sub_step_cases)
  case new_block
  then show ?thesis by (cases rule: upon_new_blockE) auto
next
  case block_timeout
  then show ?thesis by (cases rule: upon_block_timeoutE) (auto simp: multicast_def)
next
  case proposal
  then show ?thesis by (cases rule: upon_proposalE) (auto simp: multicast_def)
next
  case prepare
  then show ?thesis by (cases rule: upon_prepareE) (auto simp: multicast_def)
next
  case commit
  then show ?thesis by (cases rule: upon_commitE) (auto simp: multicast_def)
next
  case round_change
  then show ?thesis by (cases rule: upon_round_changeE) (auto simp: multicast_def)
next
  case round_timeout
  then show ?thesis by (cases rule: upon_round_timeoutE) (auto simp: multicast_def)
qed auto

lemma step_state_machine_run:
  assumes "step_state_machine L now ms st = Some (sent, st')"
    and "ns_round st \<noteq> - 1" and "ns_height st' \<noteq> 0"
  shows "run (node_step L) st sent st'" and "\<forall>m\<in>set sent. \<not> is_sync m"
proof -
  obtain st1 out st2 where st1: "add_messages L ms now st = Some st1"
    and st2: "node_next L now st1 = Some (out, st2)"
    and sent: "sent = map mwr_message out" "st' = fold push_message sent st2"
    using assms(1) by (auto simp: step_state_machine_def bind_eq_Some_conv Let_def)
  have "ns_blockchain (fold push_message ms' s) = ns_blockchain s" for ms' s
    by (induction ms' arbitrary: s) simp_all
  then have h: "ns_height st2 \<noteq> 0" using assms(3) sent(2) by simp
  have r: "ns_round st1 \<noteq> - 1" using assms(2) add_messages_frame(2) [OF st1] by simp
  have "run (node_step L) st [] st1" by (rule run_single) (rule node_step.receive [OF st1])
  moreover have "run (node_step L) st1 (map mwr_message out) st2"
    by (rule run_single) (rule node_step.tick [OF st2 r h])
  ultimately have "run (node_step L) st ([] @ map mwr_message out) st2" by (rule run_trans)
  from run_trans [OF this run_push, of sent] show "run (node_step L) st sent st'"
    by (simp add: sent)
  show "\<forall>m\<in>set sent. \<not> is_sync m"
    using node_next_sub_step_not_sync [OF st2 [unfolded node_next_def]] sent(1) by simp
qed

section \<open>An iteration is a run\<close>

lemma serve_requests_sync:
  "serve_requests L S E e rs = Some out \<Longrightarrow> \<forall>m\<in>set out. is_sync m"
  by (induction rs arbitrary: out) (auto simp: bind_eq_Some_conv split: option.splits)

lemma catch_up_request_sync: "\<forall>m\<in>set (catch_up_request n h). is_sync m"
  by (simp add: catch_up_request_def Let_def)

lemma install_proposed_block_run:
  assumes "install_proposed_block L S E cfg node_height time_ms (st, e) = Some (continue, st', e')"
    and "ns_height st = node_height"
  shows "run (node_step L) st [] st'" and "ns_round st' = ns_round st"
proof -
  have "st' = st \<or> (\<exists>b. block_height b = node_height
      \<and> st' = st\<lparr>ns_blockchain := set_proposed_block (Some b) (ns_blockchain st)\<rparr>)"
    using assms(1)
    by (auto simp: install_proposed_block_def bind_eq_Some_conv Let_def set_blockchain_def
        split: if_splits option.splits)
  then show "run (node_step L) st [] st'" and "ns_round st' = ns_round st"
    using assms(2) by (auto intro: run.run_nil run_single node_step.install)
qed

text \<open>Every block handed to the execution layer is valid there.\<close>

definition payloads_valid :: "'e exec \<Rightarrow> bool" where
  "payloads_valid E \<longleftrightarrow> (\<forall>b e. fst (exec_new_payload E b e))"

lemma commit_block_keeps_state:
  "payloads_valid E \<Longrightarrow> fst (commit_block_to_reth_blockchain L S E cfg now (st, e)) = st"
  by (auto simp: commit_block_to_reth_blockchain_def payloads_valid_def split: option.splits prod.splits)
    (metis fst_conv)

definition in_sync :: "'e exec \<Rightarrow> 'e driver \<Rightarrow> bool" where
  "in_sync E d \<longleftrightarrow> ns_height (dr_state d) = best_block E (dr_exec d) + 1"

lemma refresh_config_state:
  "refresh_config L E h d = Some d1 \<Longrightarrow> dr_state d1 = dr_state d \<and> dr_exec d1 = dr_exec d"
  by (auto simp: refresh_config_def bind_eq_Some_conv split: if_splits)

lemma advance_no_responses:
  assumes "refresh_config L E (best_block E (dr_exec d) + 1) d = Some d1"
    and "dr_state d1 = dr_state d" and "dr_exec d1 = dr_exec d"
    and "serve_requests L S E (dr_exec d) (block_requests inbox) = Some served"
    and "block_responses inbox = []"
  shows "advance L X S E vh catchup time_ms now inbox d =
    (let h = best_block E (dr_exec d) + 1; cfg = dr_cached_config d1;
         incoming = consensus_messages (validate_proposal_with_validator X S vh) inbox;
         req = catch_up_request h (highest_newblock incoming)
     in if \<not> advance_enabled catchup (dr_state d) (highest_newblock incoming)
        then Some (served @ req, d1)
        else do {
          (continue, st2, e2) \<leftarrow> install_proposed_block L S E cfg h time_ms (dr_state d, dr_exec d);
          if \<not> continue then Some (served @ req, d1\<lparr>dr_state := st2, dr_exec := e2\<rparr>)
          else do {
            (sent, st3) \<leftarrow> step_state_machine L now incoming st2;
            let (st4, e3) = (if ns_height st3 > h then commit_block_to_reth_blockchain L S E cfg now (st3, e2)
                             else (st3, e2));
            Some (served @ req @ sent, d1\<lparr>dr_state := st4, dr_exec := e3\<rparr>)
          }
        })"
  using assms unfolding advance_def Let_def
  by (simp add: apply_responses_def cong: if_cong option.case_cong split del: if_split)

lemma advance_run:
  assumes adv: "advance L X S E vh catchup time_ms now inbox d = Some (sent, d')"
    and "block_responses inbox = []" and "payloads_valid E" and "in_sync E d"
    and "ns_round (dr_state d) \<noteq> - 1" and "ns_height (dr_state d') \<noteq> 0"
  shows "run (node_step L) (dr_state d) (filter (\<lambda>m. \<not> is_sync m) sent) (dr_state d')"
proof -
  let ?h = "best_block E (dr_exec d) + 1"
  let ?inc = "consensus_messages (validate_proposal_with_validator X S vh) inbox"
  let ?req = "catch_up_request ?h (highest_newblock ?inc)"
  obtain d1 where d1: "refresh_config L E ?h d = Some d1"
    using adv by (auto simp: advance_def bind_eq_Some_conv Let_def)
  have same: "dr_state d1 = dr_state d" "dr_exec d1 = dr_exec d"
    using refresh_config_state [OF d1] by simp_all
  obtain served where served: "serve_requests L S E (dr_exec d) (block_requests inbox) = Some served"
    using adv d1 same by (auto simp: advance_def bind_eq_Some_conv Let_def)
  have sync: "filter (\<lambda>m. \<not> is_sync m) served = []" "filter (\<lambda>m. \<not> is_sync m) ?req = []"
    using serve_requests_sync [OF served] catch_up_request_sync by (auto simp: filter_empty_conv)
  note adv' = adv [unfolded advance_no_responses [OF d1 same served assms(2)] Let_def]
  show ?thesis
  proof (cases "advance_enabled catchup (dr_state d) (highest_newblock ?inc)")
    case False
    with adv' same have "sent = served @ ?req" "dr_state d' = dr_state d" by (auto simp: Let_def)
    with sync show ?thesis by (simp add: run.run_nil)
  next
    case True
    obtain continue st2 e2 where inst: "install_proposed_block L S E (dr_cached_config d1) ?h time_ms
        (dr_state d, dr_exec d) = Some (continue, st2, e2)"
      using adv' True by (auto simp: bind_eq_Some_conv)
    note st2 = install_proposed_block_run [OF inst assms(4) [unfolded in_sync_def]]
    show ?thesis
    proof (cases continue)
      case False
      with adv' True inst have "sent = served @ ?req" "dr_state d' = st2" by auto
      with sync st2(1) show ?thesis by simp
    next
      case cont: True
      obtain out st3 where step: "step_state_machine L now ?inc st2 = Some (out, st3)"
        using adv' True inst cont by (auto simp: bind_eq_Some_conv)
      have "sent = served @ ?req @ out" "dr_state d' = st3"
        using adv' True inst cont step commit_block_keeps_state [OF assms(3), of L S "dr_cached_config d1" now st3 e2]
        by (auto split: if_splits prod.splits)
      moreover from this(2) have "run (node_step L) st2 out st3" "\<forall>m\<in>set out. \<not> is_sync m"
        using step_state_machine_run [OF step] st2(2) assms(5,6) by auto
      ultimately show ?thesis
        using sync run_trans [OF st2(1)] by (simp add: filter_id_conv)
    qed
  qed
qed

section \<open>Runs of the driver\<close>

inductive driver_run ::
    "libs \<Rightarrow> raw_rlp \<Rightarrow> sealed_codec \<Rightarrow> 'e exec \<Rightarrow> (sealed_block \<Rightarrow> bool) \<Rightarrow> u64 option
      \<Rightarrow> 'e driver \<Rightarrow> qbft_message list \<Rightarrow> 'e driver \<Rightarrow> bool"
  for L X S E vh catchup d0 where
  driver_start: "driver_run L X S E vh catchup d0 [] d0"
| driver_advance: "driver_run L X S E vh catchup d0 sent d \<Longrightarrow>
    advance L X S E vh catchup time_ms now inbox d = Some (sent', d') \<Longrightarrow>
    block_responses inbox = [] \<Longrightarrow> in_sync E d \<Longrightarrow>
    ns_round (dr_state d) \<noteq> - 1 \<Longrightarrow> ns_height (dr_state d') \<noteq> 0 \<Longrightarrow>
    driver_run L X S E vh catchup d0 (sent @ sent') d'"

lemma driver_run_refines:
  assumes "driver_run L X S E vh catchup d0 sent d" and "payloads_valid E"
  shows "run (node_step L) (dr_state d0) (filter (\<lambda>m. \<not> is_sync m) sent) (dr_state d)"
  using assms
proof (induction rule: driver_run.induct)
  case (driver_advance sent d time_ms now inbox sent' d')
  from advance_run [OF driver_advance.hyps(2,3) driver_advance.prems driver_advance.hyps(4-6)]
    run_trans [OF driver_advance.IH [OF driver_advance.prems]]
  show ?case by simp
qed (simp add: run.run_nil)

end
