(* ===== verification/Driver_Facts.thy ===== *)
theory Driver_Facts
  imports Driver
begin

text \<open>
  Facts about the parts of the driver: serving and applying synchronised blocks, building
  and checking a block, the configuration, and what is assumed of the execution layer.
\<close>

section \<open>What is assumed of the execution layer\<close>

text \<open>The block codec decodes what it encodes and leaves the rest.\<close>

definition codec_laws :: "sealed_codec \<Rightarrow> bool" where
  "codec_laws S \<longleftrightarrow> (\<forall>b rest. decode_sealed S (encode_sealed S b @ rest) = Some (b, rest))"

text \<open>
  The chain of \<open>src\<close> holds each block under its number, and a node one block behind
  accepts it as valid and makes it the tip.
\<close>

definition importable :: "'e exec \<Rightarrow> 'e \<Rightarrow> bool" where
  "importable E src \<longleftrightarrow>
     (\<forall>h b. exec_block E src h = Some b \<longrightarrow> sb_number b = h \<and>
        (\<forall>e. best_block E e + 1 = h \<longrightarrow>
           (\<exists>e1. exec_new_payload E b e = (True, e1) \<and>
                 best_block E (exec_update_tip E (sb_hash b) e1) = h)))"

section \<open>Serving blocks\<close>

lemma serve_blocks_nth:
  assumes "serve_blocks L S E e h n = Some bs"
  shows "length bs \<le> n \<and> (\<forall>i<length bs. \<exists>sealed cfg. exec_block E e (h + word_of_nat i) = Some sealed
    \<and> get_on_chain_config L (exec_provider E e) (h + word_of_nat i) = Some cfg
    \<and> bs ! i = served_block L S (oc_selected_validators cfg) (h + word_of_nat i) sealed)"
  using assms
proof (induction n arbitrary: h bs)
  case (Suc n)
  show ?case
  proof (cases "exec_block E e h")
    case None
    with Suc.prems show ?thesis by simp
  next
    case (Some sealed)
    with Suc.prems obtain cfg rest where r: "get_on_chain_config L (exec_provider E e) h = Some cfg"
      "serve_blocks L S E e (h + 1) n = Some rest"
      "bs = served_block L S (oc_selected_validators cfg) h sealed # rest"
      by (auto simp: bind_eq_Some_conv)
    from Suc.IH [OF r(2)] Some r(1) show ?thesis
      by (auto simp: r(3) nth_Cons add.assoc split: nat.splits)
  qed
qed simp

lemma word_add_nat:
  fixes h :: u64
  assumes "unat h + i < 2 ^ 64"
  shows "unat (h + word_of_nat i) = unat h + i"
  using assms by (simp add: unat_word_ariths unat_of_nat mod_add_right_eq)

lemma handle_block_requestE:
  assumes "handle_block_request L S E e req = Some (Some r)"
  obtains n where "serve_blocks L S E e (breq_from_height req) n = Some (bresp_blocks r)"
    and "bresp_blocks r \<noteq> []" and "n \<le> 100"
    and "\<And>i. i < n \<Longrightarrow> unat (breq_from_height req) + i \<le> unat (breq_to_height req)
      \<and> unat (breq_from_height req) + i \<le> unat (best_block E e)"
proof -
  let ?f = "breq_from_height req"
  define t where "t = min (min (breq_to_height req) (saturating_add ?f (MAX_BLOCKS_PER_RESPONSE - 1))) (best_block E e)"
  have "unat (saturating_add ?f (MAX_BLOCKS_PER_RESPONSE - 1)) \<le> unat ?f + 99"
    using unat_less_word [of "- 1 :: u64"]
    by (auto simp: saturating_add_def MAX_BLOCKS_PER_RESPONSE_def unat_word_ariths)
  moreover have le: "unat t \<le> unat (breq_to_height req)" "unat t \<le> unat (best_block E e)"
    "unat t \<le> unat (saturating_add ?f (MAX_BLOCKS_PER_RESPONSE - 1))"
    by (simp_all add: t_def min_def word_le_nat_alt)
  ultimately have "unat t + 1 - unat ?f \<le> 100" by simp
  moreover have "serve_blocks L S E e ?f (unat t + 1 - unat ?f) = Some (bresp_blocks r)" "bresp_blocks r \<noteq> []"
    using assms unfolding t_def
    by (auto simp: handle_block_request_def Let_def bind_eq_Some_conv split: if_splits)
  moreover have "unat ?f + i \<le> unat (breq_to_height req) \<and> unat ?f + i \<le> unat (best_block E e)"
    if "i < unat t + 1 - unat ?f" for i
    using that le(1,2) by linarith
  ultimately show ?thesis by (intro that [of "unat t + 1 - unat ?f"])
qed

section \<open>Applying blocks\<close>

lemma served_block_simps [simp]:
  "unb_height (snb_payload (served_block L S vs h b)) = h"
  "block_height (snb_block (served_block L S vs h b)) = h"
  "blk_body (snb_block (served_block L S vs h b)) = encode_sealed S b"
  by (simp_all add: served_block_def Let_def block_new_def)

lemma apply_served_block:
  assumes "codec_laws S" and "importable E src" and "exec_block E src h = Some b"
    and "best_block E e + 1 = h" and "node_height < h"
  shows "\<exists>st' e'. apply_block S E node_height (served_block L S vs h b) (st, e) = (True, st', e')
    \<and> best_block E e' = h \<and> bc_head (ns_blockchain st') = snb_block (served_block L S vs h b)
    \<and> ns_round st' = 0 \<and> ns_height st' = h + 1"
proof -
  obtain e1 where e1: "exec_new_payload E b e = (True, e1)"
    "best_block E (exec_update_tip E (sb_hash b) e1) = h"
    using assms(2-4) unfolding importable_def by blast
  have "decode_sealed S (encode_sealed S b) = Some (b, [])"
    using assms(1) by (metis append_Nil2 codec_laws_def)
  with e1 assms(4,5) show ?thesis
    by (auto simp: apply_block_def Let_def not_le [symmetric] set_blockchain_def new_round_def
        set_head_def set_proposed_block_def height_def)
qed

lemma apply_served_blocks:
  assumes "codec_laws S" and "importable E src" and "node_height < h"
    and "serve_blocks L S E src h n = Some bs" and "best_block E e + 1 = h"
    and "unat h + length bs \<le> 2 ^ 64" and "bs \<noteq> []"
  shows "\<exists>st' e'. apply_blocks S E node_height bs (st, e) = (True, st', e')
    \<and> best_block E e' = unb_height (snb_payload (last bs))
    \<and> bc_head (ns_blockchain st') = snb_block (last bs)
    \<and> ns_round st' = 0 \<and> ns_height st' = best_block E e' + 1"
  using assms(3-)
proof (induction n arbitrary: h bs st e)
  case (Suc n)
  obtain b where b: "exec_block E src h = Some b"
    using Suc.prems(2,5) by (auto split: option.splits)
  have "\<exists>vs rest. serve_blocks L S E src (h + 1) n = Some rest
      \<and> bs = served_block L S vs h b # rest"
    using Suc.prems(2) by (simp add: b bind_eq_Some_conv) blast
  then obtain vs rest where rest: "serve_blocks L S E src (h + 1) n = Some rest"
    and bs: "bs = served_block L S vs h b # rest" by blast
  obtain st1 e1 where 1: "apply_block S E node_height (served_block L S vs h b) (st, e)
      = (True, st1, e1)" "best_block E e1 = h" "ns_round st1 = 0" "ns_height st1 = h + 1"
      "bc_head (ns_blockchain st1) = snb_block (served_block L S vs h b)"
    using apply_served_block [OF assms(1,2) b Suc.prems(3,1)] by blast
  show ?case
  proof (cases "rest = []")
    case True
    with 1 show ?thesis by (simp add: bs)
  next
    case False
    then have "0 < length rest" by simp
    moreover have "unat h + Suc (length rest) \<le> 2 ^ 64" using Suc.prems(4) by (simp add: bs)
    ultimately have "unat h + 1 < 2 ^ 64" by linarith
    from word_add_nat [OF this] have u: "unat (h + 1) = unat h + 1" by simp
    then have "h < h + 1" by (simp add: word_less_nat_alt)
    with Suc.prems(1) have "node_height < h + 1" by (rule less_trans)
    from Suc.IH [OF this rest _ _ False, of e1 st1] 1 u Suc.prems(4) False show ?thesis
      by (simp add: bs)
  qed
qed simp

end
