(* ===== verification/Driver_Example.thy ===== *)
theory Driver_Example
  imports Driver_Run Driver_Facts Node_Example
begin

text \<open>
  A concrete execution layer and driver for the examples of the driver's properties: the
  chain is a list of blocks, every payload is valid, and an accepted payload that extends
  the list becomes the tip.  Nothing here models code of the repository.
\<close>

section \<open>The execution layer\<close>

definition ex_codec :: sealed_codec where
  "ex_codec = \<lparr>
     encode_sealed = (\<lambda>b. to_be 8 (unat (sb_number b)) @ to_be 8 (unat (sb_timestamp b))
        @ to_be 20 (unat (sb_beneficiary b)) @ to_be 32 (unat (sb_hash b))),
     decode_sealed = (\<lambda>bs. if length bs < 68 then None
        else Some (\<lparr>sb_number = word_of_nat (of_be (take 8 bs)),
                    sb_timestamp = word_of_nat (of_be (take 8 (drop 8 bs))),
                    sb_beneficiary = word_of_nat (of_be (take 20 (drop 16 bs))),
                    sb_hash = word_of_nat (of_be (take 32 (drop 36 bs)))\<rparr>, drop 68 bs))\<rparr>"

text \<open>Every slot holds 1: one validator, the address 1, and epochs of one block.\<close>

definition ex_slots :: slots where
  "ex_slots slot = Some 1"

definition ex_provider :: provider where
  "ex_provider = \<lparr>pv_latest = Some ex_slots, pv_state_at = (\<lambda>_. Some ex_slots),
     pv_header_hash = (\<lambda>n. Some (ucast n))\<rparr>"

definition ex_exec :: "sealed_block list exec" where
  "ex_exec = \<lparr>
     exec_best_block_number = (\<lambda>e. Some (word_of_nat (length e) - 1)),
     exec_block = (\<lambda>e n. if unat n < length e then Some (e ! unat n) else None),
     exec_provider = (\<lambda>_. ex_provider),
     exec_new_payload = (\<lambda>b e. (True, if sb_number b = word_of_nat (length e) then e @ [b] else e)),
     exec_update_tip = (\<lambda>_ e. e),
     exec_build = (\<lambda>a e. (Some \<lparr>sb_number = word_of_nat (length e), sb_timestamp = pa_timestamp a,
        sb_beneficiary = pa_fee_recipient a, sb_hash = 9\<rparr>, e)),
     exec_show_hash = (\<lambda>_. [])\<rparr>"

definition ex_sealed_genesis :: sealed_block where
  "ex_sealed_genesis = \<lparr>sb_number = 0, sb_timestamp = 0, sb_beneficiary = 0, sb_hash = 8\<rparr>"

definition ex_on_chain :: on_chain_config where
  "ex_on_chain = \<lparr>oc_all_validators = [1], oc_selected_validators = [1], oc_max_validators = 1,
     oc_base_fee = 1, oc_block_interval_ms = 1, oc_epoch_length = 1\<rparr>"

text \<open>A raw decoder that sees the header of the example codec.\<close>

definition ex_raw :: raw_rlp where
  "ex_raw = \<lparr>
     decode_raw = (\<lambda>bs. if length bs = 68 then Inr (PList [take 36 bs], [])
        else if length bs = 36 then Inr (PList ([[], [], drop 16 bs, [], [], [], [], [], take 8 bs, [], [],
               take 8 (drop 8 bs)]), [])
        else Inl LibraryError),
     decode_exact_u64 = (\<lambda>bs. Inr (word_of_nat (of_be bs))),
     decode_exact_address = (\<lambda>bs. Inr (word_of_nat (of_be bs)))\<rparr>"

lemma word_be_roundtrip:
  "word_of_nat (of_be (to_be 8 (unat (w :: u64)))) = w"
  "word_of_nat (of_be (to_be 20 (unat (a :: address)))) = a"
  "word_of_nat (of_be (to_be 32 (unat (h :: hash)))) = h"
proof -
  have "unat w < 256 ^ 8" "unat a < 256 ^ 20" "unat h < 256 ^ 32"
    using unat_less_word [of w] unat_less_word [of a] unat_less_word [of h] by simp_all
  then show "word_of_nat (of_be (to_be 8 (unat w))) = w"
    "word_of_nat (of_be (to_be 20 (unat a))) = a"
    "word_of_nat (of_be (to_be 32 (unat h))) = h"
    by (simp_all only: of_be_to_be mod_less) simp_all
qed

lemma ex_codec_laws: "codec_laws ex_codec"
  by (simp add: codec_laws_def ex_codec_def word_be_roundtrip del: to_be.simps)

lemma ex_raw_metadata:
  "extract_rlp_block_metadata ex_raw \<lparr>rb_header = h, rb_body = encode_sealed ex_codec b, rb_transactions = txs\<rparr>
    = Inr (Some (sb_number b, sb_timestamp b, sb_beneficiary b))"
  by (simp add: extract_rlp_block_metadata_def ex_raw_def ex_codec_def header_fields_def
      RLP_HEADER_NUMBER_INDEX_def RLP_HEADER_TIMESTAMP_INDEX_def RLP_HEADER_BENEFICIARY_INDEX_def
      word_be_roundtrip del: to_be.simps)

section \<open>Two iterations of a driver\<close>

definition ex_driver :: "sealed_block list driver" where
  "ex_driver = \<lparr>dr_state = ex_start, dr_exec = [ex_sealed_genesis], dr_cached_config = ex_on_chain,
     dr_cached_config_height = 1\<rparr>"

definition ex_driver_proposed :: "sealed_block list driver" where
  "ex_driver_proposed = ex_driver\<lparr>dr_state :=
     fold push_message [Proposal ex_proposal, Prepare ex_prepare] ex_proposed\<rparr>"

definition ex_driver_committed :: "sealed_block list driver" where
  "ex_driver_committed = ex_driver\<lparr>dr_state := ex_committed\<rparr>"

lemma ex_payloads: "payloads_valid ex_exec"
  by (simp add: payloads_valid_def ex_exec_def)

lemmas advance_defs = refresh_config_def consensus_messages_def block_requests_def block_responses_def
  highest_newblock_def catch_up_request_def advance_enabled_def install_proposed_block_def best_block_def
  apply_responses_def saturating_sub_def vec_max_def

lemma ex_receive_nothing:
  "add_messages example_libs [] 1 ex_start = Some (ex_start\<lparr>ns_local_time := 1\<rparr>)"
  by (simp add: store_defs ex_start_def node_state_new_def)

lemma ex_receive_own:
  "add_messages example_libs [] 1 (fold push_message [Proposal ex_proposal, Prepare ex_prepare] ex_proposed) =
    Some ex_ready"
  by (simp add: store_defs ex_ready_def ex_proposed_def ex_start_def node_state_new_def insert_commute
      del: components.simps msg_height.simps)

lemma ex_step_propose:
  "step_state_machine example_libs 1 [] ex_start = Some ([Proposal ex_proposal, Prepare ex_prepare],
    fold push_message [Proposal ex_proposal, Prepare ex_prepare] ex_proposed)"
  using ex_tick_propose
  by (simp add: step_state_machine_def ex_receive_nothing node_next_def multicast_def)

lemma ex_step_commit:
  "step_state_machine example_libs 1 [] (fold push_message [Proposal ex_proposal, Prepare ex_prepare] ex_proposed) =
    Some ([Commit ex_commit], ex_committed)"
proof -
  have "push_message (Commit ex_commit) ex_committed = ex_committed"
    by (simp add: push_message_def insert_message_sorted_def ex_committed_def Let_def del: components.simps)
  then show ?thesis by (simp add: step_state_machine_def ex_receive_own [simplified] ex_tick_commit multicast_def)
qed

lemma ex_heights: "ns_height ex_proposed = 1" "ns_height ex_committed = 1" "ns_round ex_proposed = 0"
  "ns_height ex_start = 1" "ns_round ex_start = 0"
  by (simp_all add: ex_proposed_def ex_committed_def ex_ready_def ex_start_def node_state_new_def)

lemma ex_advance_propose:
  "advance example_libs ex_raw ex_codec ex_exec (\<lambda>_. True) None 0 1 [] ex_driver =
    Some ([Proposal ex_proposal, Prepare ex_prepare], ex_driver_proposed)"
  using ex_step_propose
  by (simp add: advance_def advance_defs ex_driver_def ex_driver_proposed_def ex_exec_def ex_on_chain_def
      ex_heights Let_def)

lemma ex_advance_commit:
  "advance example_libs ex_raw ex_codec ex_exec (\<lambda>_. True) None 0 1 [] ex_driver_proposed =
    Some ([Commit ex_commit], ex_driver_committed)"
  using ex_step_commit
  by (simp add: advance_def advance_defs ex_driver_def ex_driver_proposed_def ex_driver_committed_def ex_exec_def
      ex_on_chain_def ex_heights Let_def)

lemma ex_driver_run:
  "driver_run example_libs ex_raw ex_codec ex_exec (\<lambda>_. True) None ex_driver
    [Proposal ex_proposal, Prepare ex_prepare, Commit ex_commit] ex_driver_committed"
proof -
  have side: "block_responses [] = []" "in_sync ex_exec ex_driver" "in_sync ex_exec ex_driver_proposed"
    "ns_round (dr_state ex_driver) \<noteq> - 1" "ns_round (dr_state ex_driver_proposed) \<noteq> - 1"
    "ns_height (dr_state ex_driver_proposed) \<noteq> 0" "ns_height (dr_state ex_driver_committed) \<noteq> 0"
    by (simp_all add: ex_driver_def ex_driver_proposed_def ex_driver_committed_def in_sync_def best_block_def
        ex_exec_def ex_heights block_responses_def)
  note first = driver_run.driver_advance [OF driver_run.driver_start ex_advance_propose side(1,2,4,6)]
  from driver_run.driver_advance [OF first ex_advance_commit side(1,3,5,7)] show ?thesis by simp
qed

end
