(* ===== verification/Rbft_Protocol.thy ===== *)
theory Rbft_Protocol
  imports Qbft_Message
begin

text \<open>
  The framing of the RLPx sub-protocol (\<open>rbft_consensus/rbft_protocol.rs\<close>): one identifier
  byte, then a consensus message or a batch of transactions.  The codec of the batch
  (\<open>Vec<Bytes>\<close>) is \<open>alloy_rlp\<close>: a parameter.
\<close>

datatype message_id = IdMessage | IdTransactions

datatype message_kind = KMessage qbft_message | KTransactions "bytes list"

record message =
  msg_type :: message_id
  msg_kind :: message_kind

record tx_codec =
  enc_txs :: "bytes list \<Rightarrow> bytes"
  dec_txs :: "bytes \<Rightarrow> rlp_error + (bytes list \<times> bytes)"

definition new_message :: "qbft_message \<Rightarrow> message" where
  "new_message m = \<lparr>msg_type = IdMessage, msg_kind = KMessage m\<rparr>"

definition new_transactions :: "bytes list \<Rightarrow> message" where
  "new_transactions txs = \<lparr>msg_type = IdTransactions, msg_kind = KTransactions txs\<rparr>"

fun message_id_byte :: "message_id \<Rightarrow> u8" where
  "message_id_byte IdMessage = 0"
| "message_id_byte IdTransactions = 1"

definition message_encoded :: "wire_codec \<Rightarrow> tx_codec \<Rightarrow> message \<Rightarrow> bytes" where
  "message_encoded W T m =
     message_id_byte (msg_type m) #
     (case msg_kind m of
        KMessage q \<Rightarrow> encode_qbft_message W q
      | KTransactions txs \<Rightarrow> enc_txs T txs)"

definition decode_message :: "wire_codec \<Rightarrow> tx_codec \<Rightarrow> bytes \<Rightarrow> (message \<times> bytes) option" where
  "decode_message W T buf =
     (case buf of
        [] \<Rightarrow> None
      | b # rest \<Rightarrow>
          if b = 0 then
            (case decode_qbft_message W rest of
               Inl _ \<Rightarrow> None
             | Inr (q, rest') \<Rightarrow> Some (\<lparr>msg_type = IdMessage, msg_kind = KMessage q\<rparr>, rest'))
          else if b = 1 then
            (case dec_txs T rest of
               Inl _ \<Rightarrow> None
             | Inr (txs, rest') \<Rightarrow>
                 Some (\<lparr>msg_type = IdTransactions, msg_kind = KTransactions txs\<rparr>, rest'))
          else None)"

definition qbft_kind_str :: "qbft_message \<Rightarrow> string" where
  "qbft_kind_str m =
     (case m of
        Proposal _ \<Rightarrow> ''proposal''
      | Prepare _ \<Rightarrow> ''prepare''
      | Commit _ \<Rightarrow> ''commit''
      | RoundChange _ \<Rightarrow> ''round_change''
      | NewBlock _ \<Rightarrow> ''new_block''
      | BlockRequest _ \<Rightarrow> ''block_request''
      | BlockResponse _ \<Rightarrow> ''block_response'')"

section \<open>A connection\<close>

text \<open>
  \<open>Connection::poll_next\<close> as a step: what the connection reports to the network layer
  (\<open>Sent\<close> bytes, \<open>Closed\<close>, or nothing), what it forwards to the consensus engine, and the
  counters.  The polled sources are arguments: whether the idle timeout has passed, the
  next command if one is ready, and the incoming bytes (\<open>Waiting\<close>, the end of the stream,
  or a frame).
\<close>

datatype disconnect_reason = IdleTimeout | StreamEnded | Dropped

datatype incoming = Waiting | EndOfStream | Frame bytes

datatype poll_result = Sent bytes | Closed | Pending

record connection =
  con_received_count :: u64
  con_sent_count :: u64
  con_last_activity :: nat
  con_disconnect_sent :: bool
  con_last_qbft :: "(u64 \<times> string \<times> nat) option"

record poll_output =
  po_result :: poll_result
  po_event :: "disconnect_reason option"
  po_messages :: "qbft_message list"
  po_transactions :: "bytes list list"

definition poll_next ::
    "wire_codec \<Rightarrow> tx_codec \<Rightarrow> nat option \<Rightarrow> nat \<Rightarrow> message option \<Rightarrow> incoming \<Rightarrow> connection
      \<Rightarrow> poll_output \<times> connection" where
  "poll_next W T idle_timeout now command inc c =
     (if (case idle_timeout of None \<Rightarrow> False | Some t \<Rightarrow> t \<le> now - con_last_activity c)
      then (\<lparr>po_result = Closed, po_event = Some IdleTimeout, po_messages = [], po_transactions = []\<rparr>,
            c\<lparr>con_disconnect_sent := True\<rparr>)
      else (case command of
        Some m \<Rightarrow>
          (\<lparr>po_result = Sent (message_encoded W T m), po_event = None, po_messages = [], po_transactions = []\<rparr>,
           c\<lparr>con_sent_count := con_sent_count c + 1, con_last_activity := now\<rparr>)
      | None \<Rightarrow>
          (case inc of
             Waiting \<Rightarrow>
               (\<lparr>po_result = Pending, po_event = None, po_messages = [], po_transactions = []\<rparr>, c)
           | EndOfStream \<Rightarrow>
               (\<lparr>po_result = Closed, po_event = Some StreamEnded, po_messages = [], po_transactions = []\<rparr>,
                c\<lparr>con_disconnect_sent := True\<rparr>)
           | Frame bs \<Rightarrow>
               (case decode_message W T bs of
                  None \<Rightarrow>
                    (\<lparr>po_result = Pending, po_event = None, po_messages = [], po_transactions = []\<rparr>, c)
                | Some (m, _) \<Rightarrow>
                    (case msg_kind m of
                       KTransactions txs \<Rightarrow>
                         (\<lparr>po_result = Pending, po_event = None, po_messages = [], po_transactions = [txs]\<rparr>,
                          c\<lparr>con_received_count := con_received_count c + 1, con_last_activity := now\<rparr>)
                     | KMessage q \<Rightarrow>
                         (\<lparr>po_result = Pending, po_event = None, po_messages = [q], po_transactions = []\<rparr>,
                          c\<lparr>con_received_count := con_received_count c + 1, con_last_activity := now,
                            con_last_qbft := Some (msg_height q, qbft_kind_str q, now)\<rparr>))))))"

text \<open>Dropping a connection reports the disconnect unless a poll already did.\<close>

definition connection_drop :: "connection \<Rightarrow> disconnect_reason option \<times> connection" where
  "connection_drop c =
     (if con_disconnect_sent c then (None, c) else (Some Dropped, c\<lparr>con_disconnect_sent := True\<rparr>))"

text \<open>
  The life of a connection: it is polled until a poll closes it or no further poll
  happens, and then dropped.  The result is the list of disconnect events.
\<close>

type_synonym poll_args = "nat option \<times> nat \<times> message option \<times> incoming"

fun connection_life :: "wire_codec \<Rightarrow> tx_codec \<Rightarrow> poll_args list \<Rightarrow> connection \<Rightarrow> disconnect_reason list" where
  "connection_life W T [] c = (case fst (connection_drop c) of None \<Rightarrow> [] | Some r \<Rightarrow> [r])"
| "connection_life W T ((idle, now, command, inc) # polls) c =
     (let (out, c') = poll_next W T idle now command inc c;
          events = (case po_event out of None \<Rightarrow> [] | Some r \<Rightarrow> [r])
      in if po_result out = Closed
         then events @ (case fst (connection_drop c') of None \<Rightarrow> [] | Some r \<Rightarrow> [r])
         else events @ connection_life W T polls c')"

section \<open>Facts\<close>

definition tx_laws :: "tx_codec \<Rightarrow> bytes list \<Rightarrow> bool" where
  "tx_laws T txs \<longleftrightarrow> (\<forall>rest. dec_txs T (enc_txs T txs @ rest) = Inr (txs, rest))"

lemma decode_message_new_message:
  "wire_laws W m \<Longrightarrow> encodable m \<Longrightarrow>
    decode_message W T (message_encoded W T (new_message m) @ rest) = Some (new_message m, rest)"
  by (simp add: decode_message_def message_encoded_def new_message_def decode_encode_qbft_message)

lemma decode_message_new_transactions:
  "tx_laws T txs \<Longrightarrow>
    decode_message W T (message_encoded W T (new_transactions txs) @ rest) = Some (new_transactions txs, rest)"
  by (simp add: decode_message_def message_encoded_def new_transactions_def tx_laws_def)

text \<open>A poll reports a disconnect exactly when it closes, and then marks it as sent.\<close>

lemma poll_next_event:
  assumes "poll_next W T idle now command inc c = (out, c')"
  shows "po_event out \<noteq> None \<longleftrightarrow> po_result out = Closed"
    and "po_result out = Closed \<Longrightarrow> con_disconnect_sent c'"
    and "po_result out \<noteq> Closed \<Longrightarrow> con_disconnect_sent c' = con_disconnect_sent c"
  using assms
  by (auto simp: poll_next_def split: if_splits option.splits incoming.splits message_kind.splits prod.splits)

lemma connection_life_one_event:
  "\<not> con_disconnect_sent c \<Longrightarrow> length (connection_life W T polls c) = 1"
proof (induction polls arbitrary: c)
  case (Cons p polls)
  obtain idle now command inc where p: "p = (idle, now, command, inc)" by (cases p) auto
  obtain out c' where step: "poll_next W T idle now command inc c = (out, c')" by fastforce
  note ev = poll_next_event [OF step]
  show ?case
  proof (cases "po_result out = Closed")
    case True
    with ev(1,2) show ?thesis by (auto simp: p step connection_drop_def)
  next
    case False
    with ev(1,3) Cons show ?thesis by (auto simp: p step)
  qed
qed (simp add: connection_drop_def)

end
