(* ===== verification/Driver_Properties.thy ===== *)
theory Driver_Properties
  imports Driver_Example Rbft_Protocol
begin

text \<open>
  Properties of the driver around the state machine: its runs are runs of the state
  machine and never vote twice, block synchronisation brings a lagging node to the tip but
  believes its peers, what it builds passes what it checks, and the configuration,
  connections and ticks behave as documented.
\<close>

section \<open>The driver runs the state machine\<close>



text \<open>
  A node under the driver never sends two different prepares, nor two different
  commits, for one height and round, whatever its peers send.
\<close>

lemma driver_votes_once:
  assumes "driver_run L X S E vh catchup d0 sent d" and "payloads_valid E"
    and "proposal_inv (dr_state d0)" and "m \<in> set sent" and "m' \<in> set sent"
    and "is_commit m \<and> is_commit m' \<or> is_prepare m \<and> is_prepare m'"
    and "msg_height m = msg_height m'" and "msg_round m = msg_round m'"
  shows "m = m'"
proof -
  note run = driver_run_refines [OF assms(1,2)]
  from assms(6) have "\<not> is_sync m" "\<not> is_sync m'" by (cases m; cases m'; simp)+
  with assms(4,5) have "m \<in> set (filter (\<lambda>m. \<not> is_sync m) sent)"
    "m' \<in> set (filter (\<lambda>m. \<not> is_sync m) sent)" by simp_all
  from commits.one_vote_per_position [OF run assms(3) this]
    prepares.one_vote_per_position [OF run assms(3) this] assms(6-8)
  show ?thesis by auto
qed

lemma driver_votes_once_witness:
  "Commit ex_commit \<in> set [Proposal ex_proposal, Prepare ex_prepare, Commit ex_commit]
    \<and> Commit ex_commit = Commit ex_commit"
  using driver_votes_once [OF ex_driver_run ex_payloads, of "Commit ex_commit" "Commit ex_commit"]
    ex_invariants(1) by (simp add: ex_driver_def)

section \<open>Block synchronisation\<close>

text \<open>
  C16: a block response holds at most 100 blocks, at consecutive heights from the first one
  requested, none beyond the last one requested or the own tip, each the block of the
  execution layer at that height under its digest, with the validators of that height.
\<close>

theorem served_blocks_consecutive:
  assumes "handle_block_request L S E e req = Some (Some r)"
  shows "0 < length (bresp_blocks r) \<and> length (bresp_blocks r) \<le> 100 \<and>
    (\<forall>i<length (bresp_blocks r).
       let h = breq_from_height req + word_of_nat i; nb = bresp_blocks r ! i in
       unat h = unat (breq_from_height req) + i \<and> h \<le> breq_to_height req \<and> h \<le> best_block E e
       \<and> unb_height (snb_payload nb) = h \<and> block_height (snb_block nb) = h
       \<and> unb_digest (snb_payload nb) = keccak256 L (blk_body (snb_block nb))
       \<and> map_option (encode_sealed S) (exec_block E e h) = Some (blk_body (snb_block nb))
       \<and> map_option oc_selected_validators (get_on_chain_config L (exec_provider E e) h)
           = Some (block_validators (snb_block nb)))"
proof -
  let ?f = "breq_from_height req" and ?bs = "bresp_blocks r"
  obtain n where n: "serve_blocks L S E e ?f n = Some ?bs" "?bs \<noteq> []" "n \<le> 100"
    "\<And>i. i < n \<Longrightarrow> unat ?f + i \<le> unat (breq_to_height req) \<and> unat ?f + i \<le> unat (best_block E e)"
    using handle_block_requestE [OF assms] by metis
  note bs = serve_blocks_nth [OF n(1)]
  have "unat (?f + word_of_nat i) = unat ?f + i \<and> ?f + word_of_nat i \<le> breq_to_height req
      \<and> ?f + word_of_nat i \<le> best_block E e" if "i < length ?bs" for i
  proof -
    have le: "unat ?f + i \<le> unat (breq_to_height req)" "unat ?f + i \<le> unat (best_block E e)"
      using n(4) [of i] that bs by auto
    have "unat ?f + i < 2 ^ 64"
      using le(1) unat_less_word [of "breq_to_height req"] by (simp add: le_less_trans)
    from word_add_nat [OF this] le show ?thesis by (simp add: word_le_nat_alt)
  qed
  moreover have "map_option oc_selected_validators (get_on_chain_config L (exec_provider E e) (?f + word_of_nat i))
      = Some (block_validators (snb_block (?bs ! i)))
    \<and> map_option (encode_sealed S) (exec_block E e (?f + word_of_nat i)) = Some (blk_body (snb_block (?bs ! i)))
    \<and> unb_height (snb_payload (?bs ! i)) = ?f + word_of_nat i
    \<and> block_height (snb_block (?bs ! i)) = ?f + word_of_nat i
    \<and> unb_digest (snb_payload (?bs ! i)) = keccak256 L (blk_body (snb_block (?bs ! i)))"
    if "i < length ?bs" for i
    using bs that by (force simp: served_block_def Let_def block_new_def)
  ultimately show ?thesis using bs n(2,3) by (auto simp: Let_def)
qed

definition ex_sealed_one :: sealed_block where
  "ex_sealed_one = \<lparr>sb_number = 1, sb_timestamp = 3, sb_beneficiary = 1, sb_hash = 9\<rparr>"

definition ex_served :: signed_new_block where
  "ex_served = served_block example_libs ex_codec [1] 1 ex_sealed_one"

lemma ex_validators_read: "read_validators L ex_slots n = replicate n 1"
proof -
  have "filter_map (\<lambda>i. Some (1 :: address)) xs = replicate (length xs) 1" for xs :: "nat list"
    by (induction xs) simp_all
  then show ?thesis by (simp add: read_validators_def ex_slots_def [abs_def])
qed

lemma ex_config_read:
  "get_on_chain_config L ex_provider n = Some ex_on_chain"
  by (simp add: get_on_chain_config_def state_for_def ex_provider_def read_u64_def Let_def ex_slots_def [abs_def]
      MAX_VALIDATORS_def ex_on_chain_def select_validators_def
      ex_validators_read [unfolded ex_slots_def [abs_def]])

lemma ex_serve:
  "handle_block_request example_libs ex_codec ex_exec [ex_sealed_genesis, ex_sealed_one]
     \<lparr>breq_from_height = 1, breq_to_height = 5\<rparr> = Some (Some \<lparr>bresp_blocks = [ex_served]\<rparr>)"
  by (simp add: handle_block_request_def saturating_add_def MAX_BLOCKS_PER_RESPONSE_def best_block_def ex_exec_def
      Let_def ex_config_read ex_served_def ex_on_chain_def)

theorem served_blocks_consecutive_witness:
  "0 < length [ex_served] \<and> length [ex_served] \<le> 100
    \<and> unb_height (snb_payload ex_served) = 1"
  using served_blocks_consecutive [OF ex_serve] by (simp add: Let_def)

text \<open>
  C15: catching up works.  A node one block below the first requested height that applies
  the response of a peer with an importable chain ends with the last served block as its
  tip, in the execution layer and in the state machine, ready for round 0 of the next
  height.
\<close>

theorem synchronisation_catches_up:
  assumes "codec_laws S" and "importable E src"
    and "handle_block_request L S E src req = Some (Some r)"
    and "breq_from_height req = best_block E e + 1" and "best_block E e \<noteq> - 1"
  shows "\<exists>st' e'. handle_block_response S E r (st, e) = (True, st', e')
    \<and> best_block E e' = best_block E e + word_of_nat (length (bresp_blocks r))
    \<and> bc_head (ns_blockchain st') = snb_block (last (bresp_blocks r))
    \<and> ns_round st' = 0 \<and> ns_height st' = best_block E e' + 1"
proof -
  let ?f = "breq_from_height req" and ?bs = "bresp_blocks r"
  obtain n where n: "serve_blocks L S E src ?f n = Some ?bs" "?bs \<noteq> []"
    "\<And>i. i < n \<Longrightarrow> unat ?f + i \<le> unat (breq_to_height req)"
    using handle_block_requestE [OF assms(3)] by metis
  note nth = serve_blocks_nth [OF n(1)]
  have less: "best_block E e < ?f" using assms(4,5) by (simp add: word_less_succ eq_neg_iff_add_eq_0)
  have "length ?bs - 1 < n" using nth n(2) by (cases ?bs) auto
  from n(3) [OF this] have "unat ?f + length ?bs \<le> 2 ^ 64"
    using unat_less_word [of "breq_to_height req"] n(2) by (cases ?bs) auto
  from apply_served_blocks [OF assms(1,2) less n(1) assms(4) [symmetric] this n(2), of st]
  obtain st' e' where res: "apply_blocks S E (best_block E e) ?bs (st, e) = (True, st', e')"
    "best_block E e' = unb_height (snb_payload (last ?bs))" "bc_head (ns_blockchain st') = snb_block (last ?bs)"
    "ns_round st' = 0" "ns_height st' = best_block E e' + 1" by blast
  have "unb_height (snb_payload (last ?bs)) = ?f + word_of_nat (length ?bs - 1)"
    using nth n(2) served_block_simps(1)
    by (metis diff_less last_conv_nth length_greater_0_conv zero_less_one)
  also have "\<dots> = best_block E e + word_of_nat (length ?bs)"
    using n(2) by (cases ?bs) (simp_all add: assms(4))
  finally show ?thesis using res n(2) by (simp add: handle_block_response_def)
qed

lemma unat_small: "unat h = 0 \<longleftrightarrow> h = 0" "unat h = Suc 0 \<longleftrightarrow> h = 1" for h :: u64
  by (simp_all add: unsigned_eq_0_iff) (metis One_nat_def unsigned_1 word_unat_eq_iff)

lemma ex_importable: "importable ex_exec [ex_sealed_genesis, ex_sealed_one]"
  by (auto simp: importable_def ex_exec_def best_block_def ex_sealed_genesis_def ex_sealed_one_def
      less_Suc_eq nth_Cons unat_small split: nat.splits)

theorem synchronisation_catches_up_witness:
  "\<exists>st' e'. handle_block_response ex_codec ex_exec \<lparr>bresp_blocks = [ex_served]\<rparr>
       (ex_start, [ex_sealed_genesis]) = (True, st', e')
    \<and> best_block ex_exec e' = 1 \<and> bc_head (ns_blockchain st') = snb_block ex_served
    \<and> ns_height st' = 2"
  using synchronisation_catches_up [OF ex_codec_laws ex_importable ex_serve, of "[ex_sealed_genesis]" ex_start]
  by (auto simp: best_block_def ex_exec_def)

text \<open>
  C17: synchronisation believes its peers.  A block of a response needs no signature, no
  commit seals and no known proposer: if its body is a payload the execution layer accepts,
  the whole block is adopted, so the sender chooses the height and the validators the state
  machine goes on with.
\<close>

theorem sync_believes_peer_header:
  assumes "unb_height (snb_payload b) = best_block E e + 1" and "best_block E e \<noteq> - 1"
    and "decode_sealed S (blk_body (snb_block b)) = Some (sealed, rest)"
    and "exec_new_payload E sealed e = (True, e1)"
  shows "\<exists>st'. handle_block_response S E \<lparr>bresp_blocks = [b]\<rparr> (st, e)
      = (True, st', exec_update_tip E (sb_hash sealed) e1)
    \<and> ns_height st' = block_height (snb_block b) + 1
    \<and> validators (ns_blockchain st') = block_validators (snb_block b)
    \<and> ns_last_prepared_block st' = None"
proof -
  have "best_block E e < unb_height (snb_payload b)"
    using assms(1,2) by (simp add: word_less_succ eq_neg_iff_add_eq_0)
  then have "\<not> unb_height (snb_payload b) \<le> best_block E e" by simp
  with assms show ?thesis
    by (simp add: handle_block_response_def apply_block_def Let_def set_blockchain_def new_round_def
        set_head_def set_proposed_block_def height_def validators_def)
qed

definition ex_forged :: signed_new_block where
  "ex_forged = \<lparr>snb_payload = \<lparr>unb_height = 1, unb_round = 0, unb_digest = 0\<rparr>,
     snb_signature = default_signature,
     snb_block = \<lparr>blk_header = \<lparr>bh_proposer = 0, bh_round_number = 0, bh_commit_seals = [], bh_height = 40,
         bh_timestamp = 0, bh_validators = [7], bh_digest = 0\<rparr>,
       blk_body = encode_sealed ex_codec ex_sealed_one, blk_transactions = []\<rparr>\<rparr>"

theorem sync_believes_peer_header_witness:
  "\<exists>st' e'. handle_block_response ex_codec ex_exec \<lparr>bresp_blocks = [ex_forged]\<rparr> (ex_start, [ex_sealed_genesis])
      = (True, st', e') \<and> ns_height st' = 41 \<and> validators (ns_blockchain st') = [7]"
proof -
  have "decode_sealed ex_codec (encode_sealed ex_codec ex_sealed_one) = Some (ex_sealed_one, [])"
    using ex_codec_laws by (metis append_Nil2 codec_laws_def)
  moreover have "exec_new_payload ex_exec ex_sealed_one [ex_sealed_genesis] = (True, [ex_sealed_genesis, ex_sealed_one])"
    by (simp add: ex_exec_def ex_sealed_one_def)
  ultimately show ?thesis
    using sync_believes_peer_header [of ex_forged ex_exec "[ex_sealed_genesis]" ex_codec ex_sealed_one "[]"]
    by (fastforce simp: ex_forged_def best_block_def ex_exec_def)
qed

end
