(* ===== verification/Network_Properties.thy ===== *)
theory Network_Properties
  imports Driver_Properties Codec_Properties
begin

text \<open>
  Properties at the edges of the driver: the payload of a proposal, the blocks it builds,
  a decided block that the execution layer rejects, the validator set, the connection to
  a peer and the ticks.
\<close>

section \<open>Proposals and built blocks\<close>

lemma built_block_valid:
  assumes "get_proposed_block L S E cfg st e = Some (Some b, e')"
    and "prop_block p = replace_round_in_block b r" and "codec_laws S"
    and "\<And>sealed. decode_sealed S (blk_body b) = Some (sealed, []) \<Longrightarrow> vh sealed"
    and "\<And>hd sealed. extract_rlp_block_metadata X
        \<lparr>rb_header = hd, rb_body = encode_sealed S sealed, rb_transactions = []\<rparr>
      = Inr (Some (sb_number sealed, sb_timestamp sealed, sb_beneficiary sealed))"
  shows "validate_proposal_with_validator X S vh p"
proof -
  obtain sealed where sealed: "sb_beneficiary sealed = ns_id st" "blk_body b = encode_sealed S sealed"
    "bh_proposer (blk_header b) = ns_id st" "bh_height (blk_header b) = sb_number sealed"
    "bh_timestamp (blk_header b) = sb_timestamp sealed"
    using assms(1)
    by (auto simp: get_proposed_block_def Let_def block_new_def split: option.splits prod.splits if_splits)
  have "decode_sealed S (encode_sealed S sealed) = Some (sealed, [])"
    using assms(3) by (metis append_Nil2 codec_laws_def)
  with sealed assms(2,4,5) show ?thesis
    by (simp add: validate_proposal_with_validator_def validate_block_payload_metadata_def
        replace_round_in_block_def Let_def)
qed

definition ex_built :: block where
  "ex_built = block_new example_libs
     \<lparr>bh_proposer = 1, bh_round_number = 0, bh_commit_seals = [], bh_height = 1, bh_timestamp = 0,
      bh_validators = [1], bh_digest =
        keccak256 example_libs (encode_sealed ex_codec
          \<lparr>sb_number = 1, sb_timestamp = 0, sb_beneficiary = 1, sb_hash = 9\<rparr>)\<rparr>
     (encode_sealed ex_codec \<lparr>sb_number = 1, sb_timestamp = 0, sb_beneficiary = 1, sb_hash = 9\<rparr>)"

definition ex_built_proposal :: proposal where
  "ex_built_proposal = ex_proposal\<lparr>prop_block := replace_round_in_block ex_built 0\<rparr>"

lemma ex_get_proposed_block:
  "get_proposed_block example_libs ex_codec ex_exec ex_on_chain ex_start [ex_sealed_genesis] =
    Some (Some ex_built, [ex_sealed_genesis])"
proof -
  have "decode_sealed ex_codec (encode_sealed ex_codec b) = Some (b, [])" for b
    using ex_codec_laws by (metis append_Nil2 codec_laws_def)
  moreover have "estimate_timestamp_ms (ns_blockchain ex_start) 1 div 1000 = 0
      \<and> Suc (estimate_timestamp_ms (ns_blockchain ex_start) 1) div 1000 = 0" "ns_id ex_start = 1"
    by (simp_all add: ex_start_def node_state_new_def estimate_timestamp_ms_def timestamp_secs_def ex_message_defs ex_chain_def blocks_def)
  ultimately show ?thesis
    by (simp add: get_proposed_block_def Let_def best_block_def ex_exec_def ex_provider_def ex_on_chain_def
        ex_built_def)
qed

lemma ex_built_decodes:
  "decode_sealed ex_codec (blk_body ex_built) = Some (sealed, []) \<Longrightarrow> sb_number sealed < 5"
  using ex_codec_laws [unfolded codec_laws_def, rule_format,
      of "\<lparr>sb_number = 1, sb_timestamp = 0, sb_beneficiary = 1, sb_hash = 9\<rparr>" "[]"]
  by (auto simp: ex_built_def block_new_def)

lemma ex_built_valid:
  "validate_proposal_with_validator ex_raw ex_codec (\<lambda>b. sb_number b < 5) ex_built_proposal"
  by (rule built_block_valid [OF ex_get_proposed_block _ ex_codec_laws ex_built_decodes ex_raw_metadata, where r = 0])
    (simp add: ex_built_proposal_def)

text \<open>
  A proposal that the driver hands to the state machine came in and carries a payload
  of the execution layer with nothing behind it, whose header passes the consensus checks
  and has the height and timestamp of the QBFT header; in round 0 its beneficiary is the
  proposer; and the raw payload, when it is a list, tells the same three values.
\<close>

lemma checked_proposal_matches_payload:
  assumes "Proposal p \<in> set (consensus_messages (validate_proposal_with_validator X S vh) inbox)"
    and "q = blk_header (prop_block p)"
  shows "Proposal p \<in> set inbox \<and>
    (\<exists>sealed. decode_sealed S (blk_body (prop_block p)) = Some (sealed, []) \<and> vh sealed
       \<and> sb_number sealed = bh_height q \<and> sb_timestamp sealed = bh_timestamp q
       \<and> (bh_round_number q = 0 \<longrightarrow> sb_beneficiary sealed = bh_proposer q)
       \<and> (\<forall>hd txs. extract_rlp_block_metadata X
              \<lparr>rb_header = hd, rb_body = blk_body (prop_block p), rb_transactions = txs\<rparr>
            \<in> {Inr None, Inr (Some (bh_height q, bh_timestamp q, sb_beneficiary sealed))}))"
proof -
  have valid: "Proposal p \<in> set inbox" "validate_proposal_with_validator X S vh p"
    using assms(1) by (auto simp: consensus_messages_def)
  have raw: "extract_rlp_block_metadata X \<lparr>rb_header = hd, rb_body = body, rb_transactions = txs\<rparr>
      = extract_rlp_block_metadata X \<lparr>rb_header = hd', rb_body = body, rb_transactions = txs'\<rparr>"
    for hd hd' body txs txs'
    by (simp add: extract_rlp_block_metadata_def)
  have meta: "extract_rlp_block_metadata X \<lparr>rb_header = hd, rb_body = body, rb_transactions = txs\<rparr>
      \<in> {Inr None, Inr (Some (h, ts, leader))}"
    if "validate_block_payload_metadata X body h ts leader" for hd txs body h ts leader
    using that raw [of hd body txs "\<lparr>rbh_proposer = leader, rbh_height = h, rbh_timestamp = ts\<rparr>" "[]"]
    by (auto simp: validate_block_payload_metadata_def split: sum.splits option.splits)
  from valid(2) show ?thesis
    by (auto simp: validate_proposal_with_validator_def Let_def assms(2) valid(1) dest: meta
        split: option.splits if_splits)
qed

lemma checked_proposal_matches_payload_witness:
  "bh_round_number (blk_header (prop_block ex_built_proposal)) = 0 \<and>
    (\<exists>sealed. decode_sealed ex_codec (blk_body (prop_block ex_built_proposal)) = Some (sealed, [])
      \<and> sb_number sealed = 1 \<and> sb_beneficiary sealed = 1)"
  using checked_proposal_matches_payload [of ex_built_proposal ex_raw ex_codec "\<lambda>b. sb_number b < 5"
      "[Proposal ex_built_proposal]", OF _ refl] ex_built_valid
  by (auto simp: consensus_messages_def ex_built_proposal_def replace_round_in_block_def ex_built_def block_new_def)



section \<open>A decided block the execution layer rejects\<close>

text \<open>
  The node state is rebuilt from the head of the execution layer.  The rebuilt node
  keeps its identity and key, stands at round 0 of the height above the tip and has
  forgotten everything of the abandoned height: the accepted proposal, the lock and the
  votes.
\<close>

lemma rejected_block_restarts_height:
  assumes "decode_sealed S (blk_body (bc_head (ns_blockchain st))) = Some (sealed, rest)"
    and "exec_new_payload E sealed e = (False, e1)"
    and "exec_block E e1 (best_block E e1) = Some tip"
    and "decode_sealed S (encode_sealed S tip) \<noteq> None"
  shows "\<exists>st'. commit_block_to_reth_blockchain L S E cfg now (st, e) = (st', e1)
    \<and> ns_height st' = best_block E e1 + 1 \<and> ns_round st' = 0
    \<and> ns_id st' = ns_id st \<and> ns_private_key st' = ns_private_key st
    \<and> validators (ns_blockchain st') = oc_selected_validators cfg
    \<and> ns_proposal_accepted st' = None \<and> ns_last_prepared_block st' = None
    \<and> ns_messages_received st' = [] \<and> store_inv st'"
proof -
  obtain d where "decode_sealed S (encode_sealed S tip) = Some d" using assms(4) by blast
  with assms(1-3) show ?thesis
    by (simp add: commit_block_to_reth_blockchain_def rebuild_node_state_from_chain_def Let_def
        node_state_new_def height_def validators_def block_new_def store_inv_def)
qed

lemma rejected_block_restarts_height_witness:
  "\<exists>st'. commit_block_to_reth_blockchain example_libs ex_codec
       (ex_exec\<lparr>exec_new_payload := \<lambda>b e. (False, e)\<rparr>) ex_on_chain 7
       (set_blockchain (set_head ex_built (ns_blockchain ex_committed)) ex_committed, [ex_sealed_genesis])
      = (st', [ex_sealed_genesis])
    \<and> ns_height st' = 1 \<and> ns_last_prepared_block ex_committed \<noteq> None \<and> ns_last_prepared_block st' = None"
proof -
  have dec: "decode_sealed ex_codec (encode_sealed ex_codec b) = Some (b, [])" for b
    using ex_codec_laws by (metis append_Nil2 codec_laws_def)
  let ?E = "ex_exec\<lparr>exec_new_payload := \<lambda>b e. (False, e)\<rparr>"
  have "best_block ?E [ex_sealed_genesis] = 0" "exec_block ?E [ex_sealed_genesis] 0 = Some ex_sealed_genesis"
    by (simp_all add: best_block_def ex_exec_def)
  then show ?thesis
    using rejected_block_restarts_height [of ex_codec
        "set_blockchain (set_head ex_built (ns_blockchain ex_committed)) ex_committed" _ "[]" ?E
        "[ex_sealed_genesis]" "[ex_sealed_genesis]" ex_sealed_genesis example_libs ex_on_chain 7]
    by (fastforce simp: dec set_blockchain_def set_head_def ex_built_def block_new_def ex_committed_def)
qed

section \<open>The validator set\<close>

text \<open>
  The validators of a height are a sub-list, in contract order, of at most 256 non-zero
  addresses read from the contract, exactly as many as configured or all of them.
\<close>

lemma selected_validators_valid:
  assumes "get_on_chain_config L P n = Some cfg"
  shows "subseq (oc_selected_validators cfg) (oc_all_validators cfg)
    \<and> length (oc_selected_validators cfg) = min (oc_max_validators cfg) (length (oc_all_validators cfg))
    \<and> length (oc_all_validators cfg) \<le> 256 \<and> 0 \<notin> set (oc_all_validators cfg)
    \<and> oc_epoch_length cfg \<noteq> 0"
proof -
  have "length (read_validators L s (min k MAX_VALIDATORS)) \<le> 256" for s k
    using read_validators_bound [of L s "min k MAX_VALIDATORS"] by (simp add: MAX_VALIDATORS_def)
  with assms select_validators_subset read_validators_nonzero show ?thesis
    by (auto simp: get_on_chain_config_def Let_def empty_config_def split: option.splits if_splits)
qed

lemma selected_validators_valid_witness:
  "get_on_chain_config example_libs ex_provider 5 = Some ex_on_chain
    \<and> subseq (oc_selected_validators ex_on_chain) (oc_all_validators ex_on_chain)"
  using selected_validators_valid [OF ex_config_read [of example_libs 5]] ex_config_read by blast

text \<open>
  All blocks of an epoch use one configuration: two blocks in the same epoch, read with
  the same epoch length, get the same validators and parameters whatever the contract says
  at the two blocks.
\<close>

lemma same_epoch_same_config:
  assumes "state_for P n n = Some s" and "state_for P n' n' = Some s'"
    and "read_u64 s 4 32 = len" and "read_u64 s' 4 32 = len" and "n div len = n' div len"
  shows "get_on_chain_config L P n = get_on_chain_config L P n'"
  using assms by (simp add: get_on_chain_config_def)

definition ex_epochs :: provider where
  "ex_epochs = \<lparr>pv_latest = None,
     pv_state_at = (\<lambda>n. Some (\<lambda>slot. if slot = 4 then Some 3 else Some (ucast n))),
     pv_header_hash = (\<lambda>_. None)\<rparr>"

lemma same_epoch_same_config_witness:
  "get_on_chain_config example_libs ex_epochs 4 = get_on_chain_config example_libs ex_epochs 5
    \<and> get_on_chain_config example_libs ex_epochs 5 \<noteq> get_on_chain_config example_libs ex_epochs 6"
proof
  show "get_on_chain_config example_libs ex_epochs 4 = get_on_chain_config example_libs ex_epochs 5"
    by (rule same_epoch_same_config [where len = 3 and
          s = "\<lambda>slot. if slot = 4 then Some 3 else Some 4" and
          s' = "\<lambda>slot. if slot = 4 then Some 3 else Some 5"])
      (simp_all add: ex_epochs_def state_for_def read_u64_def word_le_nat_alt cong: if_cong)
  have "oc_base_fee (the (get_on_chain_config example_libs ex_epochs 5)) = 2"
    "oc_base_fee (the (get_on_chain_config example_libs ex_epochs 6)) = 5"
    by (simp_all add: get_on_chain_config_def ex_epochs_def state_for_def read_u64_def Let_def saturating_sub_def
        word_le_nat_alt empty_config_def)
  then show "get_on_chain_config example_libs ex_epochs 5 \<noteq> get_on_chain_config example_libs ex_epochs 6"
    by auto
qed

text \<open>
  The epoch length is read from the contract without a check: a zero stops the driver at
  the next height.
\<close>

lemma zero_epoch_length_stops_driver:
  assumes "state_for (exec_provider E (dr_exec d)) n n = Some s" and "read_u64 s 4 32 = 0"
    and "n = max (saturating_sub (best_block E (dr_exec d) + 1) 1) 1"
    and "dr_cached_config_height d \<noteq> best_block E (dr_exec d) + 1"
  shows "advance L X S E vh catchup time_ms now inbox d = None"
  using assms by (simp add: advance_def refresh_config_def get_on_chain_config_def Let_def)

section \<open>Connections and ticks\<close>


definition ex_connection :: connection where
  "ex_connection = \<lparr>con_received_count = 0, con_sent_count = 0, con_last_activity = 5,
     con_disconnect_sent = False, con_last_qbft = None\<rparr>"

definition ex_txs :: tx_codec where
  "ex_txs = \<lparr>enc_txs = (\<lambda>_. []), dec_txs = (\<lambda>_. Inl LibraryError)\<rparr>"


text \<open>
  A connection tells the engine exactly once that it is gone, however it ends: closed
  by an idle timeout, by the end of the stream, or dropped after any number of polls.
\<close>

lemma one_disconnect_per_connection:
  assumes "\<not> con_disconnect_sent c"
  shows "\<exists>reason. connection_life W T polls c = [reason]"
  using connection_life_one_event [OF assms, of W T polls] by (auto simp: length_Suc_conv)

lemma one_disconnect_per_connection_witness:
  "\<exists>reason. connection_life (ex_wire \<lparr>breq_from_height = 2, breq_to_height = 5\<rparr>) ex_txs
      [(Some 60, 9, None, Waiting), (Some 60, 10, None, EndOfStream)] ex_connection = [reason]"
  by (rule one_disconnect_per_connection) (simp add: ex_connection_def)

text \<open>
  Ticks are aligned.  The next tick is at least one and at most one interval of
  milliseconds away and falls on a multiple of the interval; only an interval of zero
  gives no tick (the division panics).
\<close>

lemma next_tick_aligned:
  "(case calculate_next_tick millis interval of
      None \<Rightarrow> interval = 0
    | Some d \<Rightarrow> 0 < d \<and> d \<le> interval \<and> unat interval dvd millis + unat d)"
proof (cases "interval = 0")
  case False
  define i q r where "i = unat interval" and "q = millis div i" and "r = millis mod i"
  have m: "millis = q * i + r" by (simp add: q_def r_def)
  have i: "0 < i" "r < i" using False by (simp_all add: i_def r_def unat_gt_0)
  have d: "(millis div i + 1) * i - millis = i - r"
    unfolding q_def [symmetric] by (simp add: m)
  have "i < 2 ^ 64" using unat_less_word [of interval] by (simp add: i_def)
  then have u: "unat (word_of_nat (i - r) :: u64) = i - r"
    by (simp add: unat_of_nat less_imp_diff_less del: of_nat_diff)
  have "millis + (i - r) = (q + 1) * i" using i by (simp add: m)
  then have "i dvd millis + (i - r)" by simp
  moreover have "calculate_next_tick millis interval = Some (word_of_nat (i - r))"
    using False d by (simp only: calculate_next_tick_def Let_def i_def [symmetric] if_False)
  ultimately show ?thesis
    using i u by (simp add: word_le_nat_alt word_less_nat_alt i_def [symmetric] del: of_nat_diff)
qed (simp add: calculate_next_tick_def)

end
