(* ===== verification/Rust_Text.thy ===== *)
theory Rust_Text
  imports Rbft_Prelude "HOL-Library.Char_ord"
begin

text \<open>
  The string operations of the Rust standard library that the log lines, the log analyser
  and the inspector use: trimming, splitting, searching, and the conversions between
  unsigned integers and decimal text.  A \<open>String\<close> is a \<^typ>\<open>string\<close>; of Unicode the
  model keeps the 256 characters of \<^typ>\<open>char\<close>.
\<close>

section \<open>Loops that may stop\<close>

text \<open>A \<open>for\<close> loop whose body may fail; the first failure is the result.\<close>

primrec try_fold :: "('s \<Rightarrow> 'a \<Rightarrow> 's option) \<Rightarrow> 's \<Rightarrow> 'a list \<Rightarrow> 's option" where
  "try_fold f s [] = Some s"
| "try_fold f s (x # xs) = (case f s x of None \<Rightarrow> None | Some s' \<Rightarrow> try_fold f s' xs)"

text \<open>What every successful round keeps, a loop keeps; and if no round fails the loop does not.\<close>

lemma try_fold_invariant:
  assumes "try_fold f s xs = Some t" and "I s"
    and step: "\<And>s x t. x \<in> set xs \<Longrightarrow> I s \<Longrightarrow> f s x = Some t \<Longrightarrow> I t"
  shows "I t"
  using assms
proof (induction xs arbitrary: s)
  case (Cons x xs)
  then obtain s' where s': "f s x = Some s'" "try_fold f s' xs = Some t" by (auto split: option.splits)
  then have "I s'" using Cons.prems(2,3) by (meson list.set_intros(1))
  with s'(2) show ?case by (rule Cons.IH) (meson Cons.prems(3) list.set_intros(2))
qed simp

lemma try_fold_total:
  assumes "I s" and step: "\<And>s x. x \<in> set xs \<Longrightarrow> I s \<Longrightarrow> \<exists>t. f s x = Some t \<and> I t"
  shows "\<exists>t. try_fold f s xs = Some t \<and> I t"
  using assms
proof (induction xs arbitrary: s)
  case (Cons x xs)
  then obtain s' where "f s x = Some s'" "I s'" by (meson list.set_intros(1))
  moreover have "\<exists>t. try_fold f s' xs = Some t \<and> I t"
    using \<open>I s'\<close> by (rule Cons.IH) (meson Cons.prems(2) list.set_intros(2))
  ultimately show ?case by simp
qed simp

lemma try_fold_append:
  "try_fold f s (xs @ ys) = (case try_fold f s xs of None \<Rightarrow> None | Some t \<Rightarrow> try_fold f t ys)"
  by (induction xs arbitrary: s) (simp_all split: option.splits)

section \<open>White space and trimming\<close>

text \<open>\<open>char::is_whitespace\<close>, \<open>char::is_control\<close> and the ASCII classes on these characters.\<close>

definition is_whitespace :: "char \<Rightarrow> bool" where
  "is_whitespace c \<longleftrightarrow> (let n = of_char c :: nat in 9 \<le> n \<and> n \<le> 13 \<or> n = 32 \<or> n = 133 \<or> n = 160)"

definition is_control :: "char \<Rightarrow> bool" where
  "is_control c \<longleftrightarrow> (let n = of_char c :: nat in n < 32 \<or> 127 \<le> n \<and> n < 160)"

definition is_ascii_digit :: "char \<Rightarrow> bool" where
  "is_ascii_digit c \<longleftrightarrow> (let n = of_char c :: nat in 48 \<le> n \<and> n \<le> 57)"

definition is_ascii_alphabetic :: "char \<Rightarrow> bool" where
  "is_ascii_alphabetic c \<longleftrightarrow> (let n = of_char c :: nat in 65 \<le> n \<and> n \<le> 90 \<or> 97 \<le> n \<and> n \<le> 122)"

text \<open>\<open>str::to_lowercase\<close>, on ASCII letters.\<close>

definition to_lowercase :: "string \<Rightarrow> string" where
  "to_lowercase s = map (\<lambda>c. let n = of_char c :: nat in if 65 \<le> n \<and> n \<le> 90 then char_of (n + 32) else c) s"

definition trim_start :: "string \<Rightarrow> string" where
  "trim_start s = dropWhile is_whitespace s"

definition trim_end :: "string \<Rightarrow> string" where
  "trim_end s = rev (dropWhile is_whitespace (rev s))"

definition trim :: "string \<Rightarrow> string" where
  "trim s = trim_end (trim_start s)"

text \<open>\<open>trim_start_matches\<close> with a character and with a string.\<close>

definition trim_start_char :: "char \<Rightarrow> string \<Rightarrow> string" where
  "trim_start_char c s = dropWhile (\<lambda>d. d = c) s"

section \<open>Prefixes, suffixes and searching\<close>

fun strip_prefix :: "'a list \<Rightarrow> 'a list \<Rightarrow> 'a list option" where
  "strip_prefix [] s = Some s"
| "strip_prefix (p # ps) [] = None"
| "strip_prefix (p # ps) (c # s) = (if p = c then strip_prefix ps s else None)"

definition strip_suffix :: "'a list \<Rightarrow> 'a list \<Rightarrow> 'a list option" where
  "strip_suffix p s = map_option rev (strip_prefix (rev p) (rev s))"

definition starts_with :: "string \<Rightarrow> string \<Rightarrow> bool" where
  "starts_with p s \<longleftrightarrow> strip_prefix p s \<noteq> None"

definition ends_with :: "string \<Rightarrow> string \<Rightarrow> bool" where
  "ends_with p s \<longleftrightarrow> strip_suffix p s \<noteq> None"

text \<open>\<open>str::find\<close> with a string: the text before and after the first occurrence.\<close>

fun split_once :: "'a list \<Rightarrow> 'a list \<Rightarrow> ('a list \<times> 'a list) option" where
  "split_once p s =
     (case strip_prefix p s of
        Some rest \<Rightarrow> Some ([], rest)
      | None \<Rightarrow>
          (case s of
             [] \<Rightarrow> None
           | c # s' \<Rightarrow> map_option (\<lambda>(u, v). (c # u, v)) (split_once p s')))"

declare split_once.simps [simp del]

definition contains :: "string \<Rightarrow> string \<Rightarrow> bool" where
  "contains p s \<longleftrightarrow> split_once p s \<noteq> None"

text \<open>\<open>rsplit_once\<close> at a character: the text before and after its last occurrence.\<close>

definition rsplit_once :: "char \<Rightarrow> string \<Rightarrow> (string \<times> string) option" where
  "rsplit_once c s = map_option (\<lambda>(u, v). (rev v, rev u)) (split_once [c] (rev s))"

section \<open>Splitting\<close>

fun split_on :: "('a \<Rightarrow> bool) \<Rightarrow> 'a list \<Rightarrow> 'a list list" where
  "split_on p [] = [[]]"
| "split_on p (c # s) =
     (if p c then [] # split_on p s
      else (case split_on p s of part # parts \<Rightarrow> (c # part) # parts | [] \<Rightarrow> [[c]]))"

definition split_whitespace :: "string \<Rightarrow> string list" where
  "split_whitespace s = filter (\<lambda>w. w \<noteq> []) (split_on is_whitespace s)"

text \<open>
  \<open>str::lines\<close>: split after newlines, without the newline or a carriage return before it; a last
  line without a newline is kept as it is.
\<close>

definition text_lines :: "string \<Rightarrow> string list" where
  "text_lines s =
     (let parts = split_on (\<lambda>c. c = CHR 0x0A) s;
          chomp = (\<lambda>l. if l \<noteq> [] \<and> last l = CHR 0x0D then butlast l else l)
      in map chomp (butlast parts) @ (if last parts = [] then [] else [last parts]))"

fun join :: "string \<Rightarrow> string list \<Rightarrow> string" where
  "join sep [] = []"
| "join sep [w] = w"
| "join sep (w # w' # ws) = w @ sep @ join sep (w' # ws)"

text \<open>\<open>Path::join\<close> with a relative name.\<close>

definition path_join :: "string \<Rightarrow> string \<Rightarrow> string" where
  "path_join dir name = dir @ ''/'' @ name"

section \<open>Decimal text\<close>

definition digit_char :: "nat \<Rightarrow> char" where
  "digit_char d = char_of (48 + d)"

function show_dec :: "nat \<Rightarrow> string" where
  "show_dec n = (if n < 10 then [digit_char n] else show_dec (n div 10) @ [digit_char (n mod 10)])"
  by pat_completeness auto
termination by (relation "measure id") auto

declare show_dec.simps [simp del]

definition show_int :: "int \<Rightarrow> string" where
  "show_int i = (if i < 0 then CHR ''-'' # show_dec (nat (- i)) else show_dec (nat i))"

text \<open>
  \<open>str::parse\<close> for an unsigned type with the given largest value: an optional plus sign,
  then at least one digit; the first invalid character or overflow is the error.
\<close>

datatype parse_int_error = EmptyText | InvalidDigit | PosOverflow

fun parse_digits :: "nat \<Rightarrow> nat \<Rightarrow> string \<Rightarrow> parse_int_error + nat" where
  "parse_digits maximum acc [] = Inr acc"
| "parse_digits maximum acc (c # s) =
     (if \<not> is_ascii_digit c then Inl InvalidDigit
      else
        let acc' = acc * 10 + (of_char c - 48) in
        if acc' > maximum then Inl PosOverflow else parse_digits maximum acc' s)"

definition parse_uint :: "nat \<Rightarrow> string \<Rightarrow> parse_int_error + nat" where
  "parse_uint maximum s =
     (case s of
        [] \<Rightarrow> Inl EmptyText
      | c # rest \<Rightarrow>
          if c = CHR ''+'' then (if rest = [] then Inl InvalidDigit else parse_digits maximum 0 rest)
          else parse_digits maximum 0 s)"

abbreviation u64_max :: nat where "u64_max \<equiv> 2 ^ 64 - 1"
abbreviation u16_max :: nat where "u16_max \<equiv> 2 ^ 16 - 1"

definition parse_u64 :: "string \<Rightarrow> u64 option" where
  "parse_u64 s = (case parse_uint u64_max s of Inl _ \<Rightarrow> None | Inr n \<Rightarrow> Some (word_of_nat n))"

definition show_u64 :: "u64 \<Rightarrow> string" where
  "show_u64 w = show_dec (unat w)"

section \<open>Facts about searching\<close>

lemma strip_prefix_Some: "strip_prefix p s = Some r \<longleftrightarrow> s = p @ r"
  by (induction p s rule: strip_prefix.induct) auto

lemma strip_prefix_append [simp]: "strip_prefix p (p @ r) = Some r"
  by (simp add: strip_prefix_Some)

lemma strip_suffix_Some: "strip_suffix p s = Some r \<longleftrightarrow> s = r @ p"
proof -
  have "rev s = rev p @ rev r \<longleftrightarrow> s = r @ p" by (metis rev_append rev_rev_ident)
  moreover have "strip_suffix p s = Some r \<longleftrightarrow> strip_prefix (rev p) (rev s) = Some (rev r)"
    by (auto simp: strip_suffix_def)
  ultimately show ?thesis by (simp add: strip_prefix_Some)
qed

lemma split_once_Some: "split_once p s = Some (u, v) \<Longrightarrow> s = u @ p @ v"
proof (induction p s arbitrary: u rule: split_once.induct)
  case (1 p s)
  then show ?case
    by (subst (asm) (2) split_once.simps)
      (auto split: option.splits list.splits simp: strip_prefix_Some)
qed

lemma split_once_exists: "split_once p (u @ p @ v) \<noteq> None"
proof (induction u)
  case Nil
  show ?case by (subst split_once.simps) simp
next
  case (Cons c u)
  then show ?case by (subst split_once.simps) (auto split: option.splits)
qed

lemma contains_iff: "contains p s \<longleftrightarrow> (\<exists>u v. s = u @ p @ v)"
  using split_once_Some split_once_exists unfolding contains_def by fast

text \<open>A single character is found where it first occurs.\<close>

lemma split_once_char: "c \<notin> set u \<Longrightarrow> split_once [c] (u @ c # v) = Some (u, v)"
proof (induction u)
  case Nil
  show ?case by (subst split_once.simps) simp
next
  case (Cons d u)
  then show ?case by (subst split_once.simps) auto
qed

lemma split_once_char_None: "split_once [c] s = None \<longleftrightarrow> c \<notin> set s"
proof
  assume "split_once [c] s = None"
  then show "c \<notin> set s" using split_once_exists [of "[c]"] by (metis append_Cons append_Nil split_list)
next
  assume "c \<notin> set s"
  then show "split_once [c] s = None"
    using split_once_Some [of "[c]" s] by (cases "split_once [c] s") auto
qed

lemma split_on_none: "\<forall>c\<in>set s. \<not> p c \<Longrightarrow> split_on p s = [s]"
  by (induction s) auto

lemma split_on_nonempty [simp]: "split_on p s \<noteq> []"
  by (induction s) (auto split: list.splits)

lemma trim_id: "s = [] \<or> \<not> is_whitespace (hd s) \<and> \<not> is_whitespace (last s) \<Longrightarrow> trim s = s"
proof (cases s)
  case (Cons c s')
  assume "s = [] \<or> \<not> is_whitespace (hd s) \<and> \<not> is_whitespace (last s)"
  with Cons have "\<not> is_whitespace (hd s)" "\<not> is_whitespace (last s)" by auto
  then have "dropWhile is_whitespace s = s" "dropWhile is_whitespace (rev s) = rev s"
    unfolding dropWhile_eq_self_iff hd_rev using Cons by auto
  then show ?thesis by (simp add: trim_def trim_start_def trim_end_def)
qed (simp add: trim_def trim_start_def trim_end_def)

section \<open>Facts about decimal text\<close>

lemma of_char_digit [simp]: "d < 10 \<Longrightarrow> of_char (digit_char d) = 48 + d"
  by (simp add: digit_char_def)

lemma is_digit_char [simp]: "d < 10 \<Longrightarrow> is_ascii_digit (digit_char d)"
  by (simp add: is_ascii_digit_def)

lemma show_dec_nonempty [simp]: "show_dec n \<noteq> []"
  by (subst show_dec.simps) simp

lemma show_dec_digits: "c \<in> set (show_dec n) \<Longrightarrow> is_ascii_digit c"
proof (induction n rule: show_dec.induct)
  case (1 n)
  then show ?case by (subst (asm) (2) show_dec.simps) (auto split: if_splits)
qed

lemma digit_not_whitespace: "is_ascii_digit c \<Longrightarrow> \<not> is_whitespace c"
  by (auto simp: is_ascii_digit_def is_whitespace_def Let_def)

lemma parse_digits_append:
  "parse_digits m a (s @ t) = (case parse_digits m a s of Inl e \<Rightarrow> Inl e | Inr n \<Rightarrow> parse_digits m n t)"
  by (induction m a s rule: parse_digits.induct) (simp_all add: Let_def)

lemma trim_before_digits:
  assumes "\<not> is_ascii_digit c" shows "trim_start_char c (c # show_dec n) = show_dec n"
proof -
  have "d \<noteq> c" if "d \<in> set (show_dec n)" for d using show_dec_digits [OF that] assms by auto
  then show ?thesis by (cases "show_dec n") (auto simp: trim_start_char_def)
qed

lemma parse_digits_show: "n \<le> m \<Longrightarrow> parse_digits m 0 (show_dec n) = Inr n"
proof (induction n rule: show_dec.induct)
  case (1 n)
  show ?case
  proof (cases "n < 10")
    case True
    with "1.prems" show ?thesis by (subst show_dec.simps) simp
  next
    case False
    have "n div 10 \<le> m" using "1.prems" by (meson div_le_dividend le_trans)
    with "1.IH" [OF False] have "parse_digits m 0 (show_dec (n div 10)) = Inr (n div 10)" by blast
    moreover have "n div 10 * 10 + n mod 10 = n" by simp
    ultimately show ?thesis using "1.prems" False
      by (subst show_dec.simps) (simp add: parse_digits_append)
  qed
qed

lemma parse_uint_show: "n \<le> m \<Longrightarrow> parse_uint m (show_dec n) = Inr n"
proof (cases "show_dec n")
  case (Cons c s)
  assume le: "n \<le> m"
  have "is_ascii_digit c" using show_dec_digits [of c n] Cons by simp
  then have "c \<noteq> CHR ''+''" by (auto simp: is_ascii_digit_def)
  with Cons parse_digits_show [OF le] show ?thesis by (simp add: parse_uint_def)
qed simp

lemma parse_show_u64 [simp]: "parse_u64 (show_u64 w) = Some w"
proof -
  have "unat w \<le> u64_max" using unat_less_word [of w] by simp
  then show ?thesis by (simp add: parse_u64_def show_u64_def parse_uint_show del: power_numeral)
qed

lemma show_u64_nonempty [simp]: "show_u64 w \<noteq> []"
  by (simp add: show_u64_def)

lemma show_u64_digits: "c \<in> set (show_u64 w) \<Longrightarrow> is_ascii_digit c"
  by (simp add: show_u64_def show_dec_digits)

end
