(* ===== verification/Logjam_Parse.thy ===== *)
theory Logjam_Parse
  imports Rust_Text
begin

text \<open>
  The parsers of the log analyser (\<open>rbft-utils/src/logjam.rs\<close>): messages named in a state
  summary, the validator a log file belongs to, and the wire-level trace lines.
\<close>

section \<open>Messages in a state summary\<close>

record message_key =
  mk_height :: u64
  mk_round :: u64
  mk_kind :: char

text \<open>One group \<open>height.round:kinds\<close>; anything else yields no message.\<close>

definition parse_group :: "string \<Rightarrow> message_key list" where
  "parse_group part =
     (case split_once '':'' part of
        None \<Rightarrow> []
      | Some (hr_part, kinds_part) \<Rightarrow>
          (case split_once ''.'' hr_part of
             None \<Rightarrow> []
           | Some (h, r) \<Rightarrow>
               (case (parse_u64 h, parse_u64 r) of
                  (Some height, Some rnd) \<Rightarrow>
                    map (\<lambda>k. \<lparr>mk_height = height, mk_round = rnd, mk_kind = k\<rparr>) kinds_part
                | _ \<Rightarrow> [])))"

definition parse_messages :: "string \<Rightarrow> message_key list" where
  "parse_messages msg_str =
     (if msg_str = [] then []
      else concat (map (\<lambda>part. let p = trim part in if p = [] then [] else parse_group p)
             (split_on (\<lambda>c. c = CHR '','') msg_str)))"

definition parse_validator_name :: "string \<Rightarrow> string option" where
  "parse_validator_name source =
     (case strip_suffix ''.log'' source of Some name \<Rightarrow> Some name | None \<Rightarrow> Some source)"

definition parse_output_messages :: "string \<Rightarrow> message_key list" where
  "parse_output_messages line =
     (case split_once '' o='' line of
        Some (_, after_o) \<Rightarrow>
          parse_messages (case split_whitespace after_o of w # _ \<Rightarrow> w | [] \<Rightarrow> [])
      | None \<Rightarrow> [])"

definition parse_input_messages :: "string \<Rightarrow> message_key list" where
  "parse_input_messages line =
     (case split_once '' in='' line of
        Some (_, after_in) \<Rightarrow>
          (case split_once '']'' after_in of Some (msg_str, _) \<Rightarrow> parse_messages msg_str | None \<Rightarrow> [])
      | None \<Rightarrow> [])"

definition is_before_line :: "string \<Rightarrow> bool" where
  "is_before_line line \<longleftrightarrow> contains '' b ['' line"

definition is_after_line :: "string \<Rightarrow> bool" where
  "is_after_line line \<longleftrightarrow> contains '' a ['' line"

section \<open>Trace lines\<close>

datatype trace_event =
    TSend (te_h: u64) (te_r: u64) (te_t: char) (te_peer: string)
  | TRecv (te_h: u64) (te_r: u64) (te_t: char) (te_peer: string)
  | TRecvDup (te_h: u64) (te_r: u64) (te_t: char) (te_peer: string)
  | TDrain (te_count: u64) (te_h_range: string) (te_triggered_by: string)
  | TRelay (te_h: u64) (te_r: u64) (te_t: char) (te_peer: string) (te_to_peers: u64) (te_failed: u64)

text \<open>A \<open>HashMap\<close> of the pairs; a later pair replaces an earlier one with its key.\<close>

definition parse_trace_kvs :: "string list \<Rightarrow> string \<rightharpoonup> string" where
  "parse_trace_kvs parts =
     map_of (rev (filter_map (\<lambda>part. split_once ''='' part) parts))"

definition first_char :: "string \<Rightarrow> char option" where
  "first_char s = (case s of [] \<Rightarrow> None | c # _ \<Rightarrow> Some c)"

definition parse_hrt :: "(string \<rightharpoonup> string) \<Rightarrow> (u64 \<times> u64 \<times> char) option" where
  "parse_hrt kvs = do {
     h \<leftarrow> kvs ''h''; h \<leftarrow> parse_u64 h;
     r \<leftarrow> kvs ''r''; r \<leftarrow> parse_u64 r;
     t \<leftarrow> kvs ''t''; t \<leftarrow> first_char t;
     Some (h, r, t)
   }"

definition parse_trace_line :: "string \<Rightarrow> trace_event option" where
  "parse_trace_line line = do {
     (_, trace_content) \<leftarrow> split_once ''msg_trace: '' line;
     (case split_whitespace trace_content of
        [] \<Rightarrow> None
      | event_type # rest \<Rightarrow>
          let kvs = parse_trace_kvs rest in
          if event_type = ''SEND'' then do {
            (h, r, t) \<leftarrow> parse_hrt kvs; peer \<leftarrow> kvs ''to''; Some (TSend h r t peer) }
          else if event_type = ''RECV'' then do {
            (h, r, t) \<leftarrow> parse_hrt kvs; peer \<leftarrow> kvs ''from''; Some (TRecv h r t peer) }
          else if event_type = ''RECV_DUP'' then do {
            (h, r, t) \<leftarrow> parse_hrt kvs; peer \<leftarrow> kvs ''from''; Some (TRecvDup h r t peer) }
          else if event_type = ''DRAIN'' then do {
            n \<leftarrow> kvs ''count''; n \<leftarrow> parse_u64 n;
            rng \<leftarrow> kvs ''h_range''; who \<leftarrow> kvs ''triggered_by'';
            Some (TDrain n rng who) }
          else if event_type = ''RELAY'' then do {
            (h, r, t) \<leftarrow> parse_hrt kvs; peer \<leftarrow> kvs ''from'';
            to_peers \<leftarrow> kvs ''to_peers''; to_peers \<leftarrow> parse_u64 to_peers;
            failed \<leftarrow> kvs ''failed''; failed \<leftarrow> parse_u64 failed;
            Some (TRelay h r t peer to_peers failed) }
          else None)
   }"

section \<open>Reading back a printed group\<close>

text \<open>A group as the nodes print it is read back message by message.\<close>

lemma parse_group_printed:
  "parse_group (show_u64 h @ ''.'' @ show_u64 r @ '':'' @ kinds) =
    map (\<lambda>k. \<lparr>mk_height = h, mk_round = r, mk_kind = k\<rparr>) kinds"
proof -
  have digits: "c \<noteq> CHR '':'' \<and> c \<noteq> CHR ''.''" if "is_ascii_digit c" for c
    using that by (auto simp: is_ascii_digit_def)
  have hr: "CHR '':'' \<notin> set (show_u64 h @ ''.'' @ show_u64 r)" and h: "CHR ''.'' \<notin> set (show_u64 h)"
    using digits by (auto dest: show_u64_digits)
  have "split_once '':'' ((show_u64 h @ ''.'' @ show_u64 r) @ CHR '':'' # kinds) =
      Some (show_u64 h @ ''.'' @ show_u64 r, kinds)"
    by (rule split_once_char [OF hr])
  moreover have "split_once ''.'' (show_u64 h @ CHR ''.'' # show_u64 r) = Some (show_u64 h, show_u64 r)"
    by (rule split_once_char [OF h])
  ultimately show ?thesis by (simp add: parse_group_def)
qed

lemma parse_messages_printed:
  assumes "CHR '','' \<notin> set kinds" and "\<forall>k\<in>set kinds. \<not> is_whitespace k"
  shows "parse_messages (show_u64 h @ ''.'' @ show_u64 r @ '':'' @ kinds) =
    map (\<lambda>k. \<lparr>mk_height = h, mk_round = r, mk_kind = k\<rparr>) kinds"
proof -
  let ?s = "show_u64 h @ ''.'' @ show_u64 r @ '':'' @ kinds"
  have "c \<noteq> CHR '',''" if "is_ascii_digit c" for c using that by (auto simp: is_ascii_digit_def)
  then have "\<forall>c\<in>set ?s. c \<noteq> CHR '',''" using assms(1) by (auto dest: show_u64_digits)
  then have split: "split_on (\<lambda>c. c = CHR '','') ?s = [?s]" by (intro split_on_none)
  have ws: "\<forall>c\<in>set ?s. \<not> is_whitespace c"
    using assms(2) by (auto dest!: show_u64_digits digit_not_whitespace) (auto simp: is_whitespace_def)
  have ne: "?s \<noteq> []" by simp
  from ws ne have "\<not> is_whitespace (hd ?s) \<and> \<not> is_whitespace (last ?s)" using hd_in_set last_in_set by metis
  then have "trim ?s = ?s" by (intro trim_id) blast
  with split parse_group_printed [of h r kinds] show ?thesis by (simp add: parse_messages_def)
qed

end
