(* ===== verification/Logjam_Trackers.thy ===== *)
theory Logjam_Trackers
  imports Logjam_Parse "HOL-Library.AList" "HOL-Library.List_Lexorder" "HOL-Library.Multiset" "HOL-Library.Signed_Division" "HOL-Library.Monad_Syntax"
begin

text \<open>
  The statistics the log analyser keeps (\<open>rbft-utils/src/logjam.rs\<close>): \<open>WireTracker\<close>, which follows
  every message of the trace lines from its senders to its receivers, and \<open>DeliveryHistogram\<close>,
  which counts delivery delays in buckets.  A time is a number of nanoseconds, counters are \<open>u64\<close>
  and wrap as in a release build, a \<open>HashMap\<close> is an association list, and a line of statistics is
  kept as the record of the numbers it prints: an average as its numerator and denominator.
\<close>

section \<open>Times\<close>

type_synonym timestamp = int

text \<open>\<open>signed_duration_since(..).num_milliseconds().max(0) as u64\<close>.\<close>

definition elapsed_ms :: "timestamp \<Rightarrow> timestamp \<Rightarrow> u64" where
  "elapsed_ms later earlier = word_of_int (max 0 ((later - earlier) div 1000000))"

definition five_seconds_since :: "timestamp \<Rightarrow> timestamp \<Rightarrow> bool" where
  "five_seconds_since last_dump current_time \<longleftrightarrow> 5 * 1000000000 \<le> current_time - last_dump"

section \<open>Maps with an entry interface\<close>

text \<open>
  The two uses of \<open>HashMap::entry\<close>: \<open>or_insert\<close>, which keeps a value that is present, and an
  update in place of the entry, after inserting a default where there is none.
\<close>

definition or_insert :: "'k \<Rightarrow> 'v \<Rightarrow> ('k \<times> 'v) list \<Rightarrow> ('k \<times> 'v) list" where
  "or_insert k v m = (if k \<in> fst ` set m then m else m @ [(k, v)])"

definition entry_or :: "'v \<Rightarrow> 'k \<Rightarrow> ('k \<times> 'v) list \<Rightarrow> 'v" where
  "entry_or d k m = (case map_of m k of Some v \<Rightarrow> v | None \<Rightarrow> d)"

definition modify_entry :: "'v \<Rightarrow> 'k \<Rightarrow> ('v \<Rightarrow> 'v) \<Rightarrow> ('k \<times> 'v) list \<Rightarrow> ('k \<times> 'v) list" where
  "modify_entry d k f m = AList.update k (f (entry_or d k m)) m"

abbreviation contains_key :: "('k \<times> 'v) list \<Rightarrow> 'k \<Rightarrow> bool" where
  "contains_key m k \<equiv> k \<in> fst ` set m"

definition hash_insert :: "'a \<Rightarrow> 'a list \<Rightarrow> 'a list" where
  "hash_insert x xs = (if x \<in> set xs then xs else xs @ [x])"

section \<open>Wire tracker\<close>

record wire_delivery =
  wd_senders :: "(string \<times> timestamp) list"
  wd_receivers :: "(string \<times> timestamp) list"
  wd_dup_receivers :: "string list"
  wd_first_send :: "timestamp option"

definition wire_delivery_new :: wire_delivery where
  "wire_delivery_new = \<lparr>wd_senders = [], wd_receivers = [], wd_dup_receivers = [], wd_first_send = None\<rparr>"

record wire_tracker =
  wt_messages :: "(message_key \<times> wire_delivery) list"
  wt_known_nodes :: "string list"
  wt_send_count :: u64
  wt_recv_count :: u64
  wt_dup_count :: u64
  wt_relay_count :: u64
  wt_relay_fail_count :: u64
  wt_drain_event_count :: u64
  wt_drain_msg_count :: u64
  wt_wire_latencies :: "u64 list"
  wt_lifetime_sends :: u64
  wt_lifetime_recvs :: u64
  wt_lifetime_dups :: u64
  wt_lifetime_relays :: u64
  wt_lifetime_relay_fails :: u64
  wt_lifetime_drain_events :: u64
  wt_lifetime_drain_msgs :: u64
  wt_lifetime_latency_count :: u64
  wt_lifetime_latency_sum :: u64
  wt_lifetime_latency_max :: u64
  wt_last_dump :: timestamp

definition wire_tracker_new :: "timestamp \<Rightarrow> wire_tracker" where
  "wire_tracker_new now =
    \<lparr>wt_messages = [], wt_known_nodes = [], wt_send_count = 0, wt_recv_count = 0, wt_dup_count = 0,
     wt_relay_count = 0, wt_relay_fail_count = 0, wt_drain_event_count = 0, wt_drain_msg_count = 0,
     wt_wire_latencies = [], wt_lifetime_sends = 0, wt_lifetime_recvs = 0, wt_lifetime_dups = 0,
     wt_lifetime_relays = 0, wt_lifetime_relay_fails = 0, wt_lifetime_drain_events = 0,
     wt_lifetime_drain_msgs = 0, wt_lifetime_latency_count = 0, wt_lifetime_latency_sum = 0,
     wt_lifetime_latency_max = 0, wt_last_dump = now\<rparr>"

definition note_node :: "string \<Rightarrow> wire_tracker \<Rightarrow> wire_tracker" where
  "note_node node t = t\<lparr>wt_known_nodes := hash_insert node (wt_known_nodes t)\<rparr>"

text \<open>A send adds its sender once and keeps the earliest time of all sends.\<close>

definition delivery_sent :: "string \<Rightarrow> timestamp \<Rightarrow> wire_delivery \<Rightarrow> wire_delivery" where
  "delivery_sent node ts d =
     (let d = d\<lparr>wd_senders := or_insert node ts (wd_senders d)\<rparr> in
      case wd_first_send d of
        None \<Rightarrow> d\<lparr>wd_first_send := Some ts\<rparr>
      | Some first_send \<Rightarrow> if ts < first_send then d\<lparr>wd_first_send := Some ts\<rparr> else d)"

definition record_send :: "message_key \<Rightarrow> string \<Rightarrow> timestamp \<Rightarrow> wire_tracker \<Rightarrow> wire_tracker" where
  "record_send key node ts t =
     t\<lparr>wt_send_count := wt_send_count t + 1,
       wt_lifetime_sends := wt_lifetime_sends t + 1,
       wt_messages := modify_entry wire_delivery_new key (delivery_sent node ts) (wt_messages t)\<rparr>"

definition record_recv ::
  "message_key \<Rightarrow> string \<Rightarrow> timestamp \<Rightarrow> wire_tracker \<Rightarrow> wire_tracker \<times> u64 option" where
  "record_recv key node ts t =
     (let t = t\<lparr>wt_recv_count := wt_recv_count t + 1,
                wt_lifetime_recvs := wt_lifetime_recvs t + 1,
                wt_messages := modify_entry wire_delivery_new key
                  (\<lambda>d. d\<lparr>wd_receivers := or_insert node ts (wd_receivers d)\<rparr>) (wt_messages t)\<rparr> in
      case wd_first_send (entry_or wire_delivery_new key (wt_messages t)) of
        Some first_send \<Rightarrow>
          let latency_ms = elapsed_ms ts first_send in
          (t\<lparr>wt_wire_latencies := wt_wire_latencies t @ [latency_ms],
             wt_lifetime_latency_count := wt_lifetime_latency_count t + 1,
             wt_lifetime_latency_sum := wt_lifetime_latency_sum t + latency_ms,
             wt_lifetime_latency_max :=
               (if wt_lifetime_latency_max t < latency_ms then latency_ms else wt_lifetime_latency_max t)\<rparr>,
           Some latency_ms)
      | None \<Rightarrow> (t, None))"

definition record_dup :: "message_key \<Rightarrow> string \<Rightarrow> wire_tracker \<Rightarrow> wire_tracker" where
  "record_dup key node t =
     t\<lparr>wt_dup_count := wt_dup_count t + 1,
       wt_lifetime_dups := wt_lifetime_dups t + 1,
       wt_messages := modify_entry wire_delivery_new key
         (\<lambda>d. d\<lparr>wd_dup_receivers := hash_insert node (wd_dup_receivers d)\<rparr>) (wt_messages t)\<rparr>"

definition record_relay :: "u64 \<Rightarrow> u64 \<Rightarrow> wire_tracker \<Rightarrow> wire_tracker" where
  "record_relay to_peers failed t =
     t\<lparr>wt_relay_count := wt_relay_count t + 1,
       wt_lifetime_relays := wt_lifetime_relays t + 1,
       wt_relay_fail_count := wt_relay_fail_count t + failed,
       wt_lifetime_relay_fails := wt_lifetime_relay_fails t + failed\<rparr>"

definition record_drain :: "u64 \<Rightarrow> wire_tracker \<Rightarrow> wire_tracker" where
  "record_drain n t =
     t\<lparr>wt_drain_event_count := wt_drain_event_count t + 1,
       wt_lifetime_drain_events := wt_lifetime_drain_events t + 1,
       wt_drain_msg_count := wt_drain_msg_count t + n,
       wt_lifetime_drain_msgs := wt_lifetime_drain_msgs t + n\<rparr>"

definition wire_should_dump :: "wire_tracker \<Rightarrow> timestamp \<Rightarrow> bool" where
  "wire_should_dump t current_time \<longleftrightarrow> five_seconds_since (wt_last_dump t) current_time"

text \<open>The known nodes that neither sent nor received a message.\<close>

definition missing_nodes :: "wire_tracker \<Rightarrow> wire_delivery \<Rightarrow> string list" where
  "missing_nodes t d =
     filter (\<lambda>n. \<not> contains_key (wd_senders d) n \<and> \<not> contains_key (wd_receivers d) n) (wt_known_nodes t)"

definition count_incomplete_deliveries :: "wire_tracker \<Rightarrow> nat" where
  "count_incomplete_deliveries t =
     length (filter (\<lambda>(_, d). wd_senders d \<noteq> [] \<and>
       (\<exists>n\<in>set (wt_known_nodes t). \<not> contains_key (wd_senders d) n \<and> \<not> contains_key (wd_receivers d) n))
       (wt_messages t))"

text \<open>
  One line of periodic statistics.  The latency part is the sum and number of the samples, the
  median, the 95th percentile at index \<open>0.95 \<sqdot> len\<close> rounded down, and the maximum.
\<close>

record latency_stats =
  ls_sum :: u64
  ls_len :: nat
  ls_p50 :: u64
  ls_p95 :: u64
  ls_max :: u64

definition latency_stats_of :: "u64 list \<Rightarrow> latency_stats option" where
  "latency_stats_of latencies =
     (if latencies = [] then None
      else let sorted_ms = sort latencies; len = length sorted_ms in
        Some \<lparr>ls_sum = sum_list sorted_ms, ls_len = len,
              ls_p50 = sorted_ms ! (len div 2),
              ls_p95 = sorted_ms ! min (19 * len div 20) (len - 1),
              ls_max = sorted_ms ! (len - 1)\<rparr>)"

record wire_stats =
  ws_sends :: u64
  ws_recvs :: u64
  ws_dups :: u64
  ws_relays :: u64
  ws_relay_fails :: u64
  ws_drain_events :: u64
  ws_drain_msgs :: u64
  ws_latency :: "latency_stats option"
  ws_lifetime_sends :: u64
  ws_lifetime_recvs :: u64
  ws_lifetime_dups :: u64
  ws_lifetime_latency :: "(u64 \<times> u64 \<times> u64) option"
  ws_missing_delivery :: nat

definition wire_stats_of :: "wire_tracker \<Rightarrow> wire_stats" where
  "wire_stats_of t =
    \<lparr>ws_sends = wt_send_count t, ws_recvs = wt_recv_count t, ws_dups = wt_dup_count t,
     ws_relays = wt_relay_count t, ws_relay_fails = wt_relay_fail_count t,
     ws_drain_events = wt_drain_event_count t, ws_drain_msgs = wt_drain_msg_count t,
     ws_latency = latency_stats_of (wt_wire_latencies t),
     ws_lifetime_sends = wt_lifetime_sends t, ws_lifetime_recvs = wt_lifetime_recvs t,
     ws_lifetime_dups = wt_lifetime_dups t,
     ws_lifetime_latency =
       (if 0 < wt_lifetime_latency_count t
        then Some (wt_lifetime_latency_sum t, wt_lifetime_latency_count t, wt_lifetime_latency_max t)
        else None),
     ws_missing_delivery = count_incomplete_deliveries t\<rparr>"

definition wire_dump_and_reset :: "timestamp \<Rightarrow> wire_tracker \<Rightarrow> wire_tracker \<times> wire_stats" where
  "wire_dump_and_reset current_time t =
     (t\<lparr>wt_send_count := 0, wt_recv_count := 0, wt_dup_count := 0, wt_relay_count := 0,
        wt_relay_fail_count := 0, wt_drain_event_count := 0, wt_drain_msg_count := 0,
        wt_wire_latencies := [], wt_last_dump := current_time\<rparr>,
      wire_stats_of t)"

text \<open>The final summary: totals, and for every message that missed a node who sent and who missed it.\<close>

record missing_entry =
  me_key :: message_key
  me_sent_by :: "string list"
  me_missing :: "string list"

definition key_order :: "message_key \<Rightarrow> u64 \<times> u64 \<times> char" where
  "key_order k = (mk_height k, mk_round k, mk_kind k)"

definition missing_entries :: "wire_tracker \<Rightarrow> missing_entry list" where
  "missing_entries t =
     filter_map (\<lambda>key.
         let d = entry_or wire_delivery_new key (wt_messages t) in
         if wd_senders d = [] then None
         else let missing = missing_nodes t d in
           if missing = [] then None
           else Some \<lparr>me_key = key, me_sent_by = sort (map fst (wd_senders d)), me_missing = sort missing\<rparr>)
       (sort_key key_order (map fst (wt_messages t)))"

record wire_summary =
  sm_totals :: "u64 \<times> u64 \<times> u64 \<times> u64 \<times> u64 \<times> u64 \<times> u64"
  sm_latency :: "(u64 \<times> u64 \<times> u64) option"
  sm_missing :: nat
  sm_listed :: "missing_entry list"
  sm_more :: nat

definition wire_summary_of :: "wire_tracker \<Rightarrow> wire_summary" where
  "wire_summary_of t =
     (let missing = missing_entries t in
      \<lparr>sm_totals = (wt_lifetime_sends t, wt_lifetime_recvs t, wt_lifetime_dups t, wt_lifetime_relays t,
         wt_lifetime_relay_fails t, wt_lifetime_drain_events t, wt_lifetime_drain_msgs t),
       sm_latency =
         (if 0 < wt_lifetime_latency_count t
          then Some (wt_lifetime_latency_sum t, wt_lifetime_latency_max t, wt_lifetime_latency_count t)
          else None),
       sm_missing = length missing,
       sm_listed = take 50 missing,
       sm_more = length missing - 50\<rparr>)"

text \<open>Recording a trace event; a reception may yield a latency.\<close>

definition trace_key :: "u64 \<Rightarrow> u64 \<Rightarrow> char \<Rightarrow> message_key" where
  "trace_key h r t = \<lparr>mk_height = h, mk_round = r, mk_kind = t\<rparr>"

fun trace_effect :: "trace_event \<Rightarrow> string \<Rightarrow> timestamp \<Rightarrow> wire_tracker \<Rightarrow> wire_tracker \<times> u64 option" where
  "trace_effect (TSend h r t _) node ts tracker = (record_send (trace_key h r t) node ts tracker, None)"
| "trace_effect (TRecv h r t _) node ts tracker = record_recv (trace_key h r t) node ts tracker"
| "trace_effect (TRecvDup h r t _) node ts tracker = (record_dup (trace_key h r t) node tracker, None)"
| "trace_effect (TDrain n _ _) node ts tracker = (record_drain n tracker, None)"
| "trace_effect (TRelay _ _ _ _ to_peers failed) node ts tracker = (record_relay to_peers failed tracker, None)"

definition record_trace_event :: "trace_event \<Rightarrow> string \<Rightarrow> timestamp \<Rightarrow> wire_tracker \<Rightarrow> wire_tracker" where
  "record_trace_event event node ts tracker = fst (trace_effect event node ts tracker)"

section \<open>Delivery histogram\<close>

record delivery_histogram =
  dh_buckets :: "u64 list"
  dh_total_messages :: u64
  dh_never_received :: u64
  dh_last_dump :: timestamp
  dh_bucket_size_ms :: u64
  dh_max_delay_ms :: u64
  dh_warn_count :: u64
  dh_error_count :: u64

text \<open>
  A bucket size of zero divides by zero, and a vector of more than \<open>isize::MAX\<close> bytes is refused:
  both panic.  The \<open>+ 1\<close> on the number of buckets wraps.
\<close>

definition histogram_new :: "timestamp \<Rightarrow> u64 \<Rightarrow> u64 \<Rightarrow> delivery_histogram option" where
  "histogram_new now max_delay_ms bucket_size_ms =
     (if bucket_size_ms = 0 then None
      else let num_buckets = max_delay_ms div bucket_size_ms + 1 in
        if 2 ^ 63 \<le> 8 * unat num_buckets then None
        else Some \<lparr>dh_buckets = replicate (unat num_buckets) 0, dh_total_messages = 0, dh_never_received = 0,
                   dh_last_dump = now, dh_bucket_size_ms = bucket_size_ms, dh_max_delay_ms = max_delay_ms,
                   dh_warn_count = 0, dh_error_count = 0\<rparr>)"

text \<open>Recording a delay; without buckets the index is out of range and the indexing panics.\<close>

definition bucket_index :: "delivery_histogram \<Rightarrow> u64 \<Rightarrow> nat" where
  "bucket_index h delay_ms = min (unat (delay_ms div dh_bucket_size_ms h)) (length (dh_buckets h) - 1)"

definition histogram_record :: "u64 \<Rightarrow> delivery_histogram \<Rightarrow> delivery_histogram option" where
  "histogram_record delay_ms h =
     (let i = bucket_index h delay_ms in
      if dh_bucket_size_ms h = 0 \<or> length (dh_buckets h) \<le> i then None
      else Some (h\<lparr>dh_total_messages := dh_total_messages h + 1,
                   dh_buckets := (dh_buckets h)[i := dh_buckets h ! i + 1]\<rparr>))"

definition record_warn :: "delivery_histogram \<Rightarrow> delivery_histogram" where
  "record_warn h = h\<lparr>dh_warn_count := dh_warn_count h + 1\<rparr>"

definition record_error :: "delivery_histogram \<Rightarrow> delivery_histogram" where
  "record_error h = h\<lparr>dh_error_count := dh_error_count h + 1\<rparr>"

definition histogram_should_dump :: "delivery_histogram \<Rightarrow> timestamp \<Rightarrow> bool" where
  "histogram_should_dump h current_time \<longleftrightarrow> five_seconds_since (dh_last_dump h) current_time"

text \<open>
  A dumped line: the totals, and for each bucket in use its range (the upper end of the last one is
  open) and its count, which is printed as a percentage of the total.
\<close>

record histogram_stats =
  hs_total :: u64
  hs_never_received :: u64
  hs_warn :: "u64 option"
  hs_error :: "u64 option"
  hs_ranges :: "(u64 \<times> (u64 + u64) \<times> u64) list"

definition histogram_ranges :: "delivery_histogram \<Rightarrow> (u64 \<times> (u64 + u64) \<times> u64) list" where
  "histogram_ranges h =
     filter_map (\<lambda>(i, n).
         if 0 < n then
           let range_start = of_nat i * dh_bucket_size_ms h in
           Some (range_start,
                 if i = length (dh_buckets h) - 1 then Inr (dh_max_delay_ms h)
                 else Inl (range_start + dh_bucket_size_ms h), n)
         else None)
       (List.enumerate 0 (dh_buckets h))"

definition histogram_dump_and_reset ::
  "timestamp \<Rightarrow> delivery_histogram \<Rightarrow> delivery_histogram \<times> histogram_stats option" where
  "histogram_dump_and_reset current_time h =
     (if dh_total_messages h = 0 \<and> dh_never_received h = 0
      then (h\<lparr>dh_last_dump := current_time\<rparr>, None)
      else
        (h\<lparr>dh_buckets := replicate (length (dh_buckets h)) 0, dh_total_messages := 0,
           dh_never_received := 0, dh_warn_count := 0, dh_error_count := 0, dh_last_dump := current_time\<rparr>,
         Some \<lparr>hs_total = dh_total_messages h, hs_never_received = dh_never_received h,
               hs_warn = (if 0 < dh_warn_count h then Some (dh_warn_count h) else None),
               hs_error = (if 0 < dh_error_count h then Some (dh_error_count h) else None),
               hs_ranges = histogram_ranges h\<rparr>))"

end
