(* ===== verification/Logjam.thy ===== *)
theory Logjam
  imports Logjam_Trackers
begin

text \<open>
  The log analyser (\<open>rbft-utils/src/logjam.rs\<close>): the lines of all node logs are put in the order
  of their timestamps, each is printed, and the messages it mentions update the delivery
  statistics.  A panic is \<open>None\<close>.  The output is kept as a list of structured lines.  What the
  wall clock reads while a line is processed comes with the line; \<open>chrono\<close>'s timestamp parser is
  a parameter.
\<close>

section \<open>Lines in order\<close>

record log_line =
  ll_source :: string
  ll_timestamp :: "timestamp option"
  ll_line :: string

text \<open>\<open>Ord for LogLine\<close>: reversed, with lines without a timestamp greatest.\<close>

definition log_line_cmp :: "log_line \<Rightarrow> log_line \<Rightarrow> ordering" where
  "log_line_cmp a b =
     (case (ll_timestamp a, ll_timestamp b) of
        (None, None) \<Rightarrow> Equal
      | (None, Some _) \<Rightarrow> Greater
      | (Some _, None) \<Rightarrow> Less
      | (Some s, Some t) \<Rightarrow> ord_cmp t s)"

text \<open>\<open>BinaryHeap::push\<close>: append, then sift up while the element is greater than its parent.\<close>

function sift_up :: "nat \<Rightarrow> log_line list \<Rightarrow> log_line list" where
  "sift_up pos v =
     (if pos = 0 then v
      else let parent = (pos - 1) div 2 in
        if log_line_cmp (v ! pos) (v ! parent) = Greater
        then sift_up parent (v[pos := v ! parent, parent := v ! pos])
        else v)"
  by auto
termination by (relation "measure fst") auto

declare sift_up.simps [simp del]

definition heap_push :: "log_line list \<Rightarrow> log_line \<Rightarrow> log_line list" where
  "heap_push v x = sift_up (length v) (v @ [x])"

text \<open>
  The heap's vector is then sorted stably, lines without a timestamp first.
\<close>

definition time_order :: "log_line \<Rightarrow> bool \<times> int" where
  "time_order l = (case ll_timestamp l of None \<Rightarrow> (False, 0) | Some t \<Rightarrow> (True, t))"

definition order_lines :: "log_line list \<Rightarrow> log_line list" where
  "order_lines ls = sort_key time_order (foldl heap_push [] ls)"

definition parse_timestamp :: "(string \<Rightarrow> timestamp option) \<Rightarrow> string \<Rightarrow> timestamp option" where
  "parse_timestamp parse_from_rfc3339 line = parse_from_rfc3339 (takeWhile (\<lambda>c. c \<noteq> CHR '' '') line)"

definition log_line_of :: "(string \<Rightarrow> timestamp option) \<Rightarrow> string \<Rightarrow> string \<Rightarrow> log_line" where
  "log_line_of parse_from_rfc3339 name line =
     \<lparr>ll_source = name, ll_timestamp = parse_timestamp parse_from_rfc3339 line, ll_line = trim_end line\<rparr>"

definition read_lines :: "(string \<Rightarrow> timestamp option) \<Rightarrow> (string \<times> string list) list \<Rightarrow> log_line list" where
  "read_lines parse_from_rfc3339 readers =
     concat (map (\<lambda>(name, ls). map (log_line_of parse_from_rfc3339 name) ls) readers)"

section \<open>Network state\<close>

record message_info =
  mi_senders :: "(string \<times> timestamp) list"
  mi_receivers_by_node :: "(string \<times> timestamp) list"
  mi_timestamp :: timestamp
  mi_first_sender :: string

record network_state =
  nw_broadcast_tracker :: "(message_key \<times> message_info) list"
  nw_histogram :: delivery_histogram
  nw_last_timestamp :: "timestamp option"
  nw_first_timestamp :: "timestamp option"
  nw_max_message_delay_ms :: u64
  nw_quiet :: bool
  nw_reported_unreceived :: "(string \<times> message_key) list"
  nw_trace :: bool
  nw_wire_tracker :: "wire_tracker option"

definition network_state_new :: "timestamp \<Rightarrow> u64 \<Rightarrow> u64 \<Rightarrow> bool \<Rightarrow> bool \<Rightarrow> network_state option" where
  "network_state_new now max_message_delay_ms bucket_size_ms quiet trace = do {
     h \<leftarrow> histogram_new now max_message_delay_ms bucket_size_ms;
     Some \<lparr>nw_broadcast_tracker = [], nw_histogram = h, nw_last_timestamp = None,
           nw_first_timestamp = None, nw_max_message_delay_ms = max_message_delay_ms, nw_quiet = quiet,
           nw_reported_unreceived = [], nw_trace = trace,
           nw_wire_tracker = (if trace then Some (wire_tracker_new now) else None)\<rparr>
   }"

datatype log_output =
    Separator
  | Traced (out_offset: "int option") (out_node: string) (out_event: trace_event) (out_latency: "u64 option")
  | WireLine (out_wire: wire_stats)
  | HistogramLine (out_histogram: histogram_stats)
  | Printed (out_source: string) (out_offset: "int option") (out_line: string)
  | NotReceived (out_source: string) (out_keys: "message_key list") (out_text: string)
  | Summary (out_summary: wire_summary)

section \<open>Messages not received\<close>

definition unreceived_by ::
  "string \<Rightarrow> timestamp option \<Rightarrow> u64 \<Rightarrow> (string \<times> message_key) list \<Rightarrow> message_key \<times> message_info \<Rightarrow> bool" where
  "unreceived_by node current_timestamp max_message_delay_ms already_reported e =
     (case e of (msg_key, msg_info) \<Rightarrow>
        (node, msg_key) \<notin> set already_reported \<and>
        \<not> contains_key (mi_receivers_by_node msg_info) node \<and>
        (case current_timestamp of
           None \<Rightarrow> True
         | Some current_time \<Rightarrow>
             \<not> max 0 (current_time - mi_timestamp msg_info) < uint max_message_delay_ms * 1000000) \<and>
        0 < length (filter (\<lambda>sender_name. sender_name \<noteq> node) (map fst (mi_senders msg_info))))"

definition get_unreceived_messages_for_node ::
  "(message_key \<times> message_info) list \<Rightarrow> string \<Rightarrow> timestamp option \<Rightarrow> u64 \<Rightarrow>
   (string \<times> message_key) list \<Rightarrow> message_key list" where
  "get_unreceived_messages_for_node broadcast_tracker node current_timestamp max_message_delay_ms already_reported =
     map fst (filter (unreceived_by node current_timestamp max_message_delay_ms already_reported) broadcast_tracker)"

definition group_kinds :: "((u64 \<times> u64) \<times> char list) list \<Rightarrow> message_key \<Rightarrow> ((u64 \<times> u64) \<times> char list) list" where
  "group_kinds grouped k =
     modify_entry [] (mk_height k, mk_round k) (\<lambda>kinds. kinds @ [mk_kind k]) grouped"

definition format_unreceived_messages :: "message_key list \<Rightarrow> string" where
  "format_unreceived_messages messages =
     join '' '' (map (\<lambda>((h, r), kinds). show_u64 h @ ''.'' @ show_u64 r @ '':'' @ sort kinds)
       (sort_key fst (foldl group_kinds [] messages)))"

section \<open>One line\<close>

text \<open>The timestamps: the first is rounded down to a second; a new slot of 100 ms prints a separator.\<close>

definition timestamp_millis :: "timestamp \<Rightarrow> int" where
  "timestamp_millis t = t div 1000000"

definition note_timestamp :: "log_line \<Rightarrow> network_state \<Rightarrow> network_state \<times> log_output list" where
  "note_timestamp l s =
     (case ll_timestamp l of
        None \<Rightarrow> (s, [])
      | Some current_time \<Rightarrow>
          let s = (if nw_first_timestamp s = None
                   then s\<lparr>nw_first_timestamp := Some (current_time div 1000000000 * 1000000000)\<rparr> else s);
              out = (case nw_last_timestamp s of
                       None \<Rightarrow> []
                     | Some last_time \<Rightarrow>
                         if timestamp_millis current_time sdiv 100 \<noteq> timestamp_millis last_time sdiv 100
                            \<and> \<not> nw_quiet s
                         then [Separator] else []) in
          (s\<lparr>nw_last_timestamp := Some current_time\<rparr>, out))"

definition note_source :: "log_line \<Rightarrow> network_state \<Rightarrow> network_state" where
  "note_source l s =
     (if nw_trace s then
        case parse_validator_name (ll_source l) of
          Some node \<Rightarrow> s\<lparr>nw_wire_tracker := map_option (note_node node) (nw_wire_tracker s)\<rparr>
        | None \<Rightarrow> s
      else s)"

definition offset_from :: "timestamp option \<Rightarrow> timestamp \<Rightarrow> int option" where
  "offset_from first t = map_option (\<lambda>ft. timestamp_millis t - timestamp_millis ft) first"

definition wire_dump_if_due :: "timestamp \<Rightarrow> wire_tracker \<Rightarrow> wire_tracker \<times> log_output list" where
  "wire_dump_if_due current_time t =
     (if wire_should_dump t current_time
      then let (t, stats) = wire_dump_and_reset current_time t in (t, [WireLine stats])
      else (t, []))"

definition format_trace_event ::
  "trace_event \<Rightarrow> string \<Rightarrow> timestamp \<Rightarrow> timestamp option \<Rightarrow> wire_tracker \<Rightarrow> wire_tracker \<times> log_output list" where
  "format_trace_event event node ts first_timestamp tracker =
     (let (tracker, latency) = trace_effect event node ts tracker in
      (tracker, [Traced (offset_from first_timestamp ts) node event latency]))"

definition process_trace :: "timestamp \<Rightarrow> log_line \<Rightarrow> network_state \<Rightarrow> network_state \<times> log_output list" where
  "process_trace now l s =
     (case (parse_trace_line (ll_line l), parse_validator_name (ll_source l), nw_wire_tracker s) of
        (Some event, Some node, Some tracker) \<Rightarrow>
          let ts = (case ll_timestamp l of Some t \<Rightarrow> t | None \<Rightarrow> now);
              (tracker, out) =
                (if nw_quiet s then (record_trace_event event node ts tracker, [])
                 else format_trace_event event node ts (nw_first_timestamp s) tracker);
              (tracker, dumped) = wire_dump_if_due ts tracker in
          (s\<lparr>nw_wire_tracker := Some tracker\<rparr>, out @ dumped)
      | _ \<Rightarrow> (s, []))"

definition note_level :: "string \<Rightarrow> delivery_histogram \<Rightarrow> delivery_histogram" where
  "note_level line h =
     (if contains '' WARN '' line then record_warn h
      else if contains '' ERROR '' line then record_error h else h)"

definition dump_histogram :: "timestamp \<Rightarrow> delivery_histogram \<Rightarrow> delivery_histogram \<times> log_output list" where
  "dump_histogram current_time h =
     (let (h, stats) = histogram_dump_and_reset current_time h in
      (h, case stats of None \<Rightarrow> [] | Some st \<Rightarrow> [HistogramLine st]))"

definition dump_histogram_due :: "timestamp \<Rightarrow> delivery_histogram \<Rightarrow> delivery_histogram \<times> log_output list" where
  "dump_histogram_due current_time h =
     (if histogram_should_dump h current_time then dump_histogram current_time h else (h, []))"

definition dump_wire_due :: "timestamp \<Rightarrow> wire_tracker option \<Rightarrow> wire_tracker option \<times> log_output list" where
  "dump_wire_due current_time w =
     (case w of
        None \<Rightarrow> (None, [])
      | Some t \<Rightarrow> let (t, out) = wire_dump_if_due current_time t in (Some t, out))"

definition dump_due :: "log_line \<Rightarrow> network_state \<Rightarrow> network_state \<times> log_output list" where
  "dump_due l s =
     (case ll_timestamp l of
        None \<Rightarrow> (s, [])
      | Some current_time \<Rightarrow>
          let (h, out1) = dump_histogram_due current_time (nw_histogram s);
              (w, out2) = dump_wire_due current_time (nw_wire_tracker s) in
          (s\<lparr>nw_histogram := h, nw_wire_tracker := w\<rparr>, out1 @ out2))"

definition print_line :: "log_line \<Rightarrow> network_state \<Rightarrow> log_output list" where
  "print_line l s =
     (if nw_quiet s then []
      else [Printed (ll_source l)
        (case ll_timestamp l of None \<Rightarrow> None | Some t \<Rightarrow> offset_from (nw_first_timestamp s) t) (ll_line l)])"

text \<open>Marking a broadcast message as received, and the delay since its earliest send.\<close>

definition receive_message :: "string \<Rightarrow> timestamp \<Rightarrow> network_state \<Rightarrow> message_key \<Rightarrow> network_state option" where
  "receive_message validator receive_time s msg_key =
     (case map_of (nw_broadcast_tracker s) msg_key of
        None \<Rightarrow> Some s
      | Some msg_info \<Rightarrow>
          let s = s\<lparr>nw_broadcast_tracker := AList.update msg_key
                (msg_info\<lparr>mi_receivers_by_node := AList.update validator receive_time (mi_receivers_by_node msg_info)\<rparr>)
                (nw_broadcast_tracker s)\<rparr> in
          case vec_min (map snd (mi_senders msg_info)) of
            None \<Rightarrow> Some s
          | Some earliest_send_time \<Rightarrow> do {
              h \<leftarrow> histogram_record (elapsed_ms receive_time earliest_send_time) (nw_histogram s);
              Some (s\<lparr>nw_histogram := h\<rparr>)
            })"

definition report_unreceived :: "log_line \<Rightarrow> string \<Rightarrow> network_state \<Rightarrow> network_state \<times> log_output list" where
  "report_unreceived l validator s =
     (let unreceived_msgs = get_unreceived_messages_for_node (nw_broadcast_tracker s) validator
            (ll_timestamp l) (nw_max_message_delay_ms s) (nw_reported_unreceived s) in
      if unreceived_msgs = [] then (s, [])
      else
        (s\<lparr>nw_histogram := (nw_histogram s)\<lparr>dh_never_received :=
               dh_never_received (nw_histogram s) + of_nat (length unreceived_msgs)\<rparr>,
           nw_reported_unreceived :=
             foldl (\<lambda>r k. hash_insert (validator, k) r) (nw_reported_unreceived s) unreceived_msgs\<rparr>,
         [NotReceived (ll_source l) unreceived_msgs (format_unreceived_messages unreceived_msgs)]))"

definition process_before ::
  "timestamp \<Rightarrow> log_line \<Rightarrow> string \<Rightarrow> network_state \<Rightarrow> (network_state \<times> log_output list) option" where
  "process_before ts l validator s =
     (if is_before_line (ll_line l) then do {
        s \<leftarrow> try_fold (receive_message validator ts) s (parse_input_messages (ll_line l));
        Some (report_unreceived l validator s)
      } else Some (s, []))"

definition broadcast_message :: "string \<Rightarrow> timestamp \<Rightarrow> network_state \<Rightarrow> message_key \<Rightarrow> network_state" where
  "broadcast_message validator send_time s msg_key =
     s\<lparr>nw_broadcast_tracker := modify_entry
         \<lparr>mi_senders = [], mi_receivers_by_node = [], mi_timestamp = send_time, mi_first_sender = validator\<rparr>
         msg_key (\<lambda>i. i\<lparr>mi_senders := AList.update validator send_time (mi_senders i)\<rparr>)
         (nw_broadcast_tracker s)\<rparr>"

definition process_after :: "timestamp \<Rightarrow> log_line \<Rightarrow> string \<Rightarrow> network_state \<Rightarrow> network_state option" where
  "process_after ts l validator s =
     (if is_after_line (ll_line l) then
        let s = foldl (broadcast_message validator ts) s (parse_output_messages (ll_line l)) in
        try_fold (receive_message validator ts) s (parse_input_messages (ll_line l))
      else Some s)"

definition process_messages ::
  "timestamp \<Rightarrow> log_line \<Rightarrow> network_state \<Rightarrow> (network_state \<times> log_output list) option" where
  "process_messages now l s =
     (case parse_validator_name (ll_source l) of
        None \<Rightarrow> Some (s, [])
      | Some validator \<Rightarrow>
          let ts = (case ll_timestamp l of Some t \<Rightarrow> t | None \<Rightarrow> now) in do {
            (s, out) \<leftarrow> process_before ts l validator s;
            s \<leftarrow> process_after ts l validator s;
            Some (s, out)
          })"

definition process_and_print_line ::
  "timestamp \<Rightarrow> log_line \<Rightarrow> network_state \<Rightarrow> (network_state \<times> log_output list) option" where
  "process_and_print_line now l s =
     (let is_trace_line = contains ''msg_trace: '' (ll_line l) in
      if is_trace_line \<and> \<not> nw_trace s then Some (s, [])
      else
        let (s, out1) = note_timestamp l s;
            s = note_source l s in
        if is_trace_line then let (s, out2) = process_trace now l s in Some (s, out1 @ out2)
        else
          let s = s\<lparr>nw_histogram := note_level (ll_line l) (nw_histogram s)\<rparr>;
              (s, out2) = dump_due l s;
              out3 = print_line l s in do {
            (s, out4) \<leftarrow> process_messages now l s;
            Some (s, out1 @ out2 @ out3 @ out4)
          })"

section \<open>The command\<close>

text \<open>All lines, each with what the wall clock reads when it is processed.\<close>

definition process_step ::
  "network_state \<times> log_output list \<Rightarrow> timestamp \<times> log_line \<Rightarrow> (network_state \<times> log_output list) option" where
  "process_step st e =
     (case (st, e) of ((s, out), (now, l)) \<Rightarrow>
        do { (s, out') \<leftarrow> process_and_print_line now l s; Some (s, out @ out') })"

definition process_lines ::
  "(timestamp \<times> log_line) list \<Rightarrow> network_state \<Rightarrow> (network_state \<times> log_output list) option" where
  "process_lines ls s = try_fold process_step (s, []) ls"

text \<open>
  The entries of the log directory: name, whether it is a file, and the lines it opens to.
\<close>

type_synonym dir_entry = "string \<times> bool \<times> string list option"

datatype logjam_error = DirectoryMissing | NoLogFiles | NothingOpened

definition log_files :: "dir_entry list \<Rightarrow> dir_entry list" where
  "log_files entries =
     sort_key fst (filter (\<lambda>(name, is_file, _). is_file \<and> starts_with ''node'' name \<and> ends_with ''.log'' name) entries)"

definition open_readers :: "dir_entry list option \<Rightarrow> logjam_error + (string \<times> string list) list" where
  "open_readers dir =
     (case dir of
        None \<Rightarrow> Inl DirectoryMissing
      | Some entries \<Rightarrow>
          let files = log_files entries in
          if files = [] then Inl NoLogFiles
          else let readers = filter_map (\<lambda>(name, _, ls). map_option (Pair name) ls) files in
            if readers = [] then Inl NothingOpened else Inr readers)"

definition final_histogram :: "timestamp \<Rightarrow> delivery_histogram \<Rightarrow> delivery_histogram \<times> log_output list" where
  "final_histogram now h = (if 0 < dh_total_messages h then dump_histogram now h else (h, []))"

definition final_wire :: "timestamp \<Rightarrow> wire_tracker option \<Rightarrow> wire_tracker option \<times> log_output list" where
  "final_wire now w =
     (case w of
        None \<Rightarrow> (None, [])
      | Some t \<Rightarrow>
          let (t, stats) = wire_dump_and_reset now t in (Some t, [WireLine stats, Summary (wire_summary_of t)]))"

definition final_dumps :: "timestamp \<Rightarrow> network_state \<Rightarrow> network_state \<times> log_output list" where
  "final_dumps now s =
     (let (h, out1) = final_histogram now (nw_histogram s);
          (w, out2) = final_wire now (nw_wire_tracker s) in
      (s\<lparr>nw_histogram := h, nw_wire_tracker := w\<rparr>, out1 @ out2))"

text \<open>
  The part of the command before tailing, and one round of the tailing loop.  \<open>clock\<close> numbers the
  readings of the wall clock: one when the state is made, one per line, one for the final dumps.
\<close>

definition process_ordered ::
  "(nat \<Rightarrow> timestamp) \<Rightarrow> log_line list \<Rightarrow> network_state \<Rightarrow> (network_state \<times> log_output list) option" where
  "process_ordered clock ls s = process_lines (zip (map clock [0..<length ls]) (order_lines ls)) s"

definition logjam_existing ::
  "(string \<Rightarrow> timestamp option) \<Rightarrow> (nat \<Rightarrow> timestamp) \<Rightarrow> (string \<times> string list) list \<Rightarrow>
   u64 \<Rightarrow> u64 \<Rightarrow> bool \<Rightarrow> bool \<Rightarrow> (network_state \<times> log_output list) option" where
  "logjam_existing parse_from_rfc3339 clock readers max_message_delay_ms bucket_size_ms quiet trace = do {
     s \<leftarrow> network_state_new (clock 0) max_message_delay_ms bucket_size_ms quiet trace;
     let ls = read_lines parse_from_rfc3339 readers;
     (s, out) \<leftarrow> process_ordered (\<lambda>i. clock (Suc i)) ls s;
     let (s, final) = final_dumps (clock (Suc (length ls))) s;
     Some (s, out @ final)
   }"

definition tail_round ::
  "(string \<Rightarrow> timestamp option) \<Rightarrow> (nat \<Rightarrow> timestamp) \<Rightarrow> (string \<times> string list) list \<Rightarrow>
   network_state \<Rightarrow> (network_state \<times> log_output list) option" where
  "tail_round parse_from_rfc3339 clock readers s =
     (let ls = read_lines parse_from_rfc3339 readers in
      if ls = [] then Some (s, []) else process_ordered clock ls s)"

end
