(* ===== verification/Logjam_Facts.thy ===== *)
theory Logjam_Facts
  imports Logjam
begin

text \<open>
  Lemmas on the log analyser: the order of the lines, invariants over any sequence of lines, and
  the accounting of the delivery histogram and of the wire tracker.
\<close>

section \<open>Lines\<close>

lemma mset_sift_up: "pos < length v \<Longrightarrow> mset (sift_up pos v) = mset v"
proof (induction pos v rule: sift_up.induct)
  case (1 pos v)
  let ?p = "(pos - 1) div 2"
  show ?case
  proof (cases "pos = 0 \<or> log_line_cmp (v ! pos) (v ! ?p) \<noteq> Greater")
    case True
    then show ?thesis by (subst sift_up.simps) auto
  next
    case False
    with 1 have "mset (sift_up pos v) = mset (v[pos := v ! ?p, ?p := v ! pos])"
      by (subst sift_up.simps) (auto simp: Let_def)
    also have "\<dots> = mset v" using 1 False by (intro mset_swap) auto
    finally show ?thesis .
  qed
qed

lemma mset_heap: "mset (foldl heap_push v ls) = mset v + mset ls"
  by (induction ls arbitrary: v) (simp_all add: heap_push_def mset_sift_up)

section \<open>Invariants of the analyser\<close>

text \<open>
  An invariant of the state and of what has been printed, kept by each part of the processing of a
  line, holds after any sequence of lines.
\<close>

locale line_invariant =
  fixes Inv :: "log_output list \<Rightarrow> network_state \<Rightarrow> bool"
  assumes inv_timestamp: "Inv out s \<Longrightarrow> note_timestamp l s = (s', o1) \<Longrightarrow> Inv (out @ o1) s'"
    and inv_source: "Inv out s \<Longrightarrow> Inv out (note_source l s)"
    and inv_trace: "Inv out s \<Longrightarrow> process_trace now l s = (s', o1) \<Longrightarrow> Inv (out @ o1) s'"
    and inv_level: "Inv out s \<Longrightarrow> Inv out (s\<lparr>nw_histogram := note_level tx (nw_histogram s)\<rparr>)"
    and inv_dump: "Inv out s \<Longrightarrow> dump_due l s = (s', o1) \<Longrightarrow> Inv (out @ o1) s'"
    and inv_print: "Inv out s \<Longrightarrow> Inv (out @ print_line l s) s"
    and inv_receive: "Inv out s \<Longrightarrow> receive_message v ts s k = Some s' \<Longrightarrow> Inv out s'"
    and inv_report: "Inv out s \<Longrightarrow> parse_validator_name (ll_source l) = Some v \<Longrightarrow>
      report_unreceived l v s = (s', o1) \<Longrightarrow> Inv (out @ o1) s'"
    and inv_broadcast: "Inv out s \<Longrightarrow> Inv out (broadcast_message v ts s k)"
    and inv_final: "Inv out s \<Longrightarrow> final_dumps now s = (s', o1) \<Longrightarrow> Inv (out @ o1) s'"
begin

lemma receive_all: "Inv out s \<Longrightarrow> try_fold (receive_message v ts) s ks = Some s' \<Longrightarrow> Inv out s'"
  by (erule try_fold_invariant [where I = "Inv out"]) (auto dest: inv_receive)

lemma broadcast_all: "Inv out s \<Longrightarrow> Inv out (foldl (broadcast_message v ts) s ks)"
  by (induction ks arbitrary: s) (simp_all add: inv_broadcast)

lemma messages_keep:
  assumes "Inv out s" and "process_messages now l s = Some (s', o1)"
  shows "Inv (out @ o1) s'"
proof (cases "parse_validator_name (ll_source l)")
  case (Some v)
  let ?ts = "case ll_timestamp l of Some t \<Rightarrow> t | None \<Rightarrow> now"
  from assms(2) Some obtain s1 where before: "process_before ?ts l v s = Some (s1, o1)"
    and after: "process_after ?ts l v s1 = Some s'"
    by (auto simp: process_messages_def Let_def split: bind_splits)
  from before assms(1) have "Inv (out @ o1) s1"
    by (auto simp: process_before_def dest: receive_all intro: inv_report [OF _ Some] split: if_splits bind_splits)
  with after show ?thesis
    by (auto simp: process_after_def Let_def dest: receive_all [OF broadcast_all] split: if_splits)
qed (use assms in \<open>simp add: process_messages_def\<close>)

lemma line_keeps:
  assumes "Inv out s" and "process_and_print_line now l s = Some (s', o1)"
  shows "Inv (out @ o1) s'"
proof (cases "contains ''msg_trace: '' (ll_line l) \<and> \<not> nw_trace s")
  case False
  obtain s1 out1 where 1: "note_timestamp l s = (s1, out1)" by fastforce
  let ?s2 = "note_source l s1"
  have 2: "Inv (out @ out1) ?s2" using inv_source [OF inv_timestamp [OF assms(1) 1]] .
  show ?thesis
  proof (cases "contains ''msg_trace: '' (ll_line l)")
    case True
    with False assms(2) 1 2 show ?thesis
      by (auto simp: process_and_print_line_def Let_def dest: inv_trace split: prod.splits)
  next
    case no_trace: False
    let ?s3 = "?s2\<lparr>nw_histogram := note_level (ll_line l) (nw_histogram ?s2)\<rparr>"
    obtain s4 out2 where 4: "dump_due l ?s3 = (s4, out2)" by fastforce
    have "Inv ((out @ out1) @ out2) s4" using inv_dump [OF inv_level [OF 2] 4] .
    then have 5: "Inv (((out @ out1) @ out2) @ print_line l s4) s4" by (rule inv_print)
    from assms(2) no_trace 1 4 obtain out4 where "process_messages now l s4 = Some (s', out4)"
      and "o1 = out1 @ out2 @ print_line l s4 @ out4"
      by (auto simp: process_and_print_line_def Let_def split: bind_splits)
    with messages_keep [OF 5] show ?thesis by simp
  qed
qed (use assms in \<open>simp add: process_and_print_line_def Let_def\<close>)

lemma lines_keep:
  assumes "Inv out s" and "process_lines ls s = Some (s', o1)"
  shows "Inv (out @ o1) s'"
proof -
  have "(\<lambda>(s, o1). Inv (out @ o1) s) (s', o1)"
    by (rule try_fold_invariant [OF assms(2) [unfolded process_lines_def]])
      (use assms(1) line_keeps in \<open>fastforce simp: process_step_def split: bind_splits\<close>)+
  then show ?thesis by simp
qed

lemma existing_keeps:
  assumes start: "\<And>s. network_state_new (clock 0) max_delay bucket quiet trace = Some s \<Longrightarrow> Inv [] s"
    and run: "logjam_existing parse clock readers max_delay bucket quiet trace = Some (s', out)"
  shows "Inv out s'"
proof -
  from run obtain s0 s1 out1 out2 where
    "network_state_new (clock 0) max_delay bucket quiet trace = Some s0" and
    lines: "process_lines (zip (map (\<lambda>i. clock (Suc i)) [0..<length (read_lines parse readers)])
      (order_lines (read_lines parse readers))) s0 = Some (s1, out1)" and
    final: "final_dumps (clock (Suc (length (read_lines parse readers)))) s1 = (s', out2)" and
    out: "out = out1 @ out2"
    by (auto simp: logjam_existing_def process_ordered_def Let_def split: bind_splits prod.splits)
  then have "Inv [] s0" using start by blast
  from inv_final [OF lines_keep [OF this lines] final] out show ?thesis by simp
qed

end

text \<open>An invariant under which no reception fails: then no line fails.\<close>

locale total_line_invariant = line_invariant +
  assumes receive_total: "Inv out s \<Longrightarrow> \<exists>s'. receive_message v ts s k = Some s'"
begin

lemma receive_all_total: "Inv out s \<Longrightarrow> \<exists>s'. try_fold (receive_message v ts) s ks = Some s'"
  using try_fold_total [where I = "Inv out" and f = "receive_message v ts" and xs = ks and s = s]
    receive_total inv_receive by blast

lemma messages_total:
  assumes "Inv out s"
  shows "\<exists>s' o1. process_messages now l s = Some (s', o1)"
proof (cases "parse_validator_name (ll_source l)")
  case (Some v)
  let ?ts = "case ll_timestamp l of Some t \<Rightarrow> t | None \<Rightarrow> now"
  obtain s0 where "try_fold (receive_message v ?ts) s (parse_input_messages (ll_line l)) = Some s0"
    using receive_all_total [OF assms] by blast
  then obtain s1 o1 where before: "process_before ?ts l v s = Some (s1, o1)"
    by (cases "report_unreceived l v s0"; cases "is_before_line (ll_line l)") (auto simp: process_before_def)
  then have "Inv (out @ o1) s1"
    using assms by (auto simp: process_before_def dest: receive_all intro: inv_report [OF _ Some] split: if_splits bind_splits)
  then obtain s2 where "process_after ?ts l v s1 = Some s2"
    using receive_all_total [OF broadcast_all, of "out @ o1" s1 v ?ts v ?ts "parse_output_messages (ll_line l)"
        "parse_input_messages (ll_line l)"]
    by (cases "is_after_line (ll_line l)") (auto simp: process_after_def Let_def)
  with Some before show ?thesis by (simp add: process_messages_def)
qed (simp add: process_messages_def)

lemma line_total:
  assumes "Inv out s"
  shows "\<exists>s' o1. process_and_print_line now l s = Some (s', o1)"
proof -
  obtain s1 out1 where 1: "note_timestamp l s = (s1, out1)" by fastforce
  let ?s2 = "note_source l s1"
  let ?s3 = "?s2\<lparr>nw_histogram := note_level (ll_line l) (nw_histogram ?s2)\<rparr>"
  obtain s4 out2 where 4: "dump_due l ?s3 = (s4, out2)" by fastforce
  have "Inv ((out @ out1) @ out2) s4"
    using inv_dump [OF inv_level [OF inv_source [OF inv_timestamp [OF assms 1]]] 4] .
  from messages_total [OF this] obtain s5 out4 where "process_messages now l s4 = Some (s5, out4)" by blast
  with 1 4 show ?thesis by (simp add: process_and_print_line_def Let_def split: prod.splits)
qed

lemma lines_total:
  assumes "Inv [] s"
  shows "\<exists>s' o1. process_lines ls s = Some (s', o1) \<and> Inv o1 s'"
proof -
  have "\<exists>t. try_fold process_step (s, []) ls = Some t \<and> (\<lambda>(s, o1). Inv o1 s) t"
  proof (rule try_fold_total)
    fix st e assume "(\<lambda>(s, o1). Inv o1 s) st"
    then show "\<exists>t. process_step st e = Some t \<and> (\<lambda>(s, o1). Inv o1 s) t"
      using line_keeps [of "snd st" "fst st" "fst e" "snd e"] line_total [of "snd st" "fst st" "fst e" "snd e"]
      by (auto simp: process_step_def split: prod.splits)
  qed (simp add: assms)
  then show ?thesis by (auto simp: process_lines_def)
qed

end

section \<open>Histogram\<close>

text \<open>The buckets are there and their counts add up to the number of messages.\<close>

definition histogram_ok :: "delivery_histogram \<Rightarrow> bool" where
  "histogram_ok h \<longleftrightarrow> dh_bucket_size_ms h \<noteq> 0 \<and> dh_buckets h \<noteq> [] \<and> sum_list (dh_buckets h) = dh_total_messages h"

lemma sum_list_increment:
  "i < length xs \<Longrightarrow> sum_list (xs[i := xs ! i + 1]) = sum_list xs + (1 :: u64)"
  by (induction xs arbitrary: i) (simp_all add: nth_Cons algebra_simps split: nat.splits)

lemma histogram_record_ok:
  assumes "histogram_ok h"
  shows "\<exists>h'. histogram_record d h = Some h' \<and> histogram_ok h'"
proof -
  have "bucket_index h d < length (dh_buckets h)"
    using assms by (cases "dh_buckets h") (auto simp: bucket_index_def histogram_ok_def)
  then show ?thesis
    using assms by (auto simp: histogram_record_def histogram_ok_def Let_def sum_list_increment)
qed

lemma histogram_record_okD: "histogram_ok h \<Longrightarrow> histogram_record d h = Some h' \<Longrightarrow> histogram_ok h'"
  using histogram_record_ok [of h d] by auto

lemma histogram_level_ok [simp]: "histogram_ok (note_level l h) = histogram_ok h"
  by (simp add: note_level_def record_warn_def record_error_def histogram_ok_def)

lemma histogram_never_received_ok [simp]: "histogram_ok (h\<lparr>dh_never_received := n\<rparr>) = histogram_ok h"
  by (simp add: histogram_ok_def)

text \<open>The ranges of a dumped line account for every message.\<close>

lemma histogram_ranges_sum: "sum_list (map (\<lambda>(_, _, n). n) (histogram_ranges h)) = sum_list (dh_buckets h)"
proof -
  have "sum_list (map (\<lambda>(_, _, n). n) (filter_map (\<lambda>(i, n). if 0 < n then Some (f i, g i, n) else None)
      (List.enumerate k xs))) = sum_list xs" for f :: "nat \<Rightarrow> u64" and g :: "nat \<Rightarrow> u64 + u64" and k and xs :: "u64 list"
    by (induction xs arbitrary: k) (auto simp: word_gt_0)
  from this [of "\<lambda>i. of_nat i * dh_bucket_size_ms h" "\<lambda>i. if i = length (dh_buckets h) - 1 then Inr (dh_max_delay_ms h)
      else Inl (of_nat i * dh_bucket_size_ms h + dh_bucket_size_ms h)" 0 "dh_buckets h"] show ?thesis
    by (simp add: histogram_ranges_def Let_def cong: if_cong)
qed

definition histogram_line_ok :: "log_output \<Rightarrow> bool" where
  "histogram_line_ok e = (case e of HistogramLine st \<Rightarrow>
     sum_list (map (\<lambda>(_, _, n). n) (hs_ranges st)) = hs_total st | _ \<Rightarrow> True)"

lemma dump_histogram_ok:
  assumes "histogram_ok h" and "dump_histogram t h = (h', o1)"
  shows "histogram_ok h' \<and> (\<forall>e\<in>set o1. histogram_line_ok e)"
  using assms
  by (auto simp: dump_histogram_def histogram_dump_and_reset_def histogram_line_ok_def histogram_ranges_sum
      histogram_ok_def sum_list_replicate split: if_splits)

lemma dump_lines:
  "dump_histogram_due t h = (h', o1) \<Longrightarrow> \<forall>e\<in>set o1. is_HistogramLine e"
  "final_histogram t h = (h', o1) \<Longrightarrow> \<forall>e\<in>set o1. is_HistogramLine e"
  "dump_wire_due t w = (w', o2) \<Longrightarrow> \<forall>e\<in>set o2. is_WireLine e"
  "final_wire t w = (w', o2) \<Longrightarrow> \<forall>e\<in>set o2. is_WireLine e \<or> is_Summary e"
  by (auto simp: dump_histogram_due_def final_histogram_def dump_histogram_def dump_wire_due_def final_wire_def
      wire_dump_if_due_def split: prod.splits option.splits if_splits)

text \<open>Both places that dump do so for the histogram first and then for the wire tracker.\<close>

definition dumped :: "network_state \<Rightarrow> network_state \<Rightarrow> log_output list \<Rightarrow> log_output list \<Rightarrow> bool" where
  "dumped s s' o1 o2 \<longleftrightarrow>
    (\<exists>t h w. s' = s\<lparr>nw_histogram := h, nw_wire_tracker := w\<rparr> \<and>
       (dump_histogram_due t (nw_histogram s) = (h, o1) \<and> dump_wire_due t (nw_wire_tracker s) = (w, o2) \<or>
        final_histogram t (nw_histogram s) = (h, o1) \<and> final_wire t (nw_wire_tracker s) = (w, o2)))"

lemma dump_due_dumped:
  assumes "dump_due l s = (s', out)"
  obtains "s' = s" "out = []" | o1 o2 where "out = o1 @ o2" "dumped s s' o1 o2"
  using assms by (fastforce simp: dump_due_def dumped_def Let_def split: option.splits prod.splits)

lemma final_dumps_dumped:
  assumes "final_dumps now s = (s', out)"
  obtains o1 o2 where "out = o1 @ o2" "dumped s s' o1 o2"
  using assms by (fastforce simp: final_dumps_def dumped_def Let_def split: prod.splits)

lemma dumped_same:
  assumes "dumped s s' o1 o2"
  shows "nw_broadcast_tracker s' = nw_broadcast_tracker s \<and>
    nw_reported_unreceived s' = nw_reported_unreceived s \<and>
    (\<forall>e\<in>set o1. is_HistogramLine e) \<and> (\<forall>e\<in>set o2. is_WireLine e \<or> is_Summary e)"
  using assms by (auto simp: dumped_def dest!: dump_lines)

lemma note_timestamp_cases:
  assumes "note_timestamp l s = (s', o1)"
  shows "nw_histogram s' = nw_histogram s \<and> nw_wire_tracker s' = nw_wire_tracker s \<and>
    nw_broadcast_tracker s' = nw_broadcast_tracker s \<and> nw_reported_unreceived s' = nw_reported_unreceived s \<and>
    (\<forall>e\<in>set o1. e = Separator)"
  using assms by (auto simp: note_timestamp_def Let_def split: option.splits if_splits)

lemma note_source_same [simp]:
  "nw_histogram (note_source l s) = nw_histogram s"
  "nw_broadcast_tracker (note_source l s) = nw_broadcast_tracker s"
  "nw_reported_unreceived (note_source l s) = nw_reported_unreceived s"
  by (simp_all add: note_source_def split: option.splits)

lemma process_trace_cases:
  assumes "process_trace now l s = (s', o1)"
  shows "nw_histogram s' = nw_histogram s \<and> nw_broadcast_tracker s' = nw_broadcast_tracker s \<and>
    nw_reported_unreceived s' = nw_reported_unreceived s \<and>
    (\<forall>e\<in>set o1. is_Traced e \<or> is_WireLine e)"
  using assms
  by (auto simp: process_trace_def format_trace_event_def wire_dump_if_due_def Let_def
      split: option.splits prod.splits if_splits)

lemma broadcast_message_same [simp]:
  "nw_histogram (broadcast_message v t s k) = nw_histogram s"
  "nw_wire_tracker (broadcast_message v t s k) = nw_wire_tracker s"
  "nw_reported_unreceived (broadcast_message v t s k) = nw_reported_unreceived s"
  by (simp_all add: broadcast_message_def)

lemma receive_message_same:
  assumes "receive_message v t s k = Some s'"
  shows "nw_wire_tracker s' = nw_wire_tracker s \<and> nw_reported_unreceived s' = nw_reported_unreceived s"
  using assms by (auto simp: receive_message_def Let_def split: option.splits bind_splits)

section \<open>Accounting of the histogram\<close>

definition histogram_inv :: "log_output list \<Rightarrow> network_state \<Rightarrow> bool" where
  "histogram_inv out s \<longleftrightarrow> histogram_ok (nw_histogram s) \<and> (\<forall>e\<in>set out. histogram_line_ok e)"

lemma histogram_inv_quiet:
  "histogram_inv out s \<Longrightarrow> nw_histogram s' = nw_histogram s \<Longrightarrow>
    \<forall>e\<in>set o1. \<not> is_HistogramLine e \<Longrightarrow> histogram_inv (out @ o1) s'"
  by (auto simp: histogram_inv_def histogram_line_ok_def split: log_output.splits)

lemma histogram_dumped:
  assumes "dumped s s' o1 o2" and "histogram_inv out s"
  shows "histogram_inv (out @ o1 @ o2) s'"
proof -
  have "\<forall>e\<in>set o2. histogram_line_ok e"
    using dumped_same [OF assms(1)] by (auto simp: histogram_line_ok_def split: log_output.splits)
  moreover have "histogram_ok (nw_histogram s') \<and> (\<forall>e\<in>set o1. histogram_line_ok e)"
    using assms dump_histogram_ok
    by (fastforce simp: dumped_def histogram_inv_def dump_histogram_due_def final_histogram_def split: if_splits)
  ultimately show ?thesis using assms(2) by (auto simp: histogram_inv_def)
qed

interpretation histogram_accounting: total_line_invariant histogram_inv
proof unfold_locales
  fix out s l s' o1 assume inv: "histogram_inv out s"
  { assume "note_timestamp l s = (s', o1)"
    from note_timestamp_cases [OF this] show "histogram_inv (out @ o1) s'"
      by (intro histogram_inv_quiet [OF inv]) auto }
  { show "histogram_inv out (note_source l s)" using inv by (simp add: histogram_inv_def) }
  { fix now assume "process_trace now l s = (s', o1)"
    from process_trace_cases [OF this] show "histogram_inv (out @ o1) s'"
      by (intro histogram_inv_quiet [OF inv]) (auto simp: is_Traced_def is_WireLine_def) }
  { fix tx show "histogram_inv out (s\<lparr>nw_histogram := note_level tx (nw_histogram s)\<rparr>)"
      using inv by (simp add: histogram_inv_def) }
  { assume "dump_due l s = (s', o1)"
    then show "histogram_inv (out @ o1) s'"
      by (cases rule: dump_due_dumped) (simp_all add: inv histogram_dumped) }
  { show "histogram_inv (out @ print_line l s) s"
      using inv by (auto simp: print_line_def histogram_inv_def histogram_line_ok_def) }
  { fix v ts k assume "receive_message v ts s k = Some s'"
    then show "histogram_inv out s'"
      using inv by (auto simp: receive_message_def histogram_inv_def Let_def dest: histogram_record_okD
          split: option.splits bind_splits) }
  { fix v assume "report_unreceived l v s = (s', o1)"
    then show "histogram_inv (out @ o1) s'"
      using inv by (auto simp: report_unreceived_def histogram_inv_def histogram_line_ok_def Let_def split: if_splits) }
  { fix v ts k show "histogram_inv out (broadcast_message v ts s k)" using inv by (simp add: histogram_inv_def) }
  { fix now assume "final_dumps now s = (s', o1)"
    then show "histogram_inv (out @ o1) s'"
      by (cases rule: final_dumps_dumped) (simp add: inv histogram_dumped) }
  { fix v ts k show "\<exists>s'. receive_message v ts s k = Some s'"
      using inv histogram_record_ok [of "nw_histogram s"]
      by (simp add: receive_message_def histogram_inv_def Let_def split: option.splits bind_splits) (metis option.distinct(1)) }
qed

section \<open>Accounting of the wire tracker\<close>

text \<open>The sum of a counter over the periodic lines that have been printed.\<close>

definition printed_sum :: "(wire_stats \<Rightarrow> u64) \<Rightarrow> log_output list \<Rightarrow> u64" where
  "printed_sum f out = sum_list (map (\<lambda>e. case e of WireLine w \<Rightarrow> f w | _ \<Rightarrow> 0) out)"

lemma printed_sum_append [simp]: "printed_sum f (xs @ ys) = printed_sum f xs + printed_sum f ys"
  by (simp add: printed_sum_def)

lemma printed_sum_line [simp]: "printed_sum f [WireLine w] = f w" "printed_sum f [] = 0"
  "printed_sum f (WireLine w # out) = f w + printed_sum f out"
  "printed_sum f [Summary m] = 0" "printed_sum f [Traced a b c d] = 0"
  by (simp_all add: printed_sum_def)

lemma printed_sum_none [simp]: "\<forall>e\<in>set out. \<not> is_WireLine e \<Longrightarrow> printed_sum f out = 0"
  unfolding printed_sum_def by (induction out) (auto split: log_output.splits)

text \<open>Lifetime totals are what has been printed plus what has been counted since.\<close>

definition wire_ok :: "log_output list \<Rightarrow> wire_tracker \<Rightarrow> bool" where
  "wire_ok out t \<longleftrightarrow>
     wt_lifetime_sends t = printed_sum ws_sends out + wt_send_count t \<and>
     wt_lifetime_recvs t = printed_sum ws_recvs out + wt_recv_count t \<and>
     wt_lifetime_dups t = printed_sum ws_dups out + wt_dup_count t \<and>
     wt_lifetime_relays t = printed_sum ws_relays out + wt_relay_count t \<and>
     wt_lifetime_relay_fails t = printed_sum ws_relay_fails out + wt_relay_fail_count t \<and>
     wt_lifetime_drain_events t = printed_sum ws_drain_events out + wt_drain_event_count t \<and>
     wt_lifetime_drain_msgs t = printed_sum ws_drain_msgs out + wt_drain_msg_count t"

definition wire_keys_ok :: "wire_tracker \<Rightarrow> bool" where
  "wire_keys_ok t \<longleftrightarrow> distinct (map fst (wt_messages t))"

definition wire_inv :: "log_output list \<Rightarrow> network_state \<Rightarrow> bool" where
  "wire_inv out s \<longleftrightarrow> (\<forall>t. nw_wire_tracker s = Some t \<longrightarrow> wire_ok out t \<and> wire_keys_ok t)"

lemma distinct_modify_entry [simp]:
  "distinct (map fst m) \<Longrightarrow> distinct (map fst (modify_entry d k f m))"
  by (simp add: modify_entry_def distinct_update)

lemma trace_effect_ok:
  assumes "trace_effect ev node ts t = (t', lat)" and "wire_ok out t \<and> wire_keys_ok t"
  shows "wire_ok out t' \<and> wire_keys_ok t'"
  using assms
  by (cases ev) (auto simp: wire_ok_def wire_keys_ok_def record_send_def record_recv_def record_dup_def
      record_drain_def record_relay_def Let_def split: option.splits)

lemma wire_dump_ok:
  assumes "wire_dump_and_reset ts t = (t', st)" and "wire_ok out t \<and> wire_keys_ok t"
  shows "wire_ok (out @ [WireLine st]) t' \<and> wire_keys_ok t'"
  using assms by (auto simp: wire_ok_def wire_keys_ok_def wire_dump_and_reset_def wire_stats_of_def)

lemma wire_dump_if_due_ok:
  assumes "wire_dump_if_due ts t = (t', o1)" and "wire_ok out t \<and> wire_keys_ok t"
  shows "wire_ok (out @ o1) t' \<and> wire_keys_ok t'"
  using assms by (auto simp: wire_dump_if_due_def dest!: wire_dump_ok split: prod.splits if_splits)

lemma wire_ok_quiet: "\<forall>e\<in>set o1. \<not> is_WireLine e \<Longrightarrow> wire_ok (out @ o1) t = wire_ok out t"
  by (simp add: wire_ok_def)

lemma wire_inv_quiet:
  "wire_inv out s \<Longrightarrow> nw_wire_tracker s' = nw_wire_tracker s \<Longrightarrow> \<forall>e\<in>set o1. \<not> is_WireLine e \<Longrightarrow>
    wire_inv (out @ o1) s'"
  by (simp add: wire_inv_def wire_ok_quiet)

lemma note_source_wire: "wire_inv out s \<Longrightarrow> wire_inv out (note_source l s)"
  by (auto simp: wire_inv_def note_source_def note_node_def wire_ok_def wire_keys_ok_def split: option.splits)

lemma process_trace_wire:
  assumes "process_trace now l s = (s', o1)" and "wire_inv out s"
  shows "wire_inv (out @ o1) s'"
proof (cases "nw_wire_tracker s")
  case (Some t)
  then have ok: "wire_ok out t \<and> wire_keys_ok t" using assms(2) by (simp add: wire_inv_def)
  let ?d = "\<lambda>ev node ts. wire_dump_if_due ts (fst (trace_effect ev node ts t))"
  let ?e = "\<lambda>a ev node ts. Traced a node ev (snd (trace_effect ev node ts t))"
  have step: "wire_ok (out @ snd (?d ev node ts)) (fst (?d ev node ts))" "wire_keys_ok (fst (?d ev node ts))"
      "wire_ok (out @ ?e a ev node ts # snd (?d ev node ts)) (fst (?d ev node ts))" for a ev node ts
  proof -
    let ?t1 = "fst (trace_effect ev node ts t)"
    have due: "?d ev node ts = (fst (?d ev node ts), snd (?d ev node ts))" by simp
    have t1: "wire_ok out ?t1 \<and> wire_keys_ok ?t1"
      using trace_effect_ok [OF _ ok, of ev node ts] by (metis prod.collapse)
    then have "wire_ok (out @ [?e a ev node ts]) ?t1 \<and> wire_keys_ok ?t1" by (subst wire_ok_quiet) auto
    from wire_dump_if_due_ok [OF due this] wire_dump_if_due_ok [OF due t1]
    show "wire_ok (out @ snd (?d ev node ts)) (fst (?d ev node ts))" "wire_keys_ok (fst (?d ev node ts))"
      "wire_ok (out @ ?e a ev node ts # snd (?d ev node ts)) (fst (?d ev node ts))" by simp_all
  qed
  show ?thesis
    using assms(1) Some ok step
    by (auto simp: process_trace_def wire_inv_def record_trace_event_def format_trace_event_def Let_def case_prod_beta
        split: option.splits if_splits prod.splits)
qed (use assms in \<open>auto simp: process_trace_def wire_inv_def split: option.splits\<close>)

lemma wire_dumped:
  assumes "dumped s s' o1 o2" and "wire_inv out s"
  shows "wire_inv (out @ o1 @ o2) s'"
proof (cases "nw_wire_tracker s")
  case (Some t)
  have "\<forall>e\<in>set o1. \<not> is_WireLine e" using dumped_same [OF assms(1)] by (auto simp: is_HistogramLine_def)
  with assms(2) Some have ok: "wire_ok (out @ o1) t \<and> wire_keys_ok t" by (simp add: wire_inv_def wire_ok_quiet)
  from assms(1) Some consider
      (due) ts t' where "wire_dump_if_due ts t = (t', o2)" "nw_wire_tracker s' = Some t'"
    | (final) ts t' st where "wire_dump_and_reset ts t = (t', st)" "nw_wire_tracker s' = Some t'"
        "o2 = [WireLine st] @ [Summary (wire_summary_of t')]"
    unfolding dumped_def by (auto simp: dump_wire_due_def final_wire_def case_prod_beta) (metis prod.collapse)+
  then show ?thesis
  proof cases
    case due
    with wire_dump_if_due_ok [OF _ ok] show ?thesis by (auto simp: wire_inv_def)
  next
    case final
    with wire_dump_ok [OF _ ok] have "wire_ok ((out @ o1) @ [WireLine st]) t' \<and> wire_keys_ok t'" by blast
    with final wire_ok_quiet [of "[Summary (wire_summary_of t')]" "(out @ o1) @ [WireLine st]" t']
    show ?thesis by (simp add: wire_inv_def)
  qed
qed (use assms in \<open>auto simp: dumped_def dump_wire_due_def final_wire_def wire_inv_def\<close>)

interpretation wire_accounting: line_invariant wire_inv
proof unfold_locales
  fix out s l s' o1 assume inv: "wire_inv out s"
  { assume "note_timestamp l s = (s', o1)"
    from note_timestamp_cases [OF this] show "wire_inv (out @ o1) s'"
      by (intro wire_inv_quiet [OF inv]) auto }
  { show "wire_inv out (note_source l s)" using inv by (rule note_source_wire) }
  { fix now assume "process_trace now l s = (s', o1)"
    then show "wire_inv (out @ o1) s'" using inv by (rule process_trace_wire) }
  { fix tx show "wire_inv out (s\<lparr>nw_histogram := note_level tx (nw_histogram s)\<rparr>)"
      using inv by (simp add: wire_inv_def) }
  { assume "dump_due l s = (s', o1)"
    then show "wire_inv (out @ o1) s'"
      by (cases rule: dump_due_dumped) (simp_all add: inv wire_dumped) }
  { show "wire_inv (out @ print_line l s) s" by (intro wire_inv_quiet [OF inv]) (auto simp: print_line_def) }
  { fix v ts k assume "receive_message v ts s k = Some s'"
    then show "wire_inv out s'" using inv by (auto simp: wire_inv_def dest: receive_message_same) }
  { fix v assume "report_unreceived l v s = (s', o1)"
    then show "wire_inv (out @ o1) s'"
      by (intro wire_inv_quiet [OF inv]) (auto simp: report_unreceived_def Let_def split: if_splits) }
  { fix v ts k show "wire_inv out (broadcast_message v ts s k)" using inv by (simp add: wire_inv_def) }
  { fix now assume "final_dumps now s = (s', o1)"
    then show "wire_inv (out @ o1) s'" by (cases rule: final_dumps_dumped) (simp add: inv wire_dumped) }
qed

text \<open>The summary lists as many incomplete deliveries as the periodic lines count.\<close>

lemma length_filter_map: "length (filter_map g xs) = length (filter (\<lambda>x. g x \<noteq> None) xs)"
  by (induction xs) (auto split: option.splits)

lemma missing_entries_count:
  assumes "wire_keys_ok t"
  shows "length (missing_entries t) = count_incomplete_deliveries t"
proof -
  let ?bad = "\<lambda>d. wd_senders d \<noteq> [] \<and> missing_nodes t d \<noteq> []"
  let ?f = "\<lambda>k. ?bad (entry_or wire_delivery_new k (wt_messages t))"
  have "length (missing_entries t) = length (filter ?f (sort_key key_order (map fst (wt_messages t))))"
    unfolding missing_entries_def length_filter_map by (rule arg_cong [where f = length], rule filter_cong) (auto simp: Let_def)
  also have "\<dots> = length (filter ?f (map fst (wt_messages t)))"
    by (simp only: size_mset [symmetric] mset_filter mset_sort)
  also have "\<dots> = length (filter (\<lambda>e. ?f (fst e)) (wt_messages t))"
    by (simp add: filter_map o_def)
  also have "filter (\<lambda>e. ?f (fst e)) (wt_messages t) = filter (\<lambda>(_, d). ?bad d) (wt_messages t)"
    using assms by (intro filter_cong) (auto simp: entry_or_def wire_keys_ok_def)
  also have "length \<dots> = count_incomplete_deliveries t"
    unfolding count_incomplete_deliveries_def missing_nodes_def
    by (rule arg_cong [where f = length], rule filter_cong) (auto simp: filter_empty_conv)
  finally show ?thesis .
qed

end
