(* ===== verification/Logjam_Reports.thy ===== *)
theory Logjam_Reports
  imports Logjam_Facts
begin

text \<open>
  The reports of messages that were not received: each is made once per node and message, is
  counted once in the histogram, and its text does not depend on the order in which a hash map
  yields the messages.
\<close>

section \<open>Every message is reported once\<close>

definition reported_of :: "log_output \<Rightarrow> (string \<times> message_key) list" where
  "reported_of e = (case e of NotReceived src ks _ \<Rightarrow> map (Pair (the (parse_validator_name src))) ks | _ \<Rightarrow> [])"

definition reports :: "log_output list \<Rightarrow> (string \<times> message_key) list" where
  "reports out = concat (map reported_of out)"

definition never_of :: "log_output \<Rightarrow> u64" where
  "never_of e = (case e of HistogramLine st \<Rightarrow> hs_never_received st | _ \<Rightarrow> 0)"

definition reports_inv :: "log_output list \<Rightarrow> network_state \<Rightarrow> bool" where
  "reports_inv out s \<longleftrightarrow>
     distinct (map fst (nw_broadcast_tracker s)) \<and> distinct (reports out) \<and>
     set (reports out) = set (nw_reported_unreceived s) \<and>
     of_nat (length (reports out)) = dh_never_received (nw_histogram s) + sum_list (map never_of out)"

lemma reports_append [simp]: "reports (xs @ ys) = reports xs @ reports ys" by (simp add: reports_def)

lemma reports_none: "\<forall>e\<in>set out. \<not> is_NotReceived e \<Longrightarrow> reports out = []"
  unfolding reports_def by (induction out) (auto simp: reported_of_def split: log_output.splits)

lemma never_none: "\<forall>e\<in>set out. \<not> is_HistogramLine e \<Longrightarrow> sum_list (map never_of out) = 0"
  by (induction out) (auto simp: never_of_def split: log_output.splits)

lemma reports_inv_quiet:
  assumes "reports_inv out s" and "\<forall>e\<in>set o1. \<not> is_HistogramLine e \<and> \<not> is_NotReceived e"
    and "nw_broadcast_tracker s' = nw_broadcast_tracker s" and "nw_reported_unreceived s' = nw_reported_unreceived s"
    and "nw_histogram s' = nw_histogram s"
  shows "reports_inv (out @ o1) s'"
proof -
  have "reports o1 = []" "sum_list (map never_of o1) = 0" using assms(2) by (simp_all add: reports_none never_none)
  then show ?thesis using assms by (simp add: reports_inv_def)
qed

lemma note_level_never [simp]: "dh_never_received (note_level tx h) = dh_never_received h"
  by (simp add: note_level_def record_warn_def record_error_def)

lemma histogram_record_never: "histogram_record d h = Some h' \<Longrightarrow> dh_never_received h' = dh_never_received h"
  by (auto simp: histogram_record_def Let_def split: if_splits)

lemma receive_message_reports:
  assumes "receive_message v ts s k = Some s'"
  shows "dh_never_received (nw_histogram s') = dh_never_received (nw_histogram s)"
    and "distinct (map fst (nw_broadcast_tracker s)) \<Longrightarrow> distinct (map fst (nw_broadcast_tracker s'))"
  using assms by (auto simp: receive_message_def Let_def distinct_update
      dest: histogram_record_never split: option.splits bind_splits)

lemma dump_histogram_never:
  "dump_histogram t h = (h', o1) \<Longrightarrow> dh_never_received h = dh_never_received h' + sum_list (map never_of o1)"
  by (auto simp: dump_histogram_def histogram_dump_and_reset_def never_of_def split: if_splits)

lemma reports_dumped:
  assumes "dumped s s' o1 o2" and "reports_inv out s"
  shows "reports_inv (out @ o1 @ o2) s'"
proof -
  note same = dumped_same [OF assms(1)]
  from same have "reports o1 = []" "reports o2 = []" "sum_list (map never_of o2) = 0"
    by (auto intro!: reports_none never_none simp: is_HistogramLine_def is_WireLine_def is_Summary_def)
  moreover have "dh_never_received (nw_histogram s) = dh_never_received (nw_histogram s') + sum_list (map never_of o1)"
    using assms(1) dump_histogram_never [of _ "nw_histogram s"]
    by (auto simp: dumped_def dump_histogram_due_def final_histogram_def split: if_splits)
  ultimately show ?thesis using assms(2) same by (simp add: reports_inv_def)
qed

lemma foldl_hash_insert: "set (foldl (\<lambda>r k. hash_insert (f k) r) r ks) = set r \<union> f ` set ks"
  by (induction ks arbitrary: r) (auto simp: hash_insert_def)

lemma unreceived_new:
  assumes "distinct (map fst tr)"
  shows "distinct (get_unreceived_messages_for_node tr v ts d rep)"
    and "k \<in> set (get_unreceived_messages_for_node tr v ts d rep) \<Longrightarrow> (v, k) \<notin> set rep"
  using assms
  by (auto simp: get_unreceived_messages_for_node_def unreceived_by_def distinct_map_filter split: prod.splits)

lemma report_unreceived_inv:
  assumes "reports_inv out s" and "parse_validator_name (ll_source l) = Some v"
    and "report_unreceived l v s = (s', o1)"
  shows "reports_inv (out @ o1) s'"
proof (cases "get_unreceived_messages_for_node (nw_broadcast_tracker s) v (ll_timestamp l)
    (nw_max_message_delay_ms s) (nw_reported_unreceived s) = []")
  case True
  with assms show ?thesis by (simp add: report_unreceived_def)
next
  case False
  let ?ks = "get_unreceived_messages_for_node (nw_broadcast_tracker s) v (ll_timestamp l)
    (nw_max_message_delay_ms s) (nw_reported_unreceived s)"
  have tr: "distinct (map fst (nw_broadcast_tracker s))" using assms(1) by (simp add: reports_inv_def)
  from assms(3) False have o1: "o1 = [NotReceived (ll_source l) ?ks (format_unreceived_messages ?ks)]"
    and s': "nw_broadcast_tracker s' = nw_broadcast_tracker s"
      "dh_never_received (nw_histogram s') = dh_never_received (nw_histogram s) + of_nat (length ?ks)"
      "set (nw_reported_unreceived s') = set (nw_reported_unreceived s) \<union> Pair v ` set ?ks"
    by (auto simp: report_unreceived_def foldl_hash_insert Let_def)
  from o1 assms(2) have "reports o1 = map (Pair v) ?ks" "sum_list (map never_of o1) = 0"
    by (simp_all add: reports_def reported_of_def never_of_def)
  with assms(1) s' unreceived_new [OF tr] show ?thesis
    by (auto simp: reports_inv_def distinct_map inj_on_def)
qed

interpretation report_accounting: line_invariant reports_inv
proof unfold_locales
  fix out s l s' o1 assume inv: "reports_inv out s"
  { assume "note_timestamp l s = (s', o1)"
    from note_timestamp_cases [OF this] show "reports_inv (out @ o1) s'"
      by (intro reports_inv_quiet [OF inv]) auto }
  { show "reports_inv out (note_source l s)" using inv by (simp add: reports_inv_def) }
  { fix now assume "process_trace now l s = (s', o1)"
    from process_trace_cases [OF this] show "reports_inv (out @ o1) s'"
      by (intro reports_inv_quiet [OF inv]) (auto simp: is_Traced_def is_WireLine_def) }
  { fix tx show "reports_inv out (s\<lparr>nw_histogram := note_level tx (nw_histogram s)\<rparr>)"
      using inv by (simp add: reports_inv_def) }
  { assume "dump_due l s = (s', o1)"
    then show "reports_inv (out @ o1) s'"
      by (cases rule: dump_due_dumped) (simp_all add: inv reports_dumped) }
  { show "reports_inv (out @ print_line l s) s" by (intro reports_inv_quiet [OF inv]) (auto simp: print_line_def) }
  { fix v ts k assume "receive_message v ts s k = Some s'"
    from receive_message_reports [OF this] receive_message_same [OF this] show "reports_inv out s'"
      using inv by (simp add: reports_inv_def) }
  { fix v assume "parse_validator_name (ll_source l) = Some v" and "report_unreceived l v s = (s', o1)"
    then show "reports_inv (out @ o1) s'" by (rule report_unreceived_inv [OF inv]) }
  { fix v ts k show "reports_inv out (broadcast_message v ts s k)"
      using inv by (simp add: reports_inv_def broadcast_message_def) }
  { fix now assume "final_dumps now s = (s', o1)"
    then show "reports_inv (out @ o1) s'" by (cases rule: final_dumps_dumped) (simp add: inv reports_dumped) }
qed

section \<open>The text of a report\<close>

text \<open>
  The text as a function of what is reported: the heights and rounds in order, and for each the
  kinds in order, one character per message.
\<close>

definition report_group :: "message_key list \<Rightarrow> u64 \<times> u64 \<Rightarrow> char list" where
  "report_group ms hr = map mk_kind (filter (\<lambda>k. (mk_height k, mk_round k) = hr) ms)"

definition report_text :: "message_key list \<Rightarrow> string" where
  "report_text ms =
     join '' '' (map (\<lambda>(h, r). show_u64 h @ ''.'' @ show_u64 r @ '':'' @ sort (report_group ms (h, r)))
       (sorted_list_of_set ((\<lambda>k. (mk_height k, mk_round k)) ` set ms)))"

lemma group_kinds_fold:
  "distinct (map fst (foldl group_kinds [] ms)) \<and>
   map_of (foldl group_kinds [] ms) =
     (\<lambda>hr. if hr \<in> (\<lambda>k. (mk_height k, mk_round k)) ` set ms then Some (report_group ms hr) else None)"
proof (induction ms rule: rev_induct)
  case (snoc k ms)
  let ?g = "foldl group_kinds [] ms" and ?key = "\<lambda>k. (mk_height k, mk_round k)"
  have "report_group ms hr = []" if "hr \<notin> ?key ` set ms" for hr
    using that by (auto simp: report_group_def filter_empty_conv image_iff)
  with snoc have "entry_or [] (?key k) ?g = report_group ms (?key k)" by (simp add: entry_or_def)
  then have step: "foldl group_kinds [] (ms @ [k]) =
      AList.update (?key k) (report_group ms (?key k) @ [mk_kind k]) ?g"
    by (simp add: group_kinds_def [of ?g] modify_entry_def)
  have "report_group (ms @ [k]) hr = (if hr = ?key k then report_group ms hr @ [mk_kind k] else report_group ms hr)" for hr
    by (auto simp: report_group_def)
  with snoc show ?case unfolding step by (auto simp: update_conv' distinct_update fun_eq_iff)
qed (simp add: fun_eq_iff)

lemma sorted_entries:
  assumes "distinct (map fst (xs :: ('a::linorder \<times> 'b) list))"
  shows "sort_key fst xs = map (\<lambda>k. (k, the (map_of xs k))) (sorted_list_of_set (fst ` set xs))"
proof (rule map_sorted_distinct_set_unique [where f = fst])
  have d: "distinct xs" and inj: "inj_on fst (set xs)" using assms by (simp_all add: distinct_map)
  show "inj_on fst (set (sort_key fst xs) \<union> set (map (\<lambda>k. (k, the (map_of xs k))) (sorted_list_of_set (fst ` set xs))))"
    using assms by (auto intro!: inj_onI dest: eq_key_imp_eq_value)
qed (use assms in \<open>auto simp: distinct_map comp_def intro: rev_image_eqI\<close>)

lemma format_report_text: "format_unreceived_messages ms = report_text ms"
proof -
  let ?g = "foldl group_kinds [] ms" and ?key = "\<lambda>k. (mk_height k, mk_round k)"
  note g = group_kinds_fold [of ms]
  have keys: "fst ` set ?g = ?key ` set ms"
    unfolding dom_map_of_conv_image_fst [symmetric] using g by (simp add: dom_def)
  have "sort_key fst ?g = map (\<lambda>k. (k, report_group ms k)) (sorted_list_of_set (?key ` set ms))"
    unfolding sorted_entries [OF conjunct1 [OF g]] keys using g by (intro map_cong) auto
  then show ?thesis by (simp add: format_unreceived_messages_def report_text_def comp_def case_prod_unfold)
qed

lemma report_text_permutation: "mset ms = mset ms' \<Longrightarrow> report_text ms = report_text ms'"
proof -
  assume *: "mset ms = mset ms'"
  then have "set ms = set ms'" by (metis set_mset_mset)
  moreover have "sort (report_group ms hr) = sort (report_group ms' hr)" for hr
  proof -
    have "mset (report_group ms hr) = mset (report_group ms' hr)" using * by (simp add: report_group_def)
    then show ?thesis by (metis properties_for_sort sorted_sort mset_sort)
  qed
  ultimately show ?thesis by (simp add: report_text_def)
qed

end
