(* ===== verification/Logjam_Properties.thy ===== *)
theory Logjam_Properties
  imports Logjam_Reports
begin

text \<open>What the log analyser guarantees for any set of log files.\<close>

section \<open>Order of the lines\<close>

text \<open>
  The analyser prints every line exactly once, lines without a timestamp first and the others
  in the order of their timestamps.
\<close>
lemma lines_in_time_order:
  "mset (order_lines ls) = mset ls \<and> sorted (map time_order (order_lines ls))"
  by (simp add: order_lines_def mset_heap)

section \<open>Statistics\<close>

lemma histogram_new_ok:
  assumes "histogram_new now max_delay bucket = Some h" and "8 * (unat (max_delay div bucket) + 1) < 2 ^ 63"
  shows "histogram_ok h"
proof -
  have "max_delay div bucket \<noteq> - 1" using assms(2) by (auto simp: unsigned_minus_1_eq_mask mask_eq_exp_minus_1)
  then have "max_delay div bucket + 1 \<noteq> 0" by (metis eq_neg_iff_add_eq_0)
  then have "0 < unat (max_delay div bucket + 1)" by (simp add: unat_gt_0)
  with assms(1) show ?thesis
    by (auto simp: histogram_new_def histogram_ok_def Let_def sum_list_replicate split: if_splits)
qed

lemma network_state_new_inv:
  assumes "network_state_new now max_delay bucket quiet trace = Some s"
  shows "wire_inv [] s" and "reports_inv [] s"
    and "8 * (unat (max_delay div bucket) + 1) < 2 ^ 63 \<Longrightarrow> histogram_inv [] s"
proof -
  from assms obtain h where h: "histogram_new now max_delay bucket = Some h"
    and s: "nw_histogram s = h" "nw_broadcast_tracker s = []" "nw_reported_unreceived s = []"
      "nw_wire_tracker s = (if trace then Some (wire_tracker_new now) else None)"
    by (auto simp: network_state_new_def split: bind_splits)
  show "wire_inv [] s" using s
    by (simp add: wire_inv_def wire_ok_def wire_keys_ok_def wire_tracker_new_def)
  have "dh_never_received h = 0" using h by (auto simp: histogram_new_def Let_def split: if_splits)
  then show "reports_inv [] s" using s by (simp add: reports_inv_def reports_def)
  show "histogram_inv [] s" if "8 * (unat (max_delay div bucket) + 1) < 2 ^ 63"
    using histogram_new_ok [OF h that] s by (simp add: histogram_inv_def)
qed

lemma logjam_existing_total:
  assumes "8 * (unat (max_delay div bucket) + 1) < 2 ^ 63" and "bucket \<noteq> 0"
  shows "\<exists>s out. logjam_existing parse_ts clock readers max_delay bucket quiet trace = Some (s, out) \<and> histogram_inv out s"
proof -
  have "unat (max_delay div bucket + 1) \<le> unat (max_delay div bucket) + 1"
    by (cases "max_delay div bucket + 1 = 0") (simp_all add: unat_succ_no_wrap)
  with assms obtain s0 where s0: "network_state_new (clock 0) max_delay bucket quiet trace = Some s0"
    by (auto simp: network_state_new_def histogram_new_def Let_def)
  let ?ls = "read_lines parse_ts readers"
  obtain s1 o1 where run: "process_ordered (\<lambda>i. clock (Suc i)) ?ls s0 = Some (s1, o1)"
    using histogram_accounting.lines_total [OF network_state_new_inv(3) [OF s0 assms(1)]]
    unfolding process_ordered_def by blast
  obtain s2 o2 where "final_dumps (clock (Suc (length ?ls))) s1 = (s2, o2)" by fastforce
  with s0 run have res: "logjam_existing parse_ts clock readers max_delay bucket quiet trace = Some (s2, o1 @ o2)"
    by (simp add: logjam_existing_def Let_def)
  moreover have "histogram_inv (o1 @ o2) s2"
    by (rule histogram_accounting.existing_keeps [OF _ res]) (rule network_state_new_inv(3) [OF _ assms(1)])
  ultimately show ?thesis by blast
qed

text \<open>
  C25: with a histogram that fits in memory the analyser processes any log files without a panic
  exactly when the bucket size is not zero, and in every histogram line it prints the counts of the
  delay ranges add up to the number of messages.
\<close>
theorem analyser_never_panics:
  assumes "8 * (unat (max_delay div bucket) + 1) < 2 ^ 63"
  shows "(\<exists>s out. logjam_existing parse_ts clock readers max_delay bucket quiet trace = Some (s, out) \<and>
      (\<forall>st. HistogramLine st \<in> set out \<longrightarrow> sum_list (map (\<lambda>(_, _, n). n) (hs_ranges st)) = hs_total st))
    \<longleftrightarrow> bucket \<noteq> 0"
proof (cases "bucket = 0")
  case True
  then show ?thesis by (simp add: logjam_existing_def network_state_new_def histogram_new_def)
next
  case False
  from logjam_existing_total [OF assms this] show ?thesis
    using False by (fastforce simp: histogram_inv_def histogram_line_ok_def)
qed

text \<open>Two log files of a small network, and their lines' timestamps in seconds.\<close>

definition sample_logs :: "(string \<times> string list) list" where
  "sample_logs =
     [(''node0.log'', [''1 INFO a [V h=5 o=5.0:P'', ''2 DEBUG msg_trace: SEND h=5 r=0 t=P to=node1'']),
      (''node1.log'', [''3 DEBUG msg_trace: RECV h=5 r=0 t=P from=node0'', ''9 INFO b [V h=5 in=5.0:P]''])]"

definition sample_timestamp :: "string \<Rightarrow> timestamp option" where
  "sample_timestamp s = map_option (\<lambda>w. uint w * 1000000000) (parse_u64 s)"

theorem analyser_never_panics_witness:
  "\<exists>s out. logjam_existing sample_timestamp (\<lambda>_. 0) sample_logs 1000 100 False True = Some (s, out) \<and>
     (\<forall>st. HistogramLine st \<in> set out \<longrightarrow> sum_list (map (\<lambda>(_, _, n). n) (hs_ranges st)) = hs_total st)"
  using analyser_never_panics [of 1000 100 sample_timestamp "\<lambda>_. 0" sample_logs False True] by simp

text \<open>A traced run keeps its wire tracker.\<close>

definition tracker_kept :: "log_output list \<Rightarrow> network_state \<Rightarrow> bool" where
  "tracker_kept out s \<longleftrightarrow> nw_wire_tracker s \<noteq> None"

lemma dumped_tracker: "dumped s s' o1 o2 \<Longrightarrow> nw_wire_tracker s \<noteq> None \<Longrightarrow> nw_wire_tracker s' \<noteq> None"
  by (auto simp: dumped_def dump_wire_due_def final_wire_def case_prod_beta)

interpretation tracker_presence: line_invariant tracker_kept
proof unfold_locales
  fix out s l s' o1 assume inv: "tracker_kept out s"
  { assume "note_timestamp l s = (s', o1)"
    from note_timestamp_cases [OF this] show "tracker_kept (out @ o1) s'" using inv by (simp add: tracker_kept_def) }
  { show "tracker_kept out (note_source l s)"
      using inv by (auto simp: tracker_kept_def note_source_def split: option.splits) }
  { fix now assume "process_trace now l s = (s', o1)"
    then show "tracker_kept (out @ o1) s'"
      using inv by (auto simp: process_trace_def tracker_kept_def Let_def split: option.splits prod.splits) }
  { fix tx show "tracker_kept out (s\<lparr>nw_histogram := note_level tx (nw_histogram s)\<rparr>)"
      using inv by (simp add: tracker_kept_def) }
  { assume "dump_due l s = (s', o1)"
    then show "tracker_kept (out @ o1) s'"
      by (cases rule: dump_due_dumped) (use inv dumped_tracker in \<open>auto simp: tracker_kept_def\<close>) }
  { show "tracker_kept (out @ print_line l s) s" using inv by (simp add: tracker_kept_def) }
  { fix v ts k assume "receive_message v ts s k = Some s'"
    from receive_message_same [OF this] show "tracker_kept out s'" using inv by (simp add: tracker_kept_def) }
  { fix v assume "report_unreceived l v s = (s', o1)"
    then show "tracker_kept (out @ o1) s'"
      using inv by (auto simp: report_unreceived_def tracker_kept_def Let_def split: if_splits) }
  { fix v ts k show "tracker_kept out (broadcast_message v ts s k)" using inv by (simp add: tracker_kept_def) }
  { fix now assume "final_dumps now s = (s', o1)"
    then show "tracker_kept (out @ o1) s'"
      by (cases rule: final_dumps_dumped) (use inv dumped_tracker in \<open>auto simp: tracker_kept_def\<close>) }
qed

lemma dump_then_summary:
  assumes "wire_dump_and_reset now t = (t', w)" and "wire_ok out t'" and "wire_keys_ok t'"
  shows "sm_totals (wire_summary_of t') = (printed_sum ws_sends out, printed_sum ws_recvs out, printed_sum ws_dups out,
      printed_sum ws_relays out, printed_sum ws_relay_fails out, printed_sum ws_drain_events out,
      printed_sum ws_drain_msgs out)"
    and "sm_missing (wire_summary_of t') = ws_missing_delivery w"
proof -
  have "count_incomplete_deliveries t' = count_incomplete_deliveries t"
    using assms(1) by (auto simp: wire_dump_and_reset_def count_incomplete_deliveries_def)
  with assms missing_entries_count show "sm_missing (wire_summary_of t') = ws_missing_delivery w"
    by (auto simp: wire_summary_of_def wire_dump_and_reset_def wire_stats_of_def Let_def)
qed (use assms in \<open>auto simp: wire_summary_of_def wire_ok_def wire_dump_and_reset_def Let_def\<close>)

text \<open>
  A traced run ends with a summary whose totals are the sums of the periodic lines printed
  before it, and which lists as many incomplete deliveries as the last periodic line counts.
\<close>
lemma summary_totals:
  assumes "logjam_existing parse_ts clock readers max_delay bucket quiet True = Some (s, out)"
  shows "\<exists>out' w m. out = out' @ [WireLine w, Summary m] \<and>
    sm_totals m = (printed_sum ws_sends out, printed_sum ws_recvs out, printed_sum ws_dups out,
      printed_sum ws_relays out, printed_sum ws_relay_fails out, printed_sum ws_drain_events out,
      printed_sum ws_drain_msgs out) \<and>
    sm_missing m = ws_missing_delivery w \<and> length (sm_listed m) + sm_more m = sm_missing m"
proof -
  let ?ls = "read_lines parse_ts readers"
  from assms obtain s0 s1 out1 out2 where s0: "network_state_new (clock 0) max_delay bucket quiet True = Some s0"
    and run: "process_lines (zip (map (\<lambda>i. clock (Suc i)) [0..<length ?ls]) (order_lines ?ls)) s0 = Some (s1, out1)"
    and final: "final_dumps (clock (Suc (length ?ls))) s1 = (s, out2)" and out: "out = out1 @ out2"
    by (auto simp: logjam_existing_def process_ordered_def Let_def split: bind_splits prod.splits)
  have "tracker_kept [] s0" using s0 by (auto simp: tracker_kept_def network_state_new_def split: bind_splits)
  from tracker_presence.lines_keep [OF this run] obtain t where t: "nw_wire_tracker s1 = Some t"
    by (auto simp: tracker_kept_def)
  obtain t' w where dump: "wire_dump_and_reset (clock (Suc (length ?ls))) t = (t', w)" by fastforce
  from final t dump obtain o1 where "out2 = o1 @ [WireLine w, Summary (wire_summary_of t')]"
    and s: "nw_wire_tracker s = Some t'"
    by (auto simp: final_dumps_def final_wire_def Let_def split: prod.splits)
  moreover have "wire_inv out s" by (rule wire_accounting.existing_keeps [OF network_state_new_inv(1) assms])
  with s have "wire_ok out t'" "wire_keys_ok t'" by (simp_all add: wire_inv_def)
  note dump_then_summary [OF dump this]
  moreover have "length (sm_listed m) + sm_more m = sm_missing m" if "m = wire_summary_of t'" for m
    using that by (simp add: wire_summary_of_def Let_def)
  ultimately show ?thesis using out by (intro exI [of _ "out1 @ o1"]) auto
qed

lemma summary_totals_witness:
  "\<exists>s out out' w m. logjam_existing sample_timestamp (\<lambda>_. 0) sample_logs 1000 100 False True = Some (s, out) \<and>
     out = out' @ [WireLine w, Summary m] \<and> sm_missing m = ws_missing_delivery w"
  using summary_totals [of sample_timestamp "\<lambda>_. 0" sample_logs 1000 100 False]
    logjam_existing_total [of 1000 100 sample_timestamp "\<lambda>_. 0" sample_logs False True] by fastforce

text \<open>
  Over any log files no message is reported as not received twice for the same node, and the
  number of such reports is what the histogram lines count as never received, together with what
  the histogram still holds.
\<close>
lemma unreceived_reported_once:
  assumes "logjam_existing parse_ts clock readers max_delay bucket quiet trace = Some (s, out)"
  shows "distinct (reports out) \<and>
    of_nat (length (reports out)) = dh_never_received (nw_histogram s) + sum_list (map never_of out)"
  using report_accounting.existing_keeps [OF network_state_new_inv(2) assms] by (simp add: reports_inv_def)

lemma unreceived_reported_once_witness:
  "\<exists>s out. logjam_existing sample_timestamp (\<lambda>_. 0) sample_logs 1000 100 False True = Some (s, out) \<and>
     distinct (reports out)"
  using unreceived_reported_once [of sample_timestamp "\<lambda>_. 0" sample_logs 1000 100 False True]
    logjam_existing_total [of 1000 100 sample_timestamp "\<lambda>_. 0" sample_logs False True] by fastforce

text \<open>
  The text of a report is the same in whatever order the hash map of broadcast messages yields
  them: heights and rounds ascending, and for each the kinds in order, one character per message.
\<close>
lemma report_text_canonical:
  assumes "mset ms = mset ms'"
  shows "format_unreceived_messages ms = format_unreceived_messages ms' \<and> format_unreceived_messages ms = report_text ms"
  using report_text_permutation [OF assms] by (simp add: format_report_text)

lemma report_text_canonical_witness:
  "format_unreceived_messages [trace_key 5 0 CHR ''p'', trace_key 5 0 CHR ''P''] =
   format_unreceived_messages [trace_key 5 0 CHR ''P'', trace_key 5 0 CHR ''p'']"
  using report_text_canonical [of "[trace_key 5 0 CHR ''p'', trace_key 5 0 CHR ''P'']"
      "[trace_key 5 0 CHR ''P'', trace_key 5 0 CHR ''p'']"] by (simp add: add_mset_commute)

end
