(* ===== verification/Node_Summary.thy ===== *)
theory Node_Summary
  imports Node_State Rust_Text
begin

text \<open>
  The one-line texts a node logs: \<open>summarise_messages\<close> of \<open>types/qbft_message.rs\<close>,
  \<open>NodeState::summarise\<close> of \<open>types/node_state.rs\<close>, and the two lines the driver writes
  around each step (\<open>advance\<close> in \<open>rbft_consensus.rs\<close>).
\<close>

section \<open>Definitions\<close>

text \<open>\<open>Itertools::chunk_by\<close>: maximal runs of neighbours with one key.\<close>

fun chunk_by :: "('a \<Rightarrow> 'k) \<Rightarrow> 'a list \<Rightarrow> ('k \<times> 'a list) list" where
  "chunk_by key [] = []"
| "chunk_by key (x # xs) =
     (case chunk_by key xs of
        (k, ys) # rest \<Rightarrow> if key x = k then (k, x # ys) # rest else (key x, [x]) # (k, ys) # rest
      | [] \<Rightarrow> [(key x, [x])])"

text \<open>One run of messages of a type: its code once per message, marked when it is a quorum.\<close>

definition summarise_run :: "nat \<Rightarrow> string \<times> qbft_message list \<Rightarrow> string" where
  "summarise_run quorum_size run =
     (let (code, ms) = run in
      concat (replicate (length ms) code) @ (if length ms \<ge> quorum_size then ''!'' else ''''))"

definition summarise_group :: "nat \<Rightarrow> u64 \<times> u64 \<times> qbft_message list \<Rightarrow> string" where
  "summarise_group quorum_size g =
     (let (h, r, ms) = g in
      show_u64 h @ ''.'' @ show_u64 r @ '':''
        @ concat (map (summarise_run quorum_size) (chunk_by msg_error_code ms)))"

definition summary_groups :: "qbft_message list \<Rightarrow> (u64 \<times> u64 \<times> qbft_message list) list" where
  "summary_groups ms =
     concat (map (\<lambda>(h, hs). map (\<lambda>(r, rs). (h, r, rs)) (chunk_by msg_round hs)) (chunk_by msg_height ms))"

definition summarise_messages :: "nat \<Rightarrow> qbft_message list \<Rightarrow> string" where
  "summarise_messages quorum_size ms = join ''+'' (map (summarise_group quorum_size) (summary_groups ms))"

text \<open>\<open>a as i64 - b as i64\<close> of a release build.\<close>

definition i64_diff :: "u64 \<Rightarrow> u64 \<Rightarrow> int" where
  "i64_diff a b = sint (a - b)"

definition show_flag :: "bool \<Rightarrow> string" where
  "show_flag b = (if b then ''1'' else ''0'')"

definition summarise :: "node_state \<Rightarrow> string" where
  "summarise st =
     (let bc = ns_blockchain st;
          head_timestamp = bh_timestamp (blk_header (bc_head bc));
          recent = rev (takeWhile (\<lambda>b. bh_timestamp (blk_header b) = head_timestamp) (rev (blocks bc)));
          ht = join '','' (map (\<lambda>b. show_u64 (block_height b) @ ''/'' @ show_u64 (bh_timestamp (blk_header b))) recent)
      in ''['' @ [role st] @ '' h='' @ show_u64 (ns_height st)
         @ '' bt='' @ show_int (i64_diff (ns_local_time st) (next_block_timeout st))
         @ '' rt='' @ show_int (i64_diff (ns_local_time st) (next_round_timeout st))
         @ '' chain='' @ ht @ '' r='' @ show_u64 (ns_round st)
         @ '' prva='' @ show_flag (ns_last_prepared_round st \<noteq> None)
         @ show_flag (ns_last_prepared_block st \<noteq> None) @ show_flag (ns_proposal_accepted st \<noteq> None)
         @ '' in='' @ summarise_messages (quorum (length (validators bc))) (ns_messages_received st) @ '']'')"

text \<open>
  The message parts of the two lines; the logger puts its own prefix in front of each.
\<close>

definition before_line :: "nat \<Rightarrow> node_state \<Rightarrow> string" where
  "before_line num_connections st = ''b ('' @ show_dec num_connections @ '') '' @ summarise st"

definition after_line :: "nat \<Rightarrow> node_state \<Rightarrow> qbft_message list \<Rightarrow> string" where
  "after_line num_connections st out =
     (let outgoing = summarise_messages (quorum (length (validators (ns_blockchain st)))) out in
      ''a ('' @ show_dec num_connections @ '') '' @ summarise st
        @ (if outgoing = [] then [] else '' o='' @ outgoing))"

section \<open>Chunks\<close>

lemma chunk_by_concat: "concat (map snd (chunk_by key xs)) = xs"
  by (induction xs) (auto split: list.splits)

lemma chunk_by_keys: "(k, ys) \<in> set (chunk_by key xs) \<Longrightarrow> ys \<noteq> [] \<and> (\<forall>y\<in>set ys. key y = k)"
proof (induction xs arbitrary: k ys)
  case (Cons x xs)
  show ?case
  proof (cases "chunk_by key xs")
    case Nil
    with Cons.prems show ?thesis by simp
  next
    case (Cons p rest)
    obtain k' zs where p: "p = (k', zs)" by (cases p)
    have "zs \<noteq> []" "\<forall>y\<in>set zs. key y = k'" "(k, ys) \<in> set rest \<Longrightarrow> ys \<noteq> [] \<and> (\<forall>y\<in>set ys. key y = k)"
      using Cons.IH [of k' zs] Cons.IH [of k ys] Cons p by auto
    with Cons.prems Cons p show ?thesis by (auto split: if_splits)
  qed
qed simp

lemma chunk_by_const: "xs \<noteq> [] \<Longrightarrow> \<forall>x\<in>set xs. key x = k \<Longrightarrow> chunk_by key xs = [(k, xs)]"
proof (induction xs)
  case (Cons x xs)
  then show ?case by (cases xs) auto
qed simp

section \<open>Characters of a summary\<close>

text \<open>The characters that occur in the texts of numbers and message groups.\<close>

definition summary_char :: "char \<Rightarrow> bool" where
  "summary_char c \<longleftrightarrow> is_ascii_digit c \<or> c \<in> set ''PpcRrbQA.:!+,/-''"

lemma set_join: "set (join sep ws) \<subseteq> set sep \<union> (\<Union>w\<in>set ws. set w)"
  by (induction sep ws rule: join.induct) auto

lemma msg_error_code_chars: "c \<in> set (msg_error_code m) \<Longrightarrow> c \<in> set ''PpcRrbQA''"
  by (cases m) (auto split: if_splits)

lemma show_u64_chars: "c \<in> set (show_u64 w) \<Longrightarrow> summary_char c"
  by (simp add: summary_char_def show_u64_digits)

lemma show_int_chars: "c \<in> set (show_int i) \<Longrightarrow> summary_char c"
  by (auto simp: show_int_def summary_char_def dest: show_dec_digits split: if_splits)

lemma summarise_group_chars: "c \<in> set (summarise_group q g) \<Longrightarrow> summary_char c"
proof -
  assume c: "c \<in> set (summarise_group q g)"
  obtain h r ms where g: "g = (h, r, ms)" by (cases g) auto
  have "summary_char d" if d: "d \<in> set (summarise_run q run)"
    and mem: "run \<in> set (chunk_by msg_error_code ms)" for d run
  proof -
    obtain code ys where run: "run = (code, ys)" by (cases run) auto
    then obtain y where "msg_error_code y = code"
      using chunk_by_keys [of code ys msg_error_code ms] mem by (metis list.set_sel(1))
    with d run have "d \<in> set (msg_error_code y) \<or> d = CHR ''!''"
      by (auto simp: summarise_run_def split: if_splits)
    with msg_error_code_chars [of d y] show ?thesis by (auto simp: summary_char_def)
  qed
  then have runs: "summary_char d" if "d \<in> set (concat (map (summarise_run q) (chunk_by msg_error_code ms)))" for d
    using that by auto
  have punctuation: "summary_char (CHR ''.'')" "summary_char (CHR '':'')" by (simp_all add: summary_char_def)
  from c consider "c \<in> set (show_u64 h)" | "c = CHR ''.''" | "c \<in> set (show_u64 r)" | "c = CHR '':''"
    | "c \<in> set (concat (map (summarise_run q) (chunk_by msg_error_code ms)))"
    unfolding summarise_group_def g by fastforce
  then show ?thesis using show_u64_chars runs punctuation by cases blast+
qed

lemma summarise_messages_chars: "c \<in> set (summarise_messages q ms) \<Longrightarrow> summary_char c"
proof -
  assume "c \<in> set (summarise_messages q ms)"
  then consider "c = CHR ''+''" | g where "c \<in> set (summarise_group q g)"
    using set_join [of "''+''" "map (summarise_group q) (summary_groups ms)"]
    unfolding summarise_messages_def by fastforce
  then show ?thesis
  proof cases
    case 1
    then show ?thesis by (simp add: summary_char_def)
  next
    case 2
    then show ?thesis by (rule summarise_group_chars)
  qed
qed

end
