(* ===== verification/Log_Properties.thy ===== *)
theory Log_Properties
  imports Node_Summary Logjam_Parse
begin

text \<open>
  The log analyser on what the nodes write: which texts it reads back, and that it does not
  recognise the lines the driver logs around each step.
\<close>

section \<open>Reading a summary back\<close>

definition message_key_of :: "qbft_message \<Rightarrow> message_key" where
  "message_key_of m = \<lparr>mk_height = msg_height m, mk_round = msg_round m, mk_kind = hd (msg_error_code m)\<rparr>"

lemma msg_error_code_single: "msg_error_code m = [hd (msg_error_code m)]"
  by (cases m) simp_all

lemma summarise_run_below_quorum:
  assumes "\<forall>y\<in>set ys. msg_error_code y = code" and "length ys < q"
  shows "summarise_run q (code, ys) = map (\<lambda>m. hd (msg_error_code m)) ys"
proof -
  have "concat (replicate (length ys) code) = map (\<lambda>m. hd (msg_error_code m)) ys"
    using assms(1) msg_error_code_single
  proof (induction ys)
    case (Cons y ys)
    then show ?case by (metis append_Cons append_Nil concat.simps(2) length_Cons list.set_intros list.simps(9) replicate_Suc)
  qed simp
  with assms(2) show ?thesis by (simp add: summarise_run_def)
qed

lemma summarise_runs_below_quorum:
  assumes "\<forall>(code, ys)\<in>set (chunk_by msg_error_code ms). length ys < q"
  shows "concat (map (summarise_run q) (chunk_by msg_error_code ms)) = map (\<lambda>m. hd (msg_error_code m)) ms"
proof -
  let ?c = "\<lambda>m. hd (msg_error_code m)"
  have "summarise_run q run = map ?c (snd run)" if "run \<in> set (chunk_by msg_error_code ms)" for run
    using that assms chunk_by_keys [of "fst run" "snd run" msg_error_code ms]
    by (cases run) (auto intro!: summarise_run_below_quorum)
  then have "map (summarise_run q) (chunk_by msg_error_code ms) = map (map ?c \<circ> snd) (chunk_by msg_error_code ms)"
    by simp
  then show ?thesis by (metis chunk_by_concat map_concat map_map)
qed

lemma kind_chars: "k \<in> set (map (\<lambda>m. hd (msg_error_code m)) ms) \<Longrightarrow> k \<noteq> CHR '','' \<and> \<not> is_whitespace k"
proof -
  assume "k \<in> set (map (\<lambda>m. hd (msg_error_code m)) ms)"
  then obtain m where "k \<in> set (msg_error_code m)" using msg_error_code_single by (metis (no_types, lifting) imageE list.set_intros(1) list.set_map)
  from msg_error_code_chars [OF this] show ?thesis by (auto simp: is_whitespace_def)
qed

text \<open>
  What a node prints of messages of one height and round, no run of which reaches a quorum, the
  analyser reads back message by message.
\<close>
lemma summary_read_back:
  assumes "\<forall>m\<in>set ms. msg_height m = h \<and> msg_round m = r" and "ms \<noteq> []"
    and "\<forall>(code, ys)\<in>set (chunk_by msg_error_code ms). length ys < q"
  shows "parse_messages (summarise_messages q ms) = map message_key_of ms"
proof -
  let ?c = "\<lambda>m. hd (msg_error_code m)"
  have "summary_groups ms = [(h, r, ms)]"
    using assms(1,2) chunk_by_const [of ms msg_height h] chunk_by_const [of ms msg_round r]
    by (simp add: summary_groups_def)
  then have shown: "summarise_messages q ms = show_u64 h @ ''.'' @ show_u64 r @ '':'' @ map ?c ms"
    using summarise_runs_below_quorum [OF assms(3)] by (simp add: summarise_messages_def summarise_group_def)
  have "parse_messages (summarise_messages q ms) = map (\<lambda>k. \<lparr>mk_height = h, mk_round = r, mk_kind = k\<rparr>) (map ?c ms)"
    unfolding shown using kind_chars by (intro parse_messages_printed) blast+
  with assms(1) show ?thesis by (simp add: message_key_of_def)
qed

text \<open>Two prepares of one height in the given rounds.\<close>

definition sample_prepare :: "u64 \<Rightarrow> qbft_message" where
  "sample_prepare r = Prepare \<lparr>prep_payload = \<lparr>sprep_payload = \<lparr>uprep_height = 7, uprep_round = r, uprep_digest = 0\<rparr>,
     sprep_signature = \<lparr>sig_author = 1, sig_bytes = []\<rparr>\<rparr>\<rparr>"

lemma summary_read_back_witness:
  "parse_messages (summarise_messages 3 [sample_prepare 0, sample_prepare 0]) =
    [\<lparr>mk_height = 7, mk_round = 0, mk_kind = CHR ''p''\<rparr>, \<lparr>mk_height = 7, mk_round = 0, mk_kind = CHR ''p''\<rparr>]"
  using summary_read_back [of "[sample_prepare 0, sample_prepare 0]" 7 0 3]
  by (simp add: sample_prepare_def message_key_of_def)

text \<open>
  Two rounds are joined by a plus sign, which the analyser does not split at: all that follows the
  first colon is read as message kinds of the first round.
\<close>

lemma rounds_misread:
  "parse_messages (summarise_messages 3 [sample_prepare 0, sample_prepare 1]) =
    map (\<lambda>k. \<lparr>mk_height = 7, mk_round = 0, mk_kind = k\<rparr>) ''p+7.1:p''"
proof -
  have show1: "show_u64 7 = ''7''" "show_u64 1 = ''1''" "show_u64 0 = ''0''"
    by (simp_all add: show_u64_def show_dec.simps digit_char_def char_of_def bit_0)
  have "summarise_messages 3 [sample_prepare 0, sample_prepare 1] = show_u64 7 @ ''.'' @ show_u64 0 @ '':'' @ ''p+7.1:p''"
    by (simp add: sample_prepare_def summarise_messages_def summary_groups_def summarise_group_def summarise_run_def show1)
  then show ?thesis using parse_messages_printed [of "''p+7.1:p''" 7 0] by (simp add: is_whitespace_def)
qed

section \<open>The driver's lines\<close>

lemma summary_no_bracket: "summary_char c \<Longrightarrow> c \<noteq> CHR ''[''"
  by (auto simp: summary_char_def is_ascii_digit_def)

lemma join_chars: "\<forall>w\<in>set ws. \<forall>c\<in>set w. P c \<Longrightarrow> \<forall>c\<in>set sep. P c \<Longrightarrow> \<forall>c\<in>set (join sep ws). P c"
  using set_join [of sep ws] by blast

lemma summarise_shape: "\<exists>rest. summarise st = CHR ''['' # rest \<and> CHR ''['' \<notin> set rest"
proof -
  have num: "CHR ''['' \<notin> set (show_u64 w)" "CHR ''['' \<notin> set (show_int i)"
    "CHR ''['' \<notin> set (summarise_messages q ms)" for w i q ms
    using show_u64_chars show_int_chars summarise_messages_chars summary_no_bracket by blast+
  have "CHR ''['' \<notin> set (join '','' (map f bs))" if "\<And>b. CHR ''['' \<notin> set (f b)" for f :: "block \<Rightarrow> string" and bs
    using that set_join [of "'',''" "map f bs"] by auto
  moreover have "role st \<noteq> CHR ''[''" by (auto simp: role_def Let_def split: if_splits)
  moreover have "CHR ''['' \<notin> set (show_flag b)" for b by (simp add: show_flag_def)
  ultimately show ?thesis using num by (auto simp: summarise_def Let_def)
qed

lemma marker_not_found:
  assumes "CHR ''['' \<notin> set u" and "CHR ''['' \<notin> set v" and "last (butlast u) \<noteq> x"
  shows "\<not> contains [CHR '' '', x, CHR '' '', CHR ''[''] (u @ CHR ''['' # v)"
proof
  assume "contains [CHR '' '', x, CHR '' '', CHR ''[''] (u @ CHR ''['' # v)"
  then obtain a b where "u @ CHR ''['' # v = (a @ [CHR '' '', x, CHR '' '']) @ CHR ''['' # b"
    unfolding contains_iff by fastforce
  then have "u = a @ [CHR '' '', x, CHR '' '']" using assms(1,2) by (metis append_Cons_eq_iff)
  with assms(3) show False by (simp add: butlast_append)
qed

lemma driver_line_marker:
  assumes "CHR ''['' \<notin> set prefix" and "CHR ''['' \<notin> set suffix" and "x \<noteq> CHR '')''" and "c \<noteq> CHR ''[''"
  shows "\<not> contains [CHR '' '', x, CHR '' '', CHR ''[''] (prefix @ c # '' ('' @ show_dec n @ '') '' @ summarise st @ suffix)"
proof -
  obtain rest where rest: "summarise st = CHR ''['' # rest" "CHR ''['' \<notin> set rest" using summarise_shape by blast
  let ?u = "prefix @ c # '' ('' @ show_dec n @ '') ''"
  have "CHR ''['' \<notin> set (show_dec n)" using show_dec_digits by (fastforce simp: is_ascii_digit_def)
  with assms rest show ?thesis
    using marker_not_found [of ?u "rest @ suffix" x] by (simp add: butlast_append)
qed

lemma driver_suffix: "CHR ''['' \<notin> set (summarise_messages q out)"
  using summarise_messages_chars summary_no_bracket by blast

text \<open>
  The analyser recognises neither of the two lines the driver writes around a step, whatever
  prefix without a bracket the logger puts in front: the number of connections stands where the
  analyser expects the bracket, so no broadcast is ever recorded from a node's own log.
\<close>
lemma driver_lines_not_recognised:
  assumes "CHR ''['' \<notin> set prefix"
  shows "\<not> is_before_line (prefix @ before_line n st) \<and> \<not> is_after_line (prefix @ before_line n st) \<and>
    \<not> is_before_line (prefix @ after_line n st out) \<and> \<not> is_after_line (prefix @ after_line n st out)"
  using driver_line_marker [OF assms, where suffix = "[]" and c = "CHR ''b''" and n = n and st = st]
    driver_line_marker [OF assms, where c = "CHR ''a''" and n = n and st = st] driver_suffix
  by (simp add: is_before_line_def is_after_line_def before_line_def after_line_def Let_def)

lemma driver_lines_not_recognised_witness:
  "\<forall>st. \<not> is_before_line (''2026-01-27T11:08:07Z  INFO rbft: '' @ before_line 3 st) \<and>
     \<not> is_after_line (''2026-01-27T11:08:07Z  INFO rbft: '' @ after_line 3 st [])"
  using driver_lines_not_recognised [of "''2026-01-27T11:08:07Z  INFO rbft: ''" 3] by simp

end
