(* ===== verification/Inspector_Forms.thy ===== *)
theory Inspector_Forms
  imports Rust_Text "HOL-Library.Monad_Syntax"
begin

text \<open>
  The inspector's input (\<open>rbft-validator-inspector/src/models/events.rs\<close>): key events, the form
  that launches a chain, the form that starts a load job, and the log viewer.  An index out of
  range, which panics, is \<open>None\<close>.  Keys carry the characters and modifiers of \<open>crossterm\<close> that
  the code inspects; the contents of files are passed in.
\<close>

section \<open>Keys and requests\<close>

type_synonym u16 = "16 word"

datatype key_code =
    KEsc | KTab | KUp | KDown | KBackspace | KEnter | KHome | KEnd | KPageUp | KPageDown
  | KChar char | KOther

datatype key_modifier = ModShift | ModControl | ModAlt | ModSuper

record key_event =
  ke_code :: key_code
  ke_modifiers :: "key_modifier list"

record launch_request =
  lr_count :: nat
  lr_base_port :: u16

datatype spam_mode = RoundRobin | Target

record spam_request =
  sr_total_txs :: u64
  sr_parallel :: u64
  sr_burst :: u64
  sr_accounts :: nat
  sr_mode :: spam_mode
  sr_target_url :: "string option"

text \<open>\<open>Display\<close> of \<open>ParseIntError\<close>, and \<open>str::parse\<close> with the error turned into a message.\<close>

fun show_parse_error :: "parse_int_error \<Rightarrow> string" where
  "show_parse_error EmptyText = ''cannot parse integer from empty string''"
| "show_parse_error InvalidDigit = ''invalid digit found in string''"
| "show_parse_error PosOverflow = ''number too large to fit in target type''"

definition parse_or :: "string \<Rightarrow> nat \<Rightarrow> string \<Rightarrow> string + nat" where
  "parse_or what maximum s =
     (case parse_uint maximum s of Inl e \<Rightarrow> Inl (what @ '': '' @ show_parse_error e) | Inr n \<Rightarrow> Inr n)"

definition quoted :: "string \<Rightarrow> string" where
  "quoted s = CHR 0x27 # s @ [CHR 0x27]"

text \<open>The \<open>?\<close> operator on results.\<close>

definition and_then :: "'e + 'a \<Rightarrow> ('a \<Rightarrow> 'e + 'b) \<Rightarrow> 'e + 'b" where
  "and_then x f = (case x of Inl e \<Rightarrow> Inl e | Inr a \<Rightarrow> f a)"

section \<open>Forms\<close>

text \<open>Both forms have their fields, the index of the current one, the texts typed in and an error.\<close>

record 'f form =
  fm_fields :: "'f list"
  fm_index :: nat
  fm_inputs :: "string list"
  fm_error :: "string option"

datatype 'r form_outcome = Continue | Cancelled | Submitted 'r

definition clear_error :: "'f form \<Rightarrow> 'f form" where
  "clear_error f = f\<lparr>fm_error := None\<rparr>"

text \<open>The remainder by zero fields and an input out of range panic.\<close>

definition next_field :: "'f form \<Rightarrow> 'f form option" where
  "next_field f =
     (if fm_fields f = [] then None else Some (f\<lparr>fm_index := (fm_index f + 1) mod length (fm_fields f)\<rparr>))"

definition previous_field :: "'f form \<Rightarrow> 'f form option" where
  "previous_field f =
     (if fm_index f = 0
      then (if fm_fields f = [] then None else Some (f\<lparr>fm_index := length (fm_fields f) - 1\<rparr>))
      else Some (f\<lparr>fm_index := fm_index f - 1\<rparr>))"

definition edit_input :: "(string \<Rightarrow> string) \<Rightarrow> 'f form \<Rightarrow> 'f form option" where
  "edit_input g f =
     (if fm_index f < length (fm_inputs f)
      then Some (f\<lparr>fm_inputs := (fm_inputs f)[fm_index f := g (fm_inputs f ! fm_index f)]\<rparr>) else None)"

definition nth_input :: "'f form \<Rightarrow> nat \<Rightarrow> string option" where
  "nth_input f i = (if i < length (fm_inputs f) then Some (fm_inputs f ! i) else None)"

text \<open>Submitting: a request leaves the form as it is, an error is shown in it.\<close>

definition submit_form :: "string + 'r \<Rightarrow> 'f form \<Rightarrow> 'f form \<times> 'r form_outcome" where
  "submit_form res f =
     (case res of Inr request \<Rightarrow> (f, Submitted request) | Inl err \<Rightarrow> (f\<lparr>fm_error := Some err\<rparr>, Continue))"

section \<open>Launch form\<close>

datatype launch_field = Validators | BasePort

definition launch_form_new :: "launch_field form" where
  "launch_form_new =
    \<lparr>fm_fields = [Validators, BasePort], fm_index = 0, fm_inputs = [''5'', ''8545''], fm_error = None\<rparr>"

definition launch_build_request :: "launch_field form \<Rightarrow> (string + launch_request) option" where
  "launch_build_request f = do {
     i0 \<leftarrow> nth_input f 0;
     (case parse_or ''Invalid validator count'' u64_max (trim i0) of
        Inl e \<Rightarrow> Some (Inl e)
      | Inr n \<Rightarrow> do {
          i1 \<leftarrow> nth_input f 1;
          Some (and_then (parse_or ''Invalid port'' u16_max (trim i1)) (\<lambda>port.
            if n = 0 \<or> n > 50 then Inl ''Validators must be between 1 and 50.''
            else Inr \<lparr>lr_count = n, lr_base_port = of_nat port\<rparr>))
        })
   }"

definition launch_enter :: "launch_field form \<Rightarrow> (launch_field form \<times> launch_request form_outcome) option" where
  "launch_enter f =
     (if fm_fields f = [] then None
      else if fm_index f = length (fm_fields f) - 1 then do {
        res \<leftarrow> launch_build_request f; Some (submit_form res f) }
      else Some (f\<lparr>fm_index := fm_index f + 1\<rparr>, Continue))"

definition launch_handle_key ::
  "key_event \<Rightarrow> launch_field form \<Rightarrow> (launch_field form \<times> launch_request form_outcome) option" where
  "launch_handle_key key f =
     (let continuing = map_option (\<lambda>f. (f, Continue)) in
      case ke_code key of
        KEsc \<Rightarrow> Some (f, Cancelled)
      | KTab \<Rightarrow> continuing (next_field (clear_error f))
      | KDown \<Rightarrow> continuing (next_field (clear_error f))
      | KUp \<Rightarrow> continuing (previous_field (clear_error f))
      | KBackspace \<Rightarrow> continuing (edit_input butlast (clear_error f))
      | KChar c \<Rightarrow>
          if ke_modifiers key = [] then continuing (edit_input (\<lambda>s. s @ [c]) (clear_error f))
          else Some (f, Continue)
      | KEnter \<Rightarrow> launch_enter (clear_error f)
      | _ \<Rightarrow> Some (f, Continue))"

definition validate_field :: "nat \<Rightarrow> launch_field form \<Rightarrow> (string + unit) option" where
  "validate_field idx f =
     (if length (fm_fields f) \<le> idx then None
      else do {
        i \<leftarrow> nth_input f idx;
        let v = trim i;
        Some (case fm_fields f ! idx of
            Validators \<Rightarrow>
              if v = [] then Inl ''Validators field cannot be empty.''
              else and_then (parse_or ''Invalid number'' u64_max v) (\<lambda>parsed.
                if parsed = 0 \<or> parsed > 50 then Inl ''Validators must be between 1 and 50.'' else Inr ())
          | BasePort \<Rightarrow> if v = [] then Inl ''Base port cannot be empty.'' else Inr ())
      })"

section \<open>Spam form\<close>

definition spam_mode_parse :: "string \<Rightarrow> spam_mode option" where
  "spam_mode_parse s =
     (let v = to_lowercase (trim s) in
      if v = ''round-robin'' \<or> v = ''roundrobin'' \<or> v = ''round'' then Some RoundRobin
      else if v = ''target'' \<or> v = ''targeted'' then Some Target
      else None)"

fun spam_mode_label :: "spam_mode \<Rightarrow> string" where
  "spam_mode_label RoundRobin = ''round-robin''"
| "spam_mode_label Target = ''target''"

datatype spam_field = TotalTxs | Parallel | Burst | Accounts | Mode | TargetUrl

definition spam_form_new :: "string option \<Rightarrow> spam_field form" where
  "spam_form_new default_target =
    \<lparr>fm_fields = [TotalTxs, Parallel, Burst, Accounts, Mode, TargetUrl], fm_index = 0,
     fm_inputs = [''100'', ''4'', ''20'', ''10'', ''round-robin'',
       case default_target of Some t \<Rightarrow> t | None \<Rightarrow> []],
     fm_error = None\<rparr>"

definition spam_form_mode :: "spam_field form \<Rightarrow> spam_mode option" where
  "spam_form_mode f = do {
     i4 \<leftarrow> nth_input f 4;
     Some (case spam_mode_parse i4 of Some m \<Rightarrow> m | None \<Rightarrow> RoundRobin)
   }"

text \<open>The checks in the order of the code, on the six inputs.\<close>

definition spam_request_of :: "string list \<Rightarrow> string + spam_request" where
  "spam_request_of inputs =
     and_then (parse_or ''Invalid total txs'' u64_max (trim (inputs ! 0))) (\<lambda>total_txs.
     if total_txs = 0 then Inl ''Total transactions must be greater than 0'' else
     and_then (parse_or ''Invalid parallel count'' u64_max (trim (inputs ! 1))) (\<lambda>parallel.
     if parallel = 0 then Inl ''Parallel transactions must be at least 1'' else
     and_then (parse_or ''Invalid burst size'' u64_max (trim (inputs ! 2))) (\<lambda>burst.
     if burst = 0 then Inl ''Burst size must be at least 1'' else
     and_then (parse_or ''Invalid account count'' u64_max (trim (inputs ! 3))) (\<lambda>accounts.
     if accounts < 2 then Inl ''Need at least 2 accounts'' else
     and_then (case spam_mode_parse (inputs ! 4) of
         Some m \<Rightarrow> Inr m | None \<Rightarrow> Inl (''Mode must be '' @ quoted ''round-robin'' @ '' or '' @ quoted ''target'')) (\<lambda>mode.
     let target = trim (inputs ! 5) in
     if mode = Target \<and> target = [] then Inl ''Target validator URL is required for target mode''
     else Inr \<lparr>sr_total_txs = of_nat total_txs, sr_parallel = of_nat parallel, sr_burst = of_nat burst,
       sr_accounts = accounts, sr_mode = mode,
       sr_target_url = (if target = [] then None else Some target)\<rparr>)))))"

definition spam_build_request :: "spam_field form \<Rightarrow> (string + spam_request) option" where
  "spam_build_request f = (if length (fm_inputs f) < 6 then None else Some (spam_request_of (fm_inputs f)))"

definition spam_enter :: "spam_field form \<Rightarrow> (spam_field form \<times> spam_request form_outcome) option" where
  "spam_enter f =
     (if fm_fields f = [] then None
      else do {
        submitting \<leftarrow>
          (if fm_index f = length (fm_fields f) - 1 then Some True
           else if length (fm_fields f) \<le> fm_index f then None
           else if fm_fields f ! fm_index f = Mode
             then map_option (\<lambda>m. m = RoundRobin) (spam_form_mode f) else Some False);
        if submitting then do { res \<leftarrow> spam_build_request f; Some (submit_form res f) }
        else Some (f\<lparr>fm_index := fm_index f + 1\<rparr>, Continue)
      })"

definition spam_handle_key ::
  "key_event \<Rightarrow> spam_field form \<Rightarrow> (spam_field form \<times> spam_request form_outcome) option" where
  "spam_handle_key key f =
     (let continuing = map_option (\<lambda>f. (f, Continue)) in
      case ke_code key of
        KEsc \<Rightarrow> Some (f, Cancelled)
      | KTab \<Rightarrow> continuing (next_field (clear_error f))
      | KDown \<Rightarrow> continuing (next_field (clear_error f))
      | KUp \<Rightarrow> continuing (previous_field (clear_error f))
      | KBackspace \<Rightarrow> continuing (edit_input butlast (clear_error f))
      | KChar c \<Rightarrow>
          if ke_modifiers key = [] then continuing (edit_input (\<lambda>s. s @ [c]) (clear_error f))
          else Some (f, Continue)
      | KEnter \<Rightarrow> spam_enter (clear_error f)
      | _ \<Rightarrow> Some (f, Continue))"

section \<open>Log viewer\<close>

record log_modal =
  lm_label :: string
  lm_title :: string
  lm_path :: string
  lm_lines :: "string list"
  lm_scroll :: u16
  lm_follow_tail :: bool

definition log_modal_new :: "string \<Rightarrow> string \<Rightarrow> string \<Rightarrow> log_modal" where
  "log_modal_new label title path =
    \<lparr>lm_label = label, lm_title = title, lm_path = path, lm_lines = [], lm_scroll = 0, lm_follow_tail = True\<rparr>"

text \<open>
  Removing terminal escapes: after an escape character everything up to the next letter or tilde
  is dropped, and so are control characters other than the tab.
\<close>

datatype sanitize_state = InText | InAnsi

fun sanitize_from :: "sanitize_state \<Rightarrow> string \<Rightarrow> string" where
  "sanitize_from st [] = []"
| "sanitize_from InText (ch # s) =
     (if ch = CHR 0x1B then sanitize_from InAnsi s
      else if ch = CHR 0x0D then sanitize_from InText s
      else if is_control ch \<and> ch \<noteq> CHR 0x09 then sanitize_from InText s
      else ch # sanitize_from InText s)"
| "sanitize_from InAnsi (ch # s) =
     (if is_ascii_alphabetic ch \<or> ch = CHR ''~'' then sanitize_from InText s else sanitize_from InAnsi s)"

definition sanitize_line :: "string \<Rightarrow> string" where
  "sanitize_line line = sanitize_from InText line"

definition last_lines :: "nat \<Rightarrow> string list \<Rightarrow> string list" where
  "last_lines m ls = (if length ls > m then drop (length ls - m) ls else ls)"

definition refresh_lines :: "string + string \<Rightarrow> log_modal \<Rightarrow> string + log_modal" where
  "refresh_lines content m =
     (case content of
        Inl e \<Rightarrow> Inl (''failed to read log file '' @ lm_path m @ '': '' @ e)
      | Inr txt \<Rightarrow> Inr (m\<lparr>lm_lines := last_lines 500 (map sanitize_line (text_lines txt))\<rparr>))"

definition u16_saturating_sub :: "u16 \<Rightarrow> u16 \<Rightarrow> u16" where
  "u16_saturating_sub a b = (if b \<le> a then a - b else 0)"

definition u16_saturating_add :: "u16 \<Rightarrow> u16 \<Rightarrow> u16" where
  "u16_saturating_add a b = (if unat a + unat b < 2 ^ 16 then a + b else - 1)"

definition scroll_up :: "u16 \<Rightarrow> log_modal \<Rightarrow> log_modal" where
  "scroll_up n m = m\<lparr>lm_follow_tail := False, lm_scroll := u16_saturating_sub (lm_scroll m) n\<rparr>"

definition scroll_down :: "u16 \<Rightarrow> log_modal \<Rightarrow> log_modal" where
  "scroll_down n m = m\<lparr>lm_follow_tail := False, lm_scroll := u16_saturating_add (lm_scroll m) n\<rparr>"

definition scroll_to_top :: "log_modal \<Rightarrow> log_modal" where
  "scroll_to_top m = m\<lparr>lm_follow_tail := False, lm_scroll := 0\<rparr>"

definition scroll_to_bottom :: "log_modal \<Rightarrow> log_modal" where
  "scroll_to_bottom m = m\<lparr>lm_follow_tail := True, lm_scroll := - 1\<rparr>"

end
