(* ===== verification/Inspector_State.thy ===== *)
theory Inspector_State
  imports Inspector_Forms "HOL-Library.List_Lexorder"
begin

text \<open>
  The inspector's state (\<open>models/validator.rs\<close>, \<open>models/state.rs\<close>): the watched validators, the
  selected row, forms and dialogs, and every operation of \<open>AppState\<close>.  An index out of range is
  \<open>None\<close>, a failing operation an error text.  The outside world is passed in: the clock in
  nanoseconds, the files (text, or the text of the error), whether a file can be written, and the
  two library calls that parse a URL and shorten a key file for display.
\<close>

section \<open>Validators\<close>

record validator_target =
  vt_label :: string
  vt_url :: string
  vt_port :: "u16 option"
  vt_key :: "string option"
  vt_log_path :: "string option"

record peer_info =
  pi_id :: string
  pi_name :: "string option"
  pi_caps :: "string list"
  pi_enode :: "string option"
  pi_remote_addr :: "string option"
  pi_remote_port :: "u16 option"

record tx_receipt =
  tr_hash :: string
  tr_block_number :: "u64 option"
  tr_from :: "string option"
  tr_to :: "string option"
  tr_status :: "bool option"
  tr_gas_used :: "u64 option"

record validator_report =
  vr_label :: string
  vr_height :: "u64 option"
  vr_block_txs :: "u64 option"
  vr_timestamp :: nat
  vr_ok :: bool
  vr_error :: "string option"
  vr_peer_count :: "nat option"
  vr_peers :: "peer_info list"
  vr_latency :: "nat option"
  vr_latest_receipts :: "tx_receipt list"

datatype lifecycle_state = Starting | Restarting | Stopping

datatype status_class = Up | Stale | Down

record validator_entry =
  ve_target :: validator_target
  ve_height :: "u64 option"
  ve_total_txs :: u64
  ve_last_ok :: "nat option"
  ve_last_update :: "nat option"
  ve_last_error :: "string option"
  ve_lifecycle :: "lifecycle_state option"
  ve_peer_count :: "nat option"
  ve_peers :: "peer_info list"
  ve_latency :: "nat option"
  ve_receipts :: "tx_receipt list"

definition validator_entry_new :: "validator_target \<Rightarrow> validator_entry" where
  "validator_entry_new target =
    \<lparr>ve_target = target, ve_height = None, ve_total_txs = 0, ve_last_ok = None, ve_last_update = None,
     ve_last_error = None, ve_lifecycle = None, ve_peer_count = None, ve_peers = [], ve_latency = None,
     ve_receipts = []\<rparr>"

definition u64_saturating_add :: "u64 \<Rightarrow> u64 \<Rightarrow> u64" where
  "u64_saturating_add a b = (if unat a + unat b < 2 ^ 64 then a + b else - 1)"

text \<open>The transactions of a block are counted when the height is new.\<close>

definition count_txs :: "validator_report \<Rightarrow> validator_entry \<Rightarrow> u64" where
  "count_txs r e =
     (case vr_height r of
        None \<Rightarrow> ve_total_txs e
      | Some new_height \<Rightarrow>
          (case (ve_height e, vr_block_txs r) of
             (Some prev_height, Some block_txs) \<Rightarrow>
               if prev_height < new_height then u64_saturating_add (ve_total_txs e) block_txs
               else ve_total_txs e
           | (None, Some block_txs) \<Rightarrow> block_txs
           | (_, None) \<Rightarrow> ve_total_txs e))"

abbreviation max_receipts :: nat where "max_receipts \<equiv> 512"

definition add_receipt :: "tx_receipt list \<Rightarrow> tx_receipt \<Rightarrow> tx_receipt list" where
  "add_receipt rs r =
     (if \<exists>q\<in>set rs. tr_hash q = tr_hash r then rs
      else (if length rs \<ge> max_receipts then tl rs else rs) @ [r])"

definition apply_report :: "validator_report \<Rightarrow> validator_entry \<Rightarrow> validator_entry" where
  "apply_report r e =
     (let e = e\<lparr>ve_last_update := Some (vr_timestamp r)\<rparr>;
          e = (if vr_ok r
               then e\<lparr>ve_last_ok := Some (vr_timestamp r), ve_total_txs := count_txs r e,
                      ve_height := vr_height r, ve_last_error := None\<rparr>
               else e\<lparr>ve_last_ok := None, ve_last_error := vr_error r\<rparr>)
      in e\<lparr>ve_peer_count := vr_peer_count r, ve_peers := vr_peers r, ve_latency := vr_latency r,
           ve_receipts := foldl add_receipt (ve_receipts e) (vr_latest_receipts r)\<rparr>)"

definition entry_status :: "nat \<Rightarrow> validator_entry \<Rightarrow> status_class" where
  "entry_status now e =
     (case ve_last_ok e of
        None \<Rightarrow> Down
      | Some ok \<Rightarrow>
          let age = now - ok in
          if age \<le> 60 * 10 ^ 9 then Up else if age \<le> 600 * 10 ^ 9 then Stale else Down)"

definition height_str :: "validator_entry \<Rightarrow> string" where
  "height_str e = (case ve_height e of Some h \<Rightarrow> show_u64 h | None \<Rightarrow> ''-'')"

definition txs_str :: "validator_entry \<Rightarrow> string" where
  "txs_str e = (if ve_total_txs e = 0 then ''-'' else show_u64 (ve_total_txs e))"

section \<open>Application state\<close>

record control_config =
  cc_start_cmd :: "string option"
  cc_stop_cmd :: "string option"
  cc_restart_cmd :: "string option"

definition can_start :: "control_config \<Rightarrow> bool" where
  "can_start c \<longleftrightarrow> cc_start_cmd c \<noteq> None"

definition can_stop :: "control_config \<Rightarrow> bool" where
  "can_stop c \<longleftrightarrow> cc_stop_cmd c \<noteq> None"

definition can_restart :: "control_config \<Rightarrow> bool" where
  "can_restart c \<longleftrightarrow> cc_restart_cmd c \<noteq> None \<or> can_start c \<and> can_stop c"

record active_chain =
  ac_base_http_port :: u16
  ac_num_nodes :: nat
  ac_data_dir :: string
  ac_logs_dir :: string
  ac_assets_dir :: string
  ac_rbft_binary :: string
  ac_trusted_peers :: "string option"

datatype status_kind = Info | Error

record inline_log_view =
  il_label :: "string option"
  il_lines :: "string list"
  il_error :: "string option"

record automation_script =
  as_relative_path :: string
  as_contract :: string

record automation_modal =
  am_scripts :: "automation_script list"
  am_index :: nat

record automation_panel =
  pn_running :: bool
  pn_script_label :: "string option"
  pn_lines :: "string list"

record app_state =
  ap_entries :: "validator_entry list"
  ap_selected :: "nat option"
  ap_should_quit :: bool
  ap_status_message :: "(status_kind \<times> string) option"
  ap_status_from_data :: bool
  ap_control :: control_config
  ap_launch_form :: "launch_field form option"
  ap_spam_form :: "spam_field form option"
  ap_log_modal :: "log_modal option"
  ap_active_chain :: "active_chain option"
  ap_inline_log :: inline_log_view
  ap_inline_last_refresh :: "nat option"
  ap_inline_logs_enabled :: bool
  ap_start_time :: "nat option"
  ap_receipts_scroll :: u16
  ap_automation_project :: "string option"
  ap_automation_scripts :: "automation_script list"
  ap_automation_modal :: "automation_modal option"
  ap_automation_panel :: automation_panel

record world =
  w_now :: nat
  w_read :: "string \<Rightarrow> string + string"
  w_write :: "string \<Rightarrow> string option"
  w_parse_url :: "string \<Rightarrow> string + string"
  w_load_key :: "string \<Rightarrow> string option"

datatype app_action = Start nat | Stop nat | Restart nat

fun action_index :: "app_action \<Rightarrow> nat" where
  "action_index (Start i) = i"
| "action_index (Stop i) = i"
| "action_index (Restart i) = i"

record launch_node_plan =
  lp_entry_index :: nat
  lp_target :: validator_target

datatype key_outcome =
    NoOutcome
  | Action app_action
  | LaunchChain launch_request
  | LaunchNode launch_node_plan
  | Spam spam_request
  | Ping nat
  | AutomationRun automation_script
  | AutomationStop

section \<open>Automation dialog and panel\<close>

definition script_display_name :: "automation_script \<Rightarrow> string" where
  "script_display_name s = as_contract s @ '' ('' @ as_relative_path s @ '')''"

text \<open>The scripts among the names in the scripts directory, if it can be listed.\<close>

definition script_of_name :: "string \<Rightarrow> automation_script option" where
  "script_of_name name =
     (case strip_suffix ''.sol'' name of
        None \<Rightarrow> None
      | Some stem \<Rightarrow> if stem = [] then None
          else Some \<lparr>as_relative_path = ''contracts/scripts/'' @ name, as_contract = stem\<rparr>)"

definition discover_automation_scripts :: "string list option \<Rightarrow> automation_script list" where
  "discover_automation_scripts listing =
     (case listing of
        None \<Rightarrow> []
      | Some names \<Rightarrow> sort_key script_display_name (filter_map script_of_name names))"

definition is_key :: "char \<Rightarrow> char \<Rightarrow> key_code \<Rightarrow> bool" where
  "is_key lower upper k \<longleftrightarrow> k = KChar lower \<or> k = KChar upper"

datatype modal_outcome = ModalContinue | ModalCancelled | ModalSelected automation_script

definition automation_modal_key :: "key_event \<Rightarrow> automation_modal \<Rightarrow> (automation_modal \<times> modal_outcome) option" where
  "automation_modal_key key m =
     (let n = length (am_scripts m); k = ke_code key in
      if k = KEsc then Some (m, ModalCancelled)
      else if k = KUp \<or> is_key CHR ''k'' CHR ''K'' k then
        Some (if n = 0 then m
              else if am_index m = 0 then m\<lparr>am_index := n - 1\<rparr> else m\<lparr>am_index := am_index m - 1\<rparr>,
              ModalContinue)
      else if k = KDown \<or> is_key CHR ''j'' CHR ''J'' k then
        Some (if n = 0 then m else m\<lparr>am_index := (am_index m + 1) mod n\<rparr>, ModalContinue)
      else if k = KHome then Some (if n = 0 then m else m\<lparr>am_index := 0\<rparr>, ModalContinue)
      else if k = KEnd then Some (if n = 0 then m else m\<lparr>am_index := n - 1\<rparr>, ModalContinue)
      else if k = KEnter then
        (if n = 0 then Some (m, ModalCancelled)
         else if am_index m < n then Some (m, ModalSelected (am_scripts m ! am_index m)) else None)
      else Some (m, ModalContinue))"

definition panel_default :: automation_panel where
  "panel_default = \<lparr>pn_running = False, pn_script_label = None, pn_lines = [''Automation idle'']\<rparr>"

definition panel_start :: "string \<Rightarrow> automation_panel \<Rightarrow> automation_panel" where
  "panel_start label p =
     p\<lparr>pn_running := True, pn_script_label := Some label, pn_lines := [''Starting automation script...'']\<rparr>"

definition panel_stop :: "string \<Rightarrow> automation_panel \<Rightarrow> automation_panel" where
  "panel_stop reason p =
     (let p = p\<lparr>pn_running := False, pn_script_label := None, pn_lines := pn_lines p @ [reason]\<rparr> in
      if pn_lines p = [] then p\<lparr>pn_lines := [''Automation idle'']\<rparr> else p)"

definition panel_push_log :: "string \<Rightarrow> automation_panel \<Rightarrow> automation_panel" where
  "panel_push_log line p =
     (let ls = pn_lines p @ [line] in
      p\<lparr>pn_lines := (if length ls > 200 then drop (length ls - 200) ls else ls)\<rparr>)"

section \<open>Status and selection\<close>

definition set_status_message :: "status_kind \<Rightarrow> string \<Rightarrow> app_state \<Rightarrow> app_state" where
  "set_status_message kind msg s = s\<lparr>ap_status_message := Some (kind, msg), ap_status_from_data := False\<rparr>"

definition set_data_status_message :: "status_kind \<Rightarrow> string \<Rightarrow> app_state \<Rightarrow> app_state" where
  "set_data_status_message kind msg s = s\<lparr>ap_status_message := Some (kind, msg), ap_status_from_data := True\<rparr>"

definition clear_error_message :: "app_state \<Rightarrow> app_state" where
  "clear_error_message s =
     (if ap_status_from_data s \<and> (\<exists>m\<in>set_option (ap_status_message s). fst m = Error)
      then s\<lparr>ap_status_message := None, ap_status_from_data := False\<rparr> else s)"

definition entry_get :: "app_state \<Rightarrow> nat \<Rightarrow> validator_entry option" where
  "entry_get s i = (if i < length (ap_entries s) then Some (ap_entries s ! i) else None)"

definition selected_entry :: "app_state \<Rightarrow> validator_entry option" where
  "selected_entry s = (case ap_selected s of None \<Rightarrow> None | Some i \<Rightarrow> entry_get s i)"

definition index_for_label :: "string \<Rightarrow> app_state \<Rightarrow> nat option" where
  "index_for_label label s = position (\<lambda>e. vt_label (ve_target e) = label) (ap_entries s)"

definition modify_entry_at :: "nat \<Rightarrow> (validator_entry \<Rightarrow> validator_entry) \<Rightarrow> app_state \<Rightarrow> app_state" where
  "modify_entry_at i f s =
     (if i < length (ap_entries s) then s\<lparr>ap_entries := (ap_entries s)[i := f (ap_entries s ! i)]\<rparr> else s)"

definition modify_entry_label :: "string \<Rightarrow> (validator_entry \<Rightarrow> validator_entry) \<Rightarrow> app_state \<Rightarrow> app_state" where
  "modify_entry_label label f s =
     (case index_for_label label s of Some i \<Rightarrow> modify_entry_at i f s | None \<Rightarrow> s)"

definition clear_action_state_index :: "nat \<Rightarrow> app_state \<Rightarrow> app_state" where
  "clear_action_state_index i s = modify_entry_at i (\<lambda>e. e\<lparr>ve_lifecycle := None\<rparr>) s"

definition clear_action_state_label :: "string \<Rightarrow> app_state \<Rightarrow> app_state" where
  "clear_action_state_label label s = modify_entry_label label (\<lambda>e. e\<lparr>ve_lifecycle := None\<rparr>) s"

section \<open>Receipts\<close>

record receipt_view =
  rv_label :: string
  rv_receipt :: tx_receipt

definition receipt_entries :: "app_state \<Rightarrow> receipt_view list" where
  "receipt_entries s =
     (case selected_entry s of
        None \<Rightarrow> []
      | Some e \<Rightarrow> map (\<lambda>r. \<lparr>rv_label = vt_label (ve_target e), rv_receipt = r\<rparr>) (rev (ve_receipts e)))"

definition receipt_len :: "app_state \<Rightarrow> nat" where
  "receipt_len s = (case selected_entry s of None \<Rightarrow> 0 | Some e \<Rightarrow> length (ve_receipts e))"

definition max_scroll :: "nat \<Rightarrow> u16" where
  "max_scroll len = of_nat (min (len - 1) u16_max)"

definition scroll_receipts_up :: "u16 \<Rightarrow> app_state \<Rightarrow> app_state" where
  "scroll_receipts_up n s = s\<lparr>ap_receipts_scroll := u16_saturating_sub (ap_receipts_scroll s) n\<rparr>"

definition scroll_receipts_down :: "u16 \<Rightarrow> app_state \<Rightarrow> app_state" where
  "scroll_receipts_down n s =
     (if receipt_len s = 0 then s
      else s\<lparr>ap_receipts_scroll :=
        min (u16_saturating_add (ap_receipts_scroll s) n) (max_scroll (receipt_len s))\<rparr>)"

definition clamp_receipt_scroll :: "app_state \<Rightarrow> app_state" where
  "clamp_receipt_scroll s =
     (if receipt_len s = 0 then s\<lparr>ap_receipts_scroll := 0\<rparr>
      else if max_scroll (receipt_len s) < ap_receipts_scroll s
        then s\<lparr>ap_receipts_scroll := max_scroll (receipt_len s)\<rparr> else s)"

section \<open>Logs\<close>

definition inline_clear :: inline_log_view where
  "inline_clear = \<lparr>il_label = None, il_lines = [], il_error = None\<rparr>"

text \<open>The last 16 KiB of a file, at most 100 lines.\<close>

definition tail_log :: "string + string \<Rightarrow> string + string list" where
  "tail_log content =
     (case content of
        Inl e \<Rightarrow> Inl e
      | Inr txt \<Rightarrow> Inr (last_lines 100 (map sanitize_line (text_lines (drop (length txt - 16 * 1024) txt)))))"

definition inline_view :: "world \<Rightarrow> validator_entry \<Rightarrow> inline_log_view" where
  "inline_view w e =
     (let label = vt_label (ve_target e) in
      case vt_log_path (ve_target e) of
        None \<Rightarrow> \<lparr>il_label = Some label, il_lines = [], il_error = Some ''No log file configured''\<rparr>
      | Some path \<Rightarrow>
          (case tail_log (w_read w path) of
             Inl err \<Rightarrow> \<lparr>il_label = Some label, il_lines = [], il_error = Some (''Unable to read log: '' @ err)\<rparr>
           | Inr ls \<Rightarrow> \<lparr>il_label = Some label, il_lines = (if ls = [] then [''<log empty>''] else ls), il_error = None\<rparr>))"

definition refresh_inline_log :: "world \<Rightarrow> app_state \<Rightarrow> app_state" where
  "refresh_inline_log w s =
     (if \<not> ap_inline_logs_enabled s then s
      else if (\<exists>t\<in>set_option (ap_inline_last_refresh s). w_now w - t < 2 * 10 ^ 9) then s
      else case selected_entry s of
        None \<Rightarrow> s\<lparr>ap_inline_log := inline_clear\<rparr>
      | Some e \<Rightarrow> s\<lparr>ap_inline_log := inline_view w e, ap_inline_last_refresh := Some (w_now w)\<rparr>)"

definition open_logs_modal :: "world \<Rightarrow> nat \<Rightarrow> app_state \<Rightarrow> string + app_state" where
  "open_logs_modal w idx s =
     (case entry_get s idx of
        None \<Rightarrow> Inl ''No validator selected''
      | Some e \<Rightarrow>
          (case vt_log_path (ve_target e) of
             None \<Rightarrow> Inl ''Log path unavailable for validator''
           | Some path \<Rightarrow>
               let label = vt_label (ve_target e) in
               and_then (refresh_lines (w_read w path) (log_modal_new label (''Logs for '' @ label) path))
                 (\<lambda>m. Inr (s\<lparr>ap_log_modal := Some m\<rparr>))))"

definition refresh_log_for_label :: "world \<Rightarrow> string \<Rightarrow> app_state \<Rightarrow> string + app_state" where
  "refresh_log_for_label w label s =
     (case ap_log_modal s of
        None \<Rightarrow> Inr s
      | Some m \<Rightarrow>
          if lm_label m = label then
            and_then (refresh_lines (w_read w (lm_path m)) m) (\<lambda>m.
              Inr (s\<lparr>ap_log_modal := Some (if lm_follow_tail m then scroll_to_bottom m else m)\<rparr>))
          else Inr s)"

definition refresh_log_for_index :: "world \<Rightarrow> nat \<Rightarrow> app_state \<Rightarrow> string + app_state" where
  "refresh_log_for_index w idx s =
     (case entry_get s idx of
        None \<Rightarrow> Inr s
      | Some e \<Rightarrow> refresh_log_for_label w (vt_label (ve_target e)) s)"

text \<open>Emptying a log file; what is then read of it is the empty text.\<close>

definition reset_log_file_for_index :: "world \<Rightarrow> nat \<Rightarrow> app_state \<Rightarrow> world \<times> app_state" where
  "reset_log_file_for_index w idx s =
     (case entry_get s idx of
        None \<Rightarrow> (w, s)
      | Some e \<Rightarrow>
          (case vt_log_path (ve_target e) of
             None \<Rightarrow> (w, s)
           | Some path \<Rightarrow>
               (case w_write w path of
                  Some err \<Rightarrow> (w, set_status_message Error (''Failed to clear log '' @ path @ '': '' @ err) s)
                | None \<Rightarrow>
                    let w = w\<lparr>w_read := (w_read w)(path := Inr [])\<rparr> in
                    (w, case refresh_log_for_label w (vt_label (ve_target e)) s of Inl _ \<Rightarrow> s | Inr s \<Rightarrow> s))))"

definition is_ready_action :: "string \<Rightarrow> bool" where
  "is_ready_action action \<longleftrightarrow> action = ''start-ready'' \<or> action = ''restart-ready''"

definition report_refresh :: "string + app_state \<Rightarrow> app_state \<Rightarrow> app_state" where
  "report_refresh res s =
     (case res of Inl err \<Rightarrow> set_status_message Error (''Failed to refresh logs: '' @ err) s | Inr s \<Rightarrow> s)"

definition refresh_logs_after_action :: "world \<Rightarrow> string \<Rightarrow> string \<Rightarrow> app_state \<Rightarrow> app_state" where
  "refresh_logs_after_action w label action s =
     (if action = ''start'' \<or> action = ''restart'' \<or> is_ready_action action then
        let s = report_refresh (refresh_log_for_label w label s) s in
        if il_label (ap_inline_log s) = Some label then refresh_inline_log w s else s
      else s)"

end
