(* ===== verification/Inspector_App.thy ===== *)
theory Inspector_App
  imports Inspector_State
begin

text \<open>
  The operations of the inspector that change what it shows (\<open>AppState\<close> of \<open>models/state.rs\<close>):
  lifecycle actions, planning a node, new targets, reports and command results, moving the
  selection, and the dispatch of a key.
\<close>

section \<open>Lifecycle actions\<close>

definition begin_action :: "world \<Rightarrow> app_action \<Rightarrow> app_state \<Rightarrow> app_state" where
  "begin_action w action s =
     (let idx = action_index action;
          s = modify_entry_at idx (\<lambda>e. e\<lparr>ve_lifecycle := Some
                (case action of Start _ \<Rightarrow> Starting | Stop _ \<Rightarrow> Stopping | Restart _ \<Rightarrow> Restarting)\<rparr>) s in
      case action of
        Stop _ \<Rightarrow> s
      | _ \<Rightarrow>
          let (w, s) = reset_log_file_for_index w idx s in
          report_refresh (refresh_log_for_index w idx s) s)"

section \<open>Adding a node\<close>

text \<open>Ports count down from the base port; an index or port out of range is an error.\<close>

definition target_for_index :: "world \<Rightarrow> nat \<Rightarrow> active_chain \<Rightarrow> string + validator_target" where
  "target_for_index w idx chain =
     (if u16_max < idx then Inl (''validator index '' @ show_dec idx @ '' exceeds supported range'')
      else if unat (ac_base_http_port chain) < idx
        then Inl (''base HTTP port too small for validator index '' @ show_dec idx)
      else
        let port = ac_base_http_port chain - of_nat idx in
        and_then (w_parse_url w (''http://127.0.0.1:'' @ show_dec (unat port))) (\<lambda>url.
          Inr \<lparr>vt_label = CHR ''v'' # show_dec idx, vt_url = url, vt_port = Some port,
               vt_key = w_load_key w (CHR ''v'' # show_dec idx),
               vt_log_path = Some (ac_logs_dir chain @ ''/node'' @ show_dec idx @ ''.log'')\<rparr>))"

definition label_index :: "string \<Rightarrow> nat option" where
  "label_index label = (case parse_uint u64_max (trim_start_char CHR ''v'' label) of Inl _ \<Rightarrow> None | Inr n \<Rightarrow> Some n)"

text \<open>\<open>usize\<close> addition of a release build.\<close>

definition usize_succ :: "nat \<Rightarrow> nat" where
  "usize_succ n = (n + 1) mod 2 ^ 64"

definition next_node_index :: "validator_entry list \<Rightarrow> nat" where
  "next_node_index es =
     (case vec_max (filter_map (\<lambda>e. label_index (vt_label (ve_target e))) es) of
        None \<Rightarrow> 0 | Some max_idx \<Rightarrow> usize_succ max_idx)"

definition plan_launch_node :: "world \<Rightarrow> app_state \<Rightarrow> app_state \<times> (string + launch_node_plan)" where
  "plan_launch_node w s =
     (case ap_active_chain s of
        None \<Rightarrow> (s, Inl ''Launch node is only available after launching a chain'')
      | Some chain \<Rightarrow>
          let next_index = next_node_index (ap_entries s);
              chain = chain\<lparr>ac_num_nodes := max (ac_num_nodes chain) (usize_succ next_index)\<rparr>;
              s = s\<lparr>ap_active_chain := Some chain\<rparr> in
          (case target_for_index w next_index chain of
             Inl err \<Rightarrow> (s, Inl err)
           | Inr target \<Rightarrow>
               let entry_index = length (ap_entries s);
                   s = s\<lparr>ap_entries := ap_entries s @ [(validator_entry_new target)\<lparr>ve_lifecycle := Some Starting\<rparr>],
                         ap_selected := Some entry_index, ap_receipts_scroll := 0\<rparr> in
               (refresh_inline_log w s, Inr \<lparr>lp_entry_index = entry_index, lp_target = target\<rparr>)))"

section \<open>Targets, reports and results\<close>

text \<open>
  The entries are moved into a \<open>HashMap\<close> by label, where a later one replaces an earlier one, and
  each target takes out the entry of its label.
\<close>

definition entry_label :: "validator_entry \<Rightarrow> string" where
  "entry_label e = vt_label (ve_target e)"

definition entries_by_label :: "validator_entry list \<Rightarrow> string \<rightharpoonup> validator_entry" where
  "entries_by_label es = map_of (rev (map (\<lambda>e. (entry_label e, e)) es))"

fun rebuild_entries :: "(string \<rightharpoonup> validator_entry) \<Rightarrow> validator_target list \<Rightarrow> validator_entry list" where
  "rebuild_entries existing [] = []"
| "rebuild_entries existing (t # ts) =
     (case existing (vt_label t) of
        Some e \<Rightarrow> e\<lparr>ve_target := t\<rparr> # rebuild_entries (existing(vt_label t := None)) ts
      | None \<Rightarrow> validator_entry_new t # rebuild_entries existing ts)"

definition reselect :: "validator_entry list \<Rightarrow> nat option \<Rightarrow> nat option" where
  "reselect es sel =
     (case sel of
        Some idx \<Rightarrow> if idx < length es then Some idx else if es = [] then None else Some 0
      | None \<Rightarrow> if es = [] then None else Some 0)"

definition set_targets :: "world \<Rightarrow> validator_target list \<Rightarrow> app_state \<Rightarrow> app_state" where
  "set_targets w targets s =
     (let new_entries = rebuild_entries (entries_by_label (ap_entries s)) targets in
      refresh_inline_log w
        (s\<lparr>ap_entries := new_entries, ap_selected := reselect new_entries (ap_selected s), ap_receipts_scroll := 0\<rparr>))"

fun apply_report_map :: "(string \<rightharpoonup> validator_report) \<Rightarrow> validator_entry list \<Rightarrow> validator_entry list" where
  "apply_report_map m [] = []"
| "apply_report_map m (e # es) =
     (case m (entry_label e) of
        Some r \<Rightarrow> apply_report r e # apply_report_map (m(entry_label e := None)) es
      | None \<Rightarrow> e # apply_report_map m es)"

definition apply_reports :: "world \<Rightarrow> validator_report list \<Rightarrow> app_state \<Rightarrow> app_state" where
  "apply_reports w reports s =
     (let m = map_of (rev (map (\<lambda>r. (vr_label r, r)) reports)) in
      clamp_receipt_scroll
        (refresh_inline_log w (s\<lparr>ap_entries := apply_report_map m (ap_entries s)\<rparr>)))"

definition command_lifecycle :: "string \<Rightarrow> string \<Rightarrow> bool \<Rightarrow> app_state \<Rightarrow> app_state" where
  "command_lifecycle label action success s =
     (if action = ''stop'' then clear_action_state_label label s
      else if action = ''start'' \<or> action = ''restart'' then
        (if success then s else clear_action_state_label label s)
      else if is_ready_action action then clear_action_state_label label s
      else s)"

definition command_entry :: "nat \<Rightarrow> string \<Rightarrow> validator_entry \<Rightarrow> validator_entry" where
  "command_entry now action e =
     (if action = ''stop'' \<or> action = ''restart''
      then e\<lparr>ve_last_ok := None, ve_height := None, ve_total_txs := 0\<rparr>
      else if is_ready_action action then e\<lparr>ve_last_ok := Some now\<rparr>
      else e)"

definition handle_command_result ::
  "world \<Rightarrow> string \<Rightarrow> string \<Rightarrow> bool \<Rightarrow> string option \<Rightarrow> app_state \<Rightarrow> app_state" where
  "handle_command_result w label action success message s =
     (let s = refresh_logs_after_action w label action s;
          s = command_lifecycle label action success s;
          s = (if success then modify_entry_label label (command_entry (w_now w) action) s else s);
          msg = (case message of
                   Some m \<Rightarrow> m
                 | None \<Rightarrow> action @ (if success then '' command succeeded for '' else '' command failed for '') @ label)
      in set_status_message (if success then Info else Error) msg s)"

definition set_active_chain :: "world \<Rightarrow> active_chain \<Rightarrow> app_state \<Rightarrow> app_state" where
  "set_active_chain w chain s =
     (let s = s\<lparr>ap_active_chain := Some chain\<rparr>;
          s = (if ap_start_time s = None then s\<lparr>ap_start_time := Some (w_now w)\<rparr> else s)
      in refresh_inline_log w s)"

definition open_automation_modal :: "app_state \<Rightarrow> app_state" where
  "open_automation_modal s =
     (let s = (if ap_automation_scripts s = []
               then set_status_message Error ''No automation scripts found under contracts/scripts'' s else s)
      in s\<lparr>ap_automation_modal := Some \<lparr>am_scripts = ap_automation_scripts s, am_index = 0\<rparr>\<rparr>)"

section \<open>Selection\<close>

definition select_index :: "world \<Rightarrow> nat \<Rightarrow> app_state \<Rightarrow> app_state" where
  "select_index w i s =
     refresh_inline_log w
       (s\<lparr>ap_selected := Some i, ap_receipts_scroll := 0, ap_inline_last_refresh := None\<rparr>)"

definition select_previous :: "world \<Rightarrow> nat \<Rightarrow> app_state \<Rightarrow> app_state" where
  "select_previous w n s =
     (if ap_entries s = [] then s
      else select_index w ((case ap_selected s of Some i \<Rightarrow> i | None \<Rightarrow> 0) - n) s)"

definition select_next :: "world \<Rightarrow> nat \<Rightarrow> app_state \<Rightarrow> app_state" where
  "select_next w n s =
     (if ap_entries s = [] then s
      else select_index w (min ((case ap_selected s of Some i \<Rightarrow> i | None \<Rightarrow> 0) + n) (length (ap_entries s) - 1)) s)"

definition select_first :: "world \<Rightarrow> app_state \<Rightarrow> app_state" where
  "select_first w s = (if ap_entries s = [] then s else select_index w 0 s)"

definition select_last :: "world \<Rightarrow> app_state \<Rightarrow> app_state" where
  "select_last w s = (if ap_entries s = [] then s else select_index w (length (ap_entries s) - 1) s)"

definition app_state_new ::
  "world \<Rightarrow> validator_target list \<Rightarrow> control_config \<Rightarrow> string option \<Rightarrow> string list option \<Rightarrow> app_state" where
  "app_state_new w targets control automation_project listing =
     refresh_inline_log w
       \<lparr>ap_entries = map validator_entry_new targets,
        ap_selected = (if targets = [] then None else Some 0),
        ap_should_quit = False, ap_status_message = None, ap_status_from_data = False, ap_control = control,
        ap_launch_form = None, ap_spam_form = None, ap_log_modal = None, ap_active_chain = None,
        ap_inline_log = inline_clear, ap_inline_last_refresh = None, ap_inline_logs_enabled = True,
        ap_start_time = None, ap_receipts_scroll = 0, ap_automation_project = automation_project,
        ap_automation_scripts = (if automation_project = None then [] else discover_automation_scripts listing),
        ap_automation_modal = None, ap_automation_panel = panel_default\<rparr>"

record chain_stats =
  cs_uptime :: "nat option"
  cs_total_validators :: nat
  cs_active_validators :: nat
  cs_total_txs :: u64
  cs_highest_block :: "u64 option"
  cs_average_latency :: "nat option"

definition chain_stats_of :: "nat \<Rightarrow> app_state \<Rightarrow> chain_stats" where
  "chain_stats_of now s =
     (let es = ap_entries s; latencies = filter_map ve_latency es in
      \<lparr>cs_uptime = map_option (\<lambda>start. now - start) (ap_start_time s),
       cs_total_validators = length es,
       cs_active_validators = length (filter (\<lambda>e. entry_status now e = Up) es),
       cs_total_txs = sum_list (map ve_total_txs es),
       cs_highest_block = vec_max (filter_map ve_height es),
       cs_average_latency =
         (if latencies = [] then None else Some (sum_list latencies div length latencies))\<rparr>)"

section \<open>Keys\<close>

text \<open>Keys while the log viewer is open.\<close>

definition log_modal_key :: "world \<Rightarrow> key_event \<Rightarrow> log_modal \<Rightarrow> app_state \<Rightarrow> app_state" where
  "log_modal_key w key m s =
     (if ke_code key = KEsc then s\<lparr>ap_log_modal := None\<rparr>
      else
        let k = ke_code key;
            refreshed = (if k = KDown \<or> k = KPageDown \<or> k = KEnd then refresh_lines (w_read w (lm_path m)) m else Inr m);
            m = (case refreshed of Inr m' \<Rightarrow> m' | Inl _ \<Rightarrow> m);
            m = (if k = KUp then scroll_up 1 m else if k = KDown then scroll_down 1 m
                 else if k = KPageUp then scroll_up 10 m else if k = KPageDown then scroll_down 10 m
                 else if k = KHome then scroll_to_top m else if k = KEnd then scroll_to_bottom m else m);
            s = s\<lparr>ap_log_modal := Some m\<rparr>
        in case refreshed of
             Inl err \<Rightarrow> set_status_message Error (''Failed to refresh logs: '' @ err) s
           | Inr _ \<Rightarrow> s)"

definition launch_form_key :: "key_event \<Rightarrow> launch_field form \<Rightarrow> app_state \<Rightarrow> (app_state \<times> key_outcome) option" where
  "launch_form_key key f s = do {
     (f, out) \<leftarrow> launch_handle_key key f;
     Some (case out of
         Continue \<Rightarrow> (s\<lparr>ap_launch_form := Some f\<rparr>, NoOutcome)
       | Cancelled \<Rightarrow> (s\<lparr>ap_launch_form := None\<rparr>, NoOutcome)
       | Submitted request \<Rightarrow> (s\<lparr>ap_launch_form := None\<rparr>, LaunchChain request))
   }"

definition spam_form_key :: "key_event \<Rightarrow> spam_field form \<Rightarrow> app_state \<Rightarrow> (app_state \<times> key_outcome) option" where
  "spam_form_key key f s = do {
     (f, out) \<leftarrow> spam_handle_key key f;
     Some (case out of
         Continue \<Rightarrow> (s\<lparr>ap_spam_form := Some f\<rparr>, NoOutcome)
       | Cancelled \<Rightarrow> (s\<lparr>ap_spam_form := None\<rparr>, NoOutcome)
       | Submitted request \<Rightarrow> (s\<lparr>ap_spam_form := None\<rparr>, Spam request))
   }"

definition modal_key :: "key_event \<Rightarrow> automation_modal \<Rightarrow> app_state \<Rightarrow> (app_state \<times> key_outcome) option" where
  "modal_key key m s = do {
     (m, out) \<leftarrow> automation_modal_key key m;
     Some (case out of
         ModalContinue \<Rightarrow> (s\<lparr>ap_automation_modal := Some m\<rparr>, NoOutcome)
       | ModalCancelled \<Rightarrow> (s\<lparr>ap_automation_modal := None\<rparr>, NoOutcome)
       | ModalSelected script \<Rightarrow> (s\<lparr>ap_automation_modal := None\<rparr>, AutomationRun script))
   }"

text \<open>
  The three keys that act on the selected validator: start, kill and restart.  Indexing the entries
  panics out of range.
\<close>

definition no_selection :: "app_state \<Rightarrow> (app_state \<times> key_outcome) option" where
  "no_selection s = Some (set_status_message Info ''No validator selected'' s, NoOutcome)"

definition start_key :: "nat \<Rightarrow> app_state \<Rightarrow> (app_state \<times> key_outcome) option" where
  "start_key now s =
     (case ap_selected s of
        None \<Rightarrow> no_selection s
      | Some idx \<Rightarrow>
          if \<not> can_start (ap_control s) \<and> ap_active_chain s = None
          then Some (set_status_message Error ''Start command not configured and no launch metadata available'' s, NoOutcome)
          else do {
            e \<leftarrow> entry_get s idx;
            Some (if entry_status now e = Up
                  then (set_status_message Info ''Validator already running; Kill first to relaunch'' s, NoOutcome)
                  else (s, Action (Start idx)))
          })"

definition kill_key :: "nat \<Rightarrow> app_state \<Rightarrow> (app_state \<times> key_outcome) option" where
  "kill_key now s =
     (case ap_selected s of
        None \<Rightarrow> no_selection s
      | Some idx \<Rightarrow> do {
          e \<leftarrow> entry_get s idx;
          Some (if \<not> can_stop (ap_control s) \<and> vt_port (ve_target e) = None
                then (set_status_message Error ''Kill command not configured and validator port unknown'' s, NoOutcome)
                else if entry_status now e = Down
                then (set_status_message Info ''Validator already stopped'' s, NoOutcome)
                else (s, Action (Stop idx)))
        })"

definition restart_key :: "nat \<Rightarrow> app_state \<Rightarrow> (app_state \<times> key_outcome) option" where
  "restart_key now s =
     (if \<not> can_restart (ap_control s) then Some (s, NoOutcome)
      else case ap_selected s of
        None \<Rightarrow> no_selection s
      | Some idx \<Rightarrow> do {
          e \<leftarrow> entry_get s idx;
          Some (s, if entry_status now e = Down \<and> can_start (ap_control s)
                   then Action (Start idx) else Action (Restart idx))
        })"

definition enter_key :: "world \<Rightarrow> app_state \<Rightarrow> app_state" where
  "enter_key w s =
     (case ap_selected s of
        None \<Rightarrow> s
      | Some idx \<Rightarrow>
          (case open_logs_modal w idx s of Inl err \<Rightarrow> set_status_message Error err s | Inr s \<Rightarrow> s))"

definition plan_key :: "world \<Rightarrow> app_state \<Rightarrow> app_state \<times> key_outcome" where
  "plan_key w s =
     (case plan_launch_node w s of
        (s, Inr plan) \<Rightarrow> (s, LaunchNode plan)
      | (s, Inl err) \<Rightarrow> (set_status_message Error err s, NoOutcome))"

text \<open>Keys in the main view, in the order of the code.\<close>

definition main_key :: "world \<Rightarrow> key_event \<Rightarrow> app_state \<Rightarrow> (app_state \<times> key_outcome) option" where
  "main_key w key s =
     (let k = ke_code key; quiet = (\<lambda>s. Some (s, NoOutcome)) in
      if is_key CHR ''q'' CHR ''Q'' k \<or> k = KChar CHR ''c'' \<and> ModControl \<in> set (ke_modifiers key) \<or> k = KEsc
      then quiet (s\<lparr>ap_should_quit := True\<rparr>)
      else if k = KUp then quiet (select_previous w 1 s)
      else if k = KDown then quiet (select_next w 1 s)
      else if k = KChar CHR ''['' then quiet (scroll_receipts_up 1 s)
      else if k = KChar CHR '']'' then quiet (scroll_receipts_down 1 s)
      else if k = KPageUp then quiet (select_previous w 5 s)
      else if k = KPageDown then quiet (select_next w 5 s)
      else if k = KHome then quiet (select_first w s)
      else if k = KEnd then quiet (select_last w s)
      else if k = KEnter then quiet (enter_key w s)
      else if is_key CHR ''p'' CHR ''P'' k then
        (case ap_selected s of Some i \<Rightarrow> Some (s, Ping i) | None \<Rightarrow> no_selection s)
      else if is_key CHR ''l'' CHR ''L'' k then quiet (s\<lparr>ap_launch_form := Some launch_form_new\<rparr>)
      else if is_key CHR ''t'' CHR ''T'' k then
        quiet (s\<lparr>ap_spam_form := Some (spam_form_new (map_option (\<lambda>e. vt_url (ve_target e)) (selected_entry s)))\<rparr>)
      else if is_key CHR ''m'' CHR ''M'' k then Some (plan_key w s)
      else if is_key CHR ''a'' CHR ''A'' k then quiet (open_automation_modal s)
      else if is_key CHR ''x'' CHR ''X'' k then
        Some (s, if pn_running (ap_automation_panel s) then AutomationStop else NoOutcome)
      else if is_key CHR ''n'' CHR ''N'' k then start_key (w_now w) s
      else if is_key CHR ''k'' CHR ''K'' k then kill_key (w_now w) s
      else if is_key CHR ''r'' CHR ''R'' k then restart_key (w_now w) s
      else quiet s)"

definition on_key :: "world \<Rightarrow> key_event \<Rightarrow> app_state \<Rightarrow> (app_state \<times> key_outcome) option" where
  "on_key w key s =
     (case ap_log_modal s of
        Some m \<Rightarrow> Some (log_modal_key w key m s, NoOutcome)
      | None \<Rightarrow>
          (case ap_launch_form s of
             Some f \<Rightarrow> launch_form_key key f s
           | None \<Rightarrow>
               (case ap_spam_form s of
                  Some f \<Rightarrow> spam_form_key key f s
                | None \<Rightarrow>
                    (case ap_automation_modal s of
                       Some m \<Rightarrow> modal_key key m s
                     | None \<Rightarrow> main_key w key s))))"

end
