(* ===== verification/Automation.thy ===== *)
theory Automation
  imports Inspector_Forms
begin

text \<open>
  Automation scripts of the inspector (\<open>automation/compiler.rs\<close>, \<open>automation/runner.rs\<close>): the
  commands a script contract returns are decoded from Solidity values and then sent on schedule.
  The ABI decoder of \<open>alloy\<close>, its hexadecimal encoder and the UTF-8 check are parameters; running
  the script in the EVM is not modelled.  A tuple index out of range panics (\<open>None\<close>).
\<close>

section \<open>Solidity values\<close>

datatype sol_type = TUint nat | TBool | TString | TBytes | TArray sol_type | TTuple "sol_type list"

datatype sol_value =
    VUint (uint_value: nat) nat
  | VBool bool
  | VString string
  | VBytes bytes
  | VArray "sol_value list"
  | VTuple "sol_value list"

record abi_lib =
  abi_decode :: "sol_type \<Rightarrow> bytes \<Rightarrow> string + sol_value"
  abi_hex :: "bytes \<Rightarrow> string"
  abi_utf8 :: "bytes \<Rightarrow> string option"

definition as_tuple :: "sol_value \<Rightarrow> sol_value list option" where
  "as_tuple v = (case v of VTuple vs \<Rightarrow> Some vs | _ \<Rightarrow> None)"

definition as_array :: "sol_value \<Rightarrow> sol_value list option" where
  "as_array v = (case v of VArray vs \<Rightarrow> Some vs | _ \<Rightarrow> None)"

definition as_str :: "sol_value \<Rightarrow> string option" where
  "as_str v = (case v of VString s \<Rightarrow> Some s | _ \<Rightarrow> None)"

definition as_bool :: "sol_value \<Rightarrow> bool option" where
  "as_bool v = (case v of VBool b \<Rightarrow> Some b | _ \<Rightarrow> None)"

definition as_bytes :: "sol_value \<Rightarrow> bytes option" where
  "as_bytes v = (case v of VBytes b \<Rightarrow> Some b | _ \<Rightarrow> None)"

text \<open>The four conversions \<open>as_u64\<close>, \<open>as_u32\<close>, \<open>as_u16\<close> and \<open>as_u8\<close>: a number that fits.\<close>

definition as_uint :: "nat \<Rightarrow> sol_value \<Rightarrow> nat \<Rightarrow> string \<Rightarrow> string + nat" where
  "as_uint bits v idx field =
     (case v of
        VUint n _ \<Rightarrow> if n < 2 ^ bits then Inr n else Inl (''Command '' @ show_dec idx @ '' missing '' @ field)
      | _ \<Rightarrow> Inl (''Command '' @ show_dec idx @ '' missing '' @ field))"

definition ok_or :: "string \<Rightarrow> 'a option \<Rightarrow> string + 'a" where
  "ok_or e x = (case x of Some a \<Rightarrow> Inr a | None \<Rightarrow> Inl e)"

text \<open>Results of code that may also panic.\<close>

type_synonym 'a may_fail = "(string + 'a) option"

definition attempt :: "'a may_fail \<Rightarrow> ('a \<Rightarrow> 'b may_fail) \<Rightarrow> 'b may_fail" where
  "attempt x f = (case x of None \<Rightarrow> None | Some (Inl e) \<Rightarrow> Some (Inl e) | Some (Inr a) \<Rightarrow> f a)"

definition index_or_panic :: "'a list \<Rightarrow> nat \<Rightarrow> ('a \<Rightarrow> 'b may_fail) \<Rightarrow> 'b may_fail" where
  "index_or_panic vs i f = (if i < length vs then f (vs ! i) else None)"

section \<open>Actions\<close>

datatype automation_action =
    AutoLaunchChain launch_request
  | AutoStart string
  | AutoStop string
  | AutoRestart string
  | AutoLaunchValidator bool
  | AutoSpam spam_request
  | AutoPing string
  | AutoLog string

record scheduled_command =
  sc_action :: automation_action
  sc_offset :: nat
  sc_interval :: "nat option"
  sc_repeats :: nat

definition decode_tuple :: "abi_lib \<Rightarrow> string \<Rightarrow> string \<Rightarrow> sol_type list \<Rightarrow> bytes \<Rightarrow> string + sol_value list" where
  "decode_tuple A failed not_tuple tys payload =
     (case abi_decode A (TTuple tys) payload of
        Inl err \<Rightarrow> Inl (failed @ '': '' @ err)
      | Inr v \<Rightarrow> ok_or not_tuple (as_tuple v))"

text \<open>Count and port of a decoded launch payload.\<close>

definition launch_of_tuple :: "sol_value list \<Rightarrow> launch_request may_fail" where
  "launch_of_tuple vs =
     index_or_panic vs 0 (\<lambda>v0.
     attempt (Some (as_uint 32 v0 0 ''count'')) (\<lambda>n.
     index_or_panic vs 1 (\<lambda>v1.
     attempt (Some (as_uint 16 v1 0 ''basePort'')) (\<lambda>port.
     Some (Inr \<lparr>lr_count = n, lr_base_port = of_nat port\<rparr>)))))"

definition decoded_tuple :: "abi_lib \<Rightarrow> sol_type list \<Rightarrow> bytes \<Rightarrow> sol_value list option" where
  "decoded_tuple A tys payload =
     (case abi_decode A (TTuple tys) payload of Inl _ \<Rightarrow> None | Inr v \<Rightarrow> as_tuple v)"

definition decode_launch :: "abi_lib \<Rightarrow> bytes \<Rightarrow> launch_request may_fail" where
  "decode_launch A payload =
     (case decoded_tuple A [TUint 32, TUint 16] payload of
        Some vs \<Rightarrow> launch_of_tuple vs
      | None \<Rightarrow>
          (case decoded_tuple A [TUint 32, TUint 16, TString] payload of
             Some vs \<Rightarrow> launch_of_tuple vs
           | None \<Rightarrow>
               attempt (Some (decode_tuple A ''Failed to decode launch payload'' ''Launch payload was not a tuple''
                 [TUint 256, TUint 256] payload)) launch_of_tuple))"

definition decode_label :: "abi_lib \<Rightarrow> bytes \<Rightarrow> string may_fail" where
  "decode_label A payload =
     attempt (Some (decode_tuple A ''Failed to decode label payload'' ''Label payload invalid'' [TString] payload)) (\<lambda>vs.
     index_or_panic vs 0 (\<lambda>v. Some (ok_or ''Label missing string'' (as_str v))))"

definition decode_bool :: "abi_lib \<Rightarrow> bytes \<Rightarrow> bool may_fail" where
  "decode_bool A payload =
     attempt (Some (decode_tuple A ''Failed to decode bool payload'' ''Bool payload invalid'' [TBool] payload)) (\<lambda>vs.
     index_or_panic vs 0 (\<lambda>v. Some (ok_or ''Bool payload missing value'' (as_bool v))))"

abbreviation spam_types :: "sol_type list" where
  "spam_types \<equiv> [TUint 64, TUint 64, TUint 64, TUint 32, TString, TString, TBool]"

definition spam_of_tuple :: "sol_value list \<Rightarrow> spam_request may_fail" where
  "spam_of_tuple vs =
     index_or_panic vs 0 (\<lambda>v. attempt (Some (as_uint 64 v 0 ''totalTxs'')) (\<lambda>total_txs.
     index_or_panic vs 1 (\<lambda>v. attempt (Some (as_uint 64 v 0 ''parallel'')) (\<lambda>parallel.
     index_or_panic vs 2 (\<lambda>v. attempt (Some (as_uint 64 v 0 ''burst'')) (\<lambda>burst.
     index_or_panic vs 3 (\<lambda>v. attempt (Some (as_uint 32 v 0 ''accounts'')) (\<lambda>accounts.
     index_or_panic vs 4 (\<lambda>v. attempt (Some (ok_or ''Spam payload missing mode'' (as_str v))) (\<lambda>mode_text.
     attempt (Some (ok_or (''Unsupported spam mode '' @ mode_text) (spam_mode_parse mode_text))) (\<lambda>mode.
     index_or_panic vs 5 (\<lambda>v. attempt (Some (ok_or ''Spam payload missing target'' (as_str v))) (\<lambda>target.
     index_or_panic vs 6 (\<lambda>v. attempt (Some (ok_or ''Spam payload missing target flag'' (as_bool v))) (\<lambda>has_target.
     Some (Inr \<lparr>sr_total_txs = of_nat total_txs, sr_parallel = of_nat parallel, sr_burst = of_nat burst,
       sr_accounts = accounts, sr_mode = mode,
       sr_target_url = (if has_target \<and> trim target \<noteq> [] then Some target else None)\<rparr>))))))))))))))))"

definition decode_spam :: "abi_lib \<Rightarrow> bytes \<Rightarrow> spam_request may_fail" where
  "decode_spam A payload =
     attempt (Some (decode_tuple A ''Failed to decode spam payload'' ''Spam payload invalid'' spam_types payload)) spam_of_tuple"

text \<open>A log payload is a tuple of a string, a string, text, or is shown in hexadecimal.\<close>

definition decode_log :: "abi_lib \<Rightarrow> bytes \<Rightarrow> string" where
  "decode_log A payload =
     (case decoded_tuple A [TString] payload of
        Some (VString s # _) \<Rightarrow> s
      | _ \<Rightarrow>
          (case abi_decode A TString payload of
             Inr (VString s) \<Rightarrow> s
           | _ \<Rightarrow> (case abi_utf8 A payload of Some s \<Rightarrow> s | None \<Rightarrow> ''0x'' @ abi_hex A payload)))"

definition decode_action :: "abi_lib \<Rightarrow> nat \<Rightarrow> bytes \<Rightarrow> automation_action may_fail" where
  "decode_action A kind payload =
     (let labelled = (\<lambda>c. attempt (decode_label A payload) (\<lambda>l. Some (Inr (c l)))) in
      if kind = 0 then attempt (decode_launch A payload) (\<lambda>r. Some (Inr (AutoLaunchChain r)))
      else if kind = 1 then labelled AutoStart
      else if kind = 2 then labelled AutoStop
      else if kind = 3 then labelled AutoRestart
      else if kind = 4 then attempt (decode_bool A payload) (\<lambda>b. Some (Inr (AutoLaunchValidator b)))
      else if kind = 5 then attempt (decode_spam A payload) (\<lambda>r. Some (Inr (AutoSpam r)))
      else if kind = 6 then labelled AutoPing
      else if kind = 7 then Some (Inr (AutoLog (decode_log A payload)))
      else Some (Inl (''Unknown automation command kind '' @ show_dec kind)))"

section \<open>Commands\<close>

abbreviation command_types :: "sol_type list" where
  "command_types \<equiv> [TUint 64, TUint 64, TUint 32, TUint 8, TBytes]"

text \<open>An action that cannot be decoded becomes a log line.\<close>

definition action_or_log :: "abi_lib \<Rightarrow> nat \<Rightarrow> bytes \<Rightarrow> string + automation_action \<Rightarrow> automation_action" where
  "action_or_log A idx payload res =
     (case res of
        Inr a \<Rightarrow> a
      | Inl err \<Rightarrow> AutoLog (''Decode error for command '' @ show_dec idx @ '': '' @ err
          @ '' (payload 0x'' @ abi_hex A payload @ '')''))"

definition decode_command :: "abi_lib \<Rightarrow> nat \<Rightarrow> sol_value \<Rightarrow> scheduled_command may_fail" where
  "decode_command A idx v =
     attempt (Some (ok_or (''Command '' @ show_dec idx @ '' was not a tuple'') (as_tuple v))) (\<lambda>vs.
     index_or_panic vs 0 (\<lambda>v. attempt (Some (as_uint 64 v idx ''offsetSeconds'')) (\<lambda>offset_secs.
     index_or_panic vs 1 (\<lambda>v. attempt (Some (as_uint 64 v idx ''intervalSeconds'')) (\<lambda>interval_secs.
     index_or_panic vs 2 (\<lambda>v. attempt (Some (as_uint 32 v idx ''repeatCount'')) (\<lambda>repeat.
     index_or_panic vs 3 (\<lambda>v. attempt (Some (as_uint 8 v idx ''kind'')) (\<lambda>kind.
     index_or_panic vs 4 (\<lambda>v. attempt (Some (ok_or (''Command '' @ show_dec idx @ '' payload missing'') (as_bytes v))) (\<lambda>payload.
     (case decode_action A kind payload of
        None \<Rightarrow> None
      | Some res \<Rightarrow>
          Some (Inr \<lparr>sc_action = action_or_log A idx payload res, sc_offset = offset_secs,
            sc_interval = (if 0 < interval_secs then Some interval_secs else None), sc_repeats = repeat\<rparr>)))))))))))))"

fun decode_list :: "abi_lib \<Rightarrow> nat \<Rightarrow> sol_value list \<Rightarrow> scheduled_command list may_fail" where
  "decode_list A idx [] = Some (Inr [])"
| "decode_list A idx (v # vs) =
     attempt (decode_command A idx v) (\<lambda>c. attempt (decode_list A (Suc idx) vs) (\<lambda>cs. Some (Inr (c # cs))))"

definition decode_commands :: "abi_lib \<Rightarrow> bytes \<Rightarrow> scheduled_command list may_fail" where
  "decode_commands A data =
     (case abi_decode A (TArray (TTuple command_types)) data of
        Inl err \<Rightarrow> Some (Inl (''Failed to decode automation output: '' @ err))
      | Inr v \<Rightarrow> attempt (Some (ok_or ''Automation output is not an array'' (as_array v))) (decode_list A 0))"

section \<open>Schedule\<close>

text \<open>
  The task of one command: it stops when the token is cancelled before the next trigger or the
  receiver is gone, and otherwise sends the action and waits for the next trigger while repeats are
  left.  \<open>cancelled t\<close> says whether the token is cancelled by the trigger at \<open>t\<close>, \<open>receiver k\<close>
  whether the receiver accepts the \<open>k\<close>-th event.  The result lists the triggers that were sent.
\<close>

fun run_task ::
  "(nat \<Rightarrow> bool) \<Rightarrow> (nat \<Rightarrow> bool) \<Rightarrow> nat option \<Rightarrow> nat \<Rightarrow> nat \<Rightarrow> nat \<Rightarrow> nat list" where
  "run_task cancelled receiver interval k next_trigger remaining =
     (if cancelled next_trigger \<or> \<not> receiver k then []
      else next_trigger #
        (case interval of
           None \<Rightarrow> []
         | Some i \<Rightarrow>
             if remaining = 0 then []
             else run_task cancelled receiver interval (Suc k) (next_trigger + i) (remaining - 1)))"

declare run_task.simps [simp del]

definition run_command ::
  "(nat \<Rightarrow> bool) \<Rightarrow> (nat \<Rightarrow> bool) \<Rightarrow> nat \<Rightarrow> scheduled_command \<Rightarrow> (nat \<times> automation_action) list" where
  "run_command cancelled receiver start c =
     map (\<lambda>t. (t, sc_action c))
       (run_task cancelled receiver (sc_interval c) 0 (start + sc_offset c) (sc_repeats c))"

end
