(* ===== verification/Inspector_Loop.thy ===== *)
theory Inspector_Loop
  imports Inspector_App Automation
begin

text \<open>
  The event loop of the inspector (\<open>run_app\<close> in \<open>ui/mod.rs\<close>) and its handling of automation actions
  (\<open>automation/mod.rs\<close>).  Commands sent to other processes and pings are parameters that yield a
  message or an error; what background tasks report arrives as further events.  Drawing is not
  modelled.
\<close>

section \<open>Events and loop state\<close>

datatype app_event =
    Input key_event
  | Tick
  | Data "validator_report list"
  | CommandResult string string bool "string option"
  | ChainCreated active_chain
  | TargetUpdate "validator_target list"
  | AutomationEvent automation_action
  | AutomationStarted automation_script
  | AutomationLog string
  | AutomationStopped bool string

text \<open>The handle of a running script: whether it has been cancelled.\<close>

record inspector =
  in_app :: app_state
  in_targets :: "validator_target list"
  in_handle :: "bool option"

record outside =
  o_world :: world
  o_dispatch :: "app_action \<Rightarrow> app_state \<Rightarrow> string + string"
  o_ping :: "nat \<Rightarrow> app_state \<Rightarrow> string + string"

type_synonym reaction = "inspector \<times> app_event list"

definition update_app :: "(app_state \<Rightarrow> app_state) \<Rightarrow> inspector \<Rightarrow> inspector" where
  "update_app f i = i\<lparr>in_app := f (in_app i)\<rparr>"

section \<open>Actions\<close>

text \<open>A lifecycle action: mark the entry, issue the command, show the outcome.\<close>

definition perform_action :: "outside \<Rightarrow> string \<Rightarrow> app_action \<Rightarrow> app_state \<Rightarrow> app_state" where
  "perform_action x failure action s =
     (let s = begin_action (o_world x) action s in
      case o_dispatch x action s of
        Inr message \<Rightarrow> set_status_message Info message s
      | Inl err \<Rightarrow> set_status_message Error (failure @ err) (clear_action_state_index (action_index action) s))"

text \<open>A planned node joins the shared targets, which are announced to the loop.\<close>

definition publish_target :: "validator_target \<Rightarrow> inspector \<Rightarrow> reaction" where
  "publish_target t i =
     (let targets = in_targets i @ [t] in (i\<lparr>in_targets := targets\<rparr>, [TargetUpdate targets]))"

definition show_ping :: "string \<Rightarrow> string + string \<Rightarrow> app_state \<Rightarrow> app_state" where
  "show_ping failure res s =
     (case res of Inr message \<Rightarrow> set_status_message Info message s | Inl err \<Rightarrow> set_status_message Error (failure @ err) s)"

definition automation_push_log :: "string \<Rightarrow> app_state \<Rightarrow> app_state" where
  "automation_push_log line s = s\<lparr>ap_automation_panel := panel_push_log line (ap_automation_panel s)\<rparr>"

section \<open>Automation actions\<close>

definition run_lifecycle_action ::
  "outside \<Rightarrow> (nat \<Rightarrow> app_action) \<Rightarrow> string \<Rightarrow> app_state \<Rightarrow> app_state \<times> string option" where
  "run_lifecycle_action x ctor label s =
     (case index_for_label label s of
        None \<Rightarrow> (s, Some (''Validator '' @ label @ '' not found''))
      | Some idx \<Rightarrow> (perform_action x (''Automation lifecycle error for '' @ label @ '': '') (ctor idx) s, None))"

definition launch_additional_validator :: "outside \<Rightarrow> bool \<Rightarrow> inspector \<Rightarrow> reaction \<times> string option" where
  "launch_additional_validator x auto_start i =
     (case plan_launch_node (o_world x) (in_app i) of
        (s, Inl err) \<Rightarrow> ((i\<lparr>in_app := s\<rparr>, []), Some err)
      | (s, Inr plan) \<Rightarrow>
          let (i, sent) = publish_target (lp_target plan) (i\<lparr>in_app := s\<rparr>) in
          ((update_app
              (if auto_start then perform_action x ''Automation launch node failed: '' (Start (lp_entry_index plan))
               else set_status_message Info
                 (''Automation staged validator '' @ vt_label (lp_target plan) @ '' (auto-start disabled)'')) i,
            sent), None))"

definition spawn_spam_job :: "inspector \<Rightarrow> inspector" where
  "spawn_spam_job i =
     update_app (if in_targets i = []
       then automation_push_log ''Spam job skipped: no validators available''
         \<circ> set_status_message Error ''Automation spam job skipped, no validators available''
       else automation_push_log ''Spam job started'' \<circ> set_status_message Info ''Automation spam job started'') i"

definition automation_ping :: "outside \<Rightarrow> string \<Rightarrow> app_state \<Rightarrow> app_state" where
  "automation_ping x label s =
     (case index_for_label label s of
        None \<Rightarrow> set_status_message Error (''Automation ping skipped, no validator '' @ label) s
      | Some idx \<Rightarrow>
          (case o_ping x idx s of
             Inr message \<Rightarrow> set_status_message Info message (automation_push_log message s)
           | Inl err \<Rightarrow> set_status_message Error (''Automation ping failed for '' @ label @ '': '' @ err) s))"

definition lift_result :: "app_state \<times> string option \<Rightarrow> inspector \<Rightarrow> reaction \<times> string option" where
  "lift_result r i = (case r of (s, err) \<Rightarrow> ((i\<lparr>in_app := s\<rparr>, []), err))"

fun handle_automation_action :: "outside \<Rightarrow> automation_action \<Rightarrow> inspector \<Rightarrow> reaction \<times> string option" where
  "handle_automation_action x (AutoLaunchChain request) i =
     ((update_app (set_status_message Info ''Automation: launching RBFT testnet...''
         \<circ> automation_push_log ''Launching chain from automation script'') i, []), None)"
| "handle_automation_action x (AutoStart label) i =
     lift_result (run_lifecycle_action x Start label
       (automation_push_log (''Starting validator '' @ label) (in_app i))) i"
| "handle_automation_action x (AutoStop label) i =
     lift_result (run_lifecycle_action x Stop label
       (automation_push_log (''Stopping validator '' @ label) (in_app i))) i"
| "handle_automation_action x (AutoRestart label) i =
     lift_result (run_lifecycle_action x Restart label
       (automation_push_log (''Restarting validator '' @ label) (in_app i))) i"
| "handle_automation_action x (AutoLaunchValidator auto_start) i =
     launch_additional_validator x auto_start (update_app (automation_push_log ''Launching additional validator'') i)"
| "handle_automation_action x (AutoSpam request) i =
     ((spawn_spam_job (update_app (automation_push_log ''Starting spam job from automation script'') i), []), None)"
| "handle_automation_action x (AutoPing label) i =
     ((update_app (automation_ping x label) i, []), None)"
| "handle_automation_action x (AutoLog message) i =
     ((update_app (automation_push_log message) i, []), None)"

section \<open>Key outcomes\<close>

definition automation_run :: "automation_script \<Rightarrow> inspector \<Rightarrow> inspector" where
  "automation_run script i =
     (if in_handle i \<noteq> None \<and> pn_running (ap_automation_panel (in_app i))
      then update_app (set_status_message Error ''Automation is already running. Stop it before starting another.'') i
      else if ap_automation_project (in_app i) = None
      then update_app (set_status_message Error ''No automation project configured'') i
      else update_app (set_status_message Info ''Launching automation script...'') (i\<lparr>in_handle := Some False\<rparr>))"

definition automation_cancel :: "inspector \<Rightarrow> inspector" where
  "automation_cancel i =
     (case in_handle i of
        Some _ \<Rightarrow> update_app (set_status_message Info ''Stopping automation script...'' \<circ> automation_push_log ''Stop requested...'')
            (i\<lparr>in_handle := Some True\<rparr>)
      | None \<Rightarrow> update_app (set_status_message Info ''No automation script is running'') i)"

fun handle_outcome :: "outside \<Rightarrow> key_outcome \<Rightarrow> inspector \<Rightarrow> reaction" where
  "handle_outcome x NoOutcome i = (i, [])"
| "handle_outcome x (Action action) i = (update_app (perform_action x ''Failed to issue command: '' action) i, [])"
| "handle_outcome x (LaunchChain request) i = (update_app (set_status_message Info ''Launching chain...'') i, [])"
| "handle_outcome x (Ping idx) i =
     (update_app (\<lambda>s. show_ping ''Ping failed: '' (o_ping x idx s) s) i, [])"
| "handle_outcome x (Spam request) i = (update_app (set_status_message Info ''Starting spam job...'') i, [])"
| "handle_outcome x (LaunchNode plan) i =
     (let (i, sent) = publish_target (lp_target plan) i in
      (update_app (perform_action x ''Failed to launch node: '' (Start (lp_entry_index plan))) i, sent))"
| "handle_outcome x (AutomationRun script) i = (automation_run script i, [])"
| "handle_outcome x AutomationStop i = (automation_cancel i, [])"

section \<open>The loop\<close>

text \<open>The error of the first failed report, if it has one, is shown until reports succeed again.\<close>

definition data_status :: "validator_report list \<Rightarrow> app_state \<Rightarrow> app_state" where
  "data_status reports s =
     (case find_map (\<lambda>r. if vr_ok r then None else Some (vr_error r)) reports of
        Some (Some err) \<Rightarrow> set_data_status_message Error err s
      | _ \<Rightarrow> clear_error_message s)"

fun handle_event :: "outside \<Rightarrow> app_event \<Rightarrow> inspector \<Rightarrow> reaction option" where
  "handle_event x (Input key) i =
     (case on_key (o_world x) key (in_app i) of
        None \<Rightarrow> None
      | Some (s, out) \<Rightarrow> Some (handle_outcome x out (i\<lparr>in_app := s\<rparr>)))"
| "handle_event x Tick i = Some (i, [])"
| "handle_event x (Data reports) i =
     Some (update_app (apply_reports (o_world x) reports \<circ> data_status reports) i, [])"
| "handle_event x (CommandResult label action success message) i =
     Some (update_app (handle_command_result (o_world x) label action success message) i, [])"
| "handle_event x (ChainCreated chain) i =
     Some (update_app (set_status_message Info (''Chain launched: '' @ show_dec (ac_num_nodes chain)
         @ '' validators, base port '' @ show_dec (unat (ac_base_http_port chain))
         @ ''. Use '' @ quoted ''n'' @ '' key to start validators.'')
       \<circ> set_active_chain (o_world x) chain) i, [])"
| "handle_event x (TargetUpdate targets) i = Some (update_app (set_targets (o_world x) targets) i, [])"
| "handle_event x (AutomationStarted script) i =
     Some (update_app (\<lambda>s. set_status_message Info (''Automation script '' @ as_contract script @ '' started'')
       (s\<lparr>ap_automation_panel := panel_start (script_display_name script) (ap_automation_panel s)\<rparr>)) i, [])"
| "handle_event x (AutomationLog line) i = Some (update_app (automation_push_log line) i, [])"
| "handle_event x (AutomationStopped success message) i =
     Some (update_app (\<lambda>s. set_status_message (if success then Info else Error) message
         (s\<lparr>ap_automation_panel := panel_stop message (ap_automation_panel s)\<rparr>)) (i\<lparr>in_handle := None\<rparr>), [])"
| "handle_event x (AutomationEvent action) i =
     Some (case handle_automation_action x action i of
         (r, None) \<Rightarrow> r
       | ((i, sent), Some err) \<Rightarrow> (update_app (set_status_message Error (''Automation error: '' @ err)) i, sent))"

text \<open>A step of the loop: any event, unless the user has quit.\<close>

inductive loop_step :: "inspector \<Rightarrow> inspector \<Rightarrow> bool" where
  event: "\<not> ap_should_quit (in_app i) \<Longrightarrow> handle_event x ev i = Some (i', sent) \<Longrightarrow> loop_step i i'"

definition inspector_new ::
  "world \<Rightarrow> validator_target list \<Rightarrow> control_config \<Rightarrow> string option \<Rightarrow> string list option \<Rightarrow> inspector" where
  "inspector_new w targets control project listing =
    \<lparr>in_app = app_state_new w targets control project listing, in_targets = targets, in_handle = None\<rparr>"

end
