(* ===== verification/Inspector_Form_Facts.thy ===== *)
theory Inspector_Form_Facts
  imports Inspector_Forms
begin

text \<open>
  The contract of a form, met by both: whatever keys are pressed it does not panic, and what it
  submits is valid.
\<close>

section \<open>The contract of a form\<close>

definition form_ok :: "'f list \<Rightarrow> 'f form \<Rightarrow> bool" where
  "form_ok shape f \<longleftrightarrow>
     fm_fields f = shape \<and> fm_index f < length shape \<and> length (fm_inputs f) = length shape"

text \<open>A session: keys until the form is submitted or cancelled.\<close>

fun form_session ::
  "(key_event \<Rightarrow> 'f form \<Rightarrow> ('f form \<times> 'r form_outcome) option) \<Rightarrow> key_event list \<Rightarrow> 'f form \<Rightarrow>
   ('f form \<times> 'r form_outcome) option" where
  "form_session handle [] f = Some (f, Continue)"
| "form_session handle (k # ks) f =
     (case handle k f of
        None \<Rightarrow> None
      | Some (f, Continue) \<Rightarrow> form_session handle ks f
      | Some (f, out) \<Rightarrow> Some (f, out))"

locale input_form =
  fixes handle :: "key_event \<Rightarrow> 'f form \<Rightarrow> ('f form \<times> 'r form_outcome) option"
    and shape :: "'f list" and valid_request :: "'r \<Rightarrow> bool"
  assumes handle_key_ok: "form_ok shape f \<Longrightarrow>
    \<exists>f' out. handle k f = Some (f', out) \<and> form_ok shape f' \<and> (\<forall>r. out = Submitted r \<longrightarrow> valid_request r)"
begin

lemma session_ok:
  assumes "form_ok shape f"
  shows "\<exists>f' out. form_session handle ks f = Some (f', out) \<and> form_ok shape f' \<and>
    (\<forall>r. out = Submitted r \<longrightarrow> valid_request r)"
  using assms
proof (induction ks arbitrary: f)
  case (Cons k ks)
  obtain f' out where step: "handle k f = Some (f', out)" "form_ok shape f'" "\<forall>r. out = Submitted r \<longrightarrow> valid_request r"
    using handle_key_ok [OF Cons.prems] by blast
  then show ?case using Cons.IH [OF step(2)] by (cases out) simp_all
qed simp

end

section \<open>Editing\<close>

lemma form_ok_clear_error [simp]: "form_ok shape (clear_error f) = form_ok shape f"
  by (simp add: form_ok_def clear_error_def)

lemma next_field_ok: "form_ok shape f \<Longrightarrow> \<exists>f'. next_field f = Some f' \<and> form_ok shape f'"
  by (auto simp: next_field_def form_ok_def)

lemma previous_field_ok: "form_ok shape f \<Longrightarrow> \<exists>f'. previous_field f = Some f' \<and> form_ok shape f'"
  by (auto simp: previous_field_def form_ok_def)

lemma edit_input_ok: "form_ok shape f \<Longrightarrow> \<exists>f'. edit_input g f = Some f' \<and> form_ok shape f'"
  by (auto simp: edit_input_def form_ok_def)

lemma submit_form_ok:
  "form_ok shape f \<Longrightarrow> (\<And>r. res = Inr r \<Longrightarrow> P r) \<Longrightarrow>
    \<exists>f' out. submit_form res f = (f', out) \<and> form_ok shape f' \<and> (\<forall>r. out = Submitted r \<longrightarrow> P r)"
  by (cases res) (auto simp: submit_form_def form_ok_def)

section \<open>Parsing\<close>

lemma parse_digits_le: "parse_digits m a s = Inr n \<Longrightarrow> a \<le> m \<Longrightarrow> n \<le> m"
  by (induction m a s rule: parse_digits.induct) (auto simp: Let_def split: if_splits)

lemma parse_uint_le: "parse_uint m s = Inr n \<Longrightarrow> n \<le> m"
  using parse_digits_le [of m 0] by (auto simp: parse_uint_def simp del: parse_digits.simps split: list.splits if_splits)

lemma parse_or_le: "parse_or what m s = Inr n \<Longrightarrow> n \<le> m"
  by (auto simp: parse_or_def dest: parse_uint_le split: sum.splits)

lemma and_then_Inr: "and_then x f = Inr b \<longleftrightarrow> (\<exists>a. x = Inr a \<and> f a = Inr b)"
  by (simp add: and_then_def split: sum.splits)

lemma of_nat_u64_neq_0: "n \<le> u64_max \<Longrightarrow> n \<noteq> 0 \<Longrightarrow> (of_nat n :: u64) \<noteq> 0"
  by (simp add: word_of_nat_eq_0_iff nat_dvd_not_less)

section \<open>The two forms\<close>

definition valid_launch :: "launch_request \<Rightarrow> bool" where
  "valid_launch r \<longleftrightarrow> 1 \<le> lr_count r \<and> lr_count r \<le> 50"

definition valid_spam :: "spam_request \<Rightarrow> bool" where
  "valid_spam r \<longleftrightarrow> sr_total_txs r \<noteq> 0 \<and> sr_parallel r \<noteq> 0 \<and> sr_burst r \<noteq> 0 \<and> 2 \<le> sr_accounts r \<and>
     (sr_mode r = Target \<longrightarrow> sr_target_url r \<noteq> None) \<and> sr_target_url r \<noteq> Some []"

lemma launch_enter_ok:
  assumes "form_ok [Validators, BasePort] f"
  shows "\<exists>f' out. launch_enter f = Some (f', out) \<and> form_ok [Validators, BasePort] f' \<and>
    (\<forall>r. out = Submitted r \<longrightarrow> valid_launch r)"
proof (cases "fm_index f = 1")
  case True
  obtain i0 i1 where "fm_inputs f = [i0, i1]"
    using assms by (auto simp: form_ok_def length_Suc_conv)
  then have "nth_input f 0 = Some i0" "nth_input f 1 = Some i1" by (simp_all add: nth_input_def)
  then obtain res where res: "launch_build_request f = Some res"
    by (cases "parse_or ''Invalid validator count'' u64_max (trim i0)") (auto simp: launch_build_request_def)
  have "valid_launch r" if "res = Inr r" for r
    using res that by (auto simp: launch_build_request_def and_then_Inr valid_launch_def split: sum.splits bind_splits if_splits)
  from submit_form_ok [OF assms this] res True assms show ?thesis by (auto simp: launch_enter_def form_ok_def)
next
  case False
  with assms show ?thesis by (auto simp: launch_enter_def form_ok_def)
qed

lemma spam_request_valid: "spam_request_of inputs = Inr r \<Longrightarrow> valid_spam r"
  by (auto simp: spam_request_of_def and_then_Inr valid_spam_def Let_def of_nat_u64_neq_0 dest!: parse_or_le
      split: if_splits)

abbreviation spam_shape :: "spam_field list" where
  "spam_shape \<equiv> [TotalTxs, Parallel, Burst, Accounts, Mode, TargetUrl]"

lemma spam_enter_ok:
  assumes "form_ok spam_shape f"
  shows "\<exists>f' out. spam_enter f = Some (f', out) \<and> form_ok spam_shape f' \<and> (\<forall>r. out = Submitted r \<longrightarrow> valid_spam r)"
proof -
  have build: "spam_build_request f = Some (spam_request_of (fm_inputs f))"
    using assms by (simp add: spam_build_request_def form_ok_def)
  obtain m where mode: "spam_form_mode f = Some m" using assms by (simp add: spam_form_mode_def nth_input_def form_ok_def)
  have submit: "\<exists>f' out. submit_form (spam_request_of (fm_inputs f)) f = (f', out) \<and> form_ok spam_shape f' \<and>
      (\<forall>r. out = Submitted r \<longrightarrow> valid_spam r)"
    by (rule submit_form_ok [OF assms]) (rule spam_request_valid)
  have advance: "form_ok spam_shape (f\<lparr>fm_index := fm_index f + 1\<rparr>)" if "fm_index f \<noteq> 5"
    using assms that by (simp add: form_ok_def)
  show ?thesis
    using assms submit advance build mode by (auto simp: spam_enter_def form_ok_def)
qed

interpretation launch: input_form launch_handle_key "[Validators, BasePort]" valid_launch
proof
  fix f k assume "form_ok [Validators, BasePort] f"
  then show "\<exists>f' out. launch_handle_key k f = Some (f', out) \<and> form_ok [Validators, BasePort] f' \<and>
      (\<forall>r. out = Submitted r \<longrightarrow> valid_launch r)"
    using next_field_ok [of _ "clear_error f"] previous_field_ok [of _ "clear_error f"]
      edit_input_ok [of _ "clear_error f"] launch_enter_ok [of "clear_error f"]
    by (cases "ke_code k") (fastforce simp: launch_handle_key_def)+
qed

interpretation spam: input_form spam_handle_key spam_shape valid_spam
proof
  fix f k assume "form_ok spam_shape f"
  then show "\<exists>f' out. spam_handle_key k f = Some (f', out) \<and> form_ok spam_shape f' \<and>
      (\<forall>r. out = Submitted r \<longrightarrow> valid_spam r)"
    using next_field_ok [of _ "clear_error f"] previous_field_ok [of _ "clear_error f"]
      edit_input_ok [of _ "clear_error f"] spam_enter_ok [of "clear_error f"]
    by (cases "ke_code k") (fastforce simp: spam_handle_key_def)+
qed

lemma new_forms_ok: "form_ok [Validators, BasePort] launch_form_new" "form_ok spam_shape (spam_form_new t)"
  by (simp_all add: form_ok_def launch_form_new_def spam_form_new_def)

section \<open>Log lines\<close>

lemma sanitize_from_chars: "c \<in> set (sanitize_from st s) \<Longrightarrow> c = CHR 0x09 \<or> \<not> is_control c"
  by (induction st s rule: sanitize_from.induct) (auto split: if_splits)

lemma sanitize_clean: "\<forall>c\<in>set s. c = CHR 0x09 \<or> \<not> is_control c \<Longrightarrow> sanitize_line s = s"
proof (induction s)
  case (Cons c s)
  have "\<not> is_control c \<Longrightarrow> c \<noteq> CHR 0x1B \<and> c \<noteq> CHR 0x0D" by (auto simp: is_control_def)
  with Cons show ?case by (auto simp: sanitize_line_def)
qed (simp add: sanitize_line_def)

end
