(* ===== verification/Inspector_Facts.thy ===== *)
theory Inspector_Facts
  imports Inspector_Loop Inspector_Form_Facts
begin

text \<open>
  The invariant of the inspector: the selected row exists, the scroll position is inside the list
  of receipts, forms and dialogs point at one of their rows, and every list is bounded.  Every
  operation keeps it.
\<close>

section \<open>The invariant\<close>

definition entry_ok :: "validator_entry \<Rightarrow> bool" where
  "entry_ok e \<longleftrightarrow> length (ve_receipts e) \<le> max_receipts \<and> distinct (map tr_hash (ve_receipts e))"

definition selection_ok :: "app_state \<Rightarrow> bool" where
  "selection_ok s \<longleftrightarrow>
     (case ap_selected s of None \<Rightarrow> ap_entries s = [] | Some i \<Rightarrow> i < length (ap_entries s))"

definition modal_ok :: "automation_modal \<Rightarrow> bool" where
  "modal_ok m \<longleftrightarrow> am_scripts m = [] \<or> am_index m < length (am_scripts m)"

definition dialogs_ok :: "app_state \<Rightarrow> bool" where
  "dialogs_ok s \<longleftrightarrow>
     pred_option (form_ok [Validators, BasePort]) (ap_launch_form s) \<and>
     pred_option (form_ok spam_shape) (ap_spam_form s) \<and>
     pred_option modal_ok (ap_automation_modal s) \<and>
     pred_option (\<lambda>m. length (lm_lines m) \<le> 500) (ap_log_modal s) \<and>
     length (il_lines (ap_inline_log s)) \<le> 100"

definition rows_ok :: "app_state \<Rightarrow> bool" where
  "rows_ok s \<longleftrightarrow> selection_ok s \<and> (\<forall>e\<in>set (ap_entries s). entry_ok e) \<and>
     unat (ap_receipts_scroll s) \<le> receipt_len s - 1"

definition app_ok :: "app_state \<Rightarrow> bool" where
  "app_ok s \<longleftrightarrow> rows_ok s \<and> dialogs_ok s"

section \<open>Operations that leave the rows alone\<close>

definition same_rows :: "app_state \<Rightarrow> app_state \<Rightarrow> bool" where
  "same_rows s s' \<longleftrightarrow> map ve_receipts (ap_entries s') = map ve_receipts (ap_entries s) \<and>
     ap_selected s' = ap_selected s \<and> ap_receipts_scroll s' = ap_receipts_scroll s"

lemma same_rows_refl [simp]: "same_rows s s"
  by (simp add: same_rows_def)

lemma same_rows_trans: "same_rows s t \<Longrightarrow> same_rows t u \<Longrightarrow> same_rows s u"
  by (simp add: same_rows_def)

lemma receipt_len_alt:
  "receipt_len s = (case ap_selected s of None \<Rightarrow> 0 | Some i \<Rightarrow>
     if i < length (ap_entries s) then length (map ve_receipts (ap_entries s) ! i) else 0)"
  by (simp add: receipt_len_def selected_entry_def entry_get_def split: option.splits)

lemma same_rows_ok:
  assumes "same_rows s s'" and "rows_ok s"
  shows "rows_ok s'"
proof -
  have len: "length (ap_entries s') = length (ap_entries s)"
    using assms(1) unfolding same_rows_def by (metis length_map)
  let ?ok = "\<lambda>r. length r \<le> max_receipts \<and> distinct (map tr_hash r)"
  have "list_all ?ok (map ve_receipts (ap_entries s))"
    using assms(2) by (simp add: rows_ok_def entry_ok_def list_all_iff)
  then have "list_all ?ok (map ve_receipts (ap_entries s'))" using assms(1) by (simp add: same_rows_def)
  then have "\<forall>e\<in>set (ap_entries s'). entry_ok e" by (simp add: entry_ok_def list_all_iff)
  moreover have "receipt_len s' = receipt_len s" using assms(1) len
    by (simp add: same_rows_def receipt_len_alt del: nth_map split: option.split)
  moreover have "selection_ok s'" using assms len by (auto simp: rows_ok_def selection_ok_def same_rows_def split: option.splits)
  ultimately show ?thesis using assms by (simp add: rows_ok_def same_rows_def)
qed

lemma same_rows_simps [simp]:
  "same_rows s (set_status_message k m s)" "same_rows s (set_data_status_message k m s)"
  "same_rows s (clear_error_message s)" "same_rows s (automation_push_log l s)"
  "same_rows s (refresh_inline_log w s)"
  by (auto simp: same_rows_def set_status_message_def set_data_status_message_def clear_error_message_def
      automation_push_log_def refresh_inline_log_def split: option.splits)

lemma same_rows_modify:
  assumes "\<And>e. ve_receipts (f e) = ve_receipts e"
  shows "same_rows s (modify_entry_at i f s)" "same_rows s (modify_entry_label l f s)"
proof -
  have "map ve_receipts (xs[i := f (xs ! i)]) = map ve_receipts xs" for xs i
    by (cases "i < length xs") (auto intro!: nth_equalityI simp: nth_list_update assms)
  then show at_index: "same_rows s (modify_entry_at i f s)" for i by (simp add: same_rows_def modify_entry_at_def)
  then show "same_rows s (modify_entry_label l f s)" by (simp add: modify_entry_label_def split: option.splits)
qed

lemma rows_ok_selection: "rows_ok s \<Longrightarrow> ap_selected s = Some i \<Longrightarrow> \<exists>e. entry_get s i = Some e"
  by (auto simp: rows_ok_def selection_ok_def entry_get_def)

section \<open>Operations that replace the rows\<close>

lemma unat_max_scroll: "len \<le> max_receipts \<Longrightarrow> unat (max_scroll len) = len - 1"
  by (simp add: max_scroll_def unat_of_nat)

lemma receipt_len_bound: "rows_ok s \<Longrightarrow> receipt_len s \<le> max_receipts"
  by (auto simp: rows_ok_def receipt_len_def selected_entry_def entry_get_def entry_ok_def split: option.splits)

lemma rows_ok_reset:
  assumes "\<forall>e\<in>set (ap_entries s). entry_ok e" and "selection_ok s" and "ap_receipts_scroll s = 0"
  shows "rows_ok s"
  using assms by (simp add: rows_ok_def)

lemma add_receipt_ok:
  assumes "length rs \<le> max_receipts" and "distinct (map tr_hash rs)"
  shows "length (add_receipt rs r) \<le> max_receipts \<and> distinct (map tr_hash (add_receipt rs r))"
  using assms by (cases rs) (auto simp: add_receipt_def)

lemma apply_report_ok: "entry_ok e \<Longrightarrow> entry_ok (apply_report r e)"
proof -
  have "length (foldl add_receipt rs qs) \<le> max_receipts \<and> distinct (map tr_hash (foldl add_receipt rs qs))"
    if "length rs \<le> max_receipts" "distinct (map tr_hash rs)" for rs qs
    using that by (induction qs arbitrary: rs) (simp_all add: add_receipt_ok)
  then show "entry_ok e \<Longrightarrow> entry_ok (apply_report r e)" by (simp add: entry_ok_def apply_report_def Let_def)
qed

lemma apply_report_map_ok:
  "\<forall>e\<in>set es. entry_ok e \<Longrightarrow> (\<forall>e\<in>set (apply_report_map m es). entry_ok e) \<and> length (apply_report_map m es) = length es"
proof (induction es arbitrary: m)
  case (Cons e es)
  then show ?case by (cases "m (entry_label e)") (simp_all add: apply_report_ok)
qed simp

lemma rebuild_entries_ok:
  "(\<And>l e. m l = Some e \<Longrightarrow> entry_ok e) \<Longrightarrow> \<forall>e\<in>set (rebuild_entries m ts). entry_ok e"
proof (induction m ts rule: rebuild_entries.induct)
  case (2 m t ts)
  show ?case
  proof (cases "m (vt_label t)")
    case None
    have "\<forall>e\<in>set (rebuild_entries m ts). entry_ok e" by (rule 2(1) [OF None]) (rule 2(3))
    with None show ?thesis by (simp add: entry_ok_def validator_entry_new_def)
  next
    case (Some e)
    then have "\<forall>e\<in>set (rebuild_entries (m(vt_label t := None)) ts). entry_ok e"
      by (rule 2(2)) (metis 2(3) fun_upd_apply option.distinct(1))
    moreover have "entry_ok (e\<lparr>ve_target := t\<rparr>)" using 2(3) [OF Some] by (simp add: entry_ok_def)
    ultimately show ?thesis using Some by simp
  qed
qed simp

lemma entries_by_label_mem: "entries_by_label es l = Some e \<Longrightarrow> e \<in> set es"
  by (auto simp: entries_by_label_def dest!: map_of_SomeD)

section \<open>Every operation keeps the invariant\<close>

named_theorems app_intros

lemma app_ok_rows: "app_ok s \<Longrightarrow> same_rows s s' \<Longrightarrow> dialogs_ok s' \<Longrightarrow> app_ok s'"
  using same_rows_ok by (simp add: app_ok_def)

lemma app_ok_dialogs: "app_ok s \<Longrightarrow> dialogs_ok s"
  by (simp add: app_ok_def)

lemma length_last_lines: "length (last_lines m ls) \<le> m"
  by (simp add: last_lines_def)

lemma inline_view_bound: "length (il_lines (inline_view w e)) \<le> 100"
  using length_last_lines [of 100]
  by (auto simp: inline_view_def tail_log_def Let_def split: option.splits sum.splits if_splits)

lemma dialogs_ok_simps [simp]:
  "dialogs_ok (set_status_message k m s) = dialogs_ok s" "dialogs_ok (set_data_status_message k m s) = dialogs_ok s"
  "dialogs_ok (clear_error_message s) = dialogs_ok s" "dialogs_ok (automation_push_log l s) = dialogs_ok s"
  "dialogs_ok (modify_entry_at i f s) = dialogs_ok s" "dialogs_ok (modify_entry_label l f s) = dialogs_ok s"
  by (auto simp: dialogs_ok_def set_status_message_def set_data_status_message_def clear_error_message_def
      automation_push_log_def modify_entry_at_def modify_entry_label_def split: option.splits)

lemma dialogs_ok_refresh_inline: "dialogs_ok s \<Longrightarrow> dialogs_ok (refresh_inline_log w s)"
  using inline_view_bound [of w] by (auto simp: dialogs_ok_def refresh_inline_log_def inline_clear_def split: option.splits)

lemma app_ok_simple [app_intros]:
  assumes "app_ok s"
  shows "app_ok (set_status_message k m s)" "app_ok (set_data_status_message k m s)"
    "app_ok (clear_error_message s)" "app_ok (automation_push_log l s)" "app_ok (refresh_inline_log w s)"
  by (rule app_ok_rows [OF assms], simp_all add: app_ok_dialogs [OF assms] dialogs_ok_refresh_inline)+

lemma app_ok_modify [app_intros]:
  assumes "app_ok s" and "\<And>e. ve_receipts (f e) = ve_receipts e"
  shows "app_ok (modify_entry_at i f s)" "app_ok (modify_entry_label l f s)"
  by (rule app_ok_rows [OF assms(1)], simp_all add: app_ok_dialogs [OF assms(1)] same_rows_modify [OF assms(2)])+

lemma refresh_lines_bound: "refresh_lines c m = Inr m' \<Longrightarrow> length (lm_lines m') \<le> 500"
  using length_last_lines [of 500] by (auto simp: refresh_lines_def split: sum.splits)

lemma refresh_log_ok:
  assumes "app_ok s" and "refresh_log_for_label w l s = Inr s'"
  shows "app_ok s'"
proof (cases "ap_log_modal s")
  case (Some m)
  show ?thesis
  proof (cases "lm_label m = l")
    case True
    with assms(2) Some obtain m' where m': "refresh_lines (w_read w (lm_path m)) m = Inr m'"
      and s': "s' = s\<lparr>ap_log_modal := Some (if lm_follow_tail m' then scroll_to_bottom m' else m')\<rparr>"
      by (cases "refresh_lines (w_read w (lm_path m)) m") (simp_all add: refresh_log_for_label_def and_then_def)
    have "length (lm_lines m') \<le> 500" by (rule refresh_lines_bound [OF m'])
    then have "dialogs_ok s'" using app_ok_dialogs [OF assms(1)] unfolding s' by (simp add: dialogs_ok_def scroll_to_bottom_def)
    moreover have "same_rows s s'" unfolding s' by (simp add: same_rows_def)
    ultimately show ?thesis using app_ok_rows [OF assms(1)] by blast
  next
    case False
    with assms Some show ?thesis by (simp add: refresh_log_for_label_def)
  qed
qed (use assms in \<open>simp add: refresh_log_for_label_def\<close>)

lemma report_refresh_ok [app_intros]:
  "app_ok s \<Longrightarrow> (\<And>s'. res = Inr s' \<Longrightarrow> app_ok s') \<Longrightarrow> app_ok (report_refresh res s)"
  by (auto simp: report_refresh_def intro: app_intros split: sum.splits)

lemma reset_log_ok: "app_ok s \<Longrightarrow> reset_log_file_for_index w i s = (w', s') \<Longrightarrow> app_ok s'"
  by (auto simp: reset_log_file_for_index_def Let_def intro: app_intros refresh_log_ok split: option.splits sum.splits)

lemma refresh_log_index_ok: "app_ok s \<Longrightarrow> refresh_log_for_index w i s = Inr s' \<Longrightarrow> app_ok s'"
  by (auto simp: refresh_log_for_index_def intro: refresh_log_ok split: option.splits)

lemma begin_action_ok [app_intros]: "app_ok s \<Longrightarrow> app_ok (begin_action w action s)"
proof -
  assume ok: "app_ok s"
  let ?s = "modify_entry_at (action_index action) (\<lambda>e. e\<lparr>ve_lifecycle := Some
    (case action of Start _ \<Rightarrow> Starting | Stop _ \<Rightarrow> Stopping | Restart _ \<Rightarrow> Restarting)\<rparr>) s"
  have 1: "app_ok ?s" by (rule app_ok_modify [OF ok]) simp
  obtain w' s' where reset: "reset_log_file_for_index w (action_index action) ?s = (w', s')" by fastforce
  have 2: "app_ok s'" by (rule reset_log_ok [OF 1 reset])
  have "app_ok (report_refresh (refresh_log_for_index w' (action_index action) s') s')"
    by (rule report_refresh_ok [OF 2]) (rule refresh_log_index_ok [OF 2])
  with 1 reset show ?thesis by (cases action) (simp_all add: begin_action_def)
qed

lemma refresh_after_ok [app_intros]: "app_ok s \<Longrightarrow> app_ok (refresh_logs_after_action w l a s)"
  unfolding refresh_logs_after_action_def Let_def using refresh_log_ok [of s w l]
  by (simp add: app_intros)

lemma handle_command_result_ok [app_intros]: "app_ok s \<Longrightarrow> app_ok (handle_command_result w l a success msg s)"
  unfolding handle_command_result_def Let_def command_lifecycle_def clear_action_state_label_def
  by (simp add: app_intros command_entry_def)

lemma set_active_chain_ok [app_intros]: "app_ok s \<Longrightarrow> app_ok (set_active_chain w c s)"
  unfolding set_active_chain_def Let_def
proof (rule app_ok_simple(5))
  assume ok: "app_ok s"
  let ?s = "if ap_start_time (s\<lparr>ap_active_chain := Some c\<rparr>) = None
    then s\<lparr>ap_active_chain := Some c, ap_start_time := Some (w_now w)\<rparr> else s\<lparr>ap_active_chain := Some c\<rparr>"
  show "app_ok ?s"
    by (rule app_ok_rows [OF ok]) (use app_ok_dialogs [OF ok] in \<open>simp_all add: same_rows_def dialogs_ok_def\<close>)
qed

text \<open>Rows that are replaced, with the scroll position reset.\<close>

lemma app_ok_new_rows:
  assumes "app_ok s" and "\<forall>e\<in>set es. entry_ok e" and "case sel of None \<Rightarrow> es = [] | Some i \<Rightarrow> i < length es"
  shows "app_ok (s\<lparr>ap_entries := es, ap_selected := sel, ap_receipts_scroll := 0\<rparr>)"
  using assms by (simp add: app_ok_def dialogs_ok_def rows_ok_def selection_ok_def split: option.splits)

lemma app_ok_entries: "app_ok s \<Longrightarrow> e \<in> set (ap_entries s) \<Longrightarrow> entry_ok e"
  by (simp add: app_ok_def rows_ok_def)

lemma app_ok_selection: "app_ok s \<Longrightarrow> case ap_selected s of None \<Rightarrow> ap_entries s = [] | Some i \<Rightarrow> i < length (ap_entries s)"
  by (simp add: app_ok_def rows_ok_def selection_ok_def)

lemma set_targets_ok [app_intros]: "app_ok s \<Longrightarrow> app_ok (set_targets w ts s)"
proof -
  assume ok: "app_ok s"
  let ?es = "rebuild_entries (entries_by_label (ap_entries s)) ts"
  have "\<forall>e\<in>set ?es. entry_ok e"
    by (rule rebuild_entries_ok) (rule app_ok_entries [OF ok entries_by_label_mem])
  moreover have "case reselect ?es (ap_selected s) of None \<Rightarrow> ?es = [] | Some i \<Rightarrow> i < length ?es"
    by (auto simp: reselect_def split: option.splits)
  ultimately show ?thesis
    unfolding set_targets_def Let_def by (intro app_ok_simple(5) app_ok_new_rows [OF ok])
qed

lemma app_ok_chain: "app_ok s \<Longrightarrow> app_ok (s\<lparr>ap_active_chain := c\<rparr>)"
  by (frule app_ok_dialogs, erule app_ok_rows) (simp_all add: same_rows_def dialogs_ok_def)

lemma plan_launch_node_ok:
  assumes "app_ok s" and "plan_launch_node w s = (s', res)"
  shows "app_ok s'"
proof (cases "ap_active_chain s")
  case (Some chain)
  let ?n = "next_node_index (ap_entries s)"
  let ?chain = "chain\<lparr>ac_num_nodes := max (ac_num_nodes chain) (usize_succ ?n)\<rparr>"
  let ?s = "s\<lparr>ap_active_chain := Some ?chain\<rparr>"
  have ok: "app_ok ?s" by (rule app_ok_chain [OF assms(1)])
  show ?thesis
  proof (cases "target_for_index w ?n ?chain")
    case (Inl err)
    with assms Some ok show ?thesis by (auto simp: plan_launch_node_def Let_def)
  next
    case (Inr target)
    let ?es = "ap_entries ?s @ [(validator_entry_new target)\<lparr>ve_lifecycle := Some Starting\<rparr>]"
    have "\<forall>e\<in>set ?es. entry_ok e"
      using app_ok_entries [OF ok] by (auto simp: entry_ok_def validator_entry_new_def)
    then have "app_ok (?s\<lparr>ap_entries := ?es, ap_selected := Some (length (ap_entries ?s)), ap_receipts_scroll := 0\<rparr>)"
      by (intro app_ok_new_rows [OF ok]) simp_all
    then have "app_ok (refresh_inline_log w (?s\<lparr>ap_entries := ?es, ap_selected := Some (length (ap_entries ?s)),
        ap_receipts_scroll := 0\<rparr>))"
      by (rule app_ok_simple(5))
    with assms(2) Some Inr show ?thesis by (auto simp: plan_launch_node_def Let_def)
  qed
qed (use assms in \<open>simp add: plan_launch_node_def\<close>)

lemma clamp_ok:
  assumes "\<forall>e\<in>set (ap_entries s). entry_ok e" and "selection_ok s" and "dialogs_ok s"
  shows "app_ok (clamp_receipt_scroll s)"
proof -
  let ?s = "clamp_receipt_scroll s"
  have same: "ap_entries ?s = ap_entries s" "ap_selected ?s = ap_selected s" by (simp_all add: clamp_receipt_scroll_def)
  then have len: "receipt_len ?s = receipt_len s"
    by (simp add: receipt_len_def selected_entry_def entry_get_def split: option.split)
  have "receipt_len s \<le> max_receipts"
    using assms by (auto simp: receipt_len_def selected_entry_def entry_get_def entry_ok_def split: option.splits)
  from unat_max_scroll [OF this] have "unat (ap_receipts_scroll ?s) \<le> receipt_len s - 1"
    by (auto simp: clamp_receipt_scroll_def word_less_nat_alt)
  moreover have "dialogs_ok ?s" using assms(3) by (simp add: clamp_receipt_scroll_def dialogs_ok_def)
  ultimately show ?thesis
    using assms same len by (simp add: app_ok_def rows_ok_def selection_ok_def split: option.splits)
qed

lemma apply_reports_ok [app_intros]: "app_ok s \<Longrightarrow> app_ok (apply_reports w rs s)"
proof -
  assume ok: "app_ok s"
  let ?m = "map_of (rev (map (\<lambda>r. (vr_label r, r)) rs))"
  let ?s = "s\<lparr>ap_entries := apply_report_map ?m (ap_entries s)\<rparr>"
  have es: "\<forall>e\<in>set (ap_entries ?s). entry_ok e" "length (ap_entries ?s) = length (ap_entries s)"
    using apply_report_map_ok [of "ap_entries s" ?m] app_ok_entries [OF ok] by simp_all
  have "selection_ok ?s" using app_ok_selection [OF ok] es(2)
    by (auto simp: selection_ok_def split: option.splits)
  moreover have "dialogs_ok ?s" using ok by (simp add: app_ok_def dialogs_ok_def)
  moreover have "ap_entries (refresh_inline_log w ?s) = ap_entries ?s" "ap_selected (refresh_inline_log w ?s) = ap_selected ?s"
    by (auto simp: refresh_inline_log_def split: option.splits)
  ultimately show ?thesis
    unfolding apply_reports_def Let_def using es
    by (intro clamp_ok) (simp_all add: dialogs_ok_refresh_inline selection_ok_def split: option.splits)
qed

lemma select_index_ok:
  assumes "app_ok s" and "i < length (ap_entries s)"
  shows "app_ok (select_index w i s)"
  unfolding select_index_def
proof (rule app_ok_simple(5))
  show "app_ok (s\<lparr>ap_selected := Some i, ap_receipts_scroll := 0, ap_inline_last_refresh := None\<rparr>)"
    using assms by (simp add: app_ok_def rows_ok_def selection_ok_def dialogs_ok_def)
qed

lemma select_ok [app_intros]:
  assumes "app_ok s"
  shows "app_ok (select_previous w n s)" "app_ok (select_next w n s)" "app_ok (select_first w s)" "app_ok (select_last w s)"
proof -
  have sel: "i < length (ap_entries s)" if "ap_selected s = Some i" for i
    using app_ok_selection [OF assms] that by simp
  show "app_ok (select_previous w n s)"
    using assms sel by (auto simp: select_previous_def intro!: select_index_ok less_imp_diff_less split: option.splits)
  have "min m (length (ap_entries s) - 1) < length (ap_entries s)" if "ap_entries s \<noteq> []" for m
    using that by (cases "ap_entries s") auto
  then show "app_ok (select_next w n s)" "app_ok (select_first w s)" "app_ok (select_last w s)"
    using assms by (auto simp: select_next_def select_first_def select_last_def intro!: select_index_ok)
qed

lemma scroll_receipts_ok [app_intros]:
  assumes "app_ok s"
  shows "app_ok (scroll_receipts_up n s)" "app_ok (scroll_receipts_down n s)"
proof -
  have rows: "rows_ok s" and "dialogs_ok s" using assms by (simp_all add: app_ok_def)
  have same: "receipt_len (s\<lparr>ap_receipts_scroll := r\<rparr>) = receipt_len s"
    "selection_ok (s\<lparr>ap_receipts_scroll := r\<rparr>) = selection_ok s" for r
    by (simp_all add: receipt_len_def selected_entry_def entry_get_def selection_ok_def split: option.split)
  have set_scroll: "app_ok (s\<lparr>ap_receipts_scroll := r\<rparr>)" if "unat r \<le> receipt_len s - 1" for r
    using rows \<open>dialogs_ok s\<close> that by (simp add: app_ok_def rows_ok_def same dialogs_ok_def)
  have "u16_saturating_sub a b \<le> a" for a b by (simp add: u16_saturating_sub_def word_sub_le)
  then have "unat (u16_saturating_sub (ap_receipts_scroll s) n) \<le> receipt_len s - 1"
    using rows by (meson rows_ok_def order_trans word_le_nat_alt)
  then show "app_ok (scroll_receipts_up n s)" by (simp add: scroll_receipts_up_def set_scroll)
  have "unat (min r (max_scroll (receipt_len s))) \<le> receipt_len s - 1" for r
    using unat_max_scroll [OF receipt_len_bound [OF rows]] by (simp add: min_def word_le_nat_alt)
  then show "app_ok (scroll_receipts_down n s)" using assms by (simp add: scroll_receipts_down_def set_scroll)
qed

section \<open>Keys\<close>

text \<open>What a key may yield: a valid request, or an action on a row that exists.\<close>

fun outcome_ok :: "key_outcome \<Rightarrow> app_state \<Rightarrow> bool" where
  "outcome_ok (Action a) s = (action_index a < length (ap_entries s))"
| "outcome_ok (Ping i) s = (i < length (ap_entries s))"
| "outcome_ok (LaunchChain r) s = valid_launch r"
| "outcome_ok (Spam r) s = valid_spam r"
| "outcome_ok (LaunchNode p) s = (lp_entry_index p < length (ap_entries s))"
| "outcome_ok _ s = True"

definition pressed_ok :: "(app_state \<times> key_outcome) option \<Rightarrow> bool" where
  "pressed_ok r \<longleftrightarrow> (\<exists>s out. r = Some (s, out) \<and> app_ok s \<and> outcome_ok out s)"

lemma key_okI: "app_ok s \<Longrightarrow> outcome_ok out s \<Longrightarrow> pressed_ok (Some (s, out))"
  by (simp add: pressed_ok_def)

lemma open_logs_ok:
  assumes "app_ok s" and "open_logs_modal w i s = Inr s'"
  shows "app_ok s'"
proof -
  obtain m where "length (lm_lines m) \<le> 500" and s': "s' = s\<lparr>ap_log_modal := Some m\<rparr>"
    using assms(2) refresh_lines_bound
    by (auto simp: open_logs_modal_def and_then_Inr Let_def split: option.splits) 
  then have "dialogs_ok s'" using app_ok_dialogs [OF assms(1)] by (simp add: dialogs_ok_def)
  then show ?thesis by (rule app_ok_rows [OF assms(1), rotated]) (simp add: s' same_rows_def)
qed

lemma enter_key_ok [app_intros]: "app_ok s \<Longrightarrow> app_ok (enter_key w s)"
  by (auto simp: enter_key_def intro: app_intros open_logs_ok split: option.splits sum.splits)

lemma log_modal_key_ok:
  assumes "app_ok s" and "ap_log_modal s = Some m"
  shows "app_ok (log_modal_key w key m s)"
proof (cases "ke_code key = KEsc")
  case True
  then show ?thesis using app_ok_dialogs [OF assms(1)]
    by (intro app_ok_rows [OF assms(1)]) (simp_all add: log_modal_key_def same_rows_def dialogs_ok_def)
next
  case False
  have m: "length (lm_lines m) \<le> 500" using app_ok_dialogs [OF assms(1)] assms(2) by (simp add: dialogs_ok_def)
  have upd: "app_ok (s\<lparr>ap_log_modal := Some m'\<rparr>)" if "length (lm_lines m') \<le> 500" for m'
    using app_ok_dialogs [OF assms(1)] that
    by (intro app_ok_rows [OF assms(1)]) (simp_all add: same_rows_def dialogs_ok_def)
  have moves: "lm_lines (scroll_up n m') = lm_lines m'" "lm_lines (scroll_down n m') = lm_lines m'"
    "lm_lines (scroll_to_top m') = lm_lines m'" "lm_lines (scroll_to_bottom m') = lm_lines m'" for n m'
    by (simp_all add: scroll_up_def scroll_down_def scroll_to_top_def scroll_to_bottom_def)
  show ?thesis
    using m refresh_lines_bound [of "w_read w (lm_path m)" m] False
    unfolding log_modal_key_def Let_def
    by (auto intro!: upd app_intros simp: moves split: sum.splits)
qed

lemma launch_form_key_ok:
  assumes "app_ok s" and "form_ok [Validators, BasePort] f"
  shows "pressed_ok (launch_form_key key f s)"
proof -
  obtain f' out where step: "launch_handle_key key f = Some (f', out)" "form_ok [Validators, BasePort] f'"
      "\<forall>r. out = Submitted r \<longrightarrow> valid_launch r"
    using launch.handle_key_ok [OF assms(2)] by blast
  have "app_ok (s\<lparr>ap_launch_form := x\<rparr>)" if "pred_option (form_ok [Validators, BasePort]) x" for x
    using app_ok_dialogs [OF assms(1)] that
    by (intro app_ok_rows [OF assms(1)]) (simp_all add: same_rows_def dialogs_ok_def)
  with step show ?thesis by (cases out) (auto simp: launch_form_key_def intro!: key_okI)
qed

lemma spam_form_key_ok:
  assumes "app_ok s" and "form_ok spam_shape f"
  shows "pressed_ok (spam_form_key key f s)"
proof -
  obtain f' out where step: "spam_handle_key key f = Some (f', out)" "form_ok spam_shape f'"
      "\<forall>r. out = Submitted r \<longrightarrow> valid_spam r"
    using spam.handle_key_ok [OF assms(2)] by blast
  have "app_ok (s\<lparr>ap_spam_form := x\<rparr>)" if "pred_option (form_ok spam_shape) x" for x
    using app_ok_dialogs [OF assms(1)] that
    by (intro app_ok_rows [OF assms(1)]) (simp_all add: same_rows_def dialogs_ok_def)
  with step show ?thesis by (cases out) (auto simp: spam_form_key_def intro!: key_okI)
qed

lemma automation_modal_key_ok:
  assumes "modal_ok m"
  shows "\<exists>m' out. automation_modal_key key m = Some (m', out) \<and> modal_ok m'"
  using assms by (auto simp: automation_modal_key_def modal_ok_def Let_def)

lemma modal_key_ok:
  assumes "app_ok s" and "modal_ok m"
  shows "pressed_ok (modal_key key m s)"
proof -
  obtain m' out where step: "automation_modal_key key m = Some (m', out)" "modal_ok m'"
    using automation_modal_key_ok [OF assms(2)] by blast
  have "app_ok (s\<lparr>ap_automation_modal := x\<rparr>)" if "pred_option modal_ok x" for x
    using app_ok_dialogs [OF assms(1)] that
    by (intro app_ok_rows [OF assms(1)]) (simp_all add: same_rows_def dialogs_ok_def)
  with step show ?thesis by (cases out) (auto simp: modal_key_def intro!: key_okI)
qed

lemma quiet_ok: "app_ok s \<Longrightarrow> pressed_ok (Some (s, NoOutcome))"
  by (simp add: key_okI)

lemma no_selection_ok: "app_ok s \<Longrightarrow> pressed_ok (no_selection s)"
  by (simp add: no_selection_def quiet_ok app_intros)

lemma selected_row: "app_ok s \<Longrightarrow> ap_selected s = Some i \<Longrightarrow> i < length (ap_entries s)"
  using app_ok_selection by fastforce

lemma row_keys_ok:
  assumes "app_ok s"
  shows "pressed_ok (start_key now s)" "pressed_ok (kill_key now s)" "pressed_ok (restart_key now s)"
  using assms selected_row [OF assms] no_selection_ok [OF assms]
  by (auto simp: start_key_def kill_key_def restart_key_def entry_get_def intro!: key_okI app_intros
      split: option.splits)

lemma plan_key_ok:
  assumes "app_ok s"
  shows "pressed_ok (Some (plan_key w s))"
proof -
  obtain s' res where plan: "plan_launch_node w s = (s', res)" by fastforce
  have ok: "app_ok s'" by (rule plan_launch_node_ok [OF assms plan])
  have "lp_entry_index p < length (ap_entries s')" if "res = Inr p" for p
    using plan that by (auto simp: plan_launch_node_def refresh_inline_log_def Let_def split: option.splits sum.splits if_splits)
  with ok plan show ?thesis by (cases res) (auto simp: plan_key_def intro!: key_okI app_intros)
qed

lemma app_ok_dialog_updates:
  assumes "app_ok s"
  shows "app_ok (s\<lparr>ap_should_quit := q\<rparr>)" "app_ok (s\<lparr>ap_launch_form := Some launch_form_new\<rparr>)"
    "app_ok (s\<lparr>ap_spam_form := Some (spam_form_new t)\<rparr>)" "app_ok (open_automation_modal s)"
    "app_ok (s\<lparr>ap_automation_panel := p\<rparr>)"
  using app_ok_dialogs [OF assms] new_forms_ok
  by (auto intro!: app_ok_rows [OF assms] simp: same_rows_def dialogs_ok_def open_automation_modal_def Let_def
      set_status_message_def modal_ok_def)

lemma main_key_ok:
  assumes "app_ok s"
  shows "pressed_ok (main_key w key s)"
proof -
  have ping: "pressed_ok (Some (s, Ping i))" if "ap_selected s = Some i" for i
    using assms selected_row [OF assms that] by (intro key_okI) simp_all
  have stop: "pressed_ok (Some (s, if b then AutomationStop else NoOutcome))" for b
    using assms by (intro key_okI) simp_all
  show ?thesis
    unfolding main_key_def Let_def
    using assms ping stop
    by (simp add: quiet_ok app_intros app_ok_dialog_updates row_keys_ok plan_key_ok no_selection_ok split: option.split)
qed

lemma on_key_ok: "app_ok s \<Longrightarrow> pressed_ok (on_key w key s)"
proof -
  assume ok: "app_ok s"
  note d = app_ok_dialogs [OF ok]
  show ?thesis
  proof (cases "ap_log_modal s")
    case (Some m)
    then show ?thesis using log_modal_key_ok [OF ok] by (simp add: on_key_def quiet_ok)
  next
    case None
    then show ?thesis
      using d by (auto simp: on_key_def dialogs_ok_def main_key_ok [OF ok] intro!: launch_form_key_ok [OF ok]
          spam_form_key_ok [OF ok] modal_key_ok [OF ok] split: option.splits)
  qed
qed

section \<open>Events\<close>

lemma perform_action_ok [app_intros]: "app_ok s \<Longrightarrow> app_ok (perform_action x f a s)"
  by (auto simp: perform_action_def Let_def clear_action_state_index_def intro!: app_intros split: sum.splits)

lemma update_app_ok: "(app_ok (in_app i) \<Longrightarrow> app_ok (f (in_app i))) \<Longrightarrow> app_ok (in_app i) \<Longrightarrow> app_ok (in_app (update_app f i))"
  by (simp add: update_app_def)

lemma publish_app: "publish_target t i = (i', sent) \<Longrightarrow> in_app i' = in_app i"
  by (auto simp: publish_target_def Let_def)

lemma handle_outcome_ok:
  assumes "app_ok (in_app i)" and "handle_outcome x out i = (i', sent)"
  shows "app_ok (in_app i')"
  using assms
  by (cases out) (auto simp: update_app_def automation_run_def automation_cancel_def show_ping_def
      intro!: app_intros dest!: publish_app split: prod.splits if_splits option.splits sum.splits)

lemma automation_action_ok:
  assumes "app_ok (in_app i)" and "handle_automation_action x a i = ((i', sent), err)"
  shows "app_ok (in_app i')"
proof -
  have plan: "app_ok s'" if "plan_launch_node w (automation_push_log l (in_app i)) = (s', res)" for w l s' res
    by (rule plan_launch_node_ok [OF app_ok_simple(4) [OF assms(1)] that])
  show ?thesis
    using assms
    by (cases a) (auto simp: update_app_def lift_result_def run_lifecycle_action_def spawn_spam_job_def
        launch_additional_validator_def automation_ping_def intro!: app_intros dest!: publish_app dest: plan
        split: prod.splits if_splits option.splits sum.splits)
qed

text \<open>No event makes the inspector panic, and every event keeps the invariant.\<close>

lemma handle_event_ok:
  assumes ok: "app_ok (in_app i)"
  shows "\<exists>i' sent. handle_event x ev i = Some (i', sent) \<and> app_ok (in_app i')"
proof (cases ev)
  case (Input key)
  obtain s out where key: "on_key (o_world x) key (in_app i) = Some (s, out)" "app_ok s"
    using on_key_ok [OF ok] unfolding pressed_ok_def by blast
  obtain i' sent where "handle_outcome x out (i\<lparr>in_app := s\<rparr>) = (i', sent)" by fastforce
  with key Input handle_outcome_ok [of "i\<lparr>in_app := s\<rparr>" x out i' sent] show ?thesis by simp
next
  case (AutomationEvent a)
  obtain i' sent err where res: "handle_automation_action x a i = ((i', sent), err)" by (metis prod.exhaust)
  with automation_action_ok [OF ok this] AutomationEvent show ?thesis
    by (cases err) (simp_all add: update_app_def app_intros)
next
  case (Data rs)
  have "app_ok (data_status rs (in_app i))"
    using ok by (auto simp: data_status_def intro!: app_intros split: option.splits)
  with Data show ?thesis by (simp add: update_app_def app_intros)
qed (use ok in \<open>simp_all add: update_app_def app_intros app_ok_dialog_updates\<close>)

lemma app_state_new_ok: "app_ok (app_state_new w targets control project listing)"
  unfolding app_state_new_def
  by (rule app_ok_simple(5)) (auto simp: app_ok_def rows_ok_def selection_ok_def dialogs_ok_def entry_ok_def
      validator_entry_new_def inline_clear_def)

interpretation inspector_run: step_invariant loop_step "\<lambda>i. app_ok (in_app i)"
  by unfold_locales (metis handle_event_ok loop_step.cases option.inject prod.inject)

end
