(* ===== verification/Inspector_Properties.thy ===== *)
theory Inspector_Properties
  imports Inspector_Facts
begin

text \<open>What the inspector guarantees: robustness of its loop, of its forms and of planned nodes.\<close>

section \<open>The event loop\<close>

definition sample_world :: world where
  "sample_world = \<lparr>w_now = 0, w_read = (\<lambda>_. Inr []), w_write = (\<lambda>_. None), w_parse_url = Inr, w_load_key = (\<lambda>_. None)\<rparr>"

definition sample_outside :: outside where
  "sample_outside = \<lparr>o_world = sample_world, o_dispatch = (\<lambda>_ _. Inr []), o_ping = (\<lambda>_ _. Inr [])\<rparr>"

definition sample_target :: validator_target where
  "sample_target = \<lparr>vt_label = ''v0'', vt_url = ''http://127.0.0.1:8545/'', vt_port = Some 8545, vt_key = None, vt_log_path = None\<rparr>"

definition sample_inspector :: inspector where
  "sample_inspector = inspector_new sample_world [sample_target] \<lparr>cc_start_cmd = None, cc_stop_cmd = None, cc_restart_cmd = None\<rparr> None None"

text \<open>
  C26: from any start and after any events, with any files, clock and command results, the next event
  is handled without a panic, and the selected row exists exactly when there are rows, every
  validator has at most 512 receipts without repetition, and the scroll position lies inside the
  receipts shown.
\<close>
theorem inspector_never_panics:
  assumes "loop_step\<^sup>*\<^sup>* (inspector_new w targets control project listing) i"
  shows "(\<exists>i' sent. handle_event x ev i = Some (i', sent)) \<and>
    (ap_selected (in_app i) = None \<longleftrightarrow> ap_entries (in_app i) = []) \<and>
    (\<forall>k. ap_selected (in_app i) = Some k \<longrightarrow> k < length (ap_entries (in_app i))) \<and>
    (\<forall>e\<in>set (ap_entries (in_app i)). length (ve_receipts e) \<le> 512 \<and> distinct (map tr_hash (ve_receipts e))) \<and>
    unat (ap_receipts_scroll (in_app i)) \<le> length (receipt_entries (in_app i)) - 1"
proof -
  have ok: "app_ok (in_app i)"
    by (rule inspector_run.steps_keep [OF assms]) (simp add: inspector_new_def app_state_new_ok)
  have "length (receipt_entries (in_app i)) = receipt_len (in_app i)"
    by (simp add: receipt_entries_def receipt_len_def split: option.splits)
  with ok have "unat (ap_receipts_scroll (in_app i)) \<le> length (receipt_entries (in_app i)) - 1"
    by (simp add: app_ok_def rows_ok_def)
  moreover have "ap_selected (in_app i) = None \<longleftrightarrow> ap_entries (in_app i) = []"
    using app_ok_selection [OF ok] by (auto split: option.splits)
  moreover have "\<exists>i' sent. handle_event x ev i = Some (i', sent)" using handle_event_ok [OF ok] by blast
  moreover have "\<forall>e\<in>set (ap_entries (in_app i)). length (ve_receipts e) \<le> 512 \<and> distinct (map tr_hash (ve_receipts e))"
    using app_ok_entries [OF ok] by (simp add: entry_ok_def)
  ultimately show ?thesis using selected_row [OF ok] by blast
qed

theorem inspector_never_panics_witness:
  "\<exists>i' sent. handle_event sample_outside (Input \<lparr>ke_code = KChar CHR ''n'', ke_modifiers = []\<rparr>) sample_inspector = Some (i', sent)"
  using inspector_never_panics [of sample_world "[sample_target]"
      "\<lparr>cc_start_cmd = None, cc_stop_cmd = None, cc_restart_cmd = None\<rparr>" None None sample_inspector sample_outside
      "Input \<lparr>ke_code = KChar CHR ''n'', ke_modifiers = []\<rparr>"]
  by (simp add: sample_inspector_def)

section \<open>Forms\<close>

text \<open>
  C27: whatever keys are pressed, neither form panics, and a request that is submitted is one the
  rest of the inspector accepts: 1 to 50 validators; a load of positive sizes on at least two
  accounts, with a target where the mode needs one.
\<close>
theorem submitted_requests_valid:
  "(\<exists>f out. form_session launch_handle_key keys launch_form_new = Some (f, out) \<and>
      (\<forall>r. out = Submitted r \<longrightarrow> 1 \<le> lr_count r \<and> lr_count r \<le> 50)) \<and>
   (\<exists>f out. form_session spam_handle_key keys (spam_form_new target) = Some (f, out) \<and>
      (\<forall>r. out = Submitted r \<longrightarrow> valid_spam r))"
  using launch.session_ok [OF new_forms_ok(1), of keys] spam.session_ok [OF new_forms_ok(2), of keys target]
  by (auto simp: valid_launch_def)

definition enter_twice :: "key_event list" where
  "enter_twice = replicate 2 \<lparr>ke_code = KEnter, ke_modifiers = []\<rparr>"

lemma enter_twice_submits:
  "\<exists>f r. form_session launch_handle_key enter_twice launch_form_new = Some (f, Submitted r)"
proof -
  have "parse_uint u64_max ''5'' = Inr 5" "parse_uint u16_max ''8545'' = Inr 8545"
    using parse_uint_show [of 5 u64_max] parse_uint_show [of 8545 u16_max]
    by (simp_all add: show_dec.simps digit_char_def char_of_def bit_numeral_rec bit_0)
  then show ?thesis
    by (simp add: enter_twice_def numeral_2_eq_2 launch_handle_key_def launch_enter_def launch_build_request_def
        launch_form_new_def clear_error_def nth_input_def parse_or_def and_then_def submit_form_def
        trim_def trim_start_def trim_end_def is_whitespace_def)
qed

theorem submitted_requests_valid_witness:
  "\<exists>f r. form_session launch_handle_key enter_twice launch_form_new = Some (f, Submitted r) \<and>
     1 \<le> lr_count r \<and> lr_count r \<le> 50"
  using submitted_requests_valid [of enter_twice] enter_twice_submits by auto

section \<open>Planned nodes\<close>

lemma label_index_printed: "n \<le> u64_max \<Longrightarrow> label_index (CHR ''v'' # show_dec n) = Some n"
  using parse_uint_show by (simp add: label_index_def trim_before_digits is_ascii_digit_def)

lemma label_index_bound: "label_index l = Some n \<Longrightarrow> n \<le> u64_max"
  by (auto simp: label_index_def dest: parse_uint_le split: sum.splits)

lemma next_node_index_above:
  assumes "e \<in> set es" and "label_index (entry_label e) = Some n"
    and "\<forall>e\<in>set es. label_index (entry_label e) \<noteq> Some u64_max"
  shows "n < next_node_index es"
proof -
  let ?is = "filter_map (\<lambda>e. label_index (vt_label (ve_target e))) es"
  have n: "n \<in> set ?is" using assms(1,2) by (auto simp: set_filter_map entry_label_def)
  have "i < u64_max" if "i \<in> set ?is" for i
    using that assms(3) label_index_bound by (fastforce simp: set_filter_map entry_label_def nat_less_le)
  moreover have "Max (set ?is) \<in> set ?is" using n by (intro Max_in) auto
  ultimately have "usize_succ (Max (set ?is)) = Max (set ?is) + 1" by (simp add: usize_succ_def)
  then have "next_node_index es = Max (set ?is) + 1" using n by (auto simp: next_node_index_def vec_max_def)
  moreover have "n \<le> Max (set ?is)" using n by simp
  ultimately show ?thesis by linarith
qed

lemma refresh_inline_fields [simp]:
  "ap_entries (refresh_inline_log w s) = ap_entries s" "ap_selected (refresh_inline_log w s) = ap_selected s"
  "ap_active_chain (refresh_inline_log w s) = ap_active_chain s"
  by (auto simp: refresh_inline_log_def split: option.splits)

lemma plan_launch_node_cases:
  assumes "plan_launch_node w s = (s', res)"
  obtains err where "res = Inl err" "ap_entries s' = ap_entries s"
  | chain chain' target where "ap_active_chain s = Some chain" "ac_base_http_port chain' = ac_base_http_port chain"
      "target_for_index w (next_node_index (ap_entries s)) chain' = Inr target"
      "res = Inr \<lparr>lp_entry_index = length (ap_entries s), lp_target = target\<rparr>"
      "map entry_label (ap_entries s') = map entry_label (ap_entries s) @ [vt_label target]"
      "ap_selected s' = Some (length (ap_entries s))"
proof (cases "ap_active_chain s")
  case (Some chain)
  let ?c = "chain\<lparr>ac_num_nodes := max (ac_num_nodes chain) (usize_succ (next_node_index (ap_entries s)))\<rparr>"
  show ?thesis
  proof (cases "target_for_index w (next_node_index (ap_entries s)) ?c")
    case (Inl err)
    with Some assms show ?thesis by (intro that(1)) (auto simp: plan_launch_node_def Let_def)
  next
    case (Inr target)
    with Some assms show ?thesis
      by (intro that(2) [of chain ?c target]) (auto simp: plan_launch_node_def Let_def entry_label_def validator_entry_new_def)
  qed
qed (use assms in \<open>intro that(1), auto simp: plan_launch_node_def\<close>)

text \<open>
  A planned node has a label no other validator has, its port lies below the base port by its
  index, and it becomes the last and selected row; when planning fails no row is added.
\<close>
lemma planned_node_is_new:
  assumes "plan_launch_node w s = (s', res)" and "\<forall>e\<in>set (ap_entries s). label_index (entry_label e) \<noteq> Some u64_max"
  shows "case res of
      Inl _ \<Rightarrow> ap_entries s' = ap_entries s
    | Inr plan \<Rightarrow> vt_label (lp_target plan) \<notin> entry_label ` set (ap_entries s) \<and>
        map entry_label (ap_entries s') = map entry_label (ap_entries s) @ [vt_label (lp_target plan)] \<and>
        ap_selected s' = Some (length (ap_entries s)) \<and> lp_entry_index plan = length (ap_entries s) \<and>
        (\<exists>chain port. ap_active_chain s = Some chain \<and> vt_port (lp_target plan) = Some port \<and>
          unat port + next_node_index (ap_entries s) = unat (ac_base_http_port chain))"
  using assms(1)
proof (cases rule: plan_launch_node_cases)
  case (2 chain chain' target)
  let ?n = "next_node_index (ap_entries s)"
  from 2(3) have n: "?n \<le> u16_max" "?n \<le> unat (ac_base_http_port chain)"
    and label: "vt_label target = CHR ''v'' # show_dec ?n"
    and port: "vt_port target = Some (ac_base_http_port chain - of_nat ?n)"
    using 2(2) by (auto simp: target_for_index_def Let_def and_then_Inr split: if_splits)
  have "label_index (vt_label target) = Some ?n" using n(1) label label_index_printed by simp
  then have "entry_label e \<noteq> vt_label target" if "e \<in> set (ap_entries s)" for e
    using next_node_index_above [OF that _ assms(2)] by (metis less_irrefl)
  then have "vt_label target \<notin> entry_label ` set (ap_entries s)" by (metis imageE)
  moreover have "unat (ac_base_http_port chain - of_nat ?n) + ?n = unat (ac_base_http_port chain)"
    using n by (simp add: unat_sub word_le_nat_alt unat_of_nat)
  ultimately show ?thesis using 2 port by simp
qed simp

definition sample_chain :: active_chain where
  "sample_chain = \<lparr>ac_base_http_port = 8545, ac_num_nodes = 1, ac_data_dir = [], ac_logs_dir = [],
     ac_assets_dir = [], ac_rbft_binary = [], ac_trusted_peers = None\<rparr>"

definition sample_app :: app_state where
  "sample_app = (in_app sample_inspector)\<lparr>ap_active_chain := Some sample_chain\<rparr>"

lemma sample_label: "label_index ''v0'' = Some 0"
  using label_index_printed [of 0] by (simp add: show_dec.simps digit_char_def char_of_def bit_0)

lemma sample_app_entries: "map entry_label (ap_entries sample_app) = [''v0'']"
  by (simp add: sample_app_def sample_inspector_def inspector_new_def app_state_new_def
      entry_label_def validator_entry_new_def sample_target_def)

lemma sample_plan: "\<exists>s' plan. plan_launch_node sample_world sample_app = (s', Inr plan)"
proof -
  obtain e where e: "ap_entries sample_app = [e]" "vt_label (ve_target e) = ''v0''"
    using sample_app_entries by (auto simp: entry_label_def)
  then have "next_node_index (ap_entries sample_app) = 1"
    by (simp add: next_node_index_def vec_max_def usize_succ_def sample_label)
  moreover have "ap_active_chain sample_app = Some sample_chain" by (simp add: sample_app_def)
  ultimately show ?thesis
    by (simp add: plan_launch_node_def target_for_index_def and_then_def sample_world_def sample_chain_def Let_def)
qed

lemma planned_node_is_new_witness:
  "\<exists>plan. snd (plan_launch_node sample_world sample_app) = Inr plan \<and> vt_label (lp_target plan) \<noteq> ''v0''"
proof -
  obtain s' plan where plan: "plan_launch_node sample_world sample_app = (s', Inr plan)" using sample_plan by auto
  have "\<forall>e\<in>set (ap_entries sample_app). label_index (entry_label e) \<noteq> Some u64_max"
    using sample_app_entries sample_label by auto
  from planned_node_is_new [OF plan this] sample_app_entries plan show ?thesis by (auto simp: entry_label_def)
qed

section \<open>Log lines\<close>

text \<open>
  A cleaned log line has no control characters but tabs, cleaning a clean line changes nothing,
  and so cleaning twice is cleaning once.
\<close>
lemma sanitize_line_clean:
  "(\<forall>c\<in>set (sanitize_line line). c = CHR 0x09 \<or> \<not> is_control c) \<and>
   sanitize_line (sanitize_line line) = sanitize_line line"
  using sanitize_from_chars sanitize_clean unfolding sanitize_line_def by blast

end
