(* ===== verification/Automation_Properties.thy ===== *)
theory Automation_Properties
  imports Automation
begin

text \<open>What automation scripts are turned into: the schedule of a command, and well-formed commands.\<close>

section \<open>Schedule\<close>

text \<open>The triggers of a command: its offset, and as often again as it repeats.\<close>

definition triggers :: "nat option \<Rightarrow> nat \<Rightarrow> nat \<Rightarrow> nat list" where
  "triggers interval t n = (case interval of None \<Rightarrow> [t] | Some i \<Rightarrow> map (\<lambda>j. t + j * i) [0..<Suc n])"

lemma triggers_step: "triggers (Some i) t (Suc n) = t # triggers (Some i) (t + i) n"
proof -
  have "[0..<Suc (Suc n)] = 0 # map Suc [0..<Suc n]" by (metis map_Suc_upt upt_conv_Cons zero_less_Suc)
  then show ?thesis by (simp add: triggers_def comp_def algebra_simps del: upt_Suc)
qed

lemma run_task_triggers:
  "\<exists>m \<le> length (triggers interval t n). run_task cancelled receiver interval k t n = take m (triggers interval t n) \<and>
     (m < length (triggers interval t n) \<longrightarrow> cancelled (triggers interval t n ! m) \<or> \<not> receiver (k + m)) \<and>
     (\<forall>j<m. \<not> cancelled (triggers interval t n ! j) \<and> receiver (k + j))"
proof (induction cancelled receiver interval k t n rule: run_task.induct)
  case (1 cancelled receiver interval k t n)
  show ?case
  proof (cases "cancelled t \<or> \<not> receiver k")
    case True
    then have "run_task cancelled receiver interval k t n = []" by (simp add: run_task.simps)
    moreover have "triggers interval t n ! 0 = t"
      by (cases interval; cases n) (simp_all add: triggers_def triggers_step [unfolded triggers_def, simplified] nth_append upt_rec)
    ultimately show ?thesis using True by (intro exI [of _ 0]) auto
  next
    case go: False
    consider (last) "triggers interval t n = [t]" "run_task cancelled receiver interval k t n = [t]"
      | (more) i n' where "interval = Some i" "n = Suc n'"
          "run_task cancelled receiver interval k t n = t # run_task cancelled receiver interval (Suc k) (t + i) n'"
      using go by (cases interval; cases n) (auto simp: run_task.simps [of _ _ _ k] triggers_def)
    then show ?thesis
    proof cases
      case last
      with go show ?thesis by (intro exI [of _ 1]) auto
    next
      case more
      let ?ts = "triggers interval (t + i) n'"
      obtain m where m: "m \<le> length ?ts" "run_task cancelled receiver interval (Suc k) (t + i) n' = take m ?ts"
        "m < length ?ts \<longrightarrow> cancelled (?ts ! m) \<or> \<not> receiver (Suc k + m)"
        "\<forall>j<m. \<not> cancelled (?ts ! j) \<and> receiver (Suc k + j)"
        using 1 [OF _ more(1)] go more(2) by auto
      have "triggers interval t n = t # ?ts" using more triggers_step by simp
      with m go more show ?thesis by (intro exI [of _ "Suc m"]) (auto simp: less_Suc_eq_0_disj)
    qed
  qed
qed

text \<open>
  The task of a scheduled command always ends; it sends the action at its offset and then at
  every interval, once more than it repeats, up to the first trigger by which it is cancelled or at
  which the receiver is gone.
\<close>
lemma command_sent_on_schedule:
  "\<exists>m. let ts = triggers (sc_interval c) (start + sc_offset c) (sc_repeats c) in
     run_command cancelled receiver start c = map (\<lambda>t. (t, sc_action c)) (take m ts) \<and>
     m \<le> length ts \<and> (m < length ts \<longrightarrow> cancelled (ts ! m) \<or> \<not> receiver m) \<and>
     (\<forall>j<m. \<not> cancelled (ts ! j) \<and> receiver j)"
proof -
  let ?ts = "triggers (sc_interval c) (start + sc_offset c) (sc_repeats c)"
  obtain m where "m \<le> length ?ts" "run_task cancelled receiver (sc_interval c) 0 (start + sc_offset c) (sc_repeats c) = take m ?ts"
    "m < length ?ts \<longrightarrow> cancelled (?ts ! m) \<or> \<not> receiver m" "\<forall>j<m. \<not> cancelled (?ts ! j) \<and> receiver j"
    using run_task_triggers [of "sc_interval c" "start + sc_offset c" "sc_repeats c" cancelled receiver 0] by auto
  then show ?thesis unfolding run_command_def Let_def by (intro exI [of _ m]) simp
qed

definition sample_command :: scheduled_command where
  "sample_command = \<lparr>sc_action = AutoStop ''v0'', sc_offset = 5, sc_interval = Some 10, sc_repeats = 2\<rparr>"

lemma command_sent_on_schedule_witness:
  "run_command (\<lambda>_. False) (\<lambda>_. True) 0 sample_command = map (\<lambda>t. (t, AutoStop ''v0'')) [5, 15, 25]"
proof -
  have "triggers (sc_interval sample_command) (0 + sc_offset sample_command) (sc_repeats sample_command) = [5, 15, 25]"
    by (simp add: triggers_def sample_command_def upt_rec)
  then show ?thesis
    using command_sent_on_schedule [of sample_command 0 "\<lambda>_. False" "\<lambda>_. True"]
    by (auto simp: Let_def sample_command_def)
qed

section \<open>Decoding\<close>

text \<open>Values of a type, and a decoder that yields values of the type it is asked for.\<close>

fun sol_typed :: "sol_type \<Rightarrow> sol_value \<Rightarrow> bool" where
  "sol_typed (TUint b) (VUint n _) \<longleftrightarrow> n < 2 ^ b"
| "sol_typed TBool (VBool _) \<longleftrightarrow> True"
| "sol_typed TString (VString _) \<longleftrightarrow> True"
| "sol_typed TBytes (VBytes _) \<longleftrightarrow> True"
| "sol_typed (TArray t) (VArray vs) \<longleftrightarrow> (\<forall>v\<in>set vs. sol_typed t v)"
| "sol_typed (TTuple ts) (VTuple vs) \<longleftrightarrow> list_all2 sol_typed ts vs"
| "sol_typed _ _ \<longleftrightarrow> False"

definition decoder_typed :: "abi_lib \<Rightarrow> bool" where
  "decoder_typed A \<longleftrightarrow> (\<forall>ty d v. abi_decode A ty d = Inr v \<longrightarrow> sol_typed ty v)"

lemma sol_typed_elims:
  "sol_typed (TUint b) v \<Longrightarrow> \<exists>n m. v = VUint n m \<and> n < 2 ^ b"
  "sol_typed TBool v \<Longrightarrow> \<exists>x. v = VBool x"
  "sol_typed TString v \<Longrightarrow> \<exists>x. v = VString x"
  "sol_typed TBytes v \<Longrightarrow> \<exists>x. v = VBytes x"
  "sol_typed (TArray t) v \<Longrightarrow> \<exists>vs. v = VArray vs \<and> (\<forall>x\<in>set vs. sol_typed t x)"
  "sol_typed (TTuple ts) v \<Longrightarrow> \<exists>vs. v = VTuple vs \<and> list_all2 sol_typed ts vs"
  by (cases v; simp)+

lemma decoded_tuple_typed:
  "decoder_typed A \<Longrightarrow> decoded_tuple A ts p = Some vs \<Longrightarrow> list_all2 sol_typed ts vs"
  by (auto simp: decoded_tuple_def decoder_typed_def as_tuple_def split: sum.splits sol_value.splits)
    (metis sol_typed.simps(6))

lemma decode_tuple_typed:
  "decoder_typed A \<Longrightarrow> decode_tuple A e1 e2 ts p = Inr vs \<Longrightarrow> list_all2 sol_typed ts vs"
  using decoded_tuple_typed [of A ts p vs]
  by (auto simp: decode_tuple_def decoded_tuple_def ok_or_def split: sum.splits option.splits)

text \<open>Code that only indexes a tuple of the right shape does not panic.\<close>

definition no_panic :: "'a may_fail \<Rightarrow> bool" where
  "no_panic x \<longleftrightarrow> x \<noteq> None"

lemma no_panic_attempt: "no_panic x \<Longrightarrow> (\<And>a. x = Some (Inr a) \<Longrightarrow> no_panic (f a)) \<Longrightarrow> no_panic (attempt x f)"
  by (auto simp: no_panic_def attempt_def split: sum.splits)

lemma no_panic_index: "i < length vs \<Longrightarrow> no_panic (f (vs ! i)) \<Longrightarrow> no_panic (index_or_panic vs i f)"
  by (simp add: no_panic_def index_or_panic_def)

lemma no_panic_Some [simp]: "no_panic (Some r)"
  by (simp add: no_panic_def)

lemma launch_of_tuple_no_panic: "2 \<le> length vs \<Longrightarrow> no_panic (launch_of_tuple vs)"
  unfolding launch_of_tuple_def by (intro no_panic_index no_panic_attempt) auto

lemma spam_of_tuple_no_panic: "7 \<le> length vs \<Longrightarrow> no_panic (spam_of_tuple vs)"
  unfolding spam_of_tuple_def by (intro no_panic_index no_panic_attempt) auto

lemma decode_action_no_panic:
  assumes "decoder_typed A"
  shows "no_panic (decode_action A kind payload)"
proof -
  note len = list_all2_lengthD [OF decoded_tuple_typed [OF assms]] list_all2_lengthD [OF decode_tuple_typed [OF assms]]
  have label: "no_panic (decode_label A payload)" and bool: "no_panic (decode_bool A payload)"
    unfolding decode_label_def decode_bool_def by (auto intro!: no_panic_attempt no_panic_index dest!: len(2))
  have spam: "no_panic (decode_spam A payload)"
    unfolding decode_spam_def by (auto intro!: no_panic_attempt spam_of_tuple_no_panic dest!: len(2))
  have launch: "no_panic (decode_launch A payload)"
    unfolding decode_launch_def
    by (auto intro!: no_panic_attempt launch_of_tuple_no_panic dest: len split: option.splits)
  show ?thesis
    unfolding decode_action_def Let_def using label bool spam launch by (simp add: no_panic_attempt)
qed

lemma decode_command_typed:
  assumes "decoder_typed A" and "sol_typed (TTuple command_types) v"
  shows "\<exists>c. decode_command A idx v = Some (Inr c) \<and>
    sc_offset c < 2 ^ 64 \<and> sc_repeats c < 2 ^ 32 \<and> sc_interval c \<noteq> Some 0"
proof -
  obtain a b r k d where v: "v = VTuple [a, b, r, k, d]" and typed: "sol_typed (TUint 64) a" "sol_typed (TUint 64) b"
      "sol_typed (TUint 32) r" "sol_typed (TUint 8) k" "sol_typed TBytes d"
    using sol_typed_elims(6) [OF assms(2)] by (auto simp: list_all2_Cons1)
  then obtain na ma nb mb nr mr nk mk p where vals: "a = VUint na ma" "b = VUint nb mb" "r = VUint nr mr"
      "k = VUint nk mk" "d = VBytes p" "na < 2 ^ 64" "nb < 2 ^ 64" "nr < 2 ^ 32" "nk < 2 ^ 8"
    by (metis sol_typed_elims(1,4))
  obtain res where "decode_action A nk p = Some res"
    using decode_action_no_panic [OF assms(1)] unfolding no_panic_def by blast
  with v vals show ?thesis
    by (simp add: decode_command_def attempt_def index_or_panic_def ok_or_def as_tuple_def as_uint_def as_bytes_def)
qed

lemma decode_list_typed:
  assumes "decoder_typed A" and "\<forall>v\<in>set vs. sol_typed (TTuple command_types) v"
  shows "\<exists>cs. decode_list A idx vs = Some (Inr cs) \<and> length cs = length vs \<and>
    (\<forall>c\<in>set cs. sc_offset c < 2 ^ 64 \<and> sc_repeats c < 2 ^ 32 \<and> sc_interval c \<noteq> Some 0)"
  using assms(2)
proof (induction vs arbitrary: idx)
  case (Cons v vs)
  obtain c where "decode_command A idx v = Some (Inr c)" "sc_offset c < 2 ^ 64" "sc_repeats c < 2 ^ 32" "sc_interval c \<noteq> Some 0"
    using decode_command_typed [OF assms(1)] Cons.prems by (metis list.set_intros(1))
  moreover obtain cs where "decode_list A (Suc idx) vs = Some (Inr cs)" "length cs = length vs"
      "\<forall>c\<in>set cs. sc_offset c < 2 ^ 64 \<and> sc_repeats c < 2 ^ 32 \<and> sc_interval c \<noteq> Some 0"
    using Cons by (metis list.set_intros(2))
  ultimately show ?case by (simp add: attempt_def)
qed simp

text \<open>
  With an ABI decoder that yields values of the type it is asked for, decoding a script's
  commands never panics; it fails only if the decoder does, and otherwise gives one command for
  each element, with offsets and repeats in range and no interval of zero seconds.
\<close>
lemma decoded_commands_typed:
  assumes "decoder_typed A"
  shows "(case abi_decode A (TArray (TTuple command_types)) data of
      Inl err \<Rightarrow> \<exists>msg. decode_commands A data = Some (Inl msg)
    | Inr v \<Rightarrow> \<exists>vs cs. v = VArray vs \<and> decode_commands A data = Some (Inr cs) \<and> length cs = length vs \<and>
        (\<forall>c\<in>set cs. sc_offset c < 2 ^ 64 \<and> sc_repeats c < 2 ^ 32 \<and> sc_interval c \<noteq> Some 0))"
proof (cases "abi_decode A (TArray (TTuple command_types)) data")
  case (Inr v)
  then have "sol_typed (TArray (TTuple command_types)) v" using assms by (simp add: decoder_typed_def)
  then obtain vs where vs: "v = VArray vs" "\<forall>x\<in>set vs. sol_typed (TTuple command_types) x" using sol_typed_elims(5) by blast
  from decode_list_typed [OF assms vs(2), of 0] Inr vs(1) show ?thesis
    by (auto simp: decode_commands_def attempt_def ok_or_def as_array_def)
qed (simp add: decode_commands_def)

text \<open>A decoder that knows one script, with two commands: a launch and a payload it cannot read.\<close>

definition sample_values :: "sol_value list" where
  "sample_values = [VTuple [VUint 5 64, VUint 0 64, VUint 0 32, VUint 0 8, VBytes [1]],
     VTuple [VUint 9 64, VUint 2 64, VUint 3 32, VUint 1 8, VBytes [2]]]"

definition sample_abi :: abi_lib where
  "sample_abi = \<lparr>abi_decode = (\<lambda>ty d.
       if ty = TArray (TTuple command_types) then Inr (VArray sample_values)
       else if ty = TTuple [TUint 32, TUint 16] then Inr (VTuple [VUint 4 32, VUint 8545 16])
       else Inl ''invalid''),
     abi_hex = (\<lambda>_. ''02''), abi_utf8 = (\<lambda>_. None)\<rparr>"

lemma decoded_commands_typed_witness:
  "decoder_typed sample_abi \<and> (\<exists>cs. decode_commands sample_abi [] = Some (Inr cs) \<and> length cs = 2)"
proof -
  have typed: "decoder_typed sample_abi"
    by (auto simp: decoder_typed_def sample_abi_def sample_values_def split: if_splits)
  with decoded_commands_typed [OF this, of "[]"] show ?thesis
    by (auto simp: sample_abi_def sample_values_def)
qed

end
