(* ===== verification/Peers.thy ===== *)
theory Peers
  imports Node_State Rbft_Protocol Rust_Text "HOL-Library.AList"
begin

text \<open>
  The peers of a node (\<open>rbft_consensus.rs\<close>): the table of sub-protocol connections and the handler
  of connection events, sending and relaying, reconnection tasks, dialling of validators, the
  connection audit, express delivery of transactions, resending, and the key a node starts with.

  A sender is the handle of a bounded channel; the channels are an explicit store, because a sender
  in the table and the session that drains it share one.  Hash maps are association lists.  Times
  are in nanoseconds.
\<close>

section \<open>Connections\<close>

type_synonym peer_id = "512 word"

datatype ip_addr = V4 "32 word" | V6 "128 word"

record socket_addr =
  sa_ip :: ip_addr
  sa_port :: "16 word"

type_synonym sender = nat

text \<open>A channel to a connection: whether its session still reads, and the commands queued.\<close>

record channel =
  ch_open :: bool
  ch_queue :: "message list"

definition CONN_COMMAND_CHANNEL_CAPACITY :: nat where
  "CONN_COMMAND_CHANNEL_CAPACITY = 10000"

definition has_room :: "channel \<Rightarrow> bool" where
  "has_room ch \<longleftrightarrow> ch_open ch \<and> length (ch_queue ch) < CONN_COMMAND_CHANNEL_CAPACITY"

text \<open>\<open>Sender::try_send\<close>: fails when the channel is closed or full.\<close>

definition try_send :: "message \<Rightarrow> sender \<Rightarrow> (sender \<Rightarrow> channel) \<Rightarrow> (sender \<Rightarrow> channel) \<times> bool" where
  "try_send m s chs =
     (if has_room (chs s) then (chs(s := (chs s)\<lparr>ch_queue := ch_queue (chs s) @ [m]\<rparr>), True)
      else (chs, False))"

type_synonym peer_connections = "(peer_id \<times> socket_addr \<times> sender) list"

text \<open>A command to every connection in turn; the peers it could not be queued for.\<close>

fun send_each :: "message \<Rightarrow> peer_connections \<Rightarrow> (sender \<Rightarrow> channel) \<Rightarrow> (sender \<Rightarrow> channel) \<times> peer_id list" where
  "send_each m [] chs = (chs, [])"
| "send_each m ((peer, addr, s) # cs) chs =
     (let (chs, sent) = try_send m s chs;
          (chs, failed) = send_each m cs chs
      in (chs, if sent then failed else peer # failed))"

section \<open>Reconnection tasks\<close>

record reconnect_config =
  rc_max_attempts :: "32 word"
  rc_base_delay_ms :: u64
  rc_max_delay_ms :: u64

text \<open>
  Where a task is between two awaits: at its start, at the head of the loop, before dialling, and
  before it looks whether dialling helped; with the attempts made and the current delay.
\<close>

datatype task_phase =
    Begin
  | LoopHead "32 word" u64
  | Dial "32 word" u64
  | Verify "32 word" u64

record reconnect_task =
  rt_peer :: peer_id
  rt_addr :: socket_addr
  rt_phase :: task_phase

definition reconnect_task_new :: "peer_id \<Rightarrow> socket_addr \<Rightarrow> reconnect_task" where
  "reconnect_task_new peer addr = \<lparr>rt_peer = peer, rt_addr = addr, rt_phase = Begin\<rparr>"

datatype task_effect = Sleep u64 | Connect peer_id socket_addr

text \<open>
  \<open>attempt_peer_reconnection\<close>, from one await to the next; \<open>None\<close> when the task returns.  The look
  into the peer table of the network is only logged.
\<close>

definition task_step ::
  "reconnect_config \<Rightarrow> peer_id \<Rightarrow> peer_connections \<Rightarrow> reconnect_task \<Rightarrow> reconnect_task option \<times> task_effect list" where
  "task_step cfg local conns t =
     (let peer = rt_peer t; connected = peer \<in> fst ` set conns; goto = (\<lambda>ph. Some (t\<lparr>rt_phase := ph\<rparr>)) in
      case rt_phase t of
        Begin \<Rightarrow> (if peer = local then None else goto (LoopHead 0 (rc_base_delay_ms cfg)), [])
      | LoopHead attempt delay \<Rightarrow>
          if attempt < rc_max_attempts cfg then
            (if connected then (None, []) else (goto (Dial (attempt + 1) delay), [Sleep delay]))
          else (None, [])
      | Dial attempt delay \<Rightarrow> (goto (Verify attempt delay), [Connect peer (rt_addr t), Sleep 500])
      | Verify attempt delay \<Rightarrow>
          (if connected then None else goto (LoopHead attempt (min (delay * 2) (rc_max_delay_ms cfg))), []))"

section \<open>Connection events\<close>

text \<open>
  What the protocol handler and the tasks share.  \<open>pc_cleanups\<close> are the peers whose task has ended
  while the lock of the set of active reconnections was taken; a further task removes them.
\<close>

record peers =
  pc_connections :: peer_connections
  pc_channels :: "sender \<Rightarrow> channel"
  pc_active :: "peer_id list"
  pc_tasks :: "reconnect_task list"
  pc_cleanups :: "peer_id list"

datatype direction = DirIncoming | DirOutgoing peer_id

datatype protocol_event =
    Established direction peer_id socket_addr sender
  | Disconnected peer_id socket_addr disconnect_reason

definition spawn_reconnection :: "reconnect_config \<Rightarrow> peer_id \<Rightarrow> socket_addr \<Rightarrow> peers \<Rightarrow> peers" where
  "spawn_reconnection cfg peer addr p =
     (if rc_max_attempts cfg = 0 \<or> peer \<in> set (pc_active p) then p
      else p\<lparr>pc_active := peer # pc_active p,
             pc_tasks := pc_tasks p @ [reconnect_task_new peer addr]\<rparr>)"

fun handle_protocol_event :: "reconnect_config \<Rightarrow> protocol_event \<Rightarrow> peers \<Rightarrow> peers" where
  "handle_protocol_event cfg (Established dir peer addr s) p =
     p\<lparr>pc_connections := AList.update peer (addr, s) (pc_connections p)\<rparr>"
| "handle_protocol_event cfg (Disconnected peer addr reason) p =
     (case map_of (pc_connections p) peer of
        None \<Rightarrow> p
      | Some (stored_addr, _) \<Rightarrow>
          if stored_addr = addr
          then spawn_reconnection cfg peer addr (p\<lparr>pc_connections := AList.delete peer (pc_connections p)\<rparr>)
          else p)"

text \<open>Relaying a message to all peers but the one it came from.\<close>

definition relay_message :: "bool \<Rightarrow> message \<Rightarrow> peer_id \<Rightarrow> peers \<Rightarrow> peers" where
  "relay_message relay_enabled m from_peer p =
     (if relay_enabled
      then p\<lparr>pc_channels := fst (send_each m (filter (\<lambda>c. fst c \<noteq> from_peer) (pc_connections p)) (pc_channels p))\<rparr>
      else p)"

section \<open>Sending\<close>

text \<open>Block requests and responses go to every connection; failures are only logged.\<close>

definition send_to_all :: "qbft_message \<Rightarrow> peers \<Rightarrow> peers" where
  "send_to_all m p = p\<lparr>pc_channels := fst (send_each (new_message m) (pc_connections p) (pc_channels p))\<rparr>"

text \<open>The messages of the state machine: peers that fail are collected and removed from the table.\<close>

fun send_messages ::
  "qbft_message list \<Rightarrow> peer_connections \<Rightarrow> (sender \<Rightarrow> channel) \<Rightarrow> peer_id list \<Rightarrow> (sender \<Rightarrow> channel) \<times> peer_id list" where
  "send_messages [] conns chs dead = (chs, dead)"
| "send_messages (m # ms) conns chs dead =
     (let (chs, failed) = send_each (new_message m) conns chs
      in send_messages ms conns chs (dead @ filter (\<lambda>q. q \<notin> set dead) failed))"

definition send_outgoing :: "qbft_message list \<Rightarrow> peers \<Rightarrow> peers" where
  "send_outgoing ms p =
     (if ms = [] then p
      else let (chs, dead) = send_messages ms (pc_connections p) (pc_channels p) [] in
        p\<lparr>pc_channels := chs, pc_connections := foldl (\<lambda>cs q. AList.delete q cs) (pc_connections p) dead\<rparr>)"

section \<open>Dialling\<close>

text \<open>A record of the validators' enodes (\<open>NodeRecord\<close>).\<close>

record node_record =
  nr_id :: peer_id
  nr_address :: ip_addr
  nr_tcp_port :: "16 word"
  nr_udp_port :: "16 word"

text \<open>
  \<open>check_peer_connections\<close>: the validators after the own one, or all, that are not connected at the
  network layer; \<open>all_peers\<close> is \<open>None\<close> when they cannot be listed.
\<close>

definition start_node :: "peer_id \<Rightarrow> node_record list \<Rightarrow> nat" where
  "start_node local enodes = (case position (\<lambda>n. nr_id n = local) enodes of Some x \<Rightarrow> x + 1 | None \<Rightarrow> 0)"

definition check_peer_connections ::
  "peer_id \<Rightarrow> (peer_id \<times> socket_addr) list option \<Rightarrow> node_record list \<Rightarrow> (peer_id \<times> socket_addr) list" where
  "check_peer_connections local all_peers enodes =
     (let connected = (case all_peers of Some ps \<Rightarrow> fst ` set ps | None \<Rightarrow> {}) in
      map (\<lambda>n. (nr_id n, \<lparr>sa_ip = nr_address n, sa_port = nr_tcp_port n\<rparr>))
        (filter (\<lambda>n. nr_id n \<notin> connected) (drop (start_node local enodes) enodes)))"

text \<open>The periodic audit: peers of the network layer without a sub-protocol connection are redialled.\<close>

definition connection_audit_interval :: nat where
  "connection_audit_interval = 3000"

definition audit_missing ::
  "peer_id \<Rightarrow> (peer_id \<times> socket_addr) list option \<Rightarrow> peer_connections \<Rightarrow> (peer_id \<times> socket_addr) list" where
  "audit_missing local all_peers conns =
     (case all_peers of
        None \<Rightarrow> []
      | Some ps \<Rightarrow> filter (\<lambda>(peer, _). peer \<noteq> local \<and> peer \<notin> fst ` set conns) ps)"

definition connection_audit ::
  "u64 \<Rightarrow> peer_id \<Rightarrow> (peer_id \<times> socket_addr) list option \<Rightarrow> peer_connections \<Rightarrow> (peer_id \<times> socket_addr) list" where
  "connection_audit tick_count local all_peers conns =
     (if unat tick_count mod connection_audit_interval = 0 then audit_missing local all_peers conns else [])"

section \<open>Express delivery\<close>

text \<open>
  The transaction types of the pool are library code: decoding, recovering the signer and
  converting to a pool transaction are parameters.
\<close>

record ('c, 'r, 't) tx_lib =
  tl_decode :: "bytes \<Rightarrow> 'c option"
  tl_recover :: "'c \<Rightarrow> 'r option"
  tl_pool :: "'r \<Rightarrow> 't option"

definition pool_tx_of :: "('c, 'r, 't) tx_lib \<Rightarrow> bytes \<Rightarrow> 't option" where
  "pool_tx_of T raw = do { tx \<leftarrow> tl_decode T raw; recovered \<leftarrow> tl_recover T tx; tl_pool T recovered }"

text \<open>The batches waiting in the channel, each as it is added to the pool.\<close>

definition express_receive :: "('c, 'r, 't) tx_lib \<Rightarrow> bytes list list \<Rightarrow> 't list list" where
  "express_receive T batches = filter (\<lambda>b. b \<noteq> []) (map (filter_map (pool_tx_of T)) batches)"

record pending_tx =
  pt_timestamp :: nat
  pt_encoded :: bytes

definition proposer_peer :: "node_state \<Rightarrow> address list \<Rightarrow> node_record list \<Rightarrow> peer_id option" where
  "proposer_peer st selected enodes =
     map_option (\<lambda>(_, n). nr_id n)
       (find (\<lambda>(addr, _). addr = next_proposer_for_current_round st) (zip selected enodes))"

definition newer_than :: "nat \<Rightarrow> pending_tx list \<Rightarrow> pending_tx list" where
  "newer_than cutoff txs = filter (\<lambda>tx. cutoff < pt_timestamp tx) txs"

text \<open>Sending: the cutoff moves to the latest transaction once a batch is queued.\<close>

definition express_send ::
  "node_state \<Rightarrow> address list \<Rightarrow> node_record list \<Rightarrow> peer_id \<Rightarrow> pending_tx list \<Rightarrow> nat \<Rightarrow> peers \<Rightarrow> nat \<times> peers" where
  "express_send st selected enodes local local_pending cutoff p =
     (case proposer_peer st selected enodes of
        None \<Rightarrow> (cutoff, p)
      | Some peer \<Rightarrow>
          let fresh = newer_than cutoff local_pending in
          if peer = local \<or> fresh = [] then (cutoff, p)
          else case map_of (pc_connections p) peer of
              None \<Rightarrow> (cutoff, p)
            | Some (_, s) \<Rightarrow>
                let (chs, sent) = try_send (new_transactions (map pt_encoded fresh)) s (pc_channels p) in
                (if sent then Max (pt_timestamp ` set fresh) else cutoff, p\<lparr>pc_channels := chs\<rparr>))"

section \<open>Resending\<close>

text \<open>The messages cached for the current and the previous height, decoded and sent to all.\<close>

definition target_heights :: "u64 \<Rightarrow> u64 list" where
  "target_heights h = [h, if h = 0 then 0 else h - 1]"

definition resend_cached_messages ::
  "wire_codec \<Rightarrow> tx_codec \<Rightarrow> (u64 \<times> bytes) list \<Rightarrow> node_state \<Rightarrow> peers \<Rightarrow> peers" where
  "resend_cached_messages W T cached st p =
     (let raw = map snd (filter (\<lambda>(h, _). h \<in> set (target_heights (ns_height st))) cached);
          ms = filter_map (\<lambda>b. map_option fst (decode_message W T b)) raw
      in p\<lparr>pc_channels := foldl (\<lambda>chs m. fst (send_each m (pc_connections p) chs)) (pc_channels p) ms\<rparr>)"

definition should_resend :: "nat option \<Rightarrow> nat option \<Rightarrow> nat \<Rightarrow> bool" where
  "should_resend resend_timeout last_commit_time now =
     (case (resend_timeout, last_commit_time) of
        (Some timeout, Some last_commit) \<Rightarrow> timeout \<le> now - last_commit
      | _ \<Rightarrow> False)"

text \<open>The timer after the check: a resend starts it again.\<close>

definition check_resend ::
  "wire_codec \<Rightarrow> tx_codec \<Rightarrow> (u64 \<times> bytes) list \<Rightarrow> nat option \<Rightarrow> nat \<Rightarrow> node_state \<Rightarrow> nat option \<times> peers \<Rightarrow> nat option \<times> peers" where
  "check_resend W T cached resend_timeout now st s =
     (case s of (last_commit_time, p) \<Rightarrow>
        if should_resend resend_timeout last_commit_time now
        then (Some now, resend_cached_messages W T cached st p) else s)"

section \<open>Debug buffer\<close>

text \<open>Entries older than a minute are dropped from the front; a dump empties the buffer.\<close>

definition DEBUG_BUFFER_TTL :: int where
  "DEBUG_BUFFER_TTL = 60 * 1000000000"

definition prune_debug_buffer :: "int \<Rightarrow> (int \<times> string) list \<Rightarrow> (int \<times> string) list" where
  "prune_debug_buffer now buffer = dropWhile (\<lambda>(ts, _). ts < now - DEBUG_BUFFER_TTL) buffer"

definition flush_debug_buffer :: "(int \<times> string) list \<Rightarrow> string list \<times> (int \<times> string) list" where
  "flush_debug_buffer buffer =
     (if buffer = [] then ([], [])
      else
        let n = show_dec (length buffer) in
        ((''=== DEBUG DUMP ('' @ n @ '' entries from last ~60s) ==='') #
         map (\<lambda>(i, (_, msg)). ''[DUMP '' @ show_dec (i + 1) @ ''/'' @ n @ ''] '' @ msg) (enumerate 0 buffer) @
         [''=== END DEBUG DUMP ===''], []))"

section \<open>The validator key\<close>

text \<open>
  Reading the key file, decoding hexadecimal and deriving the address are library calls.  Without a
  key file the node is a follower.
\<close>

datatype key_error = ReadFailed string | BadHex | BadLength | BadKey

record key_lib =
  kl_read :: "string \<Rightarrow> string + string"
  kl_hex :: "string \<Rightarrow> bytes option"
  kl_address :: "private_key \<Rightarrow> address option"

definition b256_from :: "bytes \<Rightarrow> private_key" where
  "b256_from bs = foldl (\<lambda>acc b. acc * 256 + ucast b) 0 bs"

definition get_private_key_and_id :: "key_lib \<Rightarrow> string option \<Rightarrow> key_error + (private_key option \<times> address)" where
  "get_private_key_and_id K validator_key =
     (case validator_key of
        None \<Rightarrow> Inr (None, 0)
      | Some key \<Rightarrow>
          (case kl_read K key of
             Inl e \<Rightarrow> Inl (ReadFailed e)
           | Inr key_data \<Rightarrow>
               let key_data = trim key_data;
                   key_hex = (case strip_prefix ''0x'' key_data of Some stripped \<Rightarrow> stripped | None \<Rightarrow> key_data) in
               (case kl_hex K key_hex of
                  None \<Rightarrow> Inl BadHex
                | Some bs \<Rightarrow>
                    if length bs \<noteq> 32 then Inl BadLength
                    else case kl_address K (b256_from bs) of
                        None \<Rightarrow> Inl BadKey
                      | Some addr \<Rightarrow> Inr (Some (b256_from bs), addr))))"

section \<open>Steps\<close>

text \<open>
  One step of what runs around the table: an event, one leg of a task, the end of a task with the
  lock free or taken, a delayed clean-up, sending and relaying; and anything the sessions do to
  their ends of the channels.
\<close>

definition drop_nth :: "nat \<Rightarrow> 'a list \<Rightarrow> 'a list" where
  "drop_nth i xs = take i xs @ drop (Suc i) xs"

inductive peer_step :: "reconnect_config \<Rightarrow> peer_id \<Rightarrow> peers \<Rightarrow> peers \<Rightarrow> bool" for cfg local where
  event: "peer_step cfg local p (handle_protocol_event cfg ev p)"
| task: "i < length (pc_tasks p) \<Longrightarrow> task_step cfg local (pc_connections p) (pc_tasks p ! i) = (Some t, eff) \<Longrightarrow>
    peer_step cfg local p (p\<lparr>pc_tasks := (pc_tasks p)[i := t]\<rparr>)"
| finish: "i < length (pc_tasks p) \<Longrightarrow> task_step cfg local (pc_connections p) (pc_tasks p ! i) = (None, eff) \<Longrightarrow>
    peer_step cfg local p (p\<lparr>pc_tasks := drop_nth i (pc_tasks p),
      pc_active := removeAll (rt_peer (pc_tasks p ! i)) (pc_active p)\<rparr>)"
| finish_locked: "i < length (pc_tasks p) \<Longrightarrow> task_step cfg local (pc_connections p) (pc_tasks p ! i) = (None, eff) \<Longrightarrow>
    peer_step cfg local p (p\<lparr>pc_tasks := drop_nth i (pc_tasks p),
      pc_cleanups := pc_cleanups p @ [rt_peer (pc_tasks p ! i)]\<rparr>)"
| cleanup: "i < length (pc_cleanups p) \<Longrightarrow>
    peer_step cfg local p (p\<lparr>pc_cleanups := drop_nth i (pc_cleanups p),
      pc_active := removeAll (pc_cleanups p ! i) (pc_active p)\<rparr>)"
| outgoing: "peer_step cfg local p (send_outgoing ms p)"
| all: "peer_step cfg local p (send_to_all m p)"
| relay: "peer_step cfg local p (relay_message relay_enabled rm from_peer p)"
| sessions: "peer_step cfg local p (p\<lparr>pc_channels := chs\<rparr>)"

definition peers_new :: "(sender \<Rightarrow> channel) \<Rightarrow> peers" where
  "peers_new chs = \<lparr>pc_connections = [], pc_channels = chs, pc_active = [], pc_tasks = [], pc_cleanups = []\<rparr>"

end
