(* ===== verification/Peers_Properties.thy ===== *)
theory Peers_Properties
  imports Peers Node_Example
begin

text \<open>What holds of connections, reconnection tasks, dialling and express delivery.\<close>

section \<open>Reconnection tasks\<close>

lemma nth_split_take_drop:
  assumes "i < length xs"
  shows "xs = take i xs @ xs ! i # drop (Suc i) xs"
  using assms id_take_nth_drop by blast

lemma drop_nth_distinct:
  assumes "distinct xs" and "i < length xs"
  shows "distinct (drop_nth i xs)" "set (drop_nth i xs) = set xs - {xs ! i}"
proof -
  from assms(1) nth_split_take_drop [OF assms(2)]
  have "distinct (take i xs @ xs ! i # drop (Suc i) xs)" by metis
  then show "distinct (drop_nth i xs)" by (auto simp: drop_nth_def)
  have "set xs = set (take i xs @ xs ! i # drop (Suc i) xs)" using nth_split_take_drop [OF assms(2)] by metis
  with \<open>distinct (take i xs @ xs ! i # drop (Suc i) xs)\<close> show "set (drop_nth i xs) = set xs - {xs ! i}"
    by (auto simp: drop_nth_def)
qed

lemma map_drop_nth: "map g (drop_nth i xs) = drop_nth i (map g xs)"
  by (simp add: drop_nth_def take_map drop_map)

definition busy_peers :: "peers \<Rightarrow> peer_id list" where
  "busy_peers p = map rt_peer (pc_tasks p) @ pc_cleanups p"

definition peers_ok :: "peers \<Rightarrow> bool" where
  "peers_ok p \<longleftrightarrow> distinct (map fst (pc_connections p)) \<and> distinct (busy_peers p) \<and> set (pc_active p) = set (busy_peers p)"

lemma task_step_peer: "task_step cfg local conns t = (Some t', eff) \<Longrightarrow> rt_peer t' = rt_peer t \<and> rt_addr t' = rt_addr t"
  by (auto simp: task_step_def Let_def split: task_phase.splits if_splits)

lemma deletes_distinct:
  "distinct (map fst cs) \<Longrightarrow> distinct (map fst (foldl (\<lambda>cs q. AList.delete q cs) cs dead))"
  by (induction dead arbitrary: cs) (auto simp: distinct_delete)

lemma event_keeps: "peers_ok p \<Longrightarrow> peers_ok (handle_protocol_event cfg ev p)"
  by (cases ev)
    (auto simp: peers_ok_def busy_peers_def spawn_reconnection_def reconnect_task_new_def distinct_update distinct_delete split: option.splits)

lemma outgoing_keeps: "peers_ok p \<Longrightarrow> peers_ok (send_outgoing ms p)"
  by (auto simp: peers_ok_def busy_peers_def send_outgoing_def Let_def deletes_distinct split: prod.splits)

lemma channels_keep [simp]: "peers_ok (p\<lparr>pc_channels := chs\<rparr>) = peers_ok p"
  by (simp add: peers_ok_def busy_peers_def)

lemma sends_keep: "peers_ok p \<Longrightarrow> peers_ok (send_to_all m p)" "peers_ok p \<Longrightarrow> peers_ok (relay_message en rm q p)"
  by (simp_all add: send_to_all_def relay_message_def)

lemma finished_keeps:
  assumes "peers_ok p" and "i < length (pc_tasks p)"
  shows "peers_ok (p\<lparr>pc_tasks := drop_nth i (pc_tasks p), pc_active := removeAll (rt_peer (pc_tasks p ! i)) (pc_active p)\<rparr>)"
    and "peers_ok (p\<lparr>pc_tasks := drop_nth i (pc_tasks p), pc_cleanups := pc_cleanups p @ [rt_peer (pc_tasks p ! i)]\<rparr>)"
proof -
  let ?ts = "map rt_peer (pc_tasks p)"
  have "distinct ?ts" "i < length ?ts" using assms by (auto simp: peers_ok_def busy_peers_def)
  note dropped = drop_nth_distinct [OF this]
  have nth: "?ts ! i = rt_peer (pc_tasks p ! i)" "?ts ! i \<in> set ?ts" using assms(2) by auto
  then have "rt_peer (pc_tasks p ! i) \<notin> set (pc_cleanups p)"
    using assms(1) unfolding peers_ok_def busy_peers_def distinct_append by (metis disjoint_iff)
  show "peers_ok (p\<lparr>pc_tasks := drop_nth i (pc_tasks p), pc_active := removeAll (rt_peer (pc_tasks p ! i)) (pc_active p)\<rparr>)"
    "peers_ok (p\<lparr>pc_tasks := drop_nth i (pc_tasks p), pc_cleanups := pc_cleanups p @ [rt_peer (pc_tasks p ! i)]\<rparr>)"
    using assms dropped nth \<open>rt_peer (pc_tasks p ! i) \<notin> set (pc_cleanups p)\<close> unfolding peers_ok_def busy_peers_def by (auto simp: map_drop_nth)
qed

lemma cleared_keeps:
  assumes "peers_ok p" and "i < length (pc_cleanups p)"
  shows "peers_ok (p\<lparr>pc_cleanups := drop_nth i (pc_cleanups p), pc_active := removeAll (pc_cleanups p ! i) (pc_active p)\<rparr>)"
proof -
  have "distinct (pc_cleanups p)" using assms(1) by (auto simp: peers_ok_def busy_peers_def)
  note dropped = drop_nth_distinct [OF this assms(2)]
  have "pc_cleanups p ! i \<in> set (pc_cleanups p)" using assms(2) by simp
  then have "pc_cleanups p ! i \<notin> set (map rt_peer (pc_tasks p))"
    using assms(1) unfolding peers_ok_def busy_peers_def distinct_append by (metis disjoint_iff)
  with assms dropped show ?thesis unfolding peers_ok_def busy_peers_def by auto
qed

interpretation peer_table: step_invariant "peer_step cfg local" peers_ok for cfg local
proof
  fix p p' assume "peer_step cfg local p p'" "peers_ok p"
  then show "peers_ok p'"
  proof cases
    case (task i t eff)
    have "map rt_peer ((pc_tasks p)[i := t]) = map rt_peer (pc_tasks p)"
      using task(2) task_step_peer [OF task(3)] by (simp add: map_update list_update_same_conv)
    with task \<open>peers_ok p\<close> show ?thesis by (simp add: peers_ok_def busy_peers_def)
  qed (simp_all add: event_keeps outgoing_keeps finished_keeps cleared_keeps sends_keep)
qed

text \<open>
  C28: whatever events, sends and task steps interleave, there is at most one reconnection task per
  peer, the table has one connection per peer, and a peer is marked as being reconnected exactly
  while its task, or the clean-up it left behind, is still to finish.
\<close>
theorem one_reconnection_per_peer:
  assumes "(peer_step cfg local)\<^sup>*\<^sup>* (peers_new chs) p"
  shows "distinct (map rt_peer (pc_tasks p)) \<and> distinct (map fst (pc_connections p)) \<and>
    set (pc_active p) = rt_peer ` set (pc_tasks p) \<union> set (pc_cleanups p)"
proof -
  have "peers_ok p" by (rule peer_table.steps_keep [OF assms]) (simp add: peers_ok_def busy_peers_def peers_new_def)
  then show ?thesis by (auto simp: peers_ok_def busy_peers_def)
qed


definition sample_reconnect :: reconnect_config where
  "sample_reconnect = \<lparr>rc_max_attempts = 3, rc_base_delay_ms = 100, rc_max_delay_ms = 300\<rparr>"

definition sample_addr :: "16 word \<Rightarrow> socket_addr" where
  "sample_addr port = \<lparr>sa_ip = V4 0x7F000001, sa_port = port\<rparr>"

definition sample_channels :: "sender \<Rightarrow> channel" where
  "sample_channels s = \<lparr>ch_open = (s = 10), ch_queue = []\<rparr>"

lemma sample_event: "(peer_step sample_reconnect 9)\<^sup>*\<^sup>* (peers_new sample_channels)
    (handle_protocol_event sample_reconnect (Established DirIncoming 1 (sample_addr 30303) 10) (peers_new sample_channels))"
  by (rule r_into_rtranclp [where r = "peer_step sample_reconnect 9"]) (rule peer_step.event)

theorem one_reconnection_per_peer_witness:
  "distinct (map fst (pc_connections (handle_protocol_event sample_reconnect
     (Established DirIncoming 1 (sample_addr 30303) 10) (peers_new sample_channels))))"
  using one_reconnection_per_peer [OF sample_event] by blast

text \<open>How many legs a task has left, and the dials among them.\<close>

definition legs_left :: "reconnect_config \<Rightarrow> reconnect_task \<Rightarrow> nat" where
  "legs_left cfg t =
     (let m = unat (rc_max_attempts cfg) in
      case rt_phase t of
        Begin \<Rightarrow> 3 * m + 2
      | LoopHead a _ \<Rightarrow> 3 * (m - unat a) + 1
      | Dial a _ \<Rightarrow> 3 * (m - unat a) + 3
      | Verify a _ \<Rightarrow> 3 * (m - unat a) + 2)"

lemma attempt_succ:
  assumes "(a::32 word) < m"
  shows "unat (a + 1) = Suc (unat a)"
proof -
  have "a \<noteq> - 1" using assms by (metis leD word_order.extremum)
  then have "a + 1 \<noteq> 0" by (metis eq_neg_iff_add_eq_0)
  then show ?thesis using unat_succ_no_wrap by simp
qed

lemma task_step_legs: "task_step cfg local conns t = (Some t', eff) \<Longrightarrow> legs_left cfg t' < legs_left cfg t"
  by (auto simp: task_step_def legs_left_def Let_def attempt_succ word_less_nat_alt split: task_phase.splits if_splits)

text \<open>A task run to its end: the table it sees on each leg is given.\<close>

function task_run ::
  "reconnect_config \<Rightarrow> peer_id \<Rightarrow> (nat \<Rightarrow> peer_connections) \<Rightarrow> nat \<Rightarrow> reconnect_task \<Rightarrow> task_effect list" where
  "task_run cfg local seen k t =
     (case task_step cfg local (seen k) t of
        (None, eff) \<Rightarrow> eff
      | (Some t', eff) \<Rightarrow> eff @ task_run cfg local seen (Suc k) t')"
  by auto
termination by (relation "measure (\<lambda>(cfg, _, _, _, t). legs_left cfg t)") (auto dest: task_step_legs [OF sym])

declare task_run.simps [simp del]


text \<open>The longest delay, and the dials a task may still make.\<close>

definition dials_left :: "reconnect_config \<Rightarrow> reconnect_task \<Rightarrow> nat" where
  "dials_left cfg t =
     (let m = unat (rc_max_attempts cfg) in
      case rt_phase t of Begin \<Rightarrow> m | LoopHead a _ \<Rightarrow> m - unat a | Dial a _ \<Rightarrow> m - unat a + 1 | Verify a _ \<Rightarrow> m - unat a)"

definition effects_left :: "reconnect_config \<Rightarrow> reconnect_task \<Rightarrow> nat" where
  "effects_left cfg t =
     (let m = unat (rc_max_attempts cfg) in
      case rt_phase t of Begin \<Rightarrow> 3 * m | LoopHead a _ \<Rightarrow> 3 * (m - unat a)
      | Dial a _ \<Rightarrow> 3 * (m - unat a) + 2 | Verify a _ \<Rightarrow> 3 * (m - unat a))"

definition longest_delay :: "reconnect_config \<Rightarrow> u64" where
  "longest_delay cfg = max 500 (max (rc_base_delay_ms cfg) (rc_max_delay_ms cfg))"

definition delay_ok :: "reconnect_config \<Rightarrow> reconnect_task \<Rightarrow> bool" where
  "delay_ok cfg t \<longleftrightarrow>
     (case rt_phase t of Begin \<Rightarrow> True | LoopHead _ d \<Rightarrow> d \<le> longest_delay cfg
      | Dial _ d \<Rightarrow> d \<le> longest_delay cfg | Verify _ d \<Rightarrow> d \<le> longest_delay cfg)"

definition dials :: "task_effect list \<Rightarrow> task_effect list" where
  "dials eff = filter (\<lambda>e. case e of Connect _ _ \<Rightarrow> True | Sleep _ \<Rightarrow> False) eff"

lemma dials_append [simp]: "dials (xs @ ys) = dials xs @ dials ys"
  by (simp add: dials_def)

definition effect_ok :: "reconnect_config \<Rightarrow> reconnect_task \<Rightarrow> task_effect \<Rightarrow> bool" where
  "effect_ok cfg t e =
     (case e of Sleep d \<Rightarrow> d \<le> longest_delay cfg | Connect q addr \<Rightarrow> q = rt_peer t \<and> addr = rt_addr t)"

lemma longest_delay_bounds:
  "500 \<le> longest_delay cfg" "rc_base_delay_ms cfg \<le> longest_delay cfg"
  "min d (rc_max_delay_ms cfg) \<le> longest_delay cfg"
  by (simp_all add: longest_delay_def le_max_iff_disj min_le_iff_disj)

lemma task_step_effects:
  assumes "task_step cfg local conns t = (r, eff)" and "delay_ok cfg t"
  shows "list_all (effect_ok cfg t) eff"
    and "\<forall>t'. r = Some t' \<longrightarrow> delay_ok cfg t' \<and> length (dials eff) + dials_left cfg t' \<le> dials_left cfg t \<and>
      length eff + effects_left cfg t' \<le> effects_left cfg t"
    and "r = None \<Longrightarrow> eff = []"
  using assms longest_delay_bounds
  by (auto simp: task_step_def delay_ok_def dials_left_def effects_left_def effect_ok_def dials_def Let_def attempt_succ word_less_nat_alt
      split: task_phase.splits if_splits)

lemma task_run_effects:
  "delay_ok cfg t \<Longrightarrow> list_all (effect_ok cfg t) (task_run cfg local seen k t) \<and>
     length (dials (task_run cfg local seen k t)) \<le> dials_left cfg t \<and>
     length (task_run cfg local seen k t) \<le> effects_left cfg t"
proof (induction cfg local seen k t rule: task_run.induct)
  case (1 cfg local seen k t)
  obtain r eff where step: "task_step cfg local (seen k) t = (r, eff)" by fastforce
  note facts = task_step_effects [OF step 1(2)]
  show ?case
  proof (cases r)
    case None
    with step facts show ?thesis by (simp add: task_run.simps [of cfg local seen k] dials_def)
  next
    case (Some t')
    then have "rt_peer t' = rt_peer t" "rt_addr t' = rt_addr t" using task_step_peer step by auto
    then have "effect_ok cfg t' = effect_ok cfg t" by (simp add: effect_ok_def fun_eq_iff split: task_effect.split)
    with 1(1) [OF step [symmetric] Some] Some step facts show ?thesis
      by (auto simp: task_run.simps [of cfg local seen k])
  qed
qed

text \<open>
  A reconnection task ends whatever happens to the table meanwhile; it dials at most as often as
  configured, with at most three steps for each dial, only the peer at the address it was lost at,
  and never sleeps longer than the largest
  of half a second and the two configured delays.
\<close>
lemma reconnection_terminates:
  "length (dials (task_run cfg local seen 0 (reconnect_task_new peer addr))) \<le> unat (rc_max_attempts cfg) \<and>
   length (task_run cfg local seen 0 (reconnect_task_new peer addr)) \<le> 3 * unat (rc_max_attempts cfg) \<and>
   (\<forall>e\<in>set (task_run cfg local seen 0 (reconnect_task_new peer addr)).
      case e of Connect q a \<Rightarrow> q = peer \<and> a = addr
      | Sleep d \<Rightarrow> d \<le> max 500 (max (rc_base_delay_ms cfg) (rc_max_delay_ms cfg)))"
  using task_run_effects [of cfg "reconnect_task_new peer addr" local seen 0]
  by (auto simp: reconnect_task_new_def delay_ok_def dials_left_def effects_left_def effect_ok_def longest_delay_def
      list_all_iff split: task_effect.splits)


lemma reconnection_terminates_witness:
  "length (task_run sample_reconnect 9 (\<lambda>_. []) 0 (reconnect_task_new 1 (sample_addr 30303))) \<le> 9"
  using reconnection_terminates [of sample_reconnect 9 "\<lambda>_. []" 1 "sample_addr 30303"] by (simp add: sample_reconnect_def)

text \<open>While the peer stays away, the delays double up to the configured maximum.\<close>

definition backoff :: "reconnect_config \<Rightarrow> nat \<Rightarrow> u64" where
  "backoff cfg i = of_nat (min (unat (rc_base_delay_ms cfg) * 2 ^ i) (unat (rc_max_delay_ms cfg)))"

definition attempt_effects :: "reconnect_config \<Rightarrow> peer_id \<Rightarrow> socket_addr \<Rightarrow> nat \<Rightarrow> task_effect list" where
  "attempt_effects cfg peer addr i = [Sleep (backoff cfg i), Connect peer addr, Sleep 500]"

lemma unat_backoff: "unat (backoff cfg i) = min (unat (rc_base_delay_ms cfg) * 2 ^ i) (unat (rc_max_delay_ms cfg))"
proof -
  have "unat (rc_max_delay_ms cfg) < 2 ^ 64" using unsigned_less [of "rc_max_delay_ms cfg", where 'a=nat] by simp
  then show ?thesis by (simp add: backoff_def unat_of_nat min_less_iff_disj)
qed

lemma backoff_step:
  assumes "unat (rc_max_delay_ms cfg) < 2 ^ 63"
  shows "min (backoff cfg i * 2) (rc_max_delay_ms cfg) = backoff cfg (Suc i)"
proof -
  have "unat (backoff cfg i) * 2 < 2 ^ 64" using assms by (simp add: unat_backoff min_less_iff_disj)
  then have "unat (backoff cfg i * 2) = unat (backoff cfg i) * 2"
    using unat_mult_lem [of "backoff cfg i" 2] by simp
  then have "unat (min (backoff cfg i * 2) (rc_max_delay_ms cfg)) = unat (backoff cfg (Suc i))"
    by (auto simp: min_def word_le_nat_alt unat_backoff)
  then show ?thesis by (simp only: word_unat_eq_iff)
qed

lemma task_run_backoff:
  assumes "unat (rc_max_delay_ms cfg) < 2 ^ 63" and "\<forall>k. peer \<notin> fst ` set (seen k)"
    and "unat a = i" and "i + n = unat (rc_max_attempts cfg)"
  shows "task_run cfg local seen k \<lparr>rt_peer = peer, rt_addr = addr, rt_phase = LoopHead a (backoff cfg i)\<rparr> =
    concat (map (attempt_effects cfg peer addr) [i..<i + n])"
  using assms(3,4)
proof (induction n arbitrary: a i k)
  case 0
  then have "\<not> a < rc_max_attempts cfg" by (simp add: word_less_nat_alt)
  then show ?case by (simp add: task_run.simps task_step_def Let_def)
next
  case (Suc n)
  then have less: "a < rc_max_attempts cfg" by (simp add: word_less_nat_alt)
  then have "unat (a + 1) = Suc i" using Suc.prems(1) attempt_succ by simp
  note IH = Suc.IH [OF this, of "Suc (Suc (Suc k))"]
  let ?t = "\<lambda>ph. \<lparr>rt_peer = peer, rt_addr = addr, rt_phase = ph\<rparr>"
  have "task_run cfg local seen k (?t (LoopHead a (backoff cfg i))) =
      Sleep (backoff cfg i) # task_run cfg local seen (Suc k) (?t (Dial (a + 1) (backoff cfg i)))"
    using less assms(2) by (simp add: task_run.simps [of cfg local seen k] task_step_def Let_def)
  also have "task_run cfg local seen (Suc k) (?t (Dial (a + 1) (backoff cfg i))) =
      Connect peer addr # Sleep 500 # task_run cfg local seen (Suc (Suc k)) (?t (Verify (a + 1) (backoff cfg i)))"
    by (simp add: task_run.simps [of cfg local seen "Suc k"] task_step_def Let_def)
  also have "task_run cfg local seen (Suc (Suc k)) (?t (Verify (a + 1) (backoff cfg i))) =
      task_run cfg local seen (Suc (Suc (Suc k))) (?t (LoopHead (a + 1) (backoff cfg (Suc i))))"
    using assms(2) by (simp add: task_run.simps [of cfg local seen "Suc (Suc k)"] task_step_def Let_def backoff_step [OF assms(1)])
  finally show ?case using IH Suc.prems(2) by (simp add: attempt_effects_def upt_conv_Cons del: upt_Suc)
qed

lemma reconnection_backs_off:
  assumes "unat (rc_max_delay_ms cfg) < 2 ^ 63" and "rc_base_delay_ms cfg \<le> rc_max_delay_ms cfg"
    and "\<forall>k. peer \<notin> fst ` set (seen k)" and "peer \<noteq> local"
  shows "task_run cfg local seen 0 (reconnect_task_new peer addr) =
    concat (map (attempt_effects cfg peer addr) [0..<unat (rc_max_attempts cfg)])"
proof -
  have "backoff cfg 0 = rc_base_delay_ms cfg"
    using assms(2) by (simp add: backoff_def min_def word_le_nat_alt)
  with task_run_backoff [OF assms(1,3), of 0 0 "unat (rc_max_attempts cfg)" local "Suc 0" addr] assms(4) show ?thesis
    by (simp add: task_run.simps [of cfg local seen 0] task_step_def reconnect_task_new_def)
qed


section \<open>Connections\<close>

text \<open>Events that may take a connection at an address away: a newer session, or the end of one there.\<close>

fun affects :: "peer_id \<Rightarrow> socket_addr \<Rightarrow> protocol_event \<Rightarrow> bool" where
  "affects peer addr (Established _ q _ _) \<longleftrightarrow> q = peer"
| "affects peer addr (Disconnected q a _) \<longleftrightarrow> q = peer \<and> a = addr"

definition handle_events :: "reconnect_config \<Rightarrow> protocol_event list \<Rightarrow> peers \<Rightarrow> peers" where
  "handle_events cfg evs p = foldl (\<lambda>p ev. handle_protocol_event cfg ev p) p evs"

lemma spawn_connections [simp]: "pc_connections (spawn_reconnection cfg peer addr p) = pc_connections p"
  by (simp add: spawn_reconnection_def)

lemma unaffected_kept:
  assumes "\<not> affects peer addr ev" and "map_of (pc_connections p) peer = Some (addr, s)"
  shows "map_of (pc_connections (handle_protocol_event cfg ev p)) peer = Some (addr, s)"
  using assms by (cases ev) (auto simp: update_conv' delete_conv' split: option.splits)

text \<open>
  The last session wins.  Once a connection to a peer is established it stays in the table with
  its own channel, whatever happened before and whatever sessions of other peers or other addresses
  end afterwards.
\<close>
lemma live_connection_kept:
  assumes "\<forall>ev\<in>set later. \<not> affects peer addr ev"
  shows "map_of (pc_connections (handle_events cfg (earlier @ Established dir peer addr s # later) p)) peer = Some (addr, s)"
  using assms
proof (induction later rule: rev_induct)
  case Nil
  show ?case by (simp add: handle_events_def update_conv')
next
  case (snoc ev later)
  then have "map_of (pc_connections (handle_events cfg (earlier @ Established dir peer addr s # later) p)) peer = Some (addr, s)"
    by simp
  with snoc.prems show ?case using unaffected_kept by (simp add: handle_events_def)
qed

lemma live_connection_kept_witness:
  "map_of (pc_connections (handle_events sample_reconnect
      [Established DirIncoming 1 (sample_addr 40001) 10, Established (DirOutgoing 1) 1 (sample_addr 30303) 11,
       Disconnected 1 (sample_addr 40001) Dropped] (peers_new sample_channels))) 1 = Some (sample_addr 30303, 11)"
  using live_connection_kept [of "[Disconnected 1 (sample_addr 40001) Dropped]" 1 "sample_addr 30303" sample_reconnect
      "[Established DirIncoming 1 (sample_addr 40001) 10]" "DirOutgoing 1" 11 "peers_new sample_channels"]
  by (simp add: sample_addr_def)

text \<open>The address is all that tells sessions apart: the late end of one removes a newer one at its address.\<close>

lemma reused_address_loses_connection:
  "map_of (pc_connections (handle_events cfg
      [Established dir peer addr s1, Established dir' peer addr s2, Disconnected peer addr reason] p)) peer = None"
  by (simp add: handle_events_def update_conv' delete_conv')

section \<open>Sending\<close>

lemma try_send_other: "s \<noteq> s' \<Longrightarrow> fst (try_send m s chs) s' = chs s'"
  by (simp add: try_send_def)

definition queued :: "message \<Rightarrow> channel \<Rightarrow> channel" where
  "queued m ch = (if has_room ch then ch\<lparr>ch_queue := ch_queue ch @ [m]\<rparr> else ch)"

definition sender_of :: "peer_id \<times> socket_addr \<times> sender \<Rightarrow> sender" where
  "sender_of c = snd (snd c)"

lemma sender_of_simp [simp]: "sender_of (q, a, s) = s"
  by (simp add: sender_of_def)

lemma try_send_queued: "try_send m s chs = (chs(s := queued m (chs s)), has_room (chs s))"
  by (simp add: try_send_def queued_def)

lemma send_each_distinct:
  assumes "distinct (map sender_of conns)"
  shows "send_each m conns chs =
    (\<lambda>s. if s \<in> sender_of ` set conns then queued m (chs s) else chs s,
     map fst (filter (\<lambda>c. \<not> has_room (chs (sender_of c))) conns))"
  using assms
proof (induction conns arbitrary: chs)
  case (Cons c cs)
  obtain peer addr s where c: "c = (peer, addr, s)" by (cases c)
  let ?chs = "chs(s := queued m (chs s))"
  have new: "s \<notin> sender_of ` set cs" using Cons.prems c by auto
  have failed: "filter (\<lambda>c. \<not> has_room (?chs (sender_of c))) cs = filter (\<lambda>c. \<not> has_room (chs (sender_of c))) cs"
    using new by (intro filter_cong) force+
  have chans: "(\<lambda>s'. if s' \<in> sender_of ` set cs then queued m (?chs s') else ?chs s') =
      (\<lambda>s'. if s' \<in> sender_of ` set (c # cs) then queued m (chs s') else chs s')"
    using new c by (intro ext) auto
  have "distinct (map sender_of cs)" using Cons.prems by simp
  note IH = Cons.IH [OF this, of ?chs, unfolded failed chans]
  show ?case by (simp add: c try_send_queued IH [unfolded c] del: fun_upd_apply)
qed auto

text \<open>What a channel has taken of a list of messages, and whether it refused one.\<close>

definition takes :: "qbft_message list \<Rightarrow> channel \<Rightarrow> channel" where
  "takes ms ch = foldl (\<lambda>ch m. queued (new_message m) ch) ch ms"

fun refuses :: "qbft_message list \<Rightarrow> channel \<Rightarrow> bool" where
  "refuses [] ch \<longleftrightarrow> False"
| "refuses (m # ms) ch \<longleftrightarrow> \<not> has_room ch \<or> refuses ms (queued (new_message m) ch)"

lemma takes_queue:
  "takes ms ch = ch\<lparr>ch_queue := ch_queue ch @
     (if ch_open ch then take (CONN_COMMAND_CHANNEL_CAPACITY - length (ch_queue ch)) (map new_message ms) else [])\<rparr>"
proof (induction ms arbitrary: ch)
  case (Cons x xs)
  have "takes (x # xs) ch = takes xs (queued (new_message x) ch)" by (simp add: takes_def)
  moreover have "CONN_COMMAND_CHANNEL_CAPACITY - length (ch_queue ch) =
      Suc (CONN_COMMAND_CHANNEL_CAPACITY - Suc (length (ch_queue ch)))" if "has_room ch"
    using that unfolding has_room_def by arith
  ultimately show ?case unfolding Cons.IH by (cases "has_room ch") (auto simp: queued_def has_room_def)
qed (simp add: takes_def)

lemma refuses_room:
  "refuses ms ch \<longleftrightarrow> ms \<noteq> [] \<and> \<not> (ch_open ch \<and> length (ch_queue ch) + length ms \<le> CONN_COMMAND_CHANNEL_CAPACITY)"
  by (induction ms arbitrary: ch) (auto simp: queued_def has_room_def)

lemma send_messages_distinct:
  assumes "distinct (map sender_of conns)"
  shows "fst (send_messages ms conns chs dead) = (\<lambda>s. if s \<in> sender_of ` set conns then takes ms (chs s) else chs s) \<and>
    set (snd (send_messages ms conns chs dead)) = set dead \<union> fst ` {c \<in> set conns. refuses ms (chs (sender_of c))}"
proof (induction ms arbitrary: chs dead)
  case (Cons m ms)
  let ?chs = "\<lambda>s. if s \<in> sender_of ` set conns then queued (new_message m) (chs s) else chs s"
  have "c \<in> set conns \<Longrightarrow> ?chs (sender_of c) = queued (new_message m) (chs (sender_of c))" for c by simp
  then have "{c \<in> set conns. refuses (m # ms) (chs (sender_of c))} =
      {c \<in> set conns. \<not> has_room (chs (sender_of c))} \<union> {c \<in> set conns. refuses ms (?chs (sender_of c))}"
    by auto
  then show ?case
    by (auto simp: send_each_distinct [OF assms] Cons.IH takes_def fun_eq_iff)
qed (auto simp: takes_def)


lemma deletes_filter: "foldl (\<lambda>cs q. AList.delete q cs) cs dead = filter (\<lambda>c. fst c \<notin> set dead) cs"
  by (induction dead arbitrary: cs) (auto simp: AList.delete_eq intro: filter_cong)

lemma send_outgoing_table:
  assumes "distinct (map sender_of (pc_connections p))" and "distinct (map fst (pc_connections p))" and "ms \<noteq> []"
  shows "pc_connections (send_outgoing ms p) =
      filter (\<lambda>c. \<not> refuses ms (pc_channels p (sender_of c))) (pc_connections p)"
    and "pc_channels (send_outgoing ms p) =
      (\<lambda>s. if s \<in> sender_of ` set (pc_connections p) then takes ms (pc_channels p s) else pc_channels p s)"
proof -
  obtain chs dead where sent: "send_messages ms (pc_connections p) (pc_channels p) [] = (chs, dead)" by fastforce
  note facts = send_messages_distinct [OF assms(1), of ms "pc_channels p" "[]", unfolded sent, simplified]
  have "fst c \<in> set dead \<longleftrightarrow> refuses ms (pc_channels p (sender_of c))" if "c \<in> set (pc_connections p)" for c
    using facts that assms(2) by (auto simp: distinct_map inj_on_def)
  then show "pc_connections (send_outgoing ms p) =
      filter (\<lambda>c. \<not> refuses ms (pc_channels p (sender_of c))) (pc_connections p)"
    using assms(3) by (simp add: send_outgoing_def sent deletes_filter cong: filter_cong)
  show "pc_channels (send_outgoing ms p) =
      (\<lambda>s. if s \<in> sender_of ` set (pc_connections p) then takes ms (pc_channels p s) else pc_channels p s)"
    using facts assms(3) by (simp add: send_outgoing_def sent)
qed

text \<open>
  C29: sending the messages of the state machine appends them, in order and as far as there is room,
  to the channel of every connection that is still open; a connection stays in the table exactly if
  all of them were taken.
\<close>
theorem outgoing_reaches_all:
  assumes "distinct (map sender_of (pc_connections p))" and "distinct (map fst (pc_connections p))"
    and "ms \<noteq> []" and "(q, a, s) \<in> set (pc_connections p)"
  shows "ch_queue (pc_channels (send_outgoing ms p) s) = ch_queue (pc_channels p s) @
      (if ch_open (pc_channels p s)
       then take (10000 - length (ch_queue (pc_channels p s))) (map new_message ms) else []) \<and>
    ((q, a, s) \<in> set (pc_connections (send_outgoing ms p)) \<longleftrightarrow>
      ch_open (pc_channels p s) \<and> length (ch_queue (pc_channels p s)) + length ms \<le> 10000)"
proof -
  have "s \<in> sender_of ` set (pc_connections p)" using assms(4) by force
  with assms(3,4) show ?thesis
    by (simp add: send_outgoing_table [OF assms(1-3)] takes_queue refuses_room CONN_COMMAND_CHANNEL_CAPACITY_def)
qed

text \<open>Two connections, to a peer that still reads and to one whose session is gone.\<close>

definition sample_peers :: peers where
  "sample_peers = (peers_new sample_channels)\<lparr>pc_connections := [(1, sample_addr 30303, 10), (2, sample_addr 30304, 20)]\<rparr>"

theorem outgoing_reaches_all_witness:
  "ch_queue (pc_channels (send_outgoing [BlockRequest \<lparr>breq_from_height = 1, breq_to_height = 2\<rparr>] sample_peers) 10) \<noteq> []"
  using outgoing_reaches_all [of sample_peers "[BlockRequest \<lparr>breq_from_height = 1, breq_to_height = 2\<rparr>]" 1 "sample_addr 30303" 10]
  by (simp add: sample_peers_def peers_new_def sample_channels_def)

text \<open>
  A peer whose channel refuses a message is dropped from the table at once, and when the end of
  its session is reported afterwards no reconnection is started.
\<close>
lemma dead_peer_not_redialled:
  assumes "distinct (map sender_of (pc_connections p))" and "distinct (map fst (pc_connections p))"
    and "ms \<noteq> []" and "map_of (pc_connections p) q = Some (a, s)" and "\<not> has_room (pc_channels p s)"
  shows "map_of (pc_connections (send_outgoing ms p)) q = None \<and>
    handle_protocol_event cfg (Disconnected q a' reason) (send_outgoing ms p) = send_outgoing ms p"
proof -
  have mem: "(q, a, s) \<in> set (pc_connections p)" using assms(4) by (rule map_of_SomeD)
  have "refuses ms (pc_channels p s)" using assms(3,5) by (cases ms) auto
  moreover have "sender_of c = s" if "c \<in> set (pc_connections p)" "fst c = q" for c
    using that mem assms(2) by (metis distinct_map fst_conv inj_onD sender_of_simp)
  ultimately have "c \<notin> set (pc_connections (send_outgoing ms p))" if "fst c = q" for c
    using that unfolding send_outgoing_table [OF assms(1-3)] by auto
  then have "map_of (pc_connections (send_outgoing ms p)) q = None" by (force simp: map_of_eq_None_iff)
  then show ?thesis by simp
qed

lemma dead_peer_not_redialled_witness:
  "pc_tasks (handle_protocol_event sample_reconnect
      (Disconnected 2 (sample_addr 30304) Dropped)
      (send_outgoing [BlockRequest \<lparr>breq_from_height = 1, breq_to_height = 2\<rparr>] sample_peers)) =
   pc_tasks (send_outgoing [BlockRequest \<lparr>breq_from_height = 1, breq_to_height = 2\<rparr>] sample_peers)"
  using dead_peer_not_redialled [of sample_peers "[BlockRequest \<lparr>breq_from_height = 1, breq_to_height = 2\<rparr>]" 2
      "sample_addr 30304" 20 sample_reconnect "sample_addr 30304" Dropped]
  by (simp add: sample_peers_def peers_new_def sample_channels_def has_room_def)

section \<open>Dialling\<close>

lemma position_nth:
  assumes "distinct (map nr_id ns)" and "i < length ns"
  shows "position (\<lambda>n. nr_id n = nr_id (ns ! i)) ns = Some i"
proof -
  have "nr_id (ns ! j) \<noteq> nr_id (ns ! i)" if "j < i" for j
    using assms that by (auto simp: distinct_conv_nth)
  with assms(2) show ?thesis by (simp add: position_Some_iff)
qed


lemma dials_later:
  assumes "distinct (map nr_id enodes)" and "i < length enodes" and "j < length enodes"
    and "nr_id (enodes ! j) \<notin> known"
  shows "nr_id (enodes ! j) \<in> nr_id ` set (filter (\<lambda>n. nr_id n \<notin> known) (drop (start_node (nr_id (enodes ! i)) enodes) enodes))
    \<longleftrightarrow> i < j"
proof -
  have start: "start_node (nr_id (enodes ! i)) enodes = Suc i"
    by (simp add: start_node_def position_nth [OF assms(1,2)])
  have "nr_id (enodes ! j) \<in> nr_id ` set (drop (Suc i) enodes) \<longleftrightarrow> i < j"
  proof
    assume "nr_id (enodes ! j) \<in> nr_id ` set (drop (Suc i) enodes)"
    then obtain k where k: "k < length (drop (Suc i) enodes)" "nr_id (drop (Suc i) enodes ! k) = nr_id (enodes ! j)"
      by (metis imageE in_set_conv_nth)
    moreover have "Suc i + k < length enodes" using k(1) by simp
    ultimately have "map nr_id enodes ! (Suc i + k) = map nr_id enodes ! j" "Suc i + k < length (map nr_id enodes)"
      using assms(3) by auto
    then have "Suc i + k = j" using assms(1,3) by (simp only: nth_eq_iff_index_eq length_map)
    then show "i < j" by simp
  next
    assume "i < j"
    then have "enodes ! j = drop (Suc i) enodes ! (j - Suc i)" "j - Suc i < length (drop (Suc i) enodes)"
      using assms(3) by auto
    then show "nr_id (enodes ! j) \<in> nr_id ` set (drop (Suc i) enodes)" by (metis image_eqI nth_mem)
  qed
  with assms(4) show ?thesis unfolding start by auto
qed

text \<open>
  Of two validators that are not connected to each other exactly one dials, the one listed
  first.
\<close>
lemma one_side_dials:
  assumes "distinct (map nr_id enodes)" and "i < length enodes" and "j < length enodes" and "i \<noteq> j"
    and "nr_id (enodes ! j) \<notin> fst ` set peers_i" and "nr_id (enodes ! i) \<notin> fst ` set peers_j"
  shows "(nr_id (enodes ! j) \<in> fst ` set (check_peer_connections (nr_id (enodes ! i)) (Some peers_i) enodes)) \<noteq>
    (nr_id (enodes ! i) \<in> fst ` set (check_peer_connections (nr_id (enodes ! j)) (Some peers_j) enodes))"
  using dials_later [OF assms(1-3,5)] dials_later [OF assms(1,3,2,6)] assms(4)
  by (simp add: check_peer_connections_def image_image image_comp) (auto simp: image_iff)


definition sample_enodes :: "node_record list" where
  "sample_enodes = map (\<lambda>i. \<lparr>nr_id = of_nat i, nr_address = V4 0x7F000001, nr_tcp_port = of_nat (30303 + i), nr_udp_port = 0\<rparr>) [0, 1, 2]"

lemma one_side_dials_witness:
  "(nr_id (sample_enodes ! 2) \<in> fst ` set (check_peer_connections (nr_id (sample_enodes ! 0)) (Some []) sample_enodes)) \<noteq>
   (nr_id (sample_enodes ! 0) \<in> fst ` set (check_peer_connections (nr_id (sample_enodes ! 2)) (Some []) sample_enodes))"
  by (rule one_side_dials) (simp_all add: sample_enodes_def)

section \<open>Express delivery\<close>

text \<open>
  Successive calls, with whatever node state, validators, pending transactions and peers each finds;
  the batch of a call is what it queued.
\<close>

type_synonym express_call =
  "node_state \<times> address list \<times> node_record list \<times> peer_id \<times> pending_tx list \<times> peers"

fun express_batches :: "express_call list \<Rightarrow> nat \<Rightarrow> pending_tx list list" where
  "express_batches [] cutoff = []"
| "express_batches ((st, selected, enodes, local, pending, p) # calls) cutoff =
     (let (cutoff', p') = express_send st selected enodes local pending cutoff p in
      (if cutoff' = cutoff then [] else newer_than cutoff pending) # express_batches calls cutoff')"

lemma express_send_cases:
  assumes "express_send st selected enodes local pending cutoff p = (cutoff', p')"
  obtains (kept) "cutoff' = cutoff" "p' = p"
  | (sent) q a s where "proposer_peer st selected enodes = Some q" "q \<noteq> local"
      "map_of (pc_connections p) q = Some (a, s)" "has_room (pc_channels p s)" "newer_than cutoff pending \<noteq> []"
      "cutoff' = Max (pt_timestamp ` set (newer_than cutoff pending))"
      "p' = p\<lparr>pc_channels := (pc_channels p)(s := queued (new_transactions (map pt_encoded (newer_than cutoff pending))) (pc_channels p s))\<rparr>"
proof (cases "proposer_peer st selected enodes")
  case None
  with assms show ?thesis by (intro kept) (simp_all add: express_send_def)
next
  case (Some q)
  let ?fresh = "newer_than cutoff pending"
  show ?thesis
  proof (cases "q = local \<or> ?fresh = [] \<or> map_of (pc_connections p) q = None")
    case True
    with Some assms show ?thesis by (intro kept) (auto simp: express_send_def Let_def split: if_splits)
  next
    case False
    then obtain a s where conn: "map_of (pc_connections p) q = Some (a, s)" by auto
    let ?m = "new_transactions (map pt_encoded ?fresh)"
    have *: "(if has_room (pc_channels p s) then Max (pt_timestamp ` set ?fresh) else cutoff,
        p\<lparr>pc_channels := (pc_channels p)(s := queued ?m (pc_channels p s))\<rparr>) = (cutoff', p')"
      using assms Some False conn by (simp add: express_send_def Let_def try_send_queued)
    show ?thesis
    proof (cases "has_room (pc_channels p s)")
      case True
      with * Some False conn show ?thesis by (intro sent) auto
    next
      case False
      then have "(pc_channels p)(s := queued ?m (pc_channels p s)) = pc_channels p" by (simp add: queued_def)
      with * False show ?thesis by (intro kept) auto
    qed
  qed
qed

lemma newer_than_Max:
  assumes "newer_than cutoff pending \<noteq> []"
  shows "cutoff < Max (pt_timestamp ` set (newer_than cutoff pending))"
    and "tx \<in> set (newer_than cutoff pending) \<Longrightarrow> pt_timestamp tx \<le> Max (pt_timestamp ` set (newer_than cutoff pending))"
proof -
  let ?ts = "pt_timestamp ` set (newer_than cutoff pending)"
  have "Max ?ts \<in> ?ts" using assms by (intro Max_in) auto
  then show "cutoff < Max ?ts" by (auto simp: newer_than_def)
qed simp

lemma express_send_cutoff:
  assumes "express_send st selected enodes local pending cutoff p = (cutoff', p')"
  shows "cutoff \<le> cutoff' \<and> (\<forall>tx\<in>set (newer_than cutoff pending). cutoff' \<noteq> cutoff \<longrightarrow> pt_timestamp tx \<le> cutoff')"
  using assms
proof (cases rule: express_send_cases)
  case (sent q a s)
  with newer_than_Max(1) [OF sent(5)] show ?thesis by (simp add: less_imp_le)
qed simp

lemma express_batches_above:
  "b \<in> set (express_batches calls cutoff) \<Longrightarrow> tx \<in> set b \<Longrightarrow> cutoff < pt_timestamp tx"
proof (induction calls cutoff rule: express_batches.induct)
  case (2 st selected enodes local pending p calls cutoff)
  obtain cutoff' p' where call: "express_send st selected enodes local pending cutoff p = (cutoff', p')" by fastforce
  from 2(1) [OF call [symmetric] refl] 2(2,3) call express_send_cutoff [OF call] show ?case
    by (auto simp: newer_than_def split: if_splits)
qed simp

text \<open>
  No transaction is forwarded twice.  Over any calls of express delivery the batches that were
  queued follow each other strictly in time: every transaction of a later batch is newer than every
  one of an earlier batch.
\<close>
lemma express_forwards_once:
  "sorted_wrt (\<lambda>b b'. \<forall>tx\<in>set b. \<forall>tx'\<in>set b'. pt_timestamp tx < pt_timestamp tx') (express_batches calls cutoff)"
proof (induction calls cutoff rule: express_batches.induct)
  case (2 st selected enodes local pending p calls cutoff)
  obtain cutoff' p' where call: "express_send st selected enodes local pending cutoff p = (cutoff', p')" by fastforce
  have "pt_timestamp tx < pt_timestamp tx'"
    if "cutoff' \<noteq> cutoff" "tx \<in> set (newer_than cutoff pending)" "b' \<in> set (express_batches calls cutoff')" "tx' \<in> set b'"
    for tx b' tx'
    using express_send_cutoff [OF call] that(1,2) express_batches_above [OF that(3,4)] by fastforce
  with 2 [OF call [symmetric] refl] call show ?case by auto
qed simp


text \<open>Two calls with the next proposer connected; the second finds one more transaction.\<close>

definition sample_call :: "nat list \<Rightarrow> express_call" where
  "sample_call ts = (ex_start, [1], [\<lparr>nr_id = 1, nr_address = V4 0, nr_tcp_port = 0, nr_udp_port = 0\<rparr>], 9,
     map (\<lambda>t. \<lparr>pt_timestamp = t, pt_encoded = []\<rparr>) ts, sample_peers)"

lemma sample_batches:
  "express_batches [sample_call [5], sample_call [5, 8]] 0 =
    [[\<lparr>pt_timestamp = 5, pt_encoded = []\<rparr>], [\<lparr>pt_timestamp = 8, pt_encoded = []\<rparr>]]"
proof -
  have "next_proposer_for_current_round ex_start = 1"
    by (simp add: next_proposer_for_current_round_def ex_state_defs ex_message_defs chain_defs)
  then show ?thesis
    by (simp add: sample_call_def express_send_def proposer_peer_def newer_than_def sample_peers_def peers_new_def
        try_send_def has_room_def sample_channels_def CONN_COMMAND_CHANNEL_CAPACITY_def)
qed

lemma express_forwards_once_witness:
  "\<exists>b b'. express_batches [sample_call [5], sample_call [5, 8]] 0 = [b, b'] \<and> b \<noteq> [] \<and> b' \<noteq> [] \<and>
     pt_timestamp (hd b) < pt_timestamp (hd b')"
  using express_forwards_once [of "[sample_call [5], sample_call [5, 8]]" 0] by (simp add: sample_batches)

end
