(* ===== verification/Abi.thy ===== *)
theory Abi
  imports Rust_Text
begin

text \<open>
  Bytes of words and strings as the contract tools and the node read and write them: big-endian
  integers, addresses padded to 32 bytes, the bytes of a string, and a reader for the argument
  encoding of contract calls that serves as the reference for the hand-written encoders.
\<close>

section \<open>Big-endian integers\<close>

text \<open>\<open>to_be_bytes\<close> with a given number of bytes, and \<open>from_be_bytes\<close>.\<close>

fun be_bytes :: "nat \<Rightarrow> nat \<Rightarrow> bytes" where
  "be_bytes 0 n = []"
| "be_bytes (Suc k) n = be_bytes k (n div 256) @ [of_nat (n mod 256)]"

definition be_value :: "bytes \<Rightarrow> nat" where
  "be_value bs = foldl (\<lambda>acc b. acc * 256 + unat b) 0 bs"

lemma length_be_bytes [simp]: "length (be_bytes k n) = k"
  by (induction k arbitrary: n) simp_all

lemma be_value_append1 [simp]: "be_value (bs @ [b]) = be_value bs * 256 + unat b"
  by (simp add: be_value_def)

lemma be_value_be_bytes: "be_value (be_bytes k n) = n mod 256 ^ k"
proof (induction k arbitrary: n)
  case (Suc k)
  have "unat (of_nat (n mod 256) :: u8) = n mod 256" by (simp add: unat_of_nat)
  with Suc show ?case by (simp add: mod_mult2_eq)
qed (simp add: be_value_def)

lemma be_value_exact [simp]: "n < 256 ^ k \<Longrightarrow> be_value (be_bytes k n) = n"
  by (simp add: be_value_be_bytes)

lemma be_bytes_value: "be_bytes (length bs) (be_value bs) = bs"
proof (induction bs rule: rev_induct)
  case (snoc b bs)
  have "unat b < 256" using unsigned_less [of b, where 'a = nat] by simp
  with snoc show ?case by simp
qed simp

lemma be_bytes_zeros: "n < 256 ^ j \<Longrightarrow> be_bytes (k + j) n = replicate k 0 @ be_bytes j n"
proof (induction j arbitrary: n)
  case 0
  have "be_bytes k 0 = replicate k 0" by (induction k) (simp_all add: replicate_append_same)
  with 0 show ?case by simp
next
  case (Suc j)
  then have "n div 256 < 256 ^ j" by (simp add: less_mult_imp_div_less mult.commute)
  with Suc.IH show ?case by simp
qed

definition u256_bytes :: "256 word \<Rightarrow> bytes" where
  "u256_bytes w = be_bytes 32 (unat w)"

lemma length_u256_bytes [simp]: "length (u256_bytes w) = 32"
  by (simp add: u256_bytes_def)

lemma u256_bytes_value [simp]: "be_value (u256_bytes w) = unat w"
  using unsigned_less [of w, where 'a = nat] by (simp add: u256_bytes_def)

section \<open>Strings\<close>

text \<open>\<open>str::as_bytes\<close>: UTF-8, of the characters the model has.\<close>

definition char_bytes :: "char \<Rightarrow> bytes" where
  "char_bytes c =
     (let n = of_char c :: nat in
      if n < 128 then [of_nat n] else [of_nat (0xC0 + n div 64), of_nat (0x80 + n mod 64)])"

definition string_bytes :: "string \<Rightarrow> bytes" where
  "string_bytes s = concat (map char_bytes s)"

text \<open>Reading bytes back is library code; on ASCII it is the obvious map.\<close>

record utf8_lib =
  u8_from_utf8 :: "bytes \<Rightarrow> string option"
  u8_from_utf8_lossy :: "bytes \<Rightarrow> string"

definition is_ascii :: "string \<Rightarrow> bool" where
  "is_ascii s \<longleftrightarrow> list_all (\<lambda>c. (of_char c :: nat) < 128) s"

definition utf8_laws :: "utf8_lib \<Rightarrow> bool" where
  "utf8_laws U \<longleftrightarrow>
     (\<forall>s. is_ascii s \<longrightarrow> u8_from_utf8 U (string_bytes s) = Some s \<and> u8_from_utf8_lossy U (string_bytes s) = s)"

section \<open>Padding\<close>

text \<open>The length rounded up to whole words (\<open>div_ceil(32) * 32\<close>), and the zeros that fill up.\<close>

definition padded_len :: "nat \<Rightarrow> nat" where
  "padded_len n = (n + 31) div 32 * 32"

definition pad_to_word :: "bytes \<Rightarrow> bytes" where
  "pad_to_word bs = bs @ replicate (padded_len (length bs) - length bs) 0"

lemma padded_len_ge: "n \<le> padded_len n"
  unfolding padded_len_def by linarith

lemma length_pad_to_word [simp]: "length (pad_to_word bs) = padded_len (length bs)"
  using padded_len_ge by (simp add: pad_to_word_def)

lemma take_pad_to_word [simp]: "take (length bs) (pad_to_word bs) = bs"
  by (simp add: pad_to_word_def)

lemma padding_other_form: "padded_len n - n = (32 - n mod 32) mod 32"
proof -
  obtain q r where n: "n = 32 * q + r" "r < 32" by (metis mod_less_divisor mult_div_mod_eq zero_less_numeral)
  have "(r + 31) div 32 = (if r = 0 then 0 else 1)" using n(2) by (simp add: div_nat_eqI)
  moreover have "(n + 31) div 32 = q + (r + 31) div 32" unfolding n(1) by (simp add: add.assoc)
  ultimately show ?thesis using n by (auto simp: padded_len_def)
qed

section \<open>Reading arguments\<close>

text \<open>
  The argument encoding of contract calls, read back: a word at an offset; a dynamic value sits at
  an offset relative to the start of the block that names it, with its length first.
\<close>

definition word_at :: "bytes \<Rightarrow> nat \<Rightarrow> nat option" where
  "word_at bs off = (if off + 32 \<le> length bs then Some (be_value (take 32 (drop off bs))) else None)"

definition bytes_at :: "bytes \<Rightarrow> nat \<Rightarrow> bytes option" where
  "bytes_at bs off = do {
     n \<leftarrow> word_at bs off;
     (if off + 32 + n \<le> length bs then Some (take n (drop (off + 32) bs)) else None)
   }"

fun read_all :: "(nat \<Rightarrow> 'a option) \<Rightarrow> nat list \<Rightarrow> 'a list option" where
  "read_all f [] = Some []"
| "read_all f (i # is) = do { x \<leftarrow> f i; xs \<leftarrow> read_all f is; Some (x # xs) }"

definition words_at :: "bytes \<Rightarrow> nat \<Rightarrow> nat list option" where
  "words_at bs off = do {
     n \<leftarrow> word_at bs off;
     read_all (\<lambda>i. word_at bs (off + 32 + 32 * i)) [0..<n]
   }"

definition strings_at :: "bytes \<Rightarrow> nat \<Rightarrow> bytes list option" where
  "strings_at bs off = do {
     n \<leftarrow> word_at bs off;
     read_all (\<lambda>i. do { rel \<leftarrow> word_at bs (off + 32 + 32 * i); bytes_at bs (off + 32 + rel) }) [0..<n]
   }"

lemma read_all_map: "(\<And>i. i \<in> set is \<Longrightarrow> f i = Some (g i)) \<Longrightarrow> read_all f is = Some (map g is)"
  by (induction "is") auto

lemma word_at_append:
  "length pre = off \<Longrightarrow> length w = 32 \<Longrightarrow> word_at (pre @ w @ post) off = Some (be_value w)"
  by (simp add: word_at_def)

lemma bytes_at_append:
  assumes "length pre = off" and "length bs < 256 ^ 32"
  shows "bytes_at (pre @ be_bytes 32 (length bs) @ bs @ post) off = Some bs"
proof -
  have "word_at (pre @ be_bytes 32 (length bs) @ bs @ post) off = Some (length bs)"
    using word_at_append [OF assms(1), of "be_bytes 32 (length bs)"] assms(2) by simp
  with assms(1) show ?thesis by (simp add: bytes_at_def)
qed

end
