(* ===== verification/Contract_Calls.thy ===== *)
theory Contract_Calls
  imports Abi Qbft_Types
begin

text \<open>
  The calls of the operator tools to the validator contract: the call that initialises it in the
  genesis state (\<open>encode_initialize\<close> in \<open>rbft-utils/src/genesis.rs\<close>), and the calls that manage it
  later (\<open>rbft-utils/src/validator_management.rs\<close>).  A call is what is sent: its bytes, or what is
  read from the bytes that come back; sending is a parameter.
\<close>

section \<open>Initialisation\<close>

definition address_to_b256 :: "address \<Rightarrow> bytes" where
  "address_to_b256 a = replicate 12 0 @ be_bytes 20 (unat a)"

definition encode_string :: "string \<Rightarrow> bytes" where
  "encode_string e = be_bytes 32 (length (string_bytes e)) @ pad_to_word (string_bytes e)"

text \<open>Where each string starts, counted from the end of the length of the array.\<close>

fun string_offsets :: "u64 \<Rightarrow> string list \<Rightarrow> u64 list" where
  "string_offsets current_offset [] = []"
| "string_offsets current_offset (e # es) =
     current_offset # string_offsets (current_offset + (32 + of_nat (padded_len (length (string_bytes e))))) es"

record validator_set_config =
  vc_max_active_validators :: u64
  vc_base_fee :: u64
  vc_block_interval_ms :: u64
  vc_epoch_length :: u64

definition initialize_selector :: "libs \<Rightarrow> bytes" where
  "initialize_selector L =
     take 4 (u256_bytes (keccak256 L
       (string_bytes ''initialize(address[],address,uint256,uint256,uint256,uint256,string[])'')))"

definition initialize_words :: "address list \<Rightarrow> address \<Rightarrow> validator_set_config \<Rightarrow> string list \<Rightarrow> bytes list" where
  "initialize_words validators admin config enodes =
     [be_bytes 32 224, address_to_b256 admin, be_bytes 32 (unat (vc_max_active_validators config)),
      be_bytes 32 (unat (vc_base_fee config)), be_bytes 32 (unat (vc_block_interval_ms config)),
      be_bytes 32 (unat (vc_epoch_length config)),
      be_bytes 32 (unat (224 + of_nat (32 + 32 * length validators) :: u64)),
      be_bytes 32 (length validators)] @
     map address_to_b256 validators @
     [be_bytes 32 (length enodes)] @
     map (\<lambda>off. be_bytes 32 (unat off)) (string_offsets (32 * of_nat (length enodes)) enodes)"

definition encode_initialize ::
  "libs \<Rightarrow> address list \<Rightarrow> address \<Rightarrow> validator_set_config \<Rightarrow> string list \<Rightarrow> bytes" where
  "encode_initialize L validators admin config enodes =
     initialize_selector L @ concat (initialize_words validators admin config enodes) @
     concat (map encode_string enodes)"

section \<open>Managing the validators\<close>

text \<open>The calls, with the selectors as they are written in the source.\<close>

definition u64_word :: "u64 \<Rightarrow> bytes" where
  "u64_word v = replicate 24 0 @ be_bytes 8 (unat v)"

definition add_validator_data :: "address \<Rightarrow> string \<Rightarrow> bytes" where
  "add_validator_data validator_address enode =
     (let enode_bytes = string_bytes enode; enode_len = length enode_bytes in
      [0x63, 0xe2, 0xa2, 0x32] @ address_to_b256 validator_address @
      (replicate 31 0 @ [0x40]) @
      (replicate 28 0 @ be_bytes 4 (enode_len mod 2 ^ 32)) @
      enode_bytes @ replicate ((32 - enode_len mod 32) mod 32) 0)"

definition remove_validator_data :: "address \<Rightarrow> bytes" where
  "remove_validator_data validator_address = [0x40, 0xa1, 0x41, 0xff] @ address_to_b256 validator_address"

definition set_max_active_validators_data :: "u64 \<Rightarrow> bytes" where
  "set_max_active_validators_data v = [0x17, 0x41, 0xc3, 0x72] @ u64_word v"

definition set_base_fee_data :: "u64 \<Rightarrow> bytes" where
  "set_base_fee_data v = [0x46, 0x86, 0x06, 0x98] @ u64_word v"

definition set_block_interval_ms_data :: "u64 \<Rightarrow> bytes" where
  "set_block_interval_ms_data v = [0x05, 0x1c, 0x36, 0xc0] @ u64_word v"

definition set_epoch_length_data :: "u64 \<Rightarrow> bytes" where
  "set_epoch_length_data v = [0x54, 0xee, 0xa7, 0x96] @ u64_word v"

text \<open>
  Sending: parsing an enode, a private key and a URL, and the provider's transaction, are library
  calls.  A transaction is sent with a signer to the contract; a receipt has a status, and watching
  a sent transaction may fail.
\<close>

datatype call_error =
    InvalidEnode | BadPrivateKey | BadUrl | SendFailed | NoReceipt | TransactionFailed

record ('k, 'n) chain_client =
  cl_parse_enode :: "string \<Rightarrow> bool"
  cl_parse_key :: "string \<Rightarrow> 'k option"
  cl_parse_url :: "string \<Rightarrow> bool"
  cl_send :: "'k \<Rightarrow> address \<Rightarrow> bytes \<Rightarrow> 'n \<Rightarrow> 'n option"
  cl_receipt :: "'n \<Rightarrow> bool option"
  cl_watch :: "'n \<Rightarrow> bool"
  cl_call :: "'n \<Rightarrow> address \<Rightarrow> bytes \<Rightarrow> bytes option"

definition DEFAULT_VALIDATOR_CONTRACT :: address where
  "DEFAULT_VALIDATOR_CONTRACT = 0x1001"

definition open_client :: "('k, 'n) chain_client \<Rightarrow> string \<Rightarrow> string \<Rightarrow> call_error + 'k" where
  "open_client C private_key rpc_url =
     (let key = (case strip_prefix ''0x'' private_key of Some k \<Rightarrow> k | None \<Rightarrow> private_key) in
      case cl_parse_key C key of
        None \<Rightarrow> Inl BadPrivateKey
      | Some signer \<Rightarrow> if cl_parse_url C rpc_url then Inr signer else Inl BadUrl)"

definition add_validator ::
  "('k, 'n) chain_client \<Rightarrow> string \<Rightarrow> address \<Rightarrow> string \<Rightarrow> string \<Rightarrow> 'n \<Rightarrow> (call_error + unit) \<times> 'n" where
  "add_validator C private_key validator_address enode rpc_url chain =
     (if \<not> cl_parse_enode C enode then (Inl InvalidEnode, chain)
      else case open_client C private_key rpc_url of
          Inl e \<Rightarrow> (Inl e, chain)
        | Inr signer \<Rightarrow>
            (case cl_send C signer DEFAULT_VALIDATOR_CONTRACT (add_validator_data validator_address enode) chain of
               None \<Rightarrow> (Inl SendFailed, chain)
             | Some chain' \<Rightarrow>
                 (case cl_receipt C chain' of
                    None \<Rightarrow> Inl NoReceipt
                  | Some status \<Rightarrow> if status then Inr () else Inl TransactionFailed, chain')))"

text \<open>Removal reports success once the transaction is sent, whether or not it can be watched.\<close>

definition remove_validator ::
  "('k, 'n) chain_client \<Rightarrow> string \<Rightarrow> address \<Rightarrow> string \<Rightarrow> 'n \<Rightarrow> (call_error + unit) \<times> 'n" where
  "remove_validator C private_key validator_address rpc_url chain =
     (case open_client C private_key rpc_url of
        Inl e \<Rightarrow> (Inl e, chain)
      | Inr signer \<Rightarrow>
          (case cl_send C signer DEFAULT_VALIDATOR_CONTRACT (remove_validator_data validator_address) chain of
             None \<Rightarrow> (Inl SendFailed, chain)
           | Some chain' \<Rightarrow> (Inr (), chain')))"

text \<open>The four setters differ in the data they send; they fail if the transaction cannot be watched.\<close>

definition send_setting ::
  "('k, 'n) chain_client \<Rightarrow> (u64 \<Rightarrow> bytes) \<Rightarrow> string \<Rightarrow> u64 \<Rightarrow> string \<Rightarrow> 'n \<Rightarrow> (call_error + unit) \<times> 'n" where
  "send_setting C data private_key v rpc_url chain =
     (case open_client C private_key rpc_url of
        Inl e \<Rightarrow> (Inl e, chain)
      | Inr signer \<Rightarrow>
          (case cl_send C signer DEFAULT_VALIDATOR_CONTRACT (data v) chain of
             None \<Rightarrow> (Inl SendFailed, chain)
           | Some chain' \<Rightarrow> (if cl_watch C chain' then Inr () else Inl NoReceipt, chain')))"

definition set_max_active_validators ::
  "('k, 'n) chain_client \<Rightarrow> string \<Rightarrow> u64 \<Rightarrow> string \<Rightarrow> 'n \<Rightarrow> (call_error + unit) \<times> 'n" where
  "set_max_active_validators C = send_setting C set_max_active_validators_data"

definition set_base_fee ::
  "('k, 'n) chain_client \<Rightarrow> string \<Rightarrow> u64 \<Rightarrow> string \<Rightarrow> 'n \<Rightarrow> (call_error + unit) \<times> 'n" where
  "set_base_fee C = send_setting C set_base_fee_data"

definition set_block_interval_ms ::
  "('k, 'n) chain_client \<Rightarrow> string \<Rightarrow> u64 \<Rightarrow> string \<Rightarrow> 'n \<Rightarrow> (call_error + unit) \<times> 'n" where
  "set_block_interval_ms C = send_setting C set_block_interval_ms_data"

definition set_epoch_length ::
  "('k, 'n) chain_client \<Rightarrow> string \<Rightarrow> u64 \<Rightarrow> string \<Rightarrow> 'n \<Rightarrow> (call_error + unit) \<times> 'n" where
  "set_epoch_length C = send_setting C set_epoch_length_data"

section \<open>Status\<close>

text \<open>
  The addresses in an answer: the offset is skipped, the loop stops at the end of the data.  The
  first argument is how many are left to read.
\<close>

fun parse_addresses :: "nat \<Rightarrow> nat \<Rightarrow> bytes \<Rightarrow> address list" where
  "parse_addresses 0 i bs = []"
| "parse_addresses (Suc n) i bs =
     (let addr_start = 64 + i * 32 + 12 in
      if addr_start + 20 > length bs then []
      else of_nat (be_value (take 20 (drop addr_start bs))) # parse_addresses n (i + 1) bs)"

definition parse_address_array :: "bytes \<Rightarrow> address list option" where
  "parse_address_array bs =
     (if length bs < 64 then None
      else Some (parse_addresses (be_value (take 8 (drop 56 bs))) 0 bs))"

definition parse_u64_answer :: "bytes \<Rightarrow> u64 option" where
  "parse_u64_answer bs = (if length bs \<noteq> 32 then None else Some (of_nat (be_value (drop 24 bs))))"

record validator_status =
  vs_max_active_validators :: u64
  vs_base_fee :: u64
  vs_block_interval_ms :: u64
  vs_epoch_length :: u64
  vs_validators :: "address list"
  vs_count :: nat

definition query_u64 :: "('k, 'n) chain_client \<Rightarrow> 'n \<Rightarrow> bytes \<Rightarrow> u64" where
  "query_u64 C chain selector =
     (case cl_call C chain DEFAULT_VALIDATOR_CONTRACT selector of
        None \<Rightarrow> 0
      | Some bs \<Rightarrow> (case parse_u64_answer bs of Some v \<Rightarrow> v | None \<Rightarrow> 0))"

definition query_validators :: "('k, 'n) chain_client \<Rightarrow> 'n \<Rightarrow> address list" where
  "query_validators C chain =
     (case cl_call C chain DEFAULT_VALIDATOR_CONTRACT [0xb7, 0xab, 0x4d, 0xb5] of
        None \<Rightarrow> []
      | Some bs \<Rightarrow> (case parse_address_array bs of Some vs \<Rightarrow> vs | None \<Rightarrow> []))"

definition get_validator_status :: "('k, 'n) chain_client \<Rightarrow> string \<Rightarrow> 'n \<Rightarrow> call_error + validator_status" where
  "get_validator_status C rpc_url chain =
     (if cl_parse_url C rpc_url
      then let validators = query_validators C chain in
        Inr \<lparr>vs_max_active_validators = query_u64 C chain [0x18, 0x45, 0xef, 0xf0],
             vs_base_fee = query_u64 C chain [0x15, 0xe8, 0x12, 0xad],
             vs_block_interval_ms = query_u64 C chain [0x8c, 0x52, 0xdc, 0x81],
             vs_epoch_length = query_u64 C chain [0xc3, 0x1f, 0x3e, 0x82],
             vs_validators = validators, vs_count = length validators\<rparr>
      else Inl BadUrl)"

end
