(* ===== verification/Contract_Properties.thy ===== *)
theory Contract_Properties
  imports Contract_Calls Example_Libs
begin

text \<open>The hand-written call encoders against a reader of the argument encoding.\<close>

section \<open>Words in a row\<close>

lemma length_address_to_b256 [simp]: "length (address_to_b256 a) = 32"
  by (simp add: address_to_b256_def)

lemma be_value_zeros: "be_value (replicate k 0 @ bs) = be_value bs"
  by (simp add: be_value_def) (induction k, simp_all)

lemma address_to_b256_value [simp]: "be_value (address_to_b256 a) = unat a"
proof -
  have "unat a < 256 ^ 20" using unsigned_less [of a, where 'a = nat] by simp
  then show ?thesis by (simp add: address_to_b256_def be_value_zeros)
qed

lemma u64_word_value [simp]: "length (u64_word v) = 32" "be_value (u64_word v) = unat v"
proof -
  have "unat v < 256 ^ 8" using unsigned_less [of v, where 'a = nat] by simp
  then show "be_value (u64_word v) = unat v" by (simp add: u64_word_def be_value_zeros)
qed (simp add: u64_word_def)

lemma length_concat_words: "\<forall>w\<in>set ws. length w = 32 \<Longrightarrow> length (concat ws) = 32 * length ws"
  by (induction ws) auto

lemma word_at_concat:
  assumes "\<forall>w\<in>set ws. length w = 32" and "i < length ws"
  shows "word_at (concat ws @ post) (32 * i) = Some (be_value (ws ! i))"
proof -
  have "concat ws = concat (take i ws) @ ws ! i @ concat (drop (Suc i) ws)"
    by (metis append_Cons append_Nil assms(2) concat.simps(2) concat_append id_take_nth_drop)
  moreover have "length (concat (take i ws)) = 32 * i"
    using length_concat_words [of "take i ws"] assms by (auto dest: in_set_takeD)
  moreover have "length (ws ! i) = 32" using assms by simp
  ultimately show ?thesis using word_at_append [of "concat (take i ws)" "32 * i" "ws ! i"] by simp
qed

lemma read_all_nth:
  assumes "n = length xs" and "\<And>i. i < n \<Longrightarrow> f i = Some (xs ! i)"
  shows "read_all f [0..<n] = Some xs"
  using read_all_map [of "[0..<n]" f "(!) xs"] assms by (simp add: map_nth)

section \<open>Initialisation\<close>

definition strings_size :: "string list \<Rightarrow> nat" where
  "strings_size es = sum_list (map (\<lambda>e. 32 + padded_len (length (string_bytes e))) es)"

lemma length_encode_string: "length (encode_string e) = 32 + padded_len (length (string_bytes e))"
  by (simp add: encode_string_def)

lemma length_encode_strings: "length (concat (map encode_string es)) = strings_size es"
  by (induction es) (simp_all add: strings_size_def length_encode_string)

lemma length_string_offsets [simp]: "length (string_offsets cur es) = length es"
  by (induction es arbitrary: cur) simp_all

lemma unat_of_nat_exact: "n < 2 ^ 64 \<Longrightarrow> unat (of_nat n :: u64) = n"
  by (simp add: unat_of_nat)

lemma unat_add_exact: "unat a + unat b < 2 ^ 64 \<Longrightarrow> unat (a + b :: u64) = unat a + unat b"
  by (simp add: unat_word_ariths)

lemma string_offsets_nth:
  assumes "i < length es" and "unat cur + strings_size es < 2 ^ 64"
  shows "unat (string_offsets cur es ! i) = unat cur + strings_size (take i es)"
  using assms
proof (induction es arbitrary: cur i)
  case (Cons e es)
  let ?n = "32 + padded_len (length (string_bytes e))"
  have fits: "unat cur + ?n + strings_size es < 2 ^ 64" using Cons.prems(2) by (simp add: strings_size_def)
  have step: "32 + of_nat (padded_len (length (string_bytes e))) = (of_nat ?n :: u64)" by simp
  have "unat (of_nat ?n :: u64) = ?n" using fits by (intro unat_of_nat_exact) simp
  then have "unat (cur + of_nat ?n) = unat cur + ?n"
    using fits by (subst unat_add_exact) simp_all
  then have "unat (cur + (32 + of_nat (padded_len (length (string_bytes e))))) = unat cur + ?n"
    unfolding step .
  with Cons fits show ?case by (cases i) (auto simp: strings_size_def)
qed simp

text \<open>The arguments of the initialisation, read back.\<close>

definition decode_initialize :: "bytes \<Rightarrow> (nat list \<times> nat \<times> nat list \<times> bytes list) option" where
  "decode_initialize args = do {
     validators_offset \<leftarrow> word_at args 0;
     admin \<leftarrow> word_at args 32;
     settings \<leftarrow> read_all (word_at args) [64, 96, 128, 160];
     enodes_offset \<leftarrow> word_at args 192;
     validators \<leftarrow> words_at args validators_offset;
     enodes \<leftarrow> strings_at args enodes_offset;
     Some (validators, admin, settings, enodes)
   }"

lemma words_all_32: "\<forall>w\<in>set (initialize_words validators admin config enodes). length w = 32"
  by (auto simp: initialize_words_def)

lemma length_initialize_words:
  "length (initialize_words validators admin config enodes) = 9 + length validators + length enodes"
  by (simp add: initialize_words_def)

lemmas initialize_word =
  word_at_concat [OF words_all_32, unfolded length_initialize_words]

definition initialize_size :: "address list \<Rightarrow> string list \<Rightarrow> nat" where
  "initialize_size validators enodes = 32 * (9 + length validators + length enodes) + strings_size enodes"

lemma u64_fits_word: "unat (v :: u64) < 256 ^ 32"
  using unsigned_less [of v, where 'a = nat] by simp

lemma initialize_validators:
  assumes "length validators < 2 ^ 64"
  shows "words_at (concat (initialize_words validators admin config enodes) @ post) 224 = Some (map unat validators)"
proof -
  let ?W = "initialize_words validators admin config enodes"
  have "word_at (concat ?W @ post) (32 * 7) = Some (length validators)"
    using assms by (subst initialize_word) (simp_all add: initialize_words_def)
  moreover have "word_at (concat ?W @ post) (224 + 32 + 32 * i) = Some (unat (validators ! i))"
    if "i < length validators" for i
  proof -
    have "word_at (concat ?W @ post) (32 * (8 + i)) = Some (unat (validators ! i))"
      using that by (subst initialize_word) (simp_all add: initialize_words_def nth_append)
    then show ?thesis by (simp add: algebra_simps)
  qed
  ultimately show ?thesis by (simp add: words_at_def read_all_nth)
qed

lemma encode_strings_at:
  assumes "i < length es" and "strings_size es < 256 ^ 32"
  shows "bytes_at (pre @ concat (map encode_string es)) (length pre + strings_size (take i es))
    = Some (string_bytes (es ! i))"
proof -
  have split: "es = take i es @ es ! i # drop (Suc i) es" using assms(1) by (simp add: id_take_nth_drop)
  have "strings_size es = strings_size (take i es) + (32 + padded_len (length (string_bytes (es ! i))))
      + strings_size (drop (Suc i) es)"
    by (subst split) (simp add: strings_size_def)
  then have short: "length (string_bytes (es ! i)) < 256 ^ 32"
    using assms(2) padded_len_ge [of "length (string_bytes (es ! i))"] by linarith
  have "pre @ concat (map encode_string es)
      = (pre @ concat (map encode_string (take i es))) @ be_bytes 32 (length (string_bytes (es ! i)))
        @ string_bytes (es ! i) @ (replicate (padded_len (length (string_bytes (es ! i))) - length (string_bytes (es ! i))) 0
        @ concat (map encode_string (drop (Suc i) es)))"
    by (subst split) (simp add: encode_string_def pad_to_word_def)
  then show ?thesis
    using bytes_at_append [OF _ short, of "pre @ concat (map encode_string (take i es))"]
    by (simp add: length_encode_strings)
qed

lemma initialize_enodes:
  assumes "initialize_size validators enodes < 2 ^ 64"
  shows "strings_at (concat (initialize_words validators admin config enodes) @ concat (map encode_string enodes))
      (256 + 32 * length validators) = Some (map string_bytes enodes)"
proof -
  let ?W = "initialize_words validators admin config enodes"
  let ?args = "concat ?W @ concat (map encode_string enodes)"
  let ?nv = "length validators" and ?ne = "length enodes"
  have fits: "32 * ?ne + strings_size enodes < 2 ^ 64" and "?ne < 2 ^ 64"
    using assms by (simp_all add: initialize_size_def)
  have start: "unat (32 * of_nat ?ne :: u64) = 32 * ?ne"
    using unat_of_nat_exact [of "32 * ?ne"] fits by simp
  have size: "length (concat ?W) = 288 + 32 * ?nv + 32 * ?ne"
    using length_concat_words [OF words_all_32] by (simp add: length_initialize_words)
  have "word_at ?args (32 * (8 + ?nv)) = Some ?ne"
    using \<open>?ne < 2 ^ 64\<close> by (subst initialize_word) (simp_all add: initialize_words_def nth_append)
  moreover have "word_at ?args (32 * (9 + ?nv + i)) = Some (32 * ?ne + strings_size (take i enodes))"
    if "i < ?ne" for i
  proof -
    have "?W ! (9 + ?nv + i) = be_bytes 32 (unat (string_offsets (32 * of_nat ?ne) enodes ! i))"
      using that by (simp add: initialize_words_def nth_append)
    then have "be_value (?W ! (9 + ?nv + i)) = unat (string_offsets (32 * of_nat ?ne) enodes ! i)"
      using u64_fits_word by simp
    then show ?thesis
      using that fits by (subst initialize_word) (simp_all add: string_offsets_nth start)
  qed
  moreover have "bytes_at ?args (288 + 32 * ?nv + (32 * ?ne + strings_size (take i enodes)))
      = Some (string_bytes (enodes ! i))" if "i < ?ne" for i
    using encode_strings_at [OF that, of "concat ?W"] fits size by (simp add: add.assoc)
  ultimately show ?thesis by (simp add: strings_at_def read_all_nth algebra_simps)
qed

lemma initialize_head:
  assumes "256 + 32 * length validators < 2 ^ 64"
  shows "map be_value (take 7 (initialize_words validators admin config enodes))
    = [224, unat admin, unat (vc_max_active_validators config), unat (vc_base_fee config),
       unat (vc_block_interval_ms config), unat (vc_epoch_length config), 256 + 32 * length validators]"
proof -
  have "unat (224 + of_nat (32 + 32 * length validators) :: u64) = 256 + 32 * length validators"
    using unat_of_nat_exact [of "256 + 32 * length validators"] assms by simp
  then show ?thesis using assms u64_fits_word by (simp add: initialize_words_def)
qed

lemma initialize_arguments:
  assumes "initialize_size validators enodes < 2 ^ 64"
  shows "decode_initialize (drop 4 (encode_initialize L validators admin config enodes))
    = Some (map unat validators, unat admin,
        map unat [vc_max_active_validators config, vc_base_fee config, vc_block_interval_ms config,
          vc_epoch_length config], map string_bytes enodes)"
proof -
  let ?W = "initialize_words validators admin config enodes"
  let ?args = "concat ?W @ concat (map encode_string enodes)"
  have few: "length validators < 2 ^ 64" "256 + 32 * length validators < 2 ^ 64"
    using assms by (simp_all add: initialize_size_def)
  have args: "drop 4 (encode_initialize L validators admin config enodes) = ?args"
    by (simp add: encode_initialize_def initialize_selector_def)
  have word: "word_at ?args (32 * i) = Some (map be_value (take 7 ?W) ! i)" if "i < 7" for i
    using that by (subst initialize_word) (simp_all add: length_initialize_words)
  have "word_at ?args 0 = Some 224" "word_at ?args 32 = Some (unat admin)"
    "word_at ?args 64 = Some (unat (vc_max_active_validators config))"
    "word_at ?args 96 = Some (unat (vc_base_fee config))"
    "word_at ?args 128 = Some (unat (vc_block_interval_ms config))"
    "word_at ?args 160 = Some (unat (vc_epoch_length config))"
    "word_at ?args 192 = Some (256 + 32 * length validators)"
    using word [of 0] word [of 1] word [of 2] word [of 3] word [of 4] word [of 5] word [of 6]
    unfolding initialize_head [OF few(2)] by simp_all
  then show ?thesis
    unfolding args decode_initialize_def
    using initialize_validators [OF few(1)] initialize_enodes [OF assms] by simp
qed

text \<open>
  C30: The hand-written call that initialises the validator contract in the genesis state follows the
  argument encoding: as long as it is shorter than 2^64 bytes, a reader of that encoding finds behind
  the selector the validators, the administrator, the four settings in their order and the bytes of
  every enode.
\<close>
theorem initialize_read_back:
  assumes "initialize_size validators enodes < 2 ^ 64"
  shows "decode_initialize (drop 4 (encode_initialize L validators admin config enodes))
    = Some (map unat validators, unat admin,
        map unat [vc_max_active_validators config, vc_base_fee config, vc_block_interval_ms config,
          vc_epoch_length config], map string_bytes enodes)"
  using assms by (rule initialize_arguments)

theorem initialize_read_back_witness:
  "decode_initialize (drop 4 (encode_initialize example_libs [1, 2] 3
      \<lparr>vc_max_active_validators = 4, vc_base_fee = 5, vc_block_interval_ms = 500, vc_epoch_length = 32\<rparr>
      [''enode://a@h:1'', ''enode://b@h:2'']))
    = Some ([1, 2], 3, [4, 5, 500, 32], [string_bytes ''enode://a@h:1'', string_bytes ''enode://b@h:2''])"
proof -
  have "initialize_size [1, 2] [''enode://a@h:1'', ''enode://b@h:2''] < 2 ^ 64"
    by (simp add: initialize_size_def strings_size_def padded_len_def string_bytes_def char_bytes_def)
  from initialize_read_back [OF this, of example_libs 3
      "\<lparr>vc_max_active_validators = 4, vc_base_fee = 5, vc_block_interval_ms = 500, vc_epoch_length = 32\<rparr>"]
  show ?thesis by simp
qed

section \<open>Managing the validators\<close>

lemma pad_other: "enode_bytes @ replicate ((32 - length enode_bytes mod 32) mod 32) 0 = pad_to_word enode_bytes"
  by (simp add: pad_to_word_def padding_other_form)

lemma small_word: "n < 256 ^ 4 \<Longrightarrow> replicate 28 0 @ be_bytes 4 n = be_bytes 32 n"
  using be_bytes_zeros [of n 4 28] by simp

text \<open>
  The call that adds a validator, built by hand with its own selector and padding, carries the
  address and the enode of the operator: behind the selector a reader of the argument encoding finds
  the address first and, at the offset named second, the bytes of the enode, for every enode shorter
  than 2^32 bytes (the length is written in four bytes).
\<close>
lemma add_validator_read_back:
  assumes "length (string_bytes enode) < 2 ^ 32"
  shows "do { a \<leftarrow> word_at (drop 4 (add_validator_data validator enode)) 0;
      off \<leftarrow> word_at (drop 4 (add_validator_data validator enode)) 32;
      e \<leftarrow> bytes_at (drop 4 (add_validator_data validator enode)) off;
      Some (a, e) } = Some (unat validator, string_bytes enode)"
proof -
  let ?e = "string_bytes enode" and ?off = "replicate 31 0 @ [0x40] :: bytes"
  let ?pad = "replicate (padded_len (length ?e) - length ?e) 0"
  let ?args = "address_to_b256 validator @ ?off @ be_bytes 32 (length ?e) @ ?e @ ?pad"
  have args: "drop 4 (add_validator_data validator enode) = ?args"
    using assms small_word [of "length ?e"] pad_other [of ?e]
    by (simp add: add_validator_data_def Let_def pad_to_word_def)
  have "word_at ?args 0 = Some (unat validator)"
    using word_at_append [of "[]" 0 "address_to_b256 validator"] by simp
  moreover have "be_value ?off = 64" using be_value_zeros [of 31 "[0x40]"] by (simp add: be_value_def)
  then have "word_at ?args 32 = Some 64"
    using word_at_append [of "address_to_b256 validator" 32 ?off] by simp
  moreover have "bytes_at ?args 64 = Some ?e"
    using bytes_at_append [of "address_to_b256 validator @ ?off" 64 ?e] assms by simp
  ultimately show ?thesis unfolding args by simp
qed

lemma add_validator_read_back_witness:
  "do { a \<leftarrow> word_at (drop 4 (add_validator_data 7 ''enode://a@h:1'')) 0;
      off \<leftarrow> word_at (drop 4 (add_validator_data 7 ''enode://a@h:1'')) 32;
      e \<leftarrow> bytes_at (drop 4 (add_validator_data 7 ''enode://a@h:1'')) off;
      Some (a, e) } = Some (7, string_bytes ''enode://a@h:1'')"
  using add_validator_read_back [of "''enode://a@h:1''" 7] by (simp add: string_bytes_def char_bytes_def)

section \<open>The answer with the validators\<close>

lemma parse_addresses_all:
  "length pre = 64 + i * 32 \<Longrightarrow>
   parse_addresses (length vs) i (pre @ concat (map address_to_b256 vs)) = vs"
proof (induction vs arbitrary: i pre)
  case (Cons a vs)
  have "parse_addresses (length vs) (i + 1) ((pre @ address_to_b256 a) @ concat (map address_to_b256 vs)) = vs"
    using Cons.prems by (intro Cons.IH) simp
  moreover have "unat a < 256 ^ 20" using unsigned_less [of a, where 'a = nat] by simp
  then have "be_value (be_bytes 20 (unat a)) = unat a" by simp
  moreover have "take 20 (drop 12 (address_to_b256 a)) = be_bytes 20 (unat a)"
    by (simp add: address_to_b256_def)
  ultimately show ?case using Cons.prems by simp
qed simp

text \<open>
  The parser of the answer with the validators reads exactly the list a contract returns, for every
  list of addresses.
\<close>

lemma address_array_read_back:
  assumes "length vs < 2 ^ 64"
  shows "parse_address_array (be_bytes 32 32 @ be_bytes 32 (length vs) @ concat (map address_to_b256 vs)) = Some vs"
proof -
  have "be_bytes 32 (length vs) = replicate 24 0 @ be_bytes 8 (length vs)"
    using be_bytes_zeros [of "length vs" 8 24] assms by simp
  moreover have "be_value (be_bytes 8 (length vs)) = length vs" using assms by simp
  ultimately show ?thesis
    using parse_addresses_all [of "be_bytes 32 32 @ be_bytes 32 (length vs)" 0 vs]
    by (simp add: parse_address_array_def)
qed

lemma query_u64_answer:
  assumes "cl_call C chain DEFAULT_VALIDATOR_CONTRACT selector = Some (be_bytes 32 n)" and "n < 2 ^ 64"
  shows "query_u64 C chain selector = of_nat n"
proof -
  have "be_bytes 32 n = replicate 24 0 @ be_bytes 8 n" using be_bytes_zeros [of n 8 24] assms(2) by simp
  then show ?thesis using assms by (simp add: query_u64_def parse_u64_answer_def)
qed

text \<open>
  C31: What the status command shows of a validator contract that answers the getters of the number
  of active validators, the base fee and the validators with the encoding of its values, and rejects
  calls whose selector is not that of one of its functions: those values, all validators and their number; and 0 for the
  block interval and the epoch length, because the selectors sent for these two are not those of
  \<open>getBlockIntervalMs()\<close> and \<open>getEpochLength()\<close>, and a rejected call is shown as 0.
\<close>
theorem status_of_contract:
  assumes "cl_parse_url C rpc_url"
    and "cl_call C chain DEFAULT_VALIDATOR_CONTRACT [0x18, 0x45, 0xef, 0xf0] = Some (be_bytes 32 active)"
    and "cl_call C chain DEFAULT_VALIDATOR_CONTRACT [0x15, 0xe8, 0x12, 0xad] = Some (be_bytes 32 fee)"
    and "cl_call C chain DEFAULT_VALIDATOR_CONTRACT [0xb7, 0xab, 0x4d, 0xb5]
      = Some (be_bytes 32 32 @ be_bytes 32 (length vs) @ concat (map address_to_b256 vs))"
    and "\<And>data. take 4 data \<notin> selectors \<Longrightarrow> cl_call C chain DEFAULT_VALIDATOR_CONTRACT data = None"
    and "[0x8c, 0x52, 0xdc, 0x81] \<notin> selectors" and "[0xc3, 0x1f, 0x3e, 0x82] \<notin> selectors"
    and "active < 2 ^ 64" and "fee < 2 ^ 64" and "length vs < 2 ^ 64"
  shows "get_validator_status C rpc_url chain
    = Inr \<lparr>vs_max_active_validators = of_nat active, vs_base_fee = of_nat fee,
        vs_block_interval_ms = 0, vs_epoch_length = 0, vs_validators = vs, vs_count = length vs\<rparr>"
proof -
  have "query_validators C chain = vs"
    using assms(4) address_array_read_back [OF assms(10)] by (simp add: query_validators_def)
  moreover have "query_u64 C chain [0x8c, 0x52, 0xdc, 0x81] = 0" "query_u64 C chain [0xc3, 0x1f, 0x3e, 0x82] = 0"
    using assms(5-7) by (simp_all add: query_u64_def)
  ultimately show ?thesis
    using assms(1) query_u64_answer [OF assms(2,8)] query_u64_answer [OF assms(3,9)]
    by (simp add: get_validator_status_def)
qed

definition ex_client :: "(unit, unit) chain_client" where
  "ex_client = \<lparr>cl_parse_enode = (\<lambda>_. True), cl_parse_key = (\<lambda>_. Some ()), cl_parse_url = (\<lambda>_. True),
     cl_send = (\<lambda>_ _ _ n. Some n), cl_receipt = (\<lambda>_. Some True), cl_watch = (\<lambda>_. True),
     cl_call = (\<lambda>_ _ data.
       if take 4 data = [0x18, 0x45, 0xef, 0xf0] then Some (be_bytes 32 4)
       else if take 4 data = [0x15, 0xe8, 0x12, 0xad] then Some (be_bytes 32 1000)
       else if take 4 data = [0xb7, 0xab, 0x4d, 0xb5]
         then Some (be_bytes 32 32 @ be_bytes 32 (Suc (Suc 0)) @ concat (map address_to_b256 [1, 2]))
       else if take 4 data = [0x3f, 0xd3, 0xf2, 0xa4] then Some (be_bytes 32 500)
       else if take 4 data = [0xcf, 0xe8, 0xa7, 0x3b] then Some (be_bytes 32 32)
       else None)\<rparr>"

theorem status_of_contract_witness:
  "get_validator_status ex_client ''http://localhost:8545'' ()
    = Inr \<lparr>vs_max_active_validators = 4, vs_base_fee = 1000, vs_block_interval_ms = 0,
        vs_epoch_length = 0, vs_validators = [1, 2], vs_count = 2\<rparr>"
proof -
  have "get_validator_status ex_client ''http://localhost:8545'' ()
    = Inr \<lparr>vs_max_active_validators = of_nat 4, vs_base_fee = of_nat 1000, vs_block_interval_ms = 0,
        vs_epoch_length = 0, vs_validators = [1, 2], vs_count = length [1 :: address, 2]\<rparr>"
    by (rule status_of_contract [where selectors = "set [[0x18, 0x45, 0xef, 0xf0], [0x15, 0xe8, 0x12, 0xad],
        [0xb7, 0xab, 0x4d, 0xb5], [0x3f, 0xd3, 0xf2, 0xa4], [0xcf, 0xe8, 0xa7, 0x3b]]"])
      (simp_all add: ex_client_def)
  then show ?thesis by simp
qed

end
