(* ===== verification/Enodes.thy ===== *)
theory Enodes
  imports On_Chain_Config Peers Abi
begin

text \<open>
  The network addresses of the validators (\<open>rbft_consensus/on_chain_config.rs\<close>): the strings in the
  storage of the validator contract, their parser with the lookup of host names, and the records of
  the selected validators.  The parser of a record, the parser and printer of IP addresses and the
  lookup are library code.
\<close>

section \<open>Host names\<close>

record net_lib =
  nl_parse_record :: "string \<Rightarrow> node_record option"
  nl_is_ip :: "string \<Rightarrow> bool"
  nl_to_socket_addrs :: "string \<Rightarrow> nat \<Rightarrow> socket_addr list option"
  nl_show_v4 :: "32 word \<Rightarrow> string"
  nl_show_v6 :: "128 word \<Rightarrow> string"

datatype enode_error =
    MissingScheme | MissingAt | MissingPort | InvalidPort | AlreadyIp | LookupFailed | NoAddresses

definition trim_brackets :: "string \<Rightarrow> string" where
  "trim_brackets s = rev (trim_start_char (CHR '']'') (rev (trim_start_char (CHR ''['') s)))"

definition is_v4 :: "socket_addr \<Rightarrow> bool" where
  "is_v4 a = (case sa_ip a of V4 _ \<Rightarrow> True | V6 _ \<Rightarrow> False)"

definition choose_addr :: "socket_addr list \<Rightarrow> socket_addr option" where
  "choose_addr addrs =
     (case find is_v4 addrs of
        Some a \<Rightarrow> Some a
      | None \<Rightarrow> (case addrs of a # _ \<Rightarrow> Some a | [] \<Rightarrow> None))"

definition show_host :: "net_lib \<Rightarrow> ip_addr \<Rightarrow> string" where
  "show_host N ip = (case ip of V4 a \<Rightarrow> nl_show_v4 N a | V6 a \<Rightarrow> ''['' @ nl_show_v6 N a @ '']'')"

text \<open>The parts of an enode: its id, host, port and query.\<close>

definition enode_parts :: "string \<Rightarrow> enode_error + (string \<times> string \<times> nat \<times> string)" where
  "enode_parts enode_str =
     (case strip_prefix ''enode://'' enode_str of
        None \<Rightarrow> Inl MissingScheme
      | Some without_scheme \<Rightarrow>
          (case split_once ''@'' without_scheme of
             None \<Rightarrow> Inl MissingAt
           | Some (node, host_part) \<Rightarrow>
               (let (host_port, query) = (case split_once ''?'' host_part of Some p \<Rightarrow> p | None \<Rightarrow> (host_part, [])) in
                case rsplit_once (CHR '':'') host_port of
                  None \<Rightarrow> Inl MissingPort
                | Some (host, port_str) \<Rightarrow>
                    (case parse_uint u16_max port_str of
                       Inl _ \<Rightarrow> Inl InvalidPort
                     | Inr port \<Rightarrow> Inr (node, trim_brackets host, port, query)))))"

definition resolve_host :: "net_lib \<Rightarrow> string \<Rightarrow> string \<Rightarrow> nat \<Rightarrow> string \<Rightarrow> enode_error + string" where
  "resolve_host N node host port query =
     (case nl_to_socket_addrs N host port of
        None \<Rightarrow> Inl LookupFailed
      | Some addrs \<Rightarrow>
          (case choose_addr addrs of
             None \<Rightarrow> Inl NoAddresses
           | Some a \<Rightarrow>
               Inr (''enode://'' @ node @ ''@'' @ show_host N (sa_ip a) @ '':'' @ show_dec port @
                 (if query = [] then [] else ''?'' @ query))))"

definition resolve_enode_hostname :: "net_lib \<Rightarrow> string \<Rightarrow> enode_error + string" where
  "resolve_enode_hostname N enode_str =
     (case enode_parts enode_str of
        Inl e \<Rightarrow> Inl e
      | Inr (node, host, port, query) \<Rightarrow>
          if nl_is_ip N host then Inl AlreadyIp else resolve_host N node host port query)"

text \<open>The error is that of the first parser, of the lookup, or of the second parse.\<close>

datatype parse_enode_error = NotResolved enode_error | AfterDns

definition parse_enode_with_dns :: "net_lib \<Rightarrow> string \<Rightarrow> parse_enode_error + node_record" where
  "parse_enode_with_dns N enode_str =
     (case nl_parse_record N enode_str of
        Some r \<Rightarrow> Inr r
      | None \<Rightarrow>
          (case resolve_enode_hostname N enode_str of
             Inl e \<Rightarrow> Inl (NotResolved e)
           | Inr rewritten \<Rightarrow>
               (case nl_parse_record N rewritten of Some r \<Rightarrow> Inr r | None \<Rightarrow> Inl AfterDns)))"

section \<open>Strings in contract storage\<close>

definition storage_or_zero :: "slots \<Rightarrow> 256 word \<Rightarrow> 256 word" where
  "storage_or_zero s k = (case s k of Some v \<Rightarrow> v | None \<Rightarrow> 0)"

text \<open>\<open>try_into().unwrap_or(0)\<close> to a \<open>usize\<close>.\<close>

definition to_usize_or_zero :: "256 word \<Rightarrow> nat" where
  "to_usize_or_zero w = (if unat w < 2 ^ 64 then unat w else 0)"

definition long_string_bytes :: "libs \<Rightarrow> slots \<Rightarrow> 256 word \<Rightarrow> nat \<Rightarrow> bytes" where
  "long_string_bytes L s string_slot len =
     (let data_start_slot = keccak256 L (u256_bytes string_slot);
          num_slots = (len + 31) div 32
      in take len (concat (map (\<lambda>j. u256_bytes (storage_or_zero s (data_start_slot + of_nat j))) [0..<num_slots])))"

text \<open>
  The string of a slot, \<^const>\<open>None\<close> when the entry is skipped: a short string sits in the slot with
  twice its length in the last byte, a long one behind the hash of the slot.
\<close>

definition read_enode_string :: "libs \<Rightarrow> utf8_lib \<Rightarrow> slots \<Rightarrow> 256 word \<Rightarrow> string option" where
  "read_enode_string L U s string_slot =
     (let string_data = storage_or_zero s string_slot;
          bs = u256_bytes string_data;
          last_byte = unat (bs ! 31)
      in if even last_byte
         then let len = last_byte div 2 in
              if len > 0 \<and> len \<le> 31 then Some (u8_from_utf8_lossy U (take len bs)) else None
         else let len = to_usize_or_zero ((string_data - 1) div 2) in
              if len > 0 \<and> len \<le> 1024 then u8_from_utf8 U (long_string_bytes L s string_slot len) else None)"

text \<open>Entries that are skipped or do not parse leave no gap.\<close>

definition read_enode :: "libs \<Rightarrow> utf8_lib \<Rightarrow> net_lib \<Rightarrow> slots \<Rightarrow> 256 word \<Rightarrow> node_record option" where
  "read_enode L U N s string_slot =
     (case read_enode_string L U s string_slot of
        None \<Rightarrow> None
      | Some enode_str \<Rightarrow> (case parse_enode_with_dns N enode_str of Inr r \<Rightarrow> Some r | Inl _ \<Rightarrow> None))"

definition enode_slot :: "libs \<Rightarrow> nat \<Rightarrow> 256 word" where
  "enode_slot L i = keccak256 L (u256_bytes 5) + of_nat i"

definition read_enodes :: "libs \<Rightarrow> utf8_lib \<Rightarrow> net_lib \<Rightarrow> slots \<Rightarrow> node_record list" where
  "read_enodes L U N s =
     filter_map (\<lambda>i. read_enode L U N s (enode_slot L i))
       [0..<min (to_usize_or_zero (storage_or_zero s 5)) MAX_VALIDATORS]"

text \<open>The record at the position of each selected validator among all validators.\<close>

definition enodes_of :: "address list \<Rightarrow> address list \<Rightarrow> node_record list \<Rightarrow> node_record list" where
  "enodes_of selected all enodes =
     filter_map (\<lambda>a. case position (\<lambda>b. b = a) all of
         None \<Rightarrow> None
       | Some i \<Rightarrow> if i < length enodes then Some (enodes ! i) else None) selected"

text \<open>
  \<open>selected_validator_enodes\<close> of the configuration of a block: the enodes come from the state of the
  block, the validators from the state of the epoch.
\<close>

definition selected_validator_enodes ::
  "libs \<Rightarrow> utf8_lib \<Rightarrow> net_lib \<Rightarrow> provider \<Rightarrow> u64 \<Rightarrow> node_record list option" where
  "selected_validator_enodes L U N P block_number =
     map_option (\<lambda>config.
         case state_for P block_number block_number of
           None \<Rightarrow> []
         | Some current \<Rightarrow>
             enodes_of (oc_selected_validators config) (oc_all_validators config) (read_enodes L U N current))
       (get_on_chain_config L P block_number)"

end
