(* ===== verification/Enodes_Properties.thy ===== *)
theory Enodes_Properties
  imports Enodes Node_Example
begin

text \<open>
  The enodes a node reads from the contract: the storage layout of strings read back, the lookup of
  host names, and which record a selected validator gets.
\<close>

section \<open>Words and bytes\<close>

lemma be_value_bound: "be_value bs < 256 ^ length bs"
proof (induction bs rule: rev_induct)
  case (snoc b bs)
  have "unat b < 256" using unsigned_less [of b, where 'a = nat] by simp
  moreover have "be_value bs * 256 + 256 \<le> 256 ^ length bs * 256" using snoc by (simp flip: mult_Suc)
  ultimately show ?case by simp
qed (simp add: be_value_def)

lemma u256_bytes_of_value:
  assumes "length bs = 32" shows "u256_bytes (of_nat (be_value bs)) = bs"
proof -
  have "be_value bs < 2 ^ 256" using be_value_bound [of bs] assms by simp
  then have "unat (of_nat (be_value bs) :: 256 word) = be_value bs" by (simp add: unat_of_nat)
  then show ?thesis using be_bytes_value [of bs] assms by (simp add: u256_bytes_def)
qed

lemma u256_last_byte: "u256_bytes w ! 31 = of_nat (unat w mod 256)"
proof -
  have "be_bytes 32 (unat w) = be_bytes 31 (unat w div 256) @ [of_nat (unat w mod 256)]"
    using be_bytes.simps(2) [of 31] by simp
  then show ?thesis by (simp add: u256_bytes_def nth_append)
qed

lemma concat_chunks:
  "length bs = 32 * n \<Longrightarrow> concat (map (\<lambda>j. take 32 (drop (32 * j) bs)) [0..<n]) = bs"
proof (induction n arbitrary: bs)
  case (Suc n)
  have "concat (map (\<lambda>j. take 32 (drop (32 * j) bs)) [0..<Suc n])
      = concat (map (\<lambda>j. take 32 (drop (32 * j) (take (32 * n) bs))) [0..<n]) @ take 32 (drop (32 * n) bs)"
    by (auto simp: drop_take min_def intro!: arg_cong [of _ _ concat] map_cong)
  also have "\<dots> = take (32 * n) bs @ drop (32 * n) bs" using Suc.prems by (subst Suc.IH) simp_all
  finally show ?case by simp
qed simp

lemma ascii_bytes: "is_ascii s \<Longrightarrow> length (string_bytes s) = length s"
  by (induction s) (simp_all add: is_ascii_def string_bytes_def char_bytes_def)

section \<open>The storage layout of strings\<close>

definition stores_string :: "libs \<Rightarrow> slots \<Rightarrow> 256 word \<Rightarrow> bytes \<Rightarrow> bool" where
  "stores_string L s slot bs \<longleftrightarrow>
     (if length bs \<le> 31
      then s slot = Some (of_nat (be_value (bs @ replicate (31 - length bs) 0 @ [of_nat (2 * length bs)])))
      else s slot = Some (of_nat (2 * length bs + 1)) \<and>
        (\<forall>j < (length bs + 31) div 32. s (keccak256 L (u256_bytes slot) + of_nat j)
           = Some (of_nat (be_value (take 32 (drop (32 * j) (pad_to_word bs)))))))"

lemma short_string_read_back:
  assumes "stores_string L s slot bs" and "length bs \<le> 31" and "bs \<noteq> []"
  shows "read_enode_string L U s slot = Some (u8_from_utf8_lossy U bs)"
proof -
  let ?b = "bs @ replicate (31 - length bs) 0 @ [of_nat (2 * length bs)] :: bytes"
  have "u256_bytes (storage_or_zero s slot) = ?b"
    using assms by (simp add: stores_string_def storage_or_zero_def u256_bytes_of_value)
  moreover have "unat (of_nat (2 * length bs) :: u8) = 2 * length bs"
    using assms(2) by (simp add: unat_of_nat del: of_nat_mult)
  ultimately show ?thesis
    using assms(2,3) by (simp add: read_enode_string_def Let_def nth_append del: of_nat_mult)
qed

lemma short_ascii_read_back:
  assumes "utf8_laws U" and "is_ascii e" and "e \<noteq> []" and "length e \<le> 31"
    and "stores_string L s slot (string_bytes e)"
  shows "read_enode_string L U s slot = Some e"
proof -
  have "string_bytes e \<noteq> []" using ascii_bytes [OF assms(2)] assms(3) by auto
  then show ?thesis
    using short_string_read_back [OF assms(5)] ascii_bytes [OF assms(2)] assms(1,2,4) by (simp add: utf8_laws_def)
qed

lemma long_length:
  assumes "n \<le> 1024"
  shows "to_usize_or_zero ((of_nat (2 * n + 1) - 1) div 2) = n" and "odd (unat (of_nat (unat (of_nat (2 * n + 1) :: 256 word) mod 256) :: u8))"
proof -
  have "unat (of_nat (2 * n) :: 256 word) = 2 * n" using assms by (simp add: unat_of_nat del: of_nat_mult)
  then have "unat ((of_nat (2 * n) :: 256 word) div 2) = n" by (simp add: unat_div del: of_nat_mult)
  then show "to_usize_or_zero ((of_nat (2 * n + 1) - 1) div 2) = n"
    using assms by (simp add: to_usize_or_zero_def)
  have "unat (of_nat (2 * n + 1) :: 256 word) = 2 * n + 1"
    using assms by (simp add: unat_of_nat del: of_nat_mult of_nat_add of_nat_Suc)
  then have "unat (of_nat (unat (of_nat (2 * n + 1) :: 256 word) mod 256) :: u8) = (2 * n + 1) mod 256"
    by (simp add: unat_of_nat)
  then show "odd (unat (of_nat (unat (of_nat (2 * n + 1) :: 256 word) mod 256) :: u8))"
    by (simp add: dvd_mod_iff)
qed

lemma long_string_read_back:
  assumes "stores_string L s slot bs" and "31 < length bs" and "length bs \<le> 1024"
  shows "read_enode_string L U s slot = u8_from_utf8 U bs"
proof -
  let ?n = "length bs" and ?m = "(length bs + 31) div 32"
  have data: "storage_or_zero s slot = of_nat (2 * ?n + 1)"
    using assms(1,2) by (simp add: stores_string_def storage_or_zero_def)
  have chunk: "u256_bytes (storage_or_zero s (keccak256 L (u256_bytes slot) + of_nat j))
      = take 32 (drop (32 * j) (pad_to_word bs))" if "j < ?m" for j
  proof -
    have "length (take 32 (drop (32 * j) (pad_to_word bs))) = 32"
      using that by (simp add: padded_len_def)
    with that assms(1,2) show ?thesis
      by (simp add: stores_string_def storage_or_zero_def u256_bytes_of_value)
  qed
  have "concat (map (\<lambda>j. take 32 (drop (32 * j) (pad_to_word bs))) [0..<?m]) = pad_to_word bs"
    by (rule concat_chunks) (simp add: padded_len_def)
  moreover have "map (\<lambda>j. u256_bytes (storage_or_zero s (keccak256 L (u256_bytes slot) + of_nat j))) [0..<?m]
      = map (\<lambda>j. take 32 (drop (32 * j) (pad_to_word bs))) [0..<?m]"
    using chunk by simp
  ultimately have "long_string_bytes L s slot ?n = bs"
    unfolding long_string_bytes_def Let_def by (simp only: take_pad_to_word)
  then show ?thesis
    using assms(2,3) long_length [OF assms(3)]
    by (auto simp: read_enode_string_def Let_def data u256_last_byte simp del: of_nat_add of_nat_mult of_nat_Suc)
qed

text \<open>
  An enode is read from the contract's storage as it was written: when a slot holds a string of 1
  to 1024 ASCII characters in Solidity's layout (up to 31 bytes in the slot itself, longer ones in the
  slots from the hash of the slot on), the node reads that string.
\<close>
lemma enode_string_read_back:
  assumes "utf8_laws U" and "is_ascii e" and "e \<noteq> []" and "length e \<le> 1024"
    and "stores_string L s slot (string_bytes e)"
  shows "read_enode_string L U s slot = Some e"
proof (cases "length e \<le> 31")
  case True
  with assms show ?thesis by (intro short_ascii_read_back)
next
  case False
  then show ?thesis
    using long_string_read_back [OF assms(5)] ascii_bytes [OF assms(2)] assms(1,2,4) by (simp add: utf8_laws_def)
qed

section \<open>The records of the selected validators\<close>

lemma filter_map_all: "(\<And>x. x \<in> set xs \<Longrightarrow> g x = Some (h x)) \<Longrightarrow> filter_map g xs = map h xs"
  by (induction xs) auto

lemma filter_map_append: "filter_map g (xs @ ys) = filter_map g xs @ filter_map g ys"
  by (induction xs) (auto split: option.splits)

lemma position_of_nth: "distinct xs \<Longrightarrow> i < length xs \<Longrightarrow> position (\<lambda>x. x = xs ! i) xs = Some i"
  by (simp add: position_Some_iff nth_eq_iff_index_eq)

lemma find_zip_nth:
  "distinct xs \<Longrightarrow> i < length xs \<Longrightarrow> i < length ys \<Longrightarrow>
   find (\<lambda>(a, _). a = xs ! i) (zip xs ys) = Some (xs ! i, ys ! i)"
  by (auto simp: find_Some_iff nth_eq_iff_index_eq intro!: exI [of _ i])

lemma config_validators:
  assumes "get_on_chain_config L P n = Some config"
  shows "subseq (oc_selected_validators config) (oc_all_validators config)
    \<and> length (oc_all_validators config) \<le> MAX_VALIDATORS"
  using assms select_validators_subset
    le_trans [OF read_validators_bound min.cobounded2]
  by (auto simp: get_on_chain_config_def empty_config_def Let_def split: option.splits if_splits)

text \<open>The enodes of a state: one record per validator, in their order.\<close>

definition enodes_stored ::
  "libs \<Rightarrow> utf8_lib \<Rightarrow> net_lib \<Rightarrow> slots \<Rightarrow> (address \<Rightarrow> node_record) \<Rightarrow> nat set \<Rightarrow> address list \<Rightarrow> bool" where
  "enodes_stored L U N s record_of unreadable all \<longleftrightarrow>
     storage_or_zero s 5 = of_nat (length all) \<and>
     (\<forall>i < length all. read_enode L U N s (enode_slot L i)
        = (if i \<in> unreadable then None else Some (record_of (all ! i))))"

lemma read_enodes_stored:
  assumes "enodes_stored L U N s record_of unreadable all" and "length all \<le> MAX_VALIDATORS"
  shows "read_enodes L U N s
    = map record_of (map (\<lambda>i. all ! i) (filter (\<lambda>i. i \<notin> unreadable) [0..<length all]))"
proof -
  let ?g = "\<lambda>i. read_enode L U N s (enode_slot L i)"
  have "unat (of_nat (length all) :: 256 word) = length all"
    using assms(2) by (simp add: unat_of_nat MAX_VALIDATORS_def)
  then have "min (to_usize_or_zero (storage_or_zero s 5)) MAX_VALIDATORS = length all"
    using assms by (simp add: enodes_stored_def to_usize_or_zero_def MAX_VALIDATORS_def)
  moreover have parsed: "filter_map ?g xs = map (\<lambda>i. record_of (all ! i)) (filter (\<lambda>i. i \<notin> unreadable) xs)"
    if "set xs \<subseteq> {..<length all}" for xs
    using that assms(1) by (induction xs) (auto simp: enodes_stored_def)
  have "filter_map ?g [0..<length all] = map (\<lambda>i. record_of (all ! i)) (filter (\<lambda>i. i \<notin> unreadable) [0..<length all])"
    by (rule parsed) auto
  ultimately show ?thesis by (simp add: read_enodes_def o_def)
qed

lemma read_enodes_complete:
  "enodes_stored L U N s record_of {} all \<Longrightarrow> length all \<le> MAX_VALIDATORS \<Longrightarrow>
   read_enodes L U N s = map record_of all"
  by (simp add: read_enodes_stored map_nth)

lemma read_enodes_gap:
  assumes "enodes_stored L U N s record_of {k} all" and "length all \<le> MAX_VALIDATORS" and "k < length all"
  shows "read_enodes L U N s = map record_of (remove_nth k all)"
proof -
  have "[0..<length all] = [0..<k] @ k # [Suc k..<length all]"
    using assms(3) upt_add_eq_append [of 0 k "length all - k"] by (simp add: upt_conv_Cons)
  then have "filter (\<lambda>i. i \<notin> {k}) [0..<length all] = [0..<k] @ [Suc k..<length all]" by simp
  moreover have "map ((!) all) ([0..<k] @ [Suc k..<length all]) = remove_nth k all"
    using assms(3) by (intro nth_equalityI) (auto simp: remove_nth_def nth_append)
  ultimately show ?thesis using read_enodes_stored [OF assms(1,2)] by simp
qed

lemma enodes_of_map:
  assumes "distinct all" and "set selected \<subseteq> set all"
  shows "enodes_of selected all (map record_of all) = map record_of selected"
  unfolding enodes_of_def
proof (rule filter_map_all)
  fix a assume "a \<in> set selected"
  then obtain i where "i < length all" "a = all ! i" using assms(2) by (metis in_set_conv_nth subsetD)
  then show "(case position (\<lambda>b. b = a) all of None \<Rightarrow> None
      | Some i \<Rightarrow> if i < length (map record_of all) then Some (map record_of all ! i) else None) = Some (record_of a)"
    using position_of_nth [OF assms(1)] by simp
qed

lemma enodes_of_prefix:
  assumes "distinct all" and "length es \<le> length all"
  shows "enodes_of all all es = es"
proof -
  have "enodes_of all all es = filter_map (\<lambda>i. if i < length es then Some (es ! i) else None) [0..<length all]"
  proof -
    have "filter_map (\<lambda>a. case position (\<lambda>b. b = a) all of
         None \<Rightarrow> None | Some i \<Rightarrow> if i < length es then Some (es ! i) else None) (map ((!) all) ks)
       = filter_map (\<lambda>i. if i < length es then Some (es ! i) else None) ks"
      if "set ks \<subseteq> {..<length all}" for ks
      using that position_of_nth [OF assms(1)] by (induction ks) auto
    from this [of "[0..<length all]"] show ?thesis by (simp add: enodes_of_def map_nth atLeast0LessThan)
  qed
  moreover have "[0..<length all] = [0..<length es] @ [length es..<length all]"
    using assms(2) upt_add_eq_append [of 0 "length es" "length all - length es"] by simp
  moreover have "filter_map (\<lambda>i. if i < length es then Some (es ! i) else None) ks = []"
    if "set ks \<subseteq> {length es..}" for ks using that by (induction ks) auto
  moreover have "filter_map (\<lambda>i. if i < length es then Some (es ! i) else None) [0..<length es] = map ((!) es) [0..<length es]"
    by (rule filter_map_all) simp
  ultimately show ?thesis by (simp add: filter_map_append map_nth subset_eq)
qed

text \<open>
  When the state of a block holds one readable enode for every validator of the epoch, in the
  order of the validators, every selected validator gets its own record, so that transactions for
  express delivery go to the peer of the next proposer.
\<close>
lemma enodes_of_selected:
  assumes "get_on_chain_config L P n = Some config" and "state_for P n n = Some s"
    and "distinct (oc_all_validators config)"
    and "enodes_stored L U N s record_of {} (oc_all_validators config)"
    and "next_proposer_for_current_round st \<in> set (oc_selected_validators config)"
  shows "\<exists>enodes. selected_validator_enodes L U N P n = Some enodes
    \<and> enodes = map record_of (oc_selected_validators config)
    \<and> proposer_peer st (oc_selected_validators config) enodes
        = Some (nr_id (record_of (next_proposer_for_current_round st)))"
proof -
  let ?all = "oc_all_validators config" and ?sel = "oc_selected_validators config"
  from config_validators [OF assms(1)] have sub: "subseq ?sel ?all" and few: "length ?all \<le> MAX_VALIDATORS" by auto
  have "set ?sel \<subseteq> set ?all" using sub by (auto simp: subseq_conv_nths dest: in_set_nthsD)
  then have "selected_validator_enodes L U N P n = Some (map record_of ?sel)"
    using assms read_enodes_complete [OF assms(4) few]
    by (simp add: selected_validator_enodes_def enodes_of_map)
  moreover obtain i where "i < length ?sel" "?sel ! i = next_proposer_for_current_round st"
    using assms(5) by (metis in_set_conv_nth)
  moreover have "distinct ?sel" using sub assms(3) by (auto simp: subseq_conv_nths)
  ultimately show ?thesis
    using find_zip_nth [of ?sel i "map record_of ?sel"] by (simp add: proposer_peer_def)
qed

text \<open>
  One unreadable enode shifts those behind it: if the \<open>k\<close>-th entry cannot be parsed or its host
  name not be resolved and all validators are selected, then for every later validator (but the last)
  the node uses the record of its successor; when such a validator is the next proposer, express
  delivery sends its transactions to another peer.
\<close>
lemma unreadable_enode_shifts:
  assumes "get_on_chain_config L P n = Some config" and "state_for P n n = Some s"
    and "distinct (oc_all_validators config)"
    and "oc_selected_validators config = oc_all_validators config"
    and "enodes_stored L U N s record_of {k} (oc_all_validators config)"
    and "k \<le> i" and "i + 1 < length (oc_all_validators config)"
    and "next_proposer_for_current_round st = oc_all_validators config ! i"
  shows "\<exists>enodes. selected_validator_enodes L U N P n = Some enodes
    \<and> proposer_peer st (oc_selected_validators config) enodes
        = Some (nr_id (record_of (oc_all_validators config ! (i + 1))))"
proof -
  let ?all = "oc_all_validators config"
  let ?es = "map record_of (remove_nth k ?all)"
  have k: "k < length ?all" using assms(6,7) by simp
  have "read_enodes L U N s = ?es"
    using read_enodes_gap [OF assms(5) _ k] config_validators [OF assms(1)] by simp
  moreover have len: "length ?es = length ?all - 1" using remove_nth_props(3) [OF k assms(3)] by simp
  ultimately have "selected_validator_enodes L U N P n = Some ?es"
    using assms(1-4) enodes_of_prefix [OF assms(3), of ?es]
    by (simp add: selected_validator_enodes_def)
  moreover have "?es ! i = record_of (?all ! (i + 1))"
    using assms(6,7) len by (simp add: remove_nth_def nth_append)
  ultimately show ?thesis
    using find_zip_nth [OF assms(3), of i ?es] assms(4,7,8) len by (simp add: proposer_peer_def)
qed

section \<open>An example\<close>

text \<open>
  Two validators with an enode each, the first one readable or not, in an example of the libraries
  where the arrays of validators and enodes start at known slots.
\<close>

definition sample_utf8 :: utf8_lib where
  "sample_utf8 = \<lparr>u8_from_utf8 = (\<lambda>bs. Some (map (\<lambda>b. char_of (unat b)) bs)),
     u8_from_utf8_lossy = map (\<lambda>b. char_of (unat b))\<rparr>"

lemma sample_utf8_laws: "utf8_laws sample_utf8"
proof -
  have "map (\<lambda>b. char_of (unat b)) (string_bytes s) = s" if "is_ascii s" for s
    using that by (induction s) (simp_all add: is_ascii_def string_bytes_def char_bytes_def unat_of_nat)
  then show ?thesis by (simp add: utf8_laws_def sample_utf8_def)
qed

definition sample_record :: "address \<Rightarrow> node_record" where
  "sample_record a = \<lparr>nr_id = ucast a, nr_address = V4 0x7F000001, nr_tcp_port = 30303, nr_udp_port = 30303\<rparr>"

definition sample_net :: net_lib where
  "sample_net = \<lparr>nl_parse_record = (\<lambda>e. if e = ''e1'' then Some (sample_record 1)
       else if e = ''e2'' then Some (sample_record 2) else None),
     nl_is_ip = (\<lambda>_. False), nl_to_socket_addrs = (\<lambda>_ _. None), nl_show_v4 = (\<lambda>_. []), nl_show_v6 = (\<lambda>_. [])\<rparr>"

definition short_slot :: "bytes \<Rightarrow> 256 word" where
  "short_slot bs = of_nat (be_value (bs @ replicate (31 - length bs) 0 @ [of_nat (2 * length bs)]))"

definition sample_slots :: "string \<Rightarrow> slots" where
  "sample_slots first k =
     (if k = 0 \<or> k = 5 then Some 2
      else if k = 1000 then Some 1
      else if k = 1001 then Some 2
      else if k = 6000 then Some (short_slot (string_bytes first))
      else if k = 6001 then Some (short_slot (string_bytes ''e2''))
      else None)"

definition sample_provider :: "string \<Rightarrow> provider" where
  "sample_provider first = \<lparr>pv_latest = Some (sample_slots first), pv_state_at = (\<lambda>_. None), pv_header_hash = (\<lambda>_. None)\<rparr>"

definition sample_libs :: libs where
  "sample_libs = example_libs\<lparr>keccak256 := (\<lambda>bs. 1000 * (1 + ucast (last bs)))\<rparr>"

lemma sample_array_slots:
  "keccak256 sample_libs (replicate 32 0) = 1000" "keccak256 sample_libs (u256_bytes 5) = 6000"
proof -
  have "last (u256_bytes 5) = 5"
    using u256_last_byte [of 5] by (simp add: last_conv_nth flip: length_greater_0_conv)
  then show "keccak256 sample_libs (u256_bytes 5) = 6000" by (simp add: sample_libs_def)
qed (simp add: sample_libs_def last_replicate)

lemma sample_config:
  "get_on_chain_config sample_libs (sample_provider e) 1 = Some \<lparr>oc_all_validators = [1, 2],
     oc_selected_validators = [1, 2], oc_max_validators = 4, oc_base_fee = 4761904761905,
     oc_block_interval_ms = 1000, oc_epoch_length = 32\<rparr>"
  by (simp add: get_on_chain_config_def state_for_def sample_provider_def read_u64_def sample_slots_def
      Let_def MAX_VALIDATORS_def read_validators_def sample_array_slots slot_add_def upt_rec select_validators_def)

lemma sample_stores:
  "stores_string sample_libs (sample_slots e) 6001 (string_bytes ''e2'')"
  "length (string_bytes e) \<le> 31 \<Longrightarrow> stores_string sample_libs (sample_slots e) 6000 (string_bytes e)"
  by (simp_all add: stores_string_def sample_slots_def short_slot_def string_bytes_def char_bytes_def)

lemma sample_strings:
  "read_enode_string sample_libs sample_utf8 (sample_slots e) 6001 = Some ''e2''"
  "is_ascii e \<Longrightarrow> e \<noteq> [] \<Longrightarrow> length e \<le> 31 \<Longrightarrow>
     read_enode_string sample_libs sample_utf8 (sample_slots e) 6000 = Some e"
  by (rule short_ascii_read_back [OF sample_utf8_laws _ _ _ sample_stores(1)]; simp add: is_ascii_def)
    (rule short_ascii_read_back [OF sample_utf8_laws _ _ _ sample_stores(2)]; simp add: ascii_bytes)

lemma sample_reads:
  "read_enode sample_libs sample_utf8 sample_net (sample_slots e) 6001 = Some (sample_record 2)"
  "read_enode sample_libs sample_utf8 sample_net (sample_slots ''e1'') 6000 = Some (sample_record 1)"
  "read_enode sample_libs sample_utf8 sample_net (sample_slots ''bad'') 6000 = None"
  by (simp_all add: read_enode_def sample_strings is_ascii_def parse_enode_with_dns_def sample_net_def
      resolve_enode_hostname_def enode_parts_def)

lemma sample_stored:
  "enodes_stored sample_libs sample_utf8 sample_net (sample_slots ''e1'') sample_record {} [1, 2]"
  "enodes_stored sample_libs sample_utf8 sample_net (sample_slots ''bad'') sample_record {0} [1, 2]"
  by (simp_all add: enodes_stored_def storage_or_zero_def sample_slots_def [of _ 5] enode_slot_def
      sample_array_slots sample_reads less_Suc_eq)

lemma sample_proposer: "next_proposer_for_current_round ex_start = 1"
  by (simp add: next_proposer_for_current_round_def ex_state_defs ex_message_defs chain_defs)

lemmas sample_at_block = sample_config sample_stored sample_proposer

lemma enode_string_read_back_witness:
  "read_enode_string sample_libs sample_utf8 (sample_slots ''enode://a@h:1'') 6000 = Some ''enode://a@h:1''"
  by (rule enode_string_read_back [OF sample_utf8_laws _ _ _ sample_stores(2)])
    (simp_all add: is_ascii_def string_bytes_def char_bytes_def)

lemma enodes_of_selected_witness:
  "\<exists>enodes. selected_validator_enodes sample_libs sample_utf8 sample_net (sample_provider ''e1'') 1 = Some enodes
    \<and> enodes = map sample_record [1, 2] \<and> proposer_peer ex_start [1, 2] enodes = Some (nr_id (sample_record 1))"
  using enodes_of_selected [OF sample_config, of "''e1''" "sample_slots ''e1''" sample_utf8 sample_net sample_record ex_start]
  by (simp add: sample_at_block state_for_def sample_provider_def)

lemma unreadable_enode_shifts_witness:
  "\<exists>enodes. selected_validator_enodes sample_libs sample_utf8 sample_net (sample_provider ''bad'') 1 = Some enodes
    \<and> proposer_peer ex_start [1, 2] enodes = Some (nr_id (sample_record 2))"
  using unreadable_enode_shifts [OF sample_config, of "''bad''" "sample_slots ''bad''" sample_utf8 sample_net sample_record 0 0 ex_start]
  by (simp add: sample_at_block state_for_def sample_provider_def)

end
