(* ===== verification/Genesis.thy ===== *)
theory Genesis
  imports Contract_Calls Enodes Qbft_Blockchain
begin

text \<open>
  The generator of a network (\<open>rbft-utils/src/genesis.rs\<close>): the file with the nodes and their keys
  (\<open>generate_nodes_csv\<close>), and the genesis state and key files made from it (\<open>create_rbft_genesis\<close>).

  Files are a map from paths to contents; writing them succeeds.  Compiling the contracts, the EVM
  that runs their initialisation, keys, addresses as text and JSON are library code.  Panics are
  values, with the files as they are at that moment.  The block interval, a float in seconds, is
  taken as the milliseconds computed from it.
\<close>

section \<open>Nodes\<close>

type_synonym files = "string \<rightharpoonup> string"

record node_data =
  nd_validator_address :: address
  nd_validator_private_key :: string
  nd_p2p_secret_key :: string
  nd_enode :: string

record evm_account =
  ea_balance :: "256 word"
  ea_code :: bytes
  ea_storage :: "256 word \<rightharpoonup> 256 word"

text \<open>What an executed transaction gives: whether it succeeded, and the storage of touched accounts.\<close>

record evm_outcome =
  eo_success :: bool
  eo_storage :: "address \<Rightarrow> (256 word \<rightharpoonup> 256 word) option"

record genesis_account =
  gac_balance :: "256 word"
  gac_code :: "bytes option"
  gac_storage :: "(256 word \<rightharpoonup> 256 word) option"

record rbft_config =
  rcf_round_change_config :: round_change_config
  rcf_validator_set_contract :: "address option"
  rcf_message_buffer_max :: nat
  rcf_message_buffer_trim_to :: nat
  rcf_idle_connection_timeout_seconds :: u64
  rcf_reconnect_max_attempts :: "32 word"
  rcf_reconnect_base_delay_ms :: u64
  rcf_reconnect_max_delay_ms :: u64
  rcf_relay_enabled :: bool

definition rbft_config_default :: rbft_config where
  "rbft_config_default = \<lparr>
     rcf_round_change_config = default_round_change_config,
     rcf_validator_set_contract = None,
     rcf_message_buffer_max = 8192,
     rcf_message_buffer_trim_to = 6144,
     rcf_idle_connection_timeout_seconds = 60,
     rcf_reconnect_max_attempts = 10,
     rcf_reconnect_base_delay_ms = 1000,
     rcf_reconnect_max_delay_ms = 30000,
     rcf_relay_enabled = False\<rparr>"

text \<open>The forks are all active from the start; only the other fields vary.\<close>

record genesis =
  ge_chain_id :: u64
  ge_rbft :: rbft_config
  ge_nonce :: u64
  ge_timestamp :: u64
  ge_gas_limit :: u64
  ge_difficulty :: "256 word"
  ge_mix_hash :: hash
  ge_coinbase :: address
  ge_alloc :: "address \<rightharpoonup> genesis_account"

record genesis_lib =
  gl_parse_address :: "string \<Rightarrow> address option"
  gl_show_address :: "address \<Rightarrow> string"
  gl_signer_address :: "string \<Rightarrow> address option"
  gl_record_string :: "socket_addr \<Rightarrow> string \<Rightarrow> string"
  gl_compile :: "(string \<Rightarrow> bytes option) option"
  gl_transact :: "address \<Rightarrow> address \<Rightarrow> bytes \<Rightarrow> (address \<rightharpoonup> evm_account) \<Rightarrow> evm_outcome option"
  gl_json :: "genesis \<Rightarrow> string"

section \<open>The file of nodes\<close>

text \<open>\<open>str::replace\<close> of the wildcard address.\<close>

function replace_wildcard :: "string \<Rightarrow> string \<Rightarrow> string" where
  "replace_wildcard hostname s =
     (case split_once ''0.0.0.0'' s of
        None \<Rightarrow> s
      | Some (u, v) \<Rightarrow> u @ hostname @ replace_wildcard hostname v)"
  by pat_completeness auto
termination
  by (relation "measure (\<lambda>(_, s). length s)") (auto dest: split_once_Some)

declare replace_wildcard.simps [simp del]

definition default_kube_namespace :: "string option \<Rightarrow> string" where
  "default_kube_namespace env =
     (case env of
        Some namespace \<Rightarrow> if trim namespace \<noteq> [] then namespace else ''rbft''
      | None \<Rightarrow> ''rbft'')"

text \<open>A drawn pair of keys: the address of the signer, its key in hex and the network key in hex.\<close>

record drawn_keys =
  dk_address :: address
  dk_key_hex :: string
  dk_p2p_hex :: string

definition node_hostname :: "bool \<Rightarrow> string \<Rightarrow> nat \<Rightarrow> string" where
  "node_hostname kube namespace i =
     (if kube then ''rbft-node-'' @ show_dec i @ ''.rbft-node.'' @ namespace @ ''.svc.cluster.local''
      else ''node'' @ show_dec i)"

definition node_enode :: "genesis_lib \<Rightarrow> bool \<Rightarrow> bool \<Rightarrow> string \<Rightarrow> nat \<Rightarrow> string \<Rightarrow> string" where
  "node_enode G docker kube namespace i p2p =
     (if docker \<or> kube
      then replace_wildcard (node_hostname kube namespace i)
             (gl_record_string G \<lparr>sa_ip = V4 0, sa_port = 30303\<rparr> p2p)
      else gl_record_string G \<lparr>sa_ip = V4 0x7F000001, sa_port = 30303 + of_nat i\<rparr> p2p)"

definition generated_node :: "genesis_lib \<Rightarrow> bool \<Rightarrow> bool \<Rightarrow> string \<Rightarrow> (nat \<Rightarrow> drawn_keys) \<Rightarrow> nat \<Rightarrow> node_data" where
  "generated_node G docker kube namespace draw i =
     \<lparr>nd_validator_address = dk_address (draw i),
      nd_validator_private_key = ''0x'' @ dk_key_hex (draw i),
      nd_p2p_secret_key = dk_p2p_hex (draw i),
      nd_enode = node_enode G docker kube namespace i (dk_p2p_hex (draw i))\<rparr>"

definition csv_header :: string where
  "csv_header = ''node_id,validator_address,validator_private_key,p2p_secret_key,enode''"

definition csv_row :: "genesis_lib \<Rightarrow> nat \<Rightarrow> node_data \<Rightarrow> string" where
  "csv_row G i nd =
     show_dec i @ '','' @ gl_show_address G (nd_validator_address nd) @ '','' @ nd_validator_private_key nd @ '','' @
     nd_p2p_secret_key nd @ '','' @ nd_enode nd"

definition csv_text :: "genesis_lib \<Rightarrow> node_data list \<Rightarrow> string" where
  "csv_text G nodes =
     concat (map (\<lambda>l. l @ [CHR 0x0A]) (csv_header # map (\<lambda>(i, nd). csv_row G i nd) (enumerate 0 nodes)))"

definition testnet_dir :: "string option \<Rightarrow> string" where
  "testnet_dir home = path_join (path_join (case home of Some h \<Rightarrow> h | None \<Rightarrow> ''.'') ''.rbft'') ''testnet''"

definition generate_nodes_csv ::
  "genesis_lib \<Rightarrow> string option \<Rightarrow> string option \<Rightarrow> nat \<Rightarrow> string option \<Rightarrow> string option \<Rightarrow> bool \<Rightarrow> bool \<Rightarrow>
   (nat \<Rightarrow> drawn_keys) \<Rightarrow> files \<Rightarrow> files" where
  "generate_nodes_csv G home env num_nodes assets_dir output_path docker kube draw fs =
     (let dir = (case assets_dir of Some d \<Rightarrow> d | None \<Rightarrow> testnet_dir home);
          path = (case output_path of Some p \<Rightarrow> p | None \<Rightarrow> path_join dir ''nodes.csv'');
          namespace = (if kube then default_kube_namespace env else [])
      in fs(path \<mapsto> csv_text G (map (generated_node G docker kube namespace draw) [0..<num_nodes])))"

text \<open>Reading it back: the first line is skipped, every other one has five fields.\<close>

datatype csv_error = WrongFieldCount nat nat | BadAddress

definition parse_node_row :: "genesis_lib \<Rightarrow> nat \<Rightarrow> string \<Rightarrow> csv_error + node_data" where
  "parse_node_row G line_num line =
     (let row = split_on (\<lambda>c. c = CHR '','') line in
      if length row \<noteq> 5 then Inl (WrongFieldCount (line_num + 1) (length row))
      else case gl_parse_address G (row ! 1) of
          None \<Rightarrow> Inl BadAddress
        | Some a \<Rightarrow> Inr \<lparr>nd_validator_address = a, nd_validator_private_key = row ! 2,
                       nd_p2p_secret_key = row ! 3, nd_enode = row ! 4\<rparr>)"

fun read_node_rows :: "genesis_lib \<Rightarrow> nat \<Rightarrow> string list \<Rightarrow> csv_error + node_data list" where
  "read_node_rows G line_num [] = Inr []"
| "read_node_rows G line_num (line # ls) =
     (if line_num = 0 then read_node_rows G 1 ls
      else case parse_node_row G line_num line of
          Inl e \<Rightarrow> Inl e
        | Inr nd \<Rightarrow> (case read_node_rows G (line_num + 1) ls of Inl e \<Rightarrow> Inl e | Inr nds \<Rightarrow> Inr (nd # nds)))"

definition read_nodes_csv :: "genesis_lib \<Rightarrow> string \<Rightarrow> csv_error + node_data list" where
  "read_nodes_csv G content = read_node_rows G 0 (text_lines content)"

section \<open>The contract's storage\<close>

definition ERC1967_IMPLEMENTATION_SLOT :: "256 word" where
  "ERC1967_IMPLEMENTATION_SLOT = 0x360894a13ba1a3210667c828492db98dca3e2076cc3735a920a3ca505d382bbc"

definition IMPLEMENTATION_ADDRESS :: address where
  "IMPLEMENTATION_ADDRESS = 0x1000"

datatype init_error = EmptyValidators | ExecutionFailed | Reverted | MissingProxyState

definition genesis_accounts :: "bytes \<Rightarrow> bytes \<Rightarrow> address \<Rightarrow> address \<Rightarrow> address \<Rightarrow> address \<rightharpoonup> evm_account" where
  "genesis_accounts impl_code proxy_code impl proxy admin =
     [admin \<mapsto> \<lparr>ea_balance = - 1, ea_code = [], ea_storage = Map.empty\<rparr>,
      impl \<mapsto> \<lparr>ea_balance = 0, ea_code = impl_code, ea_storage = Map.empty\<rparr>,
      proxy \<mapsto> \<lparr>ea_balance = 0, ea_code = proxy_code,
        ea_storage = [ERC1967_IMPLEMENTATION_SLOT \<mapsto> ucast impl]\<rparr>]"

definition initialize_proxy_storage ::
  "libs \<Rightarrow> genesis_lib \<Rightarrow> bytes \<Rightarrow> bytes \<Rightarrow> address \<Rightarrow> address \<Rightarrow> address \<Rightarrow> address list \<Rightarrow>
   validator_set_config \<Rightarrow> string list \<Rightarrow> init_error + (256 word \<rightharpoonup> 256 word)" where
  "initialize_proxy_storage L G impl_code proxy_code impl proxy admin vs config enodes =
     (if vs = [] then Inl EmptyValidators
      else case gl_transact G admin proxy (encode_initialize L vs admin config enodes)
                  (genesis_accounts impl_code proxy_code impl proxy admin) of
          None \<Rightarrow> Inl ExecutionFailed
        | Some outcome \<Rightarrow>
            if \<not> eo_success outcome then Inl Reverted
            else case eo_storage outcome proxy of
                None \<Rightarrow> Inl MissingProxyState
              | Some written \<Rightarrow> Inr ([ERC1967_IMPLEMENTATION_SLOT \<mapsto> ucast impl] ++ written))"

section \<open>The genesis state\<close>

record genesis_args =
  ga_assets_dir :: "string option"
  ga_nodes_csv :: "string option"
  ga_initial_nodes :: "nat option"
  ga_validator_contract_address :: "address option"
  ga_gas_limit :: "u64 option"
  ga_block_interval_ms :: "u64 option"
  ga_epoch_length :: "u64 option"
  ga_base_fee :: "u64 option"
  ga_max_active_validators :: "u64 option"
  ga_admin_key :: "string option"
  ga_kube :: bool
  ga_use_trusted_peers :: bool

datatype genesis_panic =
    CsvMissing | CsvUnreadable csv_error | TooFewNodes | TooManyInitial | TooFewInitial
  | CompileFailed | BytecodeMissing | AdminKeyInvalid | InitFailed init_error

definition unwrap_or :: "'a \<Rightarrow> 'a option \<Rightarrow> 'a" where
  "unwrap_or d v = (case v of Some x \<Rightarrow> x | None \<Rightarrow> d)"

definition DEFAULT_ADMIN_KEY :: string where
  "DEFAULT_ADMIN_KEY = ''0x'' @ replicate 63 (CHR ''0'') @ ''1''"

definition genesis_dir :: "genesis_args \<Rightarrow> string option \<Rightarrow> string" where
  "genesis_dir args home =
     (case ga_assets_dir args of
        Some d \<Rightarrow> d
      | None \<Rightarrow> path_join (unwrap_or ''.'' home) ''.rbft/testnet/assets'')"

text \<open>The nodes of the file, their number and the number of initial validators.\<close>

definition genesis_nodes :: "genesis_lib \<Rightarrow> genesis_args \<Rightarrow> string \<Rightarrow> files \<Rightarrow> genesis_panic + (node_data list \<times> nat \<times> nat)" where
  "genesis_nodes G args dir fs =
     (case fs (unwrap_or (path_join dir ''nodes.csv'') (ga_nodes_csv args)) of
        None \<Rightarrow> Inl CsvMissing
      | Some content \<Rightarrow>
          (case read_nodes_csv G content of
             Inl e \<Rightarrow> Inl (CsvUnreadable e)
           | Inr nodes \<Rightarrow>
               let num_nodes = length nodes mod 2 ^ 32;
                   initial = unwrap_or num_nodes (ga_initial_nodes args)
               in if num_nodes < 4 then Inl TooFewNodes
                  else if initial > num_nodes then Inl TooManyInitial
                  else if initial < 4 then Inl TooFewInitial
                  else Inr (nodes, num_nodes, initial)))"

text \<open>The codes of implementation and proxy, with the address of the proxy, if one is asked for.\<close>

definition genesis_contracts :: "genesis_lib \<Rightarrow> genesis_args \<Rightarrow> genesis_panic + (bytes \<times> bytes \<times> address) option" where
  "genesis_contracts G args =
     (case ga_validator_contract_address args of
        None \<Rightarrow> Inr None
      | Some proxy \<Rightarrow>
          (case gl_compile G of
             None \<Rightarrow> Inl CompileFailed
           | Some code \<Rightarrow>
               (case (code ''QBFTValidatorSet'', code ''ERC1967Proxy'') of
                  (Some i, Some p) \<Rightarrow> Inr (Some (i, p, proxy))
                | _ \<Rightarrow> Inl BytecodeMissing)))"

text \<open>A host name is only resolved for Kubernetes and when asked for; an error keeps the enode.\<close>

definition resolve_for_genesis :: "net_lib \<Rightarrow> string \<Rightarrow> enode_error + string" where
  "resolve_for_genesis N enode_str =
     (case enode_parts enode_str of
        Inl e \<Rightarrow> Inl e
      | Inr (node, host, port, query) \<Rightarrow>
          if nl_is_ip N host then Inr enode_str else resolve_host N node host port query)"

definition contract_enode :: "net_lib \<Rightarrow> bool \<Rightarrow> string \<Rightarrow> string" where
  "contract_enode N resolve_enodes enode_str =
     (if resolve_enodes
      then (case resolve_for_genesis N enode_str of Inr e \<Rightarrow> e | Inl _ \<Rightarrow> enode_str)
      else enode_str)"

definition resolve_enodes :: "genesis_args \<Rightarrow> string option \<Rightarrow> bool" where
  "resolve_enodes args env \<longleftrightarrow> ga_kube args \<and> (case env of Some v \<Rightarrow> v \<noteq> ''0'' | None \<Rightarrow> False)"

definition p2p_file :: "string \<Rightarrow> nat \<Rightarrow> string" where
  "p2p_file dir i = path_join dir (''p2p-secret-key'' @ show_dec i @ ''.txt'')"

definition id_file :: "string \<Rightarrow> nat \<Rightarrow> string" where
  "id_file dir i = path_join dir (''id'' @ show_dec i @ ''.txt'')"

definition key_file :: "string \<Rightarrow> nat \<Rightarrow> string" where
  "key_file dir i = path_join dir (''validator-key'' @ show_dec i @ ''.txt'')"

text \<open>The loop over the nodes: their files, and the addresses and enodes of the initial validators.\<close>

fun genesis_loop ::
  "genesis_lib \<Rightarrow> net_lib \<Rightarrow> bool \<Rightarrow> string \<Rightarrow> nat \<Rightarrow> nat \<Rightarrow> node_data list \<Rightarrow> address list \<times> string list \<times> files \<Rightarrow>
   address list \<times> string list \<times> files" where
  "genesis_loop G N resolve dir initial i [] acc = acc"
| "genesis_loop G N resolve dir initial i (nd # nds) (vs, enodes, fs) =
     genesis_loop G N resolve dir initial (i + 1) nds
       (if i < initial then vs @ [nd_validator_address nd] else vs,
        if i < initial then enodes @ [contract_enode N resolve (nd_enode nd)] else enodes,
        fs(p2p_file dir i \<mapsto> nd_p2p_secret_key nd,
           id_file dir i \<mapsto> gl_show_address G (nd_validator_address nd),
           key_file dir i \<mapsto> nd_validator_private_key nd))"

definition write_enodes :: "bool \<Rightarrow> string \<Rightarrow> node_data list \<Rightarrow> files \<Rightarrow> files" where
  "write_enodes use_trusted_peers dir nodes fs =
     fs(path_join dir ''enodes.txt'' := if use_trusted_peers then Some (join '','' (map nd_enode nodes)) else None)"

definition validator_config :: "genesis_args \<Rightarrow> nat \<Rightarrow> validator_set_config" where
  "validator_config args initial =
     \<lparr>vc_max_active_validators = unwrap_or (of_nat initial) (ga_max_active_validators args),
      vc_base_fee = unwrap_or 4761904761905 (ga_base_fee args),
      vc_block_interval_ms = unwrap_or 1000 (ga_block_interval_ms args),
      vc_epoch_length = unwrap_or 32 (ga_epoch_length args)\<rparr>"

definition admin_address :: "genesis_lib \<Rightarrow> genesis_args \<Rightarrow> address option" where
  "admin_address G args =
     (let key = unwrap_or DEFAULT_ADMIN_KEY (ga_admin_key args) in
      gl_signer_address G (unwrap_or key (strip_prefix ''0x'' key)))"

text \<open>The accounts: the funded administrator, then implementation and proxy.\<close>

definition genesis_alloc ::
  "libs \<Rightarrow> genesis_lib \<Rightarrow> (bytes \<times> bytes \<times> address) option \<Rightarrow> address \<Rightarrow> address list \<Rightarrow> validator_set_config \<Rightarrow>
   string list \<Rightarrow> init_error + (address \<rightharpoonup> genesis_account)" where
  "genesis_alloc L G contracts admin vs config enodes =
     (let alloc = [admin \<mapsto> \<lparr>gac_balance = - 1, gac_code = None, gac_storage = None\<rparr>] in
      case contracts of
        None \<Rightarrow> Inr alloc
      | Some (impl_code, proxy_code, proxy) \<Rightarrow>
          (case initialize_proxy_storage L G impl_code proxy_code IMPLEMENTATION_ADDRESS proxy admin vs config enodes of
             Inl e \<Rightarrow> Inl e
           | Inr storage \<Rightarrow>
               Inr (alloc(IMPLEMENTATION_ADDRESS \<mapsto> \<lparr>gac_balance = 0, gac_code = Some impl_code, gac_storage = None\<rparr>,
                     proxy \<mapsto> \<lparr>gac_balance = 0, gac_code = Some proxy_code, gac_storage = Some storage\<rparr>))))"

definition genesis_block :: "libs \<Rightarrow> genesis_args \<Rightarrow> (address \<rightharpoonup> genesis_account) \<Rightarrow> genesis" where
  "genesis_block L args alloc =
     \<lparr>ge_chain_id = 123123,
      ge_rbft = rbft_config_default\<lparr>rcf_validator_set_contract := ga_validator_contract_address args\<rparr>,
      ge_nonce = 0, ge_timestamp = 0, ge_gas_limit = unwrap_or 600000000 (ga_gas_limit args),
      ge_difficulty = 0, ge_mix_hash = keccak256 L (string_bytes ''rbft-genesis-prevrandao''),
      ge_coinbase = 0, ge_alloc = alloc\<rparr>"

text \<open>The whole function: the outcome, and the files it leaves.\<close>

definition create_rbft_genesis ::
  "libs \<Rightarrow> genesis_lib \<Rightarrow> net_lib \<Rightarrow> string option \<Rightarrow> string option \<Rightarrow> genesis_args \<Rightarrow> files \<Rightarrow>
   (genesis_panic + genesis) \<times> files" where
  "create_rbft_genesis L G N home env args fs =
     (let dir = genesis_dir args home in
      case genesis_nodes G args dir fs of
        Inl e \<Rightarrow> (Inl e, fs)
      | Inr (nodes, num_nodes, initial) \<Rightarrow>
          (case genesis_contracts G args of
             Inl e \<Rightarrow> (Inl e, fs)
           | Inr contracts \<Rightarrow>
               (case genesis_loop G N (resolve_enodes args env) dir initial 0 (take num_nodes nodes) ([], [], fs) of
                  (vs, enodes, fs) \<Rightarrow>
                    (let fs = write_enodes (ga_use_trusted_peers args) dir nodes fs in
                     case admin_address G args of
                       None \<Rightarrow> (Inl AdminKeyInvalid, fs)
                     | Some admin \<Rightarrow>
                         (case genesis_alloc L G contracts admin vs (validator_config args initial) enodes of
                            Inl e \<Rightarrow> (Inl (InitFailed e), fs)
                          | Inr alloc \<Rightarrow>
                              let g = genesis_block L args alloc in
                              (Inr g, fs(path_join dir ''genesis.json'' \<mapsto> gl_json G g)))))))"

end
