(* ===== verification/Genesis_Properties.thy ===== *)
theory Genesis_Properties
  imports Genesis Contract_Properties Example_Libs
begin

text \<open>
  The generator of a network: the file of nodes is read back as it was written, and what the genesis
  state and the key files of a generated network hold.
\<close>

section \<open>Text\<close>

definition plain :: "string \<Rightarrow> bool" where
  "plain s \<longleftrightarrow> CHR '','' \<notin> set s \<and> CHR 0x0A \<notin> set s \<and> CHR 0x0D \<notin> set s"

lemma split_on_sep: "\<forall>c\<in>set u. \<not> p c \<Longrightarrow> p c \<Longrightarrow> split_on p (u @ c # v) = u # split_on p v"
  by (induction u) auto

lemma split_on_ends: "\<forall>l\<in>set ls. \<forall>c\<in>set l. \<not> p c \<Longrightarrow> p e \<Longrightarrow> split_on p (concat (map (\<lambda>l. l @ [e]) ls)) = ls @ [[]]"
  by (induction ls) (simp_all add: split_on_sep)

lemma text_lines_read_back:
  assumes "\<forall>l\<in>set ls. CHR 0x0A \<notin> set l \<and> CHR 0x0D \<notin> set l"
  shows "text_lines (concat (map (\<lambda>l. l @ [CHR 0x0A]) ls)) = ls"
proof -
  have "split_on (\<lambda>c. c = CHR 0x0A) (concat (map (\<lambda>l. l @ [CHR 0x0A]) ls)) = ls @ [[]]"
    using assms by (intro split_on_ends) auto
  moreover have "map (\<lambda>l. if l \<noteq> [] \<and> last l = CHR 0x0D then butlast l else l) ls = ls"
    using assms by (intro map_idI) (metis last_in_set)
  ultimately show ?thesis by (simp add: text_lines_def)
qed

lemma plain_append [simp]: "plain (u @ v) \<longleftrightarrow> plain u \<and> plain v"
  by (auto simp: plain_def)

lemma plain_show_dec [simp]: "plain (show_dec n)"
  by (auto simp: plain_def is_ascii_digit_def Let_def dest!: show_dec_digits)

lemma split_on_plain:
  "plain u \<Longrightarrow> split_on (\<lambda>c. c = CHR '','') (u @ CHR '','' # v) = u # split_on (\<lambda>c. c = CHR '','') v"
  "plain u \<Longrightarrow> split_on (\<lambda>c. c = CHR '','') u = [u]"
  by (auto simp: plain_def intro!: split_on_sep split_on_none)

section \<open>The file of nodes\<close>

definition address_laws :: "genesis_lib \<Rightarrow> bool" where
  "address_laws G \<longleftrightarrow> (\<forall>a. gl_parse_address G (gl_show_address G a) = Some a \<and> plain (gl_show_address G a))"

definition plain_node :: "node_data \<Rightarrow> bool" where
  "plain_node nd \<longleftrightarrow> plain (nd_validator_private_key nd) \<and> plain (nd_p2p_secret_key nd) \<and> plain (nd_enode nd)"

lemma csv_row_split:
  assumes "address_laws G" and "plain_node nd"
  shows "split_on (\<lambda>c. c = CHR '','') (csv_row G i nd)
      = [show_dec i, gl_show_address G (nd_validator_address nd), nd_validator_private_key nd,
         nd_p2p_secret_key nd, nd_enode nd]"
  using assms by (simp add: csv_row_def address_laws_def plain_node_def split_on_plain)

lemma csv_row_read_back:
  "address_laws G \<Longrightarrow> plain_node nd \<Longrightarrow> parse_node_row G k (csv_row G i nd) = Inr nd"
  using csv_row_split [of G nd i] by (simp add: parse_node_row_def address_laws_def)

lemma read_node_rows_rows:
  assumes "address_laws G" and "\<forall>nd\<in>set nds. plain_node nd" and "0 < k"
  shows "read_node_rows G k (map (\<lambda>(i, nd). csv_row G i nd) (enumerate j nds)) = Inr nds"
  using assms(2,3) by (induction nds arbitrary: j k) (simp_all add: csv_row_read_back [OF assms(1)])

lemma csv_row_one_line:
  assumes "address_laws G" and "plain_node nd"
  shows "CHR 0x0A \<notin> set (csv_row G i nd) \<and> CHR 0x0D \<notin> set (csv_row G i nd)"
  using assms plain_show_dec [of i] by (auto simp: csv_row_def address_laws_def plain_node_def plain_def)

lemma csv_text_lines:
  assumes "address_laws G" and "\<forall>nd\<in>set nds. plain_node nd"
  shows "text_lines (csv_text G nds) = csv_header # map (\<lambda>(i, nd). csv_row G i nd) (enumerate 0 nds)"
proof -
  have "\<forall>l\<in>set (csv_header # map (\<lambda>(i, nd). csv_row G i nd) (enumerate 0 nds)). CHR 0x0A \<notin> set l \<and> CHR 0x0D \<notin> set l"
    using assms(2) csv_row_one_line [OF assms(1)]
    by (auto simp: csv_header_def in_set_enumerate_eq)
  from text_lines_read_back [OF this] show ?thesis by (simp add: csv_text_def)
qed

lemma csv_read_back:
  assumes "address_laws G" and "\<forall>nd\<in>set nds. plain_node nd"
  shows "read_nodes_csv G (csv_text G nds) = Inr nds"
  using csv_text_lines [OF assms] read_node_rows_rows [OF assms, of 1 0] by (simp add: read_nodes_csv_def)

section \<open>The loop over the nodes\<close>

definition node_files :: "genesis_lib \<Rightarrow> string \<Rightarrow> files \<Rightarrow> nat \<times> node_data \<Rightarrow> files" where
  "node_files G dir fs = (\<lambda>(i, nd). fs(p2p_file dir i \<mapsto> nd_p2p_secret_key nd,
     id_file dir i \<mapsto> gl_show_address G (nd_validator_address nd),
     key_file dir i \<mapsto> nd_validator_private_key nd))"

lemma genesis_loop_Cons:
  "genesis_loop G N resolve dir initial i (nd # nds) (vs, es, fs) =
    genesis_loop G N resolve dir initial (i + 1) nds
      (if i < initial then vs @ [nd_validator_address nd] else vs,
       if i < initial then es @ [contract_enode N resolve (nd_enode nd)] else es,
       node_files G dir fs (i, nd))"
  by (simp only: genesis_loop.simps node_files_def prod.case)

lemma genesis_loop_eq:
  "genesis_loop G N resolve dir initial i nds (vs, es, fs) =
    (vs @ map nd_validator_address (take (initial - i) nds),
     es @ map (\<lambda>nd. contract_enode N resolve (nd_enode nd)) (take (initial - i) nds),
     foldl (node_files G dir) fs (enumerate i nds))"
proof (induction nds arbitrary: i vs es fs)
  case (Cons nd nds)
  have "initial - i = (if i < initial then Suc (initial - Suc i) else 0)" by auto
  then show ?case by (simp add: genesis_loop_Cons Cons.IH del: genesis_loop.simps(2))
qed simp

text \<open>The files have different names.\<close>

lemma show_dec_inject [simp]: "show_dec i = show_dec j \<longleftrightarrow> i = j"
proof
  assume same: "show_dec i = show_dec j"
  have "Inr i = parse_uint (max i j) (show_dec i)" by (rule parse_uint_show [symmetric]) simp
  also have "\<dots> = Inr j" unfolding same by (rule parse_uint_show) simp
  finally show "i = j" by simp
qed simp

lemma file_names [simp]:
  "p2p_file dir i = p2p_file dir j \<longleftrightarrow> i = j" "id_file dir i = id_file dir j \<longleftrightarrow> i = j"
  "key_file dir i = key_file dir j \<longleftrightarrow> i = j"
  "p2p_file dir i \<noteq> id_file dir j" "p2p_file dir i \<noteq> key_file dir j" "id_file dir i \<noteq> key_file dir j"
  "id_file dir i \<noteq> p2p_file dir j" "key_file dir i \<noteq> p2p_file dir j" "key_file dir i \<noteq> id_file dir j"
  by (simp_all add: p2p_file_def id_file_def key_file_def path_join_def)

lemma node_files_here:
  "node_files G dir fs (i, nd) (key_file dir i) = Some (nd_validator_private_key nd)"
  "node_files G dir fs (i, nd) (id_file dir i) = Some (gl_show_address G (nd_validator_address nd))"
  "node_files G dir fs (i, nd) (p2p_file dir i) = Some (nd_p2p_secret_key nd)"
  by (simp_all add: node_files_def)

lemma node_files_other:
  assumes "\<forall>i. path \<notin> {p2p_file dir i, id_file dir i, key_file dir i}"
  shows "foldl (node_files G dir) fs nds path = fs path"
  using assms by (induction nds arbitrary: fs) (auto simp: node_files_def)

lemma node_files_later:
  assumes "\<forall>(j, _)\<in>set nds. j \<noteq> i" and "path \<in> {p2p_file dir i, id_file dir i, key_file dir i}"
  shows "foldl (node_files G dir) fs nds path = fs path"
  using assms by (induction nds arbitrary: fs) (auto simp: node_files_def)

lemma node_files_at:
  assumes "i < length nds"
  shows "foldl (node_files G dir) fs (enumerate j nds) (key_file dir (j + i)) = Some (nd_validator_private_key (nds ! i))
    \<and> foldl (node_files G dir) fs (enumerate j nds) (id_file dir (j + i)) = Some (gl_show_address G (nd_validator_address (nds ! i)))
    \<and> foldl (node_files G dir) fs (enumerate j nds) (p2p_file dir (j + i)) = Some (nd_p2p_secret_key (nds ! i))"
  using assms
proof (induction nds arbitrary: i j fs)
  case (Cons nd nds)
  show ?case
  proof (cases i)
    case 0
    have later: "\<forall>(k, _)\<in>set (enumerate (Suc j) nds). k \<noteq> j" by (auto simp: in_set_enumerate_eq)
    show ?thesis
      using node_files_later [OF later, of _ dir G "node_files G dir fs (j, nd)"] 0
      by (simp add: node_files_here)
  next
    case (Suc k)
    with Cons show ?thesis using Cons.IH [of k _ "Suc j"] by simp
  qed
qed simp

section \<open>The genesis state\<close>

lemma other_files [simp]:
  "path_join dir ''genesis.json'' \<noteq> p2p_file dir i" "path_join dir ''genesis.json'' \<noteq> id_file dir i"
  "path_join dir ''genesis.json'' \<noteq> key_file dir i" "path_join dir ''genesis.json'' \<noteq> path_join dir ''enodes.txt''"
  "p2p_file dir i \<noteq> path_join dir ''genesis.json''" "id_file dir i \<noteq> path_join dir ''genesis.json''"
  "key_file dir i \<noteq> path_join dir ''genesis.json''"
  "p2p_file dir i \<noteq> path_join dir ''enodes.txt''" "id_file dir i \<noteq> path_join dir ''enodes.txt''"
  "key_file dir i \<noteq> path_join dir ''enodes.txt''"
  by (simp_all add: p2p_file_def id_file_def key_file_def path_join_def)

lemma genesis_nodes_Inr:
  assumes "genesis_nodes G args dir fs = Inr (nodes, num_nodes, initial)"
  shows "4 \<le> initial \<and> initial \<le> num_nodes \<and> num_nodes = length nodes mod 2 ^ 32"
    and "\<exists>content. fs (unwrap_or (path_join dir ''nodes.csv'') (ga_nodes_csv args)) = Some content
      \<and> read_nodes_csv G content = Inr nodes"
  using assms by (auto simp: genesis_nodes_def Let_def split: option.splits sum.splits if_splits)

text \<open>
  The generator of the genesis state never leaves a half-made genesis file: whatever makes it
  panic, from a missing file of nodes to a reverted initialisation of the contract, the genesis file
  in the assets directory is the one that was there before.
\<close>
lemma panic_keeps_genesis:
  assumes "create_rbft_genesis L G N home env args fs = (Inl e, fs')"
  shows "fs' (path_join (genesis_dir args home) ''genesis.json'') = fs (path_join (genesis_dir args home) ''genesis.json'')"
  using assms
  by (auto simp: create_rbft_genesis_def Let_def genesis_loop_eq write_enodes_def node_files_other
      split: sum.splits option.splits prod.splits)

lemma genesis_success:
  assumes "create_rbft_genesis L G N home env args fs = (Inr g, fs')"
  obtains nodes num_nodes initial contracts admin alloc where
    "genesis_nodes G args (genesis_dir args home) fs = Inr (nodes, num_nodes, initial)"
    "genesis_contracts G args = Inr contracts" "admin_address G args = Some admin"
    "genesis_alloc L G contracts admin (map nd_validator_address (take initial nodes)) (validator_config args initial)
       (map (\<lambda>nd. contract_enode N (resolve_enodes args env) (nd_enode nd)) (take initial nodes)) = Inr alloc"
    "ge_alloc g = alloc"
    "fs' = (write_enodes (ga_use_trusted_peers args) (genesis_dir args home) nodes
        (foldl (node_files G (genesis_dir args home)) fs (enumerate 0 (take num_nodes nodes))))
          (path_join (genesis_dir args home) ''genesis.json'' \<mapsto> gl_json G g)"
proof -
  from assms obtain nodes num_nodes initial where
    n: "genesis_nodes G args (genesis_dir args home) fs = Inr (nodes, num_nodes, initial)"
    by (auto simp: create_rbft_genesis_def Let_def split: sum.splits)
  then have "min initial num_nodes = initial" using genesis_nodes_Inr(1) [OF n] by simp
  with assms n that show thesis
    by (auto simp: create_rbft_genesis_def Let_def genesis_loop_eq genesis_block_def min.commute
        split: sum.splits option.splits)
qed

lemma node_files_written:
  assumes "fs' = (write_enodes trusted dir nodes (foldl (node_files G dir) fs (enumerate 0 (take n nodes))))
      (path_join dir ''genesis.json'' \<mapsto> json)" and "i < n" and "i < length nodes"
  shows "fs' (key_file dir i) = Some (nd_validator_private_key (nodes ! i))
    \<and> fs' (id_file dir i) = Some (gl_show_address G (nd_validator_address (nodes ! i)))
    \<and> fs' (p2p_file dir i) = Some (nd_p2p_secret_key (nodes ! i))"
  using node_files_at [of i "take n nodes" G dir fs 0] assms by (simp add: write_enodes_def)

text \<open>
  The proxy holds what the EVM wrote when it ran the initialisation: \<open>initialised_with\<close> names the
  arguments a reader of the argument encoding finds in the call.
\<close>

definition initialised_with ::
  "genesis_lib \<Rightarrow> genesis \<Rightarrow> address \<Rightarrow> address \<Rightarrow> nat list \<times> nat \<times> nat list \<times> bytes list \<Rightarrow> bool" where
  "initialised_with G g proxy admin arguments \<longleftrightarrow>
     (\<exists>data accounts outcome written account.
        decode_initialize (drop 4 data) = Some arguments \<and>
        gl_transact G admin proxy data accounts = Some outcome \<and> eo_success outcome \<and>
        eo_storage outcome proxy = Some written \<and> ge_alloc g proxy = Some account \<and>
        gac_storage account = Some ([ERC1967_IMPLEMENTATION_SLOT \<mapsto> ucast IMPLEMENTATION_ADDRESS] ++ written))"

lemma genesis_alloc_initialised:
  assumes "genesis_alloc L G (Some (impl_code, proxy_code, proxy)) admin vs config enodes = Inr (ge_alloc g)"
    and "initialize_size vs enodes < 2 ^ 64"
  shows "initialised_with G g proxy admin (map unat vs, unat admin,
    map unat [vc_max_active_validators config, vc_base_fee config, vc_block_interval_ms config, vc_epoch_length config],
    map string_bytes enodes)"
proof -
  from assms(1) obtain outcome written where
    "gl_transact G admin proxy (encode_initialize L vs admin config enodes)
       (genesis_accounts impl_code proxy_code IMPLEMENTATION_ADDRESS proxy admin) = Some outcome"
    "eo_success outcome" "eo_storage outcome proxy = Some written"
    "map_option gac_storage (ge_alloc g proxy) = Some (Some ([ERC1967_IMPLEMENTATION_SLOT \<mapsto> ucast IMPLEMENTATION_ADDRESS] ++ written))"
    by (auto simp: genesis_alloc_def initialize_proxy_storage_def Let_def split: sum.splits option.splits if_splits
        dest!: sym [of _ "ge_alloc g"])
  then show ?thesis
    unfolding initialised_with_def using initialize_arguments [OF assms(2), of L admin config]
    by (auto simp del: list.map intro!: exI [of _ "encode_initialize L vs admin config enodes"])
qed

text \<open>The nodes of a generated network, and the arguments its contract is initialised with.\<close>

definition network_nodes :: "genesis_lib \<Rightarrow> string option \<Rightarrow> bool \<Rightarrow> bool \<Rightarrow> (nat \<Rightarrow> drawn_keys) \<Rightarrow> nat \<Rightarrow> node_data list" where
  "network_nodes G env docker kube draw n =
     map (generated_node G docker kube (if kube then default_kube_namespace env else []) draw) [0..<n]"

definition network_enodes :: "net_lib \<Rightarrow> bool \<Rightarrow> node_data list \<Rightarrow> string list" where
  "network_enodes N resolve nodes = map (\<lambda>nd. contract_enode N resolve (nd_enode nd)) nodes"

lemma generated_nodes_read:
  assumes "address_laws G" and "\<forall>nd\<in>set (network_nodes G nsenv docker kube draw n). plain_node nd"
    and "ga_nodes_csv args = None" and "n < 2 ^ 32"
    and "genesis_nodes G args dir (generate_nodes_csv G home nsenv n (Some dir) None docker kube draw fs)
      = Inr (nodes, num_nodes, initial)"
  shows "nodes = network_nodes G nsenv docker kube draw n" and "num_nodes = n"
    and "initial = unwrap_or n (ga_initial_nodes args)" and "4 \<le> initial \<and> initial \<le> n"
proof -
  let ?nodes = "network_nodes G nsenv docker kube draw n"
  have "generate_nodes_csv G home nsenv n (Some dir) None docker kube draw fs (path_join dir ''nodes.csv'')
      = Some (csv_text G ?nodes)"
    by (simp add: generate_nodes_csv_def network_nodes_def Let_def)
  moreover have "length ?nodes mod 2 ^ 32 = n" using assms(4) by (simp add: network_nodes_def)
  ultimately show "nodes = ?nodes" "num_nodes = n" "initial = unwrap_or n (ga_initial_nodes args)"
    using assms(3,5) csv_read_back [OF assms(1,2)]
    by (auto simp: genesis_nodes_def Let_def unwrap_or_def [of _ None] split: if_splits)
  with genesis_nodes_Inr(1) [OF assms(5)] show "4 \<le> initial \<and> initial \<le> n" by simp
qed

lemma generated_key_files:
  assumes "address_laws G" and "\<forall>nd\<in>set (network_nodes G nsenv docker kube draw n). plain_node nd"
    and "n < 2 ^ 32" and "ga_nodes_csv args = None"
    and "create_rbft_genesis L G N home env args
        (generate_nodes_csv G home nsenv n (Some (genesis_dir args home)) None docker kube draw fs) = (Inr g, fs')"
    and "i < n"
  shows "fs' (key_file (genesis_dir args home) i) = Some (''0x'' @ dk_key_hex (draw i))
    \<and> fs' (id_file (genesis_dir args home) i) = Some (gl_show_address G (dk_address (draw i)))
    \<and> fs' (p2p_file (genesis_dir args home) i) = Some (dk_p2p_hex (draw i))
    \<and> fs' (path_join (genesis_dir args home) ''genesis.json'') = Some (gl_json G g)"
  using assms(5)
proof (rule genesis_success)
  fix nodes num_nodes initial
  let ?dir = "genesis_dir args home"
  assume run: "genesis_nodes G args ?dir (generate_nodes_csv G home nsenv n (Some ?dir) None docker kube draw fs)
      = Inr (nodes, num_nodes, initial)"
    and files: "fs' = (write_enodes (ga_use_trusted_peers args) ?dir nodes (foldl (node_files G ?dir)
        (generate_nodes_csv G home nsenv n (Some ?dir) None docker kube draw fs) (enumerate 0 (take num_nodes nodes))))
        (path_join ?dir ''genesis.json'' \<mapsto> gl_json G g)"
  note nodes = generated_nodes_read [OF assms(1,2,4,3) run]
  show ?thesis
    using node_files_written [OF files, of i] assms(6)
    unfolding nodes(1,2) by (simp add: network_nodes_def generated_node_def files)
qed

text \<open>
  C32: From the file of nodes to the genesis state: when nodes are generated into the assets directory
  and the genesis state is then made from them, every node finds its own keys in its files; there are
  at least 4 initial validators; and the validator contract holds the storage left by a successful
  call that names exactly the first generated addresses as validators, the administrator of the
  configured key, the configured settings and the enodes of these nodes.
\<close>
theorem genesis_of_generated_nodes:
  assumes "address_laws G" and "\<forall>nd\<in>set (network_nodes G nsenv docker kube draw n). plain_node nd"
    and "n < 2 ^ 32" and "ga_nodes_csv args = None"
    and "ga_validator_contract_address args = Some proxy"
    and "create_rbft_genesis L G N home env args
        (generate_nodes_csv G home nsenv n (Some (genesis_dir args home)) None docker kube draw fs) = (Inr g, fs')"
    and "initialize_size (map nd_validator_address (take initial (network_nodes G nsenv docker kube draw n)))
        (network_enodes N (resolve_enodes args env) (take initial (network_nodes G nsenv docker kube draw n))) < 2 ^ 64"
    and "initial = unwrap_or n (ga_initial_nodes args)"
  shows "4 \<le> initial \<and> initial \<le> n
    \<and> (\<forall>i < n. fs' (key_file (genesis_dir args home) i) = Some (''0x'' @ dk_key_hex (draw i))
        \<and> fs' (id_file (genesis_dir args home) i) = Some (gl_show_address G (dk_address (draw i)))
        \<and> fs' (p2p_file (genesis_dir args home) i) = Some (dk_p2p_hex (draw i)))
    \<and> (\<exists>admin config. admin_address G args = Some admin \<and> config = validator_config args initial
        \<and> initialised_with G g proxy admin
          (map (\<lambda>i. unat (dk_address (draw i))) [0..<initial], unat admin,
           map unat [vc_max_active_validators config, vc_base_fee config, vc_block_interval_ms config, vc_epoch_length config],
           map string_bytes (network_enodes N (resolve_enodes args env) (take initial (network_nodes G nsenv docker kube draw n)))))"
proof -
  let ?dir = "genesis_dir args home" and ?nodes = "network_nodes G nsenv docker kube draw n"
  obtain nodes num_nodes ini contracts admin alloc where
    run: "genesis_nodes G args ?dir (generate_nodes_csv G home nsenv n (Some ?dir) None docker kube draw fs)
        = Inr (nodes, num_nodes, ini)"
      "genesis_contracts G args = Inr contracts" "admin_address G args = Some admin"
      "genesis_alloc L G contracts admin (map nd_validator_address (take ini nodes)) (validator_config args ini)
        (map (\<lambda>nd. contract_enode N (resolve_enodes args env) (nd_enode nd)) (take ini nodes)) = Inr alloc"
      "ge_alloc g = alloc"
      "fs' = (write_enodes (ga_use_trusted_peers args) ?dir nodes (foldl (node_files G ?dir)
          (generate_nodes_csv G home nsenv n (Some ?dir) None docker kube draw fs) (enumerate 0 (take num_nodes nodes))))
          (path_join ?dir ''genesis.json'' \<mapsto> gl_json G g)"
    using assms(6) by (rule genesis_success)
  note nodes = generated_nodes_read [OF assms(1,2,4,3) run(1)]
  have ini: "ini = initial" and le: "4 \<le> initial" "initial \<le> n" using nodes assms(8) by simp_all
  obtain impl_code proxy_code where "contracts = Some (impl_code, proxy_code, proxy)"
    using run(2) assms(5) by (auto simp: genesis_contracts_def split: option.splits prod.splits)
  with run(4,5) nodes(1) ini assms(7) genesis_alloc_initialised have
    "initialised_with G g proxy admin (map unat (map nd_validator_address (take initial ?nodes)), unat admin,
       map unat [vc_max_active_validators (validator_config args initial), vc_base_fee (validator_config args initial),
         vc_block_interval_ms (validator_config args initial), vc_epoch_length (validator_config args initial)],
       map string_bytes (network_enodes N (resolve_enodes args env) (take initial ?nodes)))"
    unfolding network_enodes_def by blast
  moreover have "map unat (map nd_validator_address (take initial ?nodes)) = map (\<lambda>i. unat (dk_address (draw i))) [0..<initial]"
    using le by (simp add: network_nodes_def generated_node_def take_map o_def)
  moreover have "fs' (key_file ?dir i) = Some (''0x'' @ dk_key_hex (draw i))
      \<and> fs' (id_file ?dir i) = Some (gl_show_address G (dk_address (draw i)))
      \<and> fs' (p2p_file ?dir i) = Some (dk_p2p_hex (draw i))" if "i < n" for i
    using generated_key_files [OF assms(1-4,6) that] by simp
  ultimately show ?thesis using le run(3) by metis
qed

section \<open>An example\<close>

definition sample_genesis_lib :: "address option \<Rightarrow> genesis_lib" where
  "sample_genesis_lib admin = \<lparr>
     gl_parse_address = (\<lambda>s. case parse_uint (2 ^ 160 - 1) s of Inr n \<Rightarrow> Some (of_nat n) | Inl _ \<Rightarrow> None),
     gl_show_address = (\<lambda>a. show_dec (unat a)),
     gl_signer_address = (\<lambda>_. admin),
     gl_record_string = (\<lambda>_ p. ''enode://'' @ p),
     gl_compile = Some (\<lambda>_. Some [1]),
     gl_transact = (\<lambda>_ _ _ _. Some \<lparr>eo_success = True, eo_storage = (\<lambda>_. Some Map.empty)\<rparr>),
     gl_json = (\<lambda>_. ''{}'')\<rparr>"

definition sample_draw :: "nat \<Rightarrow> drawn_keys" where
  "sample_draw i = \<lparr>dk_address = of_nat (i + 1), dk_key_hex = ''a'', dk_p2p_hex = ''b''\<rparr>"

definition sample_args :: genesis_args where
  "sample_args = \<lparr>ga_assets_dir = Some ''assets'', ga_nodes_csv = None, ga_initial_nodes = None,
     ga_validator_contract_address = Some 0x1001, ga_gas_limit = None, ga_block_interval_ms = Some 500,
     ga_epoch_length = None, ga_base_fee = None, ga_max_active_validators = None, ga_admin_key = None,
     ga_kube = False, ga_use_trusted_peers = True\<rparr>"

definition sample_network :: net_lib where
  "sample_network = \<lparr>nl_parse_record = (\<lambda>_. None), nl_is_ip = (\<lambda>_. False), nl_to_socket_addrs = (\<lambda>_ _. None),
     nl_show_v4 = (\<lambda>_. []), nl_show_v6 = (\<lambda>_. [])\<rparr>"

lemma sample_address_laws: "address_laws (sample_genesis_lib admin)"
proof -
  have "unat a \<le> 2 ^ 160 - 1" for a :: address using unsigned_less [of a, where 'a = nat] by simp
  from parse_uint_show [OF this] show ?thesis by (simp add: address_laws_def sample_genesis_lib_def)
qed

lemma sample_dir: "genesis_dir sample_args home = ''assets''"
  by (simp add: genesis_dir_def sample_args_def)

abbreviation sample_nodes :: "address option \<Rightarrow> node_data list" where
  "sample_nodes admin \<equiv> network_nodes (sample_genesis_lib admin) None False False sample_draw 4"

lemma sample_nodes_eq:
  "sample_nodes admin = map (\<lambda>i. \<lparr>nd_validator_address = of_nat (i + 1), nd_validator_private_key = ''0xa'',
     nd_p2p_secret_key = ''b'', nd_enode = ''enode://b''\<rparr>) [0..<4]"
  by (simp add: network_nodes_def generated_node_def sample_draw_def node_enode_def sample_genesis_lib_def)

lemma sample_plain: "\<forall>nd\<in>set (sample_nodes admin). plain_node nd"
  by (simp add: sample_nodes_eq plain_node_def plain_def)

abbreviation sample_files :: "address option \<Rightarrow> files" where
  "sample_files admin \<equiv>
     generate_nodes_csv (sample_genesis_lib admin) None None 4 (Some ''assets'') None False False sample_draw Map.empty"

lemma sample_genesis_nodes:
  "genesis_nodes (sample_genesis_lib admin) sample_args ''assets'' (sample_files admin) = Inr (sample_nodes admin, 4, 4)"
proof -
  have "sample_files admin (path_join ''assets'' ''nodes.csv'') = Some (csv_text (sample_genesis_lib admin) (sample_nodes admin))"
    by (simp add: generate_nodes_csv_def network_nodes_def Let_def)
  moreover have "length (sample_nodes admin) = 4" by (simp add: network_nodes_def)
  ultimately show ?thesis
    using csv_read_back [OF sample_address_laws sample_plain, of admin]
    by (simp add: genesis_nodes_def unwrap_or_def sample_args_def Let_def)
qed

lemma sample_fields:
  "gl_signer_address (sample_genesis_lib admin) k = admin"
  "gl_transact (sample_genesis_lib admin) c p d acc = Some \<lparr>eo_success = True, eo_storage = (\<lambda>_. Some Map.empty)\<rparr>"
  "genesis_contracts (sample_genesis_lib admin) sample_args = Inr (Some ([1], [1], 0x1001))"
  by (simp_all add: genesis_contracts_def sample_args_def sample_genesis_lib_def)

lemma sample_runs:
  "\<exists>g fs'. create_rbft_genesis example_libs (sample_genesis_lib (Some 9)) sample_network None None sample_args
     (sample_files (Some 9)) = (Inr g, fs')"
  "\<exists>fs'. create_rbft_genesis example_libs (sample_genesis_lib None) sample_network None None sample_args
     (sample_files None) = (Inl AdminKeyInvalid, fs')"
proof -
  have nodes: "sample_nodes admin \<noteq> []" for admin by (simp add: network_nodes_def)
  show "\<exists>g fs'. create_rbft_genesis example_libs (sample_genesis_lib (Some 9)) sample_network None None sample_args
      (sample_files (Some 9)) = (Inr g, fs')"
    using nodes
    by (simp add: create_rbft_genesis_def Let_def sample_dir sample_genesis_nodes sample_fields genesis_loop_eq
        admin_address_def genesis_alloc_def initialize_proxy_storage_def)
  show "\<exists>fs'. create_rbft_genesis example_libs (sample_genesis_lib None) sample_network None None sample_args
      (sample_files None) = (Inl AdminKeyInvalid, fs')"
    by (simp add: create_rbft_genesis_def Let_def sample_dir sample_genesis_nodes sample_fields genesis_loop_eq
        admin_address_def)
qed

lemma panic_keeps_genesis_witness:
  "\<exists>fs'. create_rbft_genesis example_libs (sample_genesis_lib None) sample_network None None sample_args
     (sample_files None) = (Inl AdminKeyInvalid, fs') \<and> fs' (path_join ''assets'' ''genesis.json'') = None"
proof -
  obtain fs' where run: "create_rbft_genesis example_libs (sample_genesis_lib None) sample_network None None sample_args
     (sample_files None) = (Inl AdminKeyInvalid, fs')" using sample_runs(2) by blast
  have "sample_files None (path_join ''assets'' ''genesis.json'') = None"
    by (simp add: generate_nodes_csv_def path_join_def Let_def)
  with panic_keeps_genesis [OF run] run show ?thesis by (simp add: sample_dir)
qed

theorem genesis_of_generated_nodes_witness:
  "\<exists>g fs'. create_rbft_genesis example_libs (sample_genesis_lib (Some 9)) sample_network None None sample_args
     (sample_files (Some 9)) = (Inr g, fs') \<and> fs' (key_file ''assets'' 3) = Some ''0xa''
     \<and> initialised_with (sample_genesis_lib (Some 9)) g 0x1001 9
         ([1, 2, 3, 4], 9, [4, 4761904761905, 500, 32], replicate 4 (string_bytes ''enode://b''))"
proof -
  obtain g fs' where run: "create_rbft_genesis example_libs (sample_genesis_lib (Some 9)) sample_network None None sample_args
     (sample_files (Some 9)) = (Inr g, fs')" using sample_runs(1) by blast
  let ?nodes = "sample_nodes (Some 9)"
  have list: "[0..<4] = [0, 1, 2, 3 :: nat]" by (simp add: upt_rec)
  have enodes: "network_enodes sample_network (resolve_enodes sample_args None) (take 4 ?nodes) = replicate 4 ''enode://b''"
    by (simp add: network_enodes_def sample_nodes_eq take_map contract_enode_def resolve_enodes_def sample_args_def
        o_def map_replicate_const)
  have size: "initialize_size (map nd_validator_address (take 4 ?nodes))
      (network_enodes sample_network (resolve_enodes sample_args None) (take 4 ?nodes)) < 2 ^ 64"
    unfolding enodes by (simp add: initialize_size_def strings_size_def sample_nodes_eq padded_len_def string_bytes_def
        char_bytes_def sum_list_replicate)
  have "ga_nodes_csv sample_args = None" "ga_validator_contract_address sample_args = Some 0x1001"
    "4 = unwrap_or 4 (ga_initial_nodes sample_args)"
    by (simp_all add: sample_args_def unwrap_or_def)
  from genesis_of_generated_nodes [OF sample_address_laws sample_plain _ this(1,2) run [folded sample_dir [of None]] size this(3)]
  have "fs' (key_file ''assets'' 3) = Some ''0xa''"
    "initialised_with (sample_genesis_lib (Some 9)) g 0x1001 9
       (map (\<lambda>i. unat (dk_address (sample_draw i))) [0..<4], 9, map unat [4, 4761904761905, 500, 32 :: u64],
        map string_bytes (replicate 4 ''enode://b''))"
    unfolding enodes
    by (auto simp: genesis_dir_def sample_draw_def admin_address_def sample_fields validator_config_def sample_args_def unwrap_or_def)
  moreover have "map (\<lambda>i. unat (dk_address (sample_draw i))) [0..<4] = [1, 2, 3, 4]"
    by (simp add: list sample_draw_def unat_of_nat)
  ultimately show ?thesis using run by (simp add: map_replicate_const)
qed

end
