(* ===== verification/Lifecycle.thy ===== *)
theory Lifecycle
  imports Inspector_Loop
begin

text \<open>
  Starting, stopping and restarting validators (\<open>commands/lifecycle.rs\<close> of the inspector).  The
  operating system is a parameter with a state of its own: running a command and waiting for it,
  spawning one, sleeping, ports, files.  What runs in a background task is kept as a task with its
  own function; awaiting in sequence is threading the state.
\<close>

section \<open>The operating system\<close>

record proc_output =
  po_success :: bool
  po_status :: string
  po_stdout :: string
  po_stderr :: string

datatype connect_outcome = Reached | ConnectFailed string | ConnectTimedOut

text \<open>
  \<open>os_cancelled w w'\<close> tells whether a timer of 30 seconds fires before what led from \<open>w\<close> to \<open>w'\<close> is
  done, and what the cancelled work leaves then.
\<close>

record 'w os =
  os_run :: "string list \<Rightarrow> 'w \<Rightarrow> (string + proc_output) \<times> 'w"
  os_spawn :: "string list \<Rightarrow> 'w \<Rightarrow> string option \<times> 'w"
  os_wait :: "string list \<Rightarrow> 'w \<Rightarrow> (string + proc_output) \<times> 'w"
  os_sleep :: "nat \<Rightarrow> 'w \<Rightarrow> 'w"
  os_cancelled :: "'w \<Rightarrow> 'w \<Rightarrow> 'w option"
  os_bind :: "u16 \<Rightarrow> 'w \<Rightarrow> bool"
  os_connect :: "string \<Rightarrow> 'w \<Rightarrow> connect_outcome \<times> 'w"
  os_exists :: "string \<Rightarrow> 'w \<Rightarrow> bool"
  os_is_dir :: "string \<Rightarrow> 'w \<Rightarrow> bool"
  os_remove_file :: "string \<Rightarrow> 'w \<Rightarrow> 'w"
  os_remove_dir_all :: "string \<Rightarrow> 'w \<Rightarrow> 'w"
  os_read_dir :: "string \<Rightarrow> 'w \<Rightarrow> string list option"
  os_create_dir_all :: "string \<Rightarrow> 'w \<Rightarrow> string option \<times> 'w"
  os_append :: "string \<Rightarrow> string \<Rightarrow> 'w \<Rightarrow> string option \<times> 'w"
  os_pid :: string
  os_temp_dir :: string
  os_test_dirs :: "string \<times> string"
  os_parent :: "string \<Rightarrow> string option"
  os_url_host :: "string \<Rightarrow> string option"
  os_url_port :: "string \<Rightarrow> u16 option"
  os_shell_split :: "string \<Rightarrow> string + string list"

section \<open>Commands\<close>

text \<open>\<open>str::replace\<close> with a non-empty pattern.\<close>

function replace_all :: "string \<Rightarrow> string \<Rightarrow> string \<Rightarrow> string" where
  "replace_all p r s =
     (if p = [] then s
      else case split_once p s of
          None \<Rightarrow> s
        | Some (u, v) \<Rightarrow> u @ r @ replace_all p r v)"
  by pat_completeness auto
termination
  by (relation "measure (\<lambda>(_, _, s). length s)") (auto dest: split_once_Some)

declare replace_all.simps [simp del]

definition http_port :: "validator_target \<Rightarrow> u16 option" where
  "http_port t = vt_port t"

definition port_text :: "validator_target \<Rightarrow> string" where
  "port_text t = (case http_port t of Some p \<Rightarrow> show_dec (unat p) | None \<Rightarrow> [])"

definition render_command :: "'w os \<Rightarrow> string \<Rightarrow> validator_target \<Rightarrow> string + string list" where
  "render_command X template t =
     (let rendered = replace_all ''{url}'' (vt_url t) (replace_all ''{label}'' (vt_label t) template);
          rendered = replace_all ''{http_port}'' (port_text t) (replace_all ''{port}'' (port_text t) rendered)
      in case os_shell_split X rendered of
          Inl err \<Rightarrow> Inl (''failed to parse command template: '' @ err)
        | Inr parts \<Rightarrow> if parts = [] then Inl ''command template produced an empty command'' else Inr parts)"

definition execute_command :: "'w os \<Rightarrow> string list \<Rightarrow> 'w \<Rightarrow> (string + string option) \<times> 'w" where
  "execute_command X parts w =
     (if parts = [] then (Inl ''command template produced an empty command'', w)
      else case os_run X parts w of
          (Inl err, w) \<Rightarrow> (Inl err, w)
        | (Inr out, w) \<Rightarrow>
            (let stdout = trim (po_stdout out); stderr = trim (po_stderr out) in
             (if po_success out
              then Inr (if stdout \<noteq> [] then Some stdout else if stderr \<noteq> [] then Some stderr else None)
              else (let msg = (if stderr \<noteq> [] then stderr else stdout) in
                    Inl (if msg = [] then ''command exited with status '' @ po_status out else msg)), w)))"

section \<open>Freeing a port\<close>

definition listeners_of :: "u16 \<Rightarrow> string list" where
  "listeners_of port =
     [''sh'', ''-c'', ''lsof -ti tcp:'' @ show_dec (unat port) @ '' -sTCP:LISTEN'']"

fun kill_pids :: "'w os \<Rightarrow> string list \<Rightarrow> nat \<Rightarrow> 'w \<Rightarrow> (string + nat) \<times> 'w" where
  "kill_pids X [] killed w = (Inr killed, w)"
| "kill_pids X (line # ls) killed w =
     (let pid = trim line in
      if pid = [] \<or> pid = os_pid X then kill_pids X ls killed w
      else case os_run X [''kill'', ''-9'', pid] w of
          (Inl err, w) \<Rightarrow> (Inl err, w)
        | (Inr out, w) \<Rightarrow> kill_pids X ls (if po_success out then killed + 1 else killed) w)"

definition kill_by_port :: "'w os \<Rightarrow> u16 \<Rightarrow> 'w \<Rightarrow> (string + string) \<times> 'w" where
  "kill_by_port X port w =
     (case os_run X (listeners_of port) w of
        (Inl err, w) \<Rightarrow> (Inl err, w)
      | (Inr out, w) \<Rightarrow>
          if \<not> po_success out
          then (Inl (''Failed to identify listening process on port '' @ show_dec (unat port) @ ''. Is lsof installed?''), w)
          else case kill_pids X (text_lines (po_stdout out)) 0 w of
              (Inl err, w) \<Rightarrow> (Inl err, w)
            | (Inr killed, w) \<Rightarrow>
                (if killed = 0
                 then Inl (''No listening processes terminated on port '' @ show_dec (unat port)
                        @ ''. Is the validator running?'')
                 else Inr (''Terminated '' @ show_dec killed @ '' listening process(es) on port '' @ show_dec (unat port)), w))"

text \<open>Each listener is asked to end, then forced if it is still there after 100 milliseconds.\<close>

fun end_pids :: "'w os \<Rightarrow> string list \<Rightarrow> 'w \<Rightarrow> 'w" where
  "end_pids X [] w = w"
| "end_pids X (line # ls) w =
     (let pid = trim line in
      if pid = [] \<or> pid = os_pid X then end_pids X ls w
      else let w = os_sleep X 100 (snd (os_run X [''kill'', pid] w)) in
        case os_run X [''kill'', ''-0'', pid] w of
          (Inr out, w) \<Rightarrow> end_pids X ls (if po_success out then snd (os_run X [''kill'', ''-9'', pid] w) else w)
        | (Inl _, w) \<Rightarrow> end_pids X ls w)"

definition ensure_port_free :: "'w os \<Rightarrow> u16 \<Rightarrow> 'w \<Rightarrow> (string + unit) \<times> 'w" where
  "ensure_port_free X port w =
     (let w = (case os_run X (listeners_of port) w of
                 (Inr out, w) \<Rightarrow> if po_success out then os_sleep X 500 (end_pids X (text_lines (po_stdout out)) w) else w
               | (Inl _, w) \<Rightarrow> w)
      in (if os_bind X port w then Inr ()
          else Inl (''Port '' @ show_dec (unat port) @ '' is still in use after cleanup attempts''), w))"

definition MAX_STOP_ATTEMPTS :: nat where
  "MAX_STOP_ATTEMPTS = 3"

text \<open>The attempts from the given one on; the first argument is how many are left.\<close>

fun free_port_loop :: "nat \<Rightarrow> 'w os \<Rightarrow> nat \<Rightarrow> u16 \<Rightarrow> 'w \<Rightarrow> (string + unit) \<times> 'w" where
  "free_port_loop 0 X k port w = (Inr (), w)"
| "free_port_loop (Suc n) X k port w =
     (case ensure_port_free X port w of
        (Inr _, w) \<Rightarrow> (Inr (), w)
      | (Inl err, w) \<Rightarrow>
          if k = MAX_STOP_ATTEMPTS
          then (Inl (''Failed to free port '' @ show_dec (unat port) @ '' after '' @ show_dec MAX_STOP_ATTEMPTS
                  @ '' attempts: '' @ err), w)
          else free_port_loop n X (k + 1) port (os_sleep X (1000 * k) w))"

section \<open>Lock files\<close>

definition label_node_index :: "string \<Rightarrow> string + nat" where
  "label_node_index label =
     (case parse_uint u64_max (trim_start_char (CHR ''v'') label) of
        Inr i \<Rightarrow> Inr i
      | Inl err \<Rightarrow> Inl (''invalid validator label: '' @ show_parse_error err))"

definition remove_path :: "'w os \<Rightarrow> string \<Rightarrow> 'w \<Rightarrow> 'w" where
  "remove_path X path w = (if os_is_dir X path w then os_remove_dir_all X path w else os_remove_file X path w)"

definition remove_if_exists :: "'w os \<Rightarrow> string \<Rightarrow> 'w \<Rightarrow> 'w" where
  "remove_if_exists X path w = (if os_exists X path w then remove_path X path w else w)"

definition lock_locations :: "string \<Rightarrow> string list" where
  "lock_locations datadir = map (path_join datadir)
     [''db/lock'', ''db/.lock'', ''static_files/lock'', ''static_files/.lock'', ''.lock'', ''LOCK'']"

definition is_temporary :: "string \<Rightarrow> bool" where
  "is_temporary name \<longleftrightarrow> ends_with ''.tmp'' name \<or> ends_with ''.lock'' name \<or> starts_with ''temp-'' name"

definition clean_subdir :: "'w os \<Rightarrow> string \<Rightarrow> 'w \<Rightarrow> 'w" where
  "clean_subdir X dir w =
     (if os_exists X dir w
      then (case os_read_dir X dir w of
              None \<Rightarrow> w
            | Some names \<Rightarrow> fold (\<lambda>name. remove_path X (path_join dir name)) (filter is_temporary names) w)
      else w)"

definition cleanup_database_locks :: "'w os \<Rightarrow> validator_target \<Rightarrow> 'w \<Rightarrow> (string + unit) \<times> 'w" where
  "cleanup_database_locks X t w =
     (case label_node_index (vt_label t) of
        Inl err \<Rightarrow> (Inl err, w)
      | Inr idx \<Rightarrow>
          let datadir = path_join (fst (os_test_dirs X)) (CHR ''d'' # show_dec idx);
              w = (case http_port t of Some port \<Rightarrow> snd (kill_by_port X port w) | None \<Rightarrow> w);
              ipc = path_join datadir ''reth.ipc'';
              w = (if os_exists X ipc w then os_remove_file X ipc w else w);
              w = fold (remove_if_exists X) (lock_locations datadir) w;
              w = fold (\<lambda>sub. clean_subdir X (path_join datadir sub)) [''db'', ''static_files''] w
          in (Inr (), os_sleep X 500 w))"

definition target_port :: "'w os \<Rightarrow> validator_target \<Rightarrow> u16 option" where
  "target_port X t = (case http_port t of Some p \<Rightarrow> Some p | None \<Rightarrow> os_url_port X (vt_url t))"

definition ensure_validator_stopped :: "'w os \<Rightarrow> validator_target \<Rightarrow> 'w \<Rightarrow> (string + unit) \<times> 'w" where
  "ensure_validator_stopped X t w =
     (case (case target_port X t of
              None \<Rightarrow> (Inr (), w)
            | Some port \<Rightarrow> free_port_loop MAX_STOP_ATTEMPTS X 1 port (os_sleep X 500 w)) of
        (Inl err, w) \<Rightarrow> (Inl err, w)
      | (Inr _, w) \<Rightarrow> cleanup_database_locks X t w)"

definition ensure_validator_stopped_with_timeout :: "'w os \<Rightarrow> validator_target \<Rightarrow> 'w \<Rightarrow> (string + unit) \<times> 'w" where
  "ensure_validator_stopped_with_timeout X t w =
     (case ensure_validator_stopped X t w of
        (res, w') \<Rightarrow>
          (case os_cancelled X w w' of
             None \<Rightarrow> (res, w')
           | Some w'' \<Rightarrow> (Inl ''Timeout stopping validator after 30 seconds'', w'')))"

section \<open>The command of a node\<close>

definition u16_of_nat :: "nat \<Rightarrow> u16" where
  "u16_of_nat n = of_nat n"

definition create_dirs :: "'w os \<Rightarrow> (string \<times> string) list \<Rightarrow> 'w \<Rightarrow> string option \<times> 'w" where
  "create_dirs X dirs w =
     fold (\<lambda>(what, dir) (err, w).
         case err of
           Some e \<Rightarrow> (Some e, w)
         | None \<Rightarrow> (case os_create_dir_all X dir w of
                      (None, w) \<Rightarrow> (None, w)
                    | (Some e, w) \<Rightarrow> (Some (''failed to create '' @ what @ '' '' @ dir), w)))
       dirs (None, w)"

definition node_arguments :: "'w os \<Rightarrow> active_chain \<Rightarrow> nat \<Rightarrow> u16 \<Rightarrow> string list" where
  "node_arguments X chain idx port =
     (let datadir = path_join (ac_data_dir chain) (CHR ''d'' # show_dec idx);
          reth_logs = path_join (path_join (path_join (os_temp_dir X) ''validator-inspector'') ''reth-logs'')
            (''node'' @ show_dec idx)
      in [ac_rbft_binary chain, ''node'', ''--http'', ''--http.port'', show_dec (unat port),
          ''--http.addr'', ''0.0.0.0'', ''--http.corsdomain'', ''*'',
          ''--chain'', path_join (ac_assets_dir chain) ''genesis.json'',
          ''--p2p-secret-key'', path_join (ac_assets_dir chain) (''p2p-secret-key'' @ show_dec idx @ ''.txt''),
          ''--validator-key'', path_join (ac_assets_dir chain) (''validator-key'' @ show_dec idx @ ''.txt''),
          ''--logs-dir'', ac_logs_dir chain] @
         (case ac_trusted_peers chain of
            Some trusted \<Rightarrow> if trusted \<noteq> [] then [''--trusted-peers'', trusted] else []
          | None \<Rightarrow> []) @
         [''--log.file.directory'', reth_logs, ''--log.file.name'', ''node'' @ show_dec idx @ ''.reth.log'',
          ''--datadir'', datadir, ''--ipcpath'', path_join datadir ''reth.ipc'',
          ''--authrpc.port'', show_dec (unat (8551 + u16_of_nat idx * 10)),
          ''--port'', show_dec (unat (30303 + u16_of_nat idx)), ''--disable-discovery''])"

definition build_validator_command :: "'w os \<Rightarrow> active_chain \<Rightarrow> validator_target \<Rightarrow> 'w \<Rightarrow> (string + string list) \<times> 'w" where
  "build_validator_command X chain t w =
     (case label_node_index (vt_label t) of
        Inl err \<Rightarrow> (Inl err, w)
      | Inr idx \<Rightarrow>
          let port = u16_saturating_sub (ac_base_http_port chain) (u16_of_nat idx) in
          if port = 0
          then (Inl (''Base HTTP port too small for validator '' @ trim_start_char (CHR ''v'') (vt_label t)), w)
          else
            let datadir = path_join (ac_data_dir chain) (CHR ''d'' # show_dec idx);
                log = path_join (ac_logs_dir chain) (''node'' @ show_dec idx @ ''.log'');
                reth_logs = path_join (path_join (path_join (os_temp_dir X) ''validator-inspector'') ''reth-logs'')
                  (''node'' @ show_dec idx);
                dirs = (''data directory'', datadir) #
                  (case os_parent X log of Some d \<Rightarrow> [(''logs directory'', d)] | None \<Rightarrow> []) @
                  [(''reth log directory'', reth_logs)]
            in case create_dirs X dirs w of
                (Some err, w) \<Rightarrow> (Inl err, w)
              | (None, w) \<Rightarrow>
                  let ipc = path_join datadir ''reth.ipc'';
                      w = (if os_exists X ipc w then os_remove_file X ipc w else w)
                  in (Inr (node_arguments X chain idx port), w))"

section \<open>Background tasks\<close>

definition ping_validator :: "'w os \<Rightarrow> validator_target \<Rightarrow> 'w \<Rightarrow> (string + string) \<times> 'w" where
  "ping_validator X t w =
     (case os_url_host X (vt_url t) of
        None \<Rightarrow> (Inl ''Validator URL missing host'', w)
      | Some host \<Rightarrow>
          (case target_port X t of
             None \<Rightarrow> (Inl ''Validator URL missing port'', w)
           | Some port \<Rightarrow>
               let addr = host @ '':'' @ show_dec (unat port) in
               case os_connect X addr w of
                 (Reached, w) \<Rightarrow> (Inr (''Ping to '' @ vt_label t @ '' succeeded ('' @ addr @ '')''), w)
               | (ConnectFailed err, w) \<Rightarrow> (Inl (''connection to '' @ addr @ '' failed: '' @ err), w)
               | (ConnectTimedOut, w) \<Rightarrow> (Inl (''ping to '' @ addr @ '' timed out after 2s''), w)))"

definition ping_selected_validator :: "'w os \<Rightarrow> app_state \<Rightarrow> nat \<Rightarrow> 'w \<Rightarrow> (string + string) \<times> 'w" where
  "ping_selected_validator X s idx w =
     (if idx < length (ap_entries s) then ping_validator X (ve_target (ap_entries s ! idx)) w
      else (Inl ''No validator selected'', w))"

datatype task =
    SingleCommand string string "string list"
  | RestartCommand string "string list" "string list"
  | StopPort string u16
  | AwaitExit string string "string list"
  | TrackReady validator_target string

definition MAX_READY_ATTEMPTS :: nat where
  "MAX_READY_ATTEMPTS = 30"

text \<open>The pings until one succeeds; the last error otherwise.\<close>

fun ready_loop :: "nat \<Rightarrow> 'w os \<Rightarrow> validator_target \<Rightarrow> string option \<Rightarrow> 'w \<Rightarrow> (string option + unit) \<times> 'w" where
  "ready_loop 0 X t last_err w = (Inl last_err, w)"
| "ready_loop (Suc n) X t last_err w =
     (case ping_validator X t w of
        (Inr _, w) \<Rightarrow> (Inr (), w)
      | (Inl err, w) \<Rightarrow> ready_loop n X t (Some err) (os_sleep X 1000 w))"

definition command_event :: "string \<Rightarrow> string \<Rightarrow> string + string option \<Rightarrow> app_event" where
  "command_event label action res =
     (case res of Inr msg \<Rightarrow> CommandResult label action True msg | Inl err \<Rightarrow> CommandResult label action False (Some err))"

fun run_background :: "'w os \<Rightarrow> task \<Rightarrow> 'w \<Rightarrow> app_event list \<times> 'w" where
  "run_background X (SingleCommand label action command) w =
     (case execute_command X command w of (res, w) \<Rightarrow> ([command_event label action res], w))"
| "run_background X (RestartCommand label stop_cmd start_cmd) w =
     (case execute_command X stop_cmd w of
        (Inl err, w) \<Rightarrow> ([CommandResult label ''restart'' False (Some (''stop failed: '' @ err))], w)
      | (Inr _, w) \<Rightarrow>
          (case execute_command X start_cmd w of
             (Inr msg, w) \<Rightarrow>
               ([CommandResult label ''restart'' True
                   (Some (case msg of Some m \<Rightarrow> m | None \<Rightarrow> ''restart completed''))], w)
           | (Inl err, w) \<Rightarrow> ([CommandResult label ''restart'' False (Some (''start failed: '' @ err))], w)))"
| "run_background X (StopPort label port) w =
     (case kill_by_port X port w of (res, w) \<Rightarrow> ([command_event label ''stop'' (map_sum id Some res)], w))"
| "run_background X (AwaitExit label action command) w =
     (case os_wait X command w of
        (Inr out, w) \<Rightarrow>
          (if po_success out then []
           else [CommandResult label action False
             (Some (''Process exited with status: '' @ po_status out @ [CHR 0x0A] @ ''stderr: '' @ po_stderr out))], w)
      | (Inl err, w) \<Rightarrow> ([CommandResult label action False (Some (''Failed to wait for process: '' @ err))], w))"
| "run_background X (TrackReady t phase) w =
     (case ready_loop MAX_READY_ATTEMPTS X t None w of
        (Inr _, w) \<Rightarrow>
          ([CommandResult (vt_label t) (phase @ ''-ready'') True (Some (vt_label t @ '' responded successfully''))], w)
      | (Inl last_err, w) \<Rightarrow>
          ([CommandResult (vt_label t) (phase @ ''-ready'') False
             (Some (case last_err of Some e \<Rightarrow> e | None \<Rightarrow> ''validator did not come back online in time''))], w))"

definition prepare_log_stdio :: "'w os \<Rightarrow> string \<Rightarrow> string list \<Rightarrow> 'w \<Rightarrow> string option \<times> 'w" where
  "prepare_log_stdio X path command w =
     (case (case os_parent X path of None \<Rightarrow> (None, w) | Some dir \<Rightarrow> os_create_dir_all X dir w) of
        (Some _, w) \<Rightarrow> (Some (''failed to create log directory '' @ the (os_parent X path)), w)
      | (None, w) \<Rightarrow>
          (case os_append X path (''# '' @ join '' '' command @ [CHR 0x0A, CHR 0x0A]) w of
             (Some _, w) \<Rightarrow> (Some (''failed to open log file '' @ path), w)
           | (None, w) \<Rightarrow> (None, w)))"

text \<open>Spawning in the background: the tasks and the events sent at once, or an error.\<close>

definition spawn_background_command ::
  "'w os \<Rightarrow> string \<Rightarrow> string \<Rightarrow> string list \<Rightarrow> string option \<Rightarrow> string option \<Rightarrow> 'w \<Rightarrow>
   (string + task list \<times> app_event list) \<times> 'w" where
  "spawn_background_command X label action command info log_path w =
     (if command = [] then (Inl ''command template produced an empty command'', w)
      else
        let path = (case log_path of Some p \<Rightarrow> p | None \<Rightarrow> path_join (os_temp_dir X) (label @ ''-'' @ action @ ''.log'')) in
        case prepare_log_stdio X path command w of
          (Some err, w) \<Rightarrow> (Inl (''failed to prepare log file: '' @ err), w)
        | (None, w) \<Rightarrow>
            (case os_spawn X command w of
               (Some err, w) \<Rightarrow> (Inl (''failed to launch '' @ action @ '' command: '' @ err), w)
             | (None, w) \<Rightarrow>
                 (Inr ([AwaitExit label action command], [CommandResult label action True info]), w)))"

section \<open>Actions\<close>

text \<open>An action gives a message or an error, the tasks it spawned and the events it sent itself.\<close>

type_synonym 'w handled = "(string + string) \<times> task list \<times> app_event list \<times> 'w"

definition failed :: "string \<Rightarrow> 'w \<Rightarrow> 'w handled" where
  "failed err w = (Inl err, [], [], w)"

definition start_by_chain ::
  "'w os \<Rightarrow> string \<Rightarrow> string \<Rightarrow> string \<Rightarrow> active_chain \<Rightarrow> validator_target \<Rightarrow> 'w \<Rightarrow> 'w handled" where
  "start_by_chain X phase did doing chain t w =
     (case build_validator_command X chain t w of
        (Inl err, w) \<Rightarrow> failed err w
      | (Inr command, w) \<Rightarrow>
          (case spawn_background_command X (vt_label t) phase command
                  (Some (did @ '' validator '' @ vt_label t)) (vt_log_path t) w of
             (Inl err, w) \<Rightarrow> failed err w
           | (Inr (tasks, events), w) \<Rightarrow>
               (Inr (doing @ '' '' @ vt_label t @ ''...''), tasks @ [TrackReady t phase], events, w)))"

definition handle_validator_start :: "'w os \<Rightarrow> app_state \<Rightarrow> validator_target \<Rightarrow> 'w \<Rightarrow> 'w handled" where
  "handle_validator_start X s t w =
     (case ensure_validator_stopped_with_timeout X t w of
        (Inl err, w) \<Rightarrow> failed (''Failed to stop existing '' @ vt_label t @ '' before start: '' @ err) w
      | (Inr _, w) \<Rightarrow>
          (case cc_start_cmd (ap_control s) of
             Some template \<Rightarrow>
               (case render_command X template t of
                  Inl err \<Rightarrow> failed err w
                | Inr command \<Rightarrow>
                    (Inr (''Starting '' @ vt_label t @ ''...''),
                     [SingleCommand (vt_label t) ''start'' command, TrackReady t ''start''], [], w))
           | None \<Rightarrow>
               (case ap_active_chain s of
                  Some chain \<Rightarrow> start_by_chain X ''start'' ''Launched'' ''Starting'' chain t w
                | None \<Rightarrow> failed ''No start command template available and no active chain configured'' w)))"

definition handle_validator_stop :: "'w os \<Rightarrow> app_state \<Rightarrow> validator_target \<Rightarrow> 'w \<Rightarrow> 'w handled" where
  "handle_validator_stop X s t w =
     (case cc_stop_cmd (ap_control s) of
        Some template \<Rightarrow>
          (case render_command X template t of
             Inl err \<Rightarrow> failed err w
           | Inr command \<Rightarrow>
               (Inr (''Stopping '' @ vt_label t @ ''...''), [SingleCommand (vt_label t) ''stop'' command], [], w))
      | None \<Rightarrow>
          (case http_port t of
             Some port \<Rightarrow>
               (Inr (''Stopping validator on port '' @ show_dec (unat port) @ ''...''), [StopPort (vt_label t) port], [], w)
           | None \<Rightarrow> failed ''Stop command not configured and port unknown for validator'' w))"

definition handle_validator_restart :: "'w os \<Rightarrow> app_state \<Rightarrow> validator_target \<Rightarrow> 'w \<Rightarrow> 'w handled" where
  "handle_validator_restart X s t w =
     (case cc_restart_cmd (ap_control s) of
        Some template \<Rightarrow>
          (case render_command X template t of
             Inl err \<Rightarrow> failed err w
           | Inr command \<Rightarrow>
               (Inr (''Restarting '' @ vt_label t @ ''...''),
                [SingleCommand (vt_label t) ''restart'' command, TrackReady t ''restart''], [], w))
      | None \<Rightarrow>
          (case (cc_stop_cmd (ap_control s), cc_start_cmd (ap_control s)) of
             (Some stop_template, Some start_template) \<Rightarrow>
               (case render_command X stop_template t of
                  Inl err \<Rightarrow> failed err w
                | Inr stop_cmd \<Rightarrow>
                    (case render_command X start_template t of
                       Inl err \<Rightarrow> failed err w
                     | Inr start_cmd \<Rightarrow>
                         (Inr (''Restarting '' @ vt_label t @ ''...''),
                          [RestartCommand (vt_label t) stop_cmd start_cmd, TrackReady t ''restart''], [], w)))
           | _ \<Rightarrow>
               (case ap_active_chain s of
                  None \<Rightarrow> failed ''Restart command not configured and no chain launch metadata available'' w
                | Some chain \<Rightarrow>
                    (case ensure_validator_stopped_with_timeout X t w of
                       (Inl err, w) \<Rightarrow> failed (''Failed to stop existing '' @ vt_label t @ '' before restart: '' @ err) w
                     | (Inr _, w) \<Rightarrow> start_by_chain X ''restart'' ''Restarted'' ''Restarting'' chain t w))))"

definition dispatch_action :: "'w os \<Rightarrow> app_action \<Rightarrow> app_state \<Rightarrow> 'w \<Rightarrow> 'w handled" where
  "dispatch_action X action s w =
     (if action_index action < length (ap_entries s)
      then let t = ve_target (ap_entries s ! action_index action) in
        (case action of
           Start _ \<Rightarrow> handle_validator_start X s t w
         | Stop _ \<Rightarrow> handle_validator_stop X s t w
         | Restart _ \<Rightarrow> handle_validator_restart X s t w)
      else failed ''No validator selected'' w)"

end
