(* ===== verification/Lifecycle_Properties.thy ===== *)
theory Lifecycle_Properties
  imports Lifecycle Genesis_Properties Inspector_Properties
begin

text \<open>
  Lifecycle actions of the inspector: which processes they may end, that every background task
  reports, and the command a node is started with.
\<close>

section \<open>What the actions keep\<close>

text \<open>
  An invariant of the operating system's state that allowed commands and everything else the
  inspector does keep; finding listeners and killing other processes is allowed.
\<close>

locale os_invariant =
  fixes X :: "'w os" and I :: "'w \<Rightarrow> bool" and allowed :: "string list \<Rightarrow> bool"
  assumes run: "allowed command \<Longrightarrow> I w \<Longrightarrow> I (snd (os_run X command w))"
    and spawn: "I w \<Longrightarrow> I (snd (os_spawn X command w))"
    and wait: "I w \<Longrightarrow> I (snd (os_wait X command w))"
    and sleep: "I w \<Longrightarrow> I (os_sleep X ms w)"
    and cancelled: "os_cancelled X w w' = Some w'' \<Longrightarrow> I w' \<Longrightarrow> I w''"
    and connect: "I w \<Longrightarrow> I (snd (os_connect X addr w))"
    and remove_file: "I w \<Longrightarrow> I (os_remove_file X path w)"
    and remove_dir_all: "I w \<Longrightarrow> I (os_remove_dir_all X path w)"
    and create_dir_all: "I w \<Longrightarrow> I (snd (os_create_dir_all X path w))"
    and append: "I w \<Longrightarrow> I (snd (os_append X path txt' w))"
    and find_allowed: "allowed (listeners_of port)"
    and kill_allowed: "pid \<noteq> os_pid X \<Longrightarrow> allowed [''kill'', ''-9'', pid]" "pid \<noteq> os_pid X \<Longrightarrow> allowed [''kill'', pid]"
      "pid \<noteq> os_pid X \<Longrightarrow> allowed [''kill'', ''-0'', pid]"
begin

lemma keeps:
  "os_run X command w = (r, w') \<Longrightarrow> allowed command \<Longrightarrow> I w \<Longrightarrow> I w'"
  "os_spawn X command w = (e, w') \<Longrightarrow> I w \<Longrightarrow> I w'"
  "os_wait X command w = (r, w') \<Longrightarrow> I w \<Longrightarrow> I w'"
  "os_connect X addr w = (c, w') \<Longrightarrow> I w \<Longrightarrow> I w'"
  "os_create_dir_all X path w = (e, w') \<Longrightarrow> I w \<Longrightarrow> I w'"
  "os_append X path content w = (e, w') \<Longrightarrow> I w \<Longrightarrow> I w'"
  using run [of command w] spawn [of w command] wait [of w command] connect [of w addr]
    create_dir_all [of w path] append [of w path content] by auto

lemmas steps = sleep remove_file remove_dir_all find_allowed kill_allowed

lemma kill_pids_keeps: "kill_pids X ls killed w = (r, w') \<Longrightarrow> I w \<Longrightarrow> I w'"
proof (induction ls arbitrary: killed w)
  case (Cons line ls)
  show ?case
  proof (cases "trim line = [] \<or> trim line = os_pid X")
    case False
    obtain out w1 where killed: "os_run X [''kill'', ''-9'', trim line] w = (out, w1)" by fastforce
    then have "I w1" using keeps(1) False Cons.prems(2) steps by blast
    with Cons killed False show ?thesis by (cases out) (auto simp: Let_def)
  qed (use Cons in \<open>simp add: Let_def\<close>)
qed simp

lemma kill_by_port_keeps: "kill_by_port X port w = (r, w') \<Longrightarrow> I w \<Longrightarrow> I w'"
  unfolding kill_by_port_def using find_allowed
  by (auto split: prod.splits sum.splits if_splits dest!: keeps(1) kill_pids_keeps)

lemma end_pids_keeps: "I w \<Longrightarrow> I (end_pids X ls w)"
proof (induction ls arbitrary: w)
  case (Cons line ls)
  show ?case
  proof (cases "trim line = [] \<or> trim line = os_pid X")
    case False
    let ?w = "os_sleep X 100 (snd (os_run X [''kill'', trim line] w))"
    have "I ?w" using Cons.prems False by (intro sleep run kill_allowed) auto
    obtain out w1 where check: "os_run X [''kill'', ''-0'', trim line] ?w = (out, w1)" by fastforce
    then have "I w1" using keeps(1) False \<open>I ?w\<close> steps by blast
    with Cons.IH check False show ?thesis
      by (cases out) (auto simp: Let_def intro!: Cons.IH run kill_allowed)
  qed (use Cons in \<open>simp add: Let_def\<close>)
qed simp

lemma ensure_port_free_keeps: "ensure_port_free X port w = (r, w') \<Longrightarrow> I w \<Longrightarrow> I w'"
  unfolding ensure_port_free_def Let_def using find_allowed
  by (auto split: prod.splits sum.splits if_splits dest!: keeps(1) intro: sleep end_pids_keeps)

lemma free_port_loop_keeps: "free_port_loop n X k port w = (r, w') \<Longrightarrow> I w \<Longrightarrow> I w'"
  by (induction n arbitrary: k w)
    (auto split: prod.splits sum.splits if_splits dest: ensure_port_free_keeps intro: sleep)

lemma fold_keeps: "(\<And>x w. I w \<Longrightarrow> I (h x w)) \<Longrightarrow> I w \<Longrightarrow> I (fold h xs w)"
  by (induction xs arbitrary: w) auto

lemma remove_keeps: "I w \<Longrightarrow> I (remove_path X path w)" "I w \<Longrightarrow> I (remove_if_exists X path w)" "I w \<Longrightarrow> I (clean_subdir X dir w)"
  by (auto simp: remove_path_def remove_if_exists_def clean_subdir_def split: option.split
      intro!: remove_file remove_dir_all fold_keeps)

lemma cleanup_keeps: "I w \<Longrightarrow> I (snd (cleanup_database_locks X t w))"
proof -
  assume w: "I w"
  have "I (snd (kill_by_port X port w))" for port using kill_by_port_keeps [OF prod.collapse [symmetric] w] .
  with w show ?thesis
    by (auto simp: cleanup_database_locks_def Let_def split: sum.split option.split
        intro!: sleep fold_keeps remove_keeps remove_file)
qed

lemma stopped_keeps: "I w \<Longrightarrow> I (snd (ensure_validator_stopped X t w))"
  by (auto simp: ensure_validator_stopped_def split: option.split prod.split sum.split
      intro!: cleanup_keeps sleep dest!: free_port_loop_keeps)

lemma stopped_with_timeout_keeps: "ensure_validator_stopped_with_timeout X t w = (r, w') \<Longrightarrow> I w \<Longrightarrow> I w'"
  using stopped_keeps [of w t] cancelled
  by (auto simp: ensure_validator_stopped_with_timeout_def split: prod.splits option.splits)

lemma create_dirs_keeps: "create_dirs X dirs w = (e, w') \<Longrightarrow> I w \<Longrightarrow> I w'"
proof -
  have "I (snd (fold (\<lambda>(what, dir) (err, w). case err of Some e \<Rightarrow> (Some e, w)
      | None \<Rightarrow> (case os_create_dir_all X dir w of (None, w) \<Rightarrow> (None, w)
          | (Some e, w) \<Rightarrow> (Some (''failed to create '' @ what @ '' '' @ dir), w))) dirs (err, w)))" if "I w" for err w
    using that by (induction dirs arbitrary: err w) (auto split: option.split prod.split dest: keeps(5))
  from this [of w None] show "create_dirs X dirs w = (e, w') \<Longrightarrow> I w \<Longrightarrow> I w'" unfolding create_dirs_def by auto
qed

lemma build_command_keeps: "build_validator_command X chain t w = (r, w') \<Longrightarrow> I w \<Longrightarrow> I w'"
  by (auto simp: build_validator_command_def Let_def split: sum.splits if_splits prod.splits option.splits
      intro!: remove_file dest!: create_dirs_keeps)

lemma spawn_background_keeps: "spawn_background_command X name action command info file w = (r, w') \<Longrightarrow> I w \<Longrightarrow> I w'"
  by (auto simp: spawn_background_command_def prepare_log_stdio_def Let_def split: if_splits prod.splits option.splits
      dest!: keeps(2,5,6))

lemma start_by_chain_keeps: "start_by_chain X phase did doing chain t w = (r, tasks, events, w') \<Longrightarrow> I w \<Longrightarrow> I w'"
  by (auto simp: start_by_chain_def failed_def split: sum.splits prod.splits
      dest!: build_command_keeps spawn_background_keeps)

lemma dispatch_keeps: "dispatch_action X action s w = (r, tasks, events, w') \<Longrightarrow> I w \<Longrightarrow> I w'"
  by (auto simp: dispatch_action_def handle_validator_start_def handle_validator_stop_def handle_validator_restart_def
      failed_def Let_def split: if_splits app_action.splits sum.splits prod.splits option.splits
      dest!: stopped_with_timeout_keeps dest: start_by_chain_keeps)

text \<open>The tasks that run no configured command.\<close>

lemma ping_keeps: "ping_validator X t w = (r, w') \<Longrightarrow> I w \<Longrightarrow> I w'"
  by (auto simp: ping_validator_def Let_def split: option.splits prod.splits connect_outcome.splits dest: keeps(4))

lemma ready_loop_keeps: "ready_loop n X t e w = (r, w') \<Longrightarrow> I w \<Longrightarrow> I w'"
  by (induction n arbitrary: e w) (auto split: prod.splits sum.splits dest: ping_keeps intro: sleep)

lemma run_background_keeps:
  "\<lbrakk>case t of SingleCommand _ _ _ \<Rightarrow> False | RestartCommand _ _ _ \<Rightarrow> False | _ \<Rightarrow> True; I w\<rbrakk> \<Longrightarrow> I (snd (run_background X t w))"
  by (cases t) (auto split: prod.split sum.split dest: kill_by_port_keeps keeps(3) ready_loop_keeps)

end

section \<open>The inspector's own process\<close>

text \<open>An operating system that also records the commands it runs.\<close>

definition logged :: "'w os \<Rightarrow> ('w \<times> string list list) os" where
  "logged X = \<lparr>
     os_run = (\<lambda>c (w, cmds). case os_run X c w of (r, w) \<Rightarrow> (r, w, cmds @ [c])),
     os_spawn = (\<lambda>c (w, cmds). case os_spawn X c w of (r, w) \<Rightarrow> (r, w, cmds)),
     os_wait = (\<lambda>c (w, cmds). case os_wait X c w of (r, w) \<Rightarrow> (r, w, cmds)),
     os_sleep = (\<lambda>ms (w, cmds). (os_sleep X ms w, cmds)),
     os_cancelled = (\<lambda>(w, _) (w', cmds). map_option (\<lambda>w. (w, cmds)) (os_cancelled X w w')),
     os_bind = (\<lambda>p (w, _). os_bind X p w),
     os_connect = (\<lambda>a (w, cmds). case os_connect X a w of (r, w) \<Rightarrow> (r, w, cmds)),
     os_exists = (\<lambda>p (w, _). os_exists X p w),
     os_is_dir = (\<lambda>p (w, _). os_is_dir X p w),
     os_remove_file = (\<lambda>p (w, cmds). (os_remove_file X p w, cmds)),
     os_remove_dir_all = (\<lambda>p (w, cmds). (os_remove_dir_all X p w, cmds)),
     os_read_dir = (\<lambda>p (w, _). os_read_dir X p w),
     os_create_dir_all = (\<lambda>p (w, cmds). case os_create_dir_all X p w of (r, w) \<Rightarrow> (r, w, cmds)),
     os_append = (\<lambda>p content (w, cmds). case os_append X p content w of (r, w) \<Rightarrow> (r, w, cmds)),
     os_pid = os_pid X, os_temp_dir = os_temp_dir X, os_test_dirs = os_test_dirs X, os_parent = os_parent X,
     os_url_host = os_url_host X, os_url_port = os_url_port X, os_shell_split = os_shell_split X\<rparr>"

definition kills :: "string \<Rightarrow> string list \<Rightarrow> bool" where
  "kills pid command \<longleftrightarrow> hd command = ''kill'' \<and> last command = pid"

interpretation own: os_invariant "logged X" "\<lambda>(w, cmds). \<forall>c\<in>set cmds. \<not> kills (os_pid X) c"
  "\<lambda>c. \<not> kills (os_pid X) c" for X :: "'w os"
  by unfold_locales (auto simp: logged_def kills_def listeners_of_def split: prod.splits)

text \<open>Tasks that do not run a command configured by the user.\<close>

definition own_task :: "task \<Rightarrow> bool" where
  "own_task t = (case t of SingleCommand _ _ _ \<Rightarrow> False | RestartCommand _ _ _ \<Rightarrow> False | _ \<Rightarrow> True)"


section \<open>Every action is answered\<close>

fun answer :: "app_action \<Rightarrow> string" where
  "answer (Start _) = ''start-ready''"
| "answer (Stop _) = ''stop''"
| "answer (Restart _) = ''restart-ready''"

definition answers :: "'w os \<Rightarrow> string \<Rightarrow> string \<Rightarrow> task \<Rightarrow> bool" where
  "answers X l action t \<longleftrightarrow> (\<forall>w. \<exists>ok m w'. run_background X t w = ([CommandResult l action ok m], w'))"

lemma task_answers:
  "answers X (vt_label t) (phase @ ''-ready'') (TrackReady t phase)"
  "answers X l ''stop'' (StopPort l port)"
  "answers X l a (SingleCommand l a command)"
  by (auto simp: answers_def command_event_def split: prod.split sum.split)

lemma start_by_chain_tracks:
  "start_by_chain X phase did doing chain t w = (Inr m, tasks, events, w') \<Longrightarrow> TrackReady t phase \<in> set tasks"
  by (auto simp: start_by_chain_def failed_def split: sum.splits prod.splits)

lemma dispatch_answers:
  assumes "dispatch_action X action s w = (Inr m, tasks, events, w')"
  shows "\<exists>t\<in>set tasks. answers X (vt_label (ve_target (ap_entries s ! action_index action))) (answer action) t"
proof -
  let ?t = "ve_target (ap_entries s ! action_index action)"
  show ?thesis
  proof (cases action)
    case (Start i)
    with assms have "TrackReady ?t ''start'' \<in> set tasks"
      by (auto simp: dispatch_action_def handle_validator_start_def failed_def Let_def
          split: if_splits sum.splits prod.splits option.splits dest: start_by_chain_tracks)
    with Start task_answers(1) [of X ?t "''start''"] show ?thesis by auto
  next
    case (Stop i)
    with assms obtain t where "t \<in> set tasks" "answers X (vt_label ?t) ''stop'' t"
      by (auto simp: dispatch_action_def handle_validator_stop_def failed_def Let_def task_answers
          split: if_splits sum.splits prod.splits option.splits)
    with Stop show ?thesis by auto
  next
    case (Restart i)
    with assms have "TrackReady ?t ''restart'' \<in> set tasks"
      by (auto simp: dispatch_action_def handle_validator_restart_def failed_def Let_def
          split: if_splits sum.splits prod.splits option.splits dest: start_by_chain_tracks)
    with Restart task_answers(1) [of X ?t "''restart''"] show ?thesis by auto
  qed
qed

text \<open>The answer takes the mark from the entry.\<close>

lemma position_map: "position p (map g xs) = position (\<lambda>x. p (g x)) xs"
  by (induction xs) auto

lemma index_by_labels: "index_for_label l s = position (\<lambda>x. x = l) (map (\<lambda>e. vt_label (ve_target e)) (ap_entries s))"
  by (simp add: index_for_label_def position_map)

lemma labels_modify:
  assumes "\<And>e. ve_target (h e) = ve_target e"
  shows "map (\<lambda>e. vt_label (ve_target e)) (ap_entries (modify_entry_label l h s)) = map (\<lambda>e. vt_label (ve_target e)) (ap_entries s)"
  using assms by (auto simp: modify_entry_label_def modify_entry_at_def map_update list_update_same_conv split: option.split)

lemma index_modify_label:
  "(\<And>e. ve_target (h e) = ve_target e) \<Longrightarrow> index_for_label l (modify_entry_label l' h s) = index_for_label l s"
  by (simp add: index_by_labels labels_modify)

lemma modify_label_at:
  assumes "index_for_label l s = Some j"
  shows "ap_entries (modify_entry_label l h s) ! j = h (ap_entries s ! j)"
proof -
  have "j < length (ap_entries s)" using assms by (simp add: index_for_label_def position_Some_iff)
  with assms show ?thesis by (simp add: modify_entry_label_def modify_entry_at_def)
qed

lemma answer_clears:
  assumes "action \<in> range answer" and "index_for_label l (handle_command_result w l action ok m s) = Some j"
  shows "ve_lifecycle (ap_entries (handle_command_result w l action ok m s) ! j) = None"
proof -
  let ?s = "refresh_logs_after_action w l action s"
  let ?c = "clear_action_state_label l ?s"
  have "action = ''stop'' \<or> is_ready_action action"
  proof -
    from assms(1) obtain x where "action = answer x" by auto
    then show ?thesis by (cases x) (simp_all add: is_ready_action_def)
  qed
  then have cleared: "command_lifecycle l action success ?s = ?c" for success by (auto simp: command_lifecycle_def is_ready_action_def)
  define h where "h = (if ok then command_entry (w_now w) action else (\<lambda>e. e))"
  have h: "ve_target (h e) = ve_target e" "ve_lifecycle (h e) = ve_lifecycle e" for e
    by (auto simp: h_def command_entry_def)
  have "ap_entries (handle_command_result w l action ok m s) = ap_entries (modify_entry_label l h ?c)"
    by (auto simp: handle_command_result_def Let_def cleared h_def set_status_message_def modify_entry_label_def
        modify_entry_at_def split: option.split)
  moreover from this have "index_for_label l ?c = Some j"
    using assms(2) index_modify_label [of h l l ?c, OF h(1)] by (simp add: index_for_label_def)
  moreover then have "index_for_label l ?s = Some j"
    using index_modify_label [of "\<lambda>e. e\<lparr>ve_lifecycle := None\<rparr>" l l ?s] by (simp add: clear_action_state_label_def)
  ultimately show ?thesis
    by (simp add: modify_label_at h(2)) (simp add: clear_action_state_label_def modify_label_at)
qed

text \<open>
  Every accepted lifecycle action comes to an end in the inspector: one of the tasks it leaves
  behind reports exactly one result for that validator, successful or not, whatever the operating
  system does (readiness is given up after 30 attempts); and when the event loop handles this result
  the validator is no longer marked as starting, stopping or restarting.
\<close>
lemma action_comes_to_an_end:
  assumes "dispatch_action X action s w = (Inr m, tasks, sent, w')"
    and "l = vt_label (ve_target (ap_entries s ! action_index action))"
  shows "\<exists>t\<in>set tasks. \<forall>v. \<exists>ok msg v'. run_background X t v = ([CommandResult l (answer action) ok msg], v')
    \<and> (\<forall>x i. \<exists>i'. handle_event x (CommandResult l (answer action) ok msg) i = Some (i', [])
        \<and> (\<forall>j. index_for_label l (in_app i') = Some j \<longrightarrow> ve_lifecycle (ap_entries (in_app i') ! j) = None))"
proof -
  obtain t where t: "t \<in> set tasks" "answers X l (answer action) t" using dispatch_answers [OF assms(1)] assms(2) by auto
  have handled: "\<exists>i'. handle_event x (CommandResult l (answer action) ok msg) i = Some (i', [])
      \<and> (\<forall>j. index_for_label l (in_app i') = Some j \<longrightarrow> ve_lifecycle (ap_entries (in_app i') ! j) = None)" for x i ok msg
    using answer_clears [of "answer action" l "o_world x" ok msg "in_app i"] by (simp add: update_app_def)
  show ?thesis
  proof (rule bexI [OF _ t(1)], rule allI)
    fix v
    obtain ok msg v' where "run_background X t v = ([CommandResult l (answer action) ok msg], v')"
      using t(2) unfolding answers_def by blast
    with handled show "\<exists>ok msg v'. run_background X t v = ([CommandResult l (answer action) ok msg], v')
      \<and> (\<forall>x i. \<exists>i'. handle_event x (CommandResult l (answer action) ok msg) i = Some (i', [])
        \<and> (\<forall>j. index_for_label l (in_app i') = Some j \<longrightarrow> ve_lifecycle (ap_entries (in_app i') ! j) = None))"
      by metis
  qed
qed

section \<open>The command of a node\<close>

definition option_given :: "string \<Rightarrow> string \<Rightarrow> string list \<Rightarrow> bool" where
  "option_given name v command \<longleftrightarrow> (\<exists>before after. command = before @ [name, v] @ after)"

lemma option_given_step:
  "option_given name v (name # v # command)"
  "option_given name v command \<Longrightarrow> option_given name v (x # command)"
  unfolding option_given_def by (auto intro: exI [of _ "[]"]) (metis append_Cons)

lemma node_arguments_options:
  "option_given ''--validator-key'' (key_file (ac_assets_dir chain) idx) (node_arguments X chain idx port)"
  "option_given ''--p2p-secret-key'' (p2p_file (ac_assets_dir chain) idx) (node_arguments X chain idx port)"
  "option_given ''--chain'' (path_join (ac_assets_dir chain) ''genesis.json'') (node_arguments X chain idx port)"
  "option_given ''--http.port'' (show_dec (unat port)) (node_arguments X chain idx port)"
  unfolding node_arguments_def Let_def key_file_def p2p_file_def append.simps
  by (rule option_given_step | rule option_given_step(2))+

lemma label_of_index: "i \<le> u64_max \<Longrightarrow> label_node_index (CHR ''v'' # show_dec i) = Inr i"
  using parse_uint_show by (simp add: label_node_index_def trim_before_digits is_ascii_digit_def)

lemma build_command_of_target:
  assumes "target_for_index W i chain = Inr t" and "i < unat (ac_base_http_port chain)"
    and "build_validator_command X chain t w = (Inr command, w')"
  shows "\<exists>port. vt_port t = Some port \<and> command = node_arguments X chain i port"
proof -
  from assms(1) have i: "i \<le> u16_max"
    and t: "vt_label t = CHR ''v'' # show_dec i" "vt_port t = Some (ac_base_http_port chain - of_nat i)"
    by (auto simp: target_for_index_def Let_def and_then_Inr split: if_splits)
  have "unat (of_nat i :: u16) = i" using i by (simp add: unat_of_nat)
  then have "u16_saturating_sub (ac_base_http_port chain) (u16_of_nat i) = ac_base_http_port chain - of_nat i"
    using assms(2) by (simp add: u16_saturating_sub_def u16_of_nat_def word_le_nat_alt)
  moreover have "label_node_index (vt_label t) = Inr i" using i t(1) label_of_index by simp
  ultimately show ?thesis
    using assms(3) t(2)
    by (auto simp: build_validator_command_def Let_def split: if_splits prod.splits option.splits)
qed

text \<open>
  A node of a generated network is started with its own keys: on a network whose nodes and genesis
  state were generated into the assets directory, the command the inspector builds for the validator
  of index \<open>i\<close> names the genesis file that was written, files that hold the validator key and the
  network key drawn for node \<open>i\<close>, and the port the inspector polls it on.
\<close>
lemma node_starts_with_its_keys:
  assumes "address_laws G" and "\<forall>nd\<in>set (network_nodes G nsenv docker kube draw n). plain_node nd"
    and "n < 2 ^ 32" and "ga_nodes_csv args = None"
    and "create_rbft_genesis L G N home env args
        (generate_nodes_csv G home nsenv n (Some (genesis_dir args home)) None docker kube draw fs) = (Inr g, fs')"
    and "i < n" and "ac_assets_dir chain = genesis_dir args home"
    and "target_for_index W i chain = Inr t" and "i < unat (ac_base_http_port chain)"
    and "build_validator_command X chain t w = (Inr command, w')"
  shows "\<exists>key p2p chain_file port.
    option_given ''--validator-key'' key command \<and> fs' key = Some (''0x'' @ dk_key_hex (draw i))
    \<and> option_given ''--p2p-secret-key'' p2p command \<and> fs' p2p = Some (dk_p2p_hex (draw i))
    \<and> option_given ''--chain'' chain_file command \<and> fs' chain_file = Some (gl_json G g)
    \<and> vt_port t = Some port \<and> option_given ''--http.port'' (show_dec (unat port)) command"
proof -
  from build_command_of_target [OF assms(8-10)] obtain port
    where "vt_port t = Some port" "command = node_arguments X chain i port" by blast
  with generated_key_files [OF assms(1-6)] assms(7) node_arguments_options show ?thesis by metis
qed

section \<open>An example\<close>

text \<open>A system in which the inspector (process 42) and process 7 listen on every port.\<close>

definition sample_os :: "unit os" where
  "sample_os = \<lparr>
     os_run = (\<lambda>_ w. (Inr \<lparr>po_success = True, po_status = ''0'', po_stdout = ''42'' @ [CHR 0x0A] @ ''7'', po_stderr = []\<rparr>, w)),
     os_spawn = (\<lambda>_ w. (None, w)), os_wait = (\<lambda>_ w. (Inl [], w)), os_sleep = (\<lambda>_ w. w), os_cancelled = (\<lambda>_ _. None),
     os_bind = (\<lambda>_ _. True), os_connect = (\<lambda>_ w. (Reached, w)), os_exists = (\<lambda>_ _. False), os_is_dir = (\<lambda>_ _. False),
     os_remove_file = (\<lambda>_ w. w), os_remove_dir_all = (\<lambda>_ w. w), os_read_dir = (\<lambda>_ _. None),
     os_create_dir_all = (\<lambda>_ w. (None, w)), os_append = (\<lambda>_ _ w. (None, w)), os_pid = ''42'', os_temp_dir = ''tmp'',
     os_test_dirs = (''db'', ''logs''), os_parent = (\<lambda>_. None), os_url_host = (\<lambda>_. Some ''h''), os_url_port = (\<lambda>_. None),
     os_shell_split = (\<lambda>_. Inl [])\<rparr>"

definition stopped_app :: app_state where
  "stopped_app = sample_app\<lparr>ap_entries := [validator_entry_new sample_target],
     ap_control := \<lparr>cc_start_cmd = None, cc_stop_cmd = None, cc_restart_cmd = None\<rparr>\<rparr>"

lemma sample_stop:
  "dispatch_action X (Stop 0) stopped_app w = (Inr (''Stopping validator on port '' @ show_dec 8545 @ ''...''), [StopPort ''v0'' 8545], [], w)"
  "ve_target (ap_entries stopped_app ! 0) = sample_target"
  by (simp_all add: dispatch_action_def handle_validator_stop_def http_port_def stopped_app_def
      validator_entry_new_def sample_target_def)


lemma action_comes_to_an_end_witness:
  "\<exists>t. \<forall>v. \<exists>ok msg v'. run_background sample_os t v = ([CommandResult ''v0'' ''stop'' ok msg], v')"
proof -
  have "''v0'' = vt_label (ve_target (ap_entries stopped_app ! action_index (Stop 0)))"
    using sample_stop(2) by (simp add: sample_target_def)
  from action_comes_to_an_end [OF sample_stop(1) this, where X = sample_os] show ?thesis
    unfolding answer.simps by (elim bexE, intro exI) (rule allI, drule spec, elim exE conjE, intro exI)
qed

definition started_chain :: active_chain where
  "started_chain = sample_chain\<lparr>ac_base_http_port := 8545, ac_assets_dir := ''assets''\<rparr>"

lemma node_starts_with_its_keys_witness:
  "\<exists>command g fs' key. create_rbft_genesis example_libs (sample_genesis_lib (Some 9)) sample_network None None sample_args
      (sample_files (Some 9)) = (Inr g, fs')
    \<and> option_given ''--validator-key'' key command \<and> fs' key = Some ''0xa''"
proof -
  obtain g fs' where run: "create_rbft_genesis example_libs (sample_genesis_lib (Some 9)) sample_network None None sample_args
     (sample_files (Some 9)) = (Inr g, fs')" using sample_runs(1) by blast
  obtain t where t: "target_for_index sample_world 1 started_chain = Inr t"
    by (simp add: target_for_index_def started_chain_def sample_world_def and_then_def)
  then have l: "label_node_index (vt_label t) = Inr 1"
    using label_of_index [of 1] by (auto simp: target_for_index_def Let_def and_then_Inr split: if_splits)
  obtain command where c: "build_validator_command sample_os started_chain t () = (Inr command, ())"
    by (simp add: build_validator_command_def l create_dirs_def sample_os_def u16_saturating_sub_def u16_of_nat_def started_chain_def)
  have "ga_nodes_csv sample_args = None" by (simp add: sample_args_def)
  from node_starts_with_its_keys [OF sample_address_laws sample_plain _ this run [folded sample_dir [of None]] _ _ t _ c]
  have "\<exists>key. option_given ''--validator-key'' key command \<and> fs' key = Some ''0xa''"
    by (auto simp: started_chain_def sample_dir sample_draw_def)
  with run show ?thesis by blast
qed

end
