(* ===== verification/Testnet.thy ===== *)
theory Testnet
  imports Genesis
begin

text \<open>
  The test network of the operator tool (\<open>rbft-utils/src/testnet.rs\<close>): the commands its nodes are
  started with, rotation of their logs, and the monitoring loop that adds validators and followers at
  given heights and decides when to stop.  Files are a map, the chain is reached through the calls of
  the contract tools; what is only printed (heights, memory and pool sizes) is left out, and so are
  Docker images and Kubernetes.
\<close>

section \<open>Starting a node\<close>

definition test_dirs :: "string \<Rightarrow> string \<Rightarrow> string option \<Rightarrow> string option \<Rightarrow> string \<times> string" where
  "test_dirs home name db_dir logs_dir =
     (case (db_dir, logs_dir) of
        (Some db, Some logs) \<Rightarrow> (db, logs)
      | _ \<Rightarrow> (let base = path_join (path_join home ''.rbft'') name in (path_join base ''db'', path_join base ''logs'')))"

record start_args =
  sn_index :: "32 word"
  sn_num_nodes :: "32 word"
  sn_base_http_port :: "16 word"
  sn_assets :: string
  sn_trusted_peers :: string
  sn_exe :: string
  sn_data_dir :: string
  sn_logs_dir :: string
  sn_extra_args :: "string list option"
  sn_docker :: bool
  sn_follower :: bool

definition show_index :: "32 word \<Rightarrow> string" where
  "show_index i = show_dec (unat i)"

text \<open>\<open>checked_add\<close>; \<^const>\<open>None\<close> is the panic.\<close>

definition node_http_port :: "16 word \<Rightarrow> 32 word \<Rightarrow> 16 word option" where
  "node_http_port base index =
     (let i = ucast index :: 16 word in
      if unat base + unat i < 2 ^ 16 then Some (base + i) else None)"

definition node_p2p_port :: "32 word \<Rightarrow> 32 word" where
  "node_p2p_port index = 30303 + index"

definition node_authrpc_port :: "32 word \<Rightarrow> 32 word" where
  "node_authrpc_port index = 10000 + index"

definition trusted_option :: "start_args \<Rightarrow> bool" where
  "trusted_option a \<longleftrightarrow> sn_num_nodes a \<noteq> 1 \<and> sn_trusted_peers a \<noteq> []"

definition extra_words :: "start_args \<Rightarrow> string list" where
  "extra_words a = (case sn_extra_args a of Some extra \<Rightarrow> concat (map split_whitespace extra) | None \<Rightarrow> [])"

definition docker_command :: "start_args \<Rightarrow> 16 word \<Rightarrow> string list" where
  "docker_command a http =
     (let i = show_index (sn_index a); db = path_join (sn_data_dir a) (CHR ''d'' # i) in
      [''docker'', ''run'', ''--rm'', ''--name'', ''rbft-node-testnet-'' @ i, ''--network'', ''host'',
       ''-v'', sn_assets a @ '':/assets:ro'', ''-v'', db @ '':/data'', ''-v'', sn_logs_dir a @ '':/logs'',
       ''rbft-node:testnet'', ''./rbft-node'', ''node'', ''--http'', ''--http.port'', show_dec (unat http),
       ''--http.addr'', ''0.0.0.0'', ''--http.corsdomain'', ''*'', ''--http.api'', ''eth,txpool'',
       ''--chain'', ''/assets/genesis.json'', ''--config'', ''/data/reth-config.toml'',
       ''--p2p-secret-key'', ''/assets/p2p-secret-key'' @ i @ ''.txt''] @
      (if sn_follower a then [] else [''--validator-key'', ''/assets/validator-key'' @ i @ ''.txt'']) @
      (if trusted_option a then [''--trusted-peers'', sn_trusted_peers a] else []) @
      [''--datadir'', ''/data'', ''--ipcpath'', ''/data/reth.ipc'',
       ''--authrpc.port'', show_index (node_authrpc_port (sn_index a)),
       ''--port'', show_index (node_p2p_port (sn_index a)), ''--disable-discovery''] @ extra_words a)"

definition local_command :: "start_args \<Rightarrow> 16 word \<Rightarrow> string list" where
  "local_command a http =
     (let i = show_index (sn_index a); db = path_join (sn_data_dir a) (CHR ''d'' # i) in
      [sn_exe a, ''node'', ''--http'', ''--http.port '' @ show_dec (unat http), ''--http.addr 0.0.0.0'',
       ''--http.corsdomain'', ''*'', ''--http.api'', ''eth,txpool'',
       ''--chain '' @ path_join (sn_assets a) ''genesis.json'',
       ''--config '' @ path_join db ''reth-config.toml'',
       ''--p2p-secret-key '' @ path_join (sn_assets a) (''p2p-secret-key'' @ i @ ''.txt'')] @
      (if sn_follower a then []
       else [''--validator-key '' @ path_join (sn_assets a) (''validator-key'' @ i @ ''.txt'')]) @
      (if trusted_option a then [''--trusted-peers '' @ sn_trusted_peers a] else []) @
      [''--datadir '' @ db, ''--ipcpath '' @ path_join db ''reth.ipc'',
       ''--authrpc.port '' @ show_index (node_authrpc_port (sn_index a)),
       ''--port '' @ show_index (node_p2p_port (sn_index a)), ''--disable-discovery''] @ extra_words a)"

definition node_command :: "start_args \<Rightarrow> 16 word \<Rightarrow> string" where
  "node_command a http = join '' '' (if sn_docker a then docker_command a http else local_command a http)"

text \<open>The command is split at blanks again; an empty one panics.\<close>

definition spawn_command :: "string \<Rightarrow> (string \<times> string list) option" where
  "spawn_command cmd = (case split_whitespace cmd of [] \<Rightarrow> None | program # words \<Rightarrow> Some (program, words))"

definition node_config_text :: string where
  "node_config_text =
     ''# Custom RBFT node configuration'' @ [CHR 0x0A] @
     ''# Tuned for high-throughput transaction processing'' @ [CHR 0x0A, CHR 0x0A] @
     ''[sessions]'' @ [CHR 0x0A] @
     ''# Default is 32, increased to handle extreme transaction bursts'' @ [CHR 0x0A] @
     ''session_command_buffer = 393216'' @ [CHR 0x0A] @
     ''# Default is 260, increased for better event handling'' @ [CHR 0x0A] @
     ''session_event_buffer = 393216'' @ [CHR 0x0A]"

text \<open>A started node: its process and its address; the files written for it.\<close>

record node_process =
  np_program :: string
  np_words :: "string list"
  np_url :: string

definition start_new_validator :: "start_args \<Rightarrow> files \<Rightarrow> (node_process \<times> files) option" where
  "start_new_validator a fs =
     (case node_http_port (sn_base_http_port a) (sn_index a) of
        None \<Rightarrow> None
      | Some http \<Rightarrow>
          let i = show_index (sn_index a); db = path_join (sn_data_dir a) (CHR ''d'' # i);
              cmd = node_command a http;
              log_path = path_join (sn_logs_dir a) (''node'' @ i @ ''.log'')
          in case spawn_command cmd of
              None \<Rightarrow> None
            | Some (program, words) \<Rightarrow>
                Some (\<lparr>np_program = program, np_words = words, np_url = ''http://localhost:'' @ show_dec (unat http)\<rparr>,
                  fs(path_join db ''reth.ipc'' := None, path_join db ''reth-config.toml'' \<mapsto> node_config_text,
                     log_path \<mapsto> (case fs log_path of Some l \<Rightarrow> l | None \<Rightarrow> []) @ ''# '' @ cmd @ [CHR 0x0A, CHR 0x0A])))"

section \<open>Rotation of logs\<close>

definition log_file :: "string \<Rightarrow> nat \<Rightarrow> string" where
  "log_file dir i = path_join dir (''node'' @ show_dec i @ ''.log'')"

definition rotated_file :: "string \<Rightarrow> nat \<Rightarrow> nat \<Rightarrow> string" where
  "rotated_file dir i j = path_join dir (''node'' @ show_dec i @ ''.log.'' @ show_dec j)"

text \<open>\<open>fs::rename\<close>: nothing happens when the source is missing.\<close>

definition rename_file :: "string \<Rightarrow> string \<Rightarrow> files \<Rightarrow> files" where
  "rename_file src dst fs = (case fs src of None \<Rightarrow> fs | Some c \<Rightarrow> fs(src := None, dst \<mapsto> c))"

definition shift_log :: "string \<Rightarrow> nat \<Rightarrow> nat \<Rightarrow> nat \<Rightarrow> files \<Rightarrow> files" where
  "shift_log dir i keep_rotated j fs =
     (let dst = rotated_file dir i j;
          fs = (if j = keep_rotated then fs(dst := None) else fs)
      in if j > 1 then rename_file (rotated_file dir i (j - 1)) dst fs else fs)"

definition rotate_log :: "string \<Rightarrow> nat \<Rightarrow> nat \<Rightarrow> nat \<Rightarrow> files \<Rightarrow> files" where
  "rotate_log dir max_size_bytes keep_rotated i fs =
     (case fs (log_file dir i) of
        None \<Rightarrow> fs
      | Some c \<Rightarrow>
          if length (string_bytes c) < max_size_bytes then fs
          else (fold (shift_log dir i keep_rotated) (rev [1..<keep_rotated + 1]) fs)
            (rotated_file dir i 1 \<mapsto> c, log_file dir i \<mapsto> []))"

definition rotate_log_files :: "string \<Rightarrow> nat \<Rightarrow> nat \<Rightarrow> nat \<Rightarrow> files \<Rightarrow> files" where
  "rotate_log_files dir num_nodes max_size_bytes keep_rotated fs =
     fold (rotate_log dir max_size_bytes keep_rotated) [0..<num_nodes] fs"

section \<open>Adding nodes\<close>

definition parse_blocks :: "string option \<Rightarrow> u64 list" where
  "parse_blocks v =
     (case v of
        None \<Rightarrow> []
      | Some s \<Rightarrow> filter_map (\<lambda>p. parse_u64 (trim p)) (split_on (\<lambda>c. c = CHR '','') s))"

datatype add_next_error =
    CsvNotRead | IndexTooLarge | BadCsvLine | BadValidatorAddress | AddFailed call_error

text \<open>
  The next validator of the file of nodes.  \<^const>\<open>None\<close> is a panic: a file without lines is taken for
  one with a header, and the header is removed.
\<close>

definition node_lines :: "string \<Rightarrow> string list option" where
  "node_lines content =
     (case text_lines content of
        [] \<Rightarrow> None
      | l # ls \<Rightarrow> Some (if starts_with ''node_id'' l then ls else l # ls))"

definition add_next_validator ::
  "genesis_lib \<Rightarrow> ('k, 'n) chain_client \<Rightarrow> string \<Rightarrow> string \<Rightarrow> nat \<Rightarrow> files \<Rightarrow> 'n \<Rightarrow>
   ((add_next_error + string \<times> string) \<times> 'n) option" where
  "add_next_validator G C admin_key assets index fs chain =
     (case fs (path_join assets ''nodes.csv'') of
        None \<Rightarrow> Some (Inl CsvNotRead, chain)
      | Some content \<Rightarrow>
          (case node_lines content of
             None \<Rightarrow> None
           | Some ls \<Rightarrow>
               if index \<ge> length ls then Some (Inl IndexTooLarge, chain)
               else
                 let parts = split_on (\<lambda>c. c = CHR '','') (ls ! index) in
                 if length parts < 5 then Some (Inl BadCsvLine, chain)
                 else
                   let validator = trim (parts ! 1); enode = trim (parts ! 4) in
                   case gl_parse_address G validator of
                     None \<Rightarrow> Some (Inl BadValidatorAddress, chain)
                   | Some a \<Rightarrow>
                       (case add_validator C admin_key a enode ''http://localhost:8545'' chain of
                          (Inl e, chain) \<Rightarrow> Some (Inl (AddFailed e), chain)
                        | (Inr _, chain) \<Rightarrow> Some (Inr (validator, enode), chain))))"

text \<open>A follower is only started when its network key exists.\<close>

definition add_next_follower :: "start_args \<Rightarrow> files \<Rightarrow> (unit + node_process \<times> files) option" where
  "add_next_follower a fs =
     (if fs (path_join (sn_assets a) (''p2p-secret-key'' @ show_index (sn_index a) @ ''.txt'')) = None
      then Some (Inl ())
      else map_option Inr
        (start_new_validator (a\<lparr>sn_num_nodes := sn_index a + 1, sn_follower := True\<rparr>) fs))"

section \<open>The monitoring loop\<close>

record 'n monitor =
  mo_tick :: nat
  mo_added :: "u64 list"
  mo_validator_count :: nat
  mo_followers_added :: "u64 list"
  mo_follower_count :: nat
  mo_nodes :: "node_process list"
  mo_files :: files
  mo_chain :: 'n

record monitor_config =
  mc_start :: start_args
  mc_admin_key :: string
  mc_add_at :: "u64 list"
  mc_followers_at :: "u64 list"
  mc_exit_after :: "u64 option"
  mc_max_log_bytes :: nat
  mc_keep_rotated :: nat

definition max_height :: "u64 option list \<Rightarrow> u64" where
  "max_height hs = (case filter_map (\<lambda>h. h) hs of [] \<Rightarrow> 0 | x # xs \<Rightarrow> Max (set (x # xs)))"

definition add_at_block ::
  "genesis_lib \<Rightarrow> ('k, 'n) chain_client \<Rightarrow> monitor_config \<Rightarrow> u64 \<Rightarrow> u64 \<Rightarrow> 'n monitor \<Rightarrow> 'n monitor option" where
  "add_at_block G C cfg h target m =
     (if target \<le> h \<and> target \<notin> set (mo_added m)
      then let m = m\<lparr>mo_added := target # mo_added m\<rparr> in
        (case add_next_validator G C (mc_admin_key cfg) (sn_assets (mc_start cfg)) (mo_validator_count m) (mo_files m) (mo_chain m) of
           None \<Rightarrow> None
         | Some (Inl _, chain) \<Rightarrow> Some (m\<lparr>mo_chain := chain\<rparr>)
         | Some (Inr _, chain) \<Rightarrow> Some (m\<lparr>mo_chain := chain, mo_validator_count := mo_validator_count m + 1\<rparr>))
      else Some m)"

definition add_follower_at_block :: "monitor_config \<Rightarrow> u64 \<Rightarrow> u64 \<Rightarrow> 'n monitor \<Rightarrow> 'n monitor option" where
  "add_follower_at_block cfg h target m =
     (if target \<le> h \<and> target \<notin> set (mo_followers_added m)
      then let m = m\<lparr>mo_followers_added := target # mo_followers_added m\<rparr>;
               index = sn_num_nodes (mc_start cfg) + of_nat (mo_follower_count m) in
        (case add_next_follower ((mc_start cfg)\<lparr>sn_index := index\<rparr>) (mo_files m) of
           None \<Rightarrow> None
         | Some (Inl _) \<Rightarrow> Some m
         | Some (Inr (node, fs)) \<Rightarrow>
             Some (m\<lparr>mo_follower_count := mo_follower_count m + 1, mo_nodes := mo_nodes m @ [node], mo_files := fs\<rparr>))
      else Some m)"

fun fold_option :: "('a \<Rightarrow> 'b \<Rightarrow> 'b option) \<Rightarrow> 'a list \<Rightarrow> 'b \<Rightarrow> 'b option" where
  "fold_option step [] s = Some s"
| "fold_option step (x # xs) s = (case step x s of None \<Rightarrow> None | Some s \<Rightarrow> fold_option step xs s)"

definition is_exit_condition_met :: "u64 option list \<Rightarrow> u64 option \<Rightarrow> bool \<Rightarrow> bool" where
  "is_exit_condition_met heights exit_after megatx_exited \<longleftrightarrow>
     megatx_exited \<or> (case exit_after of Some b \<Rightarrow> b < max_height heights | None \<Rightarrow> False)"

text \<open>One round: rotation every 30 ticks, then validators, followers and the exit condition.\<close>

definition monitor_step ::
  "genesis_lib \<Rightarrow> ('k, 'n) chain_client \<Rightarrow> monitor_config \<Rightarrow> u64 option list \<Rightarrow> bool \<Rightarrow> 'n monitor \<Rightarrow>
   ('n monitor \<times> bool) option" where
  "monitor_step G C cfg heights megatx_exited m =
     (let m = m\<lparr>mo_tick := mo_tick m + 1\<rparr>;
          m = (if mc_max_log_bytes cfg > 0 \<and> mo_tick m mod 30 = 0
               then m\<lparr>mo_files := rotate_log_files (sn_logs_dir (mc_start cfg)) (unat (sn_num_nodes (mc_start cfg)))
                      (mc_max_log_bytes cfg) (mc_keep_rotated cfg) (mo_files m)\<rparr>
               else m)
      in case fold_option (add_at_block G C cfg (max_height heights)) (mc_add_at cfg) m of
          None \<Rightarrow> None
        | Some m \<Rightarrow>
            (case fold_option (add_follower_at_block cfg (max_height heights)) (mc_followers_at cfg) m of
               None \<Rightarrow> None
             | Some m \<Rightarrow> Some (m, is_exit_condition_met heights (mc_exit_after cfg) megatx_exited)))"

end
