(* ===== verification/Testnet_Properties.thy ===== *)
theory Testnet_Properties
  imports Testnet Genesis_Properties Inspector_Facts
begin

text \<open>
  The test network: rotation of logs, nodes added at given heights, the ports of nodes, and how its
  parts meet the other tools.
\<close>

section \<open>Rotation\<close>

lemma log_names [simp]:
  "rotated_file dir i j = rotated_file dir i k \<longleftrightarrow> j = k" "rotated_file dir i j \<noteq> log_file dir i"
  "log_file dir i \<noteq> rotated_file dir i j"
  by (simp_all add: rotated_file_def log_file_def path_join_def)

text \<open>What holds once the files from the oldest down to above \<open>m\<close> have been shifted.\<close>

definition shifted :: "string \<Rightarrow> nat \<Rightarrow> nat \<Rightarrow> nat \<Rightarrow> files \<Rightarrow> files \<Rightarrow> bool" where
  "shifted dir i keep m fs fs' \<longleftrightarrow>
     (\<forall>j. m < j \<and> 1 < j \<and> j \<le> keep \<longrightarrow> fs' (rotated_file dir i j) = fs (rotated_file dir i (j - 1))) \<and>
     (if m < keep then fs' (rotated_file dir i (max m 1)) = None else fs' = fs) \<and>
     (\<forall>p. (\<forall>j. max m 1 \<le> j \<and> j \<le> keep \<longrightarrow> p \<noteq> rotated_file dir i j) \<longrightarrow> fs' p = fs p)"

lemma shift_first:
  assumes "Suc m = keep"
  shows "shifted dir i keep m fs (shift_log dir i keep keep fs)"
proof (cases "m = 0")
  case True
  then show ?thesis using assms by (auto simp: shifted_def shift_log_def)
next
  case False
  then have "max m 1 = m" by simp
  then show ?thesis using assms False
    by (auto simp: shifted_def shift_log_def rename_file_def Let_def le_Suc_eq split: option.splits)
qed

lemma shift_next:
  assumes "Suc m < keep" and "shifted dir i keep (Suc m) fs fs'"
  shows "shifted dir i keep m fs (shift_log dir i keep (Suc m) fs')"
proof (cases "m = 0")
  case True
  with assms show ?thesis by (auto simp: shifted_def shift_log_def)
next
  case False
  have moved: "fs' (rotated_file dir i (Suc m)) = None" "fs' (rotated_file dir i m) = fs (rotated_file dir i m)"
    using assms by (auto simp: shifted_def)
  have later: "fs' (rotated_file dir i j) = fs (rotated_file dir i (j - 1))" if "Suc m < j" "j \<le> keep" for j
    using assms(2) that by (auto simp: shifted_def)
  have other: "fs' p = fs p" if "\<forall>j. Suc m \<le> j \<and> j \<le> keep \<longrightarrow> p \<noteq> rotated_file dir i j" for p
    using assms(2) that by (auto simp: shifted_def)
  let ?fs = "shift_log dir i keep (Suc m) fs'"
  have step: "?fs = rename_file (rotated_file dir i m) (rotated_file dir i (Suc m)) fs'"
    using False assms(1) by (simp add: shift_log_def)
  have "?fs (rotated_file dir i j) = fs (rotated_file dir i (j - 1))" if "m < j" "j \<le> keep" for j
  proof (cases "j = Suc m")
    case True
    with moved show ?thesis by (auto simp: step rename_file_def split: option.split)
  next
    case False
    with that later [of j] show ?thesis by (auto simp: step rename_file_def split: option.split)
  qed
  moreover have "?fs (rotated_file dir i m) = None" using moved by (auto simp: step rename_file_def split: option.split)
  moreover have "?fs p = fs p" if "\<forall>j. m \<le> j \<and> j \<le> keep \<longrightarrow> p \<noteq> rotated_file dir i j" for p
    using that other [of p] assms(1) by (auto simp: step rename_file_def split: option.split)
  moreover have "max m 1 = m" using False by simp
  ultimately show ?thesis using False assms(1) unfolding shifted_def by simp
qed

lemma shift_all:
  "m < keep \<Longrightarrow> shifted dir i keep m fs (fold (shift_log dir i keep) (rev [m + 1..<keep + 1]) fs)"
proof (induction "keep - Suc m" arbitrary: m)
  case 0
  then have "Suc m = keep" by simp
  then show ?case using shift_first by auto
next
  case (Suc n)
  then have "rev [m + 1..<keep + 1] = rev [Suc m + 1..<keep + 1] @ [Suc m]" by (simp add: upt_conv_Cons)
  moreover have "Suc m < keep" using Suc.hyps(2) by simp
  ultimately show ?case using Suc.hyps(1) [of "Suc m"] Suc.hyps(2) shift_next by simp
qed

text \<open>
  Rotating a log that has grown too large keeps the last logs: with at least one file to keep, the
  content moves to the first rotated file and the log is emptied, every older one moves up by one, the
  oldest beyond the number kept is dropped, and no other file changes.
\<close>
lemma rotation_keeps_last_logs:
  assumes "fs (log_file dir i) = Some c" and "max_size \<le> length (string_bytes c)" and "0 < keep"
    and "fs' = rotate_log dir max_size keep i fs"
  shows "fs' (log_file dir i) = Some [] \<and> fs' (rotated_file dir i 1) = Some c
    \<and> (\<forall>j. 1 < j \<and> j \<le> keep \<longrightarrow> fs' (rotated_file dir i j) = fs (rotated_file dir i (j - 1)))
    \<and> (\<forall>p. p \<noteq> log_file dir i \<and> (\<forall>j. 1 \<le> j \<and> j \<le> keep \<longrightarrow> p \<noteq> rotated_file dir i j) \<longrightarrow> fs' p = fs p)"
proof -
  let ?shifted = "fold (shift_log dir i keep) (rev [1..<keep + 1]) fs"
  have "shifted dir i keep 0 fs ?shifted" using shift_all [OF assms(3)] by simp
  moreover have "fs' = ?shifted(rotated_file dir i 1 \<mapsto> c, log_file dir i \<mapsto> [])"
    using assms by (simp add: rotate_log_def)
  ultimately show ?thesis using assms(3) by (auto simp: shifted_def)
qed

section \<open>The next validator\<close>

definition trimmed_node :: "genesis_lib \<Rightarrow> node_data \<Rightarrow> bool" where
  "trimmed_node G nd \<longleftrightarrow> trim (gl_show_address G (nd_validator_address nd)) = gl_show_address G (nd_validator_address nd)
     \<and> trim (nd_enode nd) = nd_enode nd"

lemma node_lines_csv:
  assumes "address_laws G" and "\<forall>nd\<in>set nds. plain_node nd"
  shows "node_lines (csv_text G nds) = Some (map (\<lambda>(i, nd). csv_row G i nd) (enumerate 0 nds))"
proof -
  have "starts_with ''node_id'' csv_header" by (simp add: starts_with_def csv_header_def)
  then show ?thesis using csv_text_lines [OF assms] by (simp add: node_lines_def)
qed

text \<open>
  Adding the next validator to a running network registers the right node: with the file of nodes
  the generator wrote, a successful addition for index \<open>i\<close> sent the contract exactly the call that
  adds the \<open>i\<close>-th generated address with its enode, signed by the administrator, and its receipt
  shows success.
\<close>
lemma added_validator_is_next_node:
  assumes "address_laws G" and "\<forall>nd\<in>set nds. plain_node nd \<and> trimmed_node G nd"
    and "fs (path_join assets ''nodes.csv'') = Some (csv_text G nds)"
    and "add_next_validator G C admin_key assets i fs chain = Some (Inr added, chain')"
  shows "i < length nds \<and> added = (gl_show_address G (nd_validator_address (nds ! i)), nd_enode (nds ! i))
    \<and> (\<exists>signer. open_client C admin_key ''http://localhost:8545'' = Inr signer
        \<and> cl_send C signer DEFAULT_VALIDATOR_CONTRACT
            (add_validator_data (nd_validator_address (nds ! i)) (nd_enode (nds ! i))) chain = Some chain'
        \<and> cl_receipt C chain' = Some True)"
proof -
  let ?rows = "map (\<lambda>(i, nd). csv_row G i nd) (enumerate 0 nds)"
  have ls: "node_lines (csv_text G nds) = Some ?rows" using assms(1,2) by (intro node_lines_csv) auto
  with assms(3,4) have i: "i < length nds" by (auto simp: add_next_validator_def split: if_splits)
  let ?nd = "nds ! i"
  have nd: "plain_node ?nd" "trimmed_node G ?nd" using assms(2) i by auto
  have parts: "split_on (\<lambda>c. c = CHR '','') (?rows ! i)
      = [show_dec i, gl_show_address G (nd_validator_address ?nd), nd_validator_private_key ?nd,
         nd_p2p_secret_key ?nd, nd_enode ?nd]"
    using csv_row_split [OF assms(1) nd(1)] i by (simp add: nth_enumerate_eq)
  have "gl_parse_address G (gl_show_address G (nd_validator_address ?nd)) = Some (nd_validator_address ?nd)"
    using assms(1) by (simp add: address_laws_def)
  then show ?thesis
    using assms(3,4) ls i parts nd(2)
    by (auto simp: add_next_validator_def trimmed_node_def add_validator_def Let_def
        split: if_splits prod.splits sum.splits option.splits)
qed

section \<open>Nodes added at given heights\<close>

text \<open>Rounds of the loop, with what each observes: the heights and whether the load generator has ended.\<close>

fun monitor_rounds ::
  "genesis_lib \<Rightarrow> ('k, 'n) chain_client \<Rightarrow> monitor_config \<Rightarrow> (u64 option list \<times> bool) list \<Rightarrow> 'n monitor \<Rightarrow> 'n monitor option" where
  "monitor_rounds G C cfg [] m = Some m"
| "monitor_rounds G C cfg ((hs, done') # rounds) m =
     (case monitor_step G C cfg hs done' m of None \<Rightarrow> None | Some (m, _) \<Rightarrow> monitor_rounds G C cfg rounds m)"

definition reached :: "u64 list \<Rightarrow> u64 \<Rightarrow> u64 set" where
  "reached targets h = {b \<in> set targets. b \<le> h}"

lemma add_at_block_added:
  assumes "add_at_block G C cfg h b m = Some m'" and "distinct (mo_added m)"
  shows "set (mo_added m') = set (mo_added m) \<union> reached [b] h" and "distinct (mo_added m')"
    and "mo_validator_count m' + length (mo_added m) \<le> mo_validator_count m + length (mo_added m')"
    and "mo_followers_added m' = mo_followers_added m"
  using assms by (auto simp: add_at_block_def reached_def Let_def split: if_splits option.splits sum.splits prod.splits)

lemma add_all_added:
  assumes "fold_option (add_at_block G C cfg h) targets m = Some m'" and "distinct (mo_added m)"
  shows "set (mo_added m') = set (mo_added m) \<union> reached targets h \<and> distinct (mo_added m')
    \<and> mo_validator_count m' + length (mo_added m) \<le> mo_validator_count m + length (mo_added m')"
  using assms
proof (induction targets arbitrary: m)
  case (Cons b bs)
  then obtain m1 where m1: "add_at_block G C cfg h b m = Some m1" "fold_option (add_at_block G C cfg h) bs m1 = Some m'"
    by (auto split: option.splits)
  note one = add_at_block_added [OF m1(1) Cons.prems(2)]
  from Cons.IH [OF m1(2) one(2)] one show ?case by (auto simp: reached_def)
qed (simp add: reached_def)

lemma add_followers_keeps:
  "fold_option (add_follower_at_block cfg h) targets m = Some m' \<Longrightarrow>
   mo_added m' = mo_added m \<and> mo_validator_count m' = mo_validator_count m"
proof (induction targets arbitrary: m)
  case (Cons b bs)
  then obtain m1 where m1: "add_follower_at_block cfg h b m = Some m1" "fold_option (add_follower_at_block cfg h) bs m1 = Some m'"
    by (auto split: option.splits)
  have "mo_added m1 = mo_added m \<and> mo_validator_count m1 = mo_validator_count m"
    using m1(1) by (auto simp: add_follower_at_block_def Let_def split: if_splits option.splits sum.splits prod.splits)
  with Cons.IH [OF m1(2)] show ?case by simp
qed simp

lemma monitor_step_added:
  assumes "monitor_step G C cfg hs done' m = Some (m', exit)" and "distinct (mo_added m)"
  shows "set (mo_added m') = set (mo_added m) \<union> reached (mc_add_at cfg) (max_height hs) \<and> distinct (mo_added m')
    \<and> mo_validator_count m' + length (mo_added m) \<le> mo_validator_count m + length (mo_added m')"
  using assms(2) assms(1)
  by (auto simp: monitor_step_def Let_def split: option.splits if_splits
      dest!: add_all_added add_followers_keeps)


section \<open>Ports\<close>

lemma ucast_small: "i < 2 ^ 16 \<Longrightarrow> unat (ucast (of_nat i :: 32 word) :: 16 word) = i"
  by (simp add: unsigned_ucast_eq unat_of_nat take_bit_eq_mod)

lemma http_port_value:
  assumes "node_http_port base (of_nat i) = Some p" and "i < 2 ^ 16"
  shows "unat p = unat base + i"
  using assms ucast_small [OF assms(2)]
  by (auto simp: node_http_port_def Let_def unat_word_ariths split: if_splits)

text \<open>
  The ports of up to 100 nodes do not collide: with the HTTP ports ending below 10000, no two of the
  HTTP, engine and network ports of any of the nodes are the same.
\<close>
lemma node_ports_disjoint:
  assumes "unat base + 99 < 10000" and "i < 100" and "j < 100"
    and "node_http_port base (of_nat i) = Some p" and "node_http_port base (of_nat j) = Some q"
  shows "(p = q \<longleftrightarrow> i = j) \<and> (node_p2p_port (of_nat i) = node_p2p_port (of_nat j) \<longleftrightarrow> i = j)
    \<and> (node_authrpc_port (of_nat i) = node_authrpc_port (of_nat j) \<longleftrightarrow> i = j)
    \<and> unat p < unat (node_authrpc_port (of_nat j)) \<and> unat (node_authrpc_port (of_nat j)) < unat (node_p2p_port (of_nat i))"
proof -
  have "unat p = unat base + i" "unat q = unat base + j"
    using http_port_value [OF assms(4)] http_port_value [OF assms(5)] assms(2,3) by simp_all
  moreover have "unat (node_p2p_port (of_nat k)) = 30303 + k" "unat (node_authrpc_port (of_nat k)) = 10000 + k" if "k < 100" for k
    using that by (simp_all add: node_p2p_port_def node_authrpc_port_def unat_word_ariths unat_of_nat)
  ultimately show ?thesis using assms(1-3) by (simp add: word_unat_eq_iff)
qed

text \<open>
  The inspector looks for the nodes of a network it launched on the wrong ports: it starts the test
  network with a base port and expects node \<open>i\<close> on the base port minus \<open>i\<close>, while the test network
  starts that node on the base port plus \<open>i\<close>.
\<close>
lemma launched_ports_differ:
  assumes "node_http_port (ac_base_http_port chain) (of_nat i) = Some p" and "target_for_index W i chain = Inr t"
    and "0 < i"
  shows "vt_port t \<noteq> Some p"
proof -
  have i: "i < 2 ^ 16" "i \<le> unat (ac_base_http_port chain)" and port: "vt_port t = Some (ac_base_http_port chain - of_nat i)"
    using assms(2) by (auto simp: target_for_index_def Let_def and_then_Inr split: if_splits)
  have "unat (ac_base_http_port chain - of_nat i) = unat (ac_base_http_port chain) - i"
    using i by (simp add: unat_sub word_le_nat_alt unat_of_nat)
  with http_port_value [OF assms(1) i(1)] port assms(3) i(2) show ?thesis by auto
qed

section \<open>Default directories\<close>

text \<open>
  With the default directories of both commands the genesis state cannot be made from the nodes just
  generated: the file of nodes is written to \<open>.rbft/testnet\<close> but looked for in \<open>.rbft/testnet/assets\<close>,
  so that without an older file there the generator of the genesis state panics.
\<close>
lemma default_directories_differ:
  assumes "ga_assets_dir args = None" and "ga_nodes_csv args = None"
    and "fs (path_join (genesis_dir args home) ''nodes.csv'') = None"
  shows "create_rbft_genesis L G N home env args (generate_nodes_csv G home nsenv n None None docker kube draw fs)
    = (Inl CsvMissing, generate_nodes_csv G home nsenv n None None docker kube draw fs)"
proof -
  have "path_join (testnet_dir home) ''nodes.csv'' \<noteq> path_join (genesis_dir args home) ''nodes.csv''"
    using assms(1) by (auto simp: genesis_dir_def testnet_dir_def path_join_def unwrap_or_def split: option.split)
  then have "generate_nodes_csv G home nsenv n None None docker kube draw fs (path_join (genesis_dir args home) ''nodes.csv'') = None"
    using assms(3) by (simp add: generate_nodes_csv_def Let_def)
  then show ?thesis using assms(2) by (simp add: create_rbft_genesis_def genesis_nodes_def unwrap_or_def Let_def)
qed

section \<open>Examples\<close>

lemma rotation_keeps_last_logs_witness:
  "\<exists>fs'. fs' = rotate_log ''logs'' 1 2 0 [log_file ''logs'' 0 \<mapsto> ''ab'', rotated_file ''logs'' 0 1 \<mapsto> ''c'']
    \<and> fs' (log_file ''logs'' 0) = Some [] \<and> fs' (rotated_file ''logs'' 0 1) = Some ''ab''
    \<and> fs' (rotated_file ''logs'' 0 2) = Some ''c''"
proof -
  let ?fs = "[log_file ''logs'' 0 \<mapsto> ''ab'', rotated_file ''logs'' 0 1 \<mapsto> ''c'']"
  have "?fs (log_file ''logs'' 0) = Some ''ab''" by simp
  from rotation_keeps_last_logs [where fs = ?fs and dir = "''logs''" and i = 0 and c = "''ab''" and max_size = 1 and keep = 2, OF this _ _ refl]
  have kept: "rotate_log ''logs'' 1 2 0 ?fs (log_file ''logs'' 0) = Some []"
    "rotate_log ''logs'' 1 2 0 ?fs (rotated_file ''logs'' 0 1) = Some ''ab''"
    "\<forall>j. 1 < j \<and> j \<le> 2 \<longrightarrow> rotate_log ''logs'' 1 2 0 ?fs (rotated_file ''logs'' 0 j) = ?fs (rotated_file ''logs'' 0 (j - 1))"
    by (simp_all add: string_bytes_def char_bytes_def)
  from kept(3) have "rotate_log ''logs'' 1 2 0 ?fs (rotated_file ''logs'' 0 2) = ?fs (rotated_file ''logs'' 0 (2 - 1))" by simp
  with kept(1,2) show ?thesis by simp
qed

definition one_node :: node_data where
  "one_node = \<lparr>nd_validator_address = 5, nd_validator_private_key = ''0xa'', nd_p2p_secret_key = ''b'', nd_enode = ''enode://b''\<rparr>"

definition one_node_files :: files where
  "one_node_files = [path_join ''assets'' ''nodes.csv'' \<mapsto> csv_text (sample_genesis_lib None) [one_node]]"

lemma one_node_ok: "\<forall>nd\<in>set [one_node]. plain_node nd \<and> trimmed_node (sample_genesis_lib None) nd"
  by (simp add: one_node_def plain_node_def plain_def trimmed_node_def sample_genesis_lib_def trim_id show_dec.simps
      digit_char_def is_whitespace_def)

lemma one_node_added:
  "add_next_validator (sample_genesis_lib None) ex_client ''k'' ''assets'' 0 one_node_files ()
    = Some (Inr (show_dec 5, ''enode://b''), ())"
proof -
  have ls: "node_lines (csv_text (sample_genesis_lib None) [one_node]) = Some [csv_row (sample_genesis_lib None) 0 one_node]"
    using node_lines_csv [OF sample_address_laws, of "[one_node]" None] one_node_ok by simp
  have parse: "gl_parse_address (sample_genesis_lib None) (show_dec 5) = Some 5"
    using sample_address_laws [of None] by (auto simp: address_laws_def sample_genesis_lib_def dest: spec [of _ 5])
  have shown: "gl_show_address (sample_genesis_lib None) 5 = show_dec 5" by (simp add: sample_genesis_lib_def)
  have "plain_node one_node" "trim (show_dec 5) = show_dec 5" "trim ''enode://b'' = ''enode://b''"
    using one_node_ok shown by (simp_all add: trimmed_node_def one_node_def)
  then show ?thesis
    using csv_row_split [OF sample_address_laws, of one_node None 0] ls parse shown
    by (simp add: add_next_validator_def one_node_files_def one_node_def add_validator_def ex_client_def open_client_def
        split: option.split)
qed

lemma added_validator_is_next_node_witness:
  "\<exists>signer. open_client ex_client ''k'' ''http://localhost:8545'' = Inr signer
    \<and> cl_send ex_client signer DEFAULT_VALIDATOR_CONTRACT (add_validator_data 5 ''enode://b'') () = Some ()"
  using added_validator_is_next_node [OF sample_address_laws one_node_ok _ one_node_added]
  by (auto simp: one_node_files_def one_node_def)

definition sample_monitor :: "unit monitor" where
  "sample_monitor = \<lparr>mo_tick = 0, mo_added = [], mo_validator_count = 4, mo_followers_added = [], mo_follower_count = 0,
     mo_nodes = [], mo_files = Map.empty, mo_chain = ()\<rparr>"

definition sample_monitor_config :: monitor_config where
  "sample_monitor_config = \<lparr>
     mc_start = \<lparr>sn_index = 0, sn_num_nodes = 4, sn_base_http_port = 8545, sn_assets = ''assets'', sn_trusted_peers = [],
       sn_exe = ''rbft-node'', sn_data_dir = ''db'', sn_logs_dir = ''logs'', sn_extra_args = None, sn_docker = False, sn_follower = False\<rparr>,
     mc_admin_key = ''k'', mc_add_at = [10, 20], mc_followers_at = [], mc_exit_after = None, mc_max_log_bytes = 0, mc_keep_rotated = 3\<rparr>"


lemma node_ports_disjoint_witness:
  "\<exists>p q. node_http_port 8545 (of_nat 0) = Some p \<and> node_http_port 8545 (of_nat 3) = Some q \<and> p \<noteq> q"
proof -
  obtain p q where ports: "node_http_port 8545 (of_nat 0) = Some p" "node_http_port 8545 (of_nat 3) = Some q"
    by (simp add: node_http_port_def)
  from node_ports_disjoint [OF _ _ _ ports] ports show ?thesis by auto
qed

definition ported_chain :: active_chain where
  "ported_chain = \<lparr>ac_base_http_port = 8545, ac_num_nodes = 4, ac_data_dir = ''db'', ac_logs_dir = ''logs'', ac_assets_dir = ''assets'',
     ac_rbft_binary = ''rbft-node'', ac_trusted_peers = None\<rparr>"

lemma launched_ports_differ_witness:
  "\<exists>p t. node_http_port 8545 (of_nat 2) = Some p
    \<and> target_for_index \<lparr>w_now = 0, w_read = (\<lambda>_. Inr []), w_write = (\<lambda>_. None), w_parse_url = Inr, w_load_key = (\<lambda>_. None)\<rparr> 2 ported_chain = Inr t
    \<and> vt_port t \<noteq> Some p"
proof -
  let ?W = "\<lparr>w_now = 0, w_read = (\<lambda>_. Inr []), w_write = (\<lambda>_. None), w_parse_url = Inr, w_load_key = (\<lambda>_. None)\<rparr>"
  obtain p where p: "node_http_port (ac_base_http_port ported_chain) (of_nat 2) = Some p"
    by (simp add: node_http_port_def ported_chain_def)
  obtain t where t: "target_for_index ?W 2 ported_chain = Inr t"
    by (simp add: target_for_index_def ported_chain_def and_then_def)
  from launched_ports_differ [OF p t] p t show ?thesis by (auto simp: ported_chain_def)
qed

lemma default_directories_differ_witness:
  "fst (create_rbft_genesis example_libs (sample_genesis_lib None) sample_network (Some ''/root'') None (sample_args\<lparr>ga_assets_dir := None\<rparr>)
     (generate_nodes_csv (sample_genesis_lib None) (Some ''/root'') None 4 None None False False sample_draw Map.empty)) = Inl CsvMissing"
  using default_directories_differ [of "sample_args\<lparr>ga_assets_dir := None\<rparr>" Map.empty "Some ''/root''" example_libs
      "sample_genesis_lib None" sample_network None None 4 False False sample_draw]
  by (simp add: sample_args_def)

end
