(* ===== verification/Loops.thy ===== *)
theory Loops
  imports Rbft_Prelude
begin

text \<open>
  Loops that may run forever: a step either goes on from a new state or ends with a result, and
  \<^const>\<open>None\<close> is a loop that never ends.  Invariants, termination and divergence are shown here once.
\<close>

partial_function (option) repeat_until :: "('s \<Rightarrow> 's + 'r) \<Rightarrow> 's \<Rightarrow> 'r option" where
  "repeat_until step s = (case step s of Inl s' \<Rightarrow> repeat_until step s' | Inr r \<Rightarrow> Some r)"

lemma repeat_until_simps:
  "step s = Inl s' \<Longrightarrow> repeat_until step s = repeat_until step s'"
  "step s = Inr r \<Longrightarrow> repeat_until step s = Some r"
  by (simp_all add: repeat_until.simps)

text \<open>An invariant holds in the state in which the loop ends.\<close>

lemma repeat_until_ends:
  assumes "repeat_until step s = Some r" and "I s" and "\<And>s s'. I s \<Longrightarrow> step s = Inl s' \<Longrightarrow> I s'"
  shows "\<exists>s'. I s' \<and> step s' = Inr r"
proof -
  have "\<forall>I. I s \<and> (\<forall>s s'. I s \<and> step s = Inl s' \<longrightarrow> I s') \<longrightarrow> (\<exists>s'. I s' \<and> step s' = Inr r)"
  proof (rule repeat_until.raw_induct [OF _ assms(1)], intro allI impI)
    fix loop step s r I
    assume IH: "\<And>step s r. loop step s = Some r \<Longrightarrow>
        \<forall>I. I s \<and> (\<forall>s s'. I s \<and> step s = Inl s' \<longrightarrow> I s') \<longrightarrow> (\<exists>s'. I s' \<and> step s' = Inr r)"
      and ret: "(case step s of Inl s' \<Rightarrow> loop step s' | Inr r \<Rightarrow> Some r) = Some r"
      and inv: "I s \<and> (\<forall>s s'. I s \<and> step s = Inl s' \<longrightarrow> I s')"
    show "\<exists>s'. I s' \<and> step s' = Inr r"
    proof (cases "step s")
      case (Inl s')
      with IH [of step s' r] ret inv show ?thesis by auto
    qed (use ret inv in auto)
  qed
  with assms(2,3) show ?thesis by blast
qed

text \<open>A loop ends when every step makes a measure smaller.\<close>

lemma repeat_until_returns:
  assumes "I s" and "\<And>s s'. I s \<Longrightarrow> step s = Inl s' \<Longrightarrow> I s' \<and> (m s' :: nat) < m s"
  shows "\<exists>r. repeat_until step s = Some r"
  using assms(1)
proof (induction "m s" arbitrary: s rule: less_induct)
  case less
  show ?case
  proof (cases "step s")
    case (Inl s')
    with assms(2) [OF less.prems] less.hyps show ?thesis by (simp add: repeat_until.simps)
  qed (simp add: repeat_until.simps)
qed

text \<open>A loop whose every step goes on never ends.\<close>

lemma repeat_until_diverges:
  assumes "I s" and "\<And>s. I s \<Longrightarrow> \<exists>s'. step s = Inl s' \<and> I s'"
  shows "repeat_until step s = None"
proof (cases "repeat_until step s")
  case (Some r)
  obtain s' where "I s'" "step s' = Inr r"
    using repeat_until_ends [OF Some, of I] assms by fastforce
  with assms(2) show ?thesis by force
qed

end
