(* ===== verification/Megatx.thy ===== *)
theory Megatx
  imports Loops Contract_Calls
begin

text \<open>
  The load generator (\<open>rbft-megatx/src/main.rs\<close>): spreading transactions over accounts, funding the
  accounts, probing the pool of a node, sending the transactions in batches and watching the blocks.
  The nodes and the clock are a parameter with a state of its own; times are real numbers of
  milliseconds.  Loops that wait for a node may run forever: \<^const>\<open>None\<close> is a run that never ends.
  Progress reports are left out.
\<close>

section \<open>Nodes\<close>

record tx_request =
  tq_from :: address
  tq_to :: address
  tq_nonce :: u64
  tq_chain_id :: u64
  tq_gas_limit :: u64
  tq_gas_price :: nat
  tq_value :: nat

definition transfer :: "address \<Rightarrow> address \<Rightarrow> u64 \<Rightarrow> nat \<Rightarrow> tx_request" where
  "transfer from to nonce v = \<lparr>tq_from = from, tq_to = to, tq_nonce = nonce, tq_chain_id = 123123,
     tq_gas_limit = 21000, tq_gas_price = 1000000000, tq_value = v\<rparr>"

text \<open>One element of a batch of calls, and the answer to it: an error has a message if that is a string.\<close>

record rpc_item =
  ri_id :: nat
  ri_method :: string
  ri_params :: "string list"

datatype rpc_answer = NoError | ErrorAnswer "string option"

text \<open>A post fails, has another status than success, or a body: the answers if it can be read.\<close>

datatype posted = PostFailed | HttpError | Answered "rpc_answer list option"

text \<open>
  \<open>tn_random\<close> is the account drawn at an index by a generator with a seed, \<open>tn_block\<close> is the number of
  transactions of a block that the node has.
\<close>

record ('k, 'n) tx_net =
  tn_address :: "'k \<Rightarrow> address"
  tn_build :: "'k \<Rightarrow> tx_request \<Rightarrow> bytes option"
  tn_hex :: "bytes \<Rightarrow> string"
  tn_random :: "nat \<Rightarrow> nat \<Rightarrow> 'k"
  tn_parse_key :: "string \<Rightarrow> 'k option"
  tn_parse_address :: "string \<Rightarrow> address option"
  tn_parse_u256 :: "string \<Rightarrow> nat option"
  tn_connect :: "string \<Rightarrow> 'n \<Rightarrow> bool"
  tn_count :: "string \<Rightarrow> address \<Rightarrow> 'n \<Rightarrow> u64 option \<times> 'n"
  tn_balance :: "string \<Rightarrow> address \<Rightarrow> 'n \<Rightarrow> nat option \<times> 'n"
  tn_post :: "string \<Rightarrow> rpc_item list \<Rightarrow> 'n \<Rightarrow> posted \<times> 'n"
  tn_number :: "string \<Rightarrow> 'n \<Rightarrow> u64 option \<times> 'n"
  tn_block :: "string \<Rightarrow> u64 \<Rightarrow> 'n \<Rightarrow> nat option \<times> 'n"
  tn_now :: "'n \<Rightarrow> real"
  tn_sleep :: "real \<Rightarrow> 'n \<Rightarrow> 'n"

datatype mega_error =
    ConnectError | RpcFailed | BuildFailed | FundingNotSent | FundingTimedOut "u64 \<times> u64" | PoolTooSmall nat

datatype 'a outcome = Done 'a | Failed mega_error | Panicked

definition parse_urls :: "string \<Rightarrow> string list" where
  "parse_urls urls = map trim (split_on (\<lambda>c. c = CHR '','') urls)"

definition generate_accounts :: "('k, 'n) tx_net \<Rightarrow> nat \<Rightarrow> 'k list" where
  "generate_accounts N n = map (tn_random N 42) [0..<n]"

definition create_batch_request :: "('k, 'n) tx_net \<Rightarrow> bytes list \<Rightarrow> nat \<Rightarrow> rpc_item list" where
  "create_batch_request N txs id_offset =
     map (\<lambda>(i, tx). \<lparr>ri_id = id_offset + i, ri_method = ''eth_sendRawTransaction'', ri_params = [''0x'' @ tn_hex N tx]\<rparr>)
       (enumerate 0 txs)"

text \<open>\<open>chunks\<close> of a slice.\<close>

function chunks :: "nat \<Rightarrow> 'a list \<Rightarrow> 'a list list" where
  "chunks n xs = (if n = 0 \<or> xs = [] then [] else take n xs # chunks n (drop n xs))"
  by pat_completeness auto
termination by (relation "measure (\<lambda>(n, xs). length xs)") auto

declare chunks.simps [simp del]

text \<open>
  Waiting until a condition holds: it is looked at before the time-out, with a pause after each time
  it does not hold; an unanswered call is an error.
\<close>

definition wait_step ::
  "('k, 'n) tx_net \<Rightarrow> ('n \<Rightarrow> bool option \<times> 'n) \<Rightarrow> real \<Rightarrow> real \<Rightarrow> 'n \<Rightarrow> 'n + bool \<times> 'n" where
  "wait_step N check pause timeout w =
     (if tn_now N w < timeout
      then (case check w of
              (None, w) \<Rightarrow> Inr (False, w)
            | (Some True, w) \<Rightarrow> Inr (True, w)
            | (Some False, w) \<Rightarrow> Inl (tn_sleep N pause w))
      else Inr (True, w))"

definition wait_for ::
  "('k, 'n) tx_net \<Rightarrow> ('n \<Rightarrow> bool option \<times> 'n) \<Rightarrow> real \<Rightarrow> real \<Rightarrow> 'n \<Rightarrow> (bool \<times> 'n) option" where
  "wait_for N check pause timeout w = repeat_until (wait_step N check pause timeout) w"

definition nonce_reached :: "('k, 'n) tx_net \<Rightarrow> string \<Rightarrow> address \<Rightarrow> u64 \<Rightarrow> 'n \<Rightarrow> bool option \<times> 'n" where
  "nonce_reached N url a expected w =
     (case tn_count N url a w of (c, w) \<Rightarrow> (map_option (\<lambda>c. expected \<le> c) c, w))"

definition balance_reached :: "('k, 'n) tx_net \<Rightarrow> string \<Rightarrow> address \<Rightarrow> nat \<Rightarrow> 'n \<Rightarrow> bool option \<times> 'n" where
  "balance_reached N url a amount w =
     (case tn_balance N url a w of (b, w) \<Rightarrow> (map_option (\<lambda>b. amount \<le> b) b, w))"

section \<open>Funding\<close>

definition FUNDING_CHUNK :: nat where "FUNDING_CHUNK = 5000"
definition FUNDING_BATCH :: nat where "FUNDING_BATCH = 100"
definition FUNDING_TRIES :: nat where "FUNDING_TRIES = 5"

definition funding_requests ::
  "('k, 'n) tx_net \<Rightarrow> address \<Rightarrow> nat \<Rightarrow> u64 \<Rightarrow> 'k list \<Rightarrow> tx_request list" where
  "funding_requests N funder amount start chunk =
     map (\<lambda>(i, k). transfer funder (tn_address N k) (start + of_nat i) amount) (enumerate 0 chunk)"

text \<open>Posting a batch until it succeeds, with a pause between two tries.\<close>

fun post_retry :: "('k, 'n) tx_net \<Rightarrow> string \<Rightarrow> rpc_item list \<Rightarrow> nat \<Rightarrow> 'n \<Rightarrow> bool \<times> 'n" where
  "post_retry N url batch 0 w = (False, w)"
| "post_retry N url batch (Suc tries) w =
     (case tn_post N url batch w of
        (Answered _, w) \<Rightarrow> (True, w)
      | (_, w) \<Rightarrow> if tries = 0 then (False, w) else post_retry N url batch tries (tn_sleep N 500 w))"

fun post_batches :: "('k, 'n) tx_net \<Rightarrow> string \<Rightarrow> nat \<Rightarrow> bytes list list \<Rightarrow> 'n \<Rightarrow> bool \<times> 'n" where
  "post_batches N url id_offset [] w = (True, w)"
| "post_batches N url id_offset (batch # batches) w =
     (case post_retry N url (create_batch_request N batch id_offset) FUNDING_TRIES w of
        (False, w) \<Rightarrow> (False, w)
      | (True, w) \<Rightarrow> post_batches N url (id_offset + FUNDING_BATCH) batches w)"

definition fund_chunk ::
  "('k, 'n) tx_net \<Rightarrow> string \<Rightarrow> 'k \<Rightarrow> nat \<Rightarrow> nat \<Rightarrow> u64 \<Rightarrow> 'k list \<Rightarrow> 'n \<Rightarrow> (u64 outcome \<times> 'n) option" where
  "fund_chunk N url funder amount funded start chunk w =
     (let from = tn_address N funder; expected = start + of_nat (length chunk) in
      case those (map (tn_build N funder) (funding_requests N from amount start chunk)) of
        None \<Rightarrow> Some (Panicked, w)
      | Some txs \<Rightarrow>
          (case post_batches N url funded (chunks FUNDING_BATCH txs) w of
             (False, w) \<Rightarrow> Some (Failed FundingNotSent, w)
           | (True, w) \<Rightarrow>
               (case wait_for N (nonce_reached N url from expected) 1000 (tn_now N w + 120000) w of
                  None \<Rightarrow> None
                | Some (False, w) \<Rightarrow> Some (Failed RpcFailed, w)
                | Some (True, w) \<Rightarrow>
                    (case tn_count N url from w of
                       (None, w) \<Rightarrow> Some (Failed RpcFailed, w)
                     | (Some final, w) \<Rightarrow>
                         Some (if final < expected then Failed (FundingTimedOut (expected, final)) else Done final, w)))))"

fun fund_chunks ::
  "('k, 'n) tx_net \<Rightarrow> string \<Rightarrow> 'k \<Rightarrow> nat \<Rightarrow> nat \<Rightarrow> u64 \<Rightarrow> 'k list list \<Rightarrow> 'n \<Rightarrow> (unit outcome \<times> 'n) option" where
  "fund_chunks N url funder amount funded nonce [] w = Some (Done (), w)"
| "fund_chunks N url funder amount funded nonce (chunk # cs) w =
     (case fund_chunk N url funder amount funded nonce chunk w of
        None \<Rightarrow> None
      | Some (Done final, w) \<Rightarrow> fund_chunks N url funder amount (funded + length chunk) final cs w
      | Some (Failed e, w) \<Rightarrow> Some (Failed e, w)
      | Some (Panicked, w) \<Rightarrow> Some (Panicked, w))"

definition fund_accounts ::
  "('k, 'n) tx_net \<Rightarrow> string \<Rightarrow> 'k \<Rightarrow> 'k list \<Rightarrow> nat \<Rightarrow> 'n \<Rightarrow> (unit outcome \<times> 'n) option" where
  "fund_accounts N url funder accounts amount w =
     (case tn_count N url (tn_address N funder) w of
        (None, w) \<Rightarrow> Some (Failed RpcFailed, w)
      | (Some nonce, w) \<Rightarrow> fund_chunks N url funder amount 0 nonce (chunks FUNDING_CHUNK accounts) w)"

section \<open>Probing the pool\<close>

definition error_message :: "string option \<Rightarrow> string" where
  "error_message m = (case m of Some s \<Rightarrow> s | None \<Rightarrow> [])"

definition pool_full_probe :: "rpc_answer \<Rightarrow> bool" where
  "pool_full_probe a \<longleftrightarrow> (case a of NoError \<Rightarrow> False | ErrorAnswer m \<Rightarrow>
     contains ''txpool is full'' (error_message m) \<or> contains ''exceeds txpool max'' (error_message m)
     \<or> contains ''account slots full'' (error_message m))"

definition already_in_pool :: "string option \<Rightarrow> bool" where
  "already_in_pool m \<longleftrightarrow> contains ''already known'' (error_message m) \<or> contains ''nonce too low'' (error_message m)"

definition accepted_probe :: "rpc_answer \<Rightarrow> bool" where
  "accepted_probe a \<longleftrightarrow> \<not> pool_full_probe a \<and> (case a of NoError \<Rightarrow> True | ErrorAnswer m \<Rightarrow> already_in_pool m)"

definition validate_pool_capacity ::
  "('k, 'n) tx_net \<Rightarrow> string \<Rightarrow> 'k \<Rightarrow> u64 \<Rightarrow> 'n \<Rightarrow> (unit outcome \<times> 'n) option" where
  "validate_pool_capacity N url funder max_txs w =
     (let probe = tn_random N 999999 0; from = tn_address N funder; to = tn_address N probe; amount = 10 ^ 18 in
     case tn_count N url from w of
       (None, w) \<Rightarrow> Some (Failed RpcFailed, w)
     | (Some nonce, w) \<Rightarrow>
     (case tn_build N funder (transfer from to nonce amount) of
       None \<Rightarrow> Some (Failed BuildFailed, w)
     | Some funding \<Rightarrow>
     (case tn_post N url (create_batch_request N [funding] 0) w of
       (PostFailed, w) \<Rightarrow> Some (Failed RpcFailed, w)
     | (_, w) \<Rightarrow>
     (case wait_for N (balance_reached N url to amount) 500 (tn_now N w + 30000) w of
       None \<Rightarrow> None
     | Some (False, w) \<Rightarrow> Some (Failed RpcFailed, w)
     | Some (True, w) \<Rightarrow>
     (case those (map (\<lambda>n. tn_build N probe (transfer to from (of_nat n) 1)) [0..<unat max_txs]) of
       None \<Rightarrow> Some (Failed BuildFailed, w)
     | Some txs \<Rightarrow>
     (case tn_post N url (create_batch_request N txs 0) w of
       (PostFailed, w) \<Rightarrow> Some (Failed RpcFailed, w)
     | (reply, w) \<Rightarrow>
     (let results = (case reply of Answered (Some rs) \<Rightarrow> rs | _ \<Rightarrow> []) in
      if \<exists>a \<in> set results. pool_full_probe a
      then Some (Failed (PoolTooSmall (length (filter accepted_probe results))), w)
      else
        (case wait_for N (nonce_reached N url to max_txs) 500 (tn_now N w + 60000) w of
           None \<Rightarrow> None
         | Some (False, w) \<Rightarrow> Some (Failed RpcFailed, w)
         | Some (True, w) \<Rightarrow> Some (Done (), w)))))))))"

section \<open>Building the transactions\<close>

text \<open>The first of the elements with the smallest key.\<close>

fun min_by_key :: "('a \<Rightarrow> 'b::linorder) \<Rightarrow> 'a list \<Rightarrow> 'a option" where
  "min_by_key k [] = None"
| "min_by_key k (x # xs) = Some (foldl (\<lambda>b y. if k y < k b then y else b) x xs)"

definition least_loaded :: "u64 list \<Rightarrow> u64 \<Rightarrow> nat option" where
  "least_loaded counts max_txs = map_option fst (min_by_key snd (filter (\<lambda>(_, c). c < max_txs) (enumerate 0 counts)))"

text \<open>\<^const>\<open>None\<close> is the panic when every account has reached its limit.\<close>

fun tx_assignments :: "nat \<Rightarrow> u64 list \<Rightarrow> u64 \<Rightarrow> u64 list \<Rightarrow> (nat \<times> u64) list option" where
  "tx_assignments 0 nonces max_txs counts = Some []"
| "tx_assignments (Suc n) nonces max_txs counts =
     (case least_loaded counts max_txs of
        None \<Rightarrow> None
      | Some i \<Rightarrow>
          map_option ((#) (i, nonces ! i + counts ! i))
            (tx_assignments n nonces max_txs (counts[i := counts ! i + 1])))"

fun fetch_nonces :: "('k, 'n) tx_net \<Rightarrow> string \<Rightarrow> 'k list \<Rightarrow> 'n \<Rightarrow> u64 list option \<times> 'n" where
  "fetch_nonces N url [] w = (Some [], w)"
| "fetch_nonces N url (k # ks) w =
     (case tn_count N url (tn_address N k) w of
        (None, w) \<Rightarrow> (None, w)
      | (Some c, w) \<Rightarrow> (case fetch_nonces N url ks w of (cs, w) \<Rightarrow> (map_option ((#) c) cs, w)))"

definition build_transactions_multi_account ::
  "('k, 'n) tx_net \<Rightarrow> string \<Rightarrow> u64 \<Rightarrow> 'k list \<Rightarrow> string \<Rightarrow> u64 \<Rightarrow> 'n \<Rightarrow> (nat \<times> bytes) list outcome \<times> 'n" where
  "build_transactions_multi_account N url num_txs accounts to_address max_txs w =
     (case tn_parse_address N to_address of
        None \<Rightarrow> (Panicked, w)
      | Some to \<Rightarrow>
          (case fetch_nonces N url accounts w of
             (None, w) \<Rightarrow> (Failed RpcFailed, w)
           | (Some nonces, w) \<Rightarrow>
               (case tx_assignments (unat num_txs) nonces max_txs (replicate (length accounts) 0) of
                  None \<Rightarrow> (Panicked, w)
                | Some as \<Rightarrow>
                    (case those (map (\<lambda>(i, nonce).
                        map_option (Pair i) (tn_build N (accounts ! i) (transfer (tn_address N (accounts ! i)) to nonce 1))) as) of
                       None \<Rightarrow> (Panicked, w)
                     | Some txs \<Rightarrow> (Done txs, w)))))"

section \<open>Sending\<close>

record sending =
  se_sent :: nat
  se_accepted :: nat
  se_rejected :: nat
  se_failures :: nat
  se_batch :: nat

definition sending_new :: sending where
  "sending_new = \<lparr>se_sent = 0, se_accepted = 0, se_rejected = 0, se_failures = 0, se_batch = 0\<rparr>"

definition MAX_CONSECUTIVE_FAILURES :: nat where "MAX_CONSECUTIVE_FAILURES = 10"

definition batch_delay :: "u64 \<Rightarrow> nat \<Rightarrow> real" where
  "batch_delay target_tps batch_size =
     (if target_tps > 0 then real batch_size / real (unat target_tps) * 1000 else 0)"

text \<open>A failure ends the loop when it is the tenth in a row, and otherwise the batch is tried again.\<close>

definition send_failure :: "('k, 'n) tx_net \<Rightarrow> sending \<Rightarrow> 'n \<Rightarrow> sending \<times> 'n + sending \<times> 'n" where
  "send_failure N s w =
     (let s = s\<lparr>se_failures := se_failures s + 1\<rparr> in
      if se_failures s \<ge> MAX_CONSECUTIVE_FAILURES then Inr (s, w) else Inl (s, tn_sleep N 100 w))"

text \<open>After a batch that is done with, the loop waits for the rate.\<close>

definition send_advance :: "('k, 'n) tx_net \<Rightarrow> real \<Rightarrow> real \<Rightarrow> nat \<Rightarrow> sending \<Rightarrow> 'n \<Rightarrow> sending \<times> 'n + sending \<times> 'n" where
  "send_advance N delay started batch_end s w =
     (let elapsed = tn_now N w - started in
      Inl (s\<lparr>se_sent := batch_end, se_batch := se_batch s + 1\<rparr>,
           if delay \<noteq> 0 \<and> elapsed < delay then tn_sleep N (delay - elapsed) w else w))"

definition answer_pool_full :: "rpc_answer \<Rightarrow> bool" where
  "answer_pool_full a \<longleftrightarrow> (case a of NoError \<Rightarrow> False | ErrorAnswer m \<Rightarrow> contains ''txpool is full'' (error_message m))"

definition answer_known :: "rpc_answer \<Rightarrow> bool" where
  "answer_known a \<longleftrightarrow> (case a of NoError \<Rightarrow> False | ErrorAnswer m \<Rightarrow> \<not> answer_pool_full a \<and> already_in_pool m)"

definition answer_other :: "rpc_answer \<Rightarrow> bool" where
  "answer_other a \<longleftrightarrow> a \<noteq> NoError \<and> \<not> answer_pool_full a \<and> \<not> answer_known a"

text \<open>What the loop does with the reply to a batch.\<close>

definition after_post ::
  "('k, 'n) tx_net \<Rightarrow> real \<Rightarrow> real \<Rightarrow> nat \<Rightarrow> sending \<Rightarrow> posted \<Rightarrow> 'n \<Rightarrow> sending \<times> 'n + sending \<times> 'n" where
  "after_post N delay started batch_end s reply w =
     (case reply of
        PostFailed \<Rightarrow> send_failure N s w
      | HttpError \<Rightarrow> send_failure N s w
      | Answered None \<Rightarrow> send_advance N delay started batch_end s w
      | Answered (Some rs) \<Rightarrow>
          let full = length (filter answer_pool_full rs);
              accepted = length (filter (\<lambda>a. a = NoError) rs);
              known = length (filter answer_known rs);
              other = length (filter answer_other rs)
          in if full > 0
             then Inl (s\<lparr>se_rejected := se_rejected s + full\<rparr>, tn_sleep N 2000 w)
             else
               let s = s\<lparr>se_accepted := se_accepted s + accepted + known, se_rejected := se_rejected s + other\<rparr>
               in if other > 0 \<and> accepted = 0 then send_failure N s w
                  else send_advance N delay started batch_end (s\<lparr>se_failures := 0\<rparr>) w)"

definition send_step ::
  "('k, 'n) tx_net \<Rightarrow> string list \<Rightarrow> nat \<Rightarrow> real \<Rightarrow> bytes list \<Rightarrow> sending \<times> 'n \<Rightarrow> sending \<times> 'n + sending \<times> 'n" where
  "send_step N urls batch_size delay txs = (\<lambda>(s, w).
     if \<not> se_sent s < length txs then Inr (s, w)
     else
       let batch_end = min (se_sent s + batch_size) (length txs);
           batch = take (batch_end - se_sent s) (drop (se_sent s) txs);
           url = urls ! (se_batch s mod length urls);
           (reply, w') = tn_post N url (create_batch_request N batch (se_sent s)) w
       in after_post N delay (tn_now N w) batch_end s reply w')"

definition send_loop ::
  "('k, 'n) tx_net \<Rightarrow> string list \<Rightarrow> nat \<Rightarrow> real \<Rightarrow> bytes list \<Rightarrow> 'n \<Rightarrow> (sending \<times> 'n) option" where
  "send_loop N urls batch_size delay txs w = repeat_until (send_step N urls batch_size delay txs) (sending_new, w)"

section \<open>Watching the blocks\<close>

record watch =
  wt_last :: "u64 option"
  wt_last_time :: "real option"
  wt_count :: u64
  wt_peak_tps :: real
  wt_deadline :: "real option"

definition watch_block :: "('k, 'n) tx_net \<Rightarrow> string \<Rightarrow> u64 \<Rightarrow> watch \<times> 'n \<Rightarrow> watch \<times> 'n" where
  "watch_block N url n = (\<lambda>(s, w).
     case tn_block N url n w of
       (None, w) \<Rightarrow> (s, w)
     | (Some txs, w) \<Rightarrow>
         let ms = (case wt_last_time s of Some t \<Rightarrow> real_of_int \<lfloor>tn_now N w - t\<rfloor> | None \<Rightarrow> 0);
             tps = (if ms > 0 then real txs * 1000 / ms else 0)
         in (s\<lparr>wt_count := wt_count s + of_nat txs, wt_peak_tps := max tps (wt_peak_tps s), wt_last_time := Some (tn_now N w)\<rparr>, w))"

definition watch_new_blocks :: "('k, 'n) tx_net \<Rightarrow> string \<Rightarrow> watch \<times> 'n \<Rightarrow> watch \<times> 'n" where
  "watch_new_blocks N url = (\<lambda>(s, w).
     case tn_number N url w of
       (None, w) \<Rightarrow> (s, w)
     | (Some current, w) \<Rightarrow>
         (case wt_last s of
            None \<Rightarrow> (s\<lparr>wt_last := Some current\<rparr>, w)
          | Some prev \<Rightarrow>
              if prev < current
              then (case fold (watch_block N url) (map of_nat [unat prev + 1..<unat current + 1]) (s, w) of
                      (s, w) \<Rightarrow> (s\<lparr>wt_last := Some current\<rparr>, w))
              else (s, w)))"

text \<open>\<open>active\<close> is the flag the sender clears when it is done.\<close>

definition watch_step ::
  "('k, 'n) tx_net \<Rightarrow> string \<Rightarrow> ('n \<Rightarrow> bool) \<Rightarrow> u64 \<Rightarrow> u64 \<Rightarrow> watch \<times> 'n \<Rightarrow> watch \<times> 'n + watch \<times> 'n" where
  "watch_step N url active expected max_wait = (\<lambda>(s, w).
     case watch_new_blocks N url (s, tn_sleep N 100 w) of (s, w) \<Rightarrow>
       if active w then Inl (s, w)
       else
         let s = (if wt_deadline s = None \<and> max_wait > 0
                  then s\<lparr>wt_deadline := Some (tn_now N w + 1000 * real (unat max_wait))\<rparr> else s)
         in if expected \<le> wt_count s then Inr (s, w)
            else (case wt_deadline s of
                    Some d \<Rightarrow> if d \<le> tn_now N w then Inr (s, w) else Inl (s, w)
                  | None \<Rightarrow> Inl (s, w)))"

record mega_summary =
  ms_total :: u64
  ms_seconds :: real
  ms_average_tps :: real
  ms_peak_tps :: real

definition mega_summary_of :: "real \<Rightarrow> watch \<Rightarrow> mega_summary" where
  "mega_summary_of ms s = \<lparr>ms_total = wt_count s, ms_seconds = ms / 1000,
     ms_average_tps = (if ms \<ge> 1000 then real (unat (wt_count s)) / (ms / 1000) else 0), ms_peak_tps = wt_peak_tps s\<rparr>"

definition watch_start :: "('k, 'n) tx_net \<Rightarrow> string \<Rightarrow> 'n \<Rightarrow> watch \<times> 'n" where
  "watch_start N url w =
     (case tn_number N url w of (n, w) \<Rightarrow>
        (\<lparr>wt_last = n, wt_last_time = None, wt_count = 0, wt_peak_tps = 0, wt_deadline = None\<rparr>, w))"

definition monitor_blocks ::
  "('k, 'n) tx_net \<Rightarrow> string \<Rightarrow> ('n \<Rightarrow> bool) \<Rightarrow> u64 \<Rightarrow> u64 \<Rightarrow> 'n \<Rightarrow> (mega_summary \<times> 'n) option" where
  "monitor_blocks N url active expected max_wait w =
     (let started = tn_now N w in
      map_option (\<lambda>(s, w). (mega_summary_of (tn_now N w - started) s, w))
        (repeat_until (watch_step N url active expected max_wait) (watch_start N url w)))"

section \<open>The command\<close>

record spam_args =
  sa_num_txs :: u64
  sa_admin_key :: string
  sa_to_address :: string
  sa_urls :: string
  sa_batch_size :: nat
  sa_max_txs_per_account :: u64
  sa_funding_amount :: string
  sa_target_tps :: u64
  sa_max_wait_seconds :: u64

text \<open>The number of accounts; \<^const>\<open>None\<close> is the division by zero.\<close>

definition num_accounts :: "u64 \<Rightarrow> u64 \<Rightarrow> nat option" where
  "num_accounts num_txs max_txs =
     (if max_txs = 0 then None else Some ((unat num_txs + unat max_txs - 1) div unat max_txs))"

text \<open>What is done before the first transaction of the load is sent.\<close>

definition prepare_spam ::
  "('k, 'n) tx_net \<Rightarrow> spam_args \<Rightarrow> 'n \<Rightarrow> ((nat \<times> bytes) list outcome \<times> 'n) option" where
  "prepare_spam N a w =
     (let urls = parse_urls (sa_urls a) in
      case tn_parse_key N (sa_admin_key a) of
        None \<Rightarrow> Some (Panicked, w)
      | Some funder \<Rightarrow>
     if \<exists>url \<in> set urls. \<not> tn_connect N url w then Some (Failed ConnectError, w)
     else case validate_pool_capacity N (hd urls) funder (sa_max_txs_per_account a) w of
        None \<Rightarrow> None
      | Some (Failed e, w) \<Rightarrow> Some (Failed e, w)
      | Some (Panicked, w) \<Rightarrow> Some (Panicked, w)
      | Some (Done _, w) \<Rightarrow>
     (case num_accounts (sa_num_txs a) (sa_max_txs_per_account a) of
        None \<Rightarrow> Some (Panicked, w)
      | Some n \<Rightarrow>
     (let accounts = generate_accounts N n in
      case tn_parse_u256 N (sa_funding_amount a) of
        None \<Rightarrow> Some (Panicked, w)
      | Some amount \<Rightarrow>
     (case fund_accounts N (hd urls) funder accounts amount w of
        None \<Rightarrow> None
      | Some (Failed e, w) \<Rightarrow> Some (Failed e, w)
      | Some (Panicked, w) \<Rightarrow> Some (Panicked, w)
      | Some (Done _, w) \<Rightarrow>
          Some (build_transactions_multi_account N (hd urls) (sa_num_txs a) accounts (sa_to_address a) (sa_max_txs_per_account a) w)))))"

text \<open>
  Sending; the watching task runs beside it.  \<open>finish\<close> clears its flag, and the command ends when that
  task, here resumed in the state \<open>watching\<close> it has then, does.
\<close>

definition spam ::
  "('k, 'n) tx_net \<Rightarrow> ('n \<Rightarrow> bool) \<Rightarrow> ('n \<Rightarrow> 'n) \<Rightarrow> ('n \<Rightarrow> watch) \<Rightarrow> spam_args \<Rightarrow> 'n \<Rightarrow> (sending outcome \<times> 'n) option" where
  "spam N active finish watching a w =
     (case prepare_spam N a w of
        None \<Rightarrow> None
      | Some (Failed e, w) \<Rightarrow> Some (Failed e, w)
      | Some (Panicked, w) \<Rightarrow> Some (Panicked, w)
      | Some (Done txs, w) \<Rightarrow>
          let urls = parse_urls (sa_urls a) in
          (case send_loop N urls (sa_batch_size a) (batch_delay (sa_target_tps a) (sa_batch_size a)) (map snd txs) w of
             None \<Rightarrow> None
           | Some (s, w) \<Rightarrow>
               (case repeat_until (watch_step N (hd urls) active (sa_num_txs a) (sa_max_wait_seconds a)) (watching w, finish w) of
                  None \<Rightarrow> None
                | Some (_, w) \<Rightarrow> Some (Done s, w))))"

end
