(* ===== verification/Megatx_Properties.thy ===== *)
theory Megatx_Properties
  imports Megatx
begin

text \<open>
  The load generator: how transactions are spread over accounts, which batches are posted, that
  funding comes to an end, and when the command does not.
\<close>

section \<open>Spreading over accounts\<close>

lemma min_by_key_split:
  assumes "\<forall>a \<in> set as. k x < k a" and "\<forall>b \<in> set bs. k x \<le> k b"
  shows "min_by_key k (as @ x # bs) = Some x"
proof -
  let ?min = "\<lambda>b y. if k y < k b then y else b"
  have rest: "foldl ?min x bs = x" using assms(2) by (induction bs) auto
  have member: "foldl ?min a ys \<in> set (a # ys)" for a ys by (induction ys arbitrary: a) auto
  show ?thesis
  proof (cases as)
    case (Cons a ys)
    with member [of a ys] assms(1) have "k x < k (foldl ?min a ys)" by auto
    with rest Cons show ?thesis by simp
  qed (simp add: rest)
qed

text \<open>The number of transactions account \<open>i\<close> of \<open>n\<close> has after \<open>j\<close> of them.\<close>

definition dealt :: "nat \<Rightarrow> nat \<Rightarrow> nat \<Rightarrow> nat" where
  "dealt n j i = j div n + (if i < j mod n then 1 else 0)"

lemma dealt_Suc:
  assumes "0 < n" and "i < n"
  shows "dealt n (Suc j) i = dealt n j i + (if i = j mod n then 1 else 0)"
proof (cases "Suc (j mod n) = n")
  case True
  then have "Suc j mod n = 0" "Suc j div n = Suc (j div n)" by (simp_all add: mod_Suc div_Suc)
  with True assms show ?thesis by (auto simp: dealt_def)
next
  case False
  then have "Suc j mod n = Suc (j mod n)" "Suc j div n = j div n" by (simp_all add: mod_Suc div_Suc)
  then show ?thesis by (auto simp: dealt_def)
qed

lemma dealt_bound: "0 < n \<Longrightarrow> j < n * m \<Longrightarrow> dealt n j i \<le> m"
  using less_mult_imp_div_less [of j m n] by (simp add: dealt_def mult.commute)

lemma least_loaded_dealt:
  assumes "0 < n" and "j < n * unat max_txs" and "counts = map (\<lambda>i. of_nat (dealt n j i)) [0..<n]"
  shows "least_loaded counts max_txs = Some (j mod n)"
proof -
  let ?q = "j mod n"
  let ?P = "\<lambda>(_, c). c < max_txs"
  have small: "dealt n j i < 2 ^ 64" for i
    using dealt_bound [OF assms(1,2), of i] unsigned_less [of max_txs] by (auto intro: le_less_trans)
  have less: "(of_nat (dealt n j i) :: u64) < of_nat (dealt n j i') \<longleftrightarrow> dealt n j i < dealt n j i'"
    and le: "(of_nat (dealt n j i) :: u64) \<le> of_nat (dealt n j i') \<longleftrightarrow> dealt n j i \<le> dealt n j i'" for i i'
    using small [of i] small [of i'] by (simp_all add: word_less_nat_alt word_le_nat_alt unat_of_nat)
  have "j div n < unat max_txs" using assms(1,2) by (simp add: less_mult_imp_div_less mult.commute)
  then have room: "(of_nat (dealt n j ?q) :: u64) < max_txs"
    using small [of ?q] by (simp add: word_less_nat_alt unat_of_nat dealt_def)
  have "?q < n" using assms(1) by simp
  then have "[0..<n] = [0..<?q] @ ?q # [Suc ?q..<n]"
    using upt_add_eq_append [of 0 ?q "n - ?q"] by (simp add: upt_conv_Cons)
  moreover have "enumerate 0 counts = map (\<lambda>i. (i, of_nat (dealt n j i))) [0..<n]"
    by (rule nth_equalityI) (simp_all add: assms(3) nth_enumerate_eq)
  ultimately have "enumerate 0 counts = map (\<lambda>i. (i, of_nat (dealt n j i))) ([0..<?q] @ ?q # [Suc ?q..<n])"
    by simp
  then have "filter ?P (enumerate 0 counts)
      = filter ?P (map (\<lambda>i. (i, of_nat (dealt n j i))) [0..<?q]) @ (?q, of_nat (dealt n j ?q))
        # filter ?P (map (\<lambda>i. (i, of_nat (dealt n j i))) [Suc ?q..<n])"
    using room by simp
  moreover have "dealt n j ?q < dealt n j i" if "i < ?q" for i using that by (simp add: dealt_def)
  moreover have "dealt n j ?q \<le> dealt n j i" for i by (simp add: dealt_def)
  ultimately have "min_by_key snd (filter ?P (enumerate 0 counts)) = Some (?q, of_nat (dealt n j ?q))"
    by (simp only:) (rule min_by_key_split; auto simp: less le)
  then show ?thesis by (simp add: least_loaded_def)
qed

lemma assignments_from:
  assumes "0 < n" and "length nonces = n" and "j + k \<le> n * unat max_txs"
  shows "tx_assignments k nonces max_txs (map (\<lambda>i. of_nat (dealt n j i)) [0..<n])
    = Some (map (\<lambda>t. (t mod n, nonces ! (t mod n) + of_nat (t div n))) [j..<j + k])"
  using assms(3)
proof (induction k arbitrary: j)
  case (Suc k)
  let ?counts = "\<lambda>j. map (\<lambda>i. of_nat (dealt n j i) :: u64) [0..<n]"
  have least: "least_loaded (?counts j) max_txs = Some (j mod n)"
    using least_loaded_dealt [OF assms(1)] Suc.prems by simp
  have q: "j mod n < n" using assms(1) by simp
  have "(?counts j)[j mod n := ?counts j ! (j mod n) + 1] = ?counts (Suc j)"
    using q dealt_Suc [OF assms(1)] by (intro nth_equalityI) (auto simp: nth_list_update)
  moreover have "?counts j ! (j mod n) = of_nat (j div n)" using q by (simp add: dealt_def)
  moreover have "tx_assignments (Suc k) nonces max_txs (?counts j)
      = map_option ((#) (j mod n, nonces ! (j mod n) + ?counts j ! (j mod n)))
          (tx_assignments k nonces max_txs ((?counts j)[j mod n := ?counts j ! (j mod n) + 1]))"
    using least by (simp only: tx_assignments.simps option.case)
  moreover have "[j..<j + Suc k] = j # [Suc j..<Suc j + k]" by (simp add: upt_conv_Cons del: upt_Suc)
  ultimately show ?case using Suc.IH [of "Suc j"] Suc.prems by simp
qed simp

lemma enough_accounts:
  assumes "num_accounts num_txs max_txs = Some n"
  shows "unat num_txs \<le> n * unat max_txs"
proof -
  have pos: "0 < unat max_txs" and n: "n = (unat num_txs + unat max_txs - 1) div unat max_txs"
    using assms by (auto simp: num_accounts_def unat_gt_0 split: if_splits)
  have "unat num_txs + unat max_txs - 1 < (n + 1) * unat max_txs"
    unfolding n using pos dividend_less_div_times [of "unat max_txs" "unat num_txs + unat max_txs - 1"]
    by (simp add: algebra_simps)
  with pos show ?thesis by (simp add: algebra_simps)
qed

text \<open>
  C35: With the number of accounts the command computes, choosing the account with the fewest
  transactions never runs out of accounts and is dealing them out in turn: transaction \<open>t\<close> goes to account
  \<open>t mod n\<close> with the nonce of that account increased by \<open>t div n\<close>, so every account gets consecutive
  nonces and at most its limit.
\<close>
theorem assignments_round_robin:
  assumes "num_accounts num_txs max_txs = Some n" and "length nonces = n"
  shows "tx_assignments (unat num_txs) nonces max_txs (replicate n 0)
    = Some (map (\<lambda>t. (t mod n, nonces ! (t mod n) + of_nat (t div n))) [0..<unat num_txs])"
proof (cases "n = 0")
  case True
  with enough_accounts [OF assms(1)] show ?thesis by simp
next
  case False
  then have "replicate n (0 :: u64) = map (\<lambda>i. of_nat (dealt n 0 i)) [0..<n]"
    by (simp add: dealt_def map_replicate_const)
  with assignments_from [of n nonces 0 "unat num_txs" max_txs] False assms(2) enough_accounts [OF assms(1)]
  show ?thesis by simp
qed

theorem assignments_round_robin_witness:
  "tx_assignments 5 [7, 0] 3 [0, 0] = Some [(0, 7), (1, 0), (0, 8), (1, 1), (0, 9)]"
proof -
  have "[0..<5] = [0, 1, 2, 3, 4]" by (simp add: upt_rec)
  then show ?thesis
    using assignments_round_robin [of 5 3 2 "[7, 0]"] by (simp add: num_accounts_def numeral_2_eq_2 [THEN arg_cong, of "\<lambda>n. replicate n (0 :: u64)"])
qed

section \<open>Sending in batches\<close>

lemma chunks_nth:
  assumes "0 < n" and "i * n < length xs"
  shows "i < length (chunks n xs)" and "chunks n xs ! i = take n (drop (i * n) xs)"
proof -
  have "i < length (chunks n xs) \<and> chunks n xs ! i = take n (drop (i * n) xs)"
    using assms
  proof (induction n xs arbitrary: i rule: chunks.induct)
    case (1 n xs)
    then have nonempty: "\<not> (n = 0 \<or> xs = [])" by auto
    then have eq: "chunks n xs = take n xs # chunks n (drop n xs)" by (subst chunks.simps) simp
    show ?case
    proof (cases i)
      case (Suc i')
      with "1.prems" have "i' * n < length (drop n xs)" by auto
      with "1.IH" [OF nonempty "1.prems"(1)] Suc eq show ?thesis by (simp add: ac_simps)
    qed (simp add: eq)
  qed
  then show "i < length (chunks n xs)" and "chunks n xs ! i = take n (drop (i * n) xs)" by blast+
qed

lemma chunks_length_le: "0 < n \<Longrightarrow> length xs \<le> i * n \<Longrightarrow> length (chunks n xs) \<le> i"
proof (induction n xs arbitrary: i rule: chunks.induct)
  case (1 n xs)
  show ?case
  proof (cases "xs = []")
    case False
    with "1.prems" obtain i' where i: "i = Suc i'" by (cases i) auto
    with 1 False have "length (chunks n (drop n xs)) \<le> i'" by simp
    with i False "1.prems"(1) show ?thesis by (subst chunks.simps) simp
  qed (simp add: chunks.simps)
qed

text \<open>The posts of a network are recorded beside its state.\<close>

definition on_fst :: "('n \<Rightarrow> 'a \<times> 'n) \<Rightarrow> 'n \<times> 'l \<Rightarrow> 'a \<times> 'n \<times> 'l" where
  "on_fst op = (\<lambda>(w, l). case op w of (r, w) \<Rightarrow> (r, w, l))"

definition logged_net :: "('k, 'n) tx_net \<Rightarrow> ('k, 'n \<times> rpc_item list list) tx_net" where
  "logged_net N = \<lparr>tn_address = tn_address N, tn_build = tn_build N, tn_hex = tn_hex N, tn_random = tn_random N,
     tn_parse_key = tn_parse_key N, tn_parse_address = tn_parse_address N, tn_parse_u256 = tn_parse_u256 N,
     tn_connect = (\<lambda>url (w, _). tn_connect N url w),
     tn_count = (\<lambda>url a. on_fst (tn_count N url a)), tn_balance = (\<lambda>url a. on_fst (tn_balance N url a)),
     tn_post = (\<lambda>url batch (w, l). case tn_post N url batch w of (r, w) \<Rightarrow> (r, w, l @ [batch])),
     tn_number = (\<lambda>url. on_fst (tn_number N url)), tn_block = (\<lambda>url n. on_fst (tn_block N url n)),
     tn_now = (\<lambda>(w, _). tn_now N w), tn_sleep = (\<lambda>d (w, l). (tn_sleep N d w, l))\<rparr>"

lemma create_batch_logged [simp]: "create_batch_request (logged_net N) = create_batch_request N"
  by (intro ext) (simp add: create_batch_request_def logged_net_def)

lemma logged_post [simp]:
  "tn_post (logged_net N) url batch (w, l) = (fst (tn_post N url batch w), snd (tn_post N url batch w), l @ [batch])"
  by (simp add: logged_net_def split: prod.split)

lemma logged_time [simp]:
  "tn_now (logged_net N) wl = tn_now N (fst wl)"
  "tn_sleep (logged_net N) d wl = (tn_sleep N d (fst wl), snd wl)"
  by (simp_all add: logged_net_def split: prod.splits)

text \<open>The requests for the chunks of all transactions.\<close>

definition batch_requests :: "('k, 'n) tx_net \<Rightarrow> nat \<Rightarrow> bytes list \<Rightarrow> rpc_item list list" where
  "batch_requests N n txs = map (\<lambda>(i, batch). create_batch_request N batch (i * n)) (enumerate 0 (chunks n txs))"

lemma batch_requests_nth:
  assumes "0 < n" and "i * n < length txs"
  shows "i < length (batch_requests N n txs)"
    and "batch_requests N n txs ! i = create_batch_request N (take n (drop (i * n) txs)) (i * n)"
  using chunks_nth [OF assms] by (simp_all add: batch_requests_def nth_enumerate_eq)

lemma batch_requests_differ:
  assumes "0 < n" and "Suc i * n < length txs"
  shows "batch_requests N n txs ! i \<noteq> batch_requests N n txs ! Suc i"
proof -
  have hd_id: "ri_id (hd (batch_requests N n txs ! i)) = i * n" if "i * n < length txs" for i
    unfolding batch_requests_nth(2) [OF assms(1) that]
    using that assms(1) by (cases "take n (drop (i * n) txs)") (auto simp: create_batch_request_def)
  have "i * n < length txs" using assms(2) by simp
  with hd_id [of i] hd_id [of "Suc i"] assms show ?thesis by auto
qed

lemma remdups_adj_snoc:
  "remdups_adj (xs @ [x]) = (if xs \<noteq> [] \<and> last xs = x then remdups_adj xs else remdups_adj xs @ [x])"
proof (cases xs rule: rev_cases)
  case (snoc ys y)
  then show ?thesis using remdups_adj_append_two [of ys y x] by (auto simp: remdups_adj_append_two)
qed simp

text \<open>The state of the sender with its posts, without immediate repetitions, so far.\<close>

definition sending_inv :: "('k, 'n) tx_net \<Rightarrow> nat \<Rightarrow> bytes list \<Rightarrow> sending \<times> 'n \<times> rpc_item list list \<Rightarrow> bool" where
  "sending_inv N n txs = (\<lambda>(s, w, posts). se_sent s = min (se_batch s * n) (length txs)
     \<and> se_failures s < MAX_CONSECUTIVE_FAILURES
     \<and> (remdups_adj posts = take (se_batch s) (batch_requests N n txs)
        \<or> se_sent s < length txs \<and> remdups_adj posts = take (Suc (se_batch s)) (batch_requests N n txs)))"

lemma send_failure_cases:
  "send_failure (logged_net N) s (w, posts) = Inl (s', w', posts') \<Longrightarrow>
     posts' = posts \<and> s' = s\<lparr>se_failures := Suc (se_failures s)\<rparr> \<and> se_failures s' < MAX_CONSECUTIVE_FAILURES"
  "send_failure (logged_net N) s (w, posts) = Inr (s', w', posts') \<Longrightarrow>
     posts' = posts \<and> s' = s\<lparr>se_failures := Suc (se_failures s)\<rparr> \<and> MAX_CONSECUTIVE_FAILURES \<le> se_failures s'"
  by (auto simp: send_failure_def Let_def split: if_splits)

text \<open>After a reply the batch is left behind or kept, and only ten failures end the loop.\<close>

lemma after_post_cases:
  assumes "se_failures s < MAX_CONSECUTIVE_FAILURES"
  shows "after_post (logged_net N) delay started batch_end s reply (w, posts) = Inl (s', w', posts') \<Longrightarrow>
      posts' = posts \<and> se_failures s' < MAX_CONSECUTIVE_FAILURES
      \<and> (se_sent s' = se_sent s \<and> se_batch s' = se_batch s \<or> se_sent s' = batch_end \<and> se_batch s' = Suc (se_batch s))"
    and "after_post (logged_net N) delay started batch_end s reply (w, posts) = Inr (s', w', posts') \<Longrightarrow>
      posts' = posts \<and> MAX_CONSECUTIVE_FAILURES \<le> se_failures s' \<and> se_sent s' = se_sent s \<and> se_batch s' = se_batch s"
  using assms
  by (auto simp: after_post_def send_advance_def Let_def MAX_CONSECUTIVE_FAILURES_def
      split: posted.splits option.splits if_splits dest!: send_failure_cases)

lemma posted_batch: "take (min (k + n) (length txs) - k) (drop k txs) = take n (drop k txs)"
  by (cases "k + n \<le> length txs") (simp_all add: min_def)

lemma send_step_logged:
  "send_step (logged_net N) urls n delay txs (s, w, posts) =
     (if \<not> se_sent s < length txs then Inr (s, w, posts)
      else let (reply, w') = tn_post N (urls ! (se_batch s mod length urls)) (create_batch_request N (take n (drop (se_sent s) txs)) (se_sent s)) w
           in after_post (logged_net N) delay (tn_now N w) (min (se_sent s + n) (length txs)) s reply
             (w', posts @ [create_batch_request N (take n (drop (se_sent s) txs)) (se_sent s)]))"
  by (simp add: send_step_def Let_def posted_batch split: prod.split)

text \<open>The post made in a state with the invariant is the next batch, or the last one again.\<close>

lemma next_post:
  assumes "sending_inv N n txs (s, w, posts)" and "0 < n" and "se_sent s < length txs"
  shows "se_sent s = se_batch s * n"
    and "remdups_adj (posts @ [create_batch_request N (take n (drop (se_sent s) txs)) (se_sent s)])
      = take (Suc (se_batch s)) (batch_requests N n txs)"
proof -
  let ?b = "se_batch s" and ?bss = "batch_requests N n txs"
  show sent: "se_sent s = ?b * n" using assms by (auto simp: sending_inv_def min_def split: if_splits)
  with assms(3) have pos: "?b * n < length txs" by simp
  note req = batch_requests_nth [OF assms(2) pos, of N]
  have eq: "create_batch_request N (take n (drop (se_sent s) txs)) (se_sent s) = ?bss ! ?b" using req(2) sent by simp
  have last_post: "last posts = last (remdups_adj posts)" by simp
  from assms(1) consider "remdups_adj posts = take ?b ?bss" | "remdups_adj posts = take (Suc ?b) ?bss"
    by (auto simp: sending_inv_def)
  then show "remdups_adj (posts @ [create_batch_request N (take n (drop (se_sent s) txs)) (se_sent s)]) = take (Suc ?b) ?bss"
  proof cases
    case 1
    have "last posts \<noteq> ?bss ! ?b" if "posts \<noteq> []"
    proof -
      from that have "take ?b ?bss \<noteq> []" using 1 by (metis remdups_adj_Nil_iff)
      then obtain b where b: "?b = Suc b" by (cases ?b) auto
      with last_post 1 req(1) have "last posts = ?bss ! b" by (simp add: take_Suc_conv_app_nth)
      with batch_requests_differ [OF assms(2), of b txs N] pos b show ?thesis by simp
    qed
    with 1 req(1) show ?thesis unfolding eq by (auto simp: remdups_adj_snoc take_Suc_conv_app_nth)
  next
    case 2
    then have "posts \<noteq> []" "last posts = ?bss ! ?b"
      using last_post req(1) by (auto simp: take_Suc_conv_app_nth)
    with 2 show ?thesis unfolding eq by (simp add: remdups_adj_snoc)
  qed
qed

lemma sending_inv_step:
  assumes "sending_inv N n txs st" and "0 < n" and "send_step (logged_net N) urls n delay txs st = Inl st'"
  shows "sending_inv N n txs st'"
proof -
  obtain s w posts s' w' posts' where st: "st = (s, w, posts)" "st' = (s', w', posts')"
    by (metis prod.exhaust)
  have fails: "se_failures s < MAX_CONSECUTIVE_FAILURES" using assms(1) st by (simp add: sending_inv_def)
  have sent: "se_sent s < length txs" using assms(3) st by (auto simp: send_step_logged split: if_splits)
  note post = next_post [OF assms(1) [unfolded st] assms(2) sent]
  from assms(3) sent have "posts' = posts @ [create_batch_request N (take n (drop (se_sent s) txs)) (se_sent s)]
      \<and> se_failures s' < MAX_CONSECUTIVE_FAILURES
      \<and> (se_sent s' = se_sent s \<and> se_batch s' = se_batch s
         \<or> se_sent s' = min (se_sent s + n) (length txs) \<and> se_batch s' = Suc (se_batch s))"
    unfolding st by (auto simp: send_step_logged Let_def split: prod.splits dest!: after_post_cases(1) [OF fails])
  with post sent show ?thesis unfolding st by (auto simp: sending_inv_def)
qed

text \<open>
  C36: The batches are posted in order and none is left out: what a run of the sending loop posts is,
  apart from a batch being posted several times in a row, the requests for the first \<open>k\<close> chunks of the
  transactions with consecutive ids.  These are all of them, unless the loop was ended by ten
  failures in a row.
\<close>
theorem batches_in_order:
  assumes "send_loop (logged_net N) urls n delay txs (w, []) = Some (s, w', posts)" and "0 < n"
  shows "\<exists>k. remdups_adj posts = take k (batch_requests N n txs)
    \<and> (k = length (batch_requests N n txs) \<and> se_sent s = length txs
       \<or> k = Suc (se_batch s) \<and> MAX_CONSECUTIVE_FAILURES \<le> se_failures s)"
proof -
  have "sending_inv N n txs (sending_new, w, [])"
    by (simp add: sending_inv_def sending_new_def MAX_CONSECUTIVE_FAILURES_def)
  from repeat_until_ends [OF assms(1) [unfolded send_loop_def], of "sending_inv N n txs", OF this sending_inv_step [OF _ assms(2)]]
  obtain s1 w1 posts1 where inv: "sending_inv N n txs (s1, w1, posts1)"
    and ends: "send_step (logged_net N) urls n delay txs (s1, w1, posts1) = Inr (s, w', posts)" by fastforce
  have fails: "se_failures s1 < MAX_CONSECUTIVE_FAILURES" using inv by (simp add: sending_inv_def)
  show ?thesis
  proof (cases "se_sent s1 < length txs")
    case True
    from ends True have "posts = posts1 @ [create_batch_request N (take n (drop (se_sent s1) txs)) (se_sent s1)]
        \<and> MAX_CONSECUTIVE_FAILURES \<le> se_failures s \<and> se_batch s = se_batch s1"
      by (auto simp: send_step_logged Let_def split: prod.splits dest!: after_post_cases(2) [OF fails])
    with next_post(2) [OF inv assms(2) True] show ?thesis by auto
  next
    case False
    with ends have same: "s = s1" "posts = posts1" by (auto simp: send_step_logged)
    have "length txs \<le> se_batch s * n" and sent: "se_sent s = length txs"
      using inv False same by (auto simp: sending_inv_def)
    then have "length (batch_requests N n txs) \<le> se_batch s"
      using chunks_length_le [OF assms(2)] by (simp add: batch_requests_def)
    with inv False same sent show ?thesis by (auto simp: sending_inv_def)
  qed
qed

section \<open>Funding comes to an end\<close>

text \<open>
  Time: a pause lasts at least as long as asked for, and calls do not turn the clock back.
\<close>

definition clock_laws :: "('k, 'n) tx_net \<Rightarrow> bool" where
  "clock_laws N \<longleftrightarrow> (\<forall>d w. tn_now N w + d \<le> tn_now N (tn_sleep N d w))
     \<and> (\<forall>url a w. tn_now N w \<le> tn_now N (snd (tn_count N url a w)))
     \<and> (\<forall>url a w. tn_now N w \<le> tn_now N (snd (tn_balance N url a w)))
     \<and> (\<forall>url w. tn_now N w \<le> tn_now N (snd (tn_number N url w)))
     \<and> (\<forall>url n w. tn_now N w \<le> tn_now N (snd (tn_block N url n w)))"

text \<open>What is left of a time span, in pauses.\<close>

definition pauses_left :: "real \<Rightarrow> real \<Rightarrow> real \<Rightarrow> nat" where
  "pauses_left timeout pause now = nat \<lceil>(timeout - now) / pause\<rceil>"

lemma pauses_left_less:
  assumes "0 < pause" and "now < timeout" and "now + pause \<le> now'"
  shows "pauses_left timeout pause now' < pauses_left timeout pause now"
proof -
  have "(timeout - now') / pause \<le> (timeout - now - pause) / pause"
    using assms by (intro divide_right_mono) auto
  also have "\<dots> = (timeout - now) / pause - 1" using assms(1) by (simp add: diff_divide_distrib)
  finally have "\<lceil>(timeout - now') / pause\<rceil> \<le> \<lceil>(timeout - now) / pause\<rceil> - 1" by linarith
  moreover have "0 < \<lceil>(timeout - now) / pause\<rceil>" using assms by simp
  ultimately show ?thesis by (simp add: pauses_left_def)
qed

lemma wait_for_returns:
  assumes "clock_laws N" and "\<And>w. tn_now N w \<le> tn_now N (snd (check w))" and "0 < pause"
  shows "\<exists>r. wait_for N check pause timeout w = Some r"
  unfolding wait_for_def
proof (rule repeat_until_returns [where I = "\<lambda>_. True" and m = "\<lambda>w. pauses_left timeout pause (tn_now N w)"])
  fix w w'
  assume "wait_step N check pause timeout w = Inl w'"
  then have early: "tn_now N w < timeout" and w': "w' = tn_sleep N pause (snd (check w))"
    by (auto simp: wait_step_def split: if_splits prod.splits option.splits bool.splits)
  have "tn_now N w + pause \<le> tn_now N w'"
    using assms(1) assms(2) [of w] unfolding w' clock_laws_def by (meson add_mono_thms_linordered_semiring(3) order_trans)
  with pauses_left_less [OF assms(3) early]
  show "True \<and> pauses_left timeout pause (tn_now N w') < pauses_left timeout pause (tn_now N w)" by simp
qed simp

lemma reached_keep_time:
  assumes "clock_laws N"
  shows "tn_now N w \<le> tn_now N (snd (nonce_reached N url a e w))"
    and "tn_now N w \<le> tn_now N (snd (balance_reached N url a b w))"
  using assms by (auto simp: nonce_reached_def balance_reached_def clock_laws_def split: prod.splits) (metis snd_conv)+

lemma waits_return:
  assumes "clock_laws N" and "0 < pause"
  shows "(wait_for N (nonce_reached N url a e) pause timeout w = None) = False"
    and "(wait_for N (balance_reached N url a b) pause timeout w = None) = False"
  using wait_for_returns [OF assms(1) _ assms(2)] reached_keep_time [OF assms(1)] by (metis option.distinct(1))+

lemma fund_chunks_return:
  assumes "clock_laws N"
  shows "fund_chunks N url funder amount funded nonce cs w \<noteq> None"
proof (induction cs arbitrary: funded nonce w)
  case (Cons chunk cs)
  have "fund_chunk N url funder amount funded nonce chunk w \<noteq> None"
    by (simp add: fund_chunk_def Let_def waits_return(1) [OF assms] split: option.split prod.split bool.split)
  with Cons.IH show ?case by (auto split: outcome.split)
qed simp

lemma validation_returns:
  assumes "clock_laws N"
  shows "(validate_pool_capacity N url funder m w = None) = False"
  unfolding validate_pool_capacity_def Let_def
  by (simp add: waits_return [OF assms] split: option.split prod.split bool.split posted.split)

text \<open>
  C37: Before the first transaction of the load is sent, the command only waits for a limited time:
  whatever the nodes answer, probing the pool, funding the accounts and building the transactions
  come to an end when pauses take their time.
\<close>
theorem preparation_ends:
  assumes "clock_laws N"
  shows "\<exists>r. prepare_spam N a w = Some r"
proof -
  have funded: "(fund_accounts N url funder accounts amount w = None) = False" for url funder accounts amount w
    using fund_chunks_return [OF assms] by (simp add: fund_accounts_def split: prod.split option.split)
  have "prepare_spam N a w \<noteq> None"
    by (simp add: prepare_spam_def Let_def funded validation_returns [OF assms] split: option.split prod.split outcome.split)
  then show ?thesis by blast
qed

section \<open>When the command does not end\<close>

lemma watch_blocks_quiet:
  assumes "\<And>url n w. fst (tn_block N url n w) \<in> {None, Some 0}"
  shows "wt_count (fst (watch_new_blocks N url sw)) = wt_count (fst sw)
    \<and> wt_deadline (fst (watch_new_blocks N url sw)) = wt_deadline (fst sw)"
proof -
  have one: "wt_count (fst (watch_block N url n sw)) = wt_count (fst sw)
      \<and> wt_deadline (fst (watch_block N url n sw)) = wt_deadline (fst sw)" for n sw
    using assms [of url n "snd sw"]
    by (auto simp: watch_block_def Let_def split: prod.splits option.splits)
  have all: "wt_count (fst (fold (watch_block N url) ns sw)) = wt_count (fst sw)
      \<and> wt_deadline (fst (fold (watch_block N url) ns sw)) = wt_deadline (fst sw)" for ns sw
    by (induction ns arbitrary: sw) (simp_all add: one)
  show ?thesis by (simp add: watch_new_blocks_def split_beta all split: option.split)
qed

text \<open>
  Without a limit on the waiting time, which is the default, the command does not end when the
  transactions do not get into blocks, for instance because every one of them was rejected and the
  sending loop gave up: it waits for all transactions that should have been sent.
\<close>
lemma rejected_load_never_ends:
  fixes N :: "('k, 'n) tx_net"
  assumes "\<And>url n w. fst (tn_block N url n w) \<in> {None, Some 0}"
    and "sa_max_wait_seconds a = 0" and "0 < sa_num_txs a"
    and "\<And>w. wt_count (watching w) = 0" and "\<And>w. wt_deadline (watching w) = None"
  shows "spam N active finish watching a w \<noteq> Some (Done s, w')"
proof -
  have "repeat_until (watch_step N url active (sa_num_txs a) 0) (watching w, w1) = None" for url w w1
  proof (rule repeat_until_diverges [where I = "\<lambda>(s, _). wt_count s = 0 \<and> wt_deadline s = None"])
    fix st :: "watch \<times> 'n"
    assume "case st of (s, _) \<Rightarrow> wt_count s = 0 \<and> wt_deadline s = None"
    then obtain s w where st: "st = (s, w)" "wt_count s = 0" "wt_deadline s = None" by (cases st) auto
    obtain s' w' where seen: "watch_new_blocks N url (s, tn_sleep N 100 w) = (s', w')" by fastforce
    with watch_blocks_quiet [OF assms(1), of url "(s, tn_sleep N 100 w)"] st
    have "wt_count s' = 0" "wt_deadline s' = None" by simp_all
    with st seen assms(3) show "\<exists>st'. watch_step N url active (sa_num_txs a) 0 st = Inl st'
        \<and> (case st' of (s, _) \<Rightarrow> wt_count s = 0 \<and> wt_deadline s = None)"
      by (auto simp: watch_step_def)
  qed (use assms in simp)
  then show ?thesis using assms(2)
    by (simp add: spam_def Let_def split: option.split prod.split outcome.split)
qed

text \<open>With a limit the waiting ends once the sender has finished.\<close>

lemma watching_keeps_time:
  assumes "clock_laws N"
  shows "tn_now N (snd sw) \<le> tn_now N (snd (watch_new_blocks N url sw))
    \<and> wt_deadline (fst (watch_new_blocks N url sw)) = wt_deadline (fst sw)"
proof -
  have calls: "tn_now N w \<le> tn_now N (snd (tn_number N url w))" "tn_now N w \<le> tn_now N (snd (tn_block N url n w))" for n w
    using assms by (simp_all add: clock_laws_def)
  have one: "tn_now N (snd sw) \<le> tn_now N (snd (watch_block N url n sw))"
    "wt_deadline (fst (watch_block N url n sw)) = wt_deadline (fst sw)" for n sw
    using calls(2) by (simp_all add: watch_block_def Let_def split_beta split: option.split)
  have all: "tn_now N (snd sw) \<le> tn_now N (snd (fold (watch_block N url) ns sw))
      \<and> wt_deadline (fst (fold (watch_block N url) ns sw)) = wt_deadline (fst sw)" for ns sw
  proof (induction ns arbitrary: sw)
    case (Cons n ns)
    show ?case using one(1) [of sw n] one(2) [of n sw] Cons.IH [of "watch_block N url n sw"] by simp
  qed simp
  have "tn_now N (snd sw) \<le> tn_now N (snd (fold (watch_block N url) ns (fst sw, snd (tn_number N url (snd sw)))))" for ns
    using all [of "(fst sw, snd (tn_number N url (snd sw)))" ns] calls(1) [of "snd sw"] by (auto intro: order_trans)
  then show ?thesis by (simp add: watch_new_blocks_def split_beta all calls split: option.split)
qed

lemma watch_ends:
  fixes N :: "('k, 'n) tx_net"
  assumes "clock_laws N" and "0 < max_wait" and "\<And>w. \<not> active w"
  shows "\<exists>r. repeat_until (watch_step N url active expected max_wait) sw = Some r"
proof (rule repeat_until_returns [where I = "\<lambda>_. True" and m = "\<lambda>(s, w). case wt_deadline s of
    None \<Rightarrow> Suc (pauses_left (1000 * real (unat max_wait)) 100 0) | Some d \<Rightarrow> pauses_left d 100 (tn_now N w)"])
  fix sw sw' :: "watch \<times> 'n"
  assume step: "watch_step N url active expected max_wait sw = Inl sw'"
  obtain s w where sw: "sw = (s, w)" by fastforce
  obtain s1 w1 where seen: "watch_new_blocks N url (s, tn_sleep N 100 w) = (s1, w1)" by fastforce
  have "tn_now N w + 100 \<le> tn_now N (tn_sleep N 100 w)" using assms(1) by (simp add: clock_laws_def)
  with watching_keeps_time [OF assms(1), of "(s, tn_sleep N 100 w)" url] seen
  have later: "tn_now N w + 100 \<le> tn_now N w1" and same: "wt_deadline s1 = wt_deadline s" by simp_all
  have shift: "pauses_left (tn_now N w1 + d) 100 (tn_now N w1) = pauses_left d 100 0" for d by (simp add: pauses_left_def)
  from step seen assms(2,3) sw same later shift
  show "True \<and> (case sw' of (s, w) \<Rightarrow> case wt_deadline s of None \<Rightarrow> Suc (pauses_left (1000 * real (unat max_wait)) 100 0)
        | Some d \<Rightarrow> pauses_left d 100 (tn_now N w))
      < (case sw of (s, w) \<Rightarrow> case wt_deadline s of None \<Rightarrow> Suc (pauses_left (1000 * real (unat max_wait)) 100 0)
        | Some d \<Rightarrow> pauses_left d 100 (tn_now N w))"
  proof (cases "wt_deadline s")
    case (Some d)
    with step seen assms(3) sw same have "sw' = (s1, w1)" and early: "tn_now N w1 < d"
      by (auto simp: watch_step_def Let_def not_le split: if_splits)
    with Some sw same later pauses_left_less [of 100 "tn_now N w" d "tn_now N w1"] show ?thesis by simp
  qed (auto simp: watch_step_def Let_def split: if_splits)
qed simp

text \<open>A batch size of zero posts empty batches forever as soon as there is something to send.\<close>

lemma zero_batch_never_ends:
  fixes N :: "('k, 'n) tx_net"
  assumes "\<And>url w. \<exists>r. fst (tn_post N url [] w) = Answered r \<and> r \<in> {None, Some []}" and "txs \<noteq> []"
  shows "send_loop N urls 0 delay txs w = None"
  unfolding send_loop_def
proof (rule repeat_until_diverges [where I = "\<lambda>(s, _). se_sent s = 0"])
  fix st :: "sending \<times> 'n"
  assume "case st of (s, _) \<Rightarrow> se_sent s = 0"
  then obtain s w where st: "st = (s, w)" "se_sent s = 0" by (cases st) auto
  obtain r w' where post: "tn_post N (urls ! (se_batch s mod length urls)) [] w = (Answered r, w')" "r \<in> {None, Some []}"
    using assms(1) [of "urls ! (se_batch s mod length urls)" w]
    by (cases "tn_post N (urls ! (se_batch s mod length urls)) [] w") auto
  with st assms(2) show "\<exists>st'. send_step N urls 0 delay txs st = Inl st' \<and> (case st' of (s, _) \<Rightarrow> se_sent s = 0)"
    by (auto simp: send_step_def after_post_def send_advance_def create_batch_request_def Let_def)
qed (simp add: sending_new_def)

section \<open>Examples\<close>

text \<open>A node that takes every transaction and never makes a block; its state is the clock.\<close>

definition idle_net :: "(nat, real) tx_net" where
  "idle_net = \<lparr>tn_address = of_nat, tn_build = (\<lambda>_ r. Some [ucast (tq_nonce r)]), tn_hex = (\<lambda>_. ''00''),
     tn_random = (\<lambda>seed i. seed + i), tn_parse_key = (\<lambda>_. Some 0), tn_parse_address = (\<lambda>_. Some 1), tn_parse_u256 = (\<lambda>_. Some 1),
     tn_connect = (\<lambda>_ _. True), tn_count = (\<lambda>_ _ w. (Some 0, w)), tn_balance = (\<lambda>_ _ w. (Some 0, w)),
     tn_post = (\<lambda>_ batch w. (Answered (Some (map (\<lambda>_. NoError) batch)), w)),
     tn_number = (\<lambda>_ w. (Some 0, w)), tn_block = (\<lambda>_ _ w. (None, w)), tn_now = (\<lambda>w. w), tn_sleep = (\<lambda>d w. w + d)\<rparr>"

definition idle_args :: spam_args where
  "idle_args = \<lparr>sa_num_txs = 3, sa_admin_key = ''k'', sa_to_address = ''a'', sa_urls = ''u'', sa_batch_size = 2,
     sa_max_txs_per_account = 2, sa_funding_amount = ''1'', sa_target_tps = 0, sa_max_wait_seconds = 0\<rparr>"

lemma idle_clock: "clock_laws idle_net"
  by (simp add: clock_laws_def idle_net_def)

lemma idle_send:
  "\<exists>s w' posts. send_loop (logged_net idle_net) [''u''] 2 0 [[1], [2], [3]] (0, []) = Some (s, w', posts)"
  by (simp add: send_loop_def repeat_until.simps send_step_logged sending_new_def after_post_def send_advance_def
      create_batch_request_def idle_net_def answer_pool_full_def answer_other_def answer_known_def)

theorem batches_in_order_witness:
  "\<exists>s w' posts k. send_loop (logged_net idle_net) [''u''] 2 0 [[1], [2], [3]] (0, []) = Some (s, w', posts)
    \<and> remdups_adj posts = take k (batch_requests idle_net 2 [[1], [2], [3]])"
  using idle_send batches_in_order [of idle_net "[''u'']" 2 0 "[[1], [2], [3]]" 0] by fastforce

theorem preparation_ends_witness: "\<exists>r. prepare_spam idle_net idle_args 0 = Some r"
  by (rule preparation_ends [OF idle_clock])

lemma rejected_load_never_ends_witness:
  "spam idle_net (\<lambda>_. False) (\<lambda>w. w)
     (\<lambda>_. \<lparr>wt_last = None, wt_last_time = None, wt_count = 0, wt_peak_tps = 0, wt_deadline = None\<rparr>) idle_args 0 \<noteq> Some (Done sending_new, 0)"
  by (rule rejected_load_never_ends) (simp_all add: idle_net_def idle_args_def)

end
