(* ===== verification/Inspector_Rpc.thy ===== *)
theory Inspector_Rpc
  imports Inspector_Loop
begin

text \<open>
  Polling validators over JSON-RPC (\<open>rpc/client.rs\<close> of the inspector): calls and their errors, the
  report of one validator with its peers and receipts, and the validators named on the command line.
  Nodes, the clock and URL parsing are parameters; the node's answers are JSON values.
\<close>

section \<open>JSON\<close>

datatype json =
    JNull
  | JBool bool
  | JNumber int
  | JString string
  | JArray "json list"
  | JObject "(string \<times> json) list"

definition get_field :: "string \<Rightarrow> json \<Rightarrow> json option" where
  "get_field k v = (case v of JObject kvs \<Rightarrow> map_of kvs k | _ \<Rightarrow> None)"

definition json_str :: "json \<Rightarrow> string option" where
  "json_str v = (case v of JString s \<Rightarrow> Some s | _ \<Rightarrow> None)"

definition json_array :: "json \<Rightarrow> json list option" where
  "json_array v = (case v of JArray xs \<Rightarrow> Some xs | _ \<Rightarrow> None)"

definition str_field :: "string \<Rightarrow> json \<Rightarrow> string option" where
  "str_field k v = Option.bind (get_field k v) json_str"

text \<open>\<open>from_str_radix\<close> with radix 16 after the prefixes \<open>0x\<close> have been removed.\<close>

definition hex_value :: "char \<Rightarrow> nat option" where
  "hex_value c =
     (let n = of_char c :: nat in
      if 48 \<le> n \<and> n \<le> 57 then Some (n - 48)
      else if 97 \<le> n \<and> n \<le> 102 then Some (n - 87)
      else if 65 \<le> n \<and> n \<le> 70 then Some (n - 55)
      else None)"

fun parse_hex_digits :: "nat \<Rightarrow> nat \<Rightarrow> string \<Rightarrow> nat option" where
  "parse_hex_digits maximum acc [] = Some acc"
| "parse_hex_digits maximum acc (c # s) =
     (case hex_value c of
        None \<Rightarrow> None
      | Some d \<Rightarrow> let acc' = acc * 16 + d in if acc' > maximum then None else parse_hex_digits maximum acc' s)"

definition parse_radix_16 :: "nat \<Rightarrow> string \<Rightarrow> nat option" where
  "parse_radix_16 maximum s =
     (case s of
        [] \<Rightarrow> None
      | c # rest \<Rightarrow>
          if c = CHR ''+'' then (if rest = [] then None else parse_hex_digits maximum 0 rest)
          else parse_hex_digits maximum 0 s)"

fun trim_0x :: "string \<Rightarrow> string" where
  "trim_0x (a # b # s) = (if a = CHR ''0'' \<and> b = CHR ''x'' then trim_0x s else a # b # s)"
| "trim_0x s = s"

definition hex_u64 :: "string \<Rightarrow> u64 option" where
  "hex_u64 s = map_option of_nat (parse_radix_16 u64_max (trim_0x s))"

definition hex_usize :: "string \<Rightarrow> nat option" where
  "hex_usize s = parse_radix_16 u64_max (trim_0x s)"

definition u64_field :: "string \<Rightarrow> json \<Rightarrow> u64 option" where
  "u64_field k v = Option.bind (str_field k v) hex_u64"

section \<open>Calls\<close>

datatype http_reply = RequestFailed | BadStatus string | BadBody string | Body json

record 'w rpc_net =
  rn_post :: "string \<Rightarrow> string \<Rightarrow> json list \<Rightarrow> 'w \<Rightarrow> http_reply \<times> 'w"
  rn_now :: "'w \<Rightarrow> nat"
  rn_show :: "json \<Rightarrow> string"

definition rpc_call :: "'w rpc_net \<Rightarrow> string \<Rightarrow> string \<Rightarrow> json list \<Rightarrow> 'w \<Rightarrow> (string + json) \<times> 'w" where
  "rpc_call R url method params w =
     (case rn_post R url method params w of
        (RequestFailed, w) \<Rightarrow> (Inl (''request to '' @ url @ '' failed''), w)
      | (BadStatus status, w) \<Rightarrow> (Inl (''RPC error '' @ status), w)
      | (BadBody err, w) \<Rightarrow> (Inl err, w)
      | (Body v, w) \<Rightarrow>
          (case get_field ''error'' v of
             Some err \<Rightarrow> (Inl (''RPC error: '' @ rn_show R err), w)
           | None \<Rightarrow>
               (case get_field ''result'' v of
                  Some r \<Rightarrow> (Inr r, w)
                | None \<Rightarrow> (Inl ''RPC response missing result'', w))))"

section \<open>Peers and receipts\<close>

definition parse_u16 :: "string \<Rightarrow> u16 option" where
  "parse_u16 s = (case parse_uint u16_max s of Inl _ \<Rightarrow> None | Inr n \<Rightarrow> Some (of_nat n))"

definition parse_peer_address :: "string \<Rightarrow> string option \<times> u16 option" where
  "parse_peer_address addr =
     (case rsplit_once CHR '':'' addr of
        Some (host, port) \<Rightarrow>
          (case parse_u16 port of
             Some p \<Rightarrow> (Some (trim_start_char CHR ''/'' host), Some p)
           | None \<Rightarrow> (Some addr, None))
      | None \<Rightarrow> (Some addr, None))"

definition parse_enode_address :: "string \<Rightarrow> string option \<times> u16 option" where
  "parse_enode_address enode =
     (case split_once ''@'' enode of Some (_, after_at) \<Rightarrow> parse_peer_address after_at | None \<Rightarrow> (None, None))"

definition parse_peer_entry :: "json \<Rightarrow> peer_info" where
  "parse_peer_entry v =
     (let enode = str_field ''enode'' v;
          remote = (case str_field ''remoteAddress'' v of
              Some addr \<Rightarrow> parse_peer_address addr
            | None \<Rightarrow> (case enode of Some e \<Rightarrow> parse_enode_address e | None \<Rightarrow> (None, None)))
      in \<lparr>pi_id = (case str_field ''id'' v of Some i \<Rightarrow> i | None \<Rightarrow> []),
          pi_name = str_field ''name'' v,
          pi_caps = (case Option.bind (get_field ''caps'' v) json_array of Some xs \<Rightarrow> filter_map json_str xs | None \<Rightarrow> []),
          pi_enode = enode, pi_remote_addr = fst remote, pi_remote_port = snd remote\<rparr>)"

definition fetch_peer_info :: "'w rpc_net \<Rightarrow> string \<Rightarrow> 'w \<Rightarrow> (nat option \<times> peer_info list) \<times> 'w" where
  "fetch_peer_info R url w =
     (case rpc_call R url ''net_peerCount'' [] w of (c, w) \<Rightarrow>
      case rpc_call R url ''admin_peers'' [] w of (p, w) \<Rightarrow>
        ((case c of Inr v \<Rightarrow> Option.bind (json_str v) hex_usize | Inl _ \<Rightarrow> None,
          case p of Inr v \<Rightarrow> (case json_array v of Some xs \<Rightarrow> map parse_peer_entry xs | None \<Rightarrow> []) | Inl _ \<Rightarrow> []), w))"

definition receipt_of :: "u64 option \<Rightarrow> string \<Rightarrow> json \<Rightarrow> tx_receipt" where
  "receipt_of block_number hash r =
     \<lparr>tr_hash = hash,
      tr_block_number = (case u64_field ''blockNumber'' r of Some n \<Rightarrow> Some n | None \<Rightarrow> block_number),
      tr_from = str_field ''from'' r, tr_to = str_field ''to'' r,
      tr_status = map_option (\<lambda>v. v = 1) (u64_field ''status'' r), tr_gas_used = u64_field ''gasUsed'' r\<rparr>"

fun fetch_each_receipt ::
  "'w rpc_net \<Rightarrow> string \<Rightarrow> u64 option \<Rightarrow> json list \<Rightarrow> 'w \<Rightarrow> tx_receipt list \<times> 'w" where
  "fetch_each_receipt R url block_number [] w = ([], w)"
| "fetch_each_receipt R url block_number (tx # txs) w =
     (case str_field ''hash'' tx of
        None \<Rightarrow> fetch_each_receipt R url block_number txs w
      | Some hash \<Rightarrow>
          (case rpc_call R url ''eth_getTransactionReceipt'' [JString hash] w of
             (Inl _, w) \<Rightarrow> fetch_each_receipt R url block_number txs w
           | (Inr r, w) \<Rightarrow>
               (case fetch_each_receipt R url block_number txs w of
                  (rs, w) \<Rightarrow> (receipt_of block_number hash r # rs, w))))"

definition fetch_receipts :: "'w rpc_net \<Rightarrow> string \<Rightarrow> 'w \<Rightarrow> tx_receipt list \<times> 'w" where
  "fetch_receipts R url w =
     (case rpc_call R url ''eth_getBlockByNumber'' [JString ''latest'', JBool True] w of
        (Inl _, w) \<Rightarrow> ([], w)
      | (Inr block, w) \<Rightarrow>
          fetch_each_receipt R url (u64_field ''number'' block)
            (take 5 (case Option.bind (get_field ''transactions'' block) json_array of Some xs \<Rightarrow> xs | None \<Rightarrow> [])) w)"

section \<open>Reports\<close>

definition failed_report :: "string \<Rightarrow> u64 option \<Rightarrow> nat \<Rightarrow> string \<Rightarrow> validator_report" where
  "failed_report label height timestamp err =
     \<lparr>vr_label = label, vr_height = height, vr_block_txs = None, vr_timestamp = timestamp, vr_ok = False,
      vr_error = Some err, vr_peer_count = None, vr_peers = [], vr_latency = None, vr_latest_receipts = []\<rparr>"

definition fetch_validator :: "'w rpc_net \<Rightarrow> validator_target \<Rightarrow> 'w \<Rightarrow> validator_report \<times> 'w" where
  "fetch_validator R t w =
     (let timestamp = rn_now R w; latency_start = rn_now R w in
      case rpc_call R (vt_url t) ''eth_blockNumber'' [] w of
        (Inl e, w) \<Rightarrow> (failed_report (vt_label t) None timestamp e, w)
      | (Inr v, w) \<Rightarrow>
          let height = Option.bind (json_str v) hex_u64 in
          (case rpc_call R (vt_url t) ''eth_getBlockTransactionCountByNumber'' [JString ''latest''] w of
             (Inl e, w) \<Rightarrow> (failed_report (vt_label t) height timestamp (''tx count failed: '' @ e), w)
           | (Inr txs_value, w) \<Rightarrow>
               let latency = rn_now R w - latency_start in
               (case fetch_peer_info R (vt_url t) w of ((peer_count, peers), w) \<Rightarrow>
                case fetch_receipts R (vt_url t) w of (receipts, w) \<Rightarrow>
                  (\<lparr>vr_label = vt_label t, vr_height = height, vr_block_txs = Option.bind (json_str txs_value) hex_u64,
                    vr_timestamp = timestamp, vr_ok = True, vr_error = None, vr_peer_count = peer_count,
                    vr_peers = peers, vr_latency = Some latency, vr_latest_receipts = receipts\<rparr>, w))))"

text \<open>The targets are polled side by side and their reports collected in order; here one after the other.\<close>

fun fetch_all :: "'w rpc_net \<Rightarrow> validator_target list \<Rightarrow> 'w \<Rightarrow> validator_report list \<times> 'w" where
  "fetch_all R [] w = ([], w)"
| "fetch_all R (t # ts) w =
     (case fetch_validator R t w of (r, w) \<Rightarrow> case fetch_all R ts w of (rs, w) \<Rightarrow> (r # rs, w))"

text \<open>One round of the fetching task: the event it sends.\<close>

definition fetcher_round :: "'w rpc_net \<Rightarrow> validator_target list \<Rightarrow> 'w \<Rightarrow> app_event \<times> 'w" where
  "fetcher_round R targets w =
     (if targets = [] then (Data [], w)
      else case fetch_all R targets w of (reports, w) \<Rightarrow> (Data reports, w))"

section \<open>The validators of the command line\<close>

text \<open>\<open>default_port\<close> is \<open>Url::port_or_known_default\<close>.\<close>

definition target_entry :: "nat \<Rightarrow> string \<Rightarrow> string \<times> string" where
  "target_entry idx entry =
     (case split_once ''='' entry of
        Some (label, url) \<Rightarrow> if trim label \<noteq> [] then (trim label, trim url) else (CHR ''v'' # show_dec idx, trim entry)
      | None \<Rightarrow> (CHR ''v'' # show_dec idx, trim entry))"

fun entry_targets :: "world \<Rightarrow> (string \<Rightarrow> u16 option) \<Rightarrow> nat \<Rightarrow> string list \<Rightarrow> string + validator_target list" where
  "entry_targets W default_port idx [] = Inr []"
| "entry_targets W default_port idx (entry # entries) =
     (case target_entry idx entry of (label, url_str) \<Rightarrow>
      case w_parse_url W url_str of
        Inl _ \<Rightarrow> Inl (''invalid URL for validator '' @ label)
      | Inr url \<Rightarrow>
          (case entry_targets W default_port (idx + 1) entries of
             Inl e \<Rightarrow> Inl e
           | Inr ts \<Rightarrow>
               Inr (\<lparr>vt_label = label, vt_url = url, vt_port = default_port url, vt_key = w_load_key W label,
                     vt_log_path = None\<rparr> # ts)))"

definition parse_targets :: "world \<Rightarrow> (string \<Rightarrow> u16 option) \<Rightarrow> string list \<Rightarrow> nat \<Rightarrow> string + validator_target list" where
  "parse_targets W default_port entries max_validators =
     (case entry_targets W default_port 0 entries of
        Inl e \<Rightarrow> Inl e
      | Inr ts \<Rightarrow> Inr (take (max max_validators 1) (sort_key (\<lambda>t. (vt_label t, vt_url t)) ts)))"

end
