(* ===== verification/Inspector_Launch.thy ===== *)
theory Inspector_Launch
  imports Inspector_Rpc Lifecycle Abi
begin

text \<open>
  Launching a chain and running the spam script from the inspector (\<open>commands/chain_launch.rs\<close>,
  \<open>commands/spam.rs\<close>) with the configuration they read (\<open>config/paths.rs\<close>, \<open>config/environment.rs\<close>,
  \<open>utils/ports.rs\<close>).  Environment variables and files are functions, processes are those of the
  operating system of the lifecycle commands; tracing variables set for the processes are left out.
\<close>

section \<open>Paths and the environment\<close>

definition env_or :: "(string \<Rightarrow> string option) \<Rightarrow> string \<Rightarrow> string \<Rightarrow> string option" where
  "env_or env a b = (case env a of Some v \<Rightarrow> Some v | None \<Rightarrow> env b)"

definition default_test_dirs :: "(string \<Rightarrow> string option) \<Rightarrow> string \<times> string" where
  "default_test_dirs env =
     (case (env_or env ''RBFT_CLI_DB_DIR'' ''RBFT_DB_DIR'', env_or env ''RBFT_CLI_LOGS_DIR'' ''RBFT_LOGS_DIR'') of
        (Some db, Some logs) \<Rightarrow> (db, logs)
      | _ \<Rightarrow>
          let home = (case env ''HOME'' of Some h \<Rightarrow> h | None \<Rightarrow> ''.'');
              base = path_join (path_join home ''.rbft'') ''testnet''
          in (path_join base ''db'', path_join base ''logs''))"

definition assets_candidates :: "string \<Rightarrow> string list" where
  "assets_candidates manifest_dir =
     [path_join manifest_dir ''../crates/rbft-node2/assets'', path_join manifest_dir ''../rbft-node2/assets'',
      path_join manifest_dir ''../../crates/rbft-node2/assets'']"

definition inspector_assets_dir :: "string \<Rightarrow> (string \<Rightarrow> bool) \<Rightarrow> string" where
  "inspector_assets_dir manifest_dir exists =
     (case List.find exists (assets_candidates manifest_dir) of
        Some d \<Rightarrow> d
      | None \<Rightarrow> hd (assets_candidates manifest_dir))"

text \<open>The file the environment is loaded from, if any.\<close>

definition preload_environment :: "(string \<Rightarrow> string option) \<Rightarrow> string \<Rightarrow> (string \<Rightarrow> bool) \<Rightarrow> string option" where
  "preload_environment env assets exists =
     (if env ''VALIDATOR_INSPECTOR_SKIP_ENV'' \<noteq> None then None
      else List.find exists
        ((case env ''VALIDATOR_INSPECTOR_ENV_FILE'' of Some f \<Rightarrow> [f] | None \<Rightarrow> []) @
         map (path_join assets) [''validator-inspector.env'', ''validators.env'', ''rpc-urls.env'', ''.env'']))"

text \<open>Slices of a string at byte positions; \<^const>\<open>None\<close> is the panic between two characters.\<close>

fun byte_take :: "nat \<Rightarrow> string \<Rightarrow> string option" where
  "byte_take n [] = (if n = 0 then Some [] else None)"
| "byte_take n (c # s) =
     (if n = 0 then Some []
      else if length (char_bytes c) \<le> n then map_option ((#) c) (byte_take (n - length (char_bytes c)) s)
      else None)"

fun byte_drop :: "nat \<Rightarrow> string \<Rightarrow> string option" where
  "byte_drop n [] = (if n = 0 then Some [] else None)"
| "byte_drop n (c # s) =
     (if n = 0 then Some (c # s)
      else if length (char_bytes c) \<le> n then byte_drop (n - length (char_bytes c)) s
      else None)"

text \<open>A key is shown whole or by its two ends with an ellipsis between them.\<close>

datatype key_text = WholeKey string | ShortKey string string

definition load_validator_key ::
  "string \<Rightarrow> (string \<Rightarrow> string option) \<Rightarrow> string \<Rightarrow> key_text option option" where
  "load_validator_key assets read label =
     (case strip_prefix ''v'' label of
        None \<Rightarrow> Some None
      | Some idx_str \<Rightarrow>
          (case parse_uint u64_max idx_str of
             Inl _ \<Rightarrow> Some None
           | Inr idx \<Rightarrow>
               (case read (path_join assets (''validator-key'' @ show_dec idx @ ''.txt'')) of
                  None \<Rightarrow> Some None
                | Some contents \<Rightarrow>
                    let trimmed = trim contents; n = length (string_bytes trimmed) in
                    if trimmed = [] then Some None
                    else if starts_with ''0x'' trimmed \<and> n > 10
                    then (case (byte_take 6 trimmed, byte_drop (n - 4) trimmed) of
                            (Some a, Some b) \<Rightarrow> Some (Some (ShortKey a b))
                          | _ \<Rightarrow> None)
                    else Some (Some (WholeKey trimmed)))))"

definition load_trusted_peers :: "string \<Rightarrow> (string \<Rightarrow> string option) \<Rightarrow> string option" where
  "load_trusted_peers assets read =
     (case read (path_join assets ''enodes.txt'') of
        None \<Rightarrow> None
      | Some s \<Rightarrow> let t = trim (filter (\<lambda>c. c \<noteq> CHR 0x0A) s) in if t = [] then None else Some t)"

section \<open>Launching a chain\<close>

fun build_targets_from_ports :: "world \<Rightarrow> string \<Rightarrow> nat \<Rightarrow> u16 list \<Rightarrow> string + validator_target list" where
  "build_targets_from_ports W logs_root idx [] = Inr []"
| "build_targets_from_ports W logs_root idx (port # ports) =
     (case w_parse_url W (''http://127.0.0.1:'' @ show_dec (unat port)) of
        Inl e \<Rightarrow> Inl e
      | Inr url \<Rightarrow>
          (case build_targets_from_ports W logs_root (idx + 1) ports of
             Inl e \<Rightarrow> Inl e
           | Inr ts \<Rightarrow>
               Inr (\<lparr>vt_label = CHR ''v'' # show_dec idx, vt_url = url, vt_port = Some port,
                     vt_key = w_load_key W (CHR ''v'' # show_dec idx),
                     vt_log_path = Some (path_join logs_root (''node'' @ show_dec idx @ ''.log''))\<rparr> # ts)))"

definition resolve_rbft_binary :: "(string \<Rightarrow> bool) \<Rightarrow> (string \<Rightarrow> bool) \<Rightarrow> string \<Rightarrow> string + string" where
  "resolve_rbft_binary is_file exists bin_dir =
     (if is_file bin_dir then Inr bin_dir
      else case List.find exists [path_join bin_dir ''rbft2'', path_join bin_dir ''rbft-node2''] of
          Some p \<Rightarrow> Inr p
        | None \<Rightarrow> Inl (''No rbft binary found in '' @ bin_dir @ '' (expected rbft2 or rbft-node2)''))"

text \<open>\<open>idx as u16\<close> and \<open>saturating_sub\<close>.\<close>

definition launch_ports :: "launch_request \<Rightarrow> u16 list" where
  "launch_ports r = map (\<lambda>idx. let i = of_nat idx in if i \<le> lr_base_port r then lr_base_port r - i else 0) [0..<lr_count r]"

definition chain_command :: "string \<Rightarrow> launch_request \<Rightarrow> string \<Rightarrow> string \<Rightarrow> string list" where
  "chain_command binary r logs_dir db_dir =
     [binary, ''node'', ''testnet'', ''--init'', ''--num-nodes'', show_dec (lr_count r), ''--base-http-port'',
      show_dec (unat (lr_base_port r)), ''--logs-dir'', logs_dir, ''--db-dir'', db_dir]"

text \<open>What is left after the request: the shared targets, the events sent and the command a task waits for.\<close>

record launch_effect =
  le_targets :: "validator_target list option"
  le_events :: "app_event list"
  le_waiting :: "string list option"

definition no_launch_effect :: launch_effect where
  "no_launch_effect = \<lparr>le_targets = None, le_events = [], le_waiting = None\<rparr>"

definition handle_launch_chain ::
  "'w os \<Rightarrow> world \<Rightarrow> (string \<Rightarrow> bool) \<Rightarrow> string \<Rightarrow> string option \<Rightarrow> launch_request \<Rightarrow> string \<Rightarrow> 'w \<Rightarrow>
   (string + active_chain \<times> string) \<times> launch_effect \<times> 'w" where
  "handle_launch_chain X W is_file assets trusted r bin_dir w =
     (let (db_dir, logs_dir) = os_test_dirs X in
      case os_create_dir_all X db_dir w of
        (Some e, w) \<Rightarrow> (Inl e, no_launch_effect, w)
      | (None, w) \<Rightarrow>
     (case os_create_dir_all X logs_dir w of
        (Some e, w) \<Rightarrow> (Inl e, no_launch_effect, w)
      | (None, w) \<Rightarrow>
     (case build_targets_from_ports W logs_dir 0 (launch_ports r) of
        Inl e \<Rightarrow> (Inl e, no_launch_effect, w)
      | Inr targets \<Rightarrow>
     (case resolve_rbft_binary is_file (\<lambda>p. os_exists X p w) bin_dir of
        Inl e \<Rightarrow> (Inl e, no_launch_effect, w)
      | Inr binary \<Rightarrow>
          let effect = \<lparr>le_targets = Some targets, le_events = [TargetUpdate targets], le_waiting = None\<rparr>;
              command = chain_command binary r logs_dir db_dir
          in (case os_spawn X command w of
                (Some e, w) \<Rightarrow> (Inl e, effect, w)
              | (None, w) \<Rightarrow>
                  (Inr (\<lparr>ac_base_http_port = lr_base_port r, ac_num_nodes = lr_count r, ac_data_dir = db_dir,
                         ac_logs_dir = logs_dir, ac_assets_dir = assets, ac_rbft_binary = binary, ac_trusted_peers = trusted\<rparr>,
                        ''Launched chain: '' @ show_dec (lr_count r) @ '' validators, base port '' @ show_dec (unat (lr_base_port r))),
                   effect\<lparr>le_waiting := Some command\<rparr>, os_sleep X 5000 w))))))"

text \<open>The end of the task that waits for the chain command; the exit code of a success is 0.\<close>

definition chain_task :: "'w os \<Rightarrow> string list \<Rightarrow> 'w \<Rightarrow> app_event \<times> 'w" where
  "chain_task X command w =
     (case os_wait X command w of
        (Inr out, w) \<Rightarrow>
          (if po_success out
           then CommandResult ''chain'' ''launch'' True (Some ''Chain command completed successfully (exit code 0)'')
           else CommandResult ''chain'' ''launch'' False (Some (''Chain command exited with status '' @ po_status out)), w)
      | (Inl err, w) \<Rightarrow> (CommandResult ''chain'' ''launch'' False (Some (''Failed to wait for chain command: '' @ err)), w))"

section \<open>Spamming transactions\<close>

text \<open>\<open>sp_post\<close> asks a node for its height: whether the status was a success.\<close>

record job =
  jb_words :: "string list"
  jb_env :: "(string \<times> string) list"
  jb_dir :: string

record job_output =
  jo_success :: bool
  jo_status :: string
  jo_stdout :: bytes
  jo_stderr :: bytes

record 'w spam_os =
  sp_has_cast :: "'w \<Rightarrow> bool"
  sp_script :: string
  sp_script_dir :: string
  sp_exists :: "string \<Rightarrow> 'w \<Rightarrow> bool"
  sp_post :: "string \<Rightarrow> 'w \<Rightarrow> bool \<times> 'w"
  sp_spawn :: "job \<Rightarrow> 'w \<Rightarrow> string option \<times> 'w"
  sp_wait :: "job \<Rightarrow> 'w \<Rightarrow> (string + job_output) \<times> 'w"
  sp_temp_dir :: string
  sp_seconds :: "'w \<Rightarrow> nat"
  sp_create_dir :: "string \<Rightarrow> 'w \<Rightarrow> bool \<times> 'w"
  sp_write :: "string \<Rightarrow> string \<Rightarrow> 'w \<Rightarrow> bool \<times> 'w"
  sp_utf8 :: "bytes \<Rightarrow> string option"
  sp_lossy :: "bytes \<Rightarrow> string"

fun any_reachable :: "'w spam_os \<Rightarrow> string list \<Rightarrow> 'w \<Rightarrow> bool \<times> 'w" where
  "any_reachable Y [] w = (False, w)"
| "any_reachable Y (url # urls) w =
     (case sp_post Y url w of (True, w) \<Rightarrow> (True, w) | (False, w) \<Rightarrow> any_reachable Y urls w)"

definition ensure_validators_reachable :: "'w spam_os \<Rightarrow> string list \<Rightarrow> 'w \<Rightarrow> (string + unit) \<times> 'w" where
  "ensure_validators_reachable Y urls w =
     (case any_reachable Y urls w of
        (True, w) \<Rightarrow> (Inr (), w)
      | (False, w) \<Rightarrow> (Inl ''Could not reach any validator RPC (eth_blockNumber failed)'', w))"

definition tail_lines :: "string \<Rightarrow> nat \<Rightarrow> string" where
  "tail_lines s n = (let ls = text_lines s in join [CHR 0x0A] (drop (length ls - n) ls))"

definition output_part :: "'w spam_os \<Rightarrow> string \<Rightarrow> bytes \<Rightarrow> string" where
  "output_part Y title out =
     (case sp_utf8 Y out of
        Some t \<Rightarrow> if trim t \<noteq> [] then [CHR 0x0A] @ title @ [CHR 0x0A] @ tail_lines t 10 else []
      | None \<Rightarrow> [])"

definition build_message :: "'w spam_os \<Rightarrow> bool \<Rightarrow> bytes \<Rightarrow> bytes \<Rightarrow> string option \<Rightarrow> string" where
  "build_message Y success out err log_path =
     (if success then ''Spam job completed'' else ''Spam job failed'') @
     output_part Y ''--- Output ---'' out @ output_part Y ''--- Errors ---'' err @
     (case log_path of Some p \<Rightarrow> [CHR 0x0A] @ ''Log: '' @ p | None \<Rightarrow> [])"

definition persist_spam_output :: "'w spam_os \<Rightarrow> job_output \<Rightarrow> 'w \<Rightarrow> string option \<times> 'w" where
  "persist_spam_output Y out w =
     (let dir = path_join (sp_temp_dir Y) ''validator-inspector'' in
      case sp_create_dir Y dir w of
        (False, w) \<Rightarrow> (None, w)
      | (True, w) \<Rightarrow>
          let path = path_join dir (''spam-'' @ show_dec (sp_seconds Y w) @ ''.log'');
              content = ''Status: '' @ jo_status out @ [CHR 0x0A, CHR 0x0A] @ ''--- STDOUT ---'' @ [CHR 0x0A] @
                sp_lossy Y (jo_stdout out) @ [CHR 0x0A] @ ''--- STDERR ---'' @ [CHR 0x0A] @ sp_lossy Y (jo_stderr out)
          in (case sp_write Y path content w of (True, w) \<Rightarrow> (Some path, w) | (False, w) \<Rightarrow> (None, w)))"

definition spam_job :: "'w spam_os \<Rightarrow> spam_request \<Rightarrow> string list \<Rightarrow> string + job" where
  "spam_job Y r urls =
     (let words = [''bash'', sp_script Y, ''--accounts'', show_dec (sr_accounts r), ''--count'', show_u64 (sr_total_txs r),
            ''--parallel'', show_u64 (sr_parallel r), ''--burst'', show_u64 (sr_burst r),
            ''--mode'', (case sr_mode r of RoundRobin \<Rightarrow> ''round-robin'' | Target \<Rightarrow> ''target'')];
          env = [(''VALIDATOR_URLS'', join '','' urls), (''RUST_LOG'', []), (''FOUNDRY_LOG'', ''error''), (''NO_COLOR'', ''1''), (''CLICOLOR'', ''0'')]
      in case sr_mode r of
          RoundRobin \<Rightarrow> Inr \<lparr>jb_words = words, jb_env = env, jb_dir = sp_script_dir Y\<rparr>
        | Target \<Rightarrow>
            (case sr_target_url r of
               Some url \<Rightarrow> Inr \<lparr>jb_words = words @ [''--target'', url], jb_env = env, jb_dir = sp_script_dir Y\<rparr>
             | None \<Rightarrow> Inl ''Target URL required for target mode''))"

text \<open>The request leaves a task that waits for the job.\<close>

definition handle_spam_request :: "'w spam_os \<Rightarrow> spam_request \<Rightarrow> string list \<Rightarrow> 'w \<Rightarrow> (string + job) \<times> 'w" where
  "handle_spam_request Y r urls w =
     (if urls = [] then (Inl ''No validators available for spam transactions'', w)
      else if \<not> sp_has_cast Y w
      then (Inl ''Foundry 'cast' binary not found. Install with: curl -L https://foundry.paradigm.xyz | bash'', w)
      else if \<not> sp_exists Y (sp_script Y) w then (Inl (''Spam script not found at '' @ sp_script Y), w)
      else case ensure_validators_reachable Y urls w of
          (Inl e, w) \<Rightarrow> (Inl e, w)
        | (Inr _, w) \<Rightarrow>
            (case spam_job Y r urls of
               Inl e \<Rightarrow> (Inl e, w)
             | Inr job \<Rightarrow>
                 (case sp_spawn Y job w of
                    (Some e, w) \<Rightarrow> (Inl (''Failed to start spam script: '' @ e), w)
                  | (None, w) \<Rightarrow> (Inr job, w))))"

definition spam_task :: "'w spam_os \<Rightarrow> job \<Rightarrow> 'w \<Rightarrow> app_event \<times> 'w" where
  "spam_task Y job w =
     (case sp_wait Y job w of
        (Inr out, w) \<Rightarrow>
          (case persist_spam_output Y out w of (log_path, w) \<Rightarrow>
             (CommandResult ''spam'' ''spam'' (jo_success out)
                (Some (build_message Y (jo_success out) (jo_stdout out) (jo_stderr out) log_path)), w))
      | (Inl err, w) \<Rightarrow> (CommandResult ''spam'' ''spam'' False (Some (''Spam job failed: '' @ err)), w))"

end
