(* ===== verification/Inspector_Rpc_Properties.thy ===== *)
theory Inspector_Rpc_Properties
  imports Inspector_Launch Lifecycle_Properties
begin

text \<open>
  Polling and launching: what the reports of a round say and where they end up, and that the targets
  of a launched chain are those the inspector expects for its nodes.
\<close>

section \<open>Reports\<close>

lemma receipts_bound: "length (fst (fetch_each_receipt R url n txs w)) \<le> length txs"
  by (induction txs arbitrary: w) (auto simp: split_beta le_SucI split: option.split sum.split)

lemma fetch_receipts_bound: "length (fst (fetch_receipts R url w)) \<le> 5"
proof -
  have "length (fst (fetch_each_receipt R url n (take 5 xs) w)) \<le> 5" for n xs w
    using receipts_bound [of R url n "take 5 xs" w] by simp
  then show ?thesis by (simp add: fetch_receipts_def split: prod.split sum.split)
qed

definition report_ok :: "validator_report \<Rightarrow> bool" where
  "report_ok r \<longleftrightarrow> (vr_ok r \<longleftrightarrow> vr_error r = None) \<and> (vr_ok r \<longleftrightarrow> vr_latency r \<noteq> None)
     \<and> length (vr_latest_receipts r) \<le> 5
     \<and> (\<not> vr_ok r \<longrightarrow> vr_block_txs r = None \<and> vr_peer_count r = None \<and> vr_peers r = [] \<and> vr_latest_receipts r = [])"

lemma fetch_validator_ok: "report_ok (fst (fetch_validator R t w)) \<and> vr_label (fst (fetch_validator R t w)) = vt_label t"
  using fetch_receipts_bound [of R "vt_url t"]
  by (auto simp: fetch_validator_def report_ok_def failed_report_def Let_def split: prod.split sum.split) (metis fst_conv)

lemma fetch_all_reports:
  "map vr_label (fst (fetch_all R ts w)) = map vt_label ts" "list_all report_ok (fst (fetch_all R ts w))"
  by (induction ts arbitrary: w) (simp_all add: split_beta fetch_validator_ok)

lemma apply_report_rows:
  assumes "distinct (map entry_label es)" and "length rs = length es"
    and "\<forall>i < length es. m (entry_label (es ! i)) = Some (rs ! i)"
  shows "apply_report_map m es = map2 apply_report rs es"
  using assms
proof (induction es arbitrary: rs m)
  case (Cons e es)
  then obtain r rs' where rs: "rs = r # rs'" by (cases rs) auto
  have "m (entry_label e) = Some r" using Cons.prems(3) rs by auto
  moreover have "\<forall>i < length es. (m(entry_label e := None)) (entry_label (es ! i)) = Some (rs' ! i)"
    using Cons.prems(1,3) rs by (auto simp: image_iff dest: nth_mem) (metis nth_mem)
  ultimately show ?case using Cons.IH [of rs' "m(entry_label e := None)"] Cons.prems(1,2) rs by (simp del: fun_upd_apply)
qed simp


section \<open>Targets of a launched chain\<close>

lemma build_targets_nth:
  "build_targets_from_ports W logs k ports = Inr ts \<Longrightarrow> length ts = length ports \<and> (\<forall>i < length ports.
     \<exists>url. w_parse_url W (''http://127.0.0.1:'' @ show_dec (unat (ports ! i))) = Inr url
       \<and> ts ! i = \<lparr>vt_label = CHR ''v'' # show_dec (k + i), vt_url = url, vt_port = Some (ports ! i),
            vt_key = w_load_key W (CHR ''v'' # show_dec (k + i)),
            vt_log_path = Some (path_join logs (''node'' @ show_dec (k + i) @ ''.log''))\<rparr>)"
proof (induction ports arbitrary: k ts)
  case (Cons port ports)
  then show ?case by (fastforce split: sum.splits simp: nth_Cons' less_Suc_eq_0_disj)
qed simp

text \<open>
  The targets a launch shows are the ones the inspector later works with: after a successful
  launch, the target of every node that fits below the base port is the one computed for its index
  from the active chain, with the same label, address, port, key and log file.
\<close>
lemma launched_targets_expected:
  assumes "handle_launch_chain X W is_file assets trusted r bin_dir w = (Inr (chain, msg), effect, w')"
    and "i < lr_count r" and "i \<le> unat (lr_base_port r)"
  shows "\<exists>ts. le_targets effect = Some ts \<and> length ts = lr_count r \<and> target_for_index W i chain = Inr (ts ! i)"
proof -
  obtain ts db logs where ts: "build_targets_from_ports W logs 0 (launch_ports r) = Inr ts"
    and effect: "le_targets effect = Some ts" and chain: "ac_base_http_port chain = lr_base_port r" "ac_logs_dir chain = logs"
    using assms(1)
    by (auto simp: handle_launch_chain_def Let_def split: prod.splits option.splits sum.splits)
  have len: "length (launch_ports r) = lr_count r" by (simp add: launch_ports_def)
  have small: "i < 2 ^ 16" using assms(3) unsigned_less [of "lr_base_port r", where ?'a = nat] by simp
  then have "(of_nat i :: u16) \<le> lr_base_port r" using assms(3) by (simp add: word_le_nat_alt unat_of_nat)
  then have port: "launch_ports r ! i = lr_base_port r - of_nat i" using assms(2) by (simp add: launch_ports_def Let_def)
  from build_targets_nth [OF ts] len assms(2) port small assms(3) chain
  have "target_for_index W i chain = Inr (ts ! i)"
    by (auto simp: target_for_index_def and_then_def path_join_def Let_def)
  with effect build_targets_nth [OF ts] len show ?thesis by auto
qed

section \<open>The validators of the command line\<close>

lemma entry_targets_labels:
  "entry_targets W default_port k entries = Inr ts \<Longrightarrow>
     map vt_label ts = map (\<lambda>(i, e). fst (target_entry i e)) (enumerate k entries)"
  by (induction entries arbitrary: k ts) (auto split: prod.splits sum.splits)

text \<open>
  The targets of the command line are ordered by label and address, at least one and at most the given
  number of them, and each has the label of an entry or, where an entry names none, its index.
\<close>

lemma parse_targets_ordered:
  assumes "parse_targets W default_port entries max_validators = Inr ts"
  shows "sorted (map (\<lambda>t. (vt_label t, vt_url t)) ts) \<and> length ts = min (length entries) (max max_validators 1)
    \<and> (\<forall>t \<in> set ts. \<exists>i < length entries. vt_label t = fst (target_entry i (entries ! i)))"
proof -
  obtain all where all: "entry_targets W default_port 0 entries = Inr all"
    and ts: "ts = take (max max_validators 1) (sort_key (\<lambda>t. (vt_label t, vt_url t)) all)"
    using assms by (auto simp: parse_targets_def split: sum.splits)
  note labels = entry_targets_labels [OF all]
  have len: "length all = length entries" using arg_cong [OF labels, of length] by simp
  have "\<exists>i < length entries. vt_label t = fst (target_entry i (entries ! i))" if t: "t \<in> set ts" for t
  proof -
    from t have "t \<in> set all" unfolding ts by (metis in_set_takeD set_sort)
    then obtain i where i: "i < length all" "t = all ! i" by (metis in_set_conv_nth)
    with labels len have "vt_label t = map (\<lambda>(i, e). fst (target_entry i e)) (enumerate 0 entries) ! i"
      by (metis nth_map)
    with i len show ?thesis by (auto simp: nth_enumerate_eq)
  qed
  moreover have "sorted (map (\<lambda>t. (vt_label t, vt_url t)) ts)"
    unfolding ts by (simp add: take_map [symmetric] sorted_wrt_take)
  ultimately show ?thesis using len ts by auto
qed

section \<open>Keys on the screen\<close>

lemma byte_slices_ascii:
  assumes "list_all (\<lambda>c. length (char_bytes c) = 1) s" and "n \<le> length s"
  shows "byte_take n s = Some (take n s)" and "byte_drop n s = Some (drop n s)"
  using assms by (induction s arbitrary: n) (auto simp: take_Cons' drop_Cons')

text \<open>A key of ASCII characters is shown without a panic, and a long one only by its two ends.\<close>

lemma ascii_key_shown:
  assumes "\<And>p c. read p = Some c \<Longrightarrow> list_all (\<lambda>c. length (char_bytes c) = 1) (trim c)"
  shows "\<exists>k. load_validator_key assets read lbl = Some k
    \<and> (\<forall>a b. k = Some (ShortKey a b) \<longrightarrow> length a = 6 \<and> length b = 4)"
proof -
  have slices: "\<exists>a b. byte_take 6 s = Some a \<and> byte_drop (length (string_bytes s) - 4) s = Some b \<and> length a = 6 \<and> length b = 4"
    if "list_all (\<lambda>c. length (char_bytes c) = 1) s" "10 < length (string_bytes s)" for s
  proof -
    from that(1) have "length (string_bytes s) = length s"
      by (induction s) (auto simp: string_bytes_def)
    with that byte_slices_ascii [OF that(1)] show ?thesis by auto
  qed
  show ?thesis
    using assms slices
    by (fastforce simp: load_validator_key_def Let_def split: option.split sum.split)
qed

section \<open>Examples\<close>

definition silent_net :: "unit rpc_net" where
  "silent_net = \<lparr>rn_post = (\<lambda>_ _ _ w. (RequestFailed, w)), rn_now = (\<lambda>_. 0), rn_show = (\<lambda>_. [])\<rparr>"


lemma launched_targets_expected_witness:
  "\<exists>chain msg effect w'. handle_launch_chain sample_os sample_world (\<lambda>_. True) ''a'' None \<lparr>lr_count = 2, lr_base_port = 8545\<rparr> ''rbft'' ()
      = (Inr (chain, msg), effect, w')
    \<and> (\<exists>ts. le_targets effect = Some ts \<and> target_for_index sample_world 1 chain = Inr (ts ! 1))"
proof -
  obtain chain msg effect w' where run:
    "handle_launch_chain sample_os sample_world (\<lambda>_. True) ''a'' None \<lparr>lr_count = 2, lr_base_port = 8545\<rparr> ''rbft'' ()
      = (Inr (chain, msg), effect, w')"
    by (simp add: handle_launch_chain_def sample_os_def launch_ports_def sample_world_def resolve_rbft_binary_def
        upt_rec [of 0] upt_rec [of "Suc 0"] upt_rec [of "Suc (Suc 0)"])
  from launched_targets_expected [OF run, of 1] run show ?thesis by auto
qed

end
