(* ===== verification/Docker.thy ===== *)
theory Docker
  imports Genesis
begin

text \<open>
  Docker for the test network (\<open>rbft-utils/src/testnet/docker.rs\<close>): removing containers and
  directories, building and pushing the image, and the digest of the sources that decides whether an
  image has to be built.  Programs that are run, the clock and the hash function are a parameter with a
  state of its own; files are a map from paths to contents.
\<close>

section \<open>Programs\<close>

record cmd_output =
  co_success :: bool
  co_stdout :: string
  co_stderr :: string

datatype file_read = Contents string | NotFound | Unreadable

datatype remove_outcome = Removed | PermissionDenied | RemoveFailed string

text \<open>A directory with its entries; a file that cannot be read has no contents.\<close>

datatype tree = TFile "string option" | TDir "(string \<times> tree) list" | TOther

text \<open>
  \<open>sh_run\<close> runs a program with the given words and standard input and waits for it; \<^const>\<open>None\<close> is a
  program that cannot be run.  \<open>sh_spawn\<close> starts a program and leaves it running.
\<close>

record 'w shell =
  sh_run :: "string list \<Rightarrow> string \<Rightarrow> 'w \<Rightarrow> cmd_output option \<times> 'w"
  sh_spawn :: "string list \<Rightarrow> 'w \<Rightarrow> 'w"
  sh_remove :: "string \<Rightarrow> 'w \<Rightarrow> remove_outcome"
  sh_dir_exists :: "string \<Rightarrow> 'w \<Rightarrow> bool"
  sh_env :: "string \<Rightarrow> string option"
  sh_cwd :: "string option"
  sh_sha256 :: "string \<Rightarrow> string"
  sh_file :: "string \<Rightarrow> 'w \<Rightarrow> file_read"
  sh_tree :: "'w \<Rightarrow> tree"
  sh_now :: "'w \<Rightarrow> nat"
  sh_sleep :: "nat \<Rightarrow> 'w \<Rightarrow> 'w"
  sh_connect :: "string \<Rightarrow> 'w \<Rightarrow> bool \<times> 'w"

datatype deploy_error = IoError | Message string

text \<open>Running a program that has to succeed.\<close>

definition run_checked :: "'w shell \<Rightarrow> string list \<Rightarrow> string \<Rightarrow> string \<Rightarrow> 'w \<Rightarrow> (deploy_error + string) \<times> 'w" where
  "run_checked X words stdin failure w =
     (case sh_run X words stdin w of
        (None, w) \<Rightarrow> (Inl IoError, w)
      | (Some out, w) \<Rightarrow> (if co_success out then Inr (co_stdout out) else Inl (Message (failure @ co_stderr out)), w))"

section \<open>Cleaning up\<close>

definition cleanup_containers :: "'w shell \<Rightarrow> 'w \<Rightarrow> 'w" where
  "cleanup_containers X w =
     (case sh_run X [''docker'', ''ps'', ''-aq'', ''--filter'', ''name=rbft-node-testnet''] [] w of
        (None, w) \<Rightarrow> w
      | (Some out, w) \<Rightarrow>
          let ids = text_lines (co_stdout out) in
          if co_success out \<and> ids \<noteq> [] then snd (sh_run X ([''docker'', ''rm'', ''-f''] @ ids) [] w) else w)"

definition without_dir :: "string \<Rightarrow> files \<Rightarrow> files" where
  "without_dir dir fs = (\<lambda>p. if starts_with (dir @ ''/'') p then None else fs p)"

text \<open>The container removes what is in the directory (but hidden files), then the directory goes.\<close>

definition cleanup_directory :: "'w shell \<Rightarrow> string \<Rightarrow> files \<Rightarrow> 'w \<Rightarrow> (deploy_error + unit) \<times> files \<times> 'w" where
  "cleanup_directory X path fs w =
     (case run_checked X [''docker'', ''run'', ''--rm'', ''-v'', path @ '':/cleanup'', ''alpine'', ''sh'', ''-c'', ''rm -rf /cleanup/*'']
         [] ''Docker cleanup failed: '' w of
        (Inl e, w) \<Rightarrow> (Inl e, fs, w)
      | (Inr _, w) \<Rightarrow>
          (case sh_remove X path w of
             Removed \<Rightarrow> (Inr (), without_dir path fs, w)
           | _ \<Rightarrow> (Inl IoError, fs, w)))"

section \<open>The digest of the sources\<close>

definition should_skip_component :: "string \<Rightarrow> bool" where
  "should_skip_component name \<longleftrightarrow> name \<in> {''.git'', ''target'', ''node_modules'', ''rbft-monitor-logs''}"

definition should_skip_path :: "string \<Rightarrow> bool" where
  "should_skip_path path \<longleftrightarrow> path \<noteq> [] \<and> should_skip_component (takeWhile (\<lambda>c. c \<noteq> CHR ''/'') path)"

definition git_root :: "'w shell \<Rightarrow> 'w \<Rightarrow> string option \<times> 'w" where
  "git_root X w =
     (case sh_run X [''git'', ''rev-parse'', ''--show-toplevel''] [] w of
        (None, w) \<Rightarrow> (None, w)
      | (Some out, w) \<Rightarrow>
          (if co_success out \<and> trim (co_stdout out) \<noteq> [] then Some (trim (co_stdout out)) else None, w))"

definition git_list_files :: "'w shell \<Rightarrow> string \<Rightarrow> string list \<Rightarrow> 'w \<Rightarrow> (deploy_error + string list) \<times> 'w" where
  "git_list_files X repo words w =
     (case run_checked X ([''git'', ''-C'', repo] @ words) [] ''git command failed: '' w of
        (Inl e, w) \<Rightarrow> (Inl e, w)
      | (Inr out, w) \<Rightarrow> (Inr (filter (\<lambda>p. p \<noteq> []) (split_on (\<lambda>c. c = CHR 0x00) out)), w))"

text \<open>What is hashed of a list of files: name and contents, each ended by a zero byte.\<close>

fun hashed_files :: "'w shell \<Rightarrow> string \<Rightarrow> string list \<Rightarrow> 'w \<Rightarrow> string option" where
  "hashed_files X repo [] w = Some []"
| "hashed_files X repo (rel # rels) w =
     (case sh_file X (path_join repo rel) w of
        Unreadable \<Rightarrow> None
      | NotFound \<Rightarrow> map_option (\<lambda>s. rel @ [CHR 0x00] @ s) (hashed_files X repo rels w)
      | Contents c \<Rightarrow> map_option (\<lambda>s. rel @ [CHR 0x00] @ c @ [CHR 0x00] @ s) (hashed_files X repo rels w))"

definition hash_files :: "'w shell \<Rightarrow> string \<Rightarrow> string list \<Rightarrow> 'w \<Rightarrow> deploy_error + string" where
  "hash_files X repo files w =
     (case hashed_files X repo files w of None \<Rightarrow> Inl IoError | Some s \<Rightarrow> Inr (sh_sha256 X s))"

text \<open>Outside of a repository the directory is walked, the entries in the order of their names.\<close>

definition is_dir :: "tree \<Rightarrow> bool" where
  "is_dir t \<longleftrightarrow> (case t of TDir _ \<Rightarrow> True | _ \<Rightarrow> False)"

function hash_dir :: "string \<Rightarrow> tree \<Rightarrow> string option" where
  "hash_dir rel (TFile c) = map_option (\<lambda>c. rel @ [CHR 0x00] @ c @ [CHR 0x00]) c"
| "hash_dir rel TOther = Some []"
| "hash_dir rel (TDir es) = map_option concat (those (map (\<lambda>(name, t).
     if is_dir t \<and> should_skip_component name then Some []
     else hash_dir (if rel = [] then name else path_join rel name) t) (sort_key fst es)))"
  by pat_completeness auto
termination
proof (relation "measure (\<lambda>(_, t). size t)")
  fix rel name :: string and es :: "(string \<times> tree) list" and x t
  assume "x \<in> set (sort_key fst es)" and "(name, t) = x"
  then have "(name, t) \<in> set es" by (metis set_sort)
  then show "((if rel = [] then name else path_join rel name, t), (rel, TDir es)) \<in> measure (\<lambda>(_, t). size t)"
    by (induction es) auto
qed simp

definition compute_source_digest :: "'w shell \<Rightarrow> 'w \<Rightarrow> (deploy_error + string) \<times> 'w" where
  "compute_source_digest X w =
     (case git_root X w of
        (Some repo, w) \<Rightarrow>
          (case git_list_files X repo [''ls-files'', ''-z''] w of
             (Inl e, w) \<Rightarrow> (Inl e, w)
           | (Inr tracked, w) \<Rightarrow>
               (case git_list_files X repo [''ls-files'', ''-o'', ''--exclude-standard'', ''-z''] w of
                  (Inl e, w) \<Rightarrow> (Inl e, w)
                | (Inr untracked, w) \<Rightarrow>
                    (hash_files X repo
                       (remdups_adj (sort_key (split_on (\<lambda>c. c = CHR ''/''))
                          (filter (\<lambda>p. \<not> should_skip_path p) (tracked @ untracked)))) w, w)))
      | (None, w) \<Rightarrow>
          (case sh_cwd X of
             None \<Rightarrow> (Inl IoError, w)
           | Some _ \<Rightarrow> (case hash_dir [] (sh_tree X w) of None \<Rightarrow> Inl IoError | Some s \<Rightarrow> Inr (sh_sha256 X s), w)))"

section \<open>Images\<close>

definition registry :: "'w shell \<Rightarrow> string" where
  "registry X = (case sh_env X ''RBFT_REGISTRY'' of Some r \<Rightarrow> r | None \<Rightarrow> ''ghcr.io/raylsnetwork'')"

definition build_image :: "'w shell \<Rightarrow> string \<Rightarrow> files \<Rightarrow> 'w \<Rightarrow> (deploy_error + unit) \<times> 'w" where
  "build_image X img fs w =
     (case git_root X w of (found, w) \<Rightarrow>
      case sh_cwd X of
        None \<Rightarrow> (Inl IoError, w)
      | Some cwd \<Rightarrow>
          let repo = unwrap_or cwd found; dockerfile = path_join repo ''Dockerfile'' in
          if fs dockerfile = None then (Inl (Message (''Dockerfile not found at '' @ dockerfile)), w)
          else (case run_checked X [''docker'', ''build'', ''-t'', img, ''-f'', dockerfile, repo] [] ''Docker build failed: '' w of
                  (Inl e, w) \<Rightarrow> (Inl e, w)
                | (Inr _, w) \<Rightarrow> (Inr (), w)))"

definition push_image_to_registry :: "'w shell \<Rightarrow> string \<Rightarrow> string \<Rightarrow> 'w \<Rightarrow> (deploy_error + unit) \<times> 'w" where
  "push_image_to_registry X local_image registry_image w =
     (case run_checked X [''docker'', ''tag'', local_image, registry_image] [] ''Failed to tag image: '' w of
        (Inl e, w) \<Rightarrow> (Inl e, w)
      | (Inr _, w) \<Rightarrow>
          (case run_checked X [''docker'', ''push'', registry_image] [] ''Failed to push image: '' w of
             (Inl e, w) \<Rightarrow> (Inl e, w)
           | (Inr _, w) \<Rightarrow> (Inr (), w)))"

record prepared_image =
  pim_registry_image :: string
  pim_tag :: string
  pim_digest :: string

definition image_tag :: "string \<Rightarrow> string" where
  "image_tag source_digest = ''testnet-'' @ take 12 source_digest"

definition registry_image_of :: "'w shell \<Rightarrow> string \<Rightarrow> string" where
  "registry_image_of X source_digest = registry X @ ''/rbft-node:'' @ image_tag source_digest"

definition force_rebuild :: "'w shell \<Rightarrow> bool" where
  "force_rebuild X \<longleftrightarrow> (case sh_env X ''RBFT_FORCE_DOCKER_REBUILD'' of Some v \<Rightarrow> v \<noteq> ''0'' | None \<Rightarrow> False)"

definition digest_file :: "string \<Rightarrow> string" where
  "digest_file assets_dir = path_join assets_dir ''.last_docker_image_digest''"

definition prepare_kube_image ::
  "'w shell \<Rightarrow> string \<Rightarrow> files \<Rightarrow> 'w \<Rightarrow> (deploy_error + prepared_image) \<times> files \<times> 'w" where
  "prepare_kube_image X assets_dir fs w =
     (case compute_source_digest X w of
        (Inl e, w) \<Rightarrow> (Inl e, fs, w)
      | (Inr source_digest, w) \<Rightarrow>
          let local_image = ''rbft-node:'' @ image_tag source_digest;
              img = \<lparr>pim_registry_image = registry_image_of X source_digest, pim_tag = image_tag source_digest, pim_digest = source_digest\<rparr>;
              last_digest = map_option trim (fs (digest_file assets_dir))
          in if force_rebuild X \<or> last_digest \<noteq> Some source_digest
             then (case build_image X local_image fs w of
                     (Inl e, w) \<Rightarrow> (Inl e, fs, w)
                   | (Inr _, w) \<Rightarrow>
                       (case push_image_to_registry X local_image (pim_registry_image img) w of
                          (Inl e, w) \<Rightarrow> (Inl e, fs, w)
                        | (Inr _, w) \<Rightarrow> (Inr img, fs(digest_file assets_dir \<mapsto> source_digest), w)))
             else (Inr img, fs, w))"

end
