(* ===== verification/Kube.thy ===== *)
theory Kube
  imports Docker Testnet Loops
begin

text \<open>
  Kubernetes for the test network (\<open>rbft-utils/src/testnet/kube.rs\<close> and the Kubernetes mode of
  \<open>testnet.rs\<close>): the namespace, the configuration map with genesis, keys and enodes, the service and the
  stateful set with the command of a node, waiting for pods and forwarding ports.
\<close>

section \<open>The namespace\<close>

definition ensure_namespace :: "'w shell \<Rightarrow> string \<Rightarrow> 'w \<Rightarrow> (deploy_error + unit) \<times> 'w" where
  "ensure_namespace X namespace w =
     (let namespace = trim namespace in
      if namespace = [] then (Inl (Message ''Kubernetes namespace is empty''), w)
      else case sh_run X [''kubectl'', ''get'', ''namespace'', namespace] [] w of (found, w) \<Rightarrow>
        if (case found of Some out \<Rightarrow> co_success out | None \<Rightarrow> False) then (Inr (), w)
        else (case run_checked X [''kubectl'', ''create'', ''namespace'', namespace] []
                  (''Failed to create namespace '' @ namespace @ '': '') w of
                (Inl e, w) \<Rightarrow> (Inl e, w)
              | (Inr _, w) \<Rightarrow> (Inr (), w)))"

definition kubectl_apply :: "'w shell \<Rightarrow> string \<Rightarrow> string \<Rightarrow> 'w \<Rightarrow> (deploy_error + unit) \<times> 'w" where
  "kubectl_apply X yaml failure w =
     (case run_checked X [''kubectl'', ''apply'', ''-f'', ''-''] yaml failure w of
        (Inl e, w) \<Rightarrow> (Inl e, w)
      | (Inr _, w) \<Rightarrow> (Inr (), w))"

section \<open>The configuration map\<close>

definition unlines :: "string list \<Rightarrow> string" where
  "unlines ls = concat (map (\<lambda>l. l @ [CHR 0x0A]) ls)"

text \<open>A literal block: every line indented.\<close>

definition block_lines :: "string \<Rightarrow> string list" where
  "block_lines s = map (\<lambda>l. ''    '' @ l) (text_lines s)"

definition double_quoted :: "string \<Rightarrow> string" where
  "double_quoted s = CHR 0x22 # s @ [CHR 0x22]"

text \<open>The enodes of the file of nodes: the header is skipped, short lines are ignored.\<close>

definition csv_enodes :: "string \<Rightarrow> string list" where
  "csv_enodes content =
     filter_map (\<lambda>line. let parts = split_on (\<lambda>c. c = CHR '','') line in if 5 \<le> length parts then Some (parts ! 4) else None)
       (drop 1 (text_lines content))"

fun key_lines :: "string \<Rightarrow> files \<Rightarrow> nat list \<Rightarrow> string list option" where
  "key_lines assets fs [] = Some []"
| "key_lines assets fs (i # is) =
     (case (fs (path_join assets (''validator-key'' @ show_dec i @ ''.txt'')), fs (path_join assets (''p2p-secret-key'' @ show_dec i @ ''.txt''))) of
        (Some validator_key, Some p2p_key) \<Rightarrow>
          map_option (\<lambda>ls. (''  validator-key'' @ show_dec i @ ''.txt: '' @ double_quoted (trim validator_key)) #
              (''  p2p-secret-key'' @ show_dec i @ ''.txt: '' @ double_quoted (trim p2p_key)) # ls)
            (key_lines assets fs is)
      | _ \<Rightarrow> None)"

definition configmap_text :: "string \<Rightarrow> nat \<Rightarrow> string \<Rightarrow> files \<Rightarrow> string option" where
  "configmap_text assets num_nodes namespace fs =
     (case (fs (path_join assets ''genesis.json''), fs (path_join assets ''nodes.csv'')) of
        (Some genesis_content, Some csv) \<Rightarrow>
          map_option (\<lambda>keys. unlines
              ([''apiVersion: v1'', ''kind: ConfigMap'', ''metadata:'', ''  name: rbft-testnet-config'', ''  namespace: '' @ namespace,
                ''data:'', ''  genesis.json: |''] @ block_lines genesis_content @ [''  reth-config.toml: |''] @
               block_lines node_config_text @ [''  enodes.txt: '' @ double_quoted (join '','' (csv_enodes csv))] @ keys))
            (key_lines assets fs [0..<num_nodes])
      | _ \<Rightarrow> None)"

definition create_configmap :: "'w shell \<Rightarrow> string \<Rightarrow> nat \<Rightarrow> string \<Rightarrow> files \<Rightarrow> 'w \<Rightarrow> (deploy_error + unit) \<times> 'w" where
  "create_configmap X assets num_nodes namespace fs w =
     (case ensure_namespace X namespace w of
        (Inl e, w) \<Rightarrow> (Inl e, w)
      | (Inr _, w) \<Rightarrow>
          (case configmap_text assets num_nodes namespace fs of
             None \<Rightarrow> (Inl IoError, w)
           | Some yaml \<Rightarrow> kubectl_apply X yaml ''Failed to create ConfigMap: '' w))"

section \<open>The command of a node\<close>

definition kube_args :: "string list option \<Rightarrow> string list" where
  "kube_args extra_args =
     [''node'', ''--http'', ''--http.port'', ''8545'', ''--http.addr'', ''0.0.0.0'', ''--http.corsdomain'', ''*'',
      ''--http.api'', ''eth,txpool'', ''--chain'', ''/config/genesis.json'', ''--config'', ''/config/reth-config.toml'',
      ''--validator-key'', ''/config/validator-key.txt'', ''--p2p-secret-key'', ''/config/p2p-secret-key.txt'',
      ''--datadir'', ''/data'', ''--ipcpath'', ''/data/reth.ipc'', ''--authrpc.port'', ''8551'', ''--port'', ''30303'',
      ''--disable-discovery''] @
     (case extra_args of Some extra \<Rightarrow> concat (map split_whitespace extra) | None \<Rightarrow> [])"

text \<open>Single quotes around a word, with every single quote in it put between double quotes.\<close>

definition shell_quote :: "string \<Rightarrow> string" where
  "shell_quote s = CHR 0x27 #
     concat (map (\<lambda>c. if c = CHR 0x27 then [CHR 0x27, CHR 0x22, CHR 0x27, CHR 0x22, CHR 0x27] else [c]) s) @ [CHR 0x27]"

definition node_words :: "string list \<Rightarrow> string" where
  "node_words words = ''/app/rbft-node'' @ concat (map (\<lambda>w. CHR '' '' # shell_quote w) words)"

definition rbft_cmd :: "string list option \<Rightarrow> string" where
  "rbft_cmd extra_args =
     ''set -euo pipefail; '' @ ''mkdir -p /data/logs; '' @ node_words (kube_args extra_args) @
     '' --trusted-peers '' @ double_quoted ''$(cat /config/enodes.txt)'' @ '' 2>&1 | tee -a /data/logs/node.log''"

section \<open>The deployment\<close>

definition service_yaml :: "string \<Rightarrow> string" where
  "service_yaml namespace = unlines
     [''apiVersion: v1'', ''kind: Service'', ''metadata:'', ''  name: rbft-node'', ''  namespace: '' @ namespace, ''spec:'',
      ''  clusterIP: None'', ''  selector:'', ''    app: rbft-node'', ''  ports:'', ''  - name: p2p'', ''    port: 30303'',
      ''    targetPort: 30303'', ''  - name: http'', ''    port: 8545'', ''    targetPort: 8545'']"

definition statefulset_head :: "nat \<Rightarrow> string \<Rightarrow> string \<Rightarrow> string \<Rightarrow> string list" where
  "statefulset_head num_nodes namespace img cmd =
     [''apiVersion: apps/v1'', ''kind: StatefulSet'', ''metadata:'', ''  name: rbft-node'', ''  namespace: '' @ namespace, ''spec:'',
      ''  replicas: '' @ show_dec num_nodes, ''  serviceName: rbft-node'', ''  selector:'', ''    matchLabels:'', ''      app: rbft-node'',
      ''  template:'', ''    metadata:'', ''      labels:'', ''        app: rbft-node'', ''    spec:'', ''      securityContext:'',
      ''        fsGroup: 1000'', ''      containers:'', ''      - name: rbft-node'', ''        image: '' @ img,
      ''        command: ['' @ double_quoted ''/bin/bash'' @ '', '' @ double_quoted ''-c'' @ '']'', ''        args:'', ''        - |'', ''          '' @ cmd]"

definition statefulset_tail :: "string list" where
  "statefulset_tail =
     [''        ports:'', ''        - name: http'', ''          containerPort: 8545'', ''        - name: authrpc'',
      ''          containerPort: 8551'', ''        - name: p2p'', ''          containerPort: 30303'', ''        volumeMounts:'',
      ''        - name: config-raw'', ''          mountPath: /config-raw'', ''        - name: config'', ''          mountPath: /config'',
      ''        - name: data'', ''          mountPath: /data'', ''        env:'', ''        - name: RUST_LOG'',
      ''          value: '' @ double_quoted ''info'', ''        - name: POD_NAME'', ''          valueFrom:'', ''            fieldRef:'',
      ''              fieldPath: metadata.name'', ''      initContainers:'', ''      - name: setup-keys'', ''        image: busybox'',
      ''        command:'', ''        - sh'', ''        - -c'', ''        - |'',
      ''          # Extract ordinal from pod name (rbft-node-0 -> 0)'',
      ''          ORDINAL=$(echo $POD_NAME | grep -o '' @ [CHR 0x27] @ ''[0-9]*$'' @ [CHR 0x27] @ '')'',
      ''          echo '' @ double_quoted ''Setting up keys for validator $ORDINAL'',
      ''          cp /config-raw/genesis.json /config/genesis.json'', ''          cp /config-raw/enodes.txt /config/enodes.txt'',
      ''          cp /config-raw/reth-config.toml /config/reth-config.toml'',
      ''          cp /config-raw/validator-key${ORDINAL}.txt /config/validator-key.txt'',
      ''          cp /config-raw/p2p-secret-key${ORDINAL}.txt /config/p2p-secret-key.txt'',
      ''          mkdir -p /data/db /data/logs'', ''          chown -R 1000:1000 /data'', ''        env:'', ''        - name: POD_NAME'',
      ''          valueFrom:'', ''            fieldRef:'', ''              fieldPath: metadata.name'', ''        volumeMounts:'',
      ''        - name: config-raw'', ''          mountPath: /config-raw'', ''        - name: config'', ''          mountPath: /config'',
      ''        - name: data'', ''          mountPath: /data'', ''      volumes:'', ''      - name: config-raw'', ''        configMap:'',
      ''          name: rbft-testnet-config'', ''      - name: config'', ''        emptyDir: {}'', ''  volumeClaimTemplates:'',
      ''  - metadata:'', ''      name: data'', ''    spec:'', ''      accessModes: ['' @ double_quoted ''ReadWriteOnce'' @ '']'',
      ''      resources:'', ''        requests:'', ''          storage: 7Gi'']"

definition statefulset_yaml :: "nat \<Rightarrow> string list option \<Rightarrow> string \<Rightarrow> string \<Rightarrow> string" where
  "statefulset_yaml num_nodes extra_args namespace img =
     unlines (statefulset_head num_nodes namespace img (rbft_cmd extra_args)) @ unlines statefulset_tail"

text \<open>Pods that are not ready in time are only reported.\<close>

definition deploy_statefulset ::
  "'w shell \<Rightarrow> nat \<Rightarrow> string list option \<Rightarrow> string \<Rightarrow> string \<Rightarrow> 'w \<Rightarrow> (deploy_error + unit) \<times> 'w" where
  "deploy_statefulset X num_nodes extra_args namespace img w =
     (case kubectl_apply X (service_yaml namespace) ''Failed to create Service: '' w of
        (Inl e, w) \<Rightarrow> (Inl e, w)
      | (Inr _, w) \<Rightarrow>
          (case kubectl_apply X (statefulset_yaml num_nodes extra_args namespace img) ''Failed to deploy StatefulSet: '' w of
             (Inl e, w) \<Rightarrow> (Inl e, w)
           | (Inr _, w) \<Rightarrow>
               (case sh_run X [''kubectl'', ''wait'', ''--for=condition=ready'', ''pod'', ''-l'', ''app=rbft-node'', ''-n'', namespace, ''--timeout=180s''] [] w of
                  (None, w) \<Rightarrow> (Inl IoError, w)
                | (Some _, w) \<Rightarrow> (Inr (), w))))"

definition cleanup_commands :: "string \<Rightarrow> string list list" where
  "cleanup_commands namespace =
     [[''kubectl'', ''delete'', ''statefulset'', ''rbft-node'', ''-n'', namespace],
      [''kubectl'', ''delete'', ''service'', ''rbft-node'', ''-n'', namespace],
      [''kubectl'', ''delete'', ''configmap'', ''rbft-testnet-config'', ''-n'', namespace],
      [''kubectl'', ''delete'', ''pvc'', ''-l'', ''app=rbft-node'', ''-n'', namespace]]"

definition cleanup_testnet :: "'w shell \<Rightarrow> string \<Rightarrow> 'w \<Rightarrow> 'w" where
  "cleanup_testnet X namespace w = fold (\<lambda>words w. snd (sh_run X words [] w)) (cleanup_commands namespace) w"

section \<open>Waiting for pods\<close>

record pod_wait =
  pw_phase :: string
  pw_error :: string

text \<open>One look at a pod: \<^const>\<open>None\<close> if kubectl cannot be run, otherwise whether it is ready.\<close>

definition pod_check :: "'w shell \<Rightarrow> string \<Rightarrow> string \<Rightarrow> pod_wait \<Rightarrow> 'w \<Rightarrow> (bool \<times> pod_wait) option \<times> 'w" where
  "pod_check X pod namespace s w =
     (case sh_run X [''kubectl'', ''get'', ''pod'', pod, ''-n'', namespace, ''-o'', ''jsonpath={.status.phase}''] [] w of
        (None, w) \<Rightarrow> (None, w)
      | (Some out, w) \<Rightarrow>
          if \<not> co_success out then (Some (False, s\<lparr>pw_error := trim (co_stderr out)\<rparr>), w)
          else let s = s\<lparr>pw_phase := trim (co_stdout out)\<rparr> in
            if pw_phase s \<noteq> ''Running'' then (Some (False, s), w)
            else (case sh_run X [''kubectl'', ''get'', ''pod'', pod, ''-n'', namespace, ''-o'',
                      ''jsonpath={.status.conditions[?(@.type=='' @ double_quoted ''Ready'' @ '')].status}''] [] w of
                    (None, w) \<Rightarrow> (None, w)
                  | (Some ready, w) \<Rightarrow>
                      (Some (if co_success ready then (trim (co_stdout ready) = ''True'', s)
                             else (False, s\<lparr>pw_error := trim (co_stderr ready)\<rparr>)), w)))"

definition pod_timeout_message :: "string \<Rightarrow> pod_wait \<Rightarrow> string" where
  "pod_timeout_message pod s =
     ''Timed out waiting for pod '' @ pod @ '' to be ready ('' @
     (if pw_phase s \<noteq> [] then ''last phase: '' @ pw_phase s
      else if pw_error s \<noteq> [] then ''last error: '' @ pw_error s
      else ''no status returned'') @ '')''"

definition pod_wait_step ::
  "'w shell \<Rightarrow> string \<Rightarrow> string \<Rightarrow> nat \<Rightarrow> nat \<Rightarrow> pod_wait \<times> 'w \<Rightarrow> pod_wait \<times> 'w + (deploy_error + unit) \<times> 'w" where
  "pod_wait_step X pod namespace started timeout = (\<lambda>(s, w).
     case pod_check X pod namespace s w of
       (None, w) \<Rightarrow> Inr (Inl IoError, w)
     | (Some (True, s), w) \<Rightarrow> Inr (Inr (), w)
     | (Some (False, s), w) \<Rightarrow>
         if sh_now X w - started > timeout then Inr (Inl (Message (pod_timeout_message pod s)), w)
         else Inl (s, sh_sleep X 2000 w))"

definition wait_for_kube_pod_ready ::
  "'w shell \<Rightarrow> string \<Rightarrow> string \<Rightarrow> nat \<Rightarrow> 'w \<Rightarrow> ((deploy_error + unit) \<times> 'w) option" where
  "wait_for_kube_pod_ready X pod namespace timeout w =
     repeat_until (pod_wait_step X pod namespace (sh_now X w) timeout) (\<lparr>pw_phase = [], pw_error = []\<rparr>, w)"

section \<open>Forwarding ports\<close>

definition kube_port :: "16 word \<Rightarrow> nat \<Rightarrow> 16 word" where
  "kube_port base i = (let k = of_nat i in if k \<le> base then base - k else 0)"

definition MAX_PORT_RETRIES :: nat where "MAX_PORT_RETRIES = 20"

text \<open>Up to 20 attempts to connect, with a pause after each but the last.\<close>

fun port_ready :: "'w shell \<Rightarrow> 16 word \<Rightarrow> nat \<Rightarrow> 'w \<Rightarrow> bool \<times> 'w" where
  "port_ready X port 0 w = (False, w)"
| "port_ready X port (Suc retries) w =
     (case sh_connect X (''127.0.0.1:'' @ show_dec (unat port)) w of
        (True, w) \<Rightarrow> (True, w)
      | (False, w) \<Rightarrow> if retries = 0 then (False, w) else port_ready X port retries (sh_sleep X 500 w))"

fun ready_ports :: "'w shell \<Rightarrow> 16 word list \<Rightarrow> 'w \<Rightarrow> nat \<times> 'w" where
  "ready_ports X [] w = (0, w)"
| "ready_ports X (port # ports) w =
     (case port_ready X port MAX_PORT_RETRIES w of (ok, w) \<Rightarrow>
      case ready_ports X ports w of (n, w) \<Rightarrow> (if ok then n + 1 else n, w))"

definition kube_urls :: "16 word \<Rightarrow> nat \<Rightarrow> string list" where
  "kube_urls base num_nodes = map (\<lambda>i. ''http://localhost:'' @ show_dec (unat (kube_port base i))) [0..<num_nodes]"

fun pods_ready :: "'w shell \<Rightarrow> string \<Rightarrow> nat list \<Rightarrow> 'w \<Rightarrow> ((deploy_error + unit) \<times> 'w) option" where
  "pods_ready X namespace [] w = Some (Inr (), w)"
| "pods_ready X namespace (i # is) w =
     (case wait_for_kube_pod_ready X (''rbft-node-'' @ show_dec i) namespace 600000 w of
        None \<Rightarrow> None
      | Some (Inl e, w) \<Rightarrow> Some (Inl e, w)
      | Some (Inr _, w) \<Rightarrow> pods_ready X namespace is w)"

end
