(* ===== verification/Testnet_Run.thy ===== *)
theory Testnet_Run
  imports Kube Inspector_Rpc
begin

text \<open>
  The test network from its start to the monitoring loop (\<open>testnet\<close> of \<open>rbft-utils/src/testnet.rs\<close>):
  directories, assets, images, nodes or pods, and what the end of a run reports.  Panics and runs that
  never end are values.
\<close>

section \<open>What is shown of a node\<close>

text \<open>The resident memory in the status file of a process.\<close>

fun rss_line :: "string list \<Rightarrow> u64 option" where
  "rss_line [] = None"
| "rss_line (l # ls) =
     (if starts_with ''VmRSS:'' l
      then (let parts = split_whitespace l in if 2 \<le> length parts then parse_u64 (parts ! 1) else rss_line ls)
      else rss_line ls)"

definition get_rss_kb :: "(string \<Rightarrow> string option) \<Rightarrow> nat \<Rightarrow> u64 option" where
  "get_rss_kb read pid =
     (case read (''/proc/'' @ show_dec pid @ ''/status'') of None \<Rightarrow> None | Some s \<Rightarrow> rss_line (text_lines s))"

datatype pool_error = PoolCallFailed | PendingMissing | PendingUnreadable

definition get_txpool_status :: "json option \<Rightarrow> pool_error + u64" where
  "get_txpool_status response =
     (case response of
        None \<Rightarrow> Inl PoolCallFailed
      | Some v \<Rightarrow>
          (case str_field ''pending'' v of
             None \<Rightarrow> Inl PendingMissing
           | Some hex \<Rightarrow> (case hex_u64 hex of None \<Rightarrow> Inl PendingUnreadable | Some n \<Rightarrow> Inr n)))"

datatype colour = Green | Yellow | Red

definition txpool_colour :: "u64 \<Rightarrow> colour" where
  "txpool_colour n = (if 20000 \<le> n then Red else if 12500 \<le> n then Yellow else Green)"

definition format_txpool :: "u64 \<Rightarrow> colour \<times> string" where
  "format_txpool n = (txpool_colour n, show_u64 n)"

section \<open>Directories and assets\<close>

definition resolve_dir :: "string option \<Rightarrow> string \<Rightarrow> string option" where
  "resolve_dir cwd dir =
     (if starts_with ''/'' dir then Some dir else map_option (\<lambda>c. path_join c dir) cwd)"

definition ensure_validator_assets :: "string \<Rightarrow> nat \<Rightarrow> files \<Rightarrow> string option" where
  "ensure_validator_assets assets num_nodes fs =
     (if (\<forall>i \<in> set [0..<num_nodes]. fs (path_join assets (''validator-key'' @ show_dec i @ ''.txt'')) \<noteq> None
            \<and> fs (path_join assets (''p2p-secret-key'' @ show_dec i @ ''.txt'')) \<noteq> None)
         \<and> fs (path_join assets ''enodes.txt'') \<noteq> None \<and> fs (path_join assets ''genesis.json'') \<noteq> None
      then Some assets else None)"

text \<open>A directory of an earlier run is removed, by a container where the user may not.\<close>

definition remove_old_dir ::
  "'w shell \<Rightarrow> bool \<Rightarrow> string \<Rightarrow> string \<Rightarrow> files \<Rightarrow> 'w \<Rightarrow> (deploy_error + unit) \<times> files \<times> 'w" where
  "remove_old_dir X docker kind dir fs w =
     (if \<not> sh_dir_exists X dir w then (Inr (), fs, w)
      else if docker then cleanup_directory X dir fs w
      else case sh_remove X dir w of
          Removed \<Rightarrow> (Inr (), without_dir dir fs, w)
        | PermissionDenied \<Rightarrow> cleanup_directory X dir fs w
        | RemoveFailed e \<Rightarrow> (Inl (Message (''Failed to remove '' @ kind @ '' directory '' @ dir @ ''. Error: '' @ e)), fs, w))"

definition init_dirs ::
  "'w shell \<Rightarrow> bool \<Rightarrow> bool \<Rightarrow> string \<Rightarrow> string \<Rightarrow> files \<Rightarrow> 'w \<Rightarrow> (deploy_error + unit) \<times> files \<times> 'w" where
  "init_dirs X docker kube data_dir logs_dir fs w =
     (let w = (if docker then cleanup_containers X w else w);
          w = (if kube then cleanup_testnet X (default_kube_namespace (sh_env X ''RBFT_KUBE_NAMESPACE'')) w else w)
      in case remove_old_dir X docker ''data'' data_dir fs w of
          (Inl e, fs, w) \<Rightarrow> (Inl e, fs, w)
        | (Inr _, fs, w) \<Rightarrow> remove_old_dir X docker ''logs'' logs_dir fs w)"

section \<open>Starting\<close>

record testnet_args =
  ta_num_nodes :: "32 word"
  ta_base_http_port :: "16 word"
  ta_init :: bool
  ta_logs_dir :: "string option"
  ta_db_dir :: "string option"
  ta_extra_args :: "string list option"
  ta_assets_dir :: "string option"
  ta_docker :: bool
  ta_kube :: bool

text \<open>What has been started: the processes and the addresses of all nodes.\<close>

record testnet_nodes =
  tn_nodes :: "node_process list"
  tn_urls :: "string list"
  tn_assets :: string
  tn_trusted_peers :: string

datatype testnet_result = Launched testnet_nodes | LaunchFailed deploy_error | LaunchPanicked

fun start_nodes :: "start_args \<Rightarrow> nat list \<Rightarrow> files \<Rightarrow> (node_process list \<times> files) option" where
  "start_nodes a [] fs = Some ([], fs)"
| "start_nodes a (i # is) fs =
     (case start_new_validator (a\<lparr>sn_index := of_nat i\<rparr>) fs of
        None \<Rightarrow> None
      | Some (node, fs) \<Rightarrow> map_option (\<lambda>(nodes, fs). (node # nodes, fs)) (start_nodes a is fs))"

definition trusted_peers_text :: "string \<Rightarrow> files \<Rightarrow> string" where
  "trusted_peers_text assets fs = filter (\<lambda>c. c \<noteq> CHR 0x0A) (unwrap_or [] (fs (path_join assets ''enodes.txt'')))"

text \<open>The image, and in Kubernetes the configuration and the stateful set.\<close>

definition deploy ::
  "'w shell \<Rightarrow> testnet_args \<Rightarrow> string \<Rightarrow> string \<Rightarrow> files \<Rightarrow> 'w \<Rightarrow> (deploy_error + unit) \<times> files \<times> 'w" where
  "deploy X a assets namespace fs w =
     (case (if ta_docker a then build_image X ''rbft-node:testnet'' fs w else (Inr (), w)) of
        (Inl e, w) \<Rightarrow> (Inl e, fs, w)
      | (Inr _, w) \<Rightarrow>
          if \<not> ta_kube a then (Inr (), fs, w)
          else case prepare_kube_image X assets fs w of
              (Inl e, fs, w) \<Rightarrow> (Inl e, fs, w)
            | (Inr img, fs, w) \<Rightarrow>
                (case create_configmap X assets (unat (ta_num_nodes a)) namespace fs w of
                   (Inl e, w) \<Rightarrow> (Inl e, fs, w)
                 | (Inr _, w) \<Rightarrow>
                     (case deploy_statefulset X (unat (ta_num_nodes a)) (ta_extra_args a) namespace (pim_registry_image img) w of
                        (Inl e, w) \<Rightarrow> (Inl e, fs, w)
                      | (Inr _, w) \<Rightarrow> (Inr (), fs, w))))"

text \<open>Forwarding is started for every pod, whether or not it works, and then looked at.\<close>

fun start_forwards :: "'w shell \<Rightarrow> string \<Rightarrow> 16 word \<Rightarrow> nat list \<Rightarrow> 'w \<Rightarrow> 'w" where
  "start_forwards X namespace base [] w = w"
| "start_forwards X namespace base (i # is) w =
     start_forwards X namespace base is (sh_sleep X 500 (sh_spawn X [''kubectl'', ''port-forward'', ''pod/rbft-node-'' @ show_dec i,
         show_dec (unat (kube_port base i)) @ '':8545'', ''-n'', namespace] w))"

definition launch_nodes ::
  "'w shell \<Rightarrow> testnet_args \<Rightarrow> start_args \<Rightarrow> string \<Rightarrow> files \<Rightarrow> 'w \<Rightarrow> (testnet_result \<times> files \<times> 'w) option" where
  "launch_nodes X a base namespace fs w =
     (let n = unat (ta_num_nodes a);
          started = (\<lambda>nodes urls. Launched \<lparr>tn_nodes = nodes, tn_urls = urls, tn_assets = sn_assets base,
              tn_trusted_peers = sn_trusted_peers base\<rparr>)
      in if \<not> ta_kube a
         then (case start_nodes base [0..<n] fs of
                 None \<Rightarrow> Some (LaunchPanicked, fs, w)
               | Some (nodes, fs) \<Rightarrow> Some (started nodes (map np_url nodes), fs, w))
         else (case pods_ready X namespace [0..<n] w of
                 None \<Rightarrow> None
               | Some (Inl e, w) \<Rightarrow> Some (LaunchFailed e, fs, w)
               | Some (Inr _, w) \<Rightarrow>
                   let w = sh_sleep X 3000 (start_forwards X namespace (ta_base_http_port a) [0..<n] w);
                       w = snd (ready_ports X (map (kube_port (ta_base_http_port a)) [0..<n]) w)
                   in Some (started [] (kube_urls (ta_base_http_port a) n), fs, w)))"

text \<open>
  \<open>home\<close>, \<open>exe_dir\<close> and the assets of the crate stand for the environment.  \<open>ok_key\<close> tells whether the
  administrator's key can be parsed.
\<close>

definition testnet_launch ::
  "'w shell \<Rightarrow> string option \<Rightarrow> string \<Rightarrow> string \<Rightarrow> bool \<Rightarrow> testnet_args \<Rightarrow> files \<Rightarrow> 'w \<Rightarrow> (testnet_result \<times> files \<times> 'w) option" where
  "testnet_launch X home exe_dir crate_assets ok_key a fs w =
     (let resolved = (\<lambda>d. case d of None \<Rightarrow> Some None | Some p \<Rightarrow> map_option Some (resolve_dir (sh_cwd X) p)) in
      case (resolved (ta_db_dir a), resolved (ta_logs_dir a)) of
        (Some db, Some logs) \<Rightarrow>
          if (db = None \<or> logs = None) \<and> home = None then Some (LaunchPanicked, fs, w)
          else
            let (data_dir, logs_dir) = test_dirs (unwrap_or [] home) ''testnet'' db logs in
            (case (if ta_init a then init_dirs X (ta_docker a) (ta_kube a) data_dir logs_dir fs w else (Inr (), fs, w)) of
               (Inl e, fs, w) \<Rightarrow> Some (LaunchFailed e, fs, w)
             | (Inr _, fs, w) \<Rightarrow>
                 (case (case ta_assets_dir a of Some d \<Rightarrow> Some d
                        | None \<Rightarrow> ensure_validator_assets crate_assets (unat (ta_num_nodes a)) fs) of
                    None \<Rightarrow> Some (LaunchPanicked, fs, w)
                  | Some assets \<Rightarrow>
                      let namespace = default_kube_namespace (sh_env X ''RBFT_KUBE_NAMESPACE'');
                          base = \<lparr>sn_index = 0, sn_num_nodes = ta_num_nodes a, sn_base_http_port = ta_base_http_port a,
                            sn_assets = assets, sn_trusted_peers = trusted_peers_text assets fs,
                            sn_exe = path_join exe_dir ''rbft-node'', sn_data_dir = data_dir, sn_logs_dir = logs_dir,
                            sn_extra_args = ta_extra_args a, sn_docker = ta_docker a, sn_follower = False\<rparr>
                      in (case deploy X a assets namespace fs w of
                            (Inl e, fs, w) \<Rightarrow> Some (LaunchFailed e, fs, w)
                          | (Inr _, fs, w) \<Rightarrow>
                              (case launch_nodes X a base namespace fs w of
                                 Some (Launched nodes, fs, w) \<Rightarrow>
                                   Some (if ok_key then Launched nodes else LaunchPanicked, fs, w)
                               | other \<Rightarrow> other))))
      | _ \<Rightarrow> Some (LaunchPanicked, fs, w))"

section \<open>The end of a run\<close>

datatype megatx_summary = NoMegatx | MegatxResult json | MegatxUnparsable | MegatxEmpty | MegatxMissing

definition megatx_summary_of :: "(string \<Rightarrow> json option) \<Rightarrow> bool \<Rightarrow> string \<Rightarrow> files \<Rightarrow> megatx_summary" where
  "megatx_summary_of parse run_megatx logs_dir fs =
     (if \<not> run_megatx then NoMegatx
      else case fs (path_join logs_dir ''megatx.json'') of
          None \<Rightarrow> MegatxMissing
        | Some s \<Rightarrow>
            if trim s = [] then MegatxEmpty
            else (case parse s of Some v \<Rightarrow> MegatxResult v | None \<Rightarrow> MegatxUnparsable))"

definition exit_code :: "megatx_summary \<Rightarrow> nat" where
  "exit_code s = (case s of NoMegatx \<Rightarrow> 0 | MegatxResult _ \<Rightarrow> 0 | _ \<Rightarrow> 1)"

record final_status =
  fin_max_height :: "u64 option"
  fin_all_node_heights :: "u64 option list"
  fin_running_time_seconds :: u64
  fin_megatx :: megatx_summary

definition final_status_of :: "u64 option list \<Rightarrow> u64 \<Rightarrow> megatx_summary \<Rightarrow> final_status" where
  "final_status_of heights seconds summary =
     \<lparr>fin_max_height = (case filter_map (\<lambda>h. h) heights of [] \<Rightarrow> None | hs \<Rightarrow> Some (Max (set hs))),
      fin_all_node_heights = heights, fin_running_time_seconds = seconds, fin_megatx = summary\<rparr>"

text \<open>Containers and cluster are cleaned up whatever the load generator reported.\<close>

definition finish_run :: "'w shell \<Rightarrow> bool \<Rightarrow> bool \<Rightarrow> string \<Rightarrow> megatx_summary \<Rightarrow> 'w \<Rightarrow> nat \<times> 'w" where
  "finish_run X docker kube namespace summary w =
     (let w = (if docker then cleanup_containers X w else w);
          w = (if kube then cleanup_testnet X namespace w else w)
      in (exit_code summary, w))"

end
