(* ===== verification/Utils_Main.thy ===== *)
theory Utils_Main
  imports Testnet_Run
begin

text \<open>
  The commands of the operator tool (\<open>rbft-utils/src/main.rs\<close>) with their guards and defaults, on top
  of the operations they call.  Command-line parsing is not modelled: a command has its values.
\<close>

section \<open>Keys\<close>

text \<open>What \<open>validator keygen\<close> prints; keys are drawn, the socket address is parsed by the library.\<close>

record keygen_output =
  kg_validator_address :: string
  kg_validator_private_key :: string
  kg_p2p_secret_key :: string
  kg_enode :: string

definition keygen_validator ::
  "genesis_lib \<Rightarrow> (string \<Rightarrow> socket_addr option) \<Rightarrow> drawn_keys \<Rightarrow> string \<Rightarrow> 16 word \<Rightarrow> keygen_output option" where
  "keygen_validator G parse_socket keys ip port =
     (case parse_socket (ip @ '':'' @ show_dec (unat port)) of
        None \<Rightarrow> None
      | Some socket \<Rightarrow>
          Some \<lparr>kg_validator_address = gl_show_address G (dk_address keys),
                kg_validator_private_key = ''0x'' @ dk_key_hex keys,
                kg_p2p_secret_key = dk_p2p_hex keys,
                kg_enode = gl_record_string G socket (dk_p2p_hex keys)\<rparr>)"

section \<open>Contract artifacts\<close>

text \<open>
  The search for a compiled contract: a stack of directories, the last one first.  A directory that
  cannot be read ends the search; \<open>list\<close> gives the entries of a directory and which of them are one.
\<close>

fun scan_entries :: "string \<Rightarrow> string \<Rightarrow> (string \<times> bool) list \<Rightarrow> string list \<Rightarrow> string list + string" where
  "scan_entries filename dir [] stack = Inl stack"
| "scan_entries filename dir ((name, is_directory) # es) stack =
     (if is_directory then scan_entries filename dir es (path_join dir name # stack)
      else if name = filename then Inr (path_join dir name)
      else scan_entries filename dir es stack)"

definition artifact_step ::
  "(string \<Rightarrow> (string \<times> bool) list option) \<Rightarrow> string \<Rightarrow> string list \<Rightarrow> string list + string option" where
  "artifact_step list filename stack =
     (case stack of
        [] \<Rightarrow> Inr None
      | dir # stack \<Rightarrow>
          (case list dir of
             None \<Rightarrow> Inr None
           | Some es \<Rightarrow> (case scan_entries filename dir es stack of Inl stack \<Rightarrow> Inl stack | Inr p \<Rightarrow> Inr (Some p))))"

definition find_contract_artifact ::
  "(string \<Rightarrow> (string \<times> bool) list option) \<Rightarrow> string \<Rightarrow> string \<Rightarrow> string option option" where
  "find_contract_artifact list artifacts_dir contract_name =
     repeat_until (artifact_step list (contract_name @ ''.json'')) [artifacts_dir]"

datatype artifact_error = ArtifactMissing | ArtifactUnreadable | ArtifactNotJson | NoDeployedBytecode | BadBytecodeHex

definition read_contract_bytecode ::
  "(string \<Rightarrow> (string \<times> bool) list option) \<Rightarrow> (string \<Rightarrow> json option) \<Rightarrow> (string \<Rightarrow> bytes option) \<Rightarrow> files \<Rightarrow>
   string \<Rightarrow> string \<Rightarrow> (artifact_error + bytes) option" where
  "read_contract_bytecode list parse decode fs artifacts_dir contract_name =
     (let default_path = path_join (path_join artifacts_dir (contract_name @ ''.sol'')) (contract_name @ ''.json'') in
      case (if fs default_path \<noteq> None then Some (Some default_path) else find_contract_artifact list artifacts_dir contract_name) of
        None \<Rightarrow> None
      | Some None \<Rightarrow> Some (Inl ArtifactMissing)
      | Some (Some path) \<Rightarrow> Some
          (case fs path of
             None \<Rightarrow> Inl ArtifactUnreadable
           | Some content \<Rightarrow>
               (case parse content of
                  None \<Rightarrow> Inl ArtifactNotJson
                | Some v \<Rightarrow>
                    (case Option.bind (get_field ''deployedBytecode'' v) (str_field ''object'') of
                       None \<Rightarrow> Inl NoDeployedBytecode
                     | Some hex \<Rightarrow>
                         (case decode (unwrap_or hex (strip_prefix ''0x'' hex)) of
                            None \<Rightarrow> Inl BadBytecodeHex
                          | Some b \<Rightarrow> Inr b)))))"

section \<open>Commands\<close>

datatype validator_command =
    AddV string address string string
  | RemoveV string address string
  | StatusV string
  | SetMaxActiveValidators string u64 string
  | SetBaseFee string u64 string
  | SetBlockIntervalMs string u64 string
  | SetEpochLength string u64 string
  | Keygen string "16 word"

text \<open>
  The arguments of \<open>genesis\<close> always give an address, a block interval, an epoch length, a base fee and
  a key.  The interval is given in seconds; here it is the number of milliseconds that
  \<open>create_rbft_genesis\<close> makes of it.  The flag for Docker has no effect there and is left out.
\<close>

record genesis_command =
  gc_assets_dir :: "string option"
  gc_nodes_csv :: "string option"
  gc_initial_nodes :: "nat option"
  gc_validator_contract_address :: address
  gc_gas_limit :: "u64 option"
  gc_block_interval_ms :: u64
  gc_epoch_length :: u64
  gc_base_fee :: u64
  gc_max_active_validators :: "u64 option"
  gc_admin_key :: string
  gc_kube :: bool
  gc_use_trusted_peers :: bool

definition genesis_args_of :: "genesis_command \<Rightarrow> genesis_args" where
  "genesis_args_of c = \<lparr>ga_assets_dir = gc_assets_dir c, ga_nodes_csv = gc_nodes_csv c, ga_initial_nodes = gc_initial_nodes c,
     ga_validator_contract_address = Some (gc_validator_contract_address c), ga_gas_limit = gc_gas_limit c,
     ga_block_interval_ms = Some (gc_block_interval_ms c), ga_epoch_length = Some (gc_epoch_length c),
     ga_base_fee = Some (gc_base_fee c), ga_max_active_validators = gc_max_active_validators c,
     ga_admin_key = Some (gc_admin_key c), ga_kube = gc_kube c, ga_use_trusted_peers = gc_use_trusted_peers c\<rparr>"

record logjam_command =
  lc_max_message_delay :: u64
  lc_bucket_size :: "u64 option"

definition logjam_bucket_size :: "logjam_command \<Rightarrow> u64" where
  "logjam_bucket_size c = (case lc_bucket_size c of Some b \<Rightarrow> b | None \<Rightarrow> lc_max_message_delay c div 10)"

datatype main_error =
    EpochLengthZero
  | TooFewValidators "32 word"
  | DockerAndKube
  | CallFailed call_error
  | TestnetFailed deploy_error
  | BadSocket

datatype 'a main_result = MainOk 'a | MainError main_error | MainPanic

definition run_genesis ::
  "libs \<Rightarrow> genesis_lib \<Rightarrow> net_lib \<Rightarrow> string option \<Rightarrow> string option \<Rightarrow> genesis_command \<Rightarrow> files \<Rightarrow> genesis main_result \<times> files" where
  "run_genesis L G N home env c fs =
     (if gc_epoch_length c = 0 then (MainError EpochLengthZero, fs)
      else case create_rbft_genesis L G N home env (genesis_args_of c) fs of
          (Inl _, fs) \<Rightarrow> (MainPanic, fs)
        | (Inr g, fs) \<Rightarrow> (MainOk g, fs))"

text \<open>\<open>extra_args\<close> is a list that may be empty here.\<close>

definition run_testnet ::
  "'w shell \<Rightarrow> string option \<Rightarrow> string \<Rightarrow> string \<Rightarrow> bool \<Rightarrow> testnet_args \<Rightarrow> string list \<Rightarrow> files \<Rightarrow> 'w \<Rightarrow>
   (testnet_nodes main_result \<times> files \<times> 'w) option" where
  "run_testnet X home exe_dir crate_assets ok_key a extra fs w =
     (if ta_num_nodes a < 4 then Some (MainError (TooFewValidators (ta_num_nodes a)), fs, w)
      else if ta_docker a \<and> ta_kube a then Some (MainError DockerAndKube, fs, w)
      else case testnet_launch X home exe_dir crate_assets ok_key
             (a\<lparr>ta_extra_args := (if extra = [] then None else Some extra)\<rparr>) fs w of
          None \<Rightarrow> None
        | Some (Launched nodes, fs, w) \<Rightarrow> Some (MainOk nodes, fs, w)
        | Some (LaunchFailed e, fs, w) \<Rightarrow> Some (MainError (TestnetFailed e), fs, w)
        | Some (LaunchPanicked, fs, w) \<Rightarrow> Some (MainPanic, fs, w))"

definition of_call :: "(call_error + 'a) \<times> 'n \<Rightarrow> unit main_result \<times> 'n" where
  "of_call r = (case r of (Inl e, chain) \<Rightarrow> (MainError (CallFailed e), chain) | (Inr _, chain) \<Rightarrow> (MainOk (), chain))"

fun run_validator_command ::
  "('k, 'n) chain_client \<Rightarrow> genesis_lib \<Rightarrow> (string \<Rightarrow> socket_addr option) \<Rightarrow> drawn_keys \<Rightarrow> validator_command \<Rightarrow> 'n \<Rightarrow>
   unit main_result \<times> 'n" where
  "run_validator_command C G parse_socket keys (AddV key a enode url) chain = of_call (add_validator C key a enode url chain)"
| "run_validator_command C G parse_socket keys (RemoveV key a url) chain = of_call (remove_validator C key a url chain)"
| "run_validator_command C G parse_socket keys (StatusV url) chain = of_call (get_validator_status C url chain, chain)"
| "run_validator_command C G parse_socket keys (SetMaxActiveValidators key v url) chain = of_call (set_max_active_validators C key v url chain)"
| "run_validator_command C G parse_socket keys (SetBaseFee key v url) chain = of_call (set_base_fee C key v url chain)"
| "run_validator_command C G parse_socket keys (SetBlockIntervalMs key v url) chain = of_call (set_block_interval_ms C key v url chain)"
| "run_validator_command C G parse_socket keys (SetEpochLength key v url) chain = of_call (set_epoch_length C key v url chain)"
| "run_validator_command C G parse_socket keys (Keygen ip port) chain =
     (case keygen_validator G parse_socket keys ip port of None \<Rightarrow> (MainError BadSocket, chain) | Some _ \<Rightarrow> (MainOk (), chain))"

end
