(* ===== verification/Deploy_Properties.thy ===== *)
theory Deploy_Properties
  imports Utils_Main Genesis_Properties Testnet_Properties
begin

text \<open>
  Deployments of the test network: quoting of the command of a pod, availability of the image, waiting
  for pods, the addresses of started nodes, and the search for compiled contracts.
\<close>

section \<open>Quoting\<close>

text \<open>
  A reference for the words of a shell command made of plain characters, blanks and quotes.  Characters
  with another meaning to the shell, where they are not quoted, are not covered: \<^const>\<open>None\<close>.
\<close>

datatype quote_mode = Plain | InSingle | InDouble

definition special :: "char \<Rightarrow> bool" where
  "special c \<longleftrightarrow> c \<in> set ''$;|&<>()*?[]~#'' \<union> {CHR 0x5C, CHR 0x60, CHR 0x0A, CHR 0x09}"

fun shell_words :: "quote_mode \<Rightarrow> string option \<Rightarrow> string \<Rightarrow> string list option" where
  "shell_words Plain None [] = Some []"
| "shell_words Plain (Some w) [] = Some [w]"
| "shell_words m w [] = None"
| "shell_words Plain w (c # s) =
     (if c = CHR '' '' then (case w of None \<Rightarrow> shell_words Plain None s | Some w \<Rightarrow> map_option ((#) w) (shell_words Plain None s))
      else if c = CHR 0x27 then shell_words InSingle (Some (unwrap_or [] w)) s
      else if c = CHR 0x22 then shell_words InDouble (Some (unwrap_or [] w)) s
      else if special c then None
      else shell_words Plain (Some (unwrap_or [] w @ [c])) s)"
| "shell_words InSingle w (c # s) =
     (if c = CHR 0x27 then shell_words Plain w s else shell_words InSingle (Some (unwrap_or [] w @ [c])) s)"
| "shell_words InDouble w (c # s) =
     (if c = CHR 0x22 then shell_words Plain w s
      else if c \<in> {CHR ''$'', CHR 0x5C, CHR 0x60} then None
      else shell_words InDouble (Some (unwrap_or [] w @ [c])) s)"

lemma unwrap_or_Some [simp]: "unwrap_or d (Some x) = x" "unwrap_or d None = d"
  by (simp_all add: unwrap_or_def)

lemma quoted_body:
  "shell_words InSingle (Some u)
     (concat (map (\<lambda>c. if c = CHR 0x27 then [CHR 0x27, CHR 0x22, CHR 0x27, CHR 0x22, CHR 0x27] else [c]) s) @ CHR 0x27 # rest)
   = shell_words Plain (Some (u @ s)) rest"
  by (induction s arbitrary: u) auto

lemma shell_words_quote: "shell_words Plain None (shell_quote s @ rest) = shell_words Plain (Some s) rest"
  using quoted_body [of "[]" s rest] by (simp add: shell_quote_def)

lemma shell_words_quoted:
  "shell_words Plain (Some u) (concat (map (\<lambda>w. CHR '' '' # shell_quote w) ws)) = Some (u # ws)"
  by (induction ws arbitrary: u) (simp_all add: shell_words_quote)

lemma plain_prefix:
  "list_all (\<lambda>c. c \<noteq> CHR '' '' \<and> c \<noteq> CHR 0x27 \<and> c \<noteq> CHR 0x22 \<and> \<not> special c) p \<Longrightarrow>
     shell_words Plain (Some u) (p @ s) = shell_words Plain (Some (u @ p)) s"
  by (induction p arbitrary: u) auto


section \<open>The image\<close>

text \<open>
  \<open>pushed\<close> says of an image that it is in its registry: a successful push puts it there and nothing
  the tool runs takes it away; a digest is not changed by trimming.
\<close>

definition registry_laws :: "'w shell \<Rightarrow> (string \<Rightarrow> 'w \<Rightarrow> bool) \<Rightarrow> bool" where
  "registry_laws X pushed \<longleftrightarrow>
     (\<forall>img w out w'. sh_run X [''docker'', ''push'', img] [] w = (Some out, w') \<and> co_success out \<longrightarrow> pushed img w')
     \<and> (\<forall>img words stdin w. pushed img w \<longrightarrow> pushed img (snd (sh_run X words stdin w)))
     \<and> (\<forall>s. trim (sh_sha256 X s) = sh_sha256 X s)"

definition image_inv :: "'w shell \<Rightarrow> (string \<Rightarrow> 'w \<Rightarrow> bool) \<Rightarrow> string \<Rightarrow> files \<Rightarrow> 'w \<Rightarrow> bool" where
  "image_inv X pushed assets fs w \<longleftrightarrow>
     (\<forall>d. map_option trim (fs (digest_file assets)) = Some d \<longrightarrow> pushed (registry_image_of X d) w)"

definition keeps :: "(string \<Rightarrow> 'w \<Rightarrow> bool) \<Rightarrow> 'w \<Rightarrow> 'w \<Rightarrow> bool" where
  "keeps pushed w w' \<longleftrightarrow> (\<forall>img. pushed img w \<longrightarrow> pushed img w')"

lemma keeps_refl [simp]: "keeps pushed w w"
  by (simp add: keeps_def)

lemma keeps_trans: "keeps pushed w w' \<Longrightarrow> keeps pushed w' w'' \<Longrightarrow> keeps pushed w w''"
  by (simp add: keeps_def)

lemma run_keeps: "registry_laws X pushed \<Longrightarrow> sh_run X words stdin w = (r, w') \<Longrightarrow> keeps pushed w w'"
  unfolding registry_laws_def keeps_def by (metis snd_conv)

lemma run_checked_keeps:
  "registry_laws X pushed \<Longrightarrow> run_checked X words stdin failure w = (r, w') \<Longrightarrow> keeps pushed w w'"
  using run_keeps [of X pushed words stdin w]
  by (auto simp: run_checked_def split: prod.splits option.splits)

lemma git_root_keeps: "registry_laws X pushed \<Longrightarrow> git_root X w = (r, w') \<Longrightarrow> keeps pushed w w'"
  using run_keeps by (auto simp: git_root_def split: prod.splits option.splits)

lemma git_list_files_keeps:
  "registry_laws X pushed \<Longrightarrow> git_list_files X repo words w = (r, w') \<Longrightarrow> keeps pushed w w'"
  using run_checked_keeps by (auto simp: git_list_files_def split: prod.splits sum.splits)

lemma build_image_keeps:
  assumes "registry_laws X pushed" and "build_image X img fs w = (r, w')"
  shows "keeps pushed w w'"
proof -
  obtain found w1 where root: "git_root X w = (found, w1)" by force
  have "keeps pushed w1 w'"
    using assms root run_checked_keeps [OF assms(1)]
    by (auto simp: build_image_def Let_def split: option.splits if_splits prod.splits sum.splits)
  with git_root_keeps [OF assms(1) root] show ?thesis by (rule keeps_trans)
qed

lemma push_keeps:
  assumes "registry_laws X pushed" and "push_image_to_registry X local_image img w = (r, w')"
  shows "keeps pushed w w'"
proof -
  obtain r1 w1 where tag: "run_checked X [''docker'', ''tag'', local_image, img] [] ''Failed to tag image: '' w = (r1, w1)"
    by force
  have "keeps pushed w1 w'"
    using assms(2) tag run_checked_keeps [OF assms(1)]
    by (auto simp: push_image_to_registry_def split: prod.splits sum.splits)
  with run_checked_keeps [OF assms(1) tag] show ?thesis by (rule keeps_trans)
qed

lemma push_makes_available:
  assumes "registry_laws X pushed" and "push_image_to_registry X local_image img w = (Inr u, w')"
  shows "pushed img w'"
proof -
  obtain w1 out where "run_checked X [''docker'', ''push'', img] [] ''Failed to push image: '' w1 = (Inr out, w')"
    using assms(2) by (auto simp: push_image_to_registry_def split: prod.splits sum.splits)
  then obtain o' where "sh_run X [''docker'', ''push'', img] [] w1 = (Some o', w')" "co_success o'"
    by (auto simp: run_checked_def split: prod.splits option.splits if_splits)
  with assms(1) show ?thesis unfolding registry_laws_def by blast
qed

text \<open>The digest does not touch the registry and survives trimming.\<close>

lemma compute_source_digest_keeps:
  assumes "registry_laws X pushed" and "compute_source_digest X w = (r, w')"
  shows "keeps pushed w w'"
proof -
  obtain found w1 where root: "git_root X w = (found, w1)" by force
  have "keeps pushed w1 w'"
  proof (cases found)
    case None
    with assms(2) root show ?thesis by (auto simp: compute_source_digest_def split: option.splits)
  next
    case (Some repo)
    obtain r2 w2 where tracked: "git_list_files X repo [''ls-files'', ''-z''] w1 = (r2, w2)" by force
    have "keeps pushed w2 w'"
      using assms(2) root Some tracked git_list_files_keeps [OF assms(1)]
      by (auto simp: compute_source_digest_def split: prod.splits sum.splits)
    with git_list_files_keeps [OF assms(1) tracked] show ?thesis by (rule keeps_trans)
  qed
  with git_root_keeps [OF assms(1) root] show ?thesis by (rule keeps_trans)
qed

lemma compute_source_digest_hash:
  "compute_source_digest X w = (Inr d, w') \<Longrightarrow> \<exists>s. d = sh_sha256 X s"
  by (auto simp: compute_source_digest_def hash_files_def split: prod.splits sum.splits option.splits)

lemma image_inv_keeps: "image_inv X pushed assets fs w \<Longrightarrow> keeps pushed w w' \<Longrightarrow> image_inv X pushed assets fs w'"
  by (auto simp: image_inv_def keeps_def)

text \<open>
  C39: An image that is reported is in the registry.  If a digest kept from an earlier run belongs to an
  image that was pushed, then after every run, failed ones included, that is still so, and if the run
  succeeds the image it names can be pulled, whether it was built now or is used again.
\<close>
theorem prepared_image_available:
  assumes laws: "registry_laws X pushed" and inv: "image_inv X pushed assets fs w"
    and run: "prepare_kube_image X assets fs w = (r, fs', w')"
  shows "image_inv X pushed assets fs' w' \<and> (\<forall>img. r = Inr img \<longrightarrow> pushed (pim_registry_image img) w')"
proof -
  obtain r1 w1 where dig: "compute_source_digest X w = (r1, w1)" by force
  note inv1 = image_inv_keeps [OF inv compute_source_digest_keeps [OF laws dig]]
  show ?thesis
  proof (cases r1)
    case (Inl e)
    with run dig inv1 show ?thesis by (auto simp: prepare_kube_image_def)
  next
    case (Inr d)
    let ?image = "''rbft-node:'' @ image_tag d"
    obtain s where "d = sh_sha256 X s" using compute_source_digest_hash [of X w d w1] dig Inr by auto
    then have trimmed: "trim d = d" using laws by (simp add: registry_laws_def)
    show ?thesis
    proof (cases "force_rebuild X \<or> map_option trim (fs (digest_file assets)) \<noteq> Some d")
      case False
      with run dig Inr inv1 show ?thesis by (auto simp: prepare_kube_image_def Let_def image_inv_def)
    next
      case True
      obtain r2 w2 where build: "build_image X ?image fs w1 = (r2, w2)" by force
      note inv2 = image_inv_keeps [OF inv1 build_image_keeps [OF laws build]]
      obtain r3 w3 where push: "push_image_to_registry X ?image (registry_image_of X d) w2 = (r3, w3)" by force
      note inv3 = image_inv_keeps [OF inv2 push_keeps [OF laws push]]
      have "pushed (registry_image_of X d) w3" if "r3 = Inr u" for u
        using push_makes_available [OF laws] push that by blast
      with run dig Inr True build push inv2 inv3 trimmed show ?thesis
        by (cases r2; cases r3) (auto simp: prepare_kube_image_def Let_def image_inv_def)
    qed
  qed
qed

text \<open>A computer with a registry, outside of a repository.\<close>

definition example_shell :: "string list shell" where
  "example_shell = \<lparr>
     sh_run = (\<lambda>words stdin w.
       case words of
         [a, b, img] \<Rightarrow>
           if a = ''git'' then (Some \<lparr>co_success = False, co_stdout = [], co_stderr = ''not a repository''\<rparr>, w)
           else (Some \<lparr>co_success = True, co_stdout = [], co_stderr = []\<rparr>, if a = ''docker'' \<and> b = ''push'' then img # w else w)
       | _ \<Rightarrow> (Some \<lparr>co_success = True, co_stdout = [], co_stderr = []\<rparr>, w)),
     sh_spawn = (\<lambda>_ w. w), sh_remove = (\<lambda>_ _. Removed), sh_dir_exists = (\<lambda>_ _. False), sh_env = (\<lambda>_. None), sh_cwd = Some ''/r'',
     sh_sha256 = (\<lambda>s. replicate (length s) CHR ''a''), sh_file = (\<lambda>_ _. NotFound),
     sh_tree = (\<lambda>_. TDir [(''f'', TFile (Some ''x''))]), sh_now = (\<lambda>_. 0), sh_sleep = (\<lambda>_ w. w), sh_connect = (\<lambda>_ w. (True, w))\<rparr>"

definition example_files :: files where
  "example_files = [''/r/Dockerfile'' \<mapsto> ''FROM scratch'']"

definition in_registry :: "string \<Rightarrow> string list \<Rightarrow> bool" where
  "in_registry img w \<longleftrightarrow> img \<in> set w"

lemma example_shell_laws: "registry_laws example_shell in_registry"
proof -
  have "trim (replicate n CHR ''a'') = replicate n CHR ''a''" for n
    by (rule trim_id) (cases n; simp add: is_whitespace_def last_replicate)
  moreover have "in_registry img (snd (sh_run example_shell words stdin w))" if "in_registry img w" for img words stdin w
    using that by (auto simp: example_shell_def in_registry_def split: list.splits)
  moreover have "in_registry img (snd (sh_run example_shell [''docker'', ''push'', img] [] w))" for img w
    by (simp add: example_shell_def in_registry_def)
  ultimately show ?thesis by (auto simp: registry_laws_def example_shell_def)
qed

lemma example_prepared:
  "prepare_kube_image example_shell ''/a'' example_files [] =
     (Inr \<lparr>pim_registry_image = ''ghcr.io/raylsnetwork/rbft-node:testnet-aaaa'', pim_tag = ''testnet-aaaa'', pim_digest = ''aaaa''\<rparr>,
      example_files(''/a/.last_docker_image_digest'' \<mapsto> ''aaaa''), [''ghcr.io/raylsnetwork/rbft-node:testnet-aaaa''])"
  by (simp add: prepare_kube_image_def compute_source_digest_def git_root_def build_image_def push_image_to_registry_def
      run_checked_def example_shell_def example_files_def digest_file_def registry_image_of_def registry_def image_tag_def
      force_rebuild_def is_dir_def path_join_def unwrap_or_def starts_with_def)

theorem prepared_image_available_witness:
  "in_registry ''ghcr.io/raylsnetwork/rbft-node:testnet-aaaa'' [''ghcr.io/raylsnetwork/rbft-node:testnet-aaaa'']
   \<and> image_inv example_shell in_registry ''/a'' (example_files(''/a/.last_docker_image_digest'' \<mapsto> ''aaaa''))
       [''ghcr.io/raylsnetwork/rbft-node:testnet-aaaa'']"
  using prepared_image_available [OF example_shell_laws _ example_prepared]
  by (simp add: image_inv_def digest_file_def example_files_def path_join_def)

text \<open>
  A digest is kept without the registry it was pushed to: after a change of registry, the image that is
  reported was never pushed there.
\<close>

lemma other_registry_lacks_image:
  "\<exists>w'. prepare_kube_image (example_shell\<lparr>sh_env := [''RBFT_REGISTRY'' \<mapsto> ''other'']\<rparr>) ''/a''
       (example_files(''/a/.last_docker_image_digest'' \<mapsto> ''aaaa'')) [''ghcr.io/raylsnetwork/rbft-node:testnet-aaaa''] =
     (Inr \<lparr>pim_registry_image = ''other/rbft-node:testnet-aaaa'', pim_tag = ''testnet-aaaa'', pim_digest = ''aaaa''\<rparr>,
      example_files(''/a/.last_docker_image_digest'' \<mapsto> ''aaaa''), w') \<and> \<not> in_registry ''other/rbft-node:testnet-aaaa'' w'"
  by (simp add: prepare_kube_image_def compute_source_digest_def git_root_def example_shell_def in_registry_def
      digest_file_def registry_image_of_def registry_def image_tag_def force_rebuild_def is_dir_def path_join_def
      trim_def trim_start_def trim_end_def is_whitespace_def)

section \<open>Waiting for a pod\<close>

text \<open>
  Time passes while a pod is waited for: a program does not turn the clock back and a pause moves it on.
\<close>

definition time_passes :: "'w shell \<Rightarrow> bool" where
  "time_passes X \<longleftrightarrow>
     (\<forall>words stdin w. sh_now X w \<le> sh_now X (snd (sh_run X words stdin w)))
     \<and> (\<forall>ms w. sh_now X w + ms \<le> sh_now X (sh_sleep X ms w))"

lemma pod_check_time:
  assumes "time_passes X" and "pod_check X pod namespace s w = (r, w')"
  shows "sh_now X w \<le> sh_now X w'"
proof -
  have ran: "sh_now X w \<le> sh_now X w'" if "sh_run X words stdin w = (r, w')" for words stdin w w' r
    using assms(1) that unfolding time_passes_def by (metis snd_conv)
  obtain r1 w1 where first: "sh_run X [''kubectl'', ''get'', ''pod'', pod, ''-n'', namespace, ''-o'', ''jsonpath={.status.phase}''] [] w = (r1, w1)"
    by force
  have "sh_now X w1 \<le> sh_now X w'"
    using assms(2) first ran [of _ _ w1]
    by (auto simp: pod_check_def Let_def split: option.splits if_splits prod.splits)
  with ran [OF first] show ?thesis by simp
qed

text \<open>A pod that is never ready does not hold up the start for ever.\<close>

lemma wait_for_pod_ends:
  assumes "time_passes X"
  shows "\<exists>r. wait_for_kube_pod_ready X pod namespace timeout w = Some r"
  unfolding wait_for_kube_pod_ready_def
proof (rule repeat_until_returns [where I = "\<lambda>_. True" and m = "\<lambda>(s, v). timeout + sh_now X w + 2 - sh_now X v"])
  fix st st'
  assume step: "pod_wait_step X pod namespace (sh_now X w) timeout st = Inl st'"
  obtain s v where st: "st = (s, v)" by force
  obtain r v1 where check: "pod_check X pod namespace s v = (r, v1)" by force
  from step st check have "sh_now X v1 - sh_now X w \<le> timeout" and st': "snd st' = sh_sleep X 2000 v1"
    by (auto simp: pod_wait_step_def split: option.splits bool.splits if_splits prod.splits)
  moreover have "sh_now X v1 + 2000 \<le> sh_now X (snd st')" using assms st' by (simp add: time_passes_def)
  ultimately show "True \<and> (case st' of (s, v) \<Rightarrow> timeout + sh_now X w + 2 - sh_now X v) < (case st of (s, v) \<Rightarrow> timeout + sh_now X w + 2 - sh_now X v)"
    using pod_check_time [OF assms check] st by (auto split: prod.splits)
qed simp

section \<open>Addresses\<close>

lemma start_nodes_urls:
  "start_nodes a is fs = Some (nodes, fs') \<Longrightarrow> \<forall>i \<in> set is. i < 2 ^ 16 \<Longrightarrow>
     map np_url nodes = map (\<lambda>i. ''http://localhost:'' @ show_dec (unat (sn_base_http_port a) + i)) is"
proof (induction "is" arbitrary: fs nodes)
  case (Cons i "is")
  then obtain nd fs1 where new: "start_new_validator (a\<lparr>sn_index := of_nat i\<rparr>) fs = Some (nd, fs1)"
    by (auto split: option.splits)
  with Cons.prems obtain rest where rest: "start_nodes a is fs1 = Some (rest, fs')" "nodes = nd # rest" by auto
  from new obtain http where "node_http_port (sn_base_http_port a) (of_nat i) = Some http"
    "np_url nd = ''http://localhost:'' @ show_dec (unat http)"
    by (auto simp: start_new_validator_def Let_def split: option.splits)
  with Cons.prems(2) http_port_value rest Cons.IH [OF rest(1)] show ?case by simp
qed simp

definition expected_urls :: "testnet_args \<Rightarrow> string list" where
  "expected_urls a =
     (if ta_kube a then kube_urls (ta_base_http_port a) (unat (ta_num_nodes a))
      else map (\<lambda>i. ''http://localhost:'' @ show_dec (unat (ta_base_http_port a) + i)) [0..<unat (ta_num_nodes a)])"

lemma launch_nodes_urls:
  assumes "launch_nodes X a base namespace fs w = Some (Launched nodes, fs', w')"
    and "sn_base_http_port base = ta_base_http_port a" and "unat (ta_num_nodes a) \<le> 2 ^ 16"
  shows "tn_urls nodes = expected_urls a"
  using assms start_nodes_urls [of base "[0..<unat (ta_num_nodes a)]" fs]
  by (auto simp: launch_nodes_def expected_urls_def Let_def split: if_splits option.splits prod.splits sum.splits)

lemma testnet_launch_urls:
  assumes "testnet_launch X home exe_dir crate_assets ok_key a fs w = Some (Launched nodes, fs', w')"
    and "unat (ta_num_nodes a) \<le> 2 ^ 16"
  shows "tn_urls nodes = expected_urls a"
proof -
  obtain base namespace fs1 w1 where launch: "launch_nodes X a base namespace fs1 w1 = Some (Launched nodes, fs', w')"
    and port: "sn_base_http_port base = ta_base_http_port a"
    using assms(1) unfolding testnet_launch_def Let_def
    by (force split: option.split_asm prod.split_asm sum.split_asm if_split_asm testnet_result.split_asm)
  show ?thesis by (rule launch_nodes_urls [OF launch port assms(2)])
qed

text \<open>
  A network that starts has at least four nodes, and the addresses handed to the monitoring loop are
  those of its nodes in their order: counted up from the base port for processes, down for pods.
\<close>

lemma testnet_addresses:
  assumes "run_testnet X home exe_dir crate_assets ok_key a extra fs w = Some (MainOk nodes, fs', w')"
    and "unat (ta_num_nodes a) \<le> 2 ^ 16"
  shows "tn_urls nodes = expected_urls a \<and> 4 \<le> length (tn_urls nodes)"
proof -
  have four: "4 \<le> unat (ta_num_nodes a)"
    using assms(1) by (auto simp: run_testnet_def word_less_nat_alt split: if_splits)
  let ?a = "a\<lparr>ta_extra_args := (if extra = [] then None else Some extra)\<rparr>"
  have "testnet_launch X home exe_dir crate_assets ok_key ?a fs w = Some (Launched nodes, fs', w')"
    using assms(1) unfolding run_testnet_def by (auto split: if_splits option.splits prod.splits testnet_result.splits)
  then have "tn_urls nodes = expected_urls ?a" using testnet_launch_urls assms(2) by fastforce
  with four show ?thesis by (simp add: expected_urls_def kube_urls_def)
qed

section \<open>Artifacts\<close>

text \<open>Directories nest finitely: each weighs more than what it holds.\<close>

definition nested :: "(string \<Rightarrow> (string \<times> bool) list option) \<Rightarrow> (string \<Rightarrow> nat) \<Rightarrow> bool" where
  "nested list weight \<longleftrightarrow>
     (\<forall>d es. list d = Some es \<longrightarrow> (\<Sum>(name, is_directory)\<leftarrow>es. if is_directory then weight (path_join d name) else 0) < weight d)"

lemma scan_entries_weight:
  fixes weight :: "string \<Rightarrow> nat"
  shows "scan_entries filename d es stack = Inl stack' \<Longrightarrow>
     sum_list (map weight stack') =
     (\<Sum>(name, is_directory)\<leftarrow>es. if is_directory then weight (path_join d name) else 0) + sum_list (map weight stack)"
  by (induction filename d es stack rule: scan_entries.induct) (auto simp: ac_simps split: if_splits)

lemma artifact_search_ends:
  assumes "nested list weight"
  shows "\<exists>r. find_contract_artifact list artifacts_dir contract_name = Some r"
  unfolding find_contract_artifact_def
proof (rule repeat_until_returns [where I = "\<lambda>_. True" and m = "\<lambda>stack. sum_list (map weight stack)"])
  fix stack stack'
  assume "artifact_step list (contract_name @ ''.json'') stack = Inl stack'"
  then obtain d es rest where "stack = d # rest" "list d = Some es" "scan_entries (contract_name @ ''.json'') d es rest = Inl stack'"
    by (auto simp: artifact_step_def split: list.splits option.splits sum.splits)
  with assms scan_entries_weight [of _ d es rest stack' weight] show "True \<and> sum_list (map weight stack') < sum_list (map weight stack)"
    by (auto simp: nested_def)
qed simp

end
