(* ===== verification/Driver_Start.thy ===== *)
theory Driver_Start
  imports Driver Peers Genesis
begin

text \<open>
  The start of a node (\<open>rbft_config_from_chainspec\<close> and \<open>RbftConsensus::new\<close> of
  \<open>rbft-node/src/rbft_consensus.rs\<close>) and the timer of its loop (\<open>rbft_consensus/aligned_interval.rs\<close>).
\<close>

section \<open>Configuration\<close>

text \<open>
  The configuration in the genesis file, or the default if it is missing or cannot be read.  The
  conversions to and from JSON are library code.
\<close>

definition rbft_config_from_chainspec ::
  "('g \<Rightarrow> 'j option) \<Rightarrow> ('j \<Rightarrow> string \<Rightarrow> 'j option) \<Rightarrow> ('j \<Rightarrow> rbft_config option) \<Rightarrow> 'g \<Rightarrow> rbft_config" where
  "rbft_config_from_chainspec to_value get from_value genesis_config =
     (case to_value genesis_config of
        None \<Rightarrow> rbft_config_default
      | Some config_value \<Rightarrow>
          (case get config_value ''rbft'' of
             None \<Rightarrow> rbft_config_default
           | Some rbft_value \<Rightarrow>
               (case from_value rbft_value of
                  None \<Rightarrow> rbft_config_default
                | Some cfg \<Rightarrow> cfg)))"

definition block_default :: block where
  "block_default = \<lparr>blk_header = \<lparr>bh_proposer = 0, bh_round_number = 0, bh_commit_seals = [], bh_height = 0,
     bh_timestamp = 0, bh_validators = [], bh_digest = 0\<rparr>, blk_body = [], blk_transactions = []\<rparr>"

definition configuration_default :: configuration where
  "configuration_default = \<lparr>cfg_nodes = [], cfg_genesis_block = block_default, cfg_block_time = 10,
     cfg_round_change_config = default_round_change_config\<rparr>"

definition reconnect_config_of :: "rbft_config \<Rightarrow> reconnect_config" where
  "reconnect_config_of cfg = \<lparr>rc_max_attempts = rcf_reconnect_max_attempts cfg,
     rc_base_delay_ms = rcf_reconnect_base_delay_ms cfg, rc_max_delay_ms = rcf_reconnect_max_delay_ms cfg\<rparr>"

definition idle_timeout_of :: "rbft_config \<Rightarrow> u64 option" where
  "idle_timeout_of cfg =
     (if rcf_idle_connection_timeout_seconds cfg > 0 then Some (rcf_idle_connection_timeout_seconds cfg) else None)"

section \<open>The start\<close>

datatype start_error = StartBlockNotFound u64 | StartKeyError key_error

text \<open>
  \<^const>\<open>None\<close> is a panic: the stored block does not survive encoding and decoding, or the
  configuration of the chain has a zero epoch length.
\<close>

definition driver_new ::
  "libs \<Rightarrow> sealed_codec \<Rightarrow> 'e exec \<Rightarrow> key_lib \<Rightarrow> rbft_config \<Rightarrow> string option \<Rightarrow> u64 \<Rightarrow> 'e
   \<Rightarrow> (start_error + 'e driver) option" where
  "driver_new L S E K rbft_config validator_key now e =
     (let n = best_block E e in
      case exec_block E e n of
        None \<Rightarrow> Some (Inl (StartBlockNotFound n))
      | Some sealed \<Rightarrow>
          let body = encode_sealed S sealed in
          if decode_sealed S body = None then None
          else do {
            on_chain \<leftarrow> get_on_chain_config L (exec_provider E e) n;
            let vs = oc_selected_validators on_chain;
            let head = block_new L
                  \<lparr>bh_proposer = (case vs of [] \<Rightarrow> 0 | v # _ \<Rightarrow> v), bh_round_number = 0, bh_commit_seals = [],
                   bh_height = n, bh_timestamp = (if n = 0 then now else sb_timestamp sealed), bh_validators = vs,
                   bh_digest = sb_hash sealed\<rparr> body;
            let conf = configuration_default\<lparr>cfg_block_time := max (oc_block_interval_ms on_chain div 1000) 1,
                  cfg_round_change_config := rcf_round_change_config rbft_config, cfg_nodes := oc_all_validators on_chain\<rparr>;
            Some (case get_private_key_and_id K validator_key of
                    Inl err \<Rightarrow> Inl (StartKeyError err)
                  | Inr (private_key, ident) \<Rightarrow>
                      Inr \<lparr>dr_state = node_state_new \<lparr>bc_proposed_block = None, bc_older = [], bc_head = head\<rparr>
                             conf ident private_key now,
                           dr_exec = e, dr_cached_config = on_chain, dr_cached_config_height = n\<rparr>)
          })"

section \<open>The timer\<close>

text \<open>
  The clock counts nanoseconds since the epoch; only whole milliseconds enter the alignment, so that a
  deadline keeps the fraction of a millisecond at which it was computed.
\<close>

record aligned_interval =
  ai_deadline :: nat
  ai_interval_ms :: u64

definition next_deadline :: "u64 \<Rightarrow> nat \<Rightarrow> nat option" where
  "next_deadline interval_ms now_ns =
     map_option (\<lambda>d. now_ns + unat d * 1000000) (calculate_next_tick (now_ns div 1000000) interval_ms)"

definition aligned_interval_new :: "u64 \<Rightarrow> nat \<Rightarrow> aligned_interval option" where
  "aligned_interval_new interval_ms now_ns =
     map_option (\<lambda>t. \<lparr>ai_deadline = t, ai_interval_ms = interval_ms\<rparr>) (next_deadline interval_ms now_ns)"

text \<open>Polling: ready when the deadline has passed, and then armed again from the current time.\<close>

definition poll_tick :: "nat \<Rightarrow> aligned_interval \<Rightarrow> (bool \<times> aligned_interval) option" where
  "poll_tick now_ns a =
     (if now_ns < ai_deadline a then Some (False, a)
      else map_option (\<lambda>t. (True, a\<lparr>ai_deadline := t\<rparr>)) (next_deadline (ai_interval_ms a) now_ns))"

text \<open>The times at which a timer that is polled at given times is ready.\<close>

fun tick_times :: "nat list \<Rightarrow> aligned_interval \<Rightarrow> nat list option" where
  "tick_times [] a = Some []"
| "tick_times (t # ts) a =
     (case poll_tick t a of
        None \<Rightarrow> None
      | Some (ready, a) \<Rightarrow> map_option (\<lambda>r. if ready then t # r else r) (tick_times ts a))"

end
