(* ===== verification/Start_Properties.thy ===== *)
theory Start_Properties
  imports Driver_Start Driver_Properties
begin

text \<open>
  A node from its start: what a started node sends and keeps, and when its loop ticks.
\<close>

section \<open>A started node\<close>

text \<open>No two different commits, and no two different prepares, for one height and round.\<close>

definition votes_once :: "qbft_message list \<Rightarrow> bool" where
  "votes_once ms \<longleftrightarrow>
     (\<forall>m\<in>set ms. \<forall>m'\<in>set ms. (is_commit m \<and> is_commit m' \<or> is_prepare m \<and> is_prepare m') \<and>
        msg_height m = msg_height m' \<and> msg_round m = msg_round m' \<longrightarrow> m = m')"

lemma driver_new_fresh:
  assumes "driver_new L S E K rbft_config validator_key now e = Some (Inr d)"
  shows "\<exists>head conf ident key. dr_state d = node_state_new \<lparr>bc_proposed_block = None, bc_older = [], bc_head = head\<rparr> conf ident key now
    \<and> bh_height (blk_header head) = best_block E e"
proof (cases "get_private_key_and_id K validator_key")
  case (Inl err)
  with assms show ?thesis by (auto simp: driver_new_def Let_def bind_eq_Some_conv split: option.splits if_splits)
next
  case (Inr ki)
  obtain key ident where "ki = (key, ident)" by force
  with assms Inr show ?thesis
    by (fastforce simp: driver_new_def Let_def bind_eq_Some_conv block_new_def split: option.splits if_splits)
qed

lemma proposal_inv_fresh:
  "proposal_inv (node_state_new \<lparr>bc_proposed_block = None, bc_older = [], bc_head = head\<rparr> conf ident key now)"
  by (simp add: proposal_inv_def node_state_new_def)


section \<open>The timer\<close>

definition slot_ns :: "u64 \<Rightarrow> nat" where
  "slot_ns interval_ms = unat interval_ms * 1000000"

text \<open>The deadline is in the first millisecond of the next slot.\<close>

lemma next_deadline_bounds:
  assumes "next_deadline I now_ns = Some t"
  shows "(now_ns div slot_ns I + 1) * slot_ns I \<le> t" and "t < (now_ns div slot_ns I + 1) * slot_ns I + 1000000"
    and "now_ns < t"
proof -
  let ?ms = "now_ns div 1000000" and ?I = "unat I"
  let ?next = "(?ms div ?I + 1) * ?I"
  have I: "0 < ?I" using assms by (auto simp: next_deadline_def calculate_next_tick_def unat_gt_0 split: if_splits)
  have "?next = ?ms - ?ms mod ?I + ?I" by (simp add: minus_mod_eq_div_mult)
  then have between: "?ms < ?next" "?next - ?ms \<le> ?I"
    using I mod_less_divisor [OF I, of ?ms] mod_less_eq_dividend [of ?ms ?I] by linarith+
  moreover have "?I < 2 ^ 64" by (rule order_less_le_trans [OF unsigned_less]) simp
  ultimately have "?next - ?ms < 2 ^ 64" by linarith
  then have "unat (word_of_nat (?next - ?ms) :: u64) = ?next - ?ms" by (simp add: unat_of_nat)
  then have "t = now_ns + (?next - ?ms) * 1000000"
    using assms I by (auto simp: next_deadline_def calculate_next_tick_def Let_def unat_gt_0 split: if_splits)
  moreover have "(?next - ?ms) * 1000000 + ?ms * 1000000 = ?next * 1000000"
    unfolding add_mult_distrib [symmetric] using between(1) by (simp only: le_add_diff_inverse2 [OF less_imp_le])
  ultimately have t: "t = ?next * 1000000 + now_ns mod 1000000"
    using div_mult_mod_eq [of now_ns 1000000] by linarith
  have "(now_ns div slot_ns I + 1) * slot_ns I = ?next * 1000000"
    by (simp only: slot_ns_def mult.assoc [symmetric] mult.commute [of ?I 1000000] div_mult2_eq)
  with t show "(now_ns div slot_ns I + 1) * slot_ns I \<le> t" "t < (now_ns div slot_ns I + 1) * slot_ns I + 1000000" by simp_all
  show "now_ns < t"
    using between(1) \<open>t = now_ns + (?next - ?ms) * 1000000\<close> by simp
qed

lemma later_slot:
  assumes "next_deadline I now_ns = Some t" and "t \<le> u"
  shows "now_ns div slot_ns I < u div slot_ns I"
proof -
  have "0 < slot_ns I" using assms(1)
    by (auto simp: next_deadline_def calculate_next_tick_def slot_ns_def unat_gt_0 split: if_splits)
  then show ?thesis using next_deadline_bounds(1) [OF assms(1)] assms(2)
    by (metis Suc_eq_plus1 less_eq_Suc_le le_trans less_eq_div_iff_mult_less_eq)
qed

lemma tick_times_slots:
  assumes "tick_times ts a = Some r" and "next_deadline (ai_interval_ms a) t0 = Some t1" and "t1 \<le> ai_deadline a"
  shows "sorted_wrt (<) (map (\<lambda>t. t div slot_ns (ai_interval_ms a)) (t0 # r))"
  using assms
proof (induction ts arbitrary: a t0 t1 r)
  case Nil
  then show ?case by simp
next
  case (Cons t ts)
  obtain ready a' rest where poll: "poll_tick t a = Some (ready, a')" and rest: "tick_times ts a' = Some rest"
    and r: "r = (if ready then t # rest else rest)"
    using Cons.prems(1) by (auto split: option.splits prod.splits)
  show ?case
  proof (cases ready)
    case False
    with poll have "a' = a" by (auto simp: poll_tick_def split: if_splits)
    with Cons.IH [OF rest] Cons.prems(2,3) r False show ?thesis by simp
  next
    case True
    with poll obtain t2 where "ai_deadline a \<le> t" and t2: "next_deadline (ai_interval_ms a) t = Some t2"
      "a' = a\<lparr>ai_deadline := t2\<rparr>" by (auto simp: poll_tick_def split: if_splits)
    with later_slot [OF Cons.prems(2), of t] Cons.prems(3) Cons.IH [OF rest, of t t2] r True show ?thesis
      by (auto intro: less_trans)
  qed
qed

text \<open>
  A timer never fires twice in one interval of the clock, nor in the one in which it was made, however
  often and however late it is polled.
\<close>

lemma one_tick_per_slot:
  assumes "aligned_interval_new I now_ns = Some a" and "tick_times ts a = Some r"
  shows "sorted_wrt (<) (map (\<lambda>t. t div slot_ns I) (now_ns # r))"
  using tick_times_slots [OF assms(2)] assms(1) by (auto simp: aligned_interval_new_def)

text \<open>It never panics, and a poll after the first millisecond of a new interval finds it ready.\<close>

lemma tick_times_total: "ai_interval_ms a \<noteq> 0 \<Longrightarrow> \<exists>r. tick_times ts a = Some r"
proof (induction ts arbitrary: a)
  case (Cons t ts)
  then show ?case by (auto simp: poll_tick_def next_deadline_def calculate_next_tick_def Let_def)
qed simp

lemma tick_in_next_slot:
  assumes "aligned_interval_new I now_ns = Some a" and "(now_ns div slot_ns I + 1) * slot_ns I + 1000000 \<le> t"
  shows "\<exists>a'. poll_tick t a = Some (True, a')"
proof -
  from assms(1) have "next_deadline I now_ns = Some (ai_deadline a)" "ai_interval_ms a = I" "I \<noteq> 0"
    by (auto simp: aligned_interval_new_def next_deadline_def calculate_next_tick_def split: if_splits)
  with next_deadline_bounds(2) [of I now_ns "ai_deadline a"] assms(2) show ?thesis
    by (auto simp: poll_tick_def next_deadline_def calculate_next_tick_def Let_def)
qed

section \<open>An example\<close>

text \<open>A network of one validator that starts at the genesis block and proposes in its first iteration.\<close>

definition start_codec :: sealed_codec where
  "start_codec = \<lparr>encode_sealed = (\<lambda>b. [ucast (sb_number b)]),
     decode_sealed = (\<lambda>bs. case bs of [] \<Rightarrow> None
        | n # r \<Rightarrow> Some (\<lparr>sb_number = ucast n, sb_timestamp = 0, sb_beneficiary = 1, sb_hash = 9\<rparr>, r))\<rparr>"

definition start_keys :: key_lib where
  "start_keys = \<lparr>kl_read = Inr, kl_hex = (\<lambda>s. Some (replicate 31 0 @ [1])), kl_address = (\<lambda>_. Some 1)\<rparr>"

definition start_driver :: "sealed_block list driver" where
  "start_driver = \<lparr>dr_state = node_state_new \<lparr>bc_proposed_block = None, bc_older = [], bc_head = block_new example_libs
       \<lparr>bh_proposer = 1, bh_round_number = 0, bh_commit_seals = [], bh_height = 0, bh_timestamp = 0, bh_validators = [1],
        bh_digest = 8\<rparr> [0]\<rparr>
     \<lparr>cfg_nodes = [1], cfg_genesis_block = block_default, cfg_block_time = 1, cfg_round_change_config = default_round_change_config\<rparr>
     1 (Some 1) 0, dr_exec = [ex_sealed_genesis], dr_cached_config = ex_on_chain, dr_cached_config_height = 0\<rparr>"

lemma start_succeeds: "driver_new example_libs start_codec ex_exec start_keys rbft_config_default (Some ''key'') 0 [ex_sealed_genesis] = Some (Inr start_driver)"
  by (simp add: driver_new_def best_block_def ex_exec_def ex_config_read start_codec_def start_keys_def get_private_key_and_id_def
      ex_on_chain_def Let_def start_driver_def configuration_default_def rbft_config_default_def b256_from_def
      ex_sealed_genesis_def numeral_eq_Suc block_new_def)

definition start_block :: block where
  "start_block = block_new example_libs \<lparr>bh_proposer = 1, bh_round_number = 0, bh_commit_seals = [], bh_height = 1, bh_timestamp = 0,
     bh_validators = [1], bh_digest = 0\<rparr> [1]"

lemma start_installs:
  "install_proposed_block example_libs start_codec ex_exec ex_on_chain 1 1 (dr_state start_driver, [ex_sealed_genesis]) =
    Some (True, set_blockchain (set_proposed_block (Some start_block) (ns_blockchain (dr_state start_driver))) (dr_state start_driver), [ex_sealed_genesis])"
  by (simp add: install_proposed_block_def get_proposed_block_def start_driver_def node_state_new_def ex_on_chain_def estimate_timestamp_ms_def
     timestamp_secs_def blocks_def proposed_height_def Let_def best_block_def ex_exec_def ex_provider_def start_codec_def block_new_def start_block_def)

definition start_state :: node_state where
  "start_state = set_blockchain (set_proposed_block (Some start_block) (ns_blockchain (dr_state start_driver))) (dr_state start_driver)"

lemmas start_defs = start_state_def start_driver_def node_state_new_def set_blockchain_def set_proposed_block_def start_block_def

lemma start_receives: "add_messages example_libs [] 1 start_state = Some (start_state\<lparr>ns_local_time := 1\<rparr>)"
  by (simp add: store_defs start_defs prune_def blocks_def MAX_BLOCKS_def)

lemma start_ticks:
  "\<exists>p q st'. node_next example_libs 1 (start_state\<lparr>ns_local_time := 1\<rparr>) = Some (multicast [1] (Proposal p) @ multicast [1] (Prepare q), st') \<and> ns_height st' = 1"
  by (simp add: step_defs chain_defs lib_defs start_defs block_new_def example_libs_def)

lemma start_steps:
  "\<exists>sent st'. step_state_machine example_libs 1 [] start_state = Some (sent, st') \<and> length sent = 2 \<and> ns_height st' = 1"
proof -
  obtain p q st' where tick: "node_next example_libs 1 (start_state\<lparr>ns_local_time := 1\<rparr>) =
      Some (multicast [1] (Proposal p) @ multicast [1] (Prepare q), st')" and h: "ns_height st' = 1" using start_ticks by blast
  have "ns_blockchain (fold push_message ms' s) = ns_blockchain s" for ms' s
    by (induction ms' arbitrary: s) simp_all
  with h show ?thesis by (simp add: step_state_machine_def start_receives tick multicast_def)
qed

lemma start_parts:
  "dr_exec start_driver = [ex_sealed_genesis]" "dr_cached_config_height start_driver = 0" "dr_cached_config start_driver = ex_on_chain"
  "ns_height (dr_state start_driver) = 1" "ns_round (dr_state start_driver) = 0"
  "best_block ex_exec [ex_sealed_genesis] = 0"
  "exec_provider ex_exec [ex_sealed_genesis] = ex_provider"
  by (simp_all add: start_driver_def node_state_new_def block_new_def height_def best_block_def ex_exec_def)

lemma start_run:
  "\<exists>sent d. driver_run example_libs ex_raw start_codec ex_exec (\<lambda>_. True) None start_driver sent d \<and> length sent = 2"
proof -
  obtain sent st' where step: "step_state_machine example_libs 1 [] start_state = Some (sent, st')"
    and sent: "length sent = 2" "ns_height st' = 1" using start_steps by blast
  have "refresh_config example_libs ex_exec 1 start_driver = Some (start_driver\<lparr>dr_cached_config := ex_on_chain, dr_cached_config_height := 1\<rparr>)"
    by (simp add: refresh_config_def start_parts ex_config_read saturating_sub_def)
  then have "advance example_libs ex_raw start_codec ex_exec (\<lambda>_. True) None 1 1 [] start_driver =
      Some (sent, start_driver\<lparr>dr_cached_config := ex_on_chain, dr_cached_config_height := 1, dr_state := st', dr_exec := [ex_sealed_genesis]\<rparr>)"
    using step sent(2) start_installs
    by (simp add: advance_def start_parts consensus_messages_def block_requests_def block_responses_def highest_newblock_def
        catch_up_request_def advance_enabled_def apply_responses_def vec_max_def start_state_def Let_def)
  from driver_run.driver_advance [OF driver_run.driver_start this] sent show ?thesis
    by (fastforce simp: block_responses_def in_sync_def start_parts)
qed


end
