(* ===== verification/Node_Main.thy ===== *)
theory Node_Main
  imports Driver Peers
begin

text \<open>
  Around the consensus engine of a node: the rules for headers and payload attributes
  (\<open>rbft_consensus/consensus_builder.rs\<close>, \<open>payload_validator.rs\<close>), the health of a node
  (\<open>metrics.rs\<close>), and the refresh of trusted peers (\<open>main.rs\<close>), all of \<open>rbft-node/src\<close>.
\<close>

section \<open>Headers and payload attributes\<close>

datatype consensus_error = TimestampIsInPast u64 u64 | OtherRule string

definition custom_validate_against_parent_timestamp :: "u64 \<Rightarrow> u64 \<Rightarrow> consensus_error option" where
  "custom_validate_against_parent_timestamp timestamp parent_timestamp =
     (if timestamp < parent_timestamp then Some (TimestampIsInPast parent_timestamp timestamp) else None)"

text \<open>The rules of Ethereum that are called one after the other; each gives an error or none.\<close>

record 'h header_rules =
  hr_timestamp :: "'h \<Rightarrow> u64"
  hr_hash_number :: "'h \<Rightarrow> 'h \<Rightarrow> consensus_error option"
  hr_gas_limit :: "'h \<Rightarrow> 'h \<Rightarrow> consensus_error option"
  hr_base_fee :: "'h \<Rightarrow> 'h \<Rightarrow> consensus_error option"
  hr_blob_params_at :: "u64 \<Rightarrow> bool"
  hr_blob_gas :: "'h \<Rightarrow> 'h \<Rightarrow> consensus_error option"

definition validate_header_against_parent :: "'h header_rules \<Rightarrow> 'h \<Rightarrow> 'h \<Rightarrow> consensus_error option" where
  "validate_header_against_parent R header parent =
     (case hr_hash_number R header parent of
        Some e \<Rightarrow> Some e
      | None \<Rightarrow>
          (case custom_validate_against_parent_timestamp (hr_timestamp R header) (hr_timestamp R parent) of
             Some e \<Rightarrow> Some e
           | None \<Rightarrow>
               (case hr_gas_limit R header parent of
                  Some e \<Rightarrow> Some e
                | None \<Rightarrow>
                    (case hr_base_fee R header parent of
                       Some e \<Rightarrow> Some e
                     | None \<Rightarrow>
                         if hr_blob_params_at R (hr_timestamp R header) then hr_blob_gas R header parent else None))))"

definition validate_payload_attributes_against_header :: "payload_attributes \<Rightarrow> u64 \<Rightarrow> bool" where
  "validate_payload_attributes_against_header attr header_timestamp \<longleftrightarrow> \<not> pa_timestamp attr < header_timestamp"

text \<open>A well-formed payload is one the inner validator accepts and whose senders can be recovered.\<close>

definition ensure_well_formed_payload :: "('d \<Rightarrow> 'e + 's) \<Rightarrow> ('s \<Rightarrow> 'r option) \<Rightarrow> 'd \<Rightarrow> 'e option + 'r" where
  "ensure_well_formed_payload inner recover payload =
     (case inner payload of
        Inl e \<Rightarrow> Inl (Some e)
      | Inr sealed \<Rightarrow> (case recover sealed of None \<Rightarrow> Inl None | Some r \<Rightarrow> Inr r))"

section \<open>Health\<close>

text \<open>The gauges are signed 64-bit values.\<close>

record qbft_metrics =
  qm_block_height :: "64 word"
  qm_round :: "64 word"
  qm_is_proposer :: "64 word"
  qm_last_block_height :: u64
  qm_last_block_at_ms :: u64
  qm_expected_block_interval_ms :: u64

definition metrics_new :: "u64 \<Rightarrow> qbft_metrics" where
  "metrics_new now = \<lparr>qm_block_height = 0, qm_round = 0, qm_is_proposer = 0, qm_last_block_height = 0,
     qm_last_block_at_ms = now, qm_expected_block_interval_ms = 1000\<rparr>"

definition record_consensus_state :: "u64 \<Rightarrow> u64 \<Rightarrow> u64 \<Rightarrow> bool \<Rightarrow> qbft_metrics \<Rightarrow> qbft_metrics" where
  "record_consensus_state now new_height round_number is_proposer m =
     (let previous_height = qm_last_block_height m;
          m = m\<lparr>qm_last_block_height := new_height\<rparr>;
          m = (if new_height > previous_height then m\<lparr>qm_last_block_at_ms := now\<rparr> else m)
      in m\<lparr>qm_block_height := new_height, qm_round := round_number, qm_is_proposer := (if is_proposer then 1 else 0)\<rparr>)"

definition saturating_mul :: "u64 \<Rightarrow> u64 \<Rightarrow> u64" where
  "saturating_mul a b = (if unat a * unat b < 2 ^ 64 then a * b else - 1)"

definition stall_threshold_ms :: "qbft_metrics \<Rightarrow> u64" where
  "stall_threshold_ms m = max (saturating_mul (max (qm_expected_block_interval_ms m) 1) 5) 30000"

record health_status =
  hs_status :: string
  hs_block_height :: u64
  hs_round :: u64
  hs_is_proposer :: bool
  hs_last_block_timestamp_ms :: u64
  hs_millis_since_last_block :: u64
  hs_expected_block_interval_ms :: u64
  hs_stall_threshold_ms :: u64

definition health_status_of :: "u64 \<Rightarrow> qbft_metrics \<Rightarrow> health_status" where
  "health_status_of now m =
     (let since = saturating_sub now (qm_last_block_at_ms m) in
      \<lparr>hs_status = (if since > stall_threshold_ms m then ''stalled'' else ''ok''),
       hs_block_height = qm_block_height m, hs_round = qm_round m, hs_is_proposer = (qm_is_proposer m = 1),
       hs_last_block_timestamp_ms = qm_last_block_at_ms m, hs_millis_since_last_block = since,
       hs_expected_block_interval_ms = qm_expected_block_interval_ms m, hs_stall_threshold_ms = stall_threshold_ms m\<rparr>)"

definition health_code :: "u64 \<Rightarrow> qbft_metrics \<Rightarrow> nat" where
  "health_code now m = (if hs_status (health_status_of now m) = ''ok'' then 200 else 503)"

text \<open>\<^const>\<open>None\<close> is the overflow of 16 bits.\<close>

definition metrics_port :: "16 word \<Rightarrow> 16 word option" where
  "metrics_port http_port =
     (let offset = (if http_port \<ge> 8545 then http_port - 8545 else 0) in
      if 9000 + unat offset < 2 ^ 16 then Some (9000 + offset) else None)"

section \<open>Trusted peers\<close>

datatype network_command =
    DisconnectPeer peer_id
  | AddTrustedPeer peer_id socket_addr socket_addr
  | ConnectPeer peer_id socket_addr socket_addr

definition tcp_addr_of :: "node_record \<Rightarrow> socket_addr" where
  "tcp_addr_of n = \<lparr>sa_ip = nr_address n, sa_port = nr_tcp_port n\<rparr>"

definition udp_addr_of :: "node_record \<Rightarrow> socket_addr" where
  "udp_addr_of n = \<lparr>sa_ip = nr_address n, sa_port = nr_udp_port n\<rparr>"

text \<open>
  One peer: what it resolves to (\<^const>\<open>None\<close> on failure) and the address of its session, if there is one.
\<close>

definition refresh_peer ::
  "peer_id \<Rightarrow> (peer_id \<Rightarrow> node_record option) \<Rightarrow> (peer_id \<Rightarrow> socket_addr option) \<Rightarrow> peer_id \<Rightarrow> (peer_id \<rightharpoonup> socket_addr)
   \<Rightarrow> network_command list \<times> (peer_id \<rightharpoonup> socket_addr)" where
  "refresh_peer local resolve session peer last_resolved =
     (if peer = local then ([], last_resolved)
      else case resolve peer of
          None \<Rightarrow> ([], last_resolved)
        | Some n \<Rightarrow>
            let tcp = tcp_addr_of n; udp = udp_addr_of n; previous = last_resolved peer;
                connected_to_same_addr = (session peer = Some tcp)
            in ((if previous \<noteq> Some tcp then [DisconnectPeer peer] else []) @ [AddTrustedPeer peer tcp udp] @
                (if previous \<noteq> Some tcp \<or> \<not> connected_to_same_addr then [ConnectPeer peer tcp udp] else []),
                last_resolved(peer \<mapsto> tcp)))"

fun refresh_tick ::
  "peer_id \<Rightarrow> (peer_id \<Rightarrow> node_record option) \<Rightarrow> (peer_id \<Rightarrow> socket_addr option) \<Rightarrow> peer_id list \<Rightarrow> (peer_id \<rightharpoonup> socket_addr)
   \<Rightarrow> network_command list \<times> (peer_id \<rightharpoonup> socket_addr)" where
  "refresh_tick local resolve session [] last_resolved = ([], last_resolved)"
| "refresh_tick local resolve session (peer # peers) last_resolved =
     (case refresh_peer local resolve session peer last_resolved of (cs, last_resolved) \<Rightarrow>
      case refresh_tick local resolve session peers last_resolved of (cs', last_resolved) \<Rightarrow> (cs @ cs', last_resolved))"

text \<open>
  The task: it first disconnects the node from itself, then looks at all peers on every tick.  Without
  peers or with a zero interval it is not started.
\<close>

fun refresh_ticks ::
  "peer_id \<Rightarrow> peer_id list \<Rightarrow> ((peer_id \<Rightarrow> node_record option) \<times> (peer_id \<Rightarrow> socket_addr option)) list \<Rightarrow> (peer_id \<rightharpoonup> socket_addr)
   \<Rightarrow> network_command list \<times> (peer_id \<rightharpoonup> socket_addr)" where
  "refresh_ticks local peers [] last_resolved = ([], last_resolved)"
| "refresh_ticks local peers ((resolve, session) # ticks) last_resolved =
     (case refresh_tick local resolve session peers last_resolved of (cs, last_resolved) \<Rightarrow>
      case refresh_ticks local peers ticks last_resolved of (cs', last_resolved) \<Rightarrow> (cs @ cs', last_resolved))"

definition spawn_trusted_peer_refresh ::
  "peer_id \<Rightarrow> peer_id list \<Rightarrow> u64 \<Rightarrow> ((peer_id \<Rightarrow> node_record option) \<times> (peer_id \<Rightarrow> socket_addr option)) list \<Rightarrow> network_command list" where
  "spawn_trusted_peer_refresh local peers interval_secs ticks =
     (if peers = [] \<or> interval_secs = 0 then []
      else DisconnectPeer local # fst (refresh_ticks local peers ticks Map.empty))"

section \<open>Timestamps\<close>

text \<open>The attributes of \<open>get_proposed_block\<close> are accepted: the next block is not before its parent.\<close>

lemma built_attributes_accepted:
  assumes "estimate_timestamp_ms bc interval + unat interval < 2 ^ 64 * 1000"
    and "pa_timestamp attr = word_of_nat ((estimate_timestamp_ms bc interval + unat interval) div 1000)"
  shows "validate_payload_attributes_against_header attr (timestamp_secs bc)"
    and "custom_validate_against_parent_timestamp (pa_timestamp attr) (timestamp_secs bc) = None"
proof -
  let ?next = "(estimate_timestamp_ms bc interval + unat interval) div 1000"
  have "unat (timestamp_secs bc) * 1000 \<le> estimate_timestamp_ms bc interval"
    by (simp add: estimate_timestamp_ms_def Let_def)
  then have "unat (timestamp_secs bc) \<le> ?next" by simp
  moreover have "?next < 2 ^ 64" using assms(1) by (simp add: div_less_iff_less_mult)
  then have "unat (word_of_nat ?next :: u64) = ?next" by (simp add: unat_of_nat)
  ultimately have "\<not> pa_timestamp attr < timestamp_secs bc" using assms(2) by (simp add: word_less_nat_alt)
  then show "validate_payload_attributes_against_header attr (timestamp_secs bc)"
    and "custom_validate_against_parent_timestamp (pa_timestamp attr) (timestamp_secs bc) = None"
    by (simp_all add: validate_payload_attributes_against_header_def custom_validate_against_parent_timestamp_def)
qed

section \<open>Health over time\<close>

text \<open>
  What was recorded: time, height, round and role.  The node is stalled when the height has not risen for
  more than thirty seconds, whatever the block interval, as the expected interval is never set.
\<close>

definition recorded :: "(u64 \<times> u64 \<times> u64 \<times> bool) list \<Rightarrow> qbft_metrics \<Rightarrow> qbft_metrics" where
  "recorded rs m = fold (\<lambda>(now, h, r, p). record_consensus_state now h r p) rs m"

lemma recorded_interval: "qm_expected_block_interval_ms (recorded rs m) = qm_expected_block_interval_ms m"
  by (induction rs arbitrary: m) (auto simp: recorded_def record_consensus_state_def Let_def)

lemma recorded_same_height:
  "\<forall>(now, h, r, p) \<in> set rs. h = qm_last_block_height m \<Longrightarrow> qm_last_block_at_ms (recorded rs m) = qm_last_block_at_ms m"
  by (induction rs arbitrary: m) (auto simp: recorded_def record_consensus_state_def Let_def)

lemma stalled_after_thirty_seconds:
  assumes "h > qm_last_block_height (recorded rs (metrics_new t0))" and "\<forall>(now, h', r, p) \<in> set later. h' = h"
  shows "health_code now (recorded (rs @ (t, h, r, p) # later) (metrics_new t0)) = 503 \<longleftrightarrow> saturating_sub now t > 30000"
proof -
  let ?m = "recorded rs (metrics_new t0)" and ?n = "recorded (rs @ (t, h, r, p) # later) (metrics_new t0)"
  have "?n = recorded later (record_consensus_state t h r p ?m)" by (simp add: recorded_def)
  moreover have "qm_last_block_at_ms (record_consensus_state t h r p ?m) = t" "qm_last_block_height (record_consensus_state t h r p ?m) = h"
    using assms(1) by (simp_all add: record_consensus_state_def Let_def)
  ultimately have "qm_last_block_at_ms ?n = t"
    using recorded_same_height [of later "record_consensus_state t h r p ?m"] assms(2) by fastforce
  moreover have "qm_expected_block_interval_ms ?n = 1000" by (simp add: recorded_interval metrics_new_def)
  then have "stall_threshold_ms ?n = 30000" by (simp add: stall_threshold_ms_def saturating_mul_def max_def)
  ultimately show ?thesis by (simp add: health_code_def health_status_of_def Let_def)
qed

section \<open>Refreshing\<close>

fun command_peer :: "network_command \<Rightarrow> peer_id" where
  "command_peer (DisconnectPeer p) = p"
| "command_peer (AddTrustedPeer p _ _) = p"
| "command_peer (ConnectPeer p _ _) = p"

text \<open>Only trusted peers are dialled, and never the node itself.\<close>

lemma refresh_peer_peer:
  "refresh_peer local resolve session peer last_resolved = (cs, last_resolved') \<Longrightarrow> c \<in> set cs \<Longrightarrow>
     command_peer c = peer \<and> peer \<noteq> local"
  by (auto simp: refresh_peer_def Let_def split: if_splits option.splits)

lemma refresh_tick_peers:
  "refresh_tick local resolve session peers last_resolved = (cs, last_resolved') \<Longrightarrow> c \<in> set cs \<Longrightarrow>
     command_peer c \<in> set peers \<and> command_peer c \<noteq> local"
proof (induction peers arbitrary: last_resolved cs last_resolved')
  case (Cons peer peers)
  obtain cs1 l1 where one: "refresh_peer local resolve session peer last_resolved = (cs1, l1)" by force
  obtain cs2 l2 where rest: "refresh_tick local resolve session peers l1 = (cs2, l2)" by force
  from one rest Cons.prems have "c \<in> set cs1 \<or> c \<in> set cs2" by auto
  with refresh_peer_peer [OF one] Cons.IH [OF rest] show ?case by auto
qed simp

text \<open>Once all addresses are known and stay the same, sessions to them are left alone.\<close>

lemma refresh_tick_stable:
  "\<forall>peer \<in> set peers. peer \<noteq> local \<longrightarrow> (\<forall>n. resolve peer = Some n \<longrightarrow>
       last_resolved peer = Some (tcp_addr_of n) \<and> session peer = Some (tcp_addr_of n)) \<Longrightarrow>
   refresh_tick local resolve session peers last_resolved = (cs, last_resolved') \<Longrightarrow>
     last_resolved' = last_resolved \<and> (\<forall>c \<in> set cs. \<exists>p a b. c = AddTrustedPeer p a b)"
proof (induction peers arbitrary: last_resolved cs last_resolved')
  case (Cons peer peers)
  obtain cs1 l1 where one: "refresh_peer local resolve session peer last_resolved = (cs1, l1)" by force
  then have "l1 = last_resolved \<and> (\<forall>c \<in> set cs1. \<exists>p a b. c = AddTrustedPeer p a b)"
    using Cons.prems(1) by (auto simp: refresh_peer_def Let_def fun_upd_idem split: if_splits option.splits)
  with Cons one show ?case by (fastforce split: prod.splits)
qed simp

end
