(* ===== verification/Loadgen.thy ===== *)
theory Loadgen
  imports Rust_Text Abi Node_Main
begin

text \<open>
  The load generator of the node crate (\<open>rbft-node/bin/loadgen.rs\<close>).  The tasks that submit transactions
  run side by side; a task is given by the answers its attempts get, so that any order in which the
  nodes see the attempts is covered.  The pace and the printed rates, which use floating point, are left out.
\<close>

section \<open>Transactions\<close>

record loadgen_args =
  la_rpc_urls :: "string list"
  la_duration_secs :: u64
  la_target_tps :: u64
  la_gas_limit :: u64
  la_max_priority_fee :: "128 word"
  la_max_fee :: "128 word"
  la_value_wei :: u64
  la_max_backpressure_retries :: "32 word"
  la_backpressure_backoff_ms :: u64

text \<open>The counter in the last eight of twenty bytes.\<close>

definition make_target_address :: "u64 \<Rightarrow> address" where
  "make_target_address i = of_nat (be_value (replicate 12 0 @ be_bytes 8 (unat i)))"

record loadgen_tx =
  lt_to :: address
  lt_from :: address
  lt_nonce :: u64
  lt_chain_id :: u64
  lt_value :: "256 word"
  lt_gas_limit :: u64
  lt_max_priority_fee :: "128 word"
  lt_max_fee :: "128 word"

text \<open>The node and the transaction of the \<open>i\<close>-th task; the counter of nonces wraps.\<close>

definition task_tx :: "loadgen_args \<Rightarrow> address \<Rightarrow> u64 \<Rightarrow> u64 \<Rightarrow> nat \<Rightarrow> nat \<times> loadgen_tx" where
  "task_tx args from chain_id start_nonce i =
     (i mod length (la_rpc_urls args),
      \<lparr>lt_to = make_target_address (of_nat i + 1), lt_from = from, lt_nonce = start_nonce + of_nat i, lt_chain_id = chain_id,
       lt_value = ucast (la_value_wei args), lt_gas_limit = la_gas_limit args,
       lt_max_priority_fee = la_max_priority_fee args, lt_max_fee = la_max_fee args\<rparr>)"

section \<open>Submitting\<close>

definition is_backpressure :: "string \<Rightarrow> bool" where
  "is_backpressure msg \<longleftrightarrow>
     contains ''txpool is full'' msg \<or> contains ''Too many connections'' msg \<or> contains ''connection refused'' msg"

text \<open>One task: \<open>answers\<close> gives the error of each attempt, or none; the pauses are listed.\<close>

function send_task :: "(nat \<Rightarrow> string option) \<Rightarrow> nat \<Rightarrow> nat \<Rightarrow> u64 \<Rightarrow> bool \<times> u64 list" where
  "send_task answers max_retries attempts backoff_ms =
     (case answers attempts of
        None \<Rightarrow> (True, [])
      | Some msg \<Rightarrow>
          if is_backpressure msg \<and> attempts < max_retries
          then (case send_task answers max_retries (attempts + 1) (min (saturating_mul backoff_ms 2) 5000) of
                  (ok, pauses) \<Rightarrow> (ok, backoff_ms # pauses))
          else (False, []))"
  by pat_completeness auto
termination by (relation "measure (\<lambda>(_, max_retries, attempts, _). max_retries - attempts)") auto

declare send_task.simps [simp del]

datatype loadgen_error = TargetTpsZero | LoadgenRpcFailed

record loadgen_sent =
  ls_sent :: "(nat \<times> loadgen_tx) list"
  ls_success :: nat
  ls_failed :: nat

text \<open>
  What is submitted; \<^const>\<open>None\<close> is the overflow of the number of transactions.  \<open>start\<close> holds the chain id and
  the nonce the first node reported.
\<close>

definition loadgen_submit ::
  "loadgen_args \<Rightarrow> address \<Rightarrow> (u64 \<times> u64) option \<Rightarrow> (nat \<Rightarrow> nat \<Rightarrow> string option) \<Rightarrow> (loadgen_error + loadgen_sent) option" where
  "loadgen_submit args from start answers =
     (if la_target_tps args = 0 then Some (Inl TargetTpsZero)
      else case start of
          None \<Rightarrow> Some (Inl LoadgenRpcFailed)
        | Some (chain_id, start_nonce) \<Rightarrow>
            if unat (la_target_tps args) * unat (la_duration_secs args) \<ge> 2 ^ 64 then None
            else
              let tasks = [0..<unat (la_target_tps args * la_duration_secs args)];
                  results = map (\<lambda>i. fst (send_task (answers i) (unat (la_max_backpressure_retries args)) 0 (la_backpressure_backoff_ms args))) tasks
              in Some (Inr \<lparr>ls_sent = map (task_tx args from chain_id start_nonce) tasks,
                    ls_success = length (filter (\<lambda>ok. ok) results), ls_failed = length (filter (\<lambda>ok. \<not> ok) results)\<rparr>))"

section \<open>The report\<close>

text \<open>Transactions in the blocks after the start: their number and the most in one block; a block may be missing or the call fail.\<close>

fun count_included :: "(u64 \<Rightarrow> loadgen_error + nat option) \<Rightarrow> u64 list \<Rightarrow> nat \<Rightarrow> nat \<Rightarrow> loadgen_error + nat \<times> nat" where
  "count_included block [] included most = Inr (included, most)"
| "count_included block (n # ns) included most =
     (case block n of
        Inl e \<Rightarrow> Inl e
      | Inr None \<Rightarrow> count_included block ns included most
      | Inr (Some txs) \<Rightarrow> count_included block ns (included + txs) (if txs > most then txs else most))"

definition blocks_elapsed :: "u64 \<Rightarrow> u64 \<Rightarrow> u64" where
  "blocks_elapsed start_block end_block = max (saturating_sub end_block start_block) 1"

definition loadgen_report :: "(u64 \<Rightarrow> loadgen_error + nat option) \<Rightarrow> u64 \<Rightarrow> u64 \<Rightarrow> loadgen_error + nat \<times> nat" where
  "loadgen_report block start_block end_block =
     count_included block (map of_nat [unat start_block + 1..<unat end_block + 1]) 0 0"

section \<open>Properties\<close>

lemma make_target_address_value: "make_target_address i = ucast i"
proof -
  have i: "unat i < 2 ^ 64" by (rule order_less_le_trans [OF unsigned_less]) simp
  then have "replicate 12 0 @ be_bytes 8 (unat i) = be_bytes (12 + 8) (unat i)" by (subst be_bytes_zeros) simp_all
  moreover have "be_value (be_bytes (12 + 8) (unat i)) = unat i" using i by (subst be_value_exact) simp_all
  ultimately show ?thesis unfolding make_target_address_def by (metis of_nat_unat)
qed

text \<open>A task retries at most as often as allowed, and no pause is longer than five seconds or the first one.\<close>

lemma send_task_bounds:
  assumes "send_task answers max_retries attempts backoff_ms = (ok, pauses)"
  shows "length pauses \<le> max_retries - attempts \<and> (\<forall>p \<in> set pauses. p \<le> max backoff_ms 5000)"
  using assms
proof (induction answers max_retries attempts backoff_ms arbitrary: ok pauses rule: send_task.induct)
  case (1 answers max_retries attempts backoff_ms)
  show ?case
  proof (cases "\<exists>msg. answers attempts = Some msg \<and> is_backpressure msg \<and> attempts < max_retries")
    case True
    then obtain msg where msg: "answers attempts = Some msg" "is_backpressure msg \<and> attempts < max_retries" by blast
    obtain ok' rest where rest: "send_task answers max_retries (attempts + 1) (min (saturating_mul backoff_ms 2) 5000) = (ok', rest)"
      by force
    with "1.prems" msg have "pauses = backoff_ms # rest" by (subst (asm) send_task.simps) simp
    moreover have "min (saturating_mul backoff_ms 2) 5000 \<le> max backoff_ms 5000" by (simp add: min_le_iff_disj le_max_iff_disj)
    ultimately show ?thesis using "1.IH" [OF msg rest] msg(2)
      by (auto simp: le_max_iff_disj intro: order_trans)
  next
    case False
    with "1.prems" have "pauses = []" by (subst (asm) send_task.simps) (auto split: option.splits if_splits)
    then show ?thesis by simp
  qed
qed

lemma counter_inj: "inj_on (\<lambda>i. of_nat i :: u64) {0..<n}" if "n \<le> 2 ^ 64"
proof (rule inj_onI)
  fix i j :: nat
  assume "i \<in> {0..<n}" "j \<in> {0..<n}" and same: "(of_nat i :: u64) = of_nat j"
  with that have "i < 2 ^ 64" "j < 2 ^ 64" by auto
  moreover have "unat (of_nat i :: u64) = unat (of_nat j :: u64)" by (simp only: same)
  ultimately show "i = j" by (simp add: unat_of_nat)
qed

lemma address_counter_inj: "ucast (a :: u64) = (ucast b :: address) \<Longrightarrow> a = b"
proof -
  assume same: "ucast a = (ucast b :: address)"
  have "unat (ucast w :: address) = unat w" for w :: u64
  proof -
    have "unat w < 2 ^ 64" by (rule order_less_le_trans [OF unsigned_less]) simp
    then show ?thesis by (simp add: unsigned_ucast_eq take_bit_nat_eq_self_iff)
  qed
  with same show "a = b" by (metis word_unat_eq_iff)
qed

text \<open>
  Every transaction is counted once, as accepted or as failed; no two have the same nonce, and no two
  go to the same account.
\<close>

lemma loadgen_submit_complete:
  assumes "loadgen_submit args from start answers = Some (Inr s)"
  shows "ls_success s + ls_failed s = unat (la_target_tps args) * unat (la_duration_secs args)
    \<and> length (ls_sent s) = unat (la_target_tps args) * unat (la_duration_secs args)
    \<and> distinct (map (lt_nonce \<circ> snd) (ls_sent s)) \<and> distinct (map (lt_to \<circ> snd) (ls_sent s))"
proof -
  let ?n = "unat (la_target_tps args) * unat (la_duration_secs args)"
  obtain chain_id nonce where "start = Some (chain_id, nonce)" and n: "?n < 2 ^ 64"
    using assms by (auto simp: loadgen_submit_def split: if_splits option.splits prod.splits)
  moreover have total: "unat (la_target_tps args * la_duration_secs args) = ?n" using n by (simp add: unat_word_ariths)
  ultimately have sent: "ls_sent s = map (task_tx args from chain_id nonce) [0..<?n]"
    and counts: "ls_success s + ls_failed s = ?n"
    using assms by (auto simp: loadgen_submit_def Let_def comp_def sum_length_filter_compl split: if_splits)
  note inj = inj_onD [OF counter_inj [OF less_imp_le [OF n]]]
  have "distinct (map (lt_nonce \<circ> snd) (ls_sent s))" "distinct (map (lt_to \<circ> snd) (ls_sent s))"
    unfolding sent
    by (auto simp: distinct_map inj_on_def task_tx_def make_target_address_value dest!: address_counter_inj inj)
  with sent counts show ?thesis by simp
qed

text \<open>The report counts every transaction of the blocks that were found.\<close>

lemma count_included_sum:
  "count_included block ns included most = Inr (t, m) \<Longrightarrow>
     t = included + (\<Sum>n\<leftarrow>ns. case block n of Inr (Some txs) \<Rightarrow> txs | _ \<Rightarrow> 0)"
  by (induction block ns included most rule: count_included.induct) (auto split: sum.splits option.splits)

end
