(* ===== verification/Spec2Isabelle.thy ===== *)
theory Spec2Isabelle
  imports
    Codec_Properties
    Store_Properties
    Safety_Properties
    Node_Properties
    Round_Properties
    Justification_Properties
    Driver_Properties
    Network_Properties
    Logjam_Properties
    Log_Properties
    Inspector_Properties
    Automation_Properties
    Peers_Properties
    Contract_Properties
    Enodes_Properties
    Genesis_Properties
    Lifecycle_Properties
    Testnet_Properties
    Megatx_Properties
    Inspector_Rpc_Properties
    Deploy_Properties
    Start_Properties
    Loadgen
begin

text \<open>
  A verification of the RBFT repository: the QBFT state machine of \<open>src/crates/rbft/src\<close>, a Rust
  translation of the Dafny specification of QBFT; the node around it in \<open>src/crates/rbft-node/src\<close>; the
  operator tool \<open>src/crates/rbft-utils\<close>; the terminal inspector
  \<open>src/crates/rbft-validator-inspector\<close>; and the load generators \<open>src/crates/rbft-megatx\<close> and
  \<open>src/crates/rbft-node/bin/loadgen.rs\<close>.

  \<^bold>\<open>The program.\<close>  A validator keeps a \<open>NodeState\<close>: the tail of its chain, the round it
  is in, a store of received messages, the proposal it accepted in this round, the block it
  last prepared, and timers.  The driver (\<open>rbft-node/src/rbft_consensus.rs\<close>) hands
  it batches of messages (\<open>add_messages\<close>), ticks it (\<open>node_next\<close>), sends what it returns
  to the peers and pushes it back into the own store; it also answers and applies block
  requests, checks the payload of proposals, builds blocks and hands decided ones to the
  execution layer (reth).  A tick tries the handlers of
  \<open>node.rs\<close> in order (new block, block timeout, proposal, prepare, commit, round change,
  round timeout) and the first that applies is the transition.  Validators, block interval and enodes
  come from a contract the driver reads; the operator tool makes the genesis state with that contract,
  calls it, starts test networks as processes, containers or pods, and analyses the logs of
  their nodes.  The inspector polls nodes over RPC and starts and stops them; the load generators send
  transactions.

  \<^bold>\<open>Theories of the consensus and what they model.\<close>
  \<^item> \<open>Rbft_Prelude\<close>: machine types; the standard-library operations the code calls
    (binary search, partition point, dedup, find, slices with their bounds check,
    saturating and checked arithmetic) and their characterisations; the locale
    \<open>step_invariant\<close>.  \<open>Rust_Text\<close>: the string operations of the standard library, with decimal
    numbers and their round trips.  \<open>Loops\<close>: loops that may run forever.
  \<^item> \<open>Qbft_Types\<close>: \<open>types.rs\<close>, \<open>types/signature.rs\<close>.  Structs are records, the message
    enum is a datatype, derived and hand-written orders are \<open>linorder\<close> instances.  The
    hash, the ECDSA signer and the RLP encoders are the fields of the record \<open>libs\<close>.
  \<^item> \<open>Qbft_Blockchain\<close>: \<open>types/blockchain.rs\<close>, \<open>types/configuration.rs\<close>.
  \<^item> \<open>Qbft_Codec\<close>: the hand-written RLP codecs of \<open>UnsignedRoundChange\<close> and \<open>QbftMessage\<close>.
  \<^item> \<open>Qbft_Quorum\<close>: fault bound, quorum size, proposer rotation and block hashes of
    \<open>node_auxilliary_functions.rs\<close>; the locale \<open>quorum_system\<close>.
  \<^item> \<open>Qbft_Message\<close>: \<open>types/qbft_message.rs\<close>: sort keys, authors, incoming checks.
  \<^item> \<open>Node_State\<close>: \<open>types/node_state.rs\<close>; the locale \<open>message_store\<close>.
  \<^item> \<open>Node_Aux\<close>: the rest of \<open>node_auxilliary_functions.rs\<close> (signing, vote filters,
    justification of proposals, round changes, validity of new blocks).
  \<^item> \<open>Node\<close>: \<open>node.rs\<close>, one definition per handler and the step function.
  \<^item> \<open>Node_Facts\<close>: one elimination rule per handler; later proofs use these and do not
    unfold the handlers.
  \<^item> \<open>Vote_History\<close>, \<open>Node_Run\<close>, \<open>Node_Safety\<close>: runs.  \<open>node_step\<close> is the step relation
    of one node (receive, tick, loop an own message back, install a block to propose);
    the locale \<open>single_vote\<close> derives one vote per position from a contract that
    \<open>Node_Safety\<close> discharges for prepares and for commits.
  \<^item> \<open>Node_Panic\<close>: which calls can panic, and that none does after a batch.
    \<open>Node_Summary\<close>: the one-line texts a node logs.
  \<^item> \<open>On_Chain_Config\<close>, \<open>Enodes\<close>: \<open>rbft_consensus/on_chain_config.rs\<close>: which state is read for which
    block, the defaults, the deterministic selection of validators, and the stored strings with the
    network addresses.
  \<^item> \<open>Rbft_Protocol\<close>: \<open>rbft_consensus/rbft_protocol.rs\<close>: framing, polling and dropping a
    connection.  \<open>Peers\<close>: the table of connections, reconnection tasks, sending, relaying, the audit,
    express delivery and resending, as a step relation \<open>peer_step\<close>.
  \<^item> \<open>Driver\<close>: \<open>rbft_consensus.rs\<close>: one definition per step of \<open>advance\<close> and \<open>advance\<close>
    itself, with the execution layer, its block codec and the raw RLP decoder as the records
    \<open>exec\<close>, \<open>sealed_codec\<close> and \<open>raw_rlp\<close>.  \<open>Driver_Start\<close>: \<open>RbftConsensus::new\<close>, the configuration of
    the genesis file and the timer of \<open>aligned_interval.rs\<close>.  \<open>Node_Main\<close>: the rules for headers and payload
    attributes, the health of a node, the refresh of trusted peers.
  \<^item> \<open>Driver_Facts\<close>, \<open>Driver_Run\<close>: lemmas on block synchronisation, and that an iteration
    without synchronised blocks is a run of \<open>node_step\<close>.
  \<^item> \<open>Example_Libs\<close>, \<open>Node_Example\<close>, \<open>Driver_Example\<close>: a concrete instance of \<open>libs\<close> that satisfies the
    assumed laws, a concrete node that proposes, commits, decides and times out, and a
    concrete execution layer; the examples of the theorems are evaluated on them.

  \<^bold>\<open>Theories of the tools.\<close>
  \<^item> \<open>Logjam_Parse\<close>, \<open>Logjam_Trackers\<close>, \<open>Logjam\<close>: \<open>rbft-utils/src/logjam.rs\<close>: parsing of lines, the
    trackers of messages and deliveries, merging the logs by time, the reports.  \<open>Logjam_Facts\<close> has the
    locales \<open>line_invariant\<close> and \<open>total_line_invariant\<close> for what holds after any lines.
  \<^item> \<open>Abi\<close>, \<open>Contract_Calls\<close>: the bytes of calls and results and \<open>validator_management.rs\<close>;
    \<open>Genesis\<close>: \<open>genesis.rs\<close> and \<open>types.rs\<close> of the tool.
  \<^item> \<open>Testnet\<close>, \<open>Testnet_Run\<close>: \<open>testnet.rs\<close>, from the launch through the monitoring loop to the final
    report; \<open>Docker\<close>, \<open>Kube\<close>: \<open>testnet/docker.rs\<close> and \<open>testnet/kube.rs\<close> over a computer that runs programs
    (the record \<open>shell\<close>); \<open>Utils_Main\<close>: the commands of \<open>main.rs\<close>.
  \<^item> \<open>Inspector_Forms\<close>, \<open>Inspector_State\<close>, \<open>Inspector_App\<close>, \<open>Inspector_Loop\<close>: the inputs of the
    inspector, its state, every operation on it and the handling of every event; \<open>Automation\<close>: its
    scripts; \<open>Lifecycle\<close>: \<open>commands/lifecycle.rs\<close>; \<open>Inspector_Rpc\<close>, \<open>Inspector_Launch\<close>: polling,
    launching a chain, the spam job.  \<open>Inspector_Form_Facts\<close> has the locale \<open>input_form\<close>, met by both forms,
    and \<open>Lifecycle_Properties\<close> the locale \<open>os_invariant\<close> for what no command of a task breaks.
  \<^item> \<open>Megatx\<close>: \<open>rbft-megatx/src/main.rs\<close>; \<open>Loadgen\<close>: \<open>rbft-node/bin/loadgen.rs\<close>.

  \<^bold>\<open>What is shown of the consensus.\<close>
  \<^item> \<open>Safety_Properties\<close>: a node never sends two different prepares or commits for one
    height and round, over any interleaving of its steps; two nodes that decide, or lock,
    in the same round do so on the same digest, for any set of at most \<open>f\<close> faulty
    validators; a node that committed keeps announcing its lock; height and round only
    grow; the store stays well formed.
  \<^item> \<open>Store_Properties\<close>: binary-search insertion is sorted insertion, the two index views
    are filters, stored messages passed the checks, nothing is replaced, no panic.
  \<^item> \<open>Node_Properties\<close>, \<open>Round_Properties\<close>: panic freedom of an iteration; the functional
    behaviour of the transitions; messages of honest nodes are accepted by honest nodes
    (votes, a new leader's proposal, a decided block); round changes.
  \<^item> \<open>Justification_Properties\<close>: what the prepared case of a justification guarantees, and
    two places where the checks are weaker than intended: a lock on another block does not
    stop a fresh block, and the seal inside a commit is not verified on receipt.  Because
    of the first, agreement is stated within a round; across rounds the code does not
    enforce it.
  \<^item> \<open>Codec_Properties\<close>: round trips, lengths, rejected input; quorum intersection and
    availability, proposer rotation, pruning, timeouts, timestamps.
  \<^item> \<open>Driver_Properties\<close>: the driver refines the state machine and votes once; block
    responses are bounded and consecutive and bring a lagging node to the tip, but their
    headers are believed without any check.
  \<^item> \<open>Start_Properties\<close>: the same from the start of a node on, whatever chain it finds; its timer fires at
    most once in an interval of the clock.
  \<^item> \<open>Network_Properties\<close>: proposals handed on have matching payloads, built blocks pass
    the checks, a rejected block restarts the height, the validator set is a selection of
    the contract's and constant in an epoch, frames are delivered, a connection reports its
    end once.
  \<^item> \<open>Peers_Properties\<close>, \<open>Enodes_Properties\<close>: one reconnection task and one connection per peer under
    every interleaving, outgoing messages reach all connections in order; stored addresses are read back,
    and one that cannot be read shifts the others.

  \<^bold>\<open>What is shown of the tools.\<close>
  \<^item> \<open>Logjam_Properties\<close>, \<open>Logjam_Reports\<close>, \<open>Log_Properties\<close>: the order of the merged lines, when the
    analyser panics, that its counts add up and each missing message is reported once, and that it
    does not recognise what the driver writes.
  \<^item> \<open>Contract_Properties\<close>, \<open>Genesis_Properties\<close>: the initialisation of the contract and the file of nodes are read back
    as written, the genesis state holds what was generated, and which values the status command
    shows.
  \<^item> \<open>Testnet_Properties\<close>, \<open>Deploy_Properties\<close>: logs are kept in order, validators are added once per height, an image
    that is reported has been pushed, the command of a pod is read as it was meant, waiting ends.
  \<^item> \<open>Inspector_Properties\<close>, \<open>Automation_Properties\<close>, \<open>Lifecycle_Properties\<close>, \<open>Inspector_Rpc_Properties\<close>: no
    event makes the inspector panic and its selection stays in range, forms submit only valid
    requests, script commands are triggered on schedule, no action ends the inspector, reports
    reach their rows.
  \<^item> \<open>Megatx_Properties\<close>, \<open>Loadgen\<close>: transactions are dealt out in turn with consecutive nonces, batches are
    posted in order, preparation ends, and when the command does not; every transaction is counted once.

  \<^bold>\<open>Conventions and bounds.\<close>  \<open>u64\<close> is a 64-bit word, arithmetic wraps as in a release
  build; the step relation excludes the step that would leave round \<open>2 ^ 64 - 1\<close> and the
  block whose height would wrap to 0.  A function that may panic returns an option,
  \<^const>\<open>None\<close> for the panic; errors are the left of a sum or values of a datatype of their own.  Recursion
  terminates and no fuel is chosen by the model: counters of attempts (3 to stop a process, 30 for a
  port, 5 for funding a chunk, 20 for a forwarded port) are those of the code.  Loops without such a
  counter are \<^const>\<open>repeat_until\<close>, where \<^const>\<open>None\<close> is a loop that never ends; that they end, or do not, is proved
  (\<open>preparation_ends\<close>, \<open>wait_for_pod_ends\<close>, \<open>rejected_load_never_ends\<close>).  Signing is a function
  of key and message, as the deterministic ECDSA of the code.  The parameters of the
  round-change timeout are real numbers in place of \<open>f64\<close>.  Files are a map from paths to contents and
  writing one succeeds.  Tasks of the tools that run side by side are run one after the other, or are
  given by the answers they get.

  The laws assumed of third-party code are named predicates: \<open>signer_laws\<close>, \<open>rlp_laws\<close>,
  \<open>wire_laws\<close>, \<open>tx_laws\<close>, \<open>codec_laws\<close>, \<open>importable\<close>, \<open>payloads_valid\<close>, \<open>utf8_laws\<close>, \<open>address_laws\<close>,
  \<open>clock_laws\<close>, \<open>time_passes\<close>, \<open>registry_laws\<close>, \<open>nested\<close>; the examples show that those a property of the manifest uses can hold.

  \<^bold>\<open>Not modelled.\<close>  Drawing, log output and printed tables; the loop of \<open>run\<close> as one function that
  interleaves the operations of the driver, with the unused \<open>_reset_peer_connections\<close>; start-up of reth and
  the wiring of its traits (\<open>rbft_node.rs\<close>, \<open>validator_builder.rs\<close>), where the sources only call the library;
  command-line parsing by clap; running forge and soldeer to compile contracts and scripts; rates and
  memory sizes printed from floating-point numbers; test code.  Agreement across rounds is not stated, as the
  code does not enforce it, and agreement under synchronised blocks fails for the reason
  \<open>sync_believes_peer_header\<close> gives.
\<close>

end
